(* ===== verification/Prelude.thy ===== *)
theory Prelude
  imports Main "HOL-Library.Word" "HOL-Library.Monad_Syntax"
begin

text \<open>
  The vocabulary every component shares: the machine types of the C sources, C strings and
  the string functions of \<^verbatim>\<open><string.h>\<close> the code calls, and the generic facts about words, lists
  and the option monad that the component proofs use.

  A model function of type \<open>... option\<close> returns \<open>None\<close> exactly where the C code has no
  defined result: an access outside an object, a use of a pointer that a reallocation has
  invalidated, a NULL dereference, or a loop that never ends. A theorem that such a function
  returns \<open>Some\<close> is therefore a memory safety and termination theorem.
\<close>

unbundle bit_operations_syntax

named_theorems ghr_simps \<open>evaluation of result codes\<close>
named_theorems cstr_simps \<open>C string comparison on NUL free strings\<close>
named_theorems word_nat \<open>word arithmetic that does not wrap, read as natural numbers\<close>

type_synonym size_t = "64 word"

section \<open>Words that do not wrap\<close>

lemma unat_add_nowrap [word_nat]:
  "unat (a :: size_t) + unat b < 18446744073709551616 \<Longrightarrow> unat (a + b) = unat a + unat b"
  by (simp add: unat_add_lem [symmetric])

lemma unat_mult_nowrap [word_nat]:
  "unat (a :: size_t) * unat b < 18446744073709551616 \<Longrightarrow> unat (a * b) = unat a * unat b"
  by (simp add: unat_mult_lem [symmetric])

lemma unat_sub_nowrap [word_nat]: "(b :: size_t) \<le> a \<Longrightarrow> unat (a - b) = unat a - unat b"
  by (rule unat_sub)

lemma unat_of_nat_nowrap [word_nat]:
  "n < 18446744073709551616 \<Longrightarrow> unat (of_nat n :: size_t) = n"
  by (simp add: unat_of_nat)

lemma unat_size_bound: "unat (a :: size_t) < 18446744073709551616"
  using unsigned_less [of a] by simp

lemma size_le_unat: "(a :: size_t) \<le> b \<longleftrightarrow> unat a \<le> unat b"
  by (rule word_le_nat_alt)

lemma size_less_unat: "(a :: size_t) < b \<longleftrightarrow> unat a < unat b"
  by (rule word_less_nat_alt)

section \<open>C strings\<close>

text \<open>
  A \<^verbatim>\<open>char *\<close> to a NUL terminated string, or a \<^verbatim>\<open>char[N]\<close> array that holds one, is the list
  of the characters before the terminator; reading at the end of the list gives the terminator.
\<close>

abbreviation NUL :: char where "NUL \<equiv> CHR 0x00"

definition chd :: "string \<Rightarrow> char" where
  "chd s = (case s of [] \<Rightarrow> NUL | c # _ \<Rightarrow> c)"

lemma chd_simps [simp]: "chd [] = NUL" "chd (c # s) = c"
  by (simp_all add: chd_def)

text \<open>\<^verbatim>\<open>strncmp(a, b, n) == 0\<close>\<close>

fun strncmp_eq :: "string \<Rightarrow> string \<Rightarrow> nat \<Rightarrow> bool" where
  "strncmp_eq a b 0 = True"
| "strncmp_eq a b (Suc n) = (chd a = chd b \<and> (chd a = NUL \<or> strncmp_eq (tl a) (tl b) n))"

text \<open>\<^verbatim>\<open>strlen\<close> of a buffer that may hold bytes after the terminator, and the string it holds\<close>

definition cstr :: "string \<Rightarrow> string" where
  "cstr buf = takeWhile (\<lambda>c. c \<noteq> NUL) buf"

definition strlen :: "string \<Rightarrow> nat" where
  "strlen buf = length (cstr buf)"

text \<open>\<^verbatim>\<open>strcmp(a, b) == 0\<close>\<close>

definition strcmp_eq :: "string \<Rightarrow> string \<Rightarrow> bool" where
  "strcmp_eq a b = (cstr a = cstr b)"

text \<open>
  The string left in \<^verbatim>\<open>char dst[n]\<close> by \<^verbatim>\<open>strncpy(dst, src, n)\<close> followed by
  \<^verbatim>\<open>dst[n - 1] = 0\<close>.
\<close>

definition strncpy_term :: "nat \<Rightarrow> string \<Rightarrow> string" where
  "strncpy_term n src = take (n - 1) (cstr src)"

text \<open>\<^verbatim>\<open>printf("%d", n)\<close>\<close>

fun c_decimal :: "nat \<Rightarrow> string" where
  "c_decimal n =
     (if n < 10 then [char_of (48 + n)] else c_decimal (n div 10) @ [char_of (48 + n mod 10)])"

declare c_decimal.simps [simp del]

definition nul_free :: "string \<Rightarrow> bool" where
  "nul_free s \<longleftrightarrow> NUL \<notin> set s"

lemma nul_free_simps [simp]:
  "nul_free []"
  "nul_free (c # s) \<longleftrightarrow> c \<noteq> NUL \<and> nul_free s"
  "nul_free (s @ t) \<longleftrightarrow> nul_free s \<and> nul_free t"
  by (auto simp: nul_free_def)

lemma nul_free_take: "nul_free s \<Longrightarrow> nul_free (take n s)"
  by (auto simp: nul_free_def dest: in_set_takeD)

lemma cstr_nul_free [cstr_simps]: "nul_free s \<Longrightarrow> cstr s = s"
  by (auto simp: cstr_def nul_free_def takeWhile_eq_all_conv)

lemma nul_free_cstr [simp]: "nul_free (cstr s)"
  by (auto simp: cstr_def nul_free_def dest: set_takeWhileD)

lemma cstr_cstr [simp]: "cstr (cstr s) = cstr s"
  by (simp add: cstr_nul_free)

lemma cstr_append_NUL [simp]: "nul_free s \<Longrightarrow> cstr (s @ NUL # t) = s"
  by (induction s) (auto simp: cstr_def)

lemma strlen_nul_free [cstr_simps]: "nul_free s \<Longrightarrow> strlen s = length s"
  by (simp add: strlen_def cstr_nul_free)

lemma strncmp_eq_refl [simp]: "strncmp_eq a a n"
  by (induction n arbitrary: a) auto

lemma strncmp_eq_prefix [cstr_simps]:
  "nul_free a \<Longrightarrow> nul_free b \<Longrightarrow> length a \<le> length b \<Longrightarrow>
   strncmp_eq a b (length a) \<longleftrightarrow> take (length a) b = a"
proof (induction a arbitrary: b)
  case Nil
  then show ?case by simp
next
  case (Cons c a)
  then show ?case by (cases b) auto
qed

lemma strncmp_eq_same_length [cstr_simps]:
  "nul_free a \<Longrightarrow> nul_free b \<Longrightarrow> length a = length b \<Longrightarrow> n = length a \<Longrightarrow>
   strncmp_eq a b n \<longleftrightarrow> a = b"
  by (metis order_refl strncmp_eq_prefix take_all)

lemma strncmp_eq_whole:
  "nul_free a \<Longrightarrow> nul_free b \<Longrightarrow> length b < n \<Longrightarrow> strncmp_eq a b n \<longleftrightarrow> a = b"
proof (induction b arbitrary: a n)
  case Nil
  then show ?case by (cases n; cases a) auto
next
  case (Cons c b)
  then show ?case by (cases n; cases a) auto
qed

lemma strncmp_eq_prefix_of:
  "nul_free a \<Longrightarrow> nul_free b \<Longrightarrow> strncmp_eq a b (length b) \<longleftrightarrow> take (length b) a = b"
proof (induction b arbitrary: a)
  case Nil
  then show ?case by simp
next
  case (Cons c b)
  then show ?case by (cases a) auto
qed

section \<open>Lists updated by index\<close>

text \<open>Writing cell \<open>i\<close> of a block whose first \<open>length xs \<ge> i\<close> cells have been written.\<close>

definition cell_write :: "'a list \<Rightarrow> nat \<Rightarrow> 'a \<Rightarrow> 'a list" where
  "cell_write xs i x = take i xs @ x # drop (Suc i) xs"

definition cells_write :: "'a list \<Rightarrow> nat \<Rightarrow> 'a list \<Rightarrow> 'a list" where
  "cells_write xs i ys = take i xs @ ys @ drop (i + length ys) xs"

lemma length_cell_write: "i \<le> length xs \<Longrightarrow> length (cell_write xs i x) = max (length xs) (Suc i)"
  by (auto simp: cell_write_def)

lemma length_cells_write:
  "i \<le> length xs \<Longrightarrow> length (cells_write xs i ys) = max (length xs) (i + length ys)"
  by (auto simp: cells_write_def)

lemma take_cell_write [simp]: "i \<le> length xs \<Longrightarrow> take (Suc i) (cell_write xs i x) = take i xs @ [x]"
  by (simp add: cell_write_def)

lemma take_cells_write [simp]:
  "i \<le> length xs \<Longrightarrow> take (i + length ys) (cells_write xs i ys) = take i xs @ ys"
  by (simp add: cells_write_def)

lemma cell_write_cells: "cell_write xs i x = cells_write xs i [x]"
  by (simp add: cell_write_def cells_write_def)

section \<open>Numbers as bytes and as text\<close>

text \<open>The bytes of an integer in memory, the lowest first\<close>

fun le_bytes :: "nat \<Rightarrow> nat \<Rightarrow> string" where
  "le_bytes 0 v = []"
| "le_bytes (Suc n) v = char_of (v mod 256) # le_bytes n (v div 256)"

fun le_nat :: "string \<Rightarrow> nat" where
  "le_nat [] = 0"
| "le_nat (c # cs) = of_char c + 256 * le_nat cs"

lemma le_bytes_length [simp]: "length (le_bytes n v) = n"
  by (induction n arbitrary: v) simp_all

lemma le_nat_bytes: "le_nat (le_bytes n v) = v mod 256 ^ n"
proof (induction n arbitrary: v)
  case 0
  then show ?case by simp
next
  case (Suc n)
  have "v mod 256 + 256 * (v div 256 mod 256 ^ n) = v mod (256 * 256 ^ n)"
    by (simp add: mod_mult2_eq)
  with Suc show ?case by simp
qed

text \<open>Decimal digits and white space\<close>

definition c_digit :: "char \<Rightarrow> bool" where
  "c_digit c \<longleftrightarrow> 48 \<le> (of_char c :: nat) \<and> (of_char c :: nat) \<le> 57"

definition digits_value :: "string \<Rightarrow> nat" where
  "digits_value s = foldl (\<lambda>n c. 10 * n + (of_char c - 48)) 0 (takeWhile c_digit s)"

definition c_blank :: "char \<Rightarrow> bool" where
  "c_blank c \<longleftrightarrow> c = CHR '' '' \<or> (0x09 \<le> (of_char c :: nat) \<and> (of_char c :: nat) \<le> 0x0D)"

text \<open>
  \<^verbatim>\<open>strtoumax\<close> in base 10: blanks, a sign, digits; what follows is ignored. The second component tells
  that the number is out of range.
\<close>

definition c_strtoumax :: "string \<Rightarrow> size_t \<times> bool" where
  "c_strtoumax s =
     (let s = dropWhile c_blank (cstr s);
          negative = (chd s = CHR ''-'');
          n = digits_value (if chd s = CHR ''-'' \<or> chd s = CHR ''+'' then tl s else s) in
      if n \<ge> 18446744073709551616 then (- 1, True) else (if negative then - of_nat n else of_nat n, False))"

end
