(* ===== verification/Errors.thy ===== *)
theory Errors
  imports Prelude
begin

text \<open>
  The error enumeration \<^verbatim>\<open>gh_error\<close>: \<^verbatim>\<open>tools/enumgen.py\<close> numbers the rows of
  \<^verbatim>\<open>intermediate/gh_error.csv\<close> from 0 in the order of the file, and every enumerator is a
  \<^verbatim>\<open>gh_result\<close> without errno. The abbreviations keep the C names; they stand for the numbers, so
  that the simplifier decides equations between them.
\<close>

type_synonym gh_result = "32 word"

abbreviation (input) GHR_OK :: gh_result where "GHR_OK \<equiv> 0"
abbreviation (input) GHR_ALLOC_ALLOCFAIL :: gh_result where "GHR_ALLOC_ALLOCFAIL \<equiv> 1"
abbreviation (input) GHR_ALLOC_REALLOCFAIL :: gh_result where "GHR_ALLOC_REALLOCFAIL \<equiv> 2"
abbreviation (input) GHR_ALLOC_FREEFAIL :: gh_result where "GHR_ALLOC_FREEFAIL \<equiv> 3"
abbreviation (input) GHR_ALLOC_INVALIDOUTERPTR :: gh_result where "GHR_ALLOC_INVALIDOUTERPTR \<equiv> 4"
abbreviation (input) GHR_ALLOC_INVALIDPTR :: gh_result where "GHR_ALLOC_INVALIDPTR \<equiv> 5"
abbreviation (input) GHR_ALLOC_INVALIDSIZE :: gh_result where "GHR_ALLOC_INVALIDSIZE \<equiv> 6"
abbreviation (input) GHR_DYNAMICARRAY_MAXCAPACITY :: gh_result where "GHR_DYNAMICARRAY_MAXCAPACITY \<equiv> 7"
abbreviation (input) GHR_DYNAMICARRAY_OUTOFBOUNDS :: gh_result where "GHR_DYNAMICARRAY_OUTOFBOUNDS \<equiv> 8"
abbreviation (input) GHR_FLEXIBLELIST_INVALIDSIZETYPE :: gh_result where "GHR_FLEXIBLELIST_INVALIDSIZETYPE \<equiv> 9"
abbreviation (input) GHR_FLEXIBLELIST_NONEXT :: gh_result where "GHR_FLEXIBLELIST_NONEXT \<equiv> 10"
abbreviation (input) GHR_FLEXIBLELIST_MAXCAPACITY :: gh_result where "GHR_FLEXIBLELIST_MAXCAPACITY \<equiv> 11"
abbreviation (input) GHR_FLEXIBLELIST_NODELETEFLAG :: gh_result where "GHR_FLEXIBLELIST_NODELETEFLAG \<equiv> 12"
abbreviation (input) GHR_FLEXIBLELIST_ALREADYDELETED :: gh_result where "GHR_FLEXIBLELIST_ALREADYDELETED \<equiv> 13"
abbreviation (input) GHR_FLEXIBLELIST_APPENDDELETED :: gh_result where "GHR_FLEXIBLELIST_APPENDDELETED \<equiv> 14"
abbreviation (input) GHR_EMBEDDEDJAIL_CREATEFAIL :: gh_result where "GHR_EMBEDDEDJAIL_CREATEFAIL \<equiv> 15"
abbreviation (input) GHR_EMBEDDEDJAIL_WRITEFAIL :: gh_result where "GHR_EMBEDDEDJAIL_WRITEFAIL \<equiv> 16"
abbreviation (input) GHR_EMBEDDEDJAIL_WRITETRUNC :: gh_result where "GHR_EMBEDDEDJAIL_WRITETRUNC \<equiv> 17"
abbreviation (input) GHR_EMBEDDEDJAIL_UNAVAILABLE :: gh_result where "GHR_EMBEDDEDJAIL_UNAVAILABLE \<equiv> 18"
abbreviation (input) GHR_EMBEDDEDJAIL_EXECFAIL :: gh_result where "GHR_EMBEDDEDJAIL_EXECFAIL \<equiv> 19"
abbreviation (input) GHR_SANDBOX_OPTIONSFDCONVERTFAIL :: gh_result where "GHR_SANDBOX_OPTIONSFDCONVERTFAIL \<equiv> 20"
abbreviation (input) GHR_SANDBOX_OPTIONSREADFAIL :: gh_result where "GHR_SANDBOX_OPTIONSREADFAIL \<equiv> 21"
abbreviation (input) GHR_SANDBOX_CLEANIPCFAIL :: gh_result where "GHR_SANDBOX_CLEANIPCFAIL \<equiv> 22"
abbreviation (input) GHR_SANDBOX_KILLCHILDFAIL :: gh_result where "GHR_SANDBOX_KILLCHILDFAIL \<equiv> 23"
abbreviation (input) GHR_SANDBOX_CLOSESOCKFAIL :: gh_result where "GHR_SANDBOX_CLOSESOCKFAIL \<equiv> 24"
abbreviation (input) GHR_SANDBOX_THREADCLOSESOCKFAIL :: gh_result where "GHR_SANDBOX_THREADCLOSESOCKFAIL \<equiv> 25"
abbreviation (input) GHR_SANDBOX_EXPECTEDSUBJAILALIVE :: gh_result where "GHR_SANDBOX_EXPECTEDSUBJAILALIVE \<equiv> 26"
abbreviation (input) GHR_SANDBOX_THREADRECOVERYKILLFAIL :: gh_result where "GHR_SANDBOX_THREADRECOVERYKILLFAIL \<equiv> 27"
abbreviation (input) GHR_SANDBOX_PIDFD :: gh_result where "GHR_SANDBOX_PIDFD \<equiv> 28"
abbreviation (input) GHR_SANDBOX_PIDFDPOLL :: gh_result where "GHR_SANDBOX_PIDFDPOLL \<equiv> 29"
abbreviation (input) GHR_SANDBOX_PIDFDKILL :: gh_result where "GHR_SANDBOX_PIDFDKILL \<equiv> 30"
abbreviation (input) GHR_SANDBOX_PIDFDWAIT :: gh_result where "GHR_SANDBOX_PIDFDWAIT \<equiv> 31"
abbreviation (input) GHR_SANDBOX_KILLFAIL :: gh_result where "GHR_SANDBOX_KILLFAIL \<equiv> 32"
abbreviation (input) GHR_SANDBOX_FORCEKILL :: gh_result where "GHR_SANDBOX_FORCEKILL \<equiv> 33"
abbreviation (input) GHR_THREAD_LONGSAFEID :: gh_result where "GHR_THREAD_LONGSAFEID \<equiv> 34"
abbreviation (input) GHR_THREAD_KILLFAIL :: gh_result where "GHR_THREAD_KILLFAIL \<equiv> 35"
abbreviation (input) GHR_THREAD_UNKNOWNMESSAGE :: gh_result where "GHR_THREAD_UNKNOWNMESSAGE \<equiv> 36"
abbreviation (input) GHR_THREAD_UNEXPECTEDMESSAGE :: gh_result where "GHR_THREAD_UNEXPECTEDMESSAGE \<equiv> 37"
abbreviation (input) GHR_THREAD_LARGESTRING :: gh_result where "GHR_THREAD_LARGESTRING \<equiv> 38"
abbreviation (input) GHR_THREAD_LUAFAIL :: gh_result where "GHR_THREAD_LUAFAIL \<equiv> 39"
abbreviation (input) GHR_THREAD_FORCEKILL :: gh_result where "GHR_THREAD_FORCEKILL \<equiv> 40"
abbreviation (input) GHR_THREAD_DESTROYED :: gh_result where "GHR_THREAD_DESTROYED \<equiv> 41"
abbreviation (input) GHR_THREAD_WAITCLOCK :: gh_result where "GHR_THREAD_WAITCLOCK \<equiv> 42"
abbreviation (input) GHR_THREAD_LARGEHOSTVARNAME :: gh_result where "GHR_THREAD_LARGEHOSTVARNAME \<equiv> 43"
abbreviation (input) GHR_THREAD_LARGEHOSTVARSTRING :: gh_result where "GHR_THREAD_LARGEHOSTVARSTRING \<equiv> 44"
abbreviation (input) GHR_THREAD_CALLNAMEMAX :: gh_result where "GHR_THREAD_CALLNAMEMAX \<equiv> 45"
abbreviation (input) GHR_THREAD_CALLPARAMMAX :: gh_result where "GHR_THREAD_CALLPARAMMAX \<equiv> 46"
abbreviation (input) GHR_THREAD_CALLPARAMFAIL :: gh_result where "GHR_THREAD_CALLPARAMFAIL \<equiv> 47"
abbreviation (input) GHR_THREAD_EXPECTEDLUAINFO :: gh_result where "GHR_THREAD_EXPECTEDLUAINFO \<equiv> 48"
abbreviation (input) GHR_THREAD_TOOMANYARGS :: gh_result where "GHR_THREAD_TOOMANYARGS \<equiv> 49"
abbreviation (input) GHR_THREAD_FDMEMNULL :: gh_result where "GHR_THREAD_FDMEMNULL \<equiv> 50"
abbreviation (input) GHR_JAIL_SIGCHLD :: gh_result where "GHR_JAIL_SIGCHLD \<equiv> 51"
abbreviation (input) GHR_JAIL_OPTIONSMEMFAIL :: gh_result where "GHR_JAIL_OPTIONSMEMFAIL \<equiv> 52"
abbreviation (input) GHR_JAIL_OPTIONSWRITEFAIL :: gh_result where "GHR_JAIL_OPTIONSWRITEFAIL \<equiv> 53"
abbreviation (input) GHR_JAIL_OPTIONSSWRITETRUNC :: gh_result where "GHR_JAIL_OPTIONSSWRITETRUNC \<equiv> 54"
abbreviation (input) GHR_JAIL_OPTIONSSEEKFAIL :: gh_result where "GHR_JAIL_OPTIONSSEEKFAIL \<equiv> 55"
abbreviation (input) GHR_JAIL_NOOPTIONSFD :: gh_result where "GHR_JAIL_NOOPTIONSFD \<equiv> 56"
abbreviation (input) GHR_JAIL_OPTIONSFDPARSEFAIL :: gh_result where "GHR_JAIL_OPTIONSFDPARSEFAIL \<equiv> 57"
abbreviation (input) GHR_JAIL_NONEWPRIVSFAIL :: gh_result where "GHR_JAIL_NONEWPRIVSFAIL \<equiv> 58"
abbreviation (input) GHR_JAIL_MEMRESTRICTFAIL :: gh_result where "GHR_JAIL_MEMRESTRICTFAIL \<equiv> 59"
abbreviation (input) GHR_JAIL_SECCOMPFAIL :: gh_result where "GHR_JAIL_SECCOMPFAIL \<equiv> 60"
abbreviation (input) GHR_JAIL_WAITFAIL :: gh_result where "GHR_JAIL_WAITFAIL \<equiv> 61"
abbreviation (input) GHR_JAIL_NONZEROEXIT :: gh_result where "GHR_JAIL_NONZEROEXIT \<equiv> 62"
abbreviation (input) GHR_JAIL_KILLEDSIG :: gh_result where "GHR_JAIL_KILLEDSIG \<equiv> 63"
abbreviation (input) GHR_JAIL_UNKNOWNMESSAGE :: gh_result where "GHR_JAIL_UNKNOWNMESSAGE \<equiv> 64"
abbreviation (input) GHR_JAIL_MULTIHELLO :: gh_result where "GHR_JAIL_MULTIHELLO \<equiv> 65"
abbreviation (input) GHR_JAIL_CLOSEFDFAIL :: gh_result where "GHR_JAIL_CLOSEFDFAIL \<equiv> 66"
abbreviation (input) GHR_JAIL_KILLFAIL :: gh_result where "GHR_JAIL_KILLFAIL \<equiv> 67"
abbreviation (input) GHR_JAIL_UNSUPPORTEDMSG :: gh_result where "GHR_JAIL_UNSUPPORTEDMSG \<equiv> 68"
abbreviation (input) GHR_JAIL_NORETURN :: gh_result where "GHR_JAIL_NORETURN \<equiv> 69"
abbreviation (input) GHR_JAIL_LUAINITFAIL :: gh_result where "GHR_JAIL_LUAINITFAIL \<equiv> 70"
abbreviation (input) GHR_JAIL_LUACALLPARAM :: gh_result where "GHR_JAIL_LUACALLPARAM \<equiv> 71"
abbreviation (input) GHR_JAIL_LUACALLRETURN :: gh_result where "GHR_JAIL_LUACALLRETURN \<equiv> 72"
abbreviation (input) GHR_JAIL_LUACALLMISSING :: gh_result where "GHR_JAIL_LUACALLMISSING \<equiv> 73"
abbreviation (input) GHR_LUA_FAIL :: gh_result where "GHR_LUA_FAIL \<equiv> 74"
abbreviation (input) GHR_LUA_SYNTAX :: gh_result where "GHR_LUA_SYNTAX \<equiv> 75"
abbreviation (input) GHR_LUA_MEM :: gh_result where "GHR_LUA_MEM \<equiv> 76"
abbreviation (input) GHR_LUA_RUNTIME :: gh_result where "GHR_LUA_RUNTIME \<equiv> 77"
abbreviation (input) GHR_LUA_RECURSIVEERR :: gh_result where "GHR_LUA_RECURSIVEERR \<equiv> 78"
abbreviation (input) GHR_IPC_SOCKCREATEFAIL :: gh_result where "GHR_IPC_SOCKCREATEFAIL \<equiv> 79"
abbreviation (input) GHR_IPC_MSGNEWFAIL :: gh_result where "GHR_IPC_MSGNEWFAIL \<equiv> 80"
abbreviation (input) GHR_IPC_CLOSEFDFAIL :: gh_result where "GHR_IPC_CLOSEFDFAIL \<equiv> 81"
abbreviation (input) GHR_IPC_SENDMSGFAIL :: gh_result where "GHR_IPC_SENDMSGFAIL \<equiv> 82"
abbreviation (input) GHR_IPC_POLLMSGFAIL :: gh_result where "GHR_IPC_POLLMSGFAIL \<equiv> 83"
abbreviation (input) GHR_IPC_RECVMSGTIMEOUT :: gh_result where "GHR_IPC_RECVMSGTIMEOUT \<equiv> 84"
abbreviation (input) GHR_IPC_RECVMSGFAIL :: gh_result where "GHR_IPC_RECVMSGFAIL \<equiv> 85"
abbreviation (input) GHR_IPC_PEERSHUTDOWN :: gh_result where "GHR_IPC_PEERSHUTDOWN \<equiv> 86"
abbreviation (input) GHR_IPC_RECVMSGTRUNC :: gh_result where "GHR_IPC_RECVMSGTRUNC \<equiv> 87"
abbreviation (input) GHR_IPC_RECVTOOSMALL :: gh_result where "GHR_IPC_RECVTOOSMALL \<equiv> 88"
abbreviation (input) GHR_IPC_NOCONTROLDATA :: gh_result where "GHR_IPC_NOCONTROLDATA \<equiv> 89"
abbreviation (input) GHR_IPC_NOCONTROLMSG :: gh_result where "GHR_IPC_NOCONTROLMSG \<equiv> 90"
abbreviation (input) GHR_IPCFDMEM_OPENMEMFD :: gh_result where "GHR_IPCFDMEM_OPENMEMFD \<equiv> 91"
abbreviation (input) GHR_IPCFDMEM_TRUNCATE :: gh_result where "GHR_IPCFDMEM_TRUNCATE \<equiv> 92"
abbreviation (input) GHR_IPCFDMEM_GETLEN :: gh_result where "GHR_IPCFDMEM_GETLEN \<equiv> 93"
abbreviation (input) GHR_IPCFDMEM_MAPFAIL :: gh_result where "GHR_IPCFDMEM_MAPFAIL \<equiv> 94"
abbreviation (input) GHR_IPCFDMEM_REMAPFAIL :: gh_result where "GHR_IPCFDMEM_REMAPFAIL \<equiv> 95"
abbreviation (input) GHR_IPCFDMEM_UNMAPFAIL :: gh_result where "GHR_IPCFDMEM_UNMAPFAIL \<equiv> 96"
abbreviation (input) GHR_IPCFDMEM_NOSPACE :: gh_result where "GHR_IPCFDMEM_NOSPACE \<equiv> 97"
abbreviation (input) GHR_IPCFDMEM_INVALIDPTR :: gh_result where "GHR_IPCFDMEM_INVALIDPTR \<equiv> 98"
abbreviation (input) GHR_IPCFDMEM_ZEROSIZE :: gh_result where "GHR_IPCFDMEM_ZEROSIZE \<equiv> 99"
abbreviation (input) GHR_IPCFDMEM_SIZE :: gh_result where "GHR_IPCFDMEM_SIZE \<equiv> 100"
abbreviation (input) GHR_IPCFDMEM_SEAL :: gh_result where "GHR_IPCFDMEM_SEAL \<equiv> 101"
abbreviation (input) GHR_IPCFDMEM_CLOSE :: gh_result where "GHR_IPCFDMEM_CLOSE \<equiv> 102"
abbreviation (input) GHR_IPCFDMEM_SYNCSEALMIN :: gh_result where "GHR_IPCFDMEM_SYNCSEALMIN \<equiv> 103"
abbreviation (input) GHR_IPCFDMEM_SYNCSEALMAX :: gh_result where "GHR_IPCFDMEM_SYNCSEALMAX \<equiv> 104"
abbreviation (input) GHR_SHM_BLOCKHARDLIMIT :: gh_result where "GHR_SHM_BLOCKHARDLIMIT \<equiv> 105"
abbreviation (input) GHR_SHM_BLOCKSOFTLIMIT :: gh_result where "GHR_SHM_BLOCKSOFTLIMIT \<equiv> 106"
abbreviation (input) GHR_SHM_UNMAPPEDLOCAL :: gh_result where "GHR_SHM_UNMAPPEDLOCAL \<equiv> 107"
abbreviation (input) GHR_SHM_UNMAPPEDREMOTE :: gh_result where "GHR_SHM_UNMAPPEDREMOTE \<equiv> 108"
abbreviation (input) GHR_SHM_NOREMOTE :: gh_result where "GHR_SHM_NOREMOTE \<equiv> 109"
abbreviation (input) GHR_SHM_INVALIDOFFSET :: gh_result where "GHR_SHM_INVALIDOFFSET \<equiv> 110"
abbreviation (input) GHR_SHM_MEMFDFAIL :: gh_result where "GHR_SHM_MEMFDFAIL \<equiv> 111"
abbreviation (input) GHR_SHM_TRUNCATEFAIL :: gh_result where "GHR_SHM_TRUNCATEFAIL \<equiv> 112"
abbreviation (input) GHR_SHM_MMAPFAIL :: gh_result where "GHR_SHM_MMAPFAIL \<equiv> 113"
abbreviation (input) GHR_SHM_MUNMAPFAIL :: gh_result where "GHR_SHM_MUNMAPFAIL \<equiv> 114"
abbreviation (input) GHR_SHM_ERRCLOSEFDFAIL :: gh_result where "GHR_SHM_ERRCLOSEFDFAIL \<equiv> 115"
abbreviation (input) GHR_SHM_ERRMUNMAPFAIL :: gh_result where "GHR_SHM_ERRMUNMAPFAIL \<equiv> 116"
abbreviation (input) GHR_SHM_SEALFAIL :: gh_result where "GHR_SHM_SEALFAIL \<equiv> 117"
abbreviation (input) GHR_TS_MISSINGTYPE :: gh_result where "GHR_TS_MISSINGTYPE \<equiv> 118"
abbreviation (input) GHR_TS_DUPLICATETYPE :: gh_result where "GHR_TS_DUPLICATETYPE \<equiv> 119"
abbreviation (input) GHR_TS_INVALIDTYPE :: gh_result where "GHR_TS_INVALIDTYPE \<equiv> 120"
abbreviation (input) GHR_TS_EMPTYNAME :: gh_result where "GHR_TS_EMPTYNAME \<equiv> 121"
abbreviation (input) GHR_TS_ARRAYTOOBIG :: gh_result where "GHR_TS_ARRAYTOOBIG \<equiv> 122"
abbreviation (input) GHR_RPC_INUSE :: gh_result where "GHR_RPC_INUSE \<equiv> 123"
abbreviation (input) GHR_RPC_MISSINGFUNC :: gh_result where "GHR_RPC_MISSINGFUNC \<equiv> 124"
abbreviation (input) GHR_RPC_UNEXECUTED :: gh_result where "GHR_RPC_UNEXECUTED \<equiv> 125"
abbreviation (input) GHR_RPC_EXECUTED :: gh_result where "GHR_RPC_EXECUTED \<equiv> 126"
abbreviation (input) GHR_RPC_LARGEFRAME :: gh_result where "GHR_RPC_LARGEFRAME \<equiv> 127"
abbreviation (input) GHR_RPC_ARGCOPYFAIL :: gh_result where "GHR_RPC_ARGCOPYFAIL \<equiv> 128"
abbreviation (input) GHR_RPC_RETURNCOPYFAIL :: gh_result where "GHR_RPC_RETURNCOPYFAIL \<equiv> 129"
abbreviation (input) GHR_RPC_FRAMEDISPOSED :: gh_result where "GHR_RPC_FRAMEDISPOSED \<equiv> 130"
abbreviation (input) GHR_RPC_RETURNSIZE :: gh_result where "GHR_RPC_RETURNSIZE \<equiv> 131"
abbreviation (input) GHR_RPC_CLOSEFD :: gh_result where "GHR_RPC_CLOSEFD \<equiv> 132"
abbreviation (input) GHR_RPC_MUTEXINIT :: gh_result where "GHR_RPC_MUTEXINIT \<equiv> 133"
abbreviation (input) GHR_RPC_MUTEXDESTROY :: gh_result where "GHR_RPC_MUTEXDESTROY \<equiv> 134"
abbreviation (input) GHR_RPC_MUTEXLOCK :: gh_result where "GHR_RPC_MUTEXLOCK \<equiv> 135"
abbreviation (input) GHR_RPC_MUTEXUNLOCK :: gh_result where "GHR_RPC_MUTEXUNLOCK \<equiv> 136"
abbreviation (input) GHR_RPC_GLOBALMUTEXINIT :: gh_result where "GHR_RPC_GLOBALMUTEXINIT \<equiv> 137"
abbreviation (input) GHR_RPC_GLOBALMUTEXDESTROY :: gh_result where "GHR_RPC_GLOBALMUTEXDESTROY \<equiv> 138"
abbreviation (input) GHR_RPC_GLOBALMUTEXLOCK :: gh_result where "GHR_RPC_GLOBALMUTEXLOCK \<equiv> 139"
abbreviation (input) GHR_RPC_GLOBALMUTEXUNLOCK :: gh_result where "GHR_RPC_GLOBALMUTEXUNLOCK \<equiv> 140"
abbreviation (input) GHR_RPC_INVALIDFD :: gh_result where "GHR_RPC_INVALIDFD \<equiv> 141"
abbreviation (input) GHR_RPCF_ARG0 :: gh_result where "GHR_RPCF_ARG0 \<equiv> 142"
abbreviation (input) GHR_RPCF_ARG1 :: gh_result where "GHR_RPCF_ARG1 \<equiv> 143"
abbreviation (input) GHR_RPCF_ARG2 :: gh_result where "GHR_RPCF_ARG2 \<equiv> 144"
abbreviation (input) GHR_RPCF_ARG4 :: gh_result where "GHR_RPCF_ARG4 \<equiv> 145"
abbreviation (input) GHR_RPCF_ARG5 :: gh_result where "GHR_RPCF_ARG5 \<equiv> 146"
abbreviation (input) GHR_RPCF_ARG6 :: gh_result where "GHR_RPCF_ARG6 \<equiv> 147"
abbreviation (input) GHR_RPCF_ARG7 :: gh_result where "GHR_RPCF_ARG7 \<equiv> 148"
abbreviation (input) GHR_RPCF_ARG8 :: gh_result where "GHR_RPCF_ARG8 \<equiv> 149"
abbreviation (input) GHR_RPCF_ARG9 :: gh_result where "GHR_RPCF_ARG9 \<equiv> 150"
abbreviation (input) GHR_RPCF_ARG10 :: gh_result where "GHR_RPCF_ARG10 \<equiv> 151"
abbreviation (input) GHR_RPCF_ARG11 :: gh_result where "GHR_RPCF_ARG11 \<equiv> 152"
abbreviation (input) GHR_RPCF_ARG12 :: gh_result where "GHR_RPCF_ARG12 \<equiv> 153"
abbreviation (input) GHR_RPCF_ARG13 :: gh_result where "GHR_RPCF_ARG13 \<equiv> 154"
abbreviation (input) GHR_RPCF_ARG14 :: gh_result where "GHR_RPCF_ARG14 \<equiv> 155"
abbreviation (input) GHR_RPCF_ARG15 :: gh_result where "GHR_RPCF_ARG15 \<equiv> 156"
abbreviation (input) GHR_RPCF_ARG16 :: gh_result where "GHR_RPCF_ARG16 \<equiv> 157"
abbreviation (input) GHR_RPCF_GENERIC :: gh_result where "GHR_RPCF_GENERIC \<equiv> 158"
abbreviation (input) GHR_TEST_GENERIC :: gh_result where "GHR_TEST_GENERIC \<equiv> 159"
abbreviation (input) GHR_PROCFD_INVALIDFD :: gh_result where "GHR_PROCFD_INVALIDFD \<equiv> 160"
abbreviation (input) GHR_PROCFD_BIGFDPATH :: gh_result where "GHR_PROCFD_BIGFDPATH \<equiv> 161"
abbreviation (input) GHR_PROCFD_FDPATHCONSTRUCT :: gh_result where "GHR_PROCFD_FDPATHCONSTRUCT \<equiv> 162"
abbreviation (input) GHR_PROCFD_READLINK :: gh_result where "GHR_PROCFD_READLINK \<equiv> 163"
abbreviation (input) GHR_PROCFD_LARGELINK :: gh_result where "GHR_PROCFD_LARGELINK \<equiv> 164"
abbreviation (input) GHR_PROCFD_REOPENFAIL :: gh_result where "GHR_PROCFD_REOPENFAIL \<equiv> 165"
abbreviation (input) GHR_PROCFD_PROCPATHFDOPEN :: gh_result where "GHR_PROCFD_PROCPATHFDOPEN \<equiv> 166"
abbreviation (input) GHR_PROCFD_PROCPATHFDCLOSE :: gh_result where "GHR_PROCFD_PROCPATHFDCLOSE \<equiv> 167"
abbreviation (input) GHR_PATHFD_OPENFAIL :: gh_result where "GHR_PATHFD_OPENFAIL \<equiv> 168"
abbreviation (input) GHR_PATHFD_CLOSEFAIL :: gh_result where "GHR_PATHFD_CLOSEFAIL \<equiv> 169"
abbreviation (input) GHR_PATHFD_LARGETRAILINGNAME :: gh_result where "GHR_PATHFD_LARGETRAILINGNAME \<equiv> 170"
abbreviation (input) GHR_PATHFD_MAYNOTEXIST :: gh_result where "GHR_PATHFD_MAYNOTEXIST \<equiv> 171"
abbreviation (input) GHR_PATHFD_STATFAIL :: gh_result where "GHR_PATHFD_STATFAIL \<equiv> 172"
abbreviation (input) GHR_PERMFS_STATFAIL :: gh_result where "GHR_PERMFS_STATFAIL \<equiv> 173"
abbreviation (input) GHR_PERMFS_BADTYPE :: gh_result where "GHR_PERMFS_BADTYPE \<equiv> 174"
abbreviation (input) GHR_PERMFS_BADFCNTLMODE :: gh_result where "GHR_PERMFS_BADFCNTLMODE \<equiv> 175"
abbreviation (input) GHR_PERMFS_FAILOPEN :: gh_result where "GHR_PERMFS_FAILOPEN \<equiv> 176"
abbreviation (input) GHR_PERMFS_PATHFDOPENFAIL :: gh_result where "GHR_PERMFS_PATHFDOPENFAIL \<equiv> 177"
abbreviation (input) GHR_PERMFS_PATHFDCLOSEFAIL :: gh_result where "GHR_PERMFS_PATHFDCLOSEFAIL \<equiv> 178"
abbreviation (input) GHR_PERMFS_UNKNOWNMODE :: gh_result where "GHR_PERMFS_UNKNOWNMODE \<equiv> 179"
abbreviation (input) GHR_PERMFS_NULLREQUEST :: gh_result where "GHR_PERMFS_NULLREQUEST \<equiv> 180"
abbreviation (input) GHR_PERMFS_NOPATH :: gh_result where "GHR_PERMFS_NOPATH \<equiv> 181"
abbreviation (input) GHR_PERMFS_LARGEDESCRIPTION :: gh_result where "GHR_PERMFS_LARGEDESCRIPTION \<equiv> 182"
abbreviation (input) GHR_PERMS_REJECTEDPOLICY :: gh_result where "GHR_PERMS_REJECTEDPOLICY \<equiv> 183"
abbreviation (input) GHR_PERMS_REJECTEDUSER :: gh_result where "GHR_PERMS_REJECTEDUSER \<equiv> 184"
abbreviation (input) GHR_PERMS_REJECTEDPROMPT :: gh_result where "GHR_PERMS_REJECTEDPROMPT \<equiv> 185"
abbreviation (input) GHR_PERMS_MAXGENERIC :: gh_result where "GHR_PERMS_MAXGENERIC \<equiv> 186"
abbreviation (input) GHR_PERMS_GENERICCTOR :: gh_result where "GHR_PERMS_GENERICCTOR \<equiv> 187"
abbreviation (input) GHR_PERMS_UNKNOWNRESOURCE :: gh_result where "GHR_PERMS_UNKNOWNRESOURCE \<equiv> 188"
abbreviation (input) GHR_PERMS_GENERICLARGEID :: gh_result where "GHR_PERMS_GENERICLARGEID \<equiv> 189"
abbreviation (input) GHR_PERMS_EMERGENCYTRUNC :: gh_result where "GHR_PERMS_EMERGENCYTRUNC \<equiv> 190"
abbreviation (input) GHR_PERMPROMPT_UNSUPPORTEDGROUP :: gh_result where "GHR_PERMPROMPT_UNSUPPORTEDGROUP \<equiv> 191"
abbreviation (input) GHR_PERMPROMPT_UNSUPPORTEDRESOURCE :: gh_result where "GHR_PERMPROMPT_UNSUPPORTEDRESOURCE \<equiv> 192"
abbreviation (input) GHR_PERMPROMPT_MISSINGFIELD :: gh_result where "GHR_PERMPROMPT_MISSINGFIELD \<equiv> 193"
abbreviation (input) GHR_PERMPROMPT_REJECTED :: gh_result where "GHR_PERMPROMPT_REJECTED \<equiv> 194"
abbreviation (input) GHR_PERMPROMPT_REJECTEDUSER :: gh_result where "GHR_PERMPROMPT_REJECTEDUSER \<equiv> 195"
abbreviation (input) GHR_PERMPROMPT_REJECTEDUNKNOWN :: gh_result where "GHR_PERMPROMPT_REJECTEDUNKNOWN \<equiv> 196"
abbreviation (input) GHR_PERMPROMPT_UNTERMINATEDDESC :: gh_result where "GHR_PERMPROMPT_UNTERMINATEDDESC \<equiv> 197"
abbreviation (input) GHR_PERMPARSER_DESCSTACKOVERFLOW :: gh_result where "GHR_PERMPARSER_DESCSTACKOVERFLOW \<equiv> 198"
abbreviation (input) GHR_PERMPARSER_FAILEDSEEK :: gh_result where "GHR_PERMPARSER_FAILEDSEEK \<equiv> 199"
abbreviation (input) GHR_PERMPARSER_FAILEDMMAP :: gh_result where "GHR_PERMPARSER_FAILEDMMAP \<equiv> 200"
abbreviation (input) GHR_PERMPARSER_FAILEDMUNMAP :: gh_result where "GHR_PERMPARSER_FAILEDMUNMAP \<equiv> 201"
abbreviation (input) GHR_PERMPARSER_UNEXPECTEDTOKEN :: gh_result where "GHR_PERMPARSER_UNEXPECTEDTOKEN \<equiv> 202"
abbreviation (input) GHR_PERMPARSER_UNTERMINATEDSTRING :: gh_result where "GHR_PERMPARSER_UNTERMINATEDSTRING \<equiv> 203"
abbreviation (input) GHR_PERMPARSER_RESOURCEPARSERLIMIT :: gh_result where "GHR_PERMPARSER_RESOURCEPARSERLIMIT \<equiv> 204"
abbreviation (input) GHR_PERMPARSER_UNKNOWNRESOURCE :: gh_result where "GHR_PERMPARSER_UNKNOWNRESOURCE \<equiv> 205"
abbreviation (input) GHR_PERMPARSER_EXPECTEDGROUPID :: gh_result where "GHR_PERMPARSER_EXPECTEDGROUPID \<equiv> 206"
abbreviation (input) GHR_PERMPARSER_LARGEGROUPID :: gh_result where "GHR_PERMPARSER_LARGEGROUPID \<equiv> 207"
abbreviation (input) GHR_PERMPARSER_EXPECTEDRESOURCEID :: gh_result where "GHR_PERMPARSER_EXPECTEDRESOURCEID \<equiv> 208"
abbreviation (input) GHR_PERMPARSER_LARGERESOURCEID :: gh_result where "GHR_PERMPARSER_LARGERESOURCEID \<equiv> 209"
abbreviation (input) GHR_PERMPARSER_EXPECTEDFIELD :: gh_result where "GHR_PERMPARSER_EXPECTEDFIELD \<equiv> 210"
abbreviation (input) GHR_PERMPARSER_LARGEFIELD :: gh_result where "GHR_PERMPARSER_LARGEFIELD \<equiv> 211"
abbreviation (input) GHR_PERMPARSER_EXPECTEDRESOURCEBEGIN :: gh_result where "GHR_PERMPARSER_EXPECTEDRESOURCEBEGIN \<equiv> 212"
abbreviation (input) GHR_PERMPARSER_EXPECTEDRESOURCEEND :: gh_result where "GHR_PERMPARSER_EXPECTEDRESOURCEEND \<equiv> 213"
abbreviation (input) GHR_PERMPARSER_EXPECTEDENTRY :: gh_result where "GHR_PERMPARSER_EXPECTEDENTRY \<equiv> 214"
abbreviation (input) GHR_PERMPARSER_EXPECTEDENTRYBEGIN :: gh_result where "GHR_PERMPARSER_EXPECTEDENTRYBEGIN \<equiv> 215"
abbreviation (input) GHR_PERMPARSER_EXPECTEDENTRYEND :: gh_result where "GHR_PERMPARSER_EXPECTEDENTRYEND \<equiv> 216"
abbreviation (input) GHR_PERMPARSER_NOMATCH :: gh_result where "GHR_PERMPARSER_NOMATCH \<equiv> 217"
abbreviation (input) GHR_PERMPARSER_UNKNOWNFIELD :: gh_result where "GHR_PERMPARSER_UNKNOWNFIELD \<equiv> 218"
abbreviation (input) GHR_PERMPARSER_EXPECTEDSTRING :: gh_result where "GHR_PERMPARSER_EXPECTEDSTRING \<equiv> 219"
abbreviation (input) GHR_PERMPARSER_EXPECTEDIDENTIFIER :: gh_result where "GHR_PERMPARSER_EXPECTEDIDENTIFIER \<equiv> 220"
abbreviation (input) GHR_PERMPARSER_RESOURCEPARSEFAIL :: gh_result where "GHR_PERMPARSER_RESOURCEPARSEFAIL \<equiv> 221"
abbreviation (input) GHR_PERMWRITER_WRITEFAILED :: gh_result where "GHR_PERMWRITER_WRITEFAILED \<equiv> 222"
abbreviation (input) GHR_PERMWRITER_WRITETRUNCATED :: gh_result where "GHR_PERMWRITER_WRITETRUNCATED \<equiv> 223"
abbreviation (input) GHR_STD_OPENTMP :: gh_result where "GHR_STD_OPENTMP \<equiv> 224"
abbreviation (input) GHR_STD_CLOSETMP :: gh_result where "GHR_STD_CLOSETMP \<equiv> 225"
abbreviation (input) GHR_STD_OPENTMPFILE :: gh_result where "GHR_STD_OPENTMPFILE \<equiv> 226"
abbreviation (input) GHR_STD_CLOSETMPFILE :: gh_result where "GHR_STD_CLOSETMPFILE \<equiv> 227"
abbreviation (input) GHR_STD_NOENT :: gh_result where "GHR_STD_NOENT \<equiv> 228"
abbreviation (input) GHR_STD_UNLINK :: gh_result where "GHR_STD_UNLINK \<equiv> 229"
abbreviation (input) GHR_STD_INVALIDMODE :: gh_result where "GHR_STD_INVALIDMODE \<equiv> 230"
abbreviation (input) GHR_STD_SPAWNPTY :: gh_result where "GHR_STD_SPAWNPTY \<equiv> 231"
abbreviation (input) GHR_STD_SPAWNPTYCLOSE :: gh_result where "GHR_STD_SPAWNPTYCLOSE \<equiv> 232"
abbreviation (input) GHR_STD_SPAWNPIPE :: gh_result where "GHR_STD_SPAWNPIPE \<equiv> 233"
abbreviation (input) GHR_STD_SPAWNWAIT :: gh_result where "GHR_STD_SPAWNWAIT \<equiv> 234"
abbreviation (input) GHR_STD_SPAWNPIPECLOSE :: gh_result where "GHR_STD_SPAWNPIPECLOSE \<equiv> 235"
abbreviation (input) GHR_STD_RENAME :: gh_result where "GHR_STD_RENAME \<equiv> 236"
abbreviation (input) GHR_SHA256_FAILED :: gh_result where "GHR_SHA256_FAILED \<equiv> 237"
abbreviation (input) GHR_PERMEXEC_NEGARGC :: gh_result where "GHR_PERMEXEC_NEGARGC \<equiv> 238"
abbreviation (input) GHR_PERMEXEC_TOOMANYARGS :: gh_result where "GHR_PERMEXEC_TOOMANYARGS \<equiv> 239"
abbreviation (input) GHR_PERMEXEC_LARGEDESCRIPTION :: gh_result where "GHR_PERMEXEC_LARGEDESCRIPTION \<equiv> 240"
abbreviation (input) GHR_PERMEXEC_LARGECMDLINE :: gh_result where "GHR_PERMEXEC_LARGECMDLINE \<equiv> 241"
abbreviation (input) GHR_PERMEXEC_LARGEENV :: gh_result where "GHR_PERMEXEC_LARGEENV \<equiv> 242"
abbreviation (input) GHR_PERMEXEC_MAKEREQUEST :: gh_result where "GHR_PERMEXEC_MAKEREQUEST \<equiv> 243"
abbreviation (input) GHR_PERMEXEC_NOTHASH :: gh_result where "GHR_PERMEXEC_NOTHASH \<equiv> 244"
abbreviation (input) GHR_UNKNOWN :: gh_result where "GHR_UNKNOWN \<equiv> 245"

end
