(* ===== verification/Result.thy ===== *)
theory Result
  imports Errors
begin

text \<open>
  The result type of \<^verbatim>\<open>include/ghost/result.h\<close>: a 32 bit word with an errno in the upper
  half and an enumerator of \<^verbatim>\<open>gh_error\<close> in the lower half, its packing and unpacking macros and
  the two message selectors of \<^verbatim>\<open>result.c\<close>. The statement
  \<^verbatim>\<open>if (ghr_iserr(res)) return res;\<close>, which follows nearly every call of the library, is
  \<open>ghr_then\<close>.
\<close>

section \<open>Packing\<close>

definition ghr_normalizeerrno :: "nat \<Rightarrow> nat" where
  "ghr_normalizeerrno v = (if v \<ge> 0xFFFF then 0xFFFF else v)"

definition ghr_errnoval :: "gh_result \<Rightarrow> nat \<Rightarrow> gh_result" where
  "ghr_errnoval ctx v = push_bit 16 (word_of_nat (ghr_normalizeerrno v)) OR ctx"

definition ghr_frag_errno :: "gh_result \<Rightarrow> nat" where
  "ghr_frag_errno r = unat (drop_bit 16 r AND 0xFFFF)"

definition ghr_frag_context :: "gh_result \<Rightarrow> gh_result" where
  "ghr_frag_context r = r AND 0xFFFF"

definition ghr_isok :: "gh_result \<Rightarrow> bool" where
  "ghr_isok r \<longleftrightarrow> r = GHR_OK"

definition ghr_iserr :: "gh_result \<Rightarrow> bool" where
  "ghr_iserr r \<longleftrightarrow> r \<noteq> GHR_OK"

definition ghr_is :: "gh_result \<Rightarrow> gh_result \<Rightarrow> bool" where
  "ghr_is r ctx \<longleftrightarrow> ghr_frag_context r = ctx"

definition ghr_isnot :: "gh_result \<Rightarrow> gh_result \<Rightarrow> bool" where
  "ghr_isnot r ctx \<longleftrightarrow> \<not> (ghr_frag_context r = ctx)"

definition ghr_context_has_exitcode :: "gh_result \<Rightarrow> bool" where
  "ghr_context_has_exitcode ctx \<longleftrightarrow> ctx = GHR_JAIL_NONZEROEXIT"

definition ghr_context_has_signalno :: "gh_result \<Rightarrow> bool" where
  "ghr_context_has_signalno ctx \<longleftrightarrow> ctx = GHR_JAIL_KILLEDSIG"

definition ghr_exitcode :: "gh_result \<Rightarrow> int" where
  "ghr_exitcode r =
     (if ghr_context_has_exitcode (ghr_frag_context r) then int (ghr_frag_errno r) else -1)"

definition ghr_signalno :: "gh_result \<Rightarrow> int" where
  "ghr_signalno r =
     (if ghr_context_has_signalno (ghr_frag_context r) then int (ghr_frag_errno r) else -1)"

lemmas ghr_defs = ghr_isok_def ghr_iserr_def ghr_is_def ghr_isnot_def

text \<open>\<open>desc\<close> is the generated table of descriptions, \<open>strerror\<close> the C library's function.\<close>

definition ghr_context :: "(gh_result \<Rightarrow> string) \<Rightarrow> gh_result \<Rightarrow> string" where
  "ghr_context desc r =
     (let err = ghr_frag_context r in
      if r \<noteq> 0 \<and> err = GHR_OK then ''Incorrectly constructed contextless result value''
      else desc (ghr_frag_context r))"

definition ghr_error :: "(nat \<Rightarrow> string) \<Rightarrow> gh_result \<Rightarrow> string" where
  "ghr_error strerror r =
     (let errno_value = ghr_frag_errno r in
      if errno_value = 0xFFFF then ''Errno value beyond storable range (>0xFFFF)''
      else strerror errno_value)"

text \<open>
  The text \<^verbatim>\<open>ghr_fprintf\<close> prints; \<open>name\<close> is the generated table of names, \<open>sigabbrev\<close> the C
  library's \<^verbatim>\<open>sigabbrev_np\<close>.
\<close>

definition ghr_text ::
  "(gh_result \<Rightarrow> string) \<Rightarrow> (gh_result \<Rightarrow> string) \<Rightarrow> (nat \<Rightarrow> string) \<Rightarrow> (nat \<Rightarrow> string) \<Rightarrow> gh_result \<Rightarrow> string" where
  "ghr_text name desc strerror sigabbrev r =
     (let err = ghr_frag_context r in
      (if r \<noteq> 0 \<and> err = GHR_OK
       then ''[INCORRECT] Incorrectly constructed contextless result value''
       else ''['' @ name err @ ''] '' @ desc err) @
      (if ghr_context_has_exitcode err then
         '' (exit code '' @ c_decimal (nat (ghr_exitcode r)) @ '')''
       else if ghr_context_has_signalno err then
         '' (signal '' @ c_decimal (nat (ghr_signalno r)) @ '' SIG'' @ sigabbrev (nat (ghr_signalno r)) @ '')''
       else
         (let errno_value = ghr_frag_errno r in
          if errno_value \<noteq> 0 then '' ('' @ strerror errno_value @ '')'' else [])))"

section \<open>Unpacking recovers what was packed\<close>

lemma and_ffff_bits: "(r :: 32 word) AND 0xFFFF = take_bit 16 r"
  by (simp add: take_bit_eq_mask mask_eq_exp_minus_1)

lemma frag_context_small [ghr_simps]: "r < 0x10000 \<Longrightarrow> ghr_frag_context r = r"
  unfolding ghr_frag_context_def and_ffff_bits
  by (rule word_unat_eq_iff [THEN iffD2]) (simp add: unsigned_take_bit_eq take_bit_nat_eq_self_iff word_less_nat_alt)

lemma frag_context_errnoval [ghr_simps]:
  "ctx < 0x10000 \<Longrightarrow> ghr_frag_context (ghr_errnoval ctx v) = ctx"
  using frag_context_small [of ctx]
  by (simp add: ghr_errnoval_def ghr_frag_context_def and_ffff_bits take_bit_or take_bit_push_bit)

lemma take_bit_small: "(r :: 32 word) < 0x10000 \<Longrightarrow> take_bit 16 r = r"
  using frag_context_small [of r] by (simp add: ghr_frag_context_def and_ffff_bits)

lemma drop_packed:
  assumes "(ctx :: 32 word) < 0x10000"
  shows "drop_bit 16 (push_bit 16 w OR ctx) AND 0xFFFF = take_bit 16 w"
proof -
  have "drop_bit 16 (take_bit 16 ctx) = 0"
    by (rule bit_word_eqI) (auto simp: bit_simps)
  then have "drop_bit 16 ctx = 0" by (simp only: take_bit_small [OF assms])
  moreover have "take_bit 16 (drop_bit 16 (push_bit 16 w)) = take_bit 16 w"
    by (rule bit_word_eqI) (auto simp: bit_simps)
  ultimately show ?thesis by (simp add: drop_bit_or and_ffff_bits)
qed

lemma normalizeerrno_bound: "ghr_normalizeerrno v < 0x10000"
  by (simp add: ghr_normalizeerrno_def)

lemma frag_errno_errnoval [ghr_simps]:
  "ctx < 0x10000 \<Longrightarrow> ghr_frag_errno (ghr_errnoval ctx v) = ghr_normalizeerrno v"
  using normalizeerrno_bound [of v]
  by (simp add: ghr_frag_errno_def ghr_errnoval_def drop_packed unsigned_take_bit_eq
      unat_of_nat take_bit_nat_eq_self del: drop_bit_or)

lemma errnoval_eq_small [ghr_simps]:
  assumes "ctx < 0x10000" "c < 0x10000"
  shows "ghr_errnoval ctx v = c \<longleftrightarrow> v = 0 \<and> ctx = c"
proof
  assume eq: "ghr_errnoval ctx v = c"
  have "ghr_frag_errno c = 0"
    using take_bit_small [OF assms(2)] drop_packed [OF assms(2), of 0]
    by (simp add: ghr_frag_errno_def)
  with eq have "ghr_normalizeerrno v = 0" using frag_errno_errnoval [OF assms(1), of v] by simp
  with eq assms show "v = 0 \<and> ctx = c"
    using frag_context_errnoval [OF assms(1), of v] frag_context_small [OF assms(2)]
    by (auto simp: ghr_normalizeerrno_def split: if_splits)
qed (simp add: ghr_errnoval_def ghr_normalizeerrno_def)

lemma ghr_is_small [ghr_simps]: "r < 0x10000 \<Longrightarrow> ghr_is r c \<longleftrightarrow> r = c"
  by (simp add: ghr_is_def ghr_simps)

lemma ghr_is_errnoval [ghr_simps]: "ctx < 0x10000 \<Longrightarrow> ghr_is (ghr_errnoval ctx v) c \<longleftrightarrow> ctx = c"
  by (simp add: ghr_is_def ghr_simps)

lemma ghr_iserr_errnoval [ghr_simps]:
  "ctx < 0x10000 \<Longrightarrow> ctx \<noteq> 0 \<Longrightarrow> ghr_iserr (ghr_errnoval ctx v)"
  by (simp add: ghr_iserr_def ghr_simps)

lemma ghr_iserr_small [ghr_simps]: "ghr_iserr r \<longleftrightarrow> r \<noteq> 0" "ghr_isok r \<longleftrightarrow> r = 0"
  by (simp_all add: ghr_defs)

lemma errnoval_neq_0 [ghr_simps]: "ctx < 0x10000 \<Longrightarrow> ctx \<noteq> 0 \<Longrightarrow> ghr_errnoval ctx v \<noteq> 0"
  by (simp add: ghr_simps)

section \<open>Early return\<close>

text \<open>
  \<open>ghr_then m k\<close> is \<^verbatim>\<open>res = m; if (ghr_iserr(res)) return res; k\<close> for code over a state;
  \<open>None\<close> (no defined result) stays \<open>None\<close>.
\<close>

definition ghr_then ::
  "(gh_result \<times> 's) option \<Rightarrow> ('s \<Rightarrow> (gh_result \<times> 's) option) \<Rightarrow> (gh_result \<times> 's) option" where
  "ghr_then m k =
     Option.bind m (\<lambda>(res, s). if ghr_iserr res then Some (res, s) else k s)"

lemma ghr_then_simps [simp]:
  "ghr_then None k = None"
  "ghr_then (Some (0, s)) k = k s"
  "res \<noteq> 0 \<Longrightarrow> ghr_then (Some (res, s)) k = Some (res, s)"
  by (simp_all add: ghr_then_def ghr_defs)

lemma ghr_then_ok_iff:
  "ghr_then m k = Some (0, s') \<longleftrightarrow> (\<exists>s. m = Some (0, s) \<and> k s = Some (0, s'))"
  by (auto simp: ghr_then_def ghr_defs bind_eq_Some_conv split: if_splits)

lemma ghr_then_Some_iff:
  "ghr_then m k = Some r \<longleftrightarrow>
   (\<exists>res s. m = Some (res, s) \<and> (if res = 0 then k s = Some r else r = (res, s)))"
  by (auto simp: ghr_then_def ghr_defs bind_eq_Some_conv split: if_splits)

lemma ghr_then_cong [fundef_cong]:
  "m = m' \<Longrightarrow> (\<And>s. m' = Some (0, s) \<Longrightarrow> k s = k' s) \<Longrightarrow> ghr_then m k = ghr_then m' k'"
  by (auto simp: ghr_then_def ghr_defs split: Option.bind_splits)

lemma ghr_then_mono [partial_function_mono]:
  assumes "mono_option m" and "\<And>s. mono_option (\<lambda>f. k s f)"
  shows "mono_option (\<lambda>f. ghr_then (m f) (\<lambda>s. k s f))"
  unfolding ghr_then_def
proof (rule bind_mono [OF assms(1)])
  fix r
  show "mono_option (\<lambda>f. case r of (res, s) \<Rightarrow> if ghr_iserr res then Some (res, s) else k s f)"
    using assms(2) [of "snd r"] by (cases "ghr_iserr (fst r)") (auto simp: case_prod_unfold option.const_mono)
qed

text \<open>The same for code that always has a result.\<close>

definition ghr_seq :: "gh_result \<times> 's \<Rightarrow> ('s \<Rightarrow> gh_result \<times> 's) \<Rightarrow> gh_result \<times> 's" where
  "ghr_seq m k = (case m of (res, s) \<Rightarrow> if ghr_iserr res then (res, s) else k s)"

lemma ghr_seq_simps [simp]:
  "ghr_seq (0, s) k = k s"
  "res \<noteq> 0 \<Longrightarrow> ghr_seq (res, s) k = (res, s)"
  by (simp_all add: ghr_seq_def ghr_defs)

lemma ghr_seq_ok_iff: "ghr_seq m k = (0, s') \<longleftrightarrow> (\<exists>s. m = (0, s) \<and> k s = (0, s'))"
  by (auto simp: ghr_seq_def ghr_defs split: prod.splits if_splits)

lemma ghr_seq_cong [fundef_cong]:
  "m = m' \<Longrightarrow> (\<And>s. m' = (0, s) \<Longrightarrow> k s = k' s) \<Longrightarrow> ghr_seq m k = ghr_seq m' k'"
  by (auto simp: ghr_seq_def ghr_defs split: prod.splits)

lemma ghr_then_seq: "ghr_then (Some m) (\<lambda>s. Some (k s)) = Some (ghr_seq m k)"
  by (auto simp: ghr_seq_def ghr_then_def split: prod.splits)

end
