(* ===== verification/Alloc.thy ===== *)
theory Alloc
  imports Result
begin

text \<open>
  The allocator interface of \<^verbatim>\<open>alloc.c\<close>. A \<^verbatim>\<open>gh_alloc\<close> holds a function pointer that the
  application supplies, so the model takes the allocator as an argument: what its function answers
  to a request \<^verbatim>\<open>(old_size, new_size)\<close>. A pointer argument \<^verbatim>\<open>void ** ptr\<close> is \<open>None\<close> when
  \<^verbatim>\<open>ptr == NULL\<close> and \<open>Some None\<close> when \<^verbatim>\<open>*ptr == NULL\<close>; the block it points to is described by
  a value of type \<open>'p\<close> (for an array, the cells written so far).
\<close>

type_synonym gh_alloc = "size_t \<Rightarrow> size_t \<Rightarrow> gh_result"

section \<open>The allocator function\<close>

text \<open>
  \<^verbatim>\<open>alloc->func(ptr, old_size, new_size, userdata)\<close>: on success a request for a new or a larger
  block stores a pointer to it (\<open>blk\<close> describes its contents), a release leaves \<^verbatim>\<open>*ptr\<close> alone.
  The second component is \<^verbatim>\<open>*ptr\<close> after the call.
\<close>

definition alloc_func ::
  "gh_alloc \<Rightarrow> 'p \<Rightarrow> 'p option \<Rightarrow> size_t \<Rightarrow> size_t \<Rightarrow> gh_result \<times> 'p option" where
  "alloc_func al blk ptr old_size new_size =
     (let res = al old_size new_size in
      if ghr_isok res \<and> new_size \<noteq> 0 then (res, Some blk) else (res, ptr))"

text \<open>
  The default allocator over \<^verbatim>\<open>malloc\<close>, \<^verbatim>\<open>realloc\<close> and \<^verbatim>\<open>free\<close>; \<open>heap n\<close> is \<open>None\<close> when a
  request for \<open>n\<close> bytes succeeds and \<open>Some errno\<close> when it fails. Dereferencing a NULL \<^verbatim>\<open>ptr\<close>
  outside the destructor call has no defined result.
\<close>

definition default_allocator ::
  "(size_t \<Rightarrow> nat option) \<Rightarrow> 'p \<Rightarrow> 'p option option \<Rightarrow> size_t \<Rightarrow> size_t \<Rightarrow>
   (gh_result \<times> 'p option option) option" where
  "default_allocator heap blk ptr old_size new_size =
     (if ptr = None \<and> old_size = 0 \<and> new_size = 0 then Some (GHR_OK, ptr)
      else case ptr of
        None \<Rightarrow> None
      | Some None \<Rightarrow>
          (case heap new_size of
             Some e \<Rightarrow> Some (ghr_errnoval GHR_ALLOC_ALLOCFAIL e, ptr)
           | None \<Rightarrow> Some (GHR_OK, Some (Some blk)))
      | Some (Some p) \<Rightarrow>
          if new_size = 0 then Some (GHR_OK, ptr)
          else (case heap new_size of
                  Some e \<Rightarrow> Some (ghr_errnoval GHR_ALLOC_REALLOCFAIL e, ptr)
                | None \<Rightarrow> Some (GHR_OK, Some (Some blk))))"

definition default_answers :: "(size_t \<Rightarrow> nat option) \<Rightarrow> gh_alloc" where
  "default_answers heap old_size new_size =
     (if new_size = 0 then GHR_OK
      else case heap new_size of
        Some e \<Rightarrow> ghr_errnoval (if old_size = 0 then GHR_ALLOC_ALLOCFAIL else GHR_ALLOC_REALLOCFAIL) e
      | None \<Rightarrow> GHR_OK)"

section \<open>The checked wrappers\<close>

definition gh_alloc_dtor :: "gh_alloc \<Rightarrow> gh_result" where
  "gh_alloc_dtor al = al 0 0"

definition gh_alloc_new ::
  "gh_alloc \<Rightarrow> 'p \<Rightarrow> 'p option option \<Rightarrow> size_t \<Rightarrow> gh_result \<times> 'p option" where
  "gh_alloc_new al blk out_ptr sz =
     (case out_ptr of
        None \<Rightarrow> (GHR_ALLOC_INVALIDOUTERPTR, None)
      | Some (Some p) \<Rightarrow> (GHR_ALLOC_INVALIDPTR, Some p)
      | Some None \<Rightarrow>
          if sz = 0 then (GHR_ALLOC_INVALIDSIZE, None)
          else alloc_func al blk None 0 sz)"

definition gh_alloc_delete ::
  "gh_alloc \<Rightarrow> 'p option option \<Rightarrow> size_t \<Rightarrow> gh_result \<times> 'p option" where
  "gh_alloc_delete al ptr old_size =
     (case ptr of
        None \<Rightarrow> (GHR_ALLOC_INVALIDOUTERPTR, None)
      | Some None \<Rightarrow> (GHR_ALLOC_INVALIDPTR, None)
      | Some (Some p) \<Rightarrow>
          if old_size = 0 then (GHR_ALLOC_INVALIDSIZE, Some p)
          else (al old_size 0, Some p))"

definition gh_alloc_resize ::
  "gh_alloc \<Rightarrow> 'p \<Rightarrow> 'p option option \<Rightarrow> size_t \<Rightarrow> size_t \<Rightarrow> gh_result \<times> 'p option" where
  "gh_alloc_resize al blk out_ptr old_size new_size =
     (case out_ptr of
        None \<Rightarrow> (GHR_ALLOC_INVALIDOUTERPTR, None)
      | Some None \<Rightarrow> (GHR_ALLOC_INVALIDPTR, None)
      | Some (Some p) \<Rightarrow>
          if old_size = 0 then (GHR_ALLOC_INVALIDSIZE, Some p)
          else if new_size = 0 then (GHR_ALLOC_INVALIDSIZE, Some p)
          else alloc_func al blk (Some p) old_size new_size)"

section \<open>The allocator contract\<close>

text \<open>
  What the containers rely on: a request that succeeds stores the block, a request that fails
  leaves the pointer as it was.
\<close>

lemma gh_alloc_new_result:
  "gh_alloc_new al blk (Some None) sz =
     (if sz = 0 then (GHR_ALLOC_INVALIDSIZE, None)
      else if al 0 sz = 0 then (GHR_OK, Some blk) else (al 0 sz, None))"
  by (simp add: gh_alloc_new_def alloc_func_def ghr_defs Let_def)

lemma gh_alloc_new_occupied:
  "gh_alloc_new al blk (Some (Some p)) sz = (GHR_ALLOC_INVALIDPTR, Some p)"
  by (simp add: gh_alloc_new_def)

lemma gh_alloc_resize_result:
  "gh_alloc_resize al blk (Some (Some p)) old_size new_size =
     (if old_size = 0 \<or> new_size = 0 then (GHR_ALLOC_INVALIDSIZE, Some p)
      else if al old_size new_size = 0 then (GHR_OK, Some blk)
      else (al old_size new_size, Some p))"
  by (simp add: gh_alloc_resize_def alloc_func_def ghr_defs Let_def)

lemma gh_alloc_delete_result:
  "gh_alloc_delete al (Some (Some p)) old_size =
     (if old_size = 0 then (GHR_ALLOC_INVALIDSIZE, Some p) else (al old_size 0, Some p))"
  by (simp add: gh_alloc_delete_def)

text \<open>The default allocator, called the way the checked wrappers call it, behaves as the
  abstract allocator with its answers.\<close>

lemma default_allocator_refines:
  assumes "ptr = None \<longleftrightarrow> old_size = 0" and "old_size \<noteq> 0 \<or> new_size \<noteq> 0"
  shows "default_allocator heap blk (Some ptr) old_size new_size =
         (let (res, p) = alloc_func (default_answers heap) blk ptr old_size new_size
          in Some (res, Some p))"
proof (cases ptr)
  case None
  with assms show ?thesis
    by (cases "heap new_size")
      (simp_all add: default_allocator_def alloc_func_def default_answers_def ghr_isok_def ghr_simps)
next
  case (Some p)
  with assms show ?thesis
    by (cases "heap new_size"; cases "new_size = 0")
      (simp_all add: default_allocator_def alloc_func_def default_answers_def ghr_isok_def ghr_simps)
qed

text \<open>An allocator that always succeeds, for the examples\<close>

definition ex_alloc :: gh_alloc where
  "ex_alloc old_size new_size = GHR_OK"

end
