(* ===== verification/DynamicArray.thy ===== *)
theory DynamicArray
  imports Alloc
begin

text \<open>
  The generic dynamic array of \<^verbatim>\<open>dynamic_array.c\<close>. The proxy \<^verbatim>\<open>gh_dynamicarray\<close> points at the
  buffer, capacity and size of the container that uses it; the model passes those three by value
  and returns them updated. The buffer holds the cells written so far (at least \<^verbatim>\<open>size\<close> of them);
  the cells between them and the capacity are uninitialised storage. Capacities and sizes are
  64 bit words, so that the products and the doubling loop wrap as they do in C. The ghost field
  \<open>da_block\<close> names the block the buffer pointer denotes: a successful reallocation gives a new one,
  and a pointer into the old block may not be used any more.
\<close>

section \<open>State\<close>

record 'a gh_dynamicarrayoptions =
  initial_capacity :: size_t
  max_capacity :: size_t
  element_size :: size_t
  dtorelement_func :: "('a \<Rightarrow> gh_result \<times> 'a) option"

record 'a gh_dynamicarray =
  da_buffer :: "'a list option"
  da_capacity :: size_t
  da_size :: size_t
  da_block :: nat

text \<open>A pointer to an element: the block and the index.\<close>

type_synonym da_ptr = "nat \<times> nat"

abbreviation (input) GH_DYNAMICARRAY_NOMAXCAPACITY :: size_t where
  "GH_DYNAMICARRAY_NOMAXCAPACITY \<equiv> 0"

text \<open>The elements of an array, and the elements its block has room for.\<close>

definition da_items :: "'a gh_dynamicarray \<Rightarrow> 'a list" where
  "da_items da = (case da_buffer da of None \<Rightarrow> [] | Some buf \<Rightarrow> take (unat (da_size da)) buf)"

definition da_slots :: "'a gh_dynamicarrayoptions \<Rightarrow> 'a gh_dynamicarray \<Rightarrow> nat" where
  "da_slots opts da = unat (element_size opts * da_capacity da) div unat (element_size opts)"

definition da_deref :: "'a gh_dynamicarray \<Rightarrow> da_ptr \<Rightarrow> 'a option" where
  "da_deref da p =
     (case da_buffer da of
        None \<Rightarrow> None
      | Some buf \<Rightarrow>
          if fst p = da_block da \<and> snd p < unat (da_size da) \<and> snd p < length buf
          then Some (buf ! snd p) else None)"

definition da_store :: "'a gh_dynamicarray \<Rightarrow> da_ptr \<Rightarrow> 'a \<Rightarrow> 'a gh_dynamicarray option" where
  "da_store da p x =
     (case da_buffer da of
        None \<Rightarrow> None
      | Some buf \<Rightarrow>
          if fst p = da_block da \<and> snd p < unat (da_size da) \<and> snd p < length buf
          then Some (da\<lparr>da_buffer := Some (buf[snd p := x])\<rparr>) else None)"

section \<open>Operations\<close>

definition gh_dynamicarray_ctor ::
  "gh_alloc \<Rightarrow> 'a gh_dynamicarrayoptions \<Rightarrow> 'a gh_dynamicarray \<Rightarrow> gh_result \<times> 'a gh_dynamicarray" where
  "gh_dynamicarray_ctor al opts da =
     (let (res, buf) = gh_alloc_new al [] (Some None) (element_size opts * initial_capacity opts) in
      if ghr_iserr res then (res, da\<lparr>da_buffer := buf\<rparr>)
      else (GHR_OK, \<lparr>da_buffer = buf, da_capacity = initial_capacity opts, da_size = 0,
                   da_block = Suc (da_block da)\<rparr>))"

function da_dtor_loop ::
  "('a \<Rightarrow> gh_result \<times> 'a) \<Rightarrow> nat \<Rightarrow> nat \<Rightarrow> 'a list \<Rightarrow> (gh_result \<times> 'a list) option" where
  "da_dtor_loop f i n buf =
     (if i < n then
        (if i < length buf then
           (let (res, x) = f (buf ! i) in
            if ghr_iserr res then Some (res, buf[i := x])
            else da_dtor_loop f (Suc i) n (buf[i := x]))
         else None)
      else Some (GHR_OK, buf))"
  by pat_completeness auto
termination
  by (relation "measure (\<lambda>(f, i, n, buf). n - i)") auto

definition gh_dynamicarray_dtorelements ::
  "'a gh_dynamicarrayoptions \<Rightarrow> 'a gh_dynamicarray \<Rightarrow> (gh_result \<times> 'a gh_dynamicarray) option" where
  "gh_dynamicarray_dtorelements opts da =
     (case dtorelement_func opts of
        None \<Rightarrow> Some (GHR_OK, da)
      | Some f \<Rightarrow>
          (case da_buffer da of
             None \<Rightarrow> if da_size da = 0 then Some (GHR_OK, da) else None
           | Some buf \<Rightarrow>
               map_option (\<lambda>(res, buf'). (res, da\<lparr>da_buffer := Some buf'\<rparr>))
                 (da_dtor_loop f 0 (unat (da_size da)) buf)))"

definition gh_dynamicarray_dtor ::
  "gh_alloc \<Rightarrow> 'a gh_dynamicarrayoptions \<Rightarrow> 'a gh_dynamicarray \<Rightarrow>
   (gh_result \<times> 'a gh_dynamicarray) option" where
  "gh_dynamicarray_dtor al opts da =
     ghr_then (gh_dynamicarray_dtorelements opts da) (\<lambda>da.
     ghr_then
       (let (res, buf) =
          gh_alloc_delete al (Some (da_buffer da)) (da_capacity da * element_size opts)
        in Some (res, da\<lparr>da_buffer := buf\<rparr>)) (\<lambda>da.
     Some (GHR_OK, \<lparr>da_buffer = None, da_capacity = 0, da_size = 0, da_block = da_block da\<rparr>)))"

text \<open>
  The loop \<^verbatim>\<open>while (capacity < target_capacity)\<close> of \<^verbatim>\<open>gh_dynamicarray_expandtofit\<close>; \<open>None\<close> when
  it does not end.
\<close>

partial_function (option) da_grow :: "size_t \<Rightarrow> size_t \<Rightarrow> size_t \<Rightarrow> (gh_result \<times> size_t) option" where
  "da_grow max_cap target capacity =
     (if capacity < target then
        (let capacity = capacity * 2 in
         if max_cap \<noteq> GH_DYNAMICARRAY_NOMAXCAPACITY \<and> capacity > max_cap
         then Some (GHR_DYNAMICARRAY_MAXCAPACITY, capacity)
         else da_grow max_cap target capacity)
      else Some (GHR_OK, capacity))"

definition gh_dynamicarray_expandtofit ::
  "gh_alloc \<Rightarrow> 'a gh_dynamicarrayoptions \<Rightarrow> 'a gh_dynamicarray \<Rightarrow> size_t \<Rightarrow>
   (gh_result \<times> 'a gh_dynamicarray) option" where
  "gh_dynamicarray_expandtofit al opts da amount =
     (if da_size da + amount \<le> da_capacity da then Some (GHR_OK, da)
      else
        (let capacity = da_capacity da; target_capacity = capacity + amount in
         Option.bind (da_grow (max_capacity opts) target_capacity capacity) (\<lambda>(res, capacity).
         if ghr_iserr res then Some (res, da)
         else
           (let (res, buf) =
              gh_alloc_resize al (case da_buffer da of None \<Rightarrow> [] | Some b \<Rightarrow> b) (Some (da_buffer da))
                (element_size opts * da_capacity da) (element_size opts * capacity)
            in
            if ghr_iserr res then Some (res, da\<lparr>da_buffer := buf\<rparr>)
            else Some (GHR_OK, da\<lparr>da_buffer := buf, da_capacity := capacity,
                                  da_block := Suc (da_block da)\<rparr>)))))"

text \<open>\<^verbatim>\<open>memcpy\<close> of elements to the cells from \<^verbatim>\<open>size\<close> on: defined only inside the block.\<close>

definition da_memcpy_end ::
  "'a gh_dynamicarrayoptions \<Rightarrow> 'a gh_dynamicarray \<Rightarrow> 'a list \<Rightarrow> (gh_result \<times> 'a gh_dynamicarray) option" where
  "da_memcpy_end opts da xs =
     (case da_buffer da of
        None \<Rightarrow> None
      | Some buf \<Rightarrow>
          if unat (da_size da) \<le> length buf \<and> unat (da_size da) + length xs \<le> da_slots opts da
          then Some (GHR_OK, da\<lparr>da_buffer := Some (cells_write buf (unat (da_size da)) xs),
                              da_size := da_size da + of_nat (length xs)\<rparr>)
          else None)"

definition gh_dynamicarray_append ::
  "gh_alloc \<Rightarrow> 'a gh_dynamicarrayoptions \<Rightarrow> 'a gh_dynamicarray \<Rightarrow> 'a \<Rightarrow>
   (gh_result \<times> 'a gh_dynamicarray) option" where
  "gh_dynamicarray_append al opts da x =
     ghr_then (gh_dynamicarray_expandtofit al opts da 1) (\<lambda>da. da_memcpy_end opts da [x])"

text \<open>\<open>xs\<close> is the array of \<^verbatim>\<open>count\<close> elements at the pointer argument.\<close>

definition gh_dynamicarray_appendmany ::
  "gh_alloc \<Rightarrow> 'a gh_dynamicarrayoptions \<Rightarrow> 'a gh_dynamicarray \<Rightarrow> 'a list \<Rightarrow>
   (gh_result \<times> 'a gh_dynamicarray) option" where
  "gh_dynamicarray_appendmany al opts da xs =
     ghr_then (gh_dynamicarray_expandtofit al opts da (of_nat (length xs)))
       (\<lambda>da. da_memcpy_end opts da xs)"

text \<open>\<^verbatim>\<open>for (i = index; i < size - 1; i++)\<close> copies the next cell over the current one.\<close>

function da_shift :: "nat \<Rightarrow> nat \<Rightarrow> 'a list \<Rightarrow> 'a list option" where
  "da_shift i lst buf =
     (if i < lst then
        (if Suc i < length buf then da_shift (Suc i) lst (buf[i := buf ! Suc i]) else None)
      else Some buf)"
  by pat_completeness auto
termination
  by (relation "measure (\<lambda>(i, lst, buf). lst - i)") auto

definition gh_dynamicarray_removeat ::
  "'a gh_dynamicarrayoptions \<Rightarrow> 'a gh_dynamicarray \<Rightarrow> size_t \<Rightarrow> (gh_result \<times> 'a gh_dynamicarray) option" where
  "gh_dynamicarray_removeat opts da index =
     (if index \<ge> da_size da then Some (GHR_DYNAMICARRAY_OUTOFBOUNDS, da)
      else case da_buffer da of
        None \<Rightarrow> None
      | Some buf \<Rightarrow>
          if unat index < length buf then
            map_option (\<lambda>(res, buf').
                if ghr_iserr res then (res, da\<lparr>da_buffer := Some buf'\<rparr>)
                else (GHR_OK, da\<lparr>da_buffer := Some buf', da_size := da_size da - 1\<rparr>))
              (ghr_then
                (case dtorelement_func opts of
                   None \<Rightarrow> Some (GHR_OK, buf)
                 | Some f \<Rightarrow> (let (res, x) = f (buf ! unat index) in Some (res, buf[unat index := x])))
                (\<lambda>buf. map_option (Pair GHR_OK) (da_shift (unat index) (unat (da_size da - 1)) buf)))
          else None)"

definition gh_dynamicarray_getat ::
  "'a gh_dynamicarray \<Rightarrow> size_t \<Rightarrow> gh_result \<times> da_ptr option" where
  "gh_dynamicarray_getat da index =
     (if index \<ge> da_size da then (GHR_DYNAMICARRAY_OUTOFBOUNDS, None)
      else (GHR_OK, Some (da_block da, unat index)))"

declare da_dtor_loop.simps [simp del] da_shift.simps [simp del]

section \<open>Invariant\<close>

text \<open>
  A live array: a block that really has \<open>capacity\<close> slots (the byte size does not wrap), its first
  \<open>size\<close> cells written, and a capacity that growth keeps within four times the size.
\<close>

definition da_reserved :: "nat \<Rightarrow> 'a gh_dynamicarrayoptions \<Rightarrow> 'a gh_dynamicarray \<Rightarrow> bool" where
  "da_reserved n opts da \<longleftrightarrow>
     (\<exists>buf. da_buffer da = Some buf \<and> unat (da_size da) \<le> length buf \<and>
            length buf \<le> unat (da_capacity da)) \<and>
     0 < unat (element_size opts) \<and> 0 < unat (da_capacity da) \<and>
     unat (da_size da) + n \<le> unat (da_capacity da) \<and>
     unat (element_size opts) * unat (da_capacity da) < 18446744073709551616 \<and>
     unat (da_capacity da) \<le> max (unat (initial_capacity opts)) (4 * (unat (da_size da) + n))"

abbreviation da_wf :: "'a gh_dynamicarrayoptions \<Rightarrow> 'a gh_dynamicarray \<Rightarrow> bool" where
  "da_wf \<equiv> da_reserved 0"

text \<open>Room for \<open>n\<close> more elements: far from the end of the address space.\<close>

definition da_room :: "'a gh_dynamicarrayoptions \<Rightarrow> 'a gh_dynamicarray \<Rightarrow> nat \<Rightarrow> bool" where
  "da_room opts da n \<longleftrightarrow>
     unat (element_size opts) * (16 * (unat (initial_capacity opts) + unat (da_size da) + n))
       < 18446744073709551616"

lemma da_slots_wf: "da_wf opts da \<Longrightarrow> da_slots opts da = unat (da_capacity da)"
  by (simp add: da_reserved_def da_slots_def unat_mult_nowrap)

lemma da_wf_size: "da_wf opts da \<Longrightarrow> unat (da_size da) \<le> unat (da_capacity da)"
  by (auto simp: da_reserved_def)

lemma da_items_length: "da_wf opts da \<Longrightarrow> length (da_items da) = unat (da_size da)"
  by (auto simp: da_reserved_def da_items_def)

section \<open>The growth loop\<close>

lemma da_grow_result:
  assumes "0 < unat capacity" and "unat target \<le> 9223372036854775808"
  shows "\<exists>r c. da_grow max_cap target capacity = Some (r, c) \<and>
     (r = GHR_OK \<and> unat target \<le> unat c \<and> unat capacity \<le> unat c \<and>
        (unat c = unat capacity \<or> unat c < 2 * unat target) \<or>
      r = GHR_DYNAMICARRAY_MAXCAPACITY \<and> max_cap \<noteq> 0 \<and> max_cap < c)"
  using assms(1)
proof (induction "unat target - unat capacity" arbitrary: capacity rule: less_induct)
  case less
  show ?case
  proof (cases "capacity < target")
    case False
    then show ?thesis by (subst da_grow.simps) (simp add: size_less_unat)
  next
    case True
    then have lt: "unat capacity < unat target" by (simp add: size_less_unat)
    with assms(2) have dbl: "unat (capacity * 2) = 2 * unat capacity"
      by (subst unat_mult_nowrap) auto
    have "\<exists>r c. da_grow max_cap target (capacity * 2) = Some (r, c) \<and>
       (r = GHR_OK \<and> unat target \<le> unat c \<and> unat (capacity * 2) \<le> unat c \<and>
          (unat c = unat (capacity * 2) \<or> unat c < 2 * unat target) \<or>
        r = GHR_DYNAMICARRAY_MAXCAPACITY \<and> max_cap \<noteq> 0 \<and> max_cap < c)"
      by (rule less.hyps) (use lt less.prems dbl in auto)
    with True lt dbl show ?thesis
      by (subst da_grow.simps) (auto simp: Let_def)
  qed
qed

text \<open>
  A capacity of 0, or one that has been shifted out of the word, never reaches the target.
\<close>

lemma da_grow_zero:
  assumes "0 < target"
  shows "da_grow 0 target 0 = None"
proof (cases "da_grow 0 target 0")
  case (Some r)
  have "0 < target \<longrightarrow> (0 :: size_t) = 0 \<longrightarrow> (0 :: size_t) = 0 \<longrightarrow> False"
    by (rule da_grow.raw_induct [where P = "\<lambda>m t c r. 0 < t \<longrightarrow> m = 0 \<longrightarrow> c = 0 \<longrightarrow> False", OF _ Some])
      (fastforce simp: Let_def split: if_splits)
  with assms show ?thesis by simp
qed

section \<open>Operations keep the invariant\<close>

lemma ctor_wf:
  assumes "gh_dynamicarray_ctor al opts da = (GHR_OK, da')"
    and "unat (element_size opts) * unat (initial_capacity opts) < 18446744073709551616"
  shows "da_wf opts da' \<and> da_items da' = []"
proof -
  have "element_size opts * initial_capacity opts \<noteq> 0"
    using assms(1) by (auto simp: gh_dynamicarray_ctor_def gh_alloc_new_result ghr_defs split: if_splits)
  then have "unat (element_size opts * initial_capacity opts) \<noteq> 0" by (simp add: unat_eq_0)
  then have "0 < unat (element_size opts)" "0 < unat (initial_capacity opts)"
    using assms(2) by (auto simp: unat_mult_nowrap)
  with assms show ?thesis
    by (auto simp: gh_dynamicarray_ctor_def gh_alloc_new_result ghr_defs da_reserved_def da_items_def
        split: if_splits)
qed

lemma da_slots_reserved: "da_reserved n opts da \<Longrightarrow> da_slots opts da = unat (da_capacity da)"
  by (simp add: da_reserved_def da_slots_def unat_mult_nowrap)

lemma memcpy_end_wf:
  assumes "da_reserved (length xs) opts da"
  shows "\<exists>da'. da_memcpy_end opts da xs = Some (GHR_OK, da') \<and> da_wf opts da' \<and>
     da_items da' = da_items da @ xs \<and> unat (da_size da') = unat (da_size da) + length xs"
proof -
  from assms obtain buf where buf: "da_buffer da = Some buf" "unat (da_size da) \<le> length buf"
      "length buf \<le> unat (da_capacity da)" "unat (da_size da) + length xs \<le> unat (da_capacity da)"
    by (auto simp: da_reserved_def)
  have sz: "unat (da_size da + of_nat (length xs)) = unat (da_size da) + length xs"
    using buf(4) unat_size_bound [of "da_capacity da"]
    by (simp add: unat_add_nowrap unat_of_nat_nowrap)
  have len: "unat (da_size da) + length xs \<le> length (cells_write buf (unat (da_size da)) xs)"
    "length (cells_write buf (unat (da_size da)) xs) \<le> unat (da_capacity da)"
    using buf by (auto simp: length_cells_write)
  show ?thesis
    using assms buf sz len da_slots_reserved [OF assms]
    by (auto simp: da_memcpy_end_def da_reserved_def da_items_def)
qed

lemma room_bounds:
  assumes "da_wf opts da" "da_room opts da n"
  shows "unat (da_size da) + n < 18446744073709551616"
    and "unat (da_capacity da) + n < 4611686018427387904"
    and "unat (element_size opts) * (4 * (unat (da_capacity da) + n)) < 18446744073709551616"
proof -
  let ?e = "unat (element_size opts)" and ?b = "unat (initial_capacity opts) + unat (da_size da) + n"
  have cap: "unat (da_capacity da) + n \<le> 4 * ?b" and e: "1 \<le> ?e"
    using assms(1) by (auto simp: da_reserved_def)
  have room: "?e * (16 * ?b) < 18446744073709551616" using assms(2) by (simp add: da_room_def)
  have "1 * (16 * ?b) \<le> ?e * (16 * ?b)" by (rule mult_right_mono [OF e]) simp
  with room have "16 * ?b < 18446744073709551616" by linarith
  then show "unat (da_size da) + n < 18446744073709551616"
    and "unat (da_capacity da) + n < 4611686018427387904" using cap by auto
  have "?e * (4 * (unat (da_capacity da) + n)) \<le> ?e * (16 * ?b)"
    by (rule mult_left_mono) (use cap in auto)
  with room show "?e * (4 * (unat (da_capacity da) + n)) < 18446744073709551616" by linarith
qed

lemma expandtofit_result:
  assumes wf: "da_wf opts da" and room: "da_room opts da n"
  shows "\<exists>r da'. gh_dynamicarray_expandtofit al opts da (of_nat n) = Some (r, da') \<and>
     da_items da' = da_items da \<and> da_size da' = da_size da \<and>
     (r = GHR_OK \<longrightarrow> da_reserved n opts da') \<and> (r \<noteq> GHR_OK \<longrightarrow> da' = da)"
proof -
  note rb = room_bounds [OF wf room]
  from wf obtain buf where buf: "da_buffer da = Some buf" by (auto simp: da_reserved_def)
  have n: "unat (of_nat n :: size_t) = n" using rb(1) by (simp add: unat_of_nat_nowrap)
  have sz: "unat (da_size da + of_nat n) = unat (da_size da) + n"
    using rb(1) n by (simp add: unat_add_nowrap)
  show ?thesis
  proof (cases "da_size da + of_nat n \<le> da_capacity da")
    case True
    with wf sz show ?thesis
      by (auto simp: gh_dynamicarray_expandtofit_def da_reserved_def size_le_unat)
  next
    case False
    then have gt: "unat (da_capacity da) < unat (da_size da) + n" by (simp add: size_le_unat sz)
    have t: "unat (da_capacity da + of_nat n) = unat (da_capacity da) + n"
      using rb(2) n by (simp add: unat_add_nowrap)
    obtain r c where grow: "da_grow (max_capacity opts) (da_capacity da + of_nat n) (da_capacity da) = Some (r, c)"
      and rc: "r = GHR_OK \<and> unat (da_capacity da) + n \<le> unat c \<and>
          (unat c = unat (da_capacity da) \<or> unat c < 2 * (unat (da_capacity da) + n)) \<or>
        r = GHR_DYNAMICARRAY_MAXCAPACITY"
      using da_grow_result [of "da_capacity da" "da_capacity da + of_nat n" "max_capacity opts"]
        wf rb(2) t by (auto simp: da_reserved_def)
    show ?thesis
    proof (cases "r = GHR_OK")
      case False
      with grow \<open>\<not> da_size da + of_nat n \<le> da_capacity da\<close> show ?thesis
        by (simp add: gh_dynamicarray_expandtofit_def Let_def ghr_defs)
    next
      case True
      with rc have c: "unat (da_capacity da) + n \<le> unat c" "unat c \<le> 2 * (unat (da_capacity da) + n)"
        by auto
      have "unat (element_size opts) * unat c \<le> unat (element_size opts) * (4 * (unat (da_capacity da) + n))"
        by (rule mult_left_mono) (use c in auto)
      with rb(3) have fits: "unat (element_size opts) * unat c < 18446744073709551616" by linarith
      have res: "da_reserved n opts (da\<lparr>da_buffer := Some buf, da_capacity := c, da_block := Suc (da_block da)\<rparr>)"
        using wf buf c gt fits by (auto simp: da_reserved_def)
      have e: "da_buffer da = Some buf \<Longrightarrow> da\<lparr>da_buffer := Some buf\<rparr> = da" by (cases da) simp
      show ?thesis
        using True grow res buf \<open>\<not> da_size da + of_nat n \<le> da_capacity da\<close>
        by (auto simp: gh_dynamicarray_expandtofit_def Let_def ghr_defs gh_alloc_resize_result
            da_items_def e)
    qed
  qed
qed

lemma append_many_result:
  assumes "da_wf opts da" and "da_room opts da (length xs)"
  shows "\<exists>r da'. gh_dynamicarray_appendmany al opts da xs = Some (r, da') \<and> da_wf opts da' \<and>
     (r = GHR_OK \<longrightarrow> da_items da' = da_items da @ xs) \<and> (r \<noteq> GHR_OK \<longrightarrow> da' = da)"
proof -
  obtain r da1 where e: "gh_dynamicarray_expandtofit al opts da (of_nat (length xs)) = Some (r, da1)"
    "da_items da1 = da_items da" "r = GHR_OK \<longrightarrow> da_reserved (length xs) opts da1" "r \<noteq> GHR_OK \<longrightarrow> da1 = da"
    using expandtofit_result [OF assms] by blast
  show ?thesis
  proof (cases "r = GHR_OK")
    case True
    with e(3) obtain da2 where "da_memcpy_end opts da1 xs = Some (GHR_OK, da2)" "da_wf opts da2"
      "da_items da2 = da_items da1 @ xs"
      using memcpy_end_wf by blast
    with True e show ?thesis by (simp add: gh_dynamicarray_appendmany_def)
  next
    case False
    with e assms(1) show ?thesis by (simp add: gh_dynamicarray_appendmany_def)
  qed
qed

lemma append_eq_appendmany: "gh_dynamicarray_append al opts da x = gh_dynamicarray_appendmany al opts da [x]"
  by (simp add: gh_dynamicarray_append_def gh_dynamicarray_appendmany_def)

lemma append_result:
  assumes "da_wf opts da" and "da_room opts da 1"
  shows "\<exists>r da'. gh_dynamicarray_append al opts da x = Some (r, da') \<and> da_wf opts da' \<and>
     (r = GHR_OK \<longrightarrow> da_items da' = da_items da @ [x]) \<and> (r \<noteq> GHR_OK \<longrightarrow> da' = da)"
  using append_many_result [of opts da "[x]" al] assms by (simp add: append_eq_appendmany)

text \<open>Without a maximal capacity, an allocator that always delivers makes every append succeed.\<close>

definition al_total :: "gh_alloc \<Rightarrow> bool" where
  "al_total al \<longleftrightarrow> (\<forall>old_size new_size. al old_size new_size = GHR_OK)"

lemma ex_alloc_total: "al_total ex_alloc"
  by (simp add: al_total_def ex_alloc_def)

lemma da_bytes_nonzero:
  assumes "0 < unat (e :: size_t)" "0 < unat (c :: size_t)" "unat e * unat c < 18446744073709551616"
  shows "e * c \<noteq> 0"
proof -
  have "unat (e * c) = unat e * unat c" using assms(3) by (simp add: unat_mult_nowrap)
  with assms(1,2) have "unat (e * c) \<noteq> 0" by simp
  then show ?thesis by auto
qed

lemma expandtofit_succeeds:
  assumes wf: "da_wf opts da" and room: "da_room opts da n"
    and al: "al_total al" and max: "max_capacity opts = 0"
  shows "\<exists>da'. gh_dynamicarray_expandtofit al opts da (of_nat n) = Some (GHR_OK, da')"
proof (cases "da_size da + of_nat n \<le> da_capacity da")
  case True
  then show ?thesis by (simp add: gh_dynamicarray_expandtofit_def)
next
  case False
  note rb = room_bounds [OF wf room]
  from wf obtain buf where buf: "da_buffer da = Some buf" by (auto simp: da_reserved_def)
  have n: "unat (of_nat n :: size_t) = n" using rb(1) by (simp add: unat_of_nat_nowrap)
  have t: "unat (da_capacity da + of_nat n) = unat (da_capacity da) + n"
    using rb(2) n by (simp add: unat_add_nowrap)
  obtain c where grow: "da_grow (max_capacity opts) (da_capacity da + of_nat n) (da_capacity da) = Some (GHR_OK, c)"
    and c: "unat (da_capacity da) \<le> unat c" "unat c \<le> 2 * (unat (da_capacity da) + n)"
    using da_grow_result [of "da_capacity da" "da_capacity da + of_nat n" "max_capacity opts"]
      wf rb(2) t max by (auto simp: da_reserved_def)
  have "unat (element_size opts) * unat c \<le> unat (element_size opts) * (4 * (unat (da_capacity da) + n))"
    by (rule mult_left_mono) (use c in auto)
  with rb(3) have "unat (element_size opts) * unat c < 18446744073709551616" by linarith
  then have "element_size opts * c \<noteq> 0"
    using wf c(1) by (intro da_bytes_nonzero) (auto simp: da_reserved_def)
  moreover have "element_size opts * da_capacity da \<noteq> 0"
    using wf by (intro da_bytes_nonzero) (auto simp: da_reserved_def)
  ultimately show ?thesis
    using False grow buf al
    by (simp add: gh_dynamicarray_expandtofit_def ghr_defs gh_alloc_resize_result al_total_def)
qed

lemma append_succeeds:
  assumes "da_wf opts da" "da_room opts da 1" "al_total al" "max_capacity opts = 0"
  shows "\<exists>da'. gh_dynamicarray_append al opts da x = Some (GHR_OK, da') \<and> da_wf opts da' \<and>
     da_items da' = da_items da @ [x]"
proof -
  from expandtofit_succeeds [OF assms] obtain da1 where
    e: "gh_dynamicarray_expandtofit al opts da 1 = Some (GHR_OK, da1)" by auto
  with expandtofit_result [OF assms(1,2), of al] have "da_reserved (length [x]) opts da1" by auto
  from memcpy_end_wf [OF this] obtain da2 where "da_memcpy_end opts da1 [x] = Some (GHR_OK, da2)" by blast
  with e have "gh_dynamicarray_append al opts da x = Some (GHR_OK, da2)"
    by (simp add: gh_dynamicarray_append_def ghr_then_def ghr_defs)
  with append_result [OF assms(1,2), of al x] show ?thesis by auto
qed

lemma da_shift_result:
  "i \<le> lst \<Longrightarrow> lst < length buf \<Longrightarrow>
   \<exists>buf'. da_shift i lst buf = Some buf' \<and> length buf' = length buf \<and>
     take lst buf' = take i buf @ drop (Suc i) (take (Suc lst) buf)"
proof (induction i lst buf rule: da_shift.induct)
  case (1 i lst buf)
  show ?case
  proof (cases "i < lst")
    case False
    with "1.prems" show ?thesis by (subst da_shift.simps) simp
  next
    case True
    with "1.prems" have i: "Suc i < length buf" by simp
    let ?b = "buf[i := buf ! Suc i]"
    obtain buf' where sh: "da_shift (Suc i) lst ?b = Some buf'" "length buf' = length ?b"
      and tk: "take lst buf' = take (Suc i) ?b @ drop (Suc (Suc i)) (take (Suc lst) ?b)"
      using "1.IH" [OF True i] True "1.prems" by auto
    have "take (Suc i) ?b = take i buf @ [buf ! Suc i]"
      using i by (simp add: take_Suc_conv_app_nth)
    moreover have "drop (Suc (Suc i)) (take (Suc lst) ?b) = drop (Suc (Suc i)) (take (Suc lst) buf)"
      by (simp add: take_update_swap)
    moreover have "drop (Suc i) (take (Suc lst) buf) = buf ! Suc i # drop (Suc (Suc i)) (take (Suc lst) buf)"
      using True i "1.prems" Cons_nth_drop_Suc [of "Suc i" "take (Suc lst) buf"] by simp
    ultimately have "take (Suc i) ?b @ drop (Suc (Suc i)) (take (Suc lst) ?b) =
        take i buf @ drop (Suc i) (take (Suc lst) buf)" by simp
    with sh tk True i show ?thesis by (subst da_shift.simps) simp
  qed
qed

lemma removeat_result:
  assumes wf: "da_reserved 0 opts da" and ix: "unat index < unat (da_size da)"
    and nodtor: "dtorelement_func opts = None"
  shows "\<exists>da'. gh_dynamicarray_removeat opts da index = Some (GHR_OK, da') \<and>
     da_items da' = take (unat index) (da_items da) @ drop (Suc (unat index)) (da_items da)"
proof -
  from wf obtain buf where buf: "da_buffer da = Some buf" "unat (da_size da) \<le> length buf"
    by (auto simp: da_reserved_def)
  have s: "unat (da_size da - 1) = unat (da_size da) - 1"
    using ix by (subst unat_sub_nowrap) (auto simp: size_le_unat)
  have "Suc (unat (da_size da - 1)) = unat (da_size da)" using ix s by simp
  moreover obtain buf' where
    "da_shift (unat index) (unat (da_size da - 1)) buf = Some buf'"
    "take (unat (da_size da - 1)) buf' =
       take (unat index) buf @ drop (Suc (unat index)) (take (Suc (unat (da_size da - 1))) buf)"
  proof -
    have "unat index \<le> unat (da_size da - 1)" "unat (da_size da - 1) < length buf"
      using ix s buf by auto
    from da_shift_result [OF this] show ?thesis using that by blast
  qed
  ultimately show ?thesis
    using ix buf nodtor
    by (auto simp: gh_dynamicarray_removeat_def da_items_def ghr_defs size_le_unat take_all min_def)
qed

lemma getat_result:
  assumes "da_wf opts da"
  shows "gh_dynamicarray_getat da index =
     (if unat index < length (da_items da) then (GHR_OK, Some (da_block da, unat index))
      else (GHR_DYNAMICARRAY_OUTOFBOUNDS, None))"
  using da_items_length [OF assms] by (auto simp: gh_dynamicarray_getat_def size_le_unat)

lemma deref_items:
  assumes "da_wf opts da" "i < length (da_items da)"
  shows "da_deref da (da_block da, i) = Some (da_items da ! i)"
  using assms by (auto simp: da_deref_def da_reserved_def da_items_def)

lemma store_items:
  assumes "da_wf opts da" "i < length (da_items da)"
  shows "\<exists>da'. da_store da (da_block da, i) x = Some da' \<and> da_wf opts da' \<and>
     da_items da' = (da_items da)[i := x] \<and> da_block da' = da_block da \<and> da_size da' = da_size da"
  using assms by (auto simp: da_store_def da_reserved_def da_items_def take_update_swap)

section \<open>The contract the containers rely on\<close>

text \<open>
  A growable sequence: pushing an element either succeeds and appends it, or reports an error and
  changes nothing, and it always has a defined result while there is room.
\<close>

locale growable =
  fixes inv :: "'d \<Rightarrow> bool"
    and room :: "'d \<Rightarrow> nat \<Rightarrow> bool"
    and items :: "'d \<Rightarrow> 'a list"
    and push :: "'d \<Rightarrow> 'a \<Rightarrow> (gh_result \<times> 'd) option"
  assumes push_result: "inv d \<Longrightarrow> room d 1 \<Longrightarrow>
      \<exists>r d'. push d x = Some (r, d') \<and> inv d' \<and> (r = GHR_OK \<longrightarrow> items d' = items d @ [x]) \<and>
        (r \<noteq> GHR_OK \<longrightarrow> d' = d)"
    and push_room: "inv d \<Longrightarrow> room d (Suc n) \<Longrightarrow> push d x = Some (GHR_OK, d') \<Longrightarrow> room d' n"
    and room_mono: "room d n \<Longrightarrow> m \<le> n \<Longrightarrow> room d m"
begin

lemma push_ok:
  "inv d \<Longrightarrow> room d 1 \<Longrightarrow> push d x = Some (GHR_OK, d') \<Longrightarrow> inv d' \<and> items d' = items d @ [x]"
  using push_result [of d x] by auto

lemma push_err:
  "inv d \<Longrightarrow> room d 1 \<Longrightarrow> push d x = Some (r, d') \<Longrightarrow> r \<noteq> GHR_OK \<Longrightarrow> d' = d"
  using push_result [of d x] by auto

lemma push_defined: "inv d \<Longrightarrow> room d 1 \<Longrightarrow> push d x \<noteq> None"
  using push_result [of d x] by auto

text \<open>A sequence of pushes that stops at the first error, as a list of guarded calls does.\<close>

fun push_all :: "'d \<Rightarrow> 'a list \<Rightarrow> (gh_result \<times> 'd) option" where
  "push_all d [] = Some (GHR_OK, d)"
| "push_all d (x # xs) = ghr_then (push d x) (\<lambda>d. push_all d xs)"

lemma push_all_result:
  "inv d \<Longrightarrow> room d (length xs) \<Longrightarrow>
   \<exists>r d' k. push_all d xs = Some (r, d') \<and> inv d' \<and> k \<le> length xs \<and> items d' = items d @ take k xs \<and>
     (r = GHR_OK \<longrightarrow> k = length xs)"
proof (induction xs arbitrary: d)
  case Nil
  then show ?case by auto
next
  case (Cons x xs)
  then have room: "room d (Suc (length xs))" "room d 1" by (auto intro: room_mono)
  obtain r d1 where push: "push d x = Some (r, d1)" "inv d1"
    "r = GHR_OK \<longrightarrow> items d1 = items d @ [x]" "r \<noteq> GHR_OK \<longrightarrow> d1 = d"
    using push_result [OF Cons.prems(1) room(2)] by blast
  show ?case
  proof (cases "r = GHR_OK")
    case True
    with push room(1) Cons.prems(1) have "room d1 (length xs)" by (auto intro: push_room)
    from Cons.IH [OF push(2) this] obtain r' d' k where
      "push_all d1 xs = Some (r', d')" "inv d'" "k \<le> length xs" "items d' = items d1 @ take k xs"
      "r' = GHR_OK \<longrightarrow> k = length xs" by blast
    with push True show ?thesis
      by (intro exI [of _ r'] exI [of _ d'] exI [of _ "Suc k"]) simp
  next
    case False
    with push Cons.prems show ?thesis
      by (intro exI [of _ r] exI [of _ d1] exI [of _ 0]) simp
  qed
qed

end

lemma da_room_mono:
  assumes "da_room opts da n" "m \<le> n"
  shows "da_room opts da m"
proof -
  have "unat (element_size opts) * (16 * (unat (initial_capacity opts) + unat (da_size da) + m)) \<le>
        unat (element_size opts) * (16 * (unat (initial_capacity opts) + unat (da_size da) + n))"
    using assms(2) by (intro mult_le_mono2) simp
  with assms(1) show ?thesis unfolding da_room_def by linarith
qed

lemma da_room_append:
  assumes "da_wf opts da" "da_room opts da (Suc n)" "gh_dynamicarray_append al opts da x = Some (GHR_OK, da')"
  shows "da_room opts da' n"
proof -
  have "da_room opts da 1" by (rule da_room_mono [OF assms(2)]) simp
  with append_result [OF assms(1), of al x] assms(3)
  have "da_items da' = da_items da @ [x]" "da_wf opts da'" by auto
  then have "unat (da_size da') = Suc (unat (da_size da))"
    using da_items_length [OF assms(1)] da_items_length by (metis length_append_singleton)
  with assms(2) show ?thesis by (simp add: da_room_def algebra_simps)
qed

interpretation dyn: growable "da_wf opts" "da_room opts" da_items "gh_dynamicarray_append al opts"
  for opts :: "'a gh_dynamicarrayoptions" and al
proof (unfold_locales, goal_cases)
  case (1 d x)
  then show ?case using append_result [of opts d al x] by simp
next
  case (2 d n x d')
  then show ?case by (rule da_room_append)
next
  case (3 d n m)
  then show ?case by (rule da_room_mono)
qed

end
