(* ===== verification/Strings.thy ===== *)
theory Strings
  imports Prelude "HOL-Library.Sublist"
begin

text \<open>
  The fat pointers of \<^verbatim>\<open>strings.h\<close> and \<^verbatim>\<open>strings.c\<close>. A \<^verbatim>\<open>gh_conststr\<close> points at
  characters that are only read: its buffer is the list of the characters from the pointer on,
  with or without a terminator. A \<^verbatim>\<open>gh_str\<close> points at an object that is written: its buffer is the
  whole object, and an access outside it has no defined result. \<open>cs_view\<close> and \<open>st_view\<close> are the
  strings the two denote.
\<close>

section \<open>Data\<close>

record gh_conststr =
  cs_buffer :: string
  cs_size :: size_t

record gh_str =
  st_buffer :: string
  st_size :: size_t
  st_capacity :: size_t

definition cs_view :: "gh_conststr \<Rightarrow> string" where
  "cs_view s = take (unat (cs_size s)) (cs_buffer s)"

definition st_view :: "gh_str \<Rightarrow> string" where
  "st_view s = take (unat (st_size s)) (st_buffer s)"

text \<open>\<^verbatim>\<open>strncpy(dst + off, src, n)\<close> writes exactly \<open>n\<close> characters, NULs after the end of the source.\<close>

definition c_strncpy :: "string \<Rightarrow> nat \<Rightarrow> string \<Rightarrow> nat \<Rightarrow> string option" where
  "c_strncpy dst off src n =
     (if off + n \<le> length dst
      then Some (cells_write dst off (take n (cstr src) @ replicate (n - strlen src) NUL))
      else None)"

definition c_strlen :: "string \<Rightarrow> size_t" where
  "c_strlen s = of_nat (strlen s)"

section \<open>Constant strings\<close>

definition gh_conststr_fromc :: "string \<Rightarrow> size_t \<Rightarrow> gh_conststr" where
  "gh_conststr_fromc buf sz = \<lparr>cs_buffer = buf, cs_size = sz\<rparr>"

definition gh_conststr_fromz :: "string \<Rightarrow> gh_conststr" where
  "gh_conststr_fromz buf = \<lparr>cs_buffer = buf, cs_size = c_strlen buf\<rparr>"

definition gh_conststr_fromlit :: "string \<Rightarrow> gh_conststr" where
  "gh_conststr_fromlit lit = gh_conststr_fromc lit (of_nat (length lit))"

definition gh_conststr_eqlsrs :: "gh_conststr \<Rightarrow> gh_conststr \<Rightarrow> bool" where
  "gh_conststr_eqlsrs lhs rhs \<longleftrightarrow>
     cs_size lhs = cs_size rhs \<and> strncmp_eq (cs_buffer lhs) (cs_buffer rhs) (unat (cs_size lhs))"

definition gh_conststr_eqs :: "gh_conststr \<Rightarrow> gh_conststr \<Rightarrow> bool" where
  "gh_conststr_eqs lhs rhs = gh_conststr_eqlsrs lhs rhs"

definition gh_conststr_eqlcrs :: "string \<Rightarrow> size_t \<Rightarrow> gh_conststr \<Rightarrow> bool" where
  "gh_conststr_eqlcrs lhs lhs_size rhs \<longleftrightarrow>
     lhs_size = cs_size rhs \<and> strncmp_eq lhs (cs_buffer rhs) (unat lhs_size)"

definition gh_conststr_eqlsrc :: "gh_conststr \<Rightarrow> string \<Rightarrow> size_t \<Rightarrow> bool" where
  "gh_conststr_eqlsrc lhs rhs rhs_size \<longleftrightarrow>
     cs_size lhs = rhs_size \<and> strncmp_eq (cs_buffer lhs) rhs (unat (cs_size lhs))"

definition gh_conststr_eqc :: "gh_conststr \<Rightarrow> string \<Rightarrow> size_t \<Rightarrow> bool" where
  "gh_conststr_eqc lhs rhs rhs_size = gh_conststr_eqlsrc lhs rhs rhs_size"

definition gh_conststr_eqlcrc :: "string \<Rightarrow> size_t \<Rightarrow> string \<Rightarrow> size_t \<Rightarrow> bool" where
  "gh_conststr_eqlcrc lhs lhs_size rhs rhs_size \<longleftrightarrow>
     lhs_size = rhs_size \<and> strncmp_eq lhs rhs (unat lhs_size)"

definition gh_conststr_eqlzrs :: "string \<Rightarrow> gh_conststr \<Rightarrow> bool" where
  "gh_conststr_eqlzrs lhs rhs \<longleftrightarrow>
     c_strlen lhs = cs_size rhs \<and> strncmp_eq lhs (cs_buffer rhs) (unat (cs_size rhs))"

definition gh_conststr_eqlsrz :: "gh_conststr \<Rightarrow> string \<Rightarrow> bool" where
  "gh_conststr_eqlsrz lhs rhs \<longleftrightarrow>
     cs_size lhs = c_strlen rhs \<and> strncmp_eq (cs_buffer lhs) rhs (unat (cs_size lhs))"

definition gh_conststr_eqz :: "gh_conststr \<Rightarrow> string \<Rightarrow> bool" where
  "gh_conststr_eqz lhs rhs = gh_conststr_eqlsrz lhs rhs"

definition gh_conststr_eqlzrc :: "string \<Rightarrow> string \<Rightarrow> size_t \<Rightarrow> bool" where
  "gh_conststr_eqlzrc lhs rhs rhs_size \<longleftrightarrow>
     c_strlen lhs = rhs_size \<and> strncmp_eq lhs rhs (unat rhs_size)"

definition gh_conststr_eqlcrz :: "string \<Rightarrow> size_t \<Rightarrow> string \<Rightarrow> bool" where
  "gh_conststr_eqlcrz lhs lhs_size rhs \<longleftrightarrow>
     lhs_size = c_strlen rhs \<and> strncmp_eq lhs rhs (unat lhs_size)"

definition gh_conststr_eqlzrz :: "string \<Rightarrow> string \<Rightarrow> bool" where
  "gh_conststr_eqlzrz lhs rhs \<longleftrightarrow>
     (let lhs_size = c_strlen lhs in
      lhs_size = c_strlen rhs \<and> strncmp_eq lhs rhs (unat lhs_size))"

definition gh_conststr_fitsinc :: "gh_conststr \<Rightarrow> size_t \<Rightarrow> bool" where
  "gh_conststr_fitsinc s buffer_size \<longleftrightarrow> cs_size s \<le> buffer_size"

definition gh_conststr_fitsinz :: "gh_conststr \<Rightarrow> size_t \<Rightarrow> bool" where
  "gh_conststr_fitsinz s buffer_size \<longleftrightarrow> cs_size s < buffer_size"

text \<open>The copies return their result and the destination object.\<close>

definition gh_conststr_copyc :: "gh_conststr \<Rightarrow> string \<Rightarrow> size_t \<Rightarrow> (bool \<times> string) option" where
  "gh_conststr_copyc s c c_size =
     (if \<not> gh_conststr_fitsinc s c_size then Some (False, c)
      else map_option (Pair True) (c_strncpy c 0 (cs_buffer s) (unat (cs_size s))))"

definition gh_conststr_copyz :: "gh_conststr \<Rightarrow> string \<Rightarrow> size_t \<Rightarrow> (bool \<times> string) option" where
  "gh_conststr_copyz s c c_size =
     (if \<not> gh_conststr_fitsinz s c_size then Some (False, c)
      else Option.bind (c_strncpy c 0 (cs_buffer s) (unat (cs_size s))) (\<lambda>c.
           if unat (cs_size s) < length c then Some (True, c[unat (cs_size s) := NUL]) else None))"

section \<open>Mutable strings\<close>

definition gh_str_fromc :: "string \<Rightarrow> size_t \<Rightarrow> size_t \<Rightarrow> gh_str" where
  "gh_str_fromc buf sz capacity = \<lparr>st_buffer = buf, st_size = sz, st_capacity = capacity\<rparr>"

definition gh_str_fromz :: "string \<Rightarrow> size_t \<Rightarrow> gh_str" where
  "gh_str_fromz buf capacity =
     (let sz = c_strlen buf; sz = (if sz > capacity then capacity else sz)
      in gh_str_fromc buf sz capacity)"

definition gh_str_endswiths :: "gh_str \<Rightarrow> gh_str \<Rightarrow> bool" where
  "gh_str_endswiths str s \<longleftrightarrow>
     (if st_size s > st_size str then False
      else strncmp_eq (drop (unat (st_size str - st_size s)) (st_buffer str)) (st_buffer s)
             (unat (st_size s)))"

definition gh_str_endswithc :: "gh_str \<Rightarrow> string \<Rightarrow> size_t \<Rightarrow> bool" where
  "gh_str_endswithc str s sz \<longleftrightarrow>
     (if sz > st_size str then False
      else strncmp_eq (drop (unat (st_size str - sz)) (st_buffer str)) s (unat sz))"

definition gh_str_endswithz :: "gh_str \<Rightarrow> string \<Rightarrow> bool" where
  "gh_str_endswithz str s = gh_str_endswithc str s (c_strlen s)"

definition gh_str_trimrightn :: "gh_str \<Rightarrow> size_t \<Rightarrow> gh_str" where
  "gh_str_trimrightn str n = (if st_size str \<ge> n then str\<lparr>st_size := st_size str - n\<rparr> else str)"

text \<open>
  The loop of \<^verbatim>\<open>gh_str_trimrightchar\<close> over \<open>i\<close>; \<open>n\<close> is \<^verbatim>\<open>initial_size\<close>, \<open>sz\<close> is
  \<^verbatim>\<open>str->size\<close>.
\<close>

function st_trim_loop :: "nat \<Rightarrow> nat \<Rightarrow> string \<Rightarrow> char \<Rightarrow> size_t \<Rightarrow> size_t option" where
  "st_trim_loop i n buf c sz =
     (if i < n then
        (let j = n - i - 1 in
         if j < length buf
         then st_trim_loop (Suc i) n buf c (if buf ! j = c then sz - 1 else sz)
         else None)
      else Some sz)"
  by pat_completeness auto
termination
  by (relation "measure (\<lambda>(i, n, _). n - i)") auto

definition gh_str_trimrightchar :: "gh_str \<Rightarrow> char \<Rightarrow> gh_str option" where
  "gh_str_trimrightchar str c =
     map_option (\<lambda>sz. str\<lparr>st_size := sz\<rparr>)
       (st_trim_loop 0 (unat (st_size str)) (st_buffer str) c (st_size str))"

text \<open>\<^verbatim>\<open>str->buffer[i] = c\<close>\<close>

definition st_put :: "gh_str \<Rightarrow> nat \<Rightarrow> char \<Rightarrow> gh_str option" where
  "st_put str i c =
     (if i < length (st_buffer str) then Some (str\<lparr>st_buffer := (st_buffer str)[i := c]\<rparr>) else None)"

definition gh_str_insertnull :: "gh_str \<Rightarrow> (bool \<times> gh_str) option" where
  "gh_str_insertnull str =
     (if st_size str \<ge> st_capacity str then Some (False, str)
      else map_option (\<lambda>str. (True, str\<lparr>st_size := st_size str + 1\<rparr>))
             (st_put str (unat (st_size str)) NUL))"

text \<open>\<open>None\<close> inside is the result false, \<open>Some j\<close> the result true with \<^verbatim>\<open>*out_pos = j\<close>.\<close>

function st_rpos_loop :: "nat \<Rightarrow> nat \<Rightarrow> string \<Rightarrow> char \<Rightarrow> nat option option" where
  "st_rpos_loop i n buf c =
     (if i < n then
        (let j = n - i - 1 in
         if j < length buf
         then (if buf ! j = c then Some (Some j) else st_rpos_loop (Suc i) n buf c)
         else None)
      else Some None)"
  by pat_completeness auto
termination
  by (relation "measure (\<lambda>(i, n, _). n - i)") auto

definition gh_str_rpos :: "gh_str \<Rightarrow> char \<Rightarrow> nat option option" where
  "gh_str_rpos str c = st_rpos_loop 0 (unat (st_size str)) (st_buffer str) c"

definition gh_str_appendchar :: "gh_str \<Rightarrow> char \<Rightarrow> (bool \<times> gh_str) option" where
  "gh_str_appendchar str c =
     (let remaining = st_capacity str - st_size str in
      if remaining < 1 then Some (False, str)
      else map_option (\<lambda>str. (True, str\<lparr>st_size := st_size str + 1\<rparr>))
             (st_put str (unat (st_size str)) c))"

definition gh_str_appendc :: "gh_str \<Rightarrow> string \<Rightarrow> size_t \<Rightarrow> bool \<Rightarrow> (bool \<times> gh_str) option" where
  "gh_str_appendc str s sz allow_trunc =
     (let remaining = st_capacity str - st_size str; trunc = remaining < sz in
      if trunc \<and> \<not> allow_trunc then Some (False, str)
      else
        (let sz = (if trunc then remaining else sz) in
         map_option (\<lambda>buf. (\<not> trunc, str\<lparr>st_buffer := buf, st_size := st_size str + sz\<rparr>))
           (c_strncpy (st_buffer str) (unat (st_size str)) s (unat sz))))"

definition gh_str_appendz :: "gh_str \<Rightarrow> string \<Rightarrow> bool \<Rightarrow> (bool \<times> gh_str) option" where
  "gh_str_appendz str s allow_trunc = gh_str_appendc str s (c_strlen s) allow_trunc"

definition gh_str_eqlsrs :: "gh_str \<Rightarrow> gh_str \<Rightarrow> bool" where
  "gh_str_eqlsrs lhs rhs \<longleftrightarrow>
     st_size lhs = st_size rhs \<and> strncmp_eq (st_buffer lhs) (st_buffer rhs) (unat (st_size lhs))"

definition gh_str_eqs :: "gh_str \<Rightarrow> gh_str \<Rightarrow> bool" where
  "gh_str_eqs lhs rhs = gh_str_eqlsrs lhs rhs"

definition gh_str_eqlcrs :: "string \<Rightarrow> size_t \<Rightarrow> gh_str \<Rightarrow> bool" where
  "gh_str_eqlcrs lhs lhs_size rhs \<longleftrightarrow>
     lhs_size = st_size rhs \<and> strncmp_eq lhs (st_buffer rhs) (unat lhs_size)"

definition gh_str_eqlsrc :: "gh_str \<Rightarrow> string \<Rightarrow> size_t \<Rightarrow> bool" where
  "gh_str_eqlsrc lhs rhs rhs_size \<longleftrightarrow>
     st_size lhs = rhs_size \<and> strncmp_eq (st_buffer lhs) rhs (unat (st_size lhs))"

definition gh_str_eqc :: "gh_str \<Rightarrow> string \<Rightarrow> size_t \<Rightarrow> bool" where
  "gh_str_eqc lhs rhs rhs_size = gh_str_eqlsrc lhs rhs rhs_size"

definition gh_str_eqlcrc :: "string \<Rightarrow> size_t \<Rightarrow> string \<Rightarrow> size_t \<Rightarrow> bool" where
  "gh_str_eqlcrc lhs lhs_size rhs rhs_size \<longleftrightarrow>
     lhs_size = rhs_size \<and> strncmp_eq lhs rhs (unat lhs_size)"

definition gh_str_eqlzrs :: "string \<Rightarrow> gh_str \<Rightarrow> bool" where
  "gh_str_eqlzrs lhs rhs \<longleftrightarrow>
     c_strlen lhs = st_size rhs \<and> strncmp_eq lhs (st_buffer rhs) (unat (st_size rhs))"

definition gh_str_eqlsrz :: "gh_str \<Rightarrow> string \<Rightarrow> bool" where
  "gh_str_eqlsrz lhs rhs \<longleftrightarrow>
     st_size lhs = c_strlen rhs \<and> strncmp_eq (st_buffer lhs) rhs (unat (st_size lhs))"

definition gh_str_eqz :: "gh_str \<Rightarrow> string \<Rightarrow> bool" where
  "gh_str_eqz lhs rhs = gh_str_eqlsrz lhs rhs"

definition gh_str_eqlzrc :: "string \<Rightarrow> string \<Rightarrow> size_t \<Rightarrow> bool" where
  "gh_str_eqlzrc lhs rhs rhs_size \<longleftrightarrow>
     c_strlen lhs = rhs_size \<and> strncmp_eq lhs rhs (unat rhs_size)"

definition gh_str_eqlcrz :: "string \<Rightarrow> size_t \<Rightarrow> string \<Rightarrow> bool" where
  "gh_str_eqlcrz lhs lhs_size rhs \<longleftrightarrow>
     lhs_size = c_strlen rhs \<and> strncmp_eq lhs rhs (unat lhs_size)"

definition gh_str_eqlzrz :: "string \<Rightarrow> string \<Rightarrow> bool" where
  "gh_str_eqlzrz lhs rhs \<longleftrightarrow>
     (let lhs_size = c_strlen lhs in
      lhs_size = c_strlen rhs \<and> strncmp_eq lhs rhs (unat lhs_size))"

definition gh_str_fitsinc :: "gh_str \<Rightarrow> size_t \<Rightarrow> bool" where
  "gh_str_fitsinc s buffer_size \<longleftrightarrow> st_size s \<le> buffer_size"

definition gh_str_fitsinz :: "gh_str \<Rightarrow> size_t \<Rightarrow> bool" where
  "gh_str_fitsinz s buffer_size \<longleftrightarrow> st_size s < buffer_size"

definition gh_str_copyc :: "gh_str \<Rightarrow> string \<Rightarrow> size_t \<Rightarrow> (bool \<times> string) option" where
  "gh_str_copyc s c c_size =
     (if \<not> gh_str_fitsinc s c_size then Some (False, c)
      else map_option (Pair True) (c_strncpy c 0 (st_buffer s) (unat (st_size s))))"

definition gh_str_copyz :: "gh_str \<Rightarrow> string \<Rightarrow> size_t \<Rightarrow> (bool \<times> string) option" where
  "gh_str_copyz s c c_size =
     (if \<not> gh_str_fitsinz s c_size then Some (False, c)
      else Option.bind (c_strncpy c 0 (st_buffer s) (unat (st_size s))) (\<lambda>c.
           if unat (st_size s) < length c then Some (True, c[unat (st_size s) := NUL]) else None))"

declare st_trim_loop.simps [simp del] st_rpos_loop.simps [simp del]

section \<open>Well-formed fat pointers\<close>

text \<open>
  The string a fat pointer denotes lies inside its object and holds no NUL; a mutable string stays
  inside its capacity, and the capacity inside the object.
\<close>

definition cs_wf :: "gh_conststr \<Rightarrow> bool" where
  "cs_wf s \<longleftrightarrow> unat (cs_size s) \<le> length (cs_buffer s) \<and> nul_free (cs_view s)"

definition st_wf :: "gh_str \<Rightarrow> bool" where
  "st_wf s \<longleftrightarrow> st_size s \<le> st_capacity s \<and> unat (st_capacity s) \<le> length (st_buffer s)"

text \<open>\<^verbatim>\<open>strncmp\<close> reads no more than \<open>n\<close> characters of either buffer.\<close>

lemma strncmp_eq_takes:
  "nul_free (take n a) \<Longrightarrow> nul_free (take n b) \<Longrightarrow> n \<le> length a \<Longrightarrow> n \<le> length b \<Longrightarrow>
   strncmp_eq a b n \<longleftrightarrow> take n a = take n b"
proof (induction n arbitrary: a b)
  case 0
  then show ?case by simp
next
  case (Suc n)
  then show ?case by (cases a; cases b) auto
qed

text \<open>The second buffer may end with the string instead of going on.\<close>

lemma strncmp_eq_literal:
  assumes "nul_free (take (length b) a)" "nul_free b" "length b \<le> length a"
  shows "strncmp_eq a b (length b) \<longleftrightarrow> take (length b) a = b"
  using strncmp_eq_takes [of "length b" a b] assms by simp

lemma cs_view_length: "cs_wf s \<Longrightarrow> length (cs_view s) = unat (cs_size s)"
  by (simp add: cs_wf_def cs_view_def)

lemma st_wf_size: "st_wf s \<Longrightarrow> unat (st_size s) \<le> unat (st_capacity s)"
  by (simp add: st_wf_def size_le_unat)

lemma st_view_length: "st_wf s \<Longrightarrow> length (st_view s) = unat (st_size s)"
  using st_wf_size [of s] by (simp add: st_wf_def st_view_def)

lemma c_strlen_nul_free:
  "nul_free s \<Longrightarrow> length s < 18446744073709551616 \<Longrightarrow> unat (c_strlen s) = length s"
  by (simp add: c_strlen_def strlen_nul_free unat_of_nat_nowrap)

section \<open>Comparison is equality of the strings\<close>

lemma cs_eqlsrs_view:
  assumes "cs_wf a" "cs_wf b"
  shows "gh_conststr_eqlsrs a b \<longleftrightarrow> cs_view a = cs_view b"
proof -
  have "cs_size a = cs_size b \<longleftrightarrow> length (cs_view a) = length (cs_view b)"
    using assms by (simp add: cs_view_length word_unat_eq_iff)
  moreover have "cs_size a = cs_size b \<Longrightarrow>
      strncmp_eq (cs_buffer a) (cs_buffer b) (unat (cs_size a)) \<longleftrightarrow> cs_view a = cs_view b"
    using assms by (simp add: cs_wf_def cs_view_def strncmp_eq_takes)
  ultimately show ?thesis unfolding gh_conststr_eqlsrs_def by metis
qed

lemma cs_eqlsrz_view:
  assumes "cs_wf a" "nul_free b" "length b < 18446744073709551616"
  shows "gh_conststr_eqlsrz a b \<longleftrightarrow> cs_view a = b"
proof -
  have sz: "cs_size a = c_strlen b \<longleftrightarrow> unat (cs_size a) = length b"
    using assms by (simp add: c_strlen_nul_free word_unat_eq_iff)
  show ?thesis
  proof (cases "unat (cs_size a) = length b")
    case True
    with assms show ?thesis
      by (simp add: gh_conststr_eqlsrz_def sz cs_wf_def cs_view_def strncmp_eq_literal)
  next
    case False
    with assms sz show ?thesis
      by (auto simp: gh_conststr_eqlsrz_def dest: cs_view_length)
  qed
qed

lemma cs_eqlsrc_view:
  assumes "cs_wf a" "nul_free b" "n = of_nat (length b)" "length b < 18446744073709551616"
  shows "gh_conststr_eqlsrc a b n \<longleftrightarrow> cs_view a = b"
  using cs_eqlsrz_view [OF assms(1,2,4)] assms
  by (simp add: gh_conststr_eqlsrc_def gh_conststr_eqlsrz_def c_strlen_def strlen_nul_free)

lemma eqlzrz_exact:
  assumes "nul_free a" "nul_free b" "length a < 18446744073709551616" "length b < 18446744073709551616"
  shows "gh_str_eqlzrz a b \<longleftrightarrow> a = b" "gh_conststr_eqlzrz a b \<longleftrightarrow> a = b"
proof -
  have sz: "c_strlen a = c_strlen b \<longleftrightarrow> length a = length b"
    unfolding word_unat_eq_iff using assms by (simp add: c_strlen_nul_free)
  have "strncmp_eq a b (unat (c_strlen a)) \<longleftrightarrow> a = b" if "length a = length b"
    using that assms by (simp add: c_strlen_nul_free strncmp_eq_same_length)
  with sz show "gh_str_eqlzrz a b \<longleftrightarrow> a = b" "gh_conststr_eqlzrz a b \<longleftrightarrow> a = b"
    by (auto simp: gh_str_eqlzrz_def gh_conststr_eqlzrz_def Let_def)
qed

lemma cs_fromz_view:
  "nul_free s \<Longrightarrow> length s < 18446744073709551616 \<Longrightarrow>
   cs_view (gh_conststr_fromz s) = s \<and> cs_wf (gh_conststr_fromz s)"
  by (simp add: gh_conststr_fromz_def cs_view_def cs_wf_def c_strlen_nul_free)

lemma cs_fromlit_view:
  "nul_free s \<Longrightarrow> length s < 18446744073709551616 \<Longrightarrow>
   cs_view (gh_conststr_fromlit s) = s \<and> cs_wf (gh_conststr_fromlit s)"
  by (simp add: gh_conststr_fromlit_def gh_conststr_fromc_def cs_view_def cs_wf_def unat_of_nat_nowrap)

section \<open>Copies are terminated and stay inside the destination\<close>

lemma c_strncpy_whole:
  assumes "off + n \<le> length dst" "nul_free (take n src)" "n \<le> length src"
  shows "c_strncpy dst off src n = Some (cells_write dst off (take n src))"
proof -
  have "take n (cstr src) = take n src \<and> n \<le> strlen src"
    using assms(2,3)
  proof (induction n arbitrary: src)
    case 0
    then show ?case by simp
  next
    case (Suc n)
    then show ?case by (cases src) (auto simp: cstr_def strlen_def)
  qed
  with assms(1) show ?thesis by (simp add: c_strncpy_def)
qed

lemma cs_copyz_result:
  assumes "cs_wf s" "unat c_size \<le> length c"
  shows "gh_conststr_copyz s c c_size =
     (if unat (cs_size s) < unat c_size
      then Some (True, cs_view s @ NUL # drop (Suc (unat (cs_size s))) c) else Some (False, c))"
proof (cases "unat (cs_size s) < unat c_size")
  case True
  with assms have "c_strncpy c 0 (cs_buffer s) (unat (cs_size s)) =
      Some (cells_write c 0 (cs_view s))"
    by (simp add: c_strncpy_whole cs_wf_def cs_view_def)
  with True assms show ?thesis
    by (simp add: gh_conststr_copyz_def gh_conststr_fitsinz_def size_less_unat cells_write_def
        cs_view_length list_update_append Cons_nth_drop_Suc [symmetric])
next
  case False
  then show ?thesis by (simp add: gh_conststr_copyz_def gh_conststr_fitsinz_def size_less_unat)
qed

section \<open>Building strings in place\<close>

lemma st_appendchar_result:
  assumes "st_wf str"
  shows "\<exists>str'. gh_str_appendchar str c = Some (st_size str < st_capacity str, str') \<and> st_wf str' \<and>
     st_capacity str' = st_capacity str \<and>
     st_view str' = (if st_size str < st_capacity str then st_view str @ [c] else st_view str)"
proof (cases "st_size str < st_capacity str")
  case True
  then have lt: "unat (st_size str) < unat (st_capacity str)" by (simp add: size_less_unat)
  then have rem: "\<not> st_capacity str - st_size str < 1" "unat (st_size str + 1) = Suc (unat (st_size str))"
    using unat_size_bound [of "st_capacity str"]
    by (simp_all add: size_less_unat unat_sub_nowrap size_le_unat unat_add_nowrap)
  with True lt assms show ?thesis
    by (simp add: gh_str_appendchar_def Let_def st_put_def st_wf_def st_view_def size_le_unat
        take_Suc_conv_app_nth)
next
  case False
  with assms have "st_size str = st_capacity str" by (simp add: st_wf_def)
  then show ?thesis using assms by (simp add: gh_str_appendchar_def)
qed

lemma st_appendc_result:
  assumes "st_wf str" "nul_free (take (unat sz) s)" "unat sz \<le> length s"
  shows "\<exists>fits str'. gh_str_appendc str s sz trunc = Some (fits, str') \<and> st_wf str' \<and>
     fits = (unat (st_size str) + unat sz \<le> unat (st_capacity str)) \<and>
     st_capacity str' = st_capacity str \<and>
     st_view str' =
       (if fits \<or> trunc
        then take (unat (st_capacity str)) (st_view str @ take (unat sz) s) else st_view str)"
proof -
  define rem where "rem = st_capacity str - st_size str"
  have le: "unat (st_size str) \<le> unat (st_capacity str)" by (rule st_wf_size [OF assms(1)])
  then have rem: "unat rem = unat (st_capacity str) - unat (st_size str)"
    by (simp add: rem_def unat_sub_nowrap size_le_unat)
  define n where "n = (if rem < sz then rem else sz)"
  have n: "unat n = min (unat rem) (unat sz)" by (simp add: n_def size_less_unat)
  have fit: "\<not> rem < sz \<longleftrightarrow> unat (st_size str) + unat sz \<le> unat (st_capacity str)"
    using le by (auto simp: size_less_unat rem)
  have size': "unat (st_size str + n) = unat (st_size str) + unat n"
    using unat_size_bound [of "st_capacity str"] le
    by (subst unat_add_nowrap) (auto simp: n rem)
  have "nul_free (take (unat n) s)"
    using nul_free_take [OF assms(2), of "unat n"] by (simp add: n min_def split: if_splits)
  then have cpy: "c_strncpy (st_buffer str) (unat (st_size str)) s (unat n) =
      Some (cells_write (st_buffer str) (unat (st_size str)) (take (unat n) s))"
    using assms le by (intro c_strncpy_whole) (auto simp: n rem st_wf_def)
  show ?thesis
  proof (cases "rem < sz \<and> \<not> trunc")
    case True
    with assms(1) fit show ?thesis by (auto simp: gh_str_appendc_def Let_def rem_def)
  next
    case False
    let ?str = "str\<lparr>st_buffer := cells_write (st_buffer str) (unat (st_size str)) (take (unat n) s),
                    st_size := st_size str + n\<rparr>"
    have "gh_str_appendc str s sz trunc = Some (\<not> rem < sz, ?str)"
      using False cpy by (auto simp: gh_str_appendc_def Let_def rem_def n_def)
    moreover have len: "length (cells_write (st_buffer str) (unat (st_size str)) (take (unat n) s)) =
        length (st_buffer str)"
      using assms le by (subst length_cells_write) (auto simp: st_wf_def n rem)
    moreover have "st_wf ?str"
      using assms le len size' by (auto simp: st_wf_def size_le_unat n rem)
    moreover have "st_view ?str = take (unat (st_capacity str)) (st_view str @ take (unat sz) s)"
      using assms le size' by (auto simp: st_view_def cells_write_def st_wf_def n rem min_def)
    ultimately show ?thesis using fit False by auto
  qed
qed

lemma st_trimrightn_result:
  "st_wf str \<Longrightarrow> st_view (gh_str_trimrightn str n) =
     (if unat n \<le> length (st_view str) then take (length (st_view str) - unat n) (st_view str)
      else st_view str)"
  using st_view_length [of str]
  by (auto simp: gh_str_trimrightn_def size_le_unat unat_sub_nowrap st_view_def min_def)

lemma st_endswithc_result:
  assumes "st_wf str" "nul_free (st_view str)" "nul_free s" "sz = of_nat (length s)"
    "length s < 18446744073709551616"
  shows "gh_str_endswithc str s sz \<longleftrightarrow> suffix s (st_view str)"
proof -
  let ?v = "st_view str"
  have sz: "unat sz = length s" using assms by (simp add: unat_of_nat_nowrap)
  have len: "length ?v = unat (st_size str)" by (rule st_view_length [OF assms(1)])
  show ?thesis
  proof (cases "length s \<le> unat (st_size str)")
    case False
    then have "\<not> suffix s ?v" using len suffix_length_le by fastforce
    with False sz show ?thesis by (simp add: gh_str_endswithc_def size_less_unat)
  next
    case True
    let ?k = "unat (st_size str) - length s"
    have k: "unat (st_size str - sz) = ?k" using True sz by (simp add: unat_sub_nowrap size_le_unat)
    have d: "take (length s) (drop ?k (st_buffer str)) = drop ?k ?v"
      using True by (simp add: st_view_def drop_take)
    have "gh_str_endswithc str s sz \<longleftrightarrow> strncmp_eq (drop ?k (st_buffer str)) s (length s)"
      using True sz k by (simp add: gh_str_endswithc_def size_less_unat)
    also have "\<dots> \<longleftrightarrow> drop ?k ?v = s"
    proof -
      have "nul_free (drop ?k ?v)" using assms(2) by (auto simp: nul_free_def dest: in_set_dropD)
      moreover have "length s \<le> length (drop ?k (st_buffer str))"
        using True st_wf_size [OF assms(1)] assms(1) by (auto simp: st_wf_def)
      ultimately show ?thesis using assms(3) d strncmp_eq_literal [of s "drop ?k (st_buffer str)"] by simp
    qed
    also have "\<dots> \<longleftrightarrow> suffix s ?v"
      using len True by (metis append_take_drop_id suffix_def suffix_take append_eq_conv_conj
          length_append add_diff_cancel_right')
    finally show ?thesis .
  qed
qed

lemma st_rpos_result:
  assumes "n \<le> length buf" "i \<le> n"
  shows "st_rpos_loop i n buf c =
     Some (if c \<in> set (take (n - i) buf)
           then Some (Max {j. j < n - i \<and> buf ! j = c}) else None)"
  using assms
proof (induction "n - i" arbitrary: i)
  case 0
  then show ?case by (subst st_rpos_loop.simps) simp
next
  case (Suc k)
  then have i: "i < n" "n - i = Suc k" "n - Suc i = k" by auto
  have take: "take (n - i) buf = take k buf @ [buf ! k]"
    using i Suc.prems by (simp add: take_Suc_conv_app_nth)
  show ?case
  proof (cases "buf ! k = c")
    case True
    have "Max {j. j < n - i \<and> buf ! j = c} = k"
      using True i by (intro Max_eqI) auto
    with True i take Suc.prems show ?thesis by (subst st_rpos_loop.simps) (simp add: Let_def)
  next
    case False
    then have "{j. j < n - i \<and> buf ! j = c} = {j. j < n - Suc i \<and> buf ! j = c}"
      using i less_Suc_eq by auto
    with False i take Suc show ?thesis by (subst st_rpos_loop.simps) (auto simp: Let_def)
  qed
qed

text \<open>The loop does not stop at the first character that differs: it counts them all.\<close>

lemma st_trim_result:
  assumes "n \<le> length buf" "i \<le> n"
  shows "st_trim_loop i n buf c sz = Some (sz - of_nat (length (filter ((=) c) (take (n - i) buf))))"
  using assms
proof (induction "n - i" arbitrary: i sz)
  case 0
  then show ?case by (subst st_trim_loop.simps) simp
next
  case (Suc k)
  then have i: "i < n" "n - i = Suc k" "n - Suc i = k" by auto
  have take: "take (n - i) buf = take k buf @ [buf ! k]"
    using i Suc.prems by (simp add: take_Suc_conv_app_nth)
  with i Suc show ?case by (subst st_trim_loop.simps) (auto simp: Let_def algebra_simps)
qed

lemma st_trimrightchar_result:
  assumes "st_wf str"
  shows "\<exists>str'. gh_str_trimrightchar str c = Some str' \<and>
     st_view str' = take (length (filter (\<lambda>x. x \<noteq> c) (st_view str))) (st_view str)"
proof -
  let ?v = "st_view str"
  have n: "unat (st_size str) \<le> length (st_buffer str)"
    using st_wf_size [OF assms] assms by (simp add: st_wf_def)
  have sum: "length (filter ((=) c) ?v) + length (filter (\<lambda>x. x \<noteq> c) ?v) = length ?v"
    using sum_length_filter_compl [of "(=) c" ?v] by (simp add: eq_commute)
  then have cnt: "unat (of_nat (length (filter ((=) c) ?v)) :: size_t) = length (filter ((=) c) ?v)"
    using unat_size_bound [of "st_size str"] st_view_length [OF assms]
    by (intro unat_of_nat_nowrap) linarith
  with sum have "unat (st_size str - of_nat (length (filter ((=) c) ?v))) =
      length (filter (\<lambda>x. x \<noteq> c) ?v)"
    using st_view_length [OF assms] by (subst unat_sub_nowrap) (auto simp: size_le_unat)
  then show ?thesis
    using st_trim_result [OF n, of 0 c "st_size str"] sum st_view_length [OF assms]
    by (auto simp: gh_str_trimrightchar_def st_view_def [symmetric]) (simp add: st_view_def min_def)
qed

end
