(* ===== verification/Request.thy ===== *)
theory Request
  imports Strings
begin

text \<open>
  Permission requests (\<^verbatim>\<open>perms/request.c\<close>): the group, the resource and up to sixteen
  key-value fields that a gate shows to the prompter. The \<^verbatim>\<open>char[N]\<close> members are the C strings
  they hold; a field with the empty key is free. Pointers to fields are the fields' indices.
\<close>

section \<open>Data and operations\<close>

abbreviation (input) GH_PERMREQUEST_IDMAX :: nat where "GH_PERMREQUEST_IDMAX \<equiv> 64"
abbreviation (input) GH_PERMREQUEST_MAXFIELDS :: nat where "GH_PERMREQUEST_MAXFIELDS \<equiv> 16"

record gh_permrequest_field =
  rf_key :: string
  rf_value :: gh_conststr

record gh_permrequest =
  rq_source :: string
  rq_group :: string
  rq_resource :: string
  rq_fields :: "gh_permrequest_field list"

text \<open>The initialiser \<^verbatim>\<open>gh_permrequest req = {0}\<close>\<close>

definition permrequest_zero :: gh_permrequest where
  "permrequest_zero =
     \<lparr>rq_source = [], rq_group = [], rq_resource = [],
      rq_fields = replicate GH_PERMREQUEST_MAXFIELDS
                    \<lparr>rf_key = [], rf_value = \<lparr>cs_buffer = [], cs_size = 0\<rparr>\<rparr>\<rparr>"

definition gh_permrequest_isgroup :: "gh_permrequest \<Rightarrow> string \<Rightarrow> bool" where
  "gh_permrequest_isgroup req grp = strncmp_eq (rq_group req) grp (strlen grp + 1)"

definition gh_permrequest_isresource :: "gh_permrequest \<Rightarrow> string \<Rightarrow> bool" where
  "gh_permrequest_isresource req resource = strncmp_eq (rq_resource req) resource (strlen resource + 1)"

fun rq_find :: "(gh_permrequest_field \<Rightarrow> bool) \<Rightarrow> nat \<Rightarrow> gh_permrequest_field list \<Rightarrow> nat option" where
  "rq_find p i [] = None"
| "rq_find p i (f # fs) = (if p f then Some i else rq_find p (Suc i) fs)"

definition gh_permrequest_getfield :: "gh_permrequest \<Rightarrow> string \<Rightarrow> gh_permrequest_field option" where
  "gh_permrequest_getfield req key =
     (let key_len = strlen key in
      map_option (\<lambda>i. rq_fields req ! i)
        (rq_find (\<lambda>f. strncmp_eq (rf_key f) key key_len) 0 (rq_fields req)))"

definition gh_permrequest_setgroup :: "gh_permrequest \<Rightarrow> string \<Rightarrow> gh_permrequest" where
  "gh_permrequest_setgroup req grp = req\<lparr>rq_group := strncpy_term GH_PERMREQUEST_IDMAX grp\<rparr>"

definition gh_permrequest_setresource :: "gh_permrequest \<Rightarrow> string \<Rightarrow> gh_permrequest" where
  "gh_permrequest_setresource req resource =
     req\<lparr>rq_resource := strncpy_term GH_PERMREQUEST_IDMAX resource\<rparr>"

definition gh_permrequest_setfield ::
  "gh_permrequest \<Rightarrow> string \<Rightarrow> gh_conststr \<Rightarrow> nat option \<times> gh_permrequest" where
  "gh_permrequest_setfield req key val =
     (let key_len = strlen key in
      if key_len > GH_PERMREQUEST_IDMAX - 1 then (None, req)
      else case rq_find (\<lambda>f. chd (rf_key f) = NUL) 0 (rq_fields req) of
        None \<Rightarrow> (None, req)
      | Some i \<Rightarrow> (Some i, req\<lparr>rq_fields := (rq_fields req)[i := \<lparr>rf_key = cstr key, rf_value = val\<rparr>]\<rparr>))"

section \<open>Invariant: the used fields come first\<close>

definition rq_used :: "gh_permrequest \<Rightarrow> gh_permrequest_field list" where
  "rq_used req = takeWhile (\<lambda>f. rf_key f \<noteq> []) (rq_fields req)"

definition id_wf :: "string \<Rightarrow> bool" where
  "id_wf s \<longleftrightarrow> nul_free s \<and> length s < GH_PERMREQUEST_IDMAX"

definition fields_packed :: "gh_permrequest_field list \<Rightarrow> bool" where
  "fields_packed fs \<longleftrightarrow> (\<forall>f \<in> set (dropWhile (\<lambda>f. rf_key f \<noteq> []) fs). rf_key f = [])"

definition permrequest_wf :: "gh_permrequest \<Rightarrow> bool" where
  "permrequest_wf req \<longleftrightarrow>
     length (rq_fields req) = GH_PERMREQUEST_MAXFIELDS \<and> list_all (\<lambda>f. id_wf (rf_key f)) (rq_fields req) \<and>
     fields_packed (rq_fields req) \<and> id_wf (rq_group req) \<and> id_wf (rq_resource req)"

lemma id_wf_strncpy [simp]: "id_wf (strncpy_term GH_PERMREQUEST_IDMAX s)"
  by (simp add: id_wf_def strncpy_term_def nul_free_take)

lemma strncpy_term_id: "id_wf s \<Longrightarrow> strncpy_term GH_PERMREQUEST_IDMAX s = s"
  by (simp add: id_wf_def strncpy_term_def cstr_nul_free)

lemma strncmp_eq_id:
  "nul_free a \<Longrightarrow> nul_free b \<Longrightarrow> strncmp_eq a b (strlen b + 1) \<longleftrightarrow> a = b"
  by (rule strncmp_eq_whole) (simp_all add: strlen_nul_free)

lemma rq_find_None: "rq_find p i fs = None \<longleftrightarrow> (\<forall>f \<in> set fs. \<not> p f)"
  by (induction fs arbitrary: i) auto

lemma rq_find_Some:
  "rq_find p i fs = Some k \<longleftrightarrow>
   i \<le> k \<and> k - i < length fs \<and> p (fs ! (k - i)) \<and> (\<forall>j < k - i. \<not> p (fs ! j))"
proof (induction fs arbitrary: i)
  case Nil
  then show ?case by simp
next
  case (Cons f fs)
  show ?case
  proof (cases "p f")
    case True
    show ?thesis
    proof
      assume "rq_find p i (f # fs) = Some k"
      with True show "i \<le> k \<and> k - i < length (f # fs) \<and> p ((f # fs) ! (k - i)) \<and>
          (\<forall>j < k - i. \<not> p ((f # fs) ! j))" by auto
    next
      assume *: "i \<le> k \<and> k - i < length (f # fs) \<and> p ((f # fs) ! (k - i)) \<and>
          (\<forall>j < k - i. \<not> p ((f # fs) ! j))"
      have "k - i = 0"
      proof (rule ccontr)
        assume "k - i \<noteq> 0"
        with * have "\<not> p ((f # fs) ! 0)" by blast
        with True show False by simp
      qed
      with * True show "rq_find p i (f # fs) = Some k" by simp
    qed
  next
    case False
    show ?thesis
    proof
      assume "rq_find p i (f # fs) = Some k"
      with False Cons.IH [of "Suc i"] have "Suc i \<le> k" "k - Suc i < length fs" "p (fs ! (k - Suc i))"
        "\<forall>j < k - Suc i. \<not> p (fs ! j)" by auto
      with False show "i \<le> k \<and> k - i < length (f # fs) \<and> p ((f # fs) ! (k - i)) \<and>
          (\<forall>j < k - i. \<not> p ((f # fs) ! j))"
        by (auto simp: nth_Cons')
    next
      assume *: "i \<le> k \<and> k - i < length (f # fs) \<and> p ((f # fs) ! (k - i)) \<and>
          (\<forall>j < k - i. \<not> p ((f # fs) ! j))"
      with False have "k \<noteq> i" by auto
      with * have "Suc i \<le> k" by simp
      then obtain d where d: "k - i = Suc d" "k - Suc i = d" by (metis Suc_diff_Suc Suc_le_lessD)
      with * have "p (fs ! d)" "d < length fs" "\<forall>j < d. \<not> p (fs ! j)"
        by auto
      with False d \<open>Suc i \<le> k\<close> Cons.IH [of "Suc i"] show "rq_find p i (f # fs) = Some k" by simp
    qed
  qed
qed

lemma permrequest_zero_wf: "permrequest_wf permrequest_zero \<and> rq_used permrequest_zero = []"
  by (simp add: permrequest_wf_def permrequest_zero_def rq_used_def id_wf_def fields_packed_def
      list_all_length)

lemma isgroup_exact:
  "permrequest_wf req \<Longrightarrow> nul_free g \<Longrightarrow> gh_permrequest_isgroup req g \<longleftrightarrow> rq_group req = g"
  unfolding gh_permrequest_isgroup_def by (rule strncmp_eq_id) (simp_all add: permrequest_wf_def id_wf_def)

lemma isresource_exact:
  "permrequest_wf req \<Longrightarrow> nul_free g \<Longrightarrow> gh_permrequest_isresource req g \<longleftrightarrow> rq_resource req = g"
  unfolding gh_permrequest_isresource_def by (rule strncmp_eq_id) (simp_all add: permrequest_wf_def id_wf_def)

lemma setgroup_wf: "permrequest_wf req \<Longrightarrow> permrequest_wf (gh_permrequest_setgroup req g)"
  by (simp add: gh_permrequest_setgroup_def permrequest_wf_def)

lemma setresource_wf: "permrequest_wf req \<Longrightarrow> permrequest_wf (gh_permrequest_setresource req g)"
  by (simp add: gh_permrequest_setresource_def permrequest_wf_def)

lemma setgroup_isgroup:
  "permrequest_wf req \<Longrightarrow> id_wf g \<Longrightarrow> nul_free h \<Longrightarrow>
   gh_permrequest_isgroup (gh_permrequest_setgroup req g) h \<longleftrightarrow> g = h"
  using isgroup_exact [OF setgroup_wf, of req h g]
  by (simp add: gh_permrequest_setgroup_def strncpy_term_id)

lemma setresource_isresource:
  "permrequest_wf req \<Longrightarrow> id_wf g \<Longrightarrow> nul_free h \<Longrightarrow>
   gh_permrequest_isresource (gh_permrequest_setresource req g) h \<longleftrightarrow> g = h"
  using isresource_exact [OF setresource_wf, of req h g]
  by (simp add: gh_permrequest_setresource_def strncpy_term_id)

section \<open>Fields are appended, never replaced\<close>

lemma used_update:
  assumes "fields_packed fs" "i < length fs" "rf_key (fs ! i) = []" "\<forall>j < i. rf_key (fs ! j) \<noteq> []"
    "rf_key f \<noteq> []"
  shows "takeWhile (\<lambda>f. rf_key f \<noteq> []) (fs[i := f]) = takeWhile (\<lambda>f. rf_key f \<noteq> []) fs @ [f] \<and>
     fields_packed (fs[i := f])"
  using assms
proof (induction fs arbitrary: i)
  case Nil
  then show ?case by simp
next
  case (Cons g fs)
  show ?case
  proof (cases i)
    case 0
    with Cons.prems(3) have g: "rf_key g = []" by simp
    then have "dropWhile (\<lambda>f. rf_key f \<noteq> []) (g # fs) = g # fs" by simp
    with Cons.prems(1) have all: "\<forall>h \<in> set fs. rf_key h = []"
      unfolding fields_packed_def by (metis list.set_intros(2))
    from all have "takeWhile (\<lambda>f. rf_key f \<noteq> []) fs = []" by (cases fs) auto
    moreover from all have "dropWhile (\<lambda>f. rf_key f \<noteq> []) fs = fs" by (cases fs) auto
    ultimately
    show ?thesis using 0 g all Cons.prems(5) by (simp add: fields_packed_def)
  next
    case (Suc k)
    with Cons.prems(4) have g: "rf_key g \<noteq> []" by auto
    have nk: "\<forall>j < k. rf_key (fs ! j) \<noteq> []"
    proof (intro allI impI)
      fix j assume "j < k"
      then show "rf_key (fs ! j) \<noteq> []" using Cons.prems(4) [rule_format, of "Suc j"] Suc by simp
    qed
    have packed: "fields_packed (h # xs) \<longleftrightarrow> fields_packed xs" if "rf_key h \<noteq> []" for h xs
      using that by (simp add: fields_packed_def)
    have "takeWhile (\<lambda>f. rf_key f \<noteq> []) (fs[k := f]) = takeWhile (\<lambda>f. rf_key f \<noteq> []) fs @ [f] \<and>
        fields_packed (fs[k := f])"
      by (rule Cons.IH) (use nk Cons.prems Suc g packed in auto)
    with Suc g show ?thesis by (simp add: packed)
  qed
qed

lemma id_wf_chd: "id_wf s \<Longrightarrow> chd s = NUL \<longleftrightarrow> s = []"
  by (cases s) (auto simp: id_wf_def)

lemma permrequest_wf_nth:
  "permrequest_wf req \<Longrightarrow> i < length (rq_fields req) \<Longrightarrow> id_wf (rf_key (rq_fields req ! i))"
  by (simp add: permrequest_wf_def list_all_length)

lemma setfield_long:
  "nul_free key \<Longrightarrow> length key \<ge> GH_PERMREQUEST_IDMAX \<Longrightarrow>
   gh_permrequest_setfield req key val = (None, req)"
  by (simp add: gh_permrequest_setfield_def strlen_nul_free)

lemma setfield_full:
  assumes "permrequest_wf req" "\<forall>f \<in> set (rq_fields req). rf_key f \<noteq> []"
  shows "gh_permrequest_setfield req key val = (None, req)"
proof -
  have "rq_find (\<lambda>f. chd (rf_key f) = NUL) 0 (rq_fields req) = None"
    using assms by (auto simp: rq_find_None permrequest_wf_def list_all_iff id_wf_chd)
  then show ?thesis by (simp add: gh_permrequest_setfield_def)
qed

lemma setfield_free:
  assumes wf: "permrequest_wf req" and key: "id_wf key" "key \<noteq> []"
    and free: "\<exists>f \<in> set (rq_fields req). rf_key f = []"
  shows "\<exists>i req'. gh_permrequest_setfield req key val = (Some i, req') \<and> permrequest_wf req' \<and>
     rq_group req' = rq_group req \<and> rq_resource req' = rq_resource req \<and> rq_source req' = rq_source req \<and>
     rq_used req' = rq_used req @ [\<lparr>rf_key = key, rf_value = val\<rparr>]"
proof -
  let ?p = "\<lambda>f. chd (rf_key f) = NUL"
  have "rq_find ?p 0 (rq_fields req) \<noteq> None"
    using free chd_simps(1) unfolding rq_find_None by metis
  then obtain i where i: "rq_find ?p 0 (rq_fields req) = Some i" by auto
  then have lt: "i < length (rq_fields req)" and p: "?p (rq_fields req ! i)"
    and np: "\<forall>j < i. \<not> ?p (rq_fields req ! j)"
    using rq_find_Some [of ?p 0 "rq_fields req" i] by auto
  let ?f = "\<lparr>rf_key = key, rf_value = val\<rparr>"
  have k: "rf_key (rq_fields req ! i) = []" using p lt permrequest_wf_nth [OF wf lt] by (simp add: id_wf_chd)
  have nk: "\<forall>j < i. rf_key (rq_fields req ! j) \<noteq> []" using np by auto
  have upd: "takeWhile (\<lambda>f. rf_key f \<noteq> []) ((rq_fields req)[i := ?f]) = rq_used req @ [?f] \<and>
      fields_packed ((rq_fields req)[i := ?f])"
    unfolding rq_used_def
    by (rule used_update) (use wf lt k nk key in \<open>auto simp: permrequest_wf_def\<close>)
  have all: "list_all (\<lambda>f. id_wf (rf_key f)) ((rq_fields req)[i := ?f])"
    using wf key set_update_subset_insert [of "rq_fields req" i ?f]
    by (auto simp: permrequest_wf_def list_all_iff)
  have "gh_permrequest_setfield req key val =
      (Some i, req\<lparr>rq_fields := (rq_fields req)[i := ?f]\<rparr>)"
    using i key by (simp add: gh_permrequest_setfield_def id_wf_def strlen_nul_free cstr_nul_free)
  moreover have "permrequest_wf (req\<lparr>rq_fields := (rq_fields req)[i := ?f]\<rparr>)"
    using wf all upd by (simp add: permrequest_wf_def)
  ultimately show ?thesis using upd by (simp add: rq_used_def)
qed

text \<open>A lookup returns the first field whose key starts with the key looked for.\<close>

lemma getfield_Some:
  assumes wf: "permrequest_wf req" and key: "nul_free key"
  shows "gh_permrequest_getfield req key = Some f \<longleftrightarrow>
     (\<exists>i < GH_PERMREQUEST_MAXFIELDS. f = rq_fields req ! i \<and> prefix key (rf_key f) \<and>
        (\<forall>j < i. \<not> prefix key (rf_key (rq_fields req ! j))))"
proof -
  let ?q = "\<lambda>f. strncmp_eq (rf_key f) key (strlen key)"
  have pre: "?q (rq_fields req ! i) \<longleftrightarrow> prefix key (rf_key (rq_fields req ! i))"
    if "i < length (rq_fields req)" for i
    using permrequest_wf_nth [OF wf that] key
    by (simp add: id_wf_def strlen_nul_free strncmp_eq_prefix_of)
      (metis append_take_drop_id append_eq_conv_conj prefix_def)
  have len: "length (rq_fields req) = GH_PERMREQUEST_MAXFIELDS" using wf by (simp add: permrequest_wf_def)
  have "gh_permrequest_getfield req key = Some f \<longleftrightarrow>
      (\<exists>i. rq_find ?q 0 (rq_fields req) = Some i \<and> f = rq_fields req ! i)"
    by (auto simp: gh_permrequest_getfield_def)
  also have "\<dots> \<longleftrightarrow> (\<exists>i < length (rq_fields req). f = rq_fields req ! i \<and> ?q f \<and>
        (\<forall>j < i. \<not> ?q (rq_fields req ! j)))"
    unfolding rq_find_Some by auto
  also have "\<dots> \<longleftrightarrow> (\<exists>i < length (rq_fields req). f = rq_fields req ! i \<and> prefix key (rf_key f) \<and>
        (\<forall>j < i. \<not> prefix key (rf_key (rq_fields req ! j))))"
    by (rule ex_cong1) (use pre less_trans in blast)
  finally show ?thesis by (simp only: len)
qed

end
