(* ===== verification/IpcMsg.thy ===== *)
theory IpcMsg
  imports Result
begin

text \<open>
  The messages the processes exchange (\<^verbatim>\<open>include/ghost/ipc.h\<close>). A message is a tagged union: the
  member \<^verbatim>\<open>type\<close> is the constructor, and the members of the structure it selects are its
  arguments. A \<^verbatim>\<open>char[N]\<close> member is the list of its \<open>N\<close> characters.
\<close>

abbreviation (input) GH_IPCMSG_MAXSIZE :: nat where "GH_IPCMSG_MAXSIZE \<equiv> 10240"
abbreviation (input) GH_IPC_NOTIMEOUT :: int where "GH_IPC_NOTIMEOUT \<equiv> 0"
abbreviation (input) GH_IPCMSG_LUASTRING_MAXSIZE :: nat where "GH_IPCMSG_LUASTRING_MAXSIZE \<equiv> 10236"
abbreviation (input) GH_IPCMSG_LUAFILE_CHUNKNAMEMAX :: nat where "GH_IPCMSG_LUAFILE_CHUNKNAMEMAX \<equiv> 512"
abbreviation (input) GH_IPCMSG_LUAHOSTVARIABLE_NAMEMAX :: nat where "GH_IPCMSG_LUAHOSTVARIABLE_NAMEMAX \<equiv> 128"
abbreviation (input) GH_IPCMSG_LUAHOSTVARIABLE_STRINGMAX :: nat where "GH_IPCMSG_LUAHOSTVARIABLE_STRINGMAX \<equiv> 1024"
abbreviation (input) GH_IPCMSG_LUACALL_NAMEMAX :: nat where "GH_IPCMSG_LUACALL_NAMEMAX \<equiv> 128"
abbreviation (input) GH_IPCMSG_LUACALL_MAXPARAMS :: nat where "GH_IPCMSG_LUACALL_MAXPARAMS \<equiv> 16"
abbreviation (input) GH_IPCMSG_LUARESULT_ERRORMSGMAX :: nat where "GH_IPCMSG_LUARESULT_ERRORMSGMAX \<equiv> 1024"
abbreviation (input) GH_IPCMSG_FUNCTIONCALL_MAXARGS :: nat where "GH_IPCMSG_FUNCTIONCALL_MAXARGS \<equiv> 16"
abbreviation (input) GH_IPCMSG_FUNCTIONCALL_MAXNAME :: nat where "GH_IPCMSG_FUNCTIONCALL_MAXNAME \<equiv> 256"

text \<open>An address is a 64 bit word; a \<^verbatim>\<open>double\<close> is its bit pattern.\<close>

type_synonym addr = size_t
type_synonym gh_fdmem_ptr = size_t
type_synonym c_double = "64 word"

text \<open>An address and a size in the memory of the process that calls.\<close>

record gh_ipcmsg_functioncall_arg =
  fa_addr :: addr
  fa_size :: size_t

record gh_ipcmsg_functioncall =
  fc_name :: string
  fc_return_arg :: gh_ipcmsg_functioncall_arg
  fc_arg_count :: size_t
  fc_args :: "gh_ipcmsg_functioncall_arg list"

datatype gh_hostvalue = HostInt int | HostDouble c_double | HostString string size_t

record gh_ipcmsg_luahostvariable =
  hv_name :: string
  hv_value :: gh_hostvalue
  hv_table_index :: int

record gh_ipcmsg_luacall =
  lc_fd :: int
  lc_occupied :: size_t
  lc_name :: string
  lc_params :: "gh_fdmem_ptr list"

record gh_ipcmsg_luaresult =
  lr_result :: gh_result
  lr_error_msg :: string
  lr_script_id :: int
  lr_return_ptr :: gh_fdmem_ptr

text \<open>\<open>MsgOther\<close> is a message whose type is none of the enumerators.\<close>

datatype gh_ipcmsg =
    MsgHello int
  | MsgQuit
  | MsgNewSubjail int
  | MsgLuaString string
  | MsgLuaFile int string
  | MsgLuaHostVariable gh_ipcmsg_luahostvariable
  | MsgLuaCall gh_ipcmsg_luacall
  | MsgFunctionReturn int gh_result
  | MsgSubjailAlive int int
  | MsgLuaInfo int
  | MsgLuaResult gh_ipcmsg_luaresult
  | MsgFunctionCall gh_ipcmsg_functioncall
  | MsgOther int

text \<open>
  \<^verbatim>\<open>sizeof\<close> of the structure of a message; the alignment of the typedef does not pad it.
\<close>

definition ipcmsg_sizeof :: "gh_ipcmsg \<Rightarrow> size_t" where
  "ipcmsg_sizeof msg =
     (case msg of
        MsgHello _ \<Rightarrow> 8 | MsgQuit \<Rightarrow> 4 | MsgNewSubjail _ \<Rightarrow> 8
      | MsgLuaString _ \<Rightarrow> 10240 | MsgLuaFile _ _ \<Rightarrow> 520 | MsgLuaHostVariable _ \<Rightarrow> 1176
      | MsgLuaCall _ \<Rightarrow> 272 | MsgFunctionReturn _ _ \<Rightarrow> 12 | MsgSubjailAlive _ _ \<Rightarrow> 12
      | MsgLuaInfo _ \<Rightarrow> 8 | MsgLuaResult _ \<Rightarrow> 1048 | MsgFunctionCall _ \<Rightarrow> 544 | MsgOther _ \<Rightarrow> 4)"

text \<open>The members have the shape of their structure.\<close>

definition ipcmsg_shape :: "gh_ipcmsg \<Rightarrow> bool" where
  "ipcmsg_shape msg \<longleftrightarrow>
     (case msg of
        MsgLuaString content \<Rightarrow> length content = GH_IPCMSG_LUASTRING_MAXSIZE
      | MsgLuaFile _ name \<Rightarrow> length name = GH_IPCMSG_LUAFILE_CHUNKNAMEMAX
      | MsgLuaHostVariable v \<Rightarrow> length (hv_name v) = GH_IPCMSG_LUAHOSTVARIABLE_NAMEMAX
      | MsgLuaCall c \<Rightarrow> length (lc_name c) = GH_IPCMSG_LUACALL_NAMEMAX \<and> length (lc_params c) = GH_IPCMSG_LUACALL_MAXPARAMS
      | MsgLuaResult r \<Rightarrow> length (lr_error_msg r) = GH_IPCMSG_LUARESULT_ERRORMSGMAX
      | MsgFunctionCall c \<Rightarrow>
          length (fc_name c) = GH_IPCMSG_FUNCTIONCALL_MAXNAME \<and> length (fc_args c) = GH_IPCMSG_FUNCTIONCALL_MAXARGS
      | _ \<Rightarrow> True)"

text \<open>A member \<^verbatim>\<open>char[N]\<close> that was zero before the string \<open>s\<close> was stored in it\<close>

definition char_array :: "nat \<Rightarrow> string \<Rightarrow> string" where
  "char_array n s = take n (s @ replicate n NUL)"

lemma length_char_array [simp]: "length (char_array n s) = n"
  by (simp add: char_array_def)

lemma cstr_char_array: "nul_free s \<Longrightarrow> length s < n \<Longrightarrow> cstr (char_array n s) = s"
proof -
  assume a: "nul_free s" "length s < n"
  then obtain m where "n = length s + Suc m" by (metis add_Suc_right less_imp_Suc_add)
  with a(1) show ?thesis by (simp add: char_array_def)
qed

end
