(* ===== verification/Kernel.thy ===== *)
theory Kernel
  imports Request IpcMsg
begin

text \<open>
  Everything outside the library that its code calls: the operating system and the callbacks of
  the application. It is a parameter of the model: an environment answers each call, knowing the
  calls made before, and the model threads the trace of calls and answers. A theorem about all
  environments therefore holds for every behaviour of the system, and a property of what the
  library does to the outside world is a property of traces.
\<close>

section \<open>Calls and answers\<close>

type_synonym c_int = "32 word"
type_synonym mode_t = "32 word"

text \<open>The functions of \<^verbatim>\<open>pthread_mutex_t\<close>; a mutex is the global one, or the one of a function.\<close>

datatype mutex_op = MutexInit | MutexDestroy | MutexLock | MutexUnlock

text \<open>An instruction of a packet filter (\<^verbatim>\<open>struct sock_filter\<close>)\<close>

record sock_filter =
  sf_code :: "16 word"
  sf_jt :: "8 word"
  sf_jf :: "8 word"
  sf_k :: "32 word"

text \<open>An argument of a function of the Lua library\<close>

datatype lua_arg = LuaInt int | LuaNumber c_double | LuaString string

datatype (plugins only: size) call =
    Write int string
  | Ftruncate int int
  | Lseek int int int
  | Mmap int size_t
  | Munmap size_t
  | Open string c_int
  | Openat int string c_int mode_t
  | Close int
  | Fstat int
  | Readlinkat int string size_t
  | Renameat2 int string int string c_int
  | Unlinkat int string c_int
  | Read int size_t
  | Openpty
  | Fork
  | Waitpid int
  | Time
  | Terminal string
  | AskPrompter gh_permrequest
  | EvpCtxNew
  | EvpDigestInit
  | EvpDigestUpdate string
  | OpensslMalloc
  | EvpDigestFinal string
  | MemfdCreate string
  | MmapFd int c_int size_t
  | Mremap addr size_t size_t
  | MunmapAt addr size_t
  | AddSeals int c_int
  | Socketpair
  | Sendmsg int gh_ipcmsg size_t "int option"
  | Recvmsg int
  | Poll "int list" int
  | VmReadv int size_t "gh_ipcmsg_functioncall_arg list"
  | VmWritev int string addr
  | Mutex mutex_op "nat option"
  | Dup2 int int
  | Execveat int "string list" "string list"
  | Kill int int
  | Getpid
  | Getenv string
  | SetNoNewPrivs
  | Setrlimit size_t
  | Seccomp "sock_filter list"
  | PidfdOpen int
  | PidfdSendSignal int int
  | Waitid int
  | ClockGettime
  | Callback
  | Fexecve int "string list" "string list"
  | SignalIgnore int
  | Fdopen int string
  | MemLoad addr nat
  | MemStore addr string
  | Lua string "lua_arg list"

text \<open>
  The return value and the \<^verbatim>\<open>errno\<close> of a failing call, the bytes a reading call delivers, the
  two \<^verbatim>\<open>struct stat\<close> members the code looks at, and the result code of a callback. A received
  message is what its buffer holds after the call, with the descriptor of the control data and the
  flag \<^verbatim>\<open>MSG_TRUNC\<close>; the second descriptor of a pair, the descriptors a poll found ready, a time,
  and the status of a child are further members.
\<close>

record answer =
  an_ret :: int
  an_errno :: nat
  an_data :: string
  an_mode :: mode_t
  an_nlink :: nat
  an_res :: gh_result
  an_msg :: gh_ipcmsg
  an_control :: "int option"
  an_trunc :: bool
  an_peer :: int
  an_ready :: "bool list"
  an_sec :: int
  an_nsec :: int
  an_code :: nat
  an_status :: nat

type_synonym trace = "(call \<times> answer) list"
type_synonym env = "trace \<Rightarrow> call \<Rightarrow> answer"

text \<open>The trace holds the latest call first.\<close>

definition syscall :: "env \<Rightarrow> call \<Rightarrow> trace \<Rightarrow> answer \<times> trace" where
  "syscall env c tr = (let a = env tr c in (a, (c, a) # tr))"

text \<open>\<^verbatim>\<open>ghr_errno(ctx)\<close> right after a call that failed\<close>

definition ghr_errno :: "gh_result \<Rightarrow> answer \<Rightarrow> gh_result" where
  "ghr_errno ctx a = ghr_errnoval ctx (an_errno a)"

abbreviation (input) ENOENT :: nat where "ENOENT \<equiv> 2"
abbreviation (input) EBADFD :: nat where "EBADFD \<equiv> 77"
abbreviation (input) EFBIG :: nat where "EFBIG \<equiv> 27"

section \<open>What a trace did\<close>

text \<open>The bytes a file holds: those written to it since it was last truncated.\<close>

fun fd_output :: "int \<Rightarrow> trace \<Rightarrow> string" where
  "fd_output fd [] = []"
| "fd_output fd ((Write fd' s, a) # tr) =
     (if fd' = fd \<and> 0 \<le> an_ret a then fd_output fd tr @ take (nat (an_ret a)) s else fd_output fd tr)"
| "fd_output fd ((Ftruncate fd' n, a) # tr) =
     (if fd' = fd \<and> 0 \<le> an_ret a then take (nat n) (fd_output fd tr) else fd_output fd tr)"
| "fd_output fd ((_, a) # tr) = fd_output fd tr"

text \<open>An environment that takes every byte written, as a regular file on a disk with room does.\<close>

definition takes_writes :: "env \<Rightarrow> bool" where
  "takes_writes env \<longleftrightarrow> (\<forall>tr fd s. an_ret (env tr (Write fd s)) = int (length s))"

text \<open>Every call succeeds and delivers nothing.\<close>

definition plain_answer :: "int \<Rightarrow> answer" where
  "plain_answer r = \<lparr>an_ret = r, an_errno = 0, an_data = [], an_mode = 0, an_nlink = 1, an_res = 0,
     an_msg = MsgQuit, an_control = None, an_trunc = False, an_peer = 0, an_ready = [], an_sec = 0, an_nsec = 0,
     an_code = 0, an_status = 0\<rparr>"

definition quiet_env :: env where
  "quiet_env tr c = plain_answer (case c of Write fd s \<Rightarrow> int (length s) | _ \<Rightarrow> 0)"

lemma quiet_env_takes_writes: "takes_writes quiet_env"
  by (simp add: takes_writes_def quiet_env_def plain_answer_def)

text \<open>The calls of a trace that were made after another trace was reached.\<close>

definition new_calls :: "trace \<Rightarrow> trace \<Rightarrow> call list" where
  "new_calls tr tr' = map fst (take (length tr' - length tr) tr')"

lemma syscall_simps [simp]:
  "snd (syscall env c tr) = (c, env tr c) # tr" "fst (syscall env c tr) = env tr c"
  by (simp_all add: syscall_def Let_def)

lemma syscall_pair: "syscall env c tr = (env tr c, (c, env tr c) # tr)"
  by (simp add: syscall_def Let_def)

end
