(* ===== verification/PathFd.thy ===== *)
theory PathFd
  imports Alloc Kernel
begin

text \<open>
  Safe references to filesystem nodes: \<^verbatim>\<open>perms/pathfd.c\<close>, which opens a path once as an
  \<^verbatim>\<open>O_PATH\<close> descriptor (with the last component kept apart when the file may not exist), and
  \<^verbatim>\<open>perms/procfd.c\<close>, which asks \<^verbatim>\<open>/proc/self/fd\<close> for the canonical path of a descriptor and
  opens it again for use.
\<close>

section \<open>Constants of the Linux interface\<close>

abbreviation (input) O_RDONLY :: c_int where "O_RDONLY \<equiv> 0"
abbreviation (input) O_WRONLY :: c_int where "O_WRONLY \<equiv> 1"
abbreviation (input) O_RDWR :: c_int where "O_RDWR \<equiv> 2"
abbreviation (input) O_ACCMODE :: c_int where "O_ACCMODE \<equiv> 3"
abbreviation (input) O_CREAT :: c_int where "O_CREAT \<equiv> 0x40"
abbreviation (input) O_TRUNC :: c_int where "O_TRUNC \<equiv> 0x200"
abbreviation (input) O_APPEND :: c_int where "O_APPEND \<equiv> 0x400"
abbreviation (input) O_DIRECTORY :: c_int where "O_DIRECTORY \<equiv> 0x10000"
abbreviation (input) O_NOFOLLOW :: c_int where "O_NOFOLLOW \<equiv> 0x20000"
abbreviation (input) O_PATH :: c_int where "O_PATH \<equiv> 0x200000"

definition S_ISREG :: "mode_t \<Rightarrow> bool" where "S_ISREG m \<longleftrightarrow> m AND 0xF000 = 0x8000"
definition S_ISDIR :: "mode_t \<Rightarrow> bool" where "S_ISDIR m \<longleftrightarrow> m AND 0xF000 = 0x4000"
definition S_ISLNK :: "mode_t \<Rightarrow> bool" where "S_ISLNK m \<longleftrightarrow> m AND 0xF000 = 0xA000"

section \<open>basename and dirname\<close>

text \<open>The functions of \<^verbatim>\<open><libgen.h>\<close>, as POSIX and glibc define them.\<close>

definition rstrip_slash :: "string \<Rightarrow> string" where
  "rstrip_slash s = rev (dropWhile (\<lambda>c. c = CHR ''/'') (rev s))"

definition c_basename :: "string \<Rightarrow> string" where
  "c_basename s =
     (if s = [] then ''.''
      else (let t = rstrip_slash s in
            if t = [] then ''/'' else rev (takeWhile (\<lambda>c. c \<noteq> CHR ''/'') (rev t))))"

definition c_dirname :: "string \<Rightarrow> string" where
  "c_dirname s =
     (let t = rstrip_slash s;
          q = (if t = [] then s else rev (dropWhile (\<lambda>c. c \<noteq> CHR ''/'') (rev t))) in
      if q = [] then ''.''
      else (let r = rstrip_slash q in
            if r = [] then (if length q = 2 then ''//'' else ''/'') else r))"

section \<open>PathFD\<close>

record gh_pathfd =
  pf_fd :: int
  pf_trailing :: string

abbreviation (input) GH_PATHFD_TRAILINGNAMEMAX :: nat where "GH_PATHFD_TRAILINGNAMEMAX \<equiv> 4096"
abbreviation (input) GH_PATHFD_ALLOWMISSING :: c_int where "GH_PATHFD_ALLOWMISSING \<equiv> 1"
abbreviation (input) GH_PATHFD_RESOLVELINKS :: c_int where "GH_PATHFD_RESOLVELINKS \<equiv> 2"

text \<open>\<^verbatim>\<open>gh_pathfd pathfd = {0}\<close>\<close>

definition pathfd_zero :: gh_pathfd where
  "pathfd_zero = \<lparr>pf_fd = 0, pf_trailing = []\<rparr>"

text \<open>The argument and the result \<open>pf\<close> are \<^verbatim>\<open>*out_pathfd\<close>.\<close>

definition gh_pathfd_opentrailing ::
  "env \<Rightarrow> int \<Rightarrow> string \<Rightarrow> gh_pathfd \<Rightarrow> trace \<Rightarrow> gh_result \<times> (gh_pathfd \<times> trace)" where
  "gh_pathfd_opentrailing env dirfd path pf tr =
     (let basename_str = c_basename (cstr path) in
      if strncmp_eq basename_str ''.'' 2 then (ghr_errnoval GHR_PATHFD_OPENFAIL ENOENT, (pf, tr))
      else if strncmp_eq basename_str ''..'' 3 then (ghr_errnoval GHR_PATHFD_OPENFAIL ENOENT, (pf, tr))
      else if strncmp_eq basename_str ''/'' 2 then (ghr_errnoval GHR_PATHFD_OPENFAIL ENOENT, (pf, tr))
      else
        (let dirname_str = c_dirname (cstr path);
             (a, tr) = syscall env (Openat dirfd dirname_str (O_PATH OR O_DIRECTORY) 0) tr in
         if an_ret a < 0 then (ghr_errno GHR_PATHFD_OPENFAIL a, (pf, tr))
         else if strlen basename_str > GH_PATHFD_TRAILINGNAMEMAX - 1
         then (GHR_PATHFD_LARGETRAILINGNAME, (pf, tr))
         else (GHR_OK, (\<lparr>pf_fd = an_ret a, pf_trailing = basename_str\<rparr>, tr))))"

definition gh_pathfd_open ::
  "env \<Rightarrow> int \<Rightarrow> string \<Rightarrow> gh_pathfd \<Rightarrow> c_int \<Rightarrow> trace \<Rightarrow> gh_result \<times> (gh_pathfd \<times> trace)" where
  "gh_pathfd_open env dirfd path pf mode tr =
     (let pf = pf\<lparr>pf_trailing := []\<rparr>;
          extra_flags = (if mode AND GH_PATHFD_RESOLVELINKS = 0 then O_NOFOLLOW else 0);
          (a, tr) = syscall env (Openat dirfd (cstr path) (O_PATH OR extra_flags) 0) tr in
      if an_ret a < 0 then
        (if mode AND GH_PATHFD_ALLOWMISSING \<noteq> 0 \<and> an_errno a = ENOENT
         then gh_pathfd_opentrailing env dirfd path pf tr
         else (ghr_errno GHR_PATHFD_OPENFAIL a, (pf, tr)))
      else (GHR_OK, (pf\<lparr>pf_fd := an_ret a\<rparr>, tr)))"

definition gh_pathfd_guaranteedtoexist :: "gh_pathfd \<Rightarrow> bool" where
  "gh_pathfd_guaranteedtoexist pathfd \<longleftrightarrow> chd (pf_trailing pathfd) = NUL"

text \<open>The answer to \<^verbatim>\<open>fstat\<close> holds the \<^verbatim>\<open>struct stat\<close>.\<close>

definition gh_pathfd_stat :: "env \<Rightarrow> gh_pathfd \<Rightarrow> trace \<Rightarrow> gh_result \<times> (answer option \<times> trace)" where
  "gh_pathfd_stat env pathfd tr =
     (if \<not> gh_pathfd_guaranteedtoexist pathfd then (GHR_PATHFD_MAYNOTEXIST, (None, tr))
      else
        (let (a, tr) = syscall env (Fstat (pf_fd pathfd)) tr in
         if an_ret a < 0 then (ghr_errno GHR_PATHFD_STATFAIL a, (None, tr)) else (GHR_OK, (Some a, tr))))"

definition gh_pathfd_close :: "env \<Rightarrow> gh_pathfd \<Rightarrow> trace \<Rightarrow> gh_result \<times> trace" where
  "gh_pathfd_close env pathfd tr =
     (let (a, tr) = syscall env (Close (pf_fd pathfd)) tr in
      if an_ret a < 0 then (ghr_errno GHR_PATHFD_CLOSEFAIL a, tr) else (GHR_OK, tr))"

section \<open>ProcFD\<close>

text \<open>\<^verbatim>\<open>gh_abscanonicalpath\<close>: the characters from the pointer on, and the length\<close>

record gh_abscanonicalpath =
  ac_ptr :: "string option"
  ac_len :: size_t

record gh_procfd =
  pr_fd :: int

abbreviation (input) GH_PROCFD_FDFILENAMEMAXFD :: int where "GH_PROCFD_FDFILENAMEMAXFD \<equiv> 9999"

definition gh_procfd_ctor :: "env \<Rightarrow> trace \<Rightarrow> gh_result \<times> (gh_procfd option \<times> trace)" where
  "gh_procfd_ctor env tr =
     (let (a, tr) = syscall env (Open ''/proc/self/fd'' (O_PATH OR O_DIRECTORY OR O_NOFOLLOW)) tr in
      if an_ret a < 0 then (ghr_errno GHR_PROCFD_PROCPATHFDOPEN a, (None, tr))
      else (GHR_OK, (Some \<lparr>pr_fd = an_ret a\<rparr>, tr)))"

text \<open>The descriptor's number, at most four digits, as \<^verbatim>\<open>snprintf\<close> prints it\<close>

definition procfd_getfdfilename :: "gh_pathfd \<Rightarrow> gh_result \<times> string" where
  "procfd_getfdfilename fd =
     (if pf_fd fd < 0 then (ghr_errnoval GHR_PROCFD_INVALIDFD EBADFD, [])
      else if pf_fd fd > GH_PROCFD_FDFILENAMEMAXFD then (GHR_PROCFD_BIGFDPATH, [])
      else (GHR_OK, c_decimal (nat (pf_fd fd))))"

text \<open>The \<open>n\<close> bytes that a reading call has delivered\<close>

definition an_bytes :: "answer \<Rightarrow> nat \<Rightarrow> string" where
  "an_bytes a n = take n (an_data a @ replicate n NUL)"

definition gh_procfd_fdpathdtor ::
  "gh_alloc \<Rightarrow> gh_abscanonicalpath \<Rightarrow> gh_result \<times> gh_abscanonicalpath" where
  "gh_procfd_fdpathdtor al path =
     (let (res, p) = gh_alloc_delete al (Some (ac_ptr path)) (ac_len path + 1) in
      (res, path\<lparr>ac_ptr := p\<rparr>))"

text \<open>
  The body of \<^verbatim>\<open>do { ... } while (false)\<close>, which runs once, with the buffer of 128 zeros. The
  outcomes are an error, or the buffer with its size and the length of the path. The store at
  \<^verbatim>\<open>buffer[readlinkat_res + 1]\<close> must lie inside the buffer.
\<close>

definition procfd_readlink ::
  "env \<Rightarrow> gh_alloc \<Rightarrow> gh_procfd \<Rightarrow> string \<Rightarrow> trace \<Rightarrow> (gh_result \<times> (string \<times> nat \<times> trace)) option" where
  "procfd_readlink env al procfd fd_filename tr =
     (let buffer_size = 128;
          (a, tr) = syscall env (Readlinkat (pr_fd procfd) fd_filename buffer_size) tr;
          buffer = cells_write (replicate 128 NUL) 0 (an_bytes a (min 128 (nat (an_ret a)))) in
      if an_ret a < 0 then Some (ghr_errno GHR_PROCFD_READLINK a, (replicate 128 NUL, 0, tr))
      else if an_ret a < 128 then
        (if nat (an_ret a) + 1 < 128
         then Some (GHR_OK, (buffer[nat (an_ret a) + 1 := NUL], nat (an_ret a), tr)) else None)
      else
        (let (res, blk) = gh_alloc_resize al () (Some (Some ())) buffer_size (buffer_size + 128) in
         if ghr_iserr res then Some (res, (buffer, 0, tr))
         else Some (GHR_OK, (replicate 256 NUL, 0, tr))))"

text \<open>The suffix that Linux adds to the path of a removed file is cut off the length.\<close>

definition procfd_undelete :: "answer \<Rightarrow> string \<Rightarrow> nat \<Rightarrow> nat" where
  "procfd_undelete a buffer len =
     (let suffix = '' (deleted)'' in
      if an_ret a \<ge> 0 \<and> an_nlink a = 0 \<and> len \<ge> length suffix \<and>
         strncmp_eq (drop (len - length suffix) buffer) suffix (length suffix)
      then len - length suffix else len)"

text \<open>Appending the trailing name, after a slash unless the path is the root\<close>

definition procfd_addtrailing ::
  "gh_alloc \<Rightarrow> string \<Rightarrow> string \<Rightarrow> nat \<Rightarrow> nat \<Rightarrow> gh_result \<times> (string \<times> nat)" where
  "procfd_addtrailing al trailing buffer len slash =
     (let len_with_trailing = len + slash + strlen trailing;
          grow = len_with_trailing + 1 > length buffer;
          new_size = len_with_trailing + 1;
          (res, blk) = (if grow then gh_alloc_resize al () (Some (Some ()))
                                       (of_nat (length buffer)) (of_nat new_size)
                        else (GHR_OK, Some ())) in
      if ghr_iserr res then (res, (buffer, len))
      else
        (let buffer = (if grow then buffer @ replicate (new_size - length buffer) NUL else buffer);
             buffer = (if slash \<noteq> 0 then buffer[len := CHR ''/''] else buffer);
             buffer = cells_write buffer (len + slash) (cstr trailing @ [NUL]) in
         (GHR_OK, (buffer[len_with_trailing := NUL], len_with_trailing))))"

text \<open>
  \<^verbatim>\<open>gh_procfd_fdpathctor\<close>. After an error past the allocation the buffer is released and
  \<^verbatim>\<open>*out_path\<close> still set; no caller looks at it then, so the model returns no path.
\<close>

definition procfd_fail :: "gh_alloc \<Rightarrow> gh_result \<Rightarrow> size_t \<Rightarrow> gh_result" where
  "procfd_fail al res buffer_size =
     (let inner_res = fst (gh_alloc_delete al (Some (Some ())) buffer_size) in
      if ghr_iserr inner_res then inner_res else res)"

definition gh_procfd_fdpathctor ::
  "env \<Rightarrow> gh_alloc \<Rightarrow> gh_procfd \<Rightarrow> gh_pathfd \<Rightarrow> trace \<Rightarrow>
   (gh_result \<times> (gh_abscanonicalpath option \<times> trace)) option" where
  "gh_procfd_fdpathctor env al procfd fd tr =
     (if pf_fd fd < 0 then Some (ghr_errnoval GHR_PROCFD_INVALIDFD EBADFD, (None, tr))
      else if pf_fd fd > GH_PROCFD_FDFILENAMEMAXFD then Some (GHR_PROCFD_BIGFDPATH, (None, tr))
      else
        (let (res, fd_filename) = procfd_getfdfilename fd in
         if ghr_iserr res then Some (res, (None, tr))
         else
           (let (res, blk) = gh_alloc_new al () (Some None) 128 in
            if ghr_iserr res then Some (res, (None, tr))
            else
              Option.bind (procfd_readlink env al procfd fd_filename tr) (\<lambda>(res, buffer, len, tr).
              if ghr_iserr res
              then Some (procfd_fail al res (of_nat (length buffer)), (None, tr))
              else
                (let slash = (if len = 1 \<and> chd buffer = CHR ''/'' then 0 else 1);
                     (a, tr) = syscall env (Fstat (pf_fd fd)) tr;
                     len = procfd_undelete a buffer len in
                 if chd (pf_trailing fd) \<noteq> NUL then
                   (let (res, buffer, len) = procfd_addtrailing al (pf_trailing fd) buffer len slash in
                    if ghr_iserr res then Some (procfd_fail al res (of_nat (length buffer)), (None, tr))
                    else Some (GHR_OK, (Some \<lparr>ac_ptr = Some buffer, ac_len = of_nat len\<rparr>, tr)))
                 else Some (GHR_OK, (Some \<lparr>ac_ptr = Some buffer, ac_len = of_nat len\<rparr>, tr)))))))"

definition gh_procfd_reopen ::
  "env \<Rightarrow> gh_procfd \<Rightarrow> gh_pathfd \<Rightarrow> c_int \<Rightarrow> mode_t \<Rightarrow> trace \<Rightarrow> gh_result \<times> (int option \<times> trace)" where
  "gh_procfd_reopen env procfd fd flags create_mode tr =
     (let (res, fdfilename) = procfd_getfdfilename fd in
      if ghr_iserr res then (res, (None, tr))
      else
        (let (a, tr) =
           (if gh_pathfd_guaranteedtoexist fd
            then syscall env (Openat (pr_fd procfd) fdfilename flags create_mode) tr
            else syscall env (Openat (pf_fd fd) (cstr (pf_trailing fd)) flags create_mode) tr) in
         if an_ret a < 0 then (ghr_errno GHR_PROCFD_REOPENFAIL a, (None, tr))
         else (GHR_OK, (Some (an_ret a), tr))))"

definition gh_procfd_dtor :: "env \<Rightarrow> gh_procfd \<Rightarrow> trace \<Rightarrow> gh_result \<times> trace" where
  "gh_procfd_dtor env procfd tr =
     (let (a, tr) = syscall env (Close (pr_fd procfd)) tr in
      if an_ret a < 0 then (ghr_errno GHR_PROCFD_PROCPATHFDCLOSE a, tr) else (GHR_OK, tr))"

section \<open>A trailing name is one component\<close>

definition path_component :: "string \<Rightarrow> bool" where
  "path_component s \<longleftrightarrow> s \<noteq> [] \<and> nul_free s \<and> CHR ''/'' \<notin> set s \<and> s \<noteq> ''.'' \<and> s \<noteq> ''..''"

lemma nul_free_rev [simp]: "nul_free (rev s) \<longleftrightarrow> nul_free s"
  by (simp add: nul_free_def)

lemma nul_free_dropWhile: "nul_free s \<Longrightarrow> nul_free (dropWhile P s)"
  by (auto simp: nul_free_def dest: set_dropWhileD)

lemma nul_free_takeWhile: "nul_free s \<Longrightarrow> nul_free (takeWhile P s)"
  by (auto simp: nul_free_def dest: set_takeWhileD)

lemma rstrip_slash_nul_free: "nul_free s \<Longrightarrow> nul_free (rstrip_slash s)"
  by (simp add: rstrip_slash_def nul_free_dropWhile)

lemma rstrip_slash_last:
  "rstrip_slash s \<noteq> [] \<Longrightarrow> last (rstrip_slash s) \<noteq> CHR ''/''"
  using hd_dropWhile [of "\<lambda>c. c = CHR ''/''" "rev s"] by (auto simp: rstrip_slash_def last_rev)

lemma basename_cases:
  assumes "nul_free s"
  shows "c_basename s = ''/'' \<or> c_basename s = ''.'' \<or>
     c_basename s \<noteq> [] \<and> nul_free (c_basename s) \<and> CHR ''/'' \<notin> set (c_basename s)"
proof (cases "s = [] \<or> rstrip_slash s = []")
  case True
  then show ?thesis by (auto simp: c_basename_def Let_def)
next
  case False
  let ?t = "rstrip_slash s"
  have b: "c_basename s = rev (takeWhile (\<lambda>c. c \<noteq> CHR ''/'') (rev ?t))"
    using False by (simp add: c_basename_def Let_def)
  have "hd (rev ?t) \<noteq> CHR ''/''" using False rstrip_slash_last [of s] by (simp add: hd_rev)
  then have "takeWhile (\<lambda>c. c \<noteq> CHR ''/'') (rev ?t) \<noteq> []"
    using False by (cases "rev ?t") auto
  moreover have "nul_free (takeWhile (\<lambda>c. c \<noteq> CHR ''/'') (rev ?t))"
    using assms by (simp add: nul_free_takeWhile rstrip_slash_nul_free)
  ultimately show ?thesis by (auto simp: b dest: set_takeWhileD)
qed

lemma opentrailing_result:
  assumes "gh_pathfd_opentrailing env dirfd path pf tr = (res, (pf', tr'))"
  shows "res = GHR_OK \<longrightarrow> path_component (pf_trailing pf') \<and> length (pf_trailing pf') < GH_PATHFD_TRAILINGNAMEMAX \<and>
       pf_trailing pf' = c_basename (cstr path) \<and> 0 \<le> pf_fd pf' \<and>
       tr' = (Openat dirfd (c_dirname (cstr path)) (O_PATH OR O_DIRECTORY) 0,
              env tr (Openat dirfd (c_dirname (cstr path)) (O_PATH OR O_DIRECTORY) 0)) # tr"
    and "res \<noteq> GHR_OK \<longrightarrow> pf' = pf"
proof -
  let ?b = "c_basename (cstr path)"
  have cases: "?b = ''/'' \<or> ?b = ''.'' \<or> ?b \<noteq> [] \<and> nul_free ?b \<and> CHR ''/'' \<notin> set ?b"
    by (rule basename_cases) simp
  then have nf: "nul_free ?b" by auto
  have dots: "strncmp_eq ?b ''.'' 2 \<longleftrightarrow> ?b = ''.''" "strncmp_eq ?b ''..'' 3 \<longleftrightarrow> ?b = ''..''"
    "strncmp_eq ?b ''/'' 2 \<longleftrightarrow> ?b = ''/''"
    using nf by (simp_all add: strncmp_eq_whole)
  show "res = GHR_OK \<longrightarrow> path_component (pf_trailing pf') \<and> length (pf_trailing pf') < GH_PATHFD_TRAILINGNAMEMAX \<and>
       pf_trailing pf' = c_basename (cstr path) \<and> 0 \<le> pf_fd pf' \<and>
       tr' = (Openat dirfd (c_dirname (cstr path)) (O_PATH OR O_DIRECTORY) 0,
              env tr (Openat dirfd (c_dirname (cstr path)) (O_PATH OR O_DIRECTORY) 0)) # tr"
    using assms cases nf
    by (auto simp: gh_pathfd_opentrailing_def dots Let_def syscall_pair path_component_def ghr_errno_def
        strlen_nul_free ghr_simps split: if_splits)
  show "res \<noteq> GHR_OK \<longrightarrow> pf' = pf"
    using assms by (auto simp: gh_pathfd_opentrailing_def Let_def syscall_pair split: if_splits)
qed

section \<open>The path of a descriptor\<close>

text \<open>The string a canonical path denotes.\<close>

definition ac_view :: "gh_abscanonicalpath \<Rightarrow> string" where
  "ac_view p = (case ac_ptr p of None \<Rightarrow> [] | Some s \<Rightarrow> take (unat (ac_len p)) s)"

definition procfd_link :: "env \<Rightarrow> gh_procfd \<Rightarrow> gh_pathfd \<Rightarrow> trace \<Rightarrow> answer" where
  "procfd_link env procfd fd tr = env tr (Readlinkat (pr_fd procfd) (c_decimal (nat (pf_fd fd))) 128)"

definition procfd_trace :: "env \<Rightarrow> gh_procfd \<Rightarrow> gh_pathfd \<Rightarrow> trace \<Rightarrow> trace" where
  "procfd_trace env procfd fd tr =
     (let tr = snd (syscall env (Readlinkat (pr_fd procfd) (c_decimal (nat (pf_fd fd))) 128) tr)
      in snd (syscall env (Fstat (pf_fd fd)) tr))"

lemma getfdfilename_ok:
  "0 \<le> pf_fd fd \<Longrightarrow> pf_fd fd \<le> 9999 \<Longrightarrow> procfd_getfdfilename fd = (GHR_OK, c_decimal (nat (pf_fd fd)))"
  by (simp add: procfd_getfdfilename_def)

lemma readlink_short:
  assumes "an_ret (procfd_link env procfd fd tr) = int (length s)"
    and "an_data (procfd_link env procfd fd tr) = s" "length s < 127"
  shows "procfd_readlink env al procfd (c_decimal (nat (pf_fd fd))) tr =
     Some (GHR_OK, (s @ replicate (128 - length s) NUL, length s,
       (Readlinkat (pr_fd procfd) (c_decimal (nat (pf_fd fd))) 128, procfd_link env procfd fd tr) # tr))"
proof -
  have "(s @ replicate (128 - length s) NUL)[length s + 1 := NUL] = s @ replicate (128 - length s) NUL"
    using assms(3) by (intro list_update_same_conv [THEN iffD2]) (auto simp: nth_append)
  moreover have "cells_write (replicate 128 NUL) 0
      (an_bytes (procfd_link env procfd fd tr) (min 128 (nat (an_ret (procfd_link env procfd fd tr))))) =
      s @ replicate (128 - length s) NUL"
    using assms by (simp add: cells_write_def an_bytes_def)
  ultimately show ?thesis
    using assms by (simp add: procfd_readlink_def syscall_pair Let_def procfd_link_def [symmetric])
qed

definition procfd_slash :: "string \<Rightarrow> nat \<Rightarrow> nat" where
  "procfd_slash buffer len = (if len = 1 \<and> chd buffer = CHR ''/'' then 0 else 1)"

lemma fdpathctor_after_link:
  assumes "0 \<le> pf_fd fd" "pf_fd fd \<le> 9999" "al 0 128 = GHR_OK"
    and "procfd_readlink env al procfd (c_decimal (nat (pf_fd fd))) tr = Some (GHR_OK, (buffer, len, tr1))"
    and "an_nlink (env tr1 (Fstat (pf_fd fd))) \<noteq> 0 \<or> len = 0"
  shows "gh_procfd_fdpathctor env al procfd fd tr =
     (let tr2 = (Fstat (pf_fd fd), env tr1 (Fstat (pf_fd fd))) # tr1 in
      if chd (pf_trailing fd) \<noteq> NUL then
        (let (res, buffer, len) = procfd_addtrailing al (pf_trailing fd) buffer len (procfd_slash buffer len) in
         if ghr_iserr res then Some (procfd_fail al res (of_nat (length buffer)), (None, tr2))
         else Some (GHR_OK, (Some \<lparr>ac_ptr = Some buffer, ac_len = of_nat len\<rparr>, tr2)))
      else Some (GHR_OK, (Some \<lparr>ac_ptr = Some buffer, ac_len = of_nat len\<rparr>, tr2)))"
proof -
  have und: "procfd_undelete (env tr1 (Fstat (pf_fd fd))) buffer len = len"
    using assms(5) by (auto simp: procfd_undelete_def Let_def)
  show ?thesis
    using assms(1-4)
    by (simp add: gh_procfd_fdpathctor_def getfdfilename_ok gh_alloc_new_result ghr_defs syscall_pair
        Let_def und procfd_slash_def [symmetric] del: One_nat_def)
qed

lemma procfd_trace_link:
  "procfd_trace env procfd fd tr =
     (let tr1 = (Readlinkat (pr_fd procfd) (c_decimal (nat (pf_fd fd))) 128, procfd_link env procfd fd tr) # tr
      in (Fstat (pf_fd fd), env tr1 (Fstat (pf_fd fd))) # tr1)"
  by (simp add: procfd_trace_def procfd_link_def syscall_pair Let_def)

lemma fdpathctor_short:
  assumes fd: "0 \<le> pf_fd fd" "pf_fd fd \<le> 9999" and al: "al 0 128 = GHR_OK"
    and link: "an_ret (procfd_link env procfd fd tr) = int (length s)" "an_data (procfd_link env procfd fd tr) = s"
      "length s < 127"
    and exists: "pf_trailing fd = []"
    and linked: "\<And>tr. an_nlink (env tr (Fstat (pf_fd fd))) \<noteq> 0"
  shows "\<exists>path. gh_procfd_fdpathctor env al procfd fd tr = Some (GHR_OK, (Some path, procfd_trace env procfd fd tr)) \<and>
     ac_ptr path = Some (s @ replicate (128 - length s) NUL) \<and> ac_len path = of_nat (length s)"
  using fdpathctor_after_link [where al = al, OF fd al readlink_short [OF link]] linked exists
  by (simp add: procfd_trace_link Let_def)

text \<open>A missing file: the directory's path, a slash, and the trailing name.\<close>

lemma fdpathctor_trailing:
  assumes fd: "0 \<le> pf_fd fd" "pf_fd fd \<le> 9999" and al: "al 0 128 = GHR_OK"
    and link: "an_ret (procfd_link env procfd fd tr) = int (length s)" "an_data (procfd_link env procfd fd tr) = s"
      "length s < 127" "s \<noteq> ''/''"
    and name: "nul_free (pf_trailing fd)" "pf_trailing fd \<noteq> []" "length s + length (pf_trailing fd) < 127"
    and linked: "\<And>tr. an_nlink (env tr (Fstat (pf_fd fd))) \<noteq> 0"
  shows "\<exists>path. gh_procfd_fdpathctor env al procfd fd tr = Some (GHR_OK, (Some path, procfd_trace env procfd fd tr)) \<and>
     ac_view path = s @ ''/'' @ pf_trailing fd"
proof -
  let ?t = "pf_trailing fd"
  let ?n = "length s + 1 + length ?t"
  let ?buf = "s @ replicate (128 - length s) NUL"
  have t: "chd ?t \<noteq> NUL" using name by (cases ?t) auto
  have slash: "procfd_slash ?buf (length s) = 1"
    using link(4) by (cases s) (auto simp: procfd_slash_def)
  have add: "procfd_addtrailing al ?t ?buf (length s) 1 =
      (GHR_OK, ((s @ ''/'' @ ?t @ NUL # replicate (128 - length s - 2 - length ?t) NUL), ?n))"
  proof -
    obtain k where k: "128 - length s = Suc k" using link(3) by (cases "128 - length s") auto
    then have d: "126 - (length s + length ?t) = k - Suc (length ?t)" by simp
    have "Suc (length ?t) \<le> k" using k name(3) by simp
    then show ?thesis
      using name link(3) k
      by (simp add: procfd_addtrailing_def strlen_nul_free cstr_nul_free ghr_defs cells_write_def Let_def
          list_update_append d)
  qed
  have n: "unat (of_nat ?n :: size_t) = ?n" using name(3) by (intro unat_of_nat_nowrap) simp
  have "gh_procfd_fdpathctor env al procfd fd tr =
      Some (GHR_OK, (Some \<lparr>ac_ptr = Some (s @ ''/'' @ ?t @ NUL # replicate (128 - length s - 2 - length ?t) NUL),
        ac_len = of_nat ?n\<rparr>, procfd_trace env procfd fd tr))"
    using fdpathctor_after_link [where al = al, OF fd al readlink_short [OF link(1-3)]] linked t
    by (simp only: slash add procfd_trace_link Let_def ghr_defs) simp
  moreover have "take ?n (s @ ''/'' @ ?t @ NUL # rest) = s @ ''/'' @ ?t" for rest by simp
  ultimately show ?thesis using n by (simp add: ac_view_def)
qed

text \<open>
  A link of 128 bytes or more: the loop that should read it again with a larger buffer runs once
  only, so the path is empty.
\<close>

lemma fdpathctor_long:
  assumes fd: "0 \<le> pf_fd fd" "pf_fd fd \<le> 9999" and al: "al 0 128 = GHR_OK" "al 128 256 = GHR_OK"
    and link: "an_ret (procfd_link env procfd fd tr) \<ge> 128"
    and exists: "pf_trailing fd = []"
  shows "\<exists>path. gh_procfd_fdpathctor env al procfd fd tr = Some (GHR_OK, (Some path, procfd_trace env procfd fd tr)) \<and>
     ac_ptr path = Some (replicate 256 NUL) \<and> ac_len path = 0"
proof -
  have "procfd_readlink env al procfd (c_decimal (nat (pf_fd fd))) tr =
      Some (GHR_OK, (replicate 256 NUL, 0,
        (Readlinkat (pr_fd procfd) (c_decimal (nat (pf_fd fd))) 128, procfd_link env procfd fd tr) # tr))"
    using link al by (simp add: procfd_readlink_def procfd_link_def syscall_pair gh_alloc_resize_result ghr_defs Let_def)
  from fdpathctor_after_link [where al = al, OF fd al(1) this] exists show ?thesis
    by (simp add: procfd_trace_link Let_def)
qed

text \<open>A link of exactly 127 bytes makes the function store past its buffer.\<close>

lemma fdpathctor_127:
  assumes "0 \<le> pf_fd fd" "pf_fd fd \<le> 9999" "al 0 128 = GHR_OK"
    and "an_ret (procfd_link env procfd fd tr) = 127"
  shows "gh_procfd_fdpathctor env al procfd fd tr = None"
  using assms
  by (simp add: gh_procfd_fdpathctor_def getfdfilename_ok gh_alloc_new_result ghr_defs procfd_readlink_def
      procfd_link_def syscall_pair Let_def)

end
