(* ===== verification/Prompt.thy ===== *)
theory Prompt
  imports Kernel
begin

text \<open>
  Prompters (\<^verbatim>\<open>perms/prompt.c\<close>): the chain of prompters that a request falls through, the
  interpreter of request descriptions with their \<^verbatim>\<open>${field}\<close> references, and the terminal
  prompter. What is printed is the argument of \<open>Terminal\<close> calls.
\<close>

section \<open>Prompters\<close>

text \<open>The four responses of the enumeration, and any other number a callback may store.\<close>

datatype gh_permresponse =
    GH_PERMRESPONSE_ACCEPT | GH_PERMRESPONSE_REJECT | GH_PERMRESPONSE_ACCEPTREMEMBER
  | GH_PERMRESPONSE_REJECTREMEMBER | OtherResponse int

definition permresponse_of :: "int \<Rightarrow> gh_permresponse" where
  "permresponse_of n =
     (if n = 0 then GH_PERMRESPONSE_ACCEPT else if n = 1 then GH_PERMRESPONSE_REJECT
      else if n = 2 then GH_PERMRESPONSE_ACCEPTREMEMBER
      else if n = 3 then GH_PERMRESPONSE_REJECTREMEMBER else OtherResponse n)"

text \<open>A callback's result, \<^verbatim>\<open>*out_response\<close> if it has stored one, and the calls it has made.\<close>

type_synonym gh_permprompter_func =
  "env \<Rightarrow> gh_permrequest \<Rightarrow> trace \<Rightarrow> (gh_result \<times> (gh_permresponse option \<times> trace)) option"

datatype gh_permprompter = Prompter gh_permprompter_func "gh_permprompter option"

definition gh_permprompter_new :: "gh_permprompter_func \<Rightarrow> gh_permprompter" where
  "gh_permprompter_new func = Prompter func None"

text \<open>A callback of the application is part of the environment.\<close>

definition app_prompter :: gh_permprompter_func where
  "app_prompter env req tr =
     (let (a, tr) = syscall env (AskPrompter req) tr
      in Some (an_res a, (Some (permresponse_of (an_ret a)), tr)))"

fun gh_permprompter_request :: "gh_permprompter \<Rightarrow> gh_permprompter_func" where
  "gh_permprompter_request (Prompter func None) env req tr = func env req tr"
| "gh_permprompter_request (Prompter func (Some fallback)) env req tr =
     Option.bind (func env req tr) (\<lambda>(res, resp, tr).
     if ghr_is res GHR_PERMPROMPT_UNSUPPORTEDGROUP \<or> ghr_is res GHR_PERMPROMPT_UNSUPPORTEDRESOURCE then
       map_option (\<lambda>(res, resp', tr). (res, (if resp' = None then resp else resp', tr)))
         (gh_permprompter_request fallback env req tr)
     else Some (res, (resp, tr)))"

section \<open>Descriptions\<close>

datatype generic_desc_state =
    GENERIC_DESC_TEXT | GENERIC_DESC_WHITESPACE | GENERIC_DESC_SKIPWHITESPACE
  | GENERIC_DESC_DOLLAR | GENERIC_DESC_INBRACE

definition desc_space :: "char \<Rightarrow> bool" where
  "desc_space c \<longleftrightarrow> c = CHR '' '' \<or> c = CHR 0x09 \<or> c = CHR 0x0A"

text \<open>The text of a reference, \<open>None\<close> when the field is missing\<close>

definition desc_field :: "gh_permrequest \<Rightarrow> string \<Rightarrow> string option" where
  "desc_field req fragment =
     (if fragment = ''group'' then Some (rq_group req)
      else if fragment = ''resource'' then Some (rq_resource req)
      else if fragment = ''source'' then Some (rq_source req)
      else if fragment = [] then Some []
      else map_option (\<lambda>f. cstr (cs_view (rf_value f))) (gh_permrequest_getfield req fragment))"

text \<open>
  The loop over the characters of the description; a step that ends with \<^verbatim>\<open>i -= 1\<close> looks at the
  same character again. \<open>frag\<close> is the fragment collected so far, \<open>out\<close> what has been printed.
\<close>

function desc_loop ::
  "gh_permrequest \<Rightarrow> generic_desc_state \<Rightarrow> string \<Rightarrow> string \<Rightarrow> string \<Rightarrow> gh_result \<times> string" where
  "desc_loop req state frag [] out =
     (if state = GENERIC_DESC_DOLLAR then (GHR_OK, out @ ''$'')
      else if state = GENERIC_DESC_INBRACE then (GHR_PERMPROMPT_UNTERMINATEDDESC, out)
      else (GHR_OK, out))"
| "desc_loop req GENERIC_DESC_TEXT frag (c # s) out =
     (if c = CHR ''$'' then desc_loop req GENERIC_DESC_DOLLAR frag s out
      else if desc_space c then desc_loop req GENERIC_DESC_WHITESPACE [] (c # s) out
      else desc_loop req GENERIC_DESC_TEXT frag s (out @ [c]))"
| "desc_loop req GENERIC_DESC_WHITESPACE frag (c # s) out =
     (if desc_space c then desc_loop req GENERIC_DESC_WHITESPACE (frag @ [c]) s out
      else desc_loop req GENERIC_DESC_TEXT frag (c # s) (out @ frag))"
| "desc_loop req GENERIC_DESC_SKIPWHITESPACE frag (c # s) out =
     (if \<not> desc_space c then desc_loop req GENERIC_DESC_TEXT frag (c # s) out
      else desc_loop req GENERIC_DESC_SKIPWHITESPACE frag s out)"
| "desc_loop req GENERIC_DESC_DOLLAR frag (c # s) out =
     (if c = CHR ''{'' then desc_loop req GENERIC_DESC_INBRACE [] s out
      else if c = CHR ''$'' then desc_loop req GENERIC_DESC_SKIPWHITESPACE frag s (out @ ''\<newline>'')
      else desc_loop req GENERIC_DESC_TEXT frag s (out @ ''$''))"
| "desc_loop req GENERIC_DESC_INBRACE frag (c # s) out =
     (if c = CHR ''}'' then
        (case desc_field req (cstr frag) of
           None \<Rightarrow> (GHR_PERMPROMPT_MISSINGFIELD, out)
         | Some t \<Rightarrow> desc_loop req GENERIC_DESC_TEXT [] s (out @ t))
      else desc_loop req GENERIC_DESC_INBRACE (frag @ [c]) s out)"
  by pat_completeness auto
termination
  by (relation "measure (\<lambda>(req, state, frag, s, out). 2 * length s +
      (case s of [] \<Rightarrow> 0 | c # _ \<Rightarrow>
         (if state = GENERIC_DESC_TEXT then (if desc_space c then 1 else 0)
          else if state = GENERIC_DESC_WHITESPACE \<or> state = GENERIC_DESC_SKIPWHITESPACE
          then (if desc_space c then 0 else 1) else 0)))")
    (auto split: list.splits)

definition print_generic_description :: "gh_permrequest \<Rightarrow> gh_conststr \<Rightarrow> gh_result \<times> string" where
  "print_generic_description req description =
     desc_loop req GENERIC_DESC_TEXT [] (cs_view description) []"

section \<open>The terminal prompter\<close>

definition print_terminal :: "env \<Rightarrow> string \<Rightarrow> trace \<Rightarrow> trace" where
  "print_terminal env s tr = snd (syscall env (Terminal s) tr)"

text \<open>\<^verbatim>\<open>input[1] == '\n'\<close> and \<^verbatim>\<open>input[0]\<close> a letter that the prompt offers\<close>

definition tui_valid :: "bool \<Rightarrow> char \<Rightarrow> char \<Rightarrow> bool" where
  "tui_valid future_req c0 c1 \<longleftrightarrow>
     c1 = CHR 0x0A \<and>
     (c0 \<in> set ''YyXxNn'' \<or> \<not> future_req \<and> c0 \<in> set ''Oo'')"

definition tui_menu :: "bool \<Rightarrow> string" where
  "tui_menu future_req =
     ''\<newline>Respond with:\<newline>'' @ ''  Y/y to accept the request and remember your choice\<newline>'' @
     (if \<not> future_req then ''  O/o to accept the request, but only once\<newline>'' else []) @
     ''  N/n to reject the request\<newline>'' @
     ''  X/x to reject the request and remember your choice for this resource\<newline>'' @
     ''Confirm with Enter.\<newline>'' @ ''> ''"

text \<open>The input loop: \<open>None\<close> when it does not end. The result is the first character of the answer.\<close>

partial_function (option) tui_loop ::
  "env \<Rightarrow> int \<Rightarrow> bool \<Rightarrow> bool \<Rightarrow> char \<Rightarrow> char \<Rightarrow> trace \<Rightarrow> (gh_result \<times> (char \<times> trace)) option" where
  "tui_loop env input_fd future_req fst_time c0 c1 tr =
     (if \<not> tui_valid future_req c0 c1 then
        (let tr = (if fst_time then tr else print_terminal env ''Invalid response. Try again.\<newline>'' tr);
             tr = print_terminal env (tui_menu future_req) tr;
             (a, tr) = syscall env (Read input_fd 2) tr in
         if an_ret a \<noteq> 2 then Some (ghr_errno GHR_PERMPROMPT_REJECTEDUNKNOWN a, (c0, tr))
         else tui_loop env input_fd future_req False ((an_data a @ [NUL, NUL]) ! 0)
                ((an_data a @ [NUL, NUL]) ! 1) tr)
      else Some (GHR_OK, (c0, tr)))"

text \<open>The answer: of the messages printed for the letters, and the response\<close>

definition tui_response :: "char \<Rightarrow> gh_permresponse \<times> string" where
  "tui_response c =
     (if c \<in> set ''oO'' then (GH_PERMRESPONSE_ACCEPT, ''Request accepted.\<newline>'')
      else if c \<in> set ''yY'' then (GH_PERMRESPONSE_ACCEPTREMEMBER, ''Request accepted and remembered.\<newline>'')
      else if c \<in> set ''nN'' then (GH_PERMRESPONSE_REJECT, ''Request rejected.\<newline>'')
      else if c \<in> set ''xX'' then (GH_PERMRESPONSE_REJECTREMEMBER, ''Request rejected and remembered.\<newline>'')
      else (GH_PERMRESPONSE_REJECT, []))"

definition tui_field :: "gh_permrequest_field \<Rightarrow> string" where
  "tui_field f =
     (if chd (rf_key f) = NUL \<or> strncmp_eq (rf_key f) ''key'' 64 then []
      else ''Field '' @ [CHR 0x27] @ rf_key f @ [CHR 0x27] @ '' contains: \"'' @
           cstr (cs_view (rf_value f)) @ ''\"\<newline>'')"

definition tui_quote :: "string \<Rightarrow> string" where
  "tui_quote s = [CHR 0x27] @ s @ [CHR 0x27]"

definition tui_intro :: "gh_permrequest \<Rightarrow> gh_conststr \<Rightarrow> string" where
  "tui_intro req key =
     ''Source '' @ tui_quote (rq_source req) @ '' is requesting access to a resource of type '' @
     tui_quote (rq_group req @ ''/'' @ rq_resource req) @
     (if cs_size key = 0 then ''.\<newline>''
      else '' identified as '' @ tui_quote (cstr (cs_view key)) @ ''.\<newline>'')"

text \<open>\<open>input_fd\<close> is the descriptor that the constructor packs into \<^verbatim>\<open>userdata\<close>.\<close>

definition simpletui_prompter :: "int \<Rightarrow> gh_permprompter_func" where
  "simpletui_prompter input_fd env req tr =
     (let key = (case gh_permrequest_getfield req ''key'' of
                   None \<Rightarrow> gh_conststr_fromlit [] | Some f \<Rightarrow> rf_value f);
          description_field = gh_permrequest_getfield req ''description'';
          hint_str = (case gh_permrequest_getfield req ''hint'' of
                        None \<Rightarrow> gh_conststr_fromlit [] | Some f \<Rightarrow> rf_value f);
          future_req = gh_conststr_eqz hint_str ''future'';
          tr = print_terminal env (''\<newline>'' @ ''== INTERACTIVE PERMISSION REQUEST == \<newline>'') tr;
          (res, tr) =
            (case description_field of
               None \<Rightarrow>
                 (GHR_OK, print_terminal env
                    (tui_intro req key @ ''The contents of the request are as follows:\<newline>'' @
                     concat (map tui_field (rq_fields req))) tr)
             | Some f \<Rightarrow>
                 (let (res, out) = print_generic_description req (rf_value f);
                      tr = print_terminal env out tr in
                  if ghr_iserr res then (res, tr) else (GHR_OK, print_terminal env ''\<newline>'' tr))) in
      if ghr_iserr res then Some (res, (None, tr))
      else
        (let tr = print_terminal env
               (''\<newline>If you accept the request, the script will receive access to the object as specified in the list above.'' @
                ''\<newline>If you reject the request, the script will not receive any new permissions.\<newline>'') tr in
         Option.bind (tui_loop env input_fd future_req True (CHR '' '') NUL tr) (\<lambda>(res, c, tr).
         if ghr_iserr res then Some (res, (None, tr))
         else
           (let (resp, msg) = tui_response c; tr = print_terminal env (msg @ ''\<newline>'') tr
            in Some (GHR_OK, (Some resp, tr))))))"

definition gh_permprompter_simpletui :: "int \<Rightarrow> gh_permprompter" where
  "gh_permprompter_simpletui in_fd = gh_permprompter_new (simpletui_prompter in_fd)"

definition gh_permprompter_simpletui_stderr :: "int \<Rightarrow> gh_permprompter" where
  "gh_permprompter_simpletui_stderr in_fd = gh_permprompter_new (simpletui_prompter in_fd)"

section \<open>Rejection is the default\<close>

text \<open>
  The terminal prompter reports success only for an answer the user typed, and then with the
  response that letter stands for; for a request for future use it never accepts just once.
\<close>

lemma two_chars:
  assumes "(xs @ [NUL, NUL]) ! 1 = CHR 0x0A"
  shows "take 2 xs = [(xs @ [NUL, NUL]) ! 0, CHR 0x0A]"
  using assms by (cases xs; cases "tl xs") auto

text \<open>\<open>tui_read\<close>: the last call of the trace is a read of two bytes that delivered the letter and a newline.\<close>

definition tui_read :: "env \<Rightarrow> int \<Rightarrow> char \<Rightarrow> trace \<Rightarrow> bool" where
  "tui_read env fd c tr \<longleftrightarrow>
     (\<exists>a tr1. tr = (Read fd 2, a) # tr1 \<and> a = env tr1 (Read fd 2) \<and> an_ret a = 2 \<and>
        take 2 (an_data a) = [c, CHR 0x0A])"

lemma tui_loop_read:
  assumes "tui_loop env fd future_req first c0 c1 tr = Some (GHR_OK, (c, tr'))" "\<not> tui_valid future_req c0 c1"
  shows "tui_valid future_req c (CHR 0x0A) \<and> tui_read env fd c tr'"
proof -
  have "fst r = GHR_OK \<longrightarrow>
      (if tui_valid future_req c0 c1 then snd r = (c0, tr)
       else tui_valid future_req (fst (snd r)) (CHR 0x0A) \<and> tui_read env fd (fst (snd r)) (snd (snd r)))"
    if "tui_loop env fd future_req first c0 c1 tr = Some r" for r
  proof (rule tui_loop.raw_induct
      [where P = "\<lambda>env fd future_req first c0 c1 tr r. fst r = GHR_OK \<longrightarrow>
        (if tui_valid future_req c0 c1 then snd r = (c0, tr)
         else tui_valid future_req (fst (snd r)) (CHR 0x0A) \<and> tui_read env fd (fst (snd r)) (snd (snd r)))", OF _ that])
    fix loop env fd future_req first c0 c1 tr r
    assume IH: "\<And>env fd future_req first c0 c1 tr r. loop env fd future_req first c0 c1 tr = Some r \<Longrightarrow>
        fst r = GHR_OK \<longrightarrow>
        (if tui_valid future_req c0 c1 then snd r = (c0, tr)
         else tui_valid future_req (fst (snd r)) (CHR 0x0A) \<and> tui_read env fd (fst (snd r)) (snd (snd r)))"
      and step: "(if \<not> tui_valid future_req c0 c1 then
        (let tr = (if first then tr else print_terminal env ''Invalid response. Try again.\<newline>'' tr);
             tr = print_terminal env (tui_menu future_req) tr;
             (a, tr) = syscall env (Read fd 2) tr in
         if an_ret a \<noteq> 2 then Some (ghr_errno GHR_PERMPROMPT_REJECTEDUNKNOWN a, (c0, tr))
         else loop env fd future_req False ((an_data a @ [NUL, NUL]) ! 0) ((an_data a @ [NUL, NUL]) ! 1) tr)
      else Some (GHR_OK, (c0, tr))) = Some r"
    show "fst r = GHR_OK \<longrightarrow>
        (if tui_valid future_req c0 c1 then snd r = (c0, tr)
         else tui_valid future_req (fst (snd r)) (CHR 0x0A) \<and> tui_read env fd (fst (snd r)) (snd (snd r)))"
    proof (cases "tui_valid future_req c0 c1")
      case True
      with step show ?thesis by auto
    next
      case False
      define tr1 where "tr1 = print_terminal env (tui_menu future_req)
          (if first then tr else print_terminal env ''Invalid response. Try again.\<newline>'' tr)"
      define a where "a = env tr1 (Read fd 2)"
      define d where "d = an_data a @ [NUL, NUL]"
      from step False have step': "(if an_ret a \<noteq> 2 then Some (ghr_errno GHR_PERMPROMPT_REJECTEDUNKNOWN a, (c0, (Read fd 2, a) # tr1))
          else loop env fd future_req False (d ! 0) (d ! 1) ((Read fd 2, a) # tr1)) = Some r"
        by (simp add: Let_def syscall_pair tr1_def a_def d_def cong: if_cong split del: if_split)
      show ?thesis
      proof (cases "an_ret a = 2")
        case True
        with step' have r: "loop env fd future_req False (d ! 0) (d ! 1) ((Read fd 2, a) # tr1) = Some r" by simp
        have "tui_read env fd (d ! 0) ((Read fd 2, a) # tr1)" if "d ! 1 = CHR 0x0A"
          using True two_chars that by (auto simp: tui_read_def a_def d_def)
        with IH [OF r] False show ?thesis by (auto simp: tui_valid_def split: if_splits)
      next
        case nok: False
        with step' have "fst r \<noteq> GHR_OK" by (auto simp: ghr_errno_def ghr_simps)
        then show ?thesis by simp
      qed
    qed
  qed
  from this [OF assms(1)] assms(2) show ?thesis by simp
qed

lemma simpletui_response:
  assumes "simpletui_prompter fd env req tr = Some (GHR_OK, (resp, tr'))"
  shows "\<exists>c tr2. resp = Some (fst (tui_response c)) \<and>
     tui_valid (gh_conststr_eqz (case gh_permrequest_getfield req ''hint'' of
        None \<Rightarrow> gh_conststr_fromlit [] | Some f \<Rightarrow> rf_value f) ''future'') c (CHR 0x0A) \<and>
     tui_read env fd c tr2 \<and> tr' = print_terminal env (snd (tui_response c) @ ''\<newline>'') tr2"
proof -
  from assms obtain c tr1 tr2 where
    loop: "tui_loop env fd (gh_conststr_eqz (case gh_permrequest_getfield req ''hint'' of
        None \<Rightarrow> gh_conststr_fromlit [] | Some f \<Rightarrow> rf_value f) ''future'') True (CHR '' '') NUL tr1 =
      Some (GHR_OK, (c, tr2))" and resp: "resp = Some (fst (tui_response c))"
      "tr' = print_terminal env (snd (tui_response c) @ ''\<newline>'') tr2"
    by (auto simp: simpletui_prompter_def Let_def ghr_defs case_prod_unfold bind_eq_Some_conv
        split: option.splits if_splits prod.splits)
  have "\<not> tui_valid f (CHR '' '') NUL" for f by (simp add: tui_valid_def)
  from tui_loop_read [OF loop this] resp show ?thesis by blast
qed

text \<open>Plain text is printed as it is.\<close>

lemma desc_text:
  assumes "\<forall>c \<in> set s. c \<noteq> CHR ''$'' \<and> \<not> desc_space c"
  shows "desc_loop req GENERIC_DESC_TEXT frag (s @ t) out = desc_loop req GENERIC_DESC_TEXT frag t (out @ s)"
  using assms by (induction s arbitrary: out) auto

text \<open>A reference prints its field.\<close>

lemma desc_inbrace:
  assumes "CHR ''}'' \<notin> set name"
  shows "desc_loop req GENERIC_DESC_INBRACE frag (name @ CHR ''}'' # t) out =
     (case desc_field req (cstr (frag @ name)) of
        None \<Rightarrow> (GHR_PERMPROMPT_MISSINGFIELD, out)
      | Some f \<Rightarrow> desc_loop req GENERIC_DESC_TEXT [] t (out @ f))"
  using assms by (induction name arbitrary: frag) auto

lemma desc_reference:
  assumes "CHR ''}'' \<notin> set name" "nul_free name"
  shows "desc_loop req GENERIC_DESC_TEXT frag (''${'' @ name @ CHR ''}'' # t) out =
     (case desc_field req name of
        None \<Rightarrow> (GHR_PERMPROMPT_MISSINGFIELD, out)
      | Some f \<Rightarrow> desc_loop req GENERIC_DESC_TEXT [] t (out @ f))"
  using assms desc_inbrace [of name req "[]" t out] by (simp add: cstr_nul_free)

end
