(* ===== verification/EnumGen.thy ===== *)
theory EnumGen
  imports Strings
begin

text \<open>
  The enumeration generator \<^verbatim>\<open>tools/enumgen.py\<close>, which turns the tables under
  \<^verbatim>\<open>intermediate/\<close> into C enumerations: how it numbers the rows (counting up, or one bit per row)
  and the lookup functions it writes out (\<^verbatim>\<open>_name\<close>, \<^verbatim>\<open>_desc\<close>, \<^verbatim>\<open>_ident\<close>, \<^verbatim>\<open>_fromname\<close>,
  \<^verbatim>\<open>_fromident\<close>).
\<close>

section \<open>Rows and values\<close>

text \<open>The value column: empty, \<^verbatim>\<open>::\<close>, \<^verbatim>\<open>::n\<close> or a number.\<close>

datatype enum_value = Auto | NextFlag | FlagAt nat | Number int

record enum_row =
  er_key :: string
  er_ident :: string
  er_value :: enum_value
  er_desc :: string

record enum_entry =
  ee_key :: string
  ee_ident :: string
  ee_value :: int
  ee_desc :: string

text \<open>
  The loop over the rows; \<open>pv\<close> is \<^verbatim>\<open>prev_value\<close>, \<open>pb\<close> is \<^verbatim>\<open>prev_bitflag\<close>. For \<^verbatim>\<open>::n\<close>
  the script assigns \<^verbatim>\<open>prev_bitflag = int(value)\<close> after \<^verbatim>\<open>value\<close> has become \<^verbatim>\<open>1 << n\<close>.
\<close>

fun enum_entries :: "int \<Rightarrow> int \<Rightarrow> enum_row list \<Rightarrow> enum_entry list" where
  "enum_entries pv pb [] = []"
| "enum_entries pv pb (r # rs) =
     (let (v, pv, pb) =
        (case er_value r of
           NextFlag \<Rightarrow> (push_bit (nat (pb + 1)) 1, pv, pb + 1)
         | FlagAt n \<Rightarrow> (push_bit n 1, push_bit n 1, push_bit n 1)
         | Auto \<Rightarrow> (pv + 1, pv + 1, pb)
         | Number n \<Rightarrow> (n, n, pb))
      in \<lparr>ee_key = er_key r, ee_ident = er_ident r, ee_value = v, ee_desc = er_desc r\<rparr>
         # enum_entries pv pb rs)"

definition enum_table :: "enum_row list \<Rightarrow> enum_entry list" where
  "enum_table rows = enum_entries (-1) (-1) rows"

fun enum_allflags :: "enum_row list \<Rightarrow> enum_entry list \<Rightarrow> int option \<Rightarrow> int option" where
  "enum_allflags (r # rs) (e # es) acc =
     enum_allflags rs es
       (case er_value r of
          NextFlag \<Rightarrow> Some (case acc of None \<Rightarrow> ee_value e | Some a \<Rightarrow> a + ee_value e)
        | FlagAt n \<Rightarrow> Some (case acc of None \<Rightarrow> ee_value e | Some a \<Rightarrow> a + ee_value e)
        | _ \<Rightarrow> acc)"
| "enum_allflags _ _ acc = acc"

section \<open>The generated functions\<close>

text \<open>
  A \<^verbatim>\<open>switch\<close> over the values, and a chain of \<^verbatim>\<open>strncmp(s, "...", len + 1) == 0\<close> tests; the
  default is the row of the key given as \<^verbatim>\<open>--unknown\<close>.
\<close>

fun enum_switch :: "enum_entry list \<Rightarrow> int \<Rightarrow> enum_entry option" where
  "enum_switch [] v = None"
| "enum_switch (e # es) v = (if v = ee_value e then Some e else enum_switch es v)"

fun enum_strchain :: "(enum_entry \<Rightarrow> string) \<Rightarrow> enum_entry list \<Rightarrow> string \<Rightarrow> enum_entry option" where
  "enum_strchain f [] s = None"
| "enum_strchain f (e # es) s =
     (if strncmp_eq s (f e) (length (f e) + 1) then Some e else enum_strchain f es s)"

definition enum_name :: "enum_entry list \<Rightarrow> enum_entry \<Rightarrow> int \<Rightarrow> string" where
  "enum_name es unknown v = (case enum_switch es v of Some e \<Rightarrow> ee_key e | None \<Rightarrow> ee_key unknown)"

definition enum_desc :: "enum_entry list \<Rightarrow> enum_entry \<Rightarrow> int \<Rightarrow> string" where
  "enum_desc es unknown v = (case enum_switch es v of Some e \<Rightarrow> ee_desc e | None \<Rightarrow> ee_desc unknown)"

text \<open>\<open>None\<close> is the NULL pointer.\<close>

definition enum_ident :: "enum_entry list \<Rightarrow> int \<Rightarrow> string option" where
  "enum_ident es v = map_option ee_ident (enum_switch es v)"

definition enum_fromname :: "enum_entry list \<Rightarrow> enum_entry \<Rightarrow> string \<Rightarrow> int" where
  "enum_fromname es unknown s =
     (case enum_strchain ee_key es s of Some e \<Rightarrow> ee_value e | None \<Rightarrow> ee_value unknown)"

definition enum_fromident :: "enum_entry list \<Rightarrow> enum_entry \<Rightarrow> string \<Rightarrow> int" where
  "enum_fromident es unknown s =
     (case enum_strchain ee_ident es s of Some e \<Rightarrow> ee_value e | None \<Rightarrow> ee_value unknown)"

section \<open>Lookups invert each other\<close>

lemma enum_switch_find: "enum_switch es v = List.find (\<lambda>e. ee_value e = v) es"
  by (induction es) auto

lemma enum_strchain_find:
  "nul_free s \<Longrightarrow> list_all (\<lambda>e. nul_free (f e)) es \<Longrightarrow>
   enum_strchain f es s = List.find (\<lambda>e. f e = s) es"
proof (induction es)
  case Nil
  then show ?case by simp
next
  case (Cons e es)
  then have "strncmp_eq s (f e) (length (f e) + 1) \<longleftrightarrow> f e = s"
    using strncmp_eq_whole [of s "f e" "length (f e) + 1"] by auto
  with Cons show ?case by (simp del: strncmp_eq.simps add_Suc_right add_0_right One_nat_def)
qed

lemma find_distinct:
  "e \<in> set es \<Longrightarrow> distinct (map g es) \<Longrightarrow> List.find (\<lambda>x. g x = g e) es = Some e"
  by (induction es) (auto simp: rev_image_eqI)

lemma enum_ident_fromident:
  assumes "distinct (map ee_value es)" "distinct (map ee_ident es)"
    "list_all (\<lambda>e. nul_free (ee_ident e)) es" "e \<in> set es"
  shows "enum_ident es (ee_value e) = Some (ee_ident e) \<and>
     enum_fromident es unknown (ee_ident e) = ee_value e"
  using assms find_distinct [OF assms(4,1)] find_distinct [OF assms(4,2)]
  by (auto simp: enum_ident_def enum_fromident_def enum_switch_find enum_strchain_find list_all_iff)

lemma enum_name_fromname:
  assumes "distinct (map ee_value es)" "distinct (map ee_key es)"
    "list_all (\<lambda>e. nul_free (ee_key e)) es" "e \<in> set es"
  shows "enum_name es unknown (ee_value e) = ee_key e \<and>
     enum_fromname es unknown (ee_key e) = ee_value e"
  using assms find_distinct [OF assms(4,1)] find_distinct [OF assms(4,2)]
  by (auto simp: enum_name_def enum_fromname_def enum_switch_find enum_strchain_find list_all_iff)

end
