(* ===== verification/PermfsMode.thy ===== *)
theory PermfsMode
  imports EnumGen Errors Result
begin

text \<open>
  The mode flags of the filesystem permissions: the enumeration generated from
  \<^verbatim>\<open>intermediate/gh_permfs_mode.csv\<close>, the flag iterator, the parser of comma separated modes and
  the mode sets of \<^verbatim>\<open>permfs.h\<close>. A mode is a 32 bit word, a set of bits.
\<close>

section \<open>The enumeration\<close>

type_synonym gh_permfs_mode = "32 word"

definition permfs_mode_rows :: "enum_row list" where
  "permfs_mode_rows =
    [\<lparr>er_key = ''NONE'', er_ident = ''none'', er_value = Number 0, er_desc = ''None''\<rparr>,
     \<lparr>er_key = ''CREATEFILE'', er_ident = ''createfile'', er_value = NextFlag,
      er_desc = ''Create the file''\<rparr>,
     \<lparr>er_key = ''CREATEDIR'', er_ident = ''createdir'', er_value = NextFlag,
      er_desc = ''Create the directory''\<rparr>,
     \<lparr>er_key = ''ACCESS_USER_READ'', er_ident = ''access.u+r'', er_value = NextFlag,
      er_desc = ''Configure created files and directories to be readable by the owner (you)''\<rparr>,
     \<lparr>er_key = ''ACCESS_USER_WRITE'', er_ident = ''access.u+w'', er_value = NextFlag,
      er_desc = ''Configure created files and directories to be writable by the owner (you)''\<rparr>,
     \<lparr>er_key = ''ACCESS_USER_EXECUTE'', er_ident = ''access.u+x'', er_value = NextFlag,
      er_desc = ''Configure created files and directories to be executable by the owner (you)''\<rparr>,
     \<lparr>er_key = ''ACCESS_GROUP_READ'', er_ident = ''access.g+r'', er_value = NextFlag,
      er_desc = ''Configure created files and directories to be readable by your user group''\<rparr>,
     \<lparr>er_key = ''ACCESS_GROUP_WRITE'', er_ident = ''access.g+w'', er_value = NextFlag,
      er_desc = ''Configure created files and directories to be writable by your user group''\<rparr>,
     \<lparr>er_key = ''ACCESS_GROUP_EXECUTE'', er_ident = ''access.g+x'', er_value = NextFlag,
      er_desc = ''Configure created files and directories to be executable by your user group''\<rparr>,
     \<lparr>er_key = ''ACCESS_OTHER_READ'', er_ident = ''access.o+r'', er_value = NextFlag,
      er_desc = ''Configure created files and directories to be readable by everybody on the system''\<rparr>,
     \<lparr>er_key = ''ACCESS_OTHER_WRITE'', er_ident = ''access.o+w'', er_value = NextFlag,
      er_desc = ''Configure created files and directories to be writable by everybody on the system''\<rparr>,
     \<lparr>er_key = ''ACCESS_OTHER_EXECUTE'', er_ident = ''access.o+x'', er_value = NextFlag,
      er_desc = ''Configure created files and directories to be executable by everybody on the system''\<rparr>,
     \<lparr>er_key = ''READ'', er_ident = ''read'', er_value = NextFlag,
      er_desc = ''Read the contents of the file''\<rparr>,
     \<lparr>er_key = ''WRITE'', er_ident = ''write'', er_value = NextFlag,
      er_desc = ''Write to the file''\<rparr>,
     \<lparr>er_key = ''UNLINK'', er_ident = ''unlink'', er_value = NextFlag,
      er_desc = ''Remove the file or empty directory''\<rparr>,
     \<lparr>er_key = ''MOVE'', er_ident = ''move'', er_value = NextFlag,
      er_desc = ''Move the file to another location (this requires permission to create a file at that location)''\<rparr>]"

abbreviation (input) GH_PERMFS_NONE :: gh_permfs_mode where "GH_PERMFS_NONE \<equiv> 0"
abbreviation (input) GH_PERMFS_CREATEFILE :: gh_permfs_mode where "GH_PERMFS_CREATEFILE \<equiv> 1"
abbreviation (input) GH_PERMFS_CREATEDIR :: gh_permfs_mode where "GH_PERMFS_CREATEDIR \<equiv> 2"
abbreviation (input) GH_PERMFS_ACCESS_USER_READ :: gh_permfs_mode where "GH_PERMFS_ACCESS_USER_READ \<equiv> 4"
abbreviation (input) GH_PERMFS_ACCESS_USER_WRITE :: gh_permfs_mode where "GH_PERMFS_ACCESS_USER_WRITE \<equiv> 8"
abbreviation (input) GH_PERMFS_ACCESS_USER_EXECUTE :: gh_permfs_mode where "GH_PERMFS_ACCESS_USER_EXECUTE \<equiv> 16"
abbreviation (input) GH_PERMFS_ACCESS_GROUP_READ :: gh_permfs_mode where "GH_PERMFS_ACCESS_GROUP_READ \<equiv> 32"
abbreviation (input) GH_PERMFS_ACCESS_GROUP_WRITE :: gh_permfs_mode where "GH_PERMFS_ACCESS_GROUP_WRITE \<equiv> 64"
abbreviation (input) GH_PERMFS_ACCESS_GROUP_EXECUTE :: gh_permfs_mode where "GH_PERMFS_ACCESS_GROUP_EXECUTE \<equiv> 128"
abbreviation (input) GH_PERMFS_ACCESS_OTHER_READ :: gh_permfs_mode where "GH_PERMFS_ACCESS_OTHER_READ \<equiv> 256"
abbreviation (input) GH_PERMFS_ACCESS_OTHER_WRITE :: gh_permfs_mode where "GH_PERMFS_ACCESS_OTHER_WRITE \<equiv> 512"
abbreviation (input) GH_PERMFS_ACCESS_OTHER_EXECUTE :: gh_permfs_mode where "GH_PERMFS_ACCESS_OTHER_EXECUTE \<equiv> 1024"
abbreviation (input) GH_PERMFS_READ :: gh_permfs_mode where "GH_PERMFS_READ \<equiv> 2048"
abbreviation (input) GH_PERMFS_WRITE :: gh_permfs_mode where "GH_PERMFS_WRITE \<equiv> 4096"
abbreviation (input) GH_PERMFS_UNLINK :: gh_permfs_mode where "GH_PERMFS_UNLINK \<equiv> 8192"
abbreviation (input) GH_PERMFS_MOVE :: gh_permfs_mode where "GH_PERMFS_MOVE \<equiv> 16384"
abbreviation (input) GH_PERMFS_ALLFLAGS :: gh_permfs_mode where "GH_PERMFS_ALLFLAGS \<equiv> 32767"

definition permfs_mode_table :: "enum_entry list" where
  "permfs_mode_table = enum_table permfs_mode_rows"

definition permfs_mode_unknown :: enum_entry where
  "permfs_mode_unknown = \<lparr>ee_key = ''NONE'', ee_ident = ''none'', ee_value = 0, ee_desc = ''None''\<rparr>"

definition gh_permfs_mode_desc :: "gh_permfs_mode \<Rightarrow> string" where
  "gh_permfs_mode_desc v = enum_desc permfs_mode_table permfs_mode_unknown (uint v)"

definition gh_permfs_mode_ident :: "gh_permfs_mode \<Rightarrow> string option" where
  "gh_permfs_mode_ident v = enum_ident permfs_mode_table (uint v)"

definition gh_permfs_mode_fromident :: "string \<Rightarrow> gh_permfs_mode" where
  "gh_permfs_mode_fromident s = word_of_int (enum_fromident permfs_mode_table permfs_mode_unknown s)"

section \<open>Flags of a mode\<close>

text \<open>
  The loop of \<^verbatim>\<open>gh_permfs_nextmodeflag\<close> from bit \<open>i\<close> up, and the function; \<open>None\<close> is the
  result false.
\<close>

function mode_scan :: "nat \<Rightarrow> gh_permfs_mode \<Rightarrow> (gh_permfs_mode \<times> gh_permfs_mode) option" where
  "mode_scan i state =
     (if i < 32 then
        (let flag = state AND push_bit i 1 in
         if flag = 0 then mode_scan (Suc i) state else Some (flag, state AND NOT flag))
      else None)"
  by pat_completeness auto
termination
  by (relation "measure (\<lambda>(i, state). 32 - i)") auto

definition gh_permfs_nextmodeflag :: "gh_permfs_mode \<Rightarrow> (gh_permfs_mode \<times> gh_permfs_mode) option" where
  "gh_permfs_nextmodeflag state = (if state = 0 then None else mode_scan 0 state)"

definition gh_permfs_ismodevalid :: "gh_permfs_mode \<Rightarrow> bool" where
  "gh_permfs_ismodevalid mode \<longleftrightarrow> mode \<le> GH_PERMFS_ALLFLAGS"

definition gh_permfs_mode_isaccessmodeflag :: "gh_permfs_mode \<Rightarrow> bool" where
  "gh_permfs_mode_isaccessmodeflag flag \<longleftrightarrow>
     flag \<ge> GH_PERMFS_ACCESS_USER_READ \<and> flag \<le> GH_PERMFS_ACCESS_OTHER_EXECUTE"

declare mode_scan.simps [simp del]

lemma bit_flag: "bit (push_bit i 1 :: gh_permfs_mode) n \<longleftrightarrow> i < 32 \<and> n = i"
  by (auto simp: bit_simps)

lemma flag_clear: "(state :: gh_permfs_mode) AND push_bit i 1 = 0 \<longleftrightarrow> i < 32 \<longrightarrow> \<not> bit state i"
proof
  assume "state AND push_bit i 1 = 0"
  then have "\<not> bit (state AND push_bit i 1) i" by (simp del: push_bit_of_1)
  then show "i < 32 \<longrightarrow> \<not> bit state i" by (auto simp: bit_and_iff bit_flag simp del: push_bit_of_1)
next
  assume "i < 32 \<longrightarrow> \<not> bit state i"
  then show "state AND push_bit i 1 = 0"
    by (intro bit_word_eqI) (auto simp: bit_and_iff bit_flag simp del: push_bit_of_1)
qed

lemma flag_nonzero: "i < 32 \<Longrightarrow> push_bit i 1 \<noteq> (0 :: gh_permfs_mode)"
  by (metis bit_0_eq bit_flag bot_apply bot_bool_def)

lemma flag_single: "bit (state :: gh_permfs_mode) i \<Longrightarrow> state AND push_bit i 1 = push_bit i 1"
  by (rule bit_word_eqI) (auto simp: bit_and_iff bit_flag simp del: push_bit_of_1)

text \<open>The scan finds the lowest bit and clears it.\<close>

lemma mode_scan_result:
  "mode_scan i state =
     (case filter (bit state) [i..<32] of
        [] \<Rightarrow> None
      | j # js \<Rightarrow> Some (push_bit j 1, state AND NOT (push_bit j 1)))"
proof (induction i state rule: mode_scan.induct)
  case (1 i state)
  show ?case
  proof (cases "i < 32")
    case False
    then show ?thesis by (subst mode_scan.simps) simp
  next
    case True
    then have up: "[i..<32] = i # [Suc i..<32]" by (simp add: upt_rec)
    show ?thesis
    proof (cases "bit state i")
      case True
      with \<open>i < 32\<close> show ?thesis
        by (subst mode_scan.simps) (simp add: up flag_nonzero flag_single Let_def del: push_bit_of_1)
    next
      case False
      with \<open>i < 32\<close> 1 show ?thesis
        by (subst mode_scan.simps) (simp add: up flag_clear Let_def del: push_bit_of_1)
    qed
  qed
qed

lemma clear_bit_smaller:
  assumes "bit (state :: gh_permfs_mode) j"
  shows "unat (state AND NOT (push_bit j 1)) < unat state"
proof -
  have "state AND NOT (push_bit j 1) \<le> state" by (simp add: word_and_le2)
  moreover have "state AND NOT (push_bit j 1) \<noteq> state"
  proof
    assume eq: "state AND NOT (push_bit j 1) = state"
    have "j < 32" using bit_imp_le_length [OF assms] by simp
    with assms have "\<not> bit (state AND NOT (push_bit j 1)) j"
      by (simp add: bit_and_iff bit_not_iff bit_flag del: push_bit_of_1)
    with eq assms show False by simp
  qed
  ultimately show ?thesis unfolding word_less_nat_alt [symmetric] by (rule order_le_neq_trans)
qed

lemma mode_scan_smaller: "mode_scan i state = Some (flag, state') \<Longrightarrow> unat state' < unat state"
  by (auto simp: mode_scan_result filter_eq_Cons_iff intro!: clear_bit_smaller split: list.splits
      simp del: push_bit_of_1)

lemma nextmodeflag_smaller:
  "gh_permfs_nextmodeflag state = Some (flag, state') \<Longrightarrow> unat state' < unat state"
  by (auto simp: gh_permfs_nextmodeflag_def dest: mode_scan_smaller split: if_splits)

text \<open>The flags that \<^verbatim>\<open>while (gh_permfs_nextmodeflag(&iter, &flag))\<close> visits, in order.\<close>

function permfs_flags :: "gh_permfs_mode \<Rightarrow> gh_permfs_mode list" where
  "permfs_flags iter =
     (case gh_permfs_nextmodeflag iter of
        None \<Rightarrow> []
      | Some (flag, iter') \<Rightarrow> flag # permfs_flags iter')"
  by pat_completeness auto
termination
  by (relation "measure unat") (auto dest: nextmodeflag_smaller)

declare permfs_flags.simps [simp del]

lemma nextmodeflag_result:
  "gh_permfs_nextmodeflag state =
     (case filter (bit state) [0..<32] of
        [] \<Rightarrow> None
      | j # js \<Rightarrow> Some (push_bit j 1, state AND NOT (push_bit j 1)))"
  by (auto simp: gh_permfs_nextmodeflag_def mode_scan_result split: list.splits simp del: push_bit_of_1)

lemma permfs_flags_bits: "permfs_flags m = map (\<lambda>i. push_bit i 1) (filter (bit m) [0..<32])"
proof (induction m rule: permfs_flags.induct)
  case (1 m)
  show ?case
  proof (cases "filter (bit m) [0..<32]")
    case Nil
    then show ?thesis by (subst permfs_flags.simps) (simp add: nextmodeflag_result)
  next
    case (Cons j js)
    let ?m = "m AND NOT (push_bit j 1)"
    have next_flag: "gh_permfs_nextmodeflag m = Some (push_bit j 1, ?m)"
      by (simp add: nextmodeflag_result Cons del: push_bit_of_1)
    have "distinct (j # js)" using distinct_filter [of "[0..<32]" "bit m"] Cons by simp
    moreover have "filter (bit ?m) [0..<32] = filter (\<lambda>i. i \<noteq> j) (filter (bit m) [0..<32])"
      unfolding filter_filter
      by (rule filter_cong) (auto simp: bit_and_iff bit_not_iff bit_flag simp del: push_bit_of_1)
    ultimately have "filter (bit ?m) [0..<32] = js"
      unfolding Cons by (simp add: filter_id_conv) blast
    with 1 [OF next_flag refl] next_flag Cons show ?thesis
      by (subst permfs_flags.simps) (simp del: push_bit_of_1)
  qed
qed

section \<open>Modes from strings\<close>

text \<open>\<^verbatim>\<open>strtok_r(s, ",", &saveptr)\<close>: the next non-empty token and the rest.\<close>

definition strtok_comma :: "string \<Rightarrow> (string \<times> string) option" where
  "strtok_comma s =
     (let s = dropWhile (\<lambda>c. c = CHR '','') s in
      if s = [] then None
      else Some (takeWhile (\<lambda>c. c \<noteq> CHR '','') s, tl (dropWhile (\<lambda>c. c \<noteq> CHR '','') s)))"

lemma strtok_comma_shorter: "strtok_comma s = Some (t, r) \<Longrightarrow> length r < length s"
proof -
  assume "strtok_comma s = Some (t, r)"
  then have ne: "dropWhile (\<lambda>c. c = CHR '','') s \<noteq> []"
    and r: "r = tl (dropWhile (\<lambda>c. c \<noteq> CHR '','') (dropWhile (\<lambda>c. c = CHR '','') s))"
    by (auto simp: strtok_comma_def Let_def split: if_splits)
  have "length r \<le> length (dropWhile (\<lambda>c. c = CHR '','') s) - 1"
    unfolding r by (simp add: diff_le_mono length_dropWhile_le)
  with ne show ?thesis
    using length_dropWhile_le [of "\<lambda>c. c = CHR '',''" s] by (cases "dropWhile (\<lambda>c. c = CHR '','') s") auto
qed

abbreviation (input) EINVAL :: nat where "EINVAL \<equiv> 22"

function mode_fromstr_loop :: "string \<Rightarrow> gh_permfs_mode \<Rightarrow> gh_result \<times> gh_permfs_mode" where
  "mode_fromstr_loop s out_mode =
     (case strtok_comma s of
        None \<Rightarrow> (GHR_OK, out_mode)
      | Some (tok, rest) \<Rightarrow>
          (let flag = gh_permfs_mode_fromident tok in
           if flag = GH_PERMFS_NONE then (ghr_errnoval GHR_PERMFS_UNKNOWNMODE EINVAL, out_mode)
           else mode_fromstr_loop rest (out_mode OR flag)))"
  by pat_completeness auto
termination
  by (relation "measure (\<lambda>(s, m). length s)") (auto dest: strtok_comma_shorter)

declare mode_fromstr_loop.simps [simp del]

text \<open>The second component is \<^verbatim>\<open>*out_mode\<close>.\<close>

definition gh_permfs_mode_fromstr :: "gh_conststr \<Rightarrow> gh_result \<times> gh_permfs_mode" where
  "gh_permfs_mode_fromstr str = mode_fromstr_loop (cstr (cs_view str)) GH_PERMFS_NONE"

section \<open>Mode sets\<close>

record gh_permfs_modeset =
  mode_reject :: gh_permfs_mode
  mode_accept :: gh_permfs_mode
  mode_prompt :: gh_permfs_mode

abbreviation GH_PERMFS_MODESET_EMPTY :: gh_permfs_modeset where
  "GH_PERMFS_MODESET_EMPTY \<equiv> \<lparr>mode_reject = 0, mode_accept = 0, mode_prompt = 0\<rparr>"

definition gh_permfs_modeset_join :: "gh_permfs_modeset \<Rightarrow> gh_permfs_modeset \<Rightarrow> gh_permfs_modeset" where
  "gh_permfs_modeset_join lhs rhs =
     lhs\<lparr>mode_reject := mode_reject lhs OR mode_reject rhs,
         mode_accept := mode_accept lhs OR mode_accept rhs,
         mode_prompt := mode_prompt lhs OR mode_prompt rhs\<rparr>"

definition merge_modeset :: "gh_permfs_modeset \<Rightarrow> gh_permfs_modeset \<Rightarrow> gh_permfs_modeset" where
  "merge_modeset dest src =
     dest\<lparr>mode_reject := mode_reject dest OR mode_reject src,
          mode_accept := mode_accept dest OR mode_accept src,
          mode_prompt := mode_prompt dest OR mode_prompt src\<rparr>"

lemma modeset_join_empty [simp]: "gh_permfs_modeset_join m GH_PERMFS_MODESET_EMPTY = m"
  "gh_permfs_modeset_join GH_PERMFS_MODESET_EMPTY m = m"
  "merge_modeset m GH_PERMFS_MODESET_EMPTY = m"
  by (simp_all add: gh_permfs_modeset_join_def merge_modeset_def)

lemma modeset_join_laws:
  "gh_permfs_modeset_join a b = gh_permfs_modeset_join b a"
  "gh_permfs_modeset_join (gh_permfs_modeset_join a b) c = gh_permfs_modeset_join a (gh_permfs_modeset_join b c)"
  "gh_permfs_modeset_join a a = a"
  by (simp_all add: gh_permfs_modeset_join_def ac_simps)

section \<open>The enumeration is a numbering of bits\<close>

lemma permfs_mode_table_eq:
  "map ee_value permfs_mode_table =
     [0, 1, 2, 4, 8, 16, 32, 64, 128, 256, 512, 1024, 2048, 4096, 8192, 16384]"
  "map ee_ident permfs_mode_table =
     [''none'', ''createfile'', ''createdir'', ''access.u+r'', ''access.u+w'', ''access.u+x'',
      ''access.g+r'', ''access.g+w'', ''access.g+x'', ''access.o+r'', ''access.o+w'', ''access.o+x'',
      ''read'', ''write'', ''unlink'', ''move'']"
  by (simp_all add: permfs_mode_table_def enum_table_def permfs_mode_rows_def Let_def)

lemma permfs_allflags: "enum_allflags permfs_mode_rows permfs_mode_table None = Some (uint GH_PERMFS_ALLFLAGS)"
  by (simp add: permfs_mode_table_def enum_table_def permfs_mode_rows_def Let_def)

text \<open>The flags of a mode make up the mode, and a valid mode has only named flags.\<close>

lemma fold_or_bits:
  "bit (fold (OR) (map (\<lambda>i. push_bit i 1) is) a) k \<longleftrightarrow> bit (a :: gh_permfs_mode) k \<or> k < 32 \<and> k \<in> set is"
  by (induction "is" arbitrary: a) (auto simp: bit_or_iff bit_flag simp del: push_bit_of_1)

lemma permfs_flags_join: "fold (OR) (permfs_flags m) a = a OR m"
  by (rule bit_word_eqI) (auto simp: permfs_flags_bits fold_or_bits bit_or_iff simp del: push_bit_of_1)

lemma valid_mode_bits:
  assumes "gh_permfs_ismodevalid m" "bit m i"
  shows "i < 15"
proof -
  have "unat m < 2 ^ 15" using assms(1) by (simp add: gh_permfs_ismodevalid_def word_le_nat_alt)
  moreover have "bit (unat m) i" using assms(2) by (simp add: bit_unsigned_iff)
  ultimately show ?thesis by (metis bit_take_bit_iff take_bit_nat_eq_self)
qed

lemma permfs_flag_table:
  assumes "i < 15"
  shows "\<exists>e \<in> set permfs_mode_table. ee_value e = uint (push_bit i 1 :: gh_permfs_mode) \<and> ee_ident e \<noteq> ''none''"
proof -
  let ?P = "\<lambda>i. list_ex (\<lambda>e. ee_value e = uint (push_bit i 1 :: gh_permfs_mode) \<and> ee_ident e \<noteq> ''none'')
      permfs_mode_table"
  have "list_all ?P [0..<15]"
    by (simp add: upt_rec permfs_mode_table_def enum_table_def permfs_mode_rows_def Let_def)
  with assms have "?P i" by (simp add: list_all_iff)
  then show ?thesis by (simp add: list_ex_iff)
qed

lemma permfs_table_ok:
  "distinct (map ee_value permfs_mode_table)" "distinct (map ee_ident permfs_mode_table)"
  "list_all (\<lambda>e. nul_free (ee_ident e)) permfs_mode_table"
proof -
  show "distinct (map ee_value permfs_mode_table)" by (simp add: permfs_mode_table_eq)
  show "distinct (map ee_ident permfs_mode_table)" by (simp add: permfs_mode_table_eq)
  have "list_all nul_free (map ee_ident permfs_mode_table)" by (simp add: permfs_mode_table_eq)
  then show "list_all (\<lambda>e. nul_free (ee_ident e)) permfs_mode_table" by (simp add: list.pred_map comp_def)
qed

text \<open>Every flag of a valid mode has an identifier, and the identifier reads back as the flag.\<close>

lemma permfs_flag_ident:
  assumes "gh_permfs_ismodevalid m" "f \<in> set (permfs_flags m)"
  shows "\<exists>s. gh_permfs_mode_ident f = Some s \<and> gh_permfs_mode_fromident s = f \<and> f \<noteq> 0 \<and>
     s \<in> set (map ee_ident permfs_mode_table)"
proof -
  from assms obtain i where i: "f = push_bit i 1" "i < 15"
    by (auto simp: permfs_flags_bits dest: valid_mode_bits)
  then obtain e where e: "e \<in> set permfs_mode_table" "ee_value e = uint f"
    using permfs_flag_table by metis
  have "f \<noteq> 0" using i by (auto simp: bit_eq_iff bit_simps intro!: exI [of _ i])
  with enum_ident_fromident [OF permfs_table_ok e(1)] e show ?thesis
    by (auto simp: gh_permfs_mode_ident_def gh_permfs_mode_fromident_def)
qed

end
