(* ===== verification/Permfs.thy ===== *)
theory Permfs
  imports DynamicArray PathFd Prompt PermfsMode
begin

text \<open>
  The filesystem permissions (\<^verbatim>\<open>perms/permfs.c\<close>): the list of policy entries, the evaluation of
  a path and a mode against it, the prompt, and the two gates of the permission system. Entries own
  the characters of their path, which are never a NULL pointer in a list built by these
  operations.
\<close>

section \<open>The list of entries\<close>

record gh_permfs_entry =
  fe_path :: gh_abscanonicalpath
  fe_self :: gh_permfs_modeset
  fe_children :: gh_permfs_modeset

type_synonym gh_permfs = "gh_permfs_entry gh_dynamicarray"

definition permfsfilelist_dtorelement :: "gh_alloc \<Rightarrow> gh_permfs_entry \<Rightarrow> gh_result \<times> gh_permfs_entry" where
  "permfsfilelist_dtorelement al entry =
     (let (res, p) = gh_alloc_delete al (Some (ac_ptr (fe_path entry))) (ac_len (fe_path entry) + 1)
      in (res, entry\<lparr>fe_path := (fe_path entry)\<lparr>ac_ptr := p\<rparr>\<rparr>))"

definition permfsfilelist_daopts :: "gh_alloc \<Rightarrow> gh_permfs_entry gh_dynamicarrayoptions" where
  "permfsfilelist_daopts al =
     \<lparr>initial_capacity = 128, max_capacity = GH_DYNAMICARRAY_NOMAXCAPACITY, element_size = 40,
      dtorelement_func = Some (permfsfilelist_dtorelement al)\<rparr>"

definition gh_permfs_entrylist_ctor :: "gh_alloc \<Rightarrow> gh_permfs \<Rightarrow> gh_result \<times> gh_permfs" where
  "gh_permfs_entrylist_ctor al list = gh_dynamicarray_ctor al (permfsfilelist_daopts al) list"

definition gh_permfs_entrylist_append ::
  "gh_alloc \<Rightarrow> gh_permfs \<Rightarrow> gh_permfs_entry \<Rightarrow> (gh_result \<times> gh_permfs) option" where
  "gh_permfs_entrylist_append al list perm = gh_dynamicarray_append al (permfsfilelist_daopts al) list perm"

definition gh_permfs_entrylist_getat :: "gh_permfs \<Rightarrow> size_t \<Rightarrow> gh_result \<times> da_ptr option" where
  "gh_permfs_entrylist_getat list idx =
     (let (res, out_perm) = gh_dynamicarray_getat list idx in
      if ghr_iserr res then (res, out_perm) else (GHR_OK, out_perm))"

definition gh_permfs_entrylist_dtor :: "gh_alloc \<Rightarrow> gh_permfs \<Rightarrow> (gh_result \<times> gh_permfs) option" where
  "gh_permfs_entrylist_dtor al list = gh_dynamicarray_dtor al (permfsfilelist_daopts al) list"

definition gh_permfs_ctor :: "gh_alloc \<Rightarrow> gh_permfs \<Rightarrow> gh_result \<times> gh_permfs" where
  "gh_permfs_ctor al permfs =
     (let (res, permfs) = gh_permfs_entrylist_ctor al permfs in
      if ghr_iserr res then (res, permfs) else (res, permfs))"

definition gh_permfs_dtor :: "gh_alloc \<Rightarrow> gh_permfs \<Rightarrow> (gh_result \<times> gh_permfs) option" where
  "gh_permfs_dtor al permfs = gh_permfs_entrylist_dtor al permfs"

definition ac_chars :: "gh_abscanonicalpath \<Rightarrow> string" where
  "ac_chars p = (case ac_ptr p of None \<Rightarrow> [] | Some s \<Rightarrow> s)"

text \<open>The second component is \<^verbatim>\<open>*out_entry\<close>, set on success.\<close>

definition permfs_appendentry ::
  "gh_alloc \<Rightarrow> gh_permfs \<Rightarrow> gh_abscanonicalpath \<Rightarrow> gh_permfs_modeset \<Rightarrow> gh_permfs_modeset \<Rightarrow>
   (gh_result \<times> (da_ptr option \<times> gh_permfs)) option" where
  "permfs_appendentry al permfs ident self_modeset children_modeset =
     (let n = ac_len ident + 1;
          (res, blk) = gh_alloc_new al (replicate (unat n) NUL) (Some None) n in
      if ghr_iserr res then Some (res, (None, permfs))
      else
        Option.bind (ac_ptr ident) (\<lambda>src.
        Option.bind blk (\<lambda>dst.
        Option.bind (c_strncpy dst 0 src (unat n)) (\<lambda>ptr.
        Option.bind
          (gh_permfs_entrylist_append al permfs
             \<lparr>fe_path = \<lparr>ac_ptr = Some ptr, ac_len = ac_len ident\<rparr>,
              fe_self = self_modeset, fe_children = children_modeset\<rparr>) (\<lambda>(res, permfs).
        if ghr_iserr res then Some (res, (None, permfs))
        else Some (GHR_OK, (Some (da_block permfs, unat (da_size permfs - 1)), permfs)))))))"

definition permfs_identeq :: "gh_abscanonicalpath \<Rightarrow> gh_abscanonicalpath \<Rightarrow> bool" where
  "permfs_identeq lhs rhs \<longleftrightarrow>
     (if ac_len lhs \<noteq> ac_len rhs then False
      else strncmp_eq (ac_chars lhs) (ac_chars rhs) (unat (ac_len lhs)))"

text \<open>The loop over the entries in \<^verbatim>\<open>gh_permfs_add\<close>: the entry with the same path, if any\<close>

function permfs_find :: "gh_permfs \<Rightarrow> gh_abscanonicalpath \<Rightarrow> nat \<Rightarrow> (gh_result \<times> da_ptr option) option" where
  "permfs_find permfs ident i =
     (if i < unat (da_size permfs) then
        (let (res, ptr) = gh_permfs_entrylist_getat permfs (of_nat i) in
         if ghr_iserr res then Some (res, None)
         else
           Option.bind ptr (\<lambda>p.
           Option.bind (da_deref permfs p) (\<lambda>entry.
           if permfs_identeq (fe_path entry) ident then Some (GHR_OK, Some p)
           else permfs_find permfs ident (Suc i))))
      else Some (GHR_OK, None))"
  by pat_completeness auto
termination
  by (relation "measure (\<lambda>(permfs, ident, i). unat (da_size permfs) - i)") auto

declare permfs_find.simps [simp del]

definition gh_permfs_add ::
  "gh_alloc \<Rightarrow> gh_permfs \<Rightarrow> gh_abscanonicalpath \<Rightarrow> gh_permfs_modeset \<Rightarrow> gh_permfs_modeset \<Rightarrow>
   (gh_result \<times> (da_ptr option \<times> gh_permfs)) option" where
  "gh_permfs_add al permfs ident self_modeset children_modeset =
     Option.bind (permfs_find permfs ident 0) (\<lambda>(res, ptr).
     if ghr_iserr res then Some (res, (None, permfs))
     else case ptr of
       Some p \<Rightarrow>
         Option.bind (da_deref permfs p) (\<lambda>entry.
         map_option (\<lambda>permfs. (GHR_OK, (Some p, permfs)))
           (da_store permfs p
              (entry\<lparr>fe_self := merge_modeset (merge_modeset (fe_self entry) self_modeset)
                                   children_modeset\<rparr>)))
     | None \<Rightarrow> permfs_appendentry al permfs ident self_modeset children_modeset)"

section \<open>Evaluating the policy\<close>

definition file_type_allowed :: "mode_t \<Rightarrow> bool" where
  "file_type_allowed mode \<longleftrightarrow> S_ISREG mode \<or> S_ISDIR mode \<or> S_ISLNK mode"

text \<open>
  One round of the loop of \<^verbatim>\<open>gh_permfs_getmode\<close>; \<open>None\<close> when the byte at the length of the
  entry's path lies outside the buffer of the canonical path.
\<close>

definition permfs_match ::
  "gh_abscanonicalpath \<Rightarrow> gh_permfs_entry \<Rightarrow> gh_permfs_modeset \<times> gh_permfs_modeset \<Rightarrow>
   (gh_permfs_modeset \<times> gh_permfs_modeset) option" where
  "permfs_match canonical_path perm acc =
     (case acc of (self_modeset, children_modeset) \<Rightarrow>
      (let path = ac_chars (fe_path perm); canon = ac_chars canonical_path;
           path_len = unat (ac_len (fe_path perm)) in
       if strncmp_eq path canon (unat (ac_len canonical_path) + 1) then
         Some (gh_permfs_modeset_join self_modeset (fe_self perm),
               gh_permfs_modeset_join children_modeset (fe_children perm))
       else if \<not> strncmp_eq path canon path_len then Some acc
       else if path_len < length canon then
         (if canon ! path_len \<noteq> CHR ''/'' then Some acc
          else
            (let self_modeset = gh_permfs_modeset_join self_modeset (fe_children perm) in
             Some (self_modeset, gh_permfs_modeset_join self_modeset (fe_children perm))))
       else None))"

fun permfs_getmode_loop ::
  "gh_abscanonicalpath \<Rightarrow> gh_permfs_entry list \<Rightarrow> gh_permfs_modeset \<times> gh_permfs_modeset \<Rightarrow>
   (gh_permfs_modeset \<times> gh_permfs_modeset) option" where
  "permfs_getmode_loop canonical_path [] acc = Some acc"
| "permfs_getmode_loop canonical_path (perm # perms) acc =
     Option.bind (permfs_match canonical_path perm acc) (permfs_getmode_loop canonical_path perms)"

text \<open>
  The descriptor's type is checked also when \<^verbatim>\<open>fstat\<close> has failed with \<^verbatim>\<open>ENOENT\<close>: \<^verbatim>\<open>exists\<close> is
  set to true in any case, and \<^verbatim>\<open>stat\<close> then holds what the answer's mode stands for. The result
  is the pair of mode sets for the path itself and for its children.
\<close>

definition gh_permfs_getmode ::
  "env \<Rightarrow> gh_permfs \<Rightarrow> int \<Rightarrow> gh_abscanonicalpath \<Rightarrow> trace \<Rightarrow>
   (gh_result \<times> ((gh_permfs_modeset \<times> gh_permfs_modeset) \<times> trace)) option" where
  "gh_permfs_getmode env permfs opath_fd canonical_path tr =
     (let none = (GH_PERMFS_MODESET_EMPTY, GH_PERMFS_MODESET_EMPTY);
          (a, tr) = syscall env (Fstat opath_fd) tr in
      if an_ret a < 0 \<and> an_errno a \<noteq> ENOENT then Some (ghr_errno GHR_PERMFS_STATFAIL a, (none, tr))
      else if \<not> file_type_allowed (an_mode a) then Some (GHR_PERMFS_BADTYPE, (none, tr))
      else map_option (\<lambda>acc. (GHR_OK, (acc, tr)))
             (permfs_getmode_loop canonical_path (da_items permfs) none))"

record gh_permfs_actionresult =
  rejected_mode :: gh_permfs_mode
  default_policy :: bool

definition permfs_actmode ::
  "gh_permfs_modeset \<Rightarrow> gh_permfs_mode \<Rightarrow> gh_result \<times> gh_permfs_actionresult" where
  "permfs_actmode modeset mode =
     (if mode_reject modeset AND mode \<noteq> 0 then
        (GHR_PERMS_REJECTEDPOLICY,
         \<lparr>rejected_mode = mode AND NOT (mode_reject modeset), default_policy = False\<rparr>)
      else
        (let accepted_mode = mode_accept modeset AND mode in
         if accepted_mode \<noteq> 0 \<and> accepted_mode = mode then
           (GHR_OK, \<lparr>rejected_mode = 0, default_policy = False\<rparr>)
         else
           (let mode = (if accepted_mode \<noteq> 0 then mode AND NOT accepted_mode else mode) in
            if mode_prompt modeset AND mode \<noteq> 0 then
              (GHR_PERMS_REJECTEDPROMPT,
               \<lparr>rejected_mode = mode_prompt modeset, default_policy = False\<rparr>)
            else
              (GHR_PERMS_REJECTEDPROMPT, \<lparr>rejected_mode = mode, default_policy = True\<rparr>))))"

section \<open>The request\<close>

text \<open>\<^verbatim>\<open>if (!gh_str_appendz(...)) return false;\<close> The Boolean is the result so far.\<close>

definition desc_then :: "(bool \<times> gh_str) option \<Rightarrow> (gh_str \<Rightarrow> (bool \<times> gh_str) option) \<Rightarrow> (bool \<times> gh_str) option" where
  "desc_then m k = Option.bind m (\<lambda>(fits, str). if \<not> fits then Some (False, str) else k str)"

fun desc_flags :: "string \<Rightarrow> gh_permfs_mode list \<Rightarrow> gh_str \<Rightarrow> (bool \<times> gh_str) option" where
  "desc_flags bullet [] str = Some (True, str)"
| "desc_flags bullet (flag # flags) str =
     desc_then (gh_str_appendz str bullet False) (\<lambda>str.
     desc_then (gh_str_appendz str (gh_permfs_mode_desc flag) True) (desc_flags bullet flags))"

text \<open>The three sentences of the description\<close>

definition permfs_desc_intro :: string where
  "permfs_desc_intro = ''Source '${source}' is requesting access to the ${node_type} at ${key}.''"

definition permfs_desc_self :: string where
  "permfs_desc_self =
     ''$$If you accept, the script will be able to do the following with the ${node_type} at ${key}:''"

definition permfs_desc_children :: string where
  "permfs_desc_children =
     ''If you accept, the script will be able to do the following with ANY files and directories inside the ${node_type} at ${key}:''"

definition permfs_buildreqdescription ::
  "gh_permfs_mode \<Rightarrow> gh_permfs_mode \<Rightarrow> gh_str \<Rightarrow> (bool \<times> gh_str) option" where
  "permfs_buildreqdescription self_mode children_mode str =
     desc_then (gh_str_appendz str permfs_desc_intro True) (\<lambda>str.
     desc_then
       (if self_mode \<noteq> GH_PERMFS_NONE then
          desc_then (gh_str_appendz str permfs_desc_self True)
            (desc_flags ''$$ - '' (permfs_flags self_mode))
        else Some (True, str)) (\<lambda>str.
     desc_then
       (if children_mode \<noteq> GH_PERMFS_NONE then
          desc_then (if st_size str > 0 then gh_str_appendz str ''$$'' False else Some (True, str)) (\<lambda>str.
          desc_then (gh_str_appendz str permfs_desc_children True)
            (desc_flags ''$$- '' (permfs_flags children_mode)))
        else Some (True, str)) (\<lambda>str.
     map_option (\<lambda>(fits, str). (True, str)) (gh_str_insertnull str))))"

abbreviation (input) PERMFS_DESCRIPTIONMAX :: nat where "PERMFS_DESCRIPTIONMAX \<equiv> 2048"

definition rq_setat :: "nat \<Rightarrow> string \<Rightarrow> gh_conststr \<Rightarrow> gh_permrequest \<Rightarrow> gh_permrequest" where
  "rq_setat i key val req = req\<lparr>rq_fields := (rq_fields req)[i := \<lparr>rf_key = key, rf_value = val\<rparr>]\<rparr>"

text \<open>
  \<open>strcpy(request.source, source)\<close> is defined only for a source that fits in its 512 bytes.
  \<open>node_type\<close> and \<open>hint\<close> are \<open>None\<close> for NULL.
\<close>

definition permfs_makerequest ::
  "string \<Rightarrow> gh_abscanonicalpath \<Rightarrow> string option \<Rightarrow> string option \<Rightarrow> gh_permfs_mode \<Rightarrow> gh_permfs_mode \<Rightarrow>
   (gh_result \<times> gh_permrequest) option" where
  "permfs_makerequest source path node_type hint self_mode children_mode =
     Option.bind
       (permfs_buildreqdescription self_mode children_mode
          (gh_str_fromc (replicate PERMFS_DESCRIPTIONMAX NUL) 0 2048)) (\<lambda>(fits, description).
     if \<not> fits then Some (GHR_PERMFS_LARGEDESCRIPTION, permrequest_zero)
     else if strlen source \<ge> 512 then None
     else
       (let node_type = (case node_type of None \<Rightarrow> ''filesystem node'' | Some s \<Rightarrow> s);
            req = permrequest_zero\<lparr>rq_group := ''filesystem'', rq_resource := ''node'',
                                   rq_source := cstr source\<rparr>;
            req = rq_setat 0 ''key'' \<lparr>cs_buffer = ac_chars path, cs_size = ac_len path\<rparr> req;
            req = rq_setat 1 ''description''
                    \<lparr>cs_buffer = st_buffer description, cs_size = st_size description\<rparr> req;
            req = rq_setat 2 ''node_type'' (gh_conststr_fromz node_type) req;
            req = (case hint of None \<Rightarrow> req | Some h \<Rightarrow> rq_setat 3 ''hint'' (gh_conststr_fromz h) req)
        in Some (GHR_OK, req)))"

definition permfs_promptrequest ::
  "env \<Rightarrow> gh_alloc \<Rightarrow> gh_permprompter \<Rightarrow> string \<Rightarrow> gh_abscanonicalpath \<Rightarrow> string option \<Rightarrow> string option \<Rightarrow>
   gh_permfs_mode \<Rightarrow> gh_permfs_mode \<Rightarrow> gh_permfs \<times> trace \<Rightarrow> (gh_result \<times> (gh_permfs \<times> trace)) option" where
  "permfs_promptrequest env al prompter safe_id path node_type hint self_mode children_mode st =
     (case st of (permfs, tr) \<Rightarrow>
      Option.bind (permfs_makerequest safe_id path node_type hint self_mode children_mode) (\<lambda>(res, req).
      if ghr_iserr res then Some (res, (permfs, tr))
      else
        Option.bind (gh_permprompter_request prompter env req tr) (\<lambda>(res, resp, tr).
        if ghr_iserr res then Some (res, (permfs, tr))
        else
          Option.bind resp (\<lambda>resp.
          case resp of
            GH_PERMRESPONSE_ACCEPT \<Rightarrow> Some (res, (permfs, tr))
          | GH_PERMRESPONSE_REJECT \<Rightarrow> Some (GHR_PERMS_REJECTEDUSER, (permfs, tr))
          | GH_PERMRESPONSE_ACCEPTREMEMBER \<Rightarrow>
              map_option (\<lambda>(res, entry, permfs). (res, (permfs, tr)))
                (gh_permfs_add al permfs path (GH_PERMFS_MODESET_EMPTY\<lparr>mode_accept := self_mode\<rparr>)
                   (GH_PERMFS_MODESET_EMPTY\<lparr>mode_accept := children_mode\<rparr>))
          | GH_PERMRESPONSE_REJECTREMEMBER \<Rightarrow>
              map_option (\<lambda>(res, entry, permfs).
                  (if ghr_isok res then GHR_PERMS_REJECTEDUSER else res, (permfs, tr)))
                (gh_permfs_add al permfs path (GH_PERMFS_MODESET_EMPTY\<lparr>mode_reject := self_mode\<rparr>)
                   (GH_PERMFS_MODESET_EMPTY\<lparr>mode_reject := children_mode\<rparr>))
          | OtherResponse _ \<Rightarrow> Some (GHR_PERMS_REJECTEDPROMPT, (permfs, tr))))))"

definition permfs_getnodetype :: "env \<Rightarrow> gh_pathfd \<Rightarrow> trace \<Rightarrow> gh_result \<times> (string option \<times> trace)" where
  "permfs_getnodetype env fd tr =
     (let (res, statbuf, tr) = gh_pathfd_stat env fd tr in
      if ghr_isok res then
        (case statbuf of
           None \<Rightarrow> (res, (None, tr))
         | Some a \<Rightarrow>
             if S_ISREG (an_mode a) then (res, (Some ''file'', tr))
             else if S_ISDIR (an_mode a) then (res, (Some ''directory'', tr))
             else if S_ISLNK (an_mode a) then (res, (Some ''symbolic link'', tr))
             else (GHR_PERMFS_BADTYPE, (None, tr)))
      else if ghr_is res GHR_PATHFD_MAYNOTEXIST then (GHR_OK, (None, tr))
      else (res, (None, tr)))"

section \<open>The gates\<close>

text \<open>The label \<^verbatim>\<open>dtor_fdpath\<close>\<close>

definition permfs_dtor_fdpath ::
  "gh_alloc \<Rightarrow> gh_abscanonicalpath \<Rightarrow> gh_result \<times> (gh_permfs \<times> trace) \<Rightarrow> gh_result \<times> (gh_permfs \<times> trace)" where
  "permfs_dtor_fdpath al path r =
     (case r of (res, st) \<Rightarrow>
      (let inner_res = fst (gh_procfd_fdpathdtor al path) in
       (if ghr_iserr inner_res then inner_res else res, st)))"

definition gh_permfs_gatefile ::
  "env \<Rightarrow> gh_alloc \<Rightarrow> gh_permprompter \<Rightarrow> gh_procfd \<Rightarrow> string \<Rightarrow> gh_pathfd \<Rightarrow> gh_permfs_mode \<Rightarrow> string option \<Rightarrow>
   gh_permfs \<times> trace \<Rightarrow> (gh_result \<times> (gh_permfs \<times> trace)) option" where
  "gh_permfs_gatefile env al prompter procfd safe_id fd mode hint st =
     (case st of (permfs, tr) \<Rightarrow>
      Option.bind (gh_procfd_fdpathctor env al procfd fd tr) (\<lambda>(res, path, tr).
      if ghr_iserr res then Some (res, (permfs, tr))
      else
        Option.bind path (\<lambda>path.
        Option.bind (gh_permfs_getmode env permfs (pf_fd fd) path tr) (\<lambda>(res, (modeset, _), tr).
        if ghr_iserr res then Some (permfs_dtor_fdpath al path (res, (permfs, tr)))
        else
          (let (res, actionres) = permfs_actmode modeset mode in
           if ghr_is res GHR_PERMS_REJECTEDPROMPT then
             (let (res, node_type, tr) = permfs_getnodetype env fd tr in
              if ghr_iserr res then Some (res, (permfs, tr))
              else
                map_option (permfs_dtor_fdpath al path)
                  (permfs_promptrequest env al prompter safe_id path node_type hint
                     (rejected_mode actionres) 0 (permfs, tr)))
           else Some (permfs_dtor_fdpath al path (res, (permfs, tr))))))))"

text \<open>
  One of the two blocks \<^verbatim>\<open>if (self_mode != GH_PERMFS_NONE)\<close>: the result, and the mode that is left
  to ask for.
\<close>

definition permfs_requestmode :: "gh_permfs_modeset \<Rightarrow> gh_permfs_mode \<Rightarrow> gh_result \<times> gh_permfs_mode" where
  "permfs_requestmode modeset mode =
     (if mode \<noteq> GH_PERMFS_NONE then
        (let (res, actionres) = permfs_actmode modeset mode in
         if ghr_isok res then (res, GH_PERMFS_NONE)
         else if ghr_is res GHR_PERMS_REJECTEDPROMPT then (GHR_OK, rejected_mode actionres)
         else (res, mode))
      else (GHR_OK, mode))"

text \<open>
  \<open>dry\<close> says that \<^verbatim>\<open>out_wouldprompt\<close> is not NULL; the Boolean of the result is what it points to.
\<close>

definition gh_permfs_requestnode ::
  "env \<Rightarrow> gh_alloc \<Rightarrow> gh_permprompter \<Rightarrow> gh_procfd \<Rightarrow> string \<Rightarrow> gh_pathfd \<Rightarrow> gh_permfs_mode \<Rightarrow> gh_permfs_mode \<Rightarrow>
   string option \<Rightarrow> bool \<Rightarrow> gh_permfs \<times> trace \<Rightarrow> (gh_result \<times> (bool \<times> (gh_permfs \<times> trace))) option" where
  "gh_permfs_requestnode env al prompter procfd safe_id fd self_mode children_mode hint dry st =
     (if self_mode = GH_PERMFS_NONE \<and> children_mode = GH_PERMFS_NONE
      then Some (GHR_PERMFS_NULLREQUEST, (False, st))
      else
        (case st of (permfs, tr) \<Rightarrow>
         Option.bind (gh_procfd_fdpathctor env al procfd fd tr) (\<lambda>(res, path, tr).
         if ghr_iserr res then Some (res, (False, (permfs, tr)))
         else
           Option.bind path (\<lambda>path.
           let finish = (\<lambda>would r. let (res, st) = permfs_dtor_fdpath al path r in (res, (would, st)));
               (res, node_type, tr) = permfs_getnodetype env fd tr in
           if ghr_iserr res then Some (finish False (res, (permfs, tr)))
           else
             Option.bind (gh_permfs_getmode env permfs (pf_fd fd) path tr) (\<lambda>(res, (self_modeset, children_modeset), tr).
             if ghr_iserr res then Some (finish False (res, (permfs, tr)))
             else
               (let (res, self_mode) = permfs_requestmode self_modeset self_mode in
                if ghr_iserr res then Some (finish False (res, (permfs, tr)))
                else
                  (let (res, children_mode) = permfs_requestmode children_modeset children_mode in
                   if ghr_iserr res then Some (finish False (res, (permfs, tr)))
                   else if self_mode = GH_PERMFS_NONE \<and> children_mode = GH_PERMFS_NONE
                   then Some (finish False (res, (permfs, tr)))
                   else if dry then Some (finish True (res, (permfs, tr)))
                   else
                     map_option (finish False)
                       (permfs_promptrequest env al prompter safe_id path node_type hint
                          self_mode children_mode (permfs, tr)))))))))"

section \<open>Modes from open flags\<close>

text \<open>\<^verbatim>\<open>if ((cm = create_accessmode & S_I...)) { permfs_mode |= ...; create_accessmode &= ~cm; }\<close>\<close>

fun access_bits :: "(mode_t \<times> gh_permfs_mode) list \<Rightarrow> mode_t \<times> gh_permfs_mode \<Rightarrow> mode_t \<times> gh_permfs_mode" where
  "access_bits [] acc = acc"
| "access_bits ((b, flag) # bits) (access, mode) =
     (let cm = access AND b in
      access_bits bits (if cm \<noteq> 0 then (access AND NOT cm, mode OR flag) else (access, mode)))"

definition access_table :: "(mode_t \<times> gh_permfs_mode) list" where
  "access_table =
     [(0x100, GH_PERMFS_ACCESS_USER_READ), (0x80, GH_PERMFS_ACCESS_USER_WRITE),
      (0x40, GH_PERMFS_ACCESS_USER_EXECUTE), (0x20, GH_PERMFS_ACCESS_GROUP_READ),
      (0x10, GH_PERMFS_ACCESS_GROUP_WRITE), (0x8, GH_PERMFS_ACCESS_GROUP_EXECUTE),
      (0x4, GH_PERMFS_ACCESS_OTHER_READ), (0x2, GH_PERMFS_ACCESS_OTHER_WRITE),
      (0x1, GH_PERMFS_ACCESS_OTHER_EXECUTE)]"

text \<open>The three access modes: the permissions and the flags that are left; \<open>None\<close> for the fourth value\<close>

definition fcntl_access :: "c_int \<Rightarrow> (gh_permfs_mode \<times> c_int) option" where
  "fcntl_access flags =
     (if flags AND O_ACCMODE = O_RDONLY then Some (GH_PERMFS_READ, flags AND NOT O_RDONLY)
      else if flags AND O_ACCMODE = O_WRONLY then Some (GH_PERMFS_WRITE, flags AND NOT O_WRONLY)
      else if flags AND O_ACCMODE = O_RDWR
      then Some (GH_PERMFS_READ OR GH_PERMFS_WRITE, flags AND NOT O_RDWR)
      else None)"

definition gh_permfs_fcntlflags2permfsmode ::
  "c_int \<Rightarrow> mode_t \<Rightarrow> gh_pathfd \<Rightarrow> gh_result \<times> gh_permfs_mode option" where
  "gh_permfs_fcntlflags2permfsmode flags access pathfd =
     (case fcntl_access flags of
        None \<Rightarrow> (GHR_PERMFS_BADFCNTLMODE, None)
      | Some (mode, flags) \<Rightarrow>
          (let flags = (if flags AND O_TRUNC \<noteq> 0 then flags AND NOT O_TRUNC else flags);
               (mode, flags) = (if flags AND O_APPEND \<noteq> 0
                                then (mode OR GH_PERMFS_WRITE, flags AND NOT O_APPEND) else (mode, flags));
               (bad, mode, flags) =
                 (if flags AND O_CREAT \<noteq> 0 then
                    (let flags = flags AND NOT O_CREAT in
                     if \<not> gh_pathfd_guaranteedtoexist pathfd then
                       (let (access, mode) = access_bits access_table (access, mode OR GH_PERMFS_CREATEFILE)
                        in (access \<noteq> 0, mode, flags))
                     else (False, mode, flags))
                  else (False, mode, flags)) in
           if bad then (GHR_PERMFS_BADFCNTLMODE, None)
           else
             (let flags = (if flags AND O_DIRECTORY \<noteq> 0 then flags AND NOT O_DIRECTORY else flags) in
              if flags \<noteq> 0 then (GHR_PERMFS_BADFCNTLMODE, None) else (GHR_OK, Some mode))))"

text \<open>What the flags of \<^verbatim>\<open>open\<close> ask the policy for\<close>

lemma and_or_zero: "(f :: gh_permfs_mode) AND k = 0 \<Longrightarrow> (m OR f) AND k = m AND k"
  by (simp add: bit.conj_disj_distrib2)

lemma access_bits_other:
  "\<forall>(b, f) \<in> set bits. f AND k = 0 \<Longrightarrow> snd (access_bits bits (a, m)) AND k = m AND k"
  by (induction bits arbitrary: a m) (auto simp: Let_def and_or_zero)

lemma access_table_other:
  assumes "k \<in> {GH_PERMFS_READ, GH_PERMFS_WRITE, GH_PERMFS_CREATEFILE}"
  shows "snd (access_bits access_table (a, m)) AND k = m AND k"
  by (rule access_bits_other) (use assms in \<open>auto simp: access_table_def\<close>)

lemma fcntl_access_Some:
  assumes "fcntl_access flags = Some (mode, flags')"
  shows "mode AND GH_PERMFS_READ \<noteq> 0 \<longleftrightarrow> flags AND O_ACCMODE \<in> {O_RDONLY, O_RDWR}"
    "mode AND GH_PERMFS_WRITE \<noteq> 0 \<longleftrightarrow> flags AND O_ACCMODE \<in> {O_WRONLY, O_RDWR}"
    "mode AND GH_PERMFS_CREATEFILE = 0"
    "flags' AND O_APPEND = flags AND O_APPEND" "flags' AND O_CREAT = flags AND O_CREAT"
  using assms
  by (auto simp: fcntl_access_def and.assoc split: if_splits)

lemma fcntl_result:
  assumes "gh_permfs_fcntlflags2permfsmode flags access pathfd = (GHR_OK, Some m)"
  shows "m AND GH_PERMFS_READ \<noteq> 0 \<longleftrightarrow> flags AND O_ACCMODE \<in> {O_RDONLY, O_RDWR}"
    "m AND GH_PERMFS_WRITE \<noteq> 0 \<longleftrightarrow> flags AND O_ACCMODE \<in> {O_WRONLY, O_RDWR} \<or> flags AND O_APPEND \<noteq> 0"
    "m AND GH_PERMFS_CREATEFILE \<noteq> 0 \<longleftrightarrow> flags AND O_CREAT \<noteq> 0 \<and> \<not> gh_pathfd_guaranteedtoexist pathfd"
proof -
  from assms obtain m0 f0 where fa: "fcntl_access flags = Some (m0, f0)"
    by (auto simp: gh_permfs_fcntlflags2permfsmode_def split: option.splits)
  define f1 where "f1 = (if f0 AND O_TRUNC \<noteq> 0 then f0 AND NOT O_TRUNC else f0)"
  define m2 where "m2 = (if f1 AND O_APPEND \<noteq> 0 then m0 OR GH_PERMFS_WRITE else m0)"
  define f2 where "f2 = (if f1 AND O_APPEND \<noteq> 0 then f1 AND NOT O_APPEND else f1)"
  have f1: "f1 AND O_APPEND = flags AND O_APPEND" "f1 AND O_CREAT = flags AND O_CREAT"
    using fcntl_access_Some(4,5) [OF fa] by (simp_all add: f1_def and.assoc)
  have f2: "f2 AND O_CREAT = flags AND O_CREAT"
    using f1(2) by (simp add: f2_def and.assoc)
  have m: "m = (if f2 AND O_CREAT \<noteq> 0 \<and> \<not> gh_pathfd_guaranteedtoexist pathfd
      then snd (access_bits access_table (access, m2 OR GH_PERMFS_CREATEFILE)) else m2)"
    using assms fa
    by (auto simp: gh_permfs_fcntlflags2permfsmode_def f1_def [symmetric] m2_def f2_def Let_def
        split: if_splits prod.splits)
  note a = fcntl_access_Some(1-3) [OF fa]
  have m2: "m2 AND GH_PERMFS_READ = m0 AND GH_PERMFS_READ"
    "m2 AND GH_PERMFS_WRITE \<noteq> 0 \<longleftrightarrow> m0 AND GH_PERMFS_WRITE \<noteq> 0 \<or> flags AND O_APPEND \<noteq> 0"
    "m2 AND GH_PERMFS_CREATEFILE = 0"
    using a(3) f1(1) by (auto simp: m2_def bit.conj_disj_distrib2)
  show "m AND GH_PERMFS_READ \<noteq> 0 \<longleftrightarrow> flags AND O_ACCMODE \<in> {O_RDONLY, O_RDWR}"
    using a(1) m2(1) by (simp add: m access_table_other bit.conj_disj_distrib2)
  show "m AND GH_PERMFS_WRITE \<noteq> 0 \<longleftrightarrow> flags AND O_ACCMODE \<in> {O_WRONLY, O_RDWR} \<or> flags AND O_APPEND \<noteq> 0"
    using a(2) m2(2) by (simp add: m access_table_other bit.conj_disj_distrib2)
  show "m AND GH_PERMFS_CREATEFILE \<noteq> 0 \<longleftrightarrow> flags AND O_CREAT \<noteq> 0 \<and> \<not> gh_pathfd_guaranteedtoexist pathfd"
    using m2(3) f2 by (simp add: m access_table_other bit.conj_disj_distrib2)
qed

text \<open>The whole result: which flags are understood, and the exact mode they stand for\<close>

definition create_modes :: "mode_t \<Rightarrow> gh_permfs_mode" where
  "create_modes access =
     (if access AND 0x100 \<noteq> 0 then GH_PERMFS_ACCESS_USER_READ else 0) OR
     (if access AND 0x80 \<noteq> 0 then GH_PERMFS_ACCESS_USER_WRITE else 0) OR
     (if access AND 0x40 \<noteq> 0 then GH_PERMFS_ACCESS_USER_EXECUTE else 0) OR
     (if access AND 0x20 \<noteq> 0 then GH_PERMFS_ACCESS_GROUP_READ else 0) OR
     (if access AND 0x10 \<noteq> 0 then GH_PERMFS_ACCESS_GROUP_WRITE else 0) OR
     (if access AND 0x8 \<noteq> 0 then GH_PERMFS_ACCESS_GROUP_EXECUTE else 0) OR
     (if access AND 0x4 \<noteq> 0 then GH_PERMFS_ACCESS_OTHER_READ else 0) OR
     (if access AND 0x2 \<noteq> 0 then GH_PERMFS_ACCESS_OTHER_WRITE else 0) OR
     (if access AND 0x1 \<noteq> 0 then GH_PERMFS_ACCESS_OTHER_EXECUTE else 0)"

lemma clear_masked: "(x :: 32 word) AND NOT (x AND b) = x AND NOT b"
  by (auto simp: bit_eq_iff bit_simps)

lemma clear_none: "(x :: 32 word) AND b = 0 \<Longrightarrow> x AND NOT b = x"
  by (auto simp: bit_eq_iff bit_simps)

lemma clear_flag: "(if (x :: 32 word) AND b \<noteq> 0 then x AND NOT b else x) = x AND NOT b"
  by (simp add: clear_none)

lemma access_bits_step:
  "access_bits ((b, f) # bits) (a, m) = access_bits bits (a AND NOT b, m OR (if a AND b \<noteq> 0 then f else 0))"
  by (cases "a AND b = 0") (simp_all add: Let_def clear_none clear_masked del: bit.conj_disj_distrib bit.de_Morgan_conj)

lemma and_not_and: "b AND c = 0 \<Longrightarrow> (x AND NOT b) AND c = x AND (c :: 32 word)"
  by (auto simp: bit_eq_iff bit_simps)

lemma access_bits_table: "access_bits access_table (a, m) = (a AND NOT 0x1FF, m OR create_modes a)"
proof -
  have "a AND NOT 0x1FF =
      a AND NOT 0x100 AND NOT 0x80 AND NOT 0x40 AND NOT 0x20 AND NOT 0x10 AND NOT 0x8 AND NOT 0x4 AND NOT 0x2 AND NOT 0x1"
    by (simp add: and.assoc)
  then show ?thesis
    by (simp only: access_table_def access_bits_step access_bits.simps(1) and_not_and create_modes_def
        or.assoc) (simp add: and.assoc or.assoc)
qed

definition open_mode :: "c_int \<Rightarrow> mode_t \<Rightarrow> bool \<Rightarrow> gh_permfs_mode" where
  "open_mode flags access creates =
     (if flags AND O_ACCMODE \<in> {O_RDONLY, O_RDWR} then GH_PERMFS_READ else 0) OR
     (if flags AND O_ACCMODE \<in> {O_WRONLY, O_RDWR} \<or> flags AND O_APPEND \<noteq> 0 then GH_PERMFS_WRITE else 0) OR
     (if creates then GH_PERMFS_CREATEFILE OR create_modes access else 0)"

lemma accmode_cases: "(x :: 32 word) AND 3 = 0 \<or> x AND 3 = 1 \<or> x AND 3 = 2 \<or> x AND 3 = 3"
proof -
  have "uint (x AND 3) = uint x mod 4"
    using take_bit_eq_mask [of 2 "uint x"] by (simp add: uint_and take_bit_eq_mod mask_numeral)
  then have "uint (x AND 3) \<in> {0, 1, 2, 3}"
    using pos_mod_bound [of 4 "uint x"] pos_mod_sign [of 4 "uint x"] by auto
  then show ?thesis by (auto simp: word_uint_eq_iff)
qed

abbreviation (input) open_flags_known :: c_int where
  "open_flags_known \<equiv> O_ACCMODE OR O_TRUNC OR O_APPEND OR O_CREAT OR O_DIRECTORY"

lemma fcntl_access_eq:
  "fcntl_access flags =
     (if flags AND O_ACCMODE = O_ACCMODE then None
      else Some ((if flags AND O_ACCMODE \<in> {O_RDONLY, O_RDWR} then GH_PERMFS_READ else 0) OR
        (if flags AND O_ACCMODE \<in> {O_WRONLY, O_RDWR} then GH_PERMFS_WRITE else 0), flags AND NOT O_ACCMODE))"
proof -
  have "flags AND NOT k = flags AND NOT 3" if "flags AND 3 = k" for k
    using clear_masked [of flags 3] unfolding that .
  from this [of 0] this [of 1] this [of 2] show ?thesis
    using accmode_cases [of flags] by (auto simp: fcntl_access_def)
qed

lemma or_apart: "(4097 :: 32 word) OR x = 4096 OR 1 OR x" "(6145 :: 32 word) OR x = 2048 OR 4096 OR 1 OR x"
    "(2049 :: 32 word) OR x = 2048 OR 1 OR x" "(6144 :: 32 word) OR x = 2048 OR 4096 OR x"
  by (simp_all flip: or.assoc)

lemma fcntl_eq:
  "gh_permfs_fcntlflags2permfsmode flags access pathfd =
     (if flags AND O_ACCMODE \<noteq> O_ACCMODE \<and> flags AND NOT open_flags_known = 0 \<and>
         (access AND NOT 0x1FF = 0 \<or> flags AND O_CREAT = 0 \<or> gh_pathfd_guaranteedtoexist pathfd)
      then (GHR_OK, Some (open_mode flags access (flags AND O_CREAT \<noteq> 0 \<and> \<not> gh_pathfd_guaranteedtoexist pathfd)))
      else (GHR_PERMFS_BADFCNTLMODE, None))"
proof (cases "flags AND O_ACCMODE = O_ACCMODE")
  case True
  then show ?thesis by (simp add: gh_permfs_fcntlflags2permfsmode_def fcntl_access_eq)
next
  case False
  define m0 where "m0 = (if flags AND O_ACCMODE \<in> {O_RDONLY, O_RDWR} then GH_PERMFS_READ else 0) OR
        (if flags AND O_ACCMODE \<in> {O_WRONLY, O_RDWR} then GH_PERMFS_WRITE else 0)"
  define f0 where "f0 = flags AND NOT O_ACCMODE"
  define f1 where "f1 = f0 AND NOT O_TRUNC"
  define f2 where "f2 = f1 AND NOT O_APPEND"
  have fa: "fcntl_access flags = Some (m0, f0)" using False by (simp add: fcntl_access_eq m0_def f0_def)
  have f1: "f1 AND O_APPEND = flags AND O_APPEND" "f2 AND O_CREAT = flags AND O_CREAT"
    by (simp_all add: f0_def f1_def f2_def and.assoc)
  have known: "(f2 AND NOT O_CREAT) AND NOT O_DIRECTORY = flags AND NOT open_flags_known"
    by (simp add: f0_def f1_def f2_def and.assoc)
  have f2: "(if f1 AND O_APPEND \<noteq> 0 then (m0 OR GH_PERMFS_WRITE, f1 AND NOT O_APPEND) else (m0, f1)) =
      (m0 OR (if flags AND O_APPEND \<noteq> 0 then GH_PERMFS_WRITE else 0), f2)"
    using clear_flag [of f1 O_APPEND] f1(1) by (auto simp: f2_def split: if_splits)
  show ?thesis
    unfolding gh_permfs_fcntlflags2permfsmode_def fa option.case prod.case clear_flag Let_def f1_def [symmetric] f2
    using False known f1(2) clear_none [of f2 O_CREAT]
    by (auto simp: access_bits_table open_mode_def m0_def or.assoc or_apart split: if_splits)
qed

lemma fcntl_trunc:
  "gh_permfs_fcntlflags2permfsmode (flags OR O_TRUNC) access pathfd = gh_permfs_fcntlflags2permfsmode flags access pathfd"
proof -
  have "open_mode (flags OR O_TRUNC) = open_mode flags"
    by (intro ext) (simp add: open_mode_def bit.conj_disj_distrib2)
  then show ?thesis unfolding fcntl_eq by (simp add: bit.conj_disj_distrib2)
qed

end
