(* ===== verification/ByteBuffer.thy ===== *)
theory ByteBuffer
  imports DynamicArray
begin

text \<open>
  The byte buffer of \<^verbatim>\<open>byte_buffer.c\<close>, a dynamic array of characters. The buffer is cleared when
  it is created and whenever it grows (\<^verbatim>\<open>GH_TRADEOFF_UNINITBYTEBUFFER\<close> is not defined), so
  the cells after the end of the modelled list hold zeros and read as NUL.
\<close>

type_synonym gh_bytebuffer = "char gh_dynamicarray"

definition bb_daopts :: "char gh_dynamicarrayoptions" where
  "bb_daopts = \<lparr>initial_capacity = 1024, max_capacity = GH_DYNAMICARRAY_NOMAXCAPACITY,
     element_size = 1, dtorelement_func = None\<rparr>"

definition bb_pad :: "nat \<Rightarrow> string \<Rightarrow> string" where
  "bb_pad n buf = buf @ replicate (n - length buf) NUL"

section \<open>Operations\<close>

definition gh_bytebuffer_ctor :: "gh_alloc \<Rightarrow> gh_bytebuffer \<Rightarrow> gh_result \<times> gh_bytebuffer" where
  "gh_bytebuffer_ctor al bb = gh_dynamicarray_ctor al bb_daopts bb"

text \<open>The third component is \<^verbatim>\<open>*out_ptr\<close>, unset on an error.\<close>

definition gh_bytebuffer_expand ::
  "gh_alloc \<Rightarrow> gh_bytebuffer \<Rightarrow> size_t \<Rightarrow> (gh_result \<times> gh_bytebuffer \<times> da_ptr option) option" where
  "gh_bytebuffer_expand al bb sz =
     Option.bind (gh_dynamicarray_expandtofit al bb_daopts bb sz) (\<lambda>(res, bb).
     if ghr_iserr res then Some (res, bb, None)
     else
       (let out_ptr = (da_block bb, unat (da_size bb)); new_size = da_size bb + sz in
        Some (GHR_OK, bb\<lparr>da_buffer := map_option (bb_pad (unat new_size)) (da_buffer bb),
                        da_size := new_size\<rparr>, Some out_ptr)))"

text \<open>\<^verbatim>\<open>memcpy(target, bytes, size)\<close> and reading \<open>n\<close> bytes through a pointer into the buffer.\<close>

definition bb_memcpy :: "gh_bytebuffer \<Rightarrow> da_ptr \<Rightarrow> string \<Rightarrow> gh_bytebuffer option" where
  "bb_memcpy bb p bytes =
     (case da_buffer bb of
        None \<Rightarrow> None
      | Some buf \<Rightarrow>
          if fst p = da_block bb \<and> snd p + length bytes \<le> unat (da_capacity bb)
          then Some (bb\<lparr>da_buffer := Some (cells_write (bb_pad (snd p) buf) (snd p) bytes)\<rparr>)
          else None)"

definition bb_read :: "gh_bytebuffer \<Rightarrow> da_ptr \<Rightarrow> nat \<Rightarrow> string option" where
  "bb_read bb p n =
     (case da_buffer bb of
        None \<Rightarrow> None
      | Some buf \<Rightarrow>
          if fst p = da_block bb \<and> snd p + n \<le> unat (da_capacity bb)
          then Some (take n (drop (snd p) (bb_pad (snd p + n) buf))) else None)"

definition gh_bytebuffer_append ::
  "gh_alloc \<Rightarrow> gh_bytebuffer \<Rightarrow> string \<Rightarrow> (gh_result \<times> gh_bytebuffer) option" where
  "gh_bytebuffer_append al bb bytes =
     Option.bind (gh_bytebuffer_expand al bb (of_nat (length bytes))) (\<lambda>(res, bb, target).
     if ghr_iserr res then Some (res, bb)
     else case target of
       None \<Rightarrow> None
     | Some p \<Rightarrow> map_option (Pair GHR_OK) (bb_memcpy bb p bytes))"

definition gh_bytebuffer_clear :: "gh_bytebuffer \<Rightarrow> gh_result \<times> gh_bytebuffer" where
  "gh_bytebuffer_clear bb =
     (GHR_OK, bb\<lparr>da_buffer := map_option
                    (\<lambda>buf. replicate (unat (da_size bb)) NUL @ drop (unat (da_size bb)) buf) (da_buffer bb),
                da_size := 0\<rparr>)"

definition gh_bytebuffer_dtor :: "gh_alloc \<Rightarrow> gh_bytebuffer \<Rightarrow> (gh_result \<times> gh_bytebuffer) option" where
  "gh_bytebuffer_dtor al bb = gh_dynamicarray_dtor al bb_daopts bb"

section \<open>The buffer as a string\<close>

abbreviation bb_wf :: "gh_bytebuffer \<Rightarrow> bool" where "bb_wf \<equiv> da_wf bb_daopts"

definition bb_small :: "gh_bytebuffer \<Rightarrow> nat \<Rightarrow> bool" where
  "bb_small bb n \<longleftrightarrow> unat (da_size bb) + n < 1000000000000000000"

lemma bb_opts [simp]:
  "initial_capacity bb_daopts = 1024" "max_capacity bb_daopts = 0" "element_size bb_daopts = 1"
  "dtorelement_func bb_daopts = None"
  by (simp_all add: bb_daopts_def)

lemma bb_room: "bb_small bb n \<Longrightarrow> da_room bb_daopts bb n"
  by (simp add: bb_small_def da_room_def)

lemma bb_pad_id [simp]: "n \<le> length buf \<Longrightarrow> bb_pad n buf = buf"
  by (simp add: bb_pad_def)

lemma length_bb_pad [simp]: "length (bb_pad n buf) = max n (length buf)"
  by (simp add: bb_pad_def)

lemma take_bb_pad: "n \<le> length buf \<Longrightarrow> take n (bb_pad m buf) = take n buf"
  by (simp add: bb_pad_def)

lemma bb_ctor_result:
  "gh_bytebuffer_ctor al bb =
     (if al 0 1024 = 0 then (GHR_OK, \<lparr>da_buffer = Some [], da_capacity = 1024, da_size = 0,
                                      da_block = Suc (da_block bb)\<rparr>)
      else (al 0 1024, bb\<lparr>da_buffer := None\<rparr>))"
  by (simp add: gh_bytebuffer_ctor_def gh_dynamicarray_ctor_def gh_alloc_new_result ghr_defs)

lemma bb_append_result:
  assumes wf: "bb_wf bb" and small: "bb_small bb (length bytes)"
  shows "\<exists>r bb'. gh_bytebuffer_append al bb bytes = Some (r, bb') \<and> bb_wf bb' \<and>
     (r = GHR_OK \<longrightarrow> da_items bb' = da_items bb @ bytes) \<and> (r \<noteq> GHR_OK \<longrightarrow> bb' = bb) \<and>
     (unat (da_size bb) + length bytes \<le> unat (da_capacity bb) \<longrightarrow>
        r = GHR_OK \<and> da_block bb' = da_block bb \<and> da_capacity bb' = da_capacity bb)"
proof -
  let ?n = "length bytes"
  obtain r bb1 where e: "gh_dynamicarray_expandtofit al bb_daopts bb (of_nat ?n) = Some (r, bb1)"
    "da_items bb1 = da_items bb" "da_size bb1 = da_size bb"
    "r = GHR_OK \<longrightarrow> da_reserved ?n bb_daopts bb1" "r \<noteq> GHR_OK \<longrightarrow> bb1 = bb"
    using expandtofit_result [OF wf bb_room [OF small], of al] by blast
  have n: "unat (of_nat ?n :: size_t) = ?n" and sz: "unat (da_size bb + of_nat ?n) = unat (da_size bb) + ?n"
    using small by (simp_all add: bb_small_def unat_of_nat_nowrap unat_add_nowrap)
  have fit: "unat (da_size bb) + ?n \<le> unat (da_capacity bb) \<Longrightarrow> r = GHR_OK \<and> bb1 = bb"
    using e(1) by (auto simp: gh_dynamicarray_expandtofit_def size_le_unat sz)
  show ?thesis
  proof (cases "r = GHR_OK")
    case False
    with e fit wf show ?thesis
      by (auto simp: gh_bytebuffer_append_def gh_bytebuffer_expand_def ghr_defs)
  next
    case True
    with e(4) obtain buf where buf: "da_buffer bb1 = Some buf" "unat (da_size bb1) \<le> length buf"
      "length buf \<le> unat (da_capacity bb1)" "unat (da_size bb1) + ?n \<le> unat (da_capacity bb1)"
      by (auto simp: da_reserved_def)
    let ?m = "unat (da_size bb1) + ?n"
    let ?bb2 = "bb1\<lparr>da_buffer := Some (cells_write (bb_pad ?m buf) (unat (da_size bb1)) bytes),
                    da_size := da_size bb1 + of_nat ?n\<rparr>"
    have pad: "bb_pad (unat (da_size bb1)) (bb_pad ?m buf) = bb_pad ?m buf"
      by (rule bb_pad_id) simp
    have app: "gh_bytebuffer_append al bb bytes = Some (GHR_OK, ?bb2)"
      using e(1) True buf sz e(3)
      by (simp add: gh_bytebuffer_append_def gh_bytebuffer_expand_def ghr_defs Let_def bb_memcpy_def pad)
    have len: "length (cells_write (bb_pad ?m buf) (unat (da_size bb1)) bytes) = max ?m (length buf)"
      by (subst length_cells_write) auto
    have items: "da_items ?bb2 = da_items bb @ bytes"
      using buf sz e(2,3) by (simp add: da_items_def take_bb_pad)
    have "bb_wf ?bb2"
      using e(4) True buf sz e(3) len by (auto simp: da_reserved_def)
    with app items fit True show ?thesis by auto
  qed
qed

lemma bb_clear_result:
  assumes "bb_wf bb" "unat (da_capacity bb) \<le> 1024"
  shows "bb_wf (snd (gh_bytebuffer_clear bb)) \<and> da_items (snd (gh_bytebuffer_clear bb)) = [] \<and>
     da_block (snd (gh_bytebuffer_clear bb)) = da_block bb \<and>
     da_capacity (snd (gh_bytebuffer_clear bb)) = da_capacity bb"
  using assms by (auto simp: gh_bytebuffer_clear_def da_reserved_def da_items_def)

lemma bb_read_items:
  assumes wf: "bb_wf bb" and bound: "off + n \<le> unat (da_size bb)"
  shows "bb_read bb (da_block bb, off) n = Some (take n (drop off (da_items bb)))"
proof -
  from wf obtain buf where buf: "da_buffer bb = Some buf" "unat (da_size bb) \<le> length buf"
    "length buf \<le> unat (da_capacity bb)" by (auto simp: da_reserved_def)
  have "take n (drop off (take (unat (da_size bb)) buf)) = take n (drop off buf)"
    using bound by (simp add: take_drop min_def)
  with buf bound show ?thesis by (simp add: bb_read_def da_items_def)
qed

interpretation bb: growable bb_wf bb_small da_items "\<lambda>bb c. gh_bytebuffer_append al bb [c]"
  for al
proof (unfold_locales, goal_cases)
  case (1 d x)
  then show ?case using bb_append_result [of d "[x]" al] by auto
next
  case (2 d n x d')
  then have "bb_small d (length [x])" by (simp add: bb_small_def)
  from bb_append_result [OF 2(1) this, of al] 2(3)
  have "da_items d' = da_items d @ [x]" "bb_wf d'" by auto
  then have "unat (da_size d') = Suc (unat (da_size d))"
    using da_items_length [OF 2(1)] da_items_length by (metis length_append_singleton)
  with 2(2) show ?case by (simp add: bb_small_def)
next
  case (3 d n m)
  then show ?case by (simp add: bb_small_def)
qed

end
