(* ===== verification/Lexer.thy ===== *)
theory Lexer
  imports ByteBuffer Kernel
begin

text \<open>
  The tokenizer of \<^verbatim>\<open>perms/parser.c\<close>: the cursor over the input with its row and column, comments,
  white space, identifiers and strings, and the queue of one token. Token values are copied to the
  byte buffer of the parser and a token points there; the pointer dies when the buffer is
  reallocated. The input is the list of the \<^verbatim>\<open>size\<close> characters at \<^verbatim>\<open>data\<close>; positions are
  naturals, as they never exceed the size of the input by more than one row.
\<close>

section \<open>State\<close>

datatype gh_permtoken_type =
    GH_PERMTOKEN_IDENTIFIER | GH_PERMTOKEN_STRING | GH_PERMTOKEN_LBRACE | GH_PERMTOKEN_RBRACE
  | GH_PERMTOKEN_EOF

record gh_permparser_loc =
  loc_row :: nat
  loc_column :: nat

text \<open>What \<^verbatim>\<open>token.value.buffer\<close> points to: nothing, a string literal, a place in the byte buffer.\<close>

datatype tok_buffer = NullBuf | Lit string | Buf da_ptr

record tok_conststr =
  tv_buffer :: tok_buffer
  tv_size :: size_t

record gh_permtoken =
  tk_type :: gh_permtoken_type
  tk_value :: tok_conststr
  tk_loc :: gh_permparser_loc

record gh_permparser_error =
  pe_loc :: gh_permparser_loc
  pe_detail :: "string option"

record gh_permparser =
  pp_buffer :: gh_bytebuffer
  pp_data :: string
  pp_is_mmapped :: bool
  pp_idx :: nat
  pp_loc :: gh_permparser_loc
  pp_peek :: gh_permtoken
  pp_error :: gh_permparser_error

definition loc_zero :: gh_permparser_loc where
  "loc_zero = \<lparr>loc_row = 0, loc_column = 0\<rparr>"

text \<open>\<^verbatim>\<open>(gh_permtoken) { .type = GH_PERMTOKEN_EOF }\<close>\<close>

definition tok_none :: gh_permtoken where
  "tok_none = \<lparr>tk_type = GH_PERMTOKEN_EOF, tk_value = \<lparr>tv_buffer = NullBuf, tv_size = 0\<rparr>, tk_loc = loc_zero\<rparr>"

text \<open>
  Reading through a token's value: the characters from the pointer on, at least \<^verbatim>\<open>size\<close> of them
  inside the block the pointer was made for.
\<close>

definition pp_resolve :: "gh_permparser \<Rightarrow> tok_conststr \<Rightarrow> gh_conststr option" where
  "pp_resolve p v =
     (case tv_buffer v of
        NullBuf \<Rightarrow> None
      | Lit s \<Rightarrow> Some \<lparr>cs_buffer = s, cs_size = tv_size v\<rparr>
      | Buf (blk, off) \<Rightarrow>
          (case da_buffer (pp_buffer p) of
             None \<Rightarrow> None
           | Some buf \<Rightarrow>
               if blk = da_block (pp_buffer p) \<and>
                  off + unat (tv_size v) \<le> unat (da_capacity (pp_buffer p))
               then Some \<lparr>cs_buffer = drop off (bb_pad (off + unat (tv_size v)) buf), cs_size = tv_size v\<rparr>
               else None))"

section \<open>The cursor\<close>

definition permparser_curchar :: "gh_permparser \<Rightarrow> char" where
  "permparser_curchar p = (if pp_idx p \<ge> length (pp_data p) then NUL else pp_data p ! pp_idx p)"

text \<open>The assignments of \<^verbatim>\<open>permparser_nextchar\<close> before it looks for a comment\<close>

definition pp_advance :: "gh_permparser \<Rightarrow> gh_permparser" where
  "pp_advance p =
     (let p = p\<lparr>pp_idx := pp_idx p + 1,
                pp_loc := (pp_loc p)\<lparr>loc_column := loc_column (pp_loc p) + 1\<rparr>\<rparr> in
      if permparser_curchar p = CHR 0x0A
      then p\<lparr>pp_loc := \<lparr>loc_row = loc_row (pp_loc p) + 1, loc_column = 0\<rparr>\<rparr> else p)"

lemma pp_advance_fields [simp]:
  "pp_idx (pp_advance p) = Suc (pp_idx p)" "pp_data (pp_advance p) = pp_data p"
  "pp_buffer (pp_advance p) = pp_buffer p" "pp_peek (pp_advance p) = pp_peek p"
  "pp_error (pp_advance p) = pp_error p" "pp_is_mmapped (pp_advance p) = pp_is_mmapped p"
  "permparser_curchar (pp_advance p) =
     (if Suc (pp_idx p) \<ge> length (pp_data p) then NUL else pp_data p ! Suc (pp_idx p))"
  by (simp_all add: pp_advance_def Let_def permparser_curchar_def)

text \<open>
  \<open>pp_next None\<close> is \<^verbatim>\<open>permparser_nextchar\<close>, \<open>pp_next (Some c)\<close> the loop
  \<^verbatim>\<open>while (c != '\n' && c != '\0') c = permparser_nextchar(parser);\<close> inside it.
\<close>

function pp_next :: "char option \<Rightarrow> gh_permparser \<Rightarrow> char \<times> gh_permparser" where
  "pp_next None p =
     (if pp_idx p \<ge> length (pp_data p) then (NUL, p)
      else
        (let p = pp_advance p; c = permparser_curchar p in
         if c = CHR ''#'' then
           (let (c, p) = pp_next (Some c) p; (_, p) = pp_next None p in (c, p))
         else (c, p)))"
| "pp_next (Some c) p =
     (if c \<noteq> CHR 0x0A \<and> c \<noteq> NUL then (let (c, p) = pp_next None p in pp_next (Some c) p)
      else (c, p))"
  by pat_completeness auto

text \<open>\<^verbatim>\<open>nextchar\<close> moves forward or is at the end.\<close>

definition pp_same :: "gh_permparser \<Rightarrow> gh_permparser \<Rightarrow> bool" where
  "pp_same p p' \<longleftrightarrow> pp_data p' = pp_data p \<and> pp_buffer p' = pp_buffer p \<and> pp_peek p' = pp_peek p \<and>
     pp_error p' = pp_error p \<and> pp_is_mmapped p' = pp_is_mmapped p \<and> pp_idx p \<le> pp_idx p' \<and>
     (pp_idx p \<le> length (pp_data p) \<longrightarrow> pp_idx p' \<le> length (pp_data p))"

lemma pp_same_trans: "pp_same p q \<Longrightarrow> pp_same q r \<Longrightarrow> pp_same p r"
  by (auto simp: pp_same_def)

lemma pp_same_refl [simp]: "pp_same p p"
  by (simp add: pp_same_def)

lemma pp_same_advance: "pp_idx p < length (pp_data p) \<Longrightarrow> pp_same p (pp_advance p)"
  by (simp add: pp_same_def)

lemma pp_next_moves_dom:
  assumes "pp_next_dom (m, p)"
  shows "pp_same p (snd (pp_next m p)) \<and>
     (m = None \<longrightarrow>
        (if pp_idx p \<ge> length (pp_data p) then pp_next m p = (NUL, p)
         else pp_idx p < pp_idx (snd (pp_next m p))))"
  using assms
proof (induction rule: pp_next.pinduct)
  case (1 p)
  show ?case
  proof (cases "pp_idx p \<ge> length (pp_data p)")
    case True
    with 1(1) show ?thesis by (simp add: pp_next.psimps)
  next
    case False
    let ?q = "pp_advance p"
    have q: "pp_same p ?q" using False by (intro pp_same_advance) simp
    show ?thesis
    proof (cases "permparser_curchar ?q = CHR ''#''")
      case True
      obtain c1 p1 where n1: "pp_next (Some (permparser_curchar ?q)) ?q = (c1, p1)" by fastforce
      obtain c2 p2 where n2: "pp_next None p1 = (c2, p2)" by fastforce
      have res: "pp_next None p = (c1, p2)"
        unfolding pp_next.psimps(1) [OF 1(1)] using False True n1 n2 by (simp add: Let_def)
      have "pp_same ?q p1" using 1(2) [OF False refl refl True] n1 by simp
      moreover have "pp_same p1 p2" using 1(3) [OF False refl refl True] n1 n2 by (simp split: if_splits)
      ultimately have s: "pp_same ?q p2" by (rule pp_same_trans)
      then have "pp_same p p2" using q pp_same_trans by blast
      moreover have "pp_idx p < pp_idx p2" using s by (simp add: pp_same_def)
      ultimately show ?thesis using res False by simp
    next
      case False': False
      then have "pp_next None p = (permparser_curchar ?q, ?q)"
        unfolding pp_next.psimps(1) [OF 1(1)] using False by (simp add: Let_def)
      with False q show ?thesis by simp
    qed
  qed
next
  case (2 c p)
  show ?case
  proof (cases "c \<noteq> CHR 0x0A \<and> c \<noteq> NUL")
    case False
    then show ?thesis unfolding pp_next.psimps(2) [OF 2(1)] by auto
  next
    case True
    obtain c1 p1 where n1: "pp_next None p = (c1, p1)" by fastforce
    have "pp_same p p1" using 2(2) [OF True] n1 by simp
    moreover have "pp_same p1 (snd (pp_next (Some c1) p1))" using 2(3) [OF True] n1 by simp
    ultimately have "pp_same p (snd (pp_next (Some c1) p1))" by (rule pp_same_trans)
    then show ?thesis unfolding pp_next.psimps(2) [OF 2(1)] using True n1 by simp
  qed
qed

lemma pp_next_total: "All pp_next_dom"
proof (rule "pp_next.termination" [where R = "measure (\<lambda>(m, p). 2 * (length (pp_data p) - pp_idx p) +
    (case m of None \<Rightarrow> 0 | Some c \<Rightarrow> if c \<noteq> CHR 0x0A \<and> c \<noteq> NUL then 1 else 0))"], goal_cases)
  case 1
  then show ?case by simp
next
  case (2 p x xa)
  then have "length (pp_data p) - pp_idx p = Suc (length (pp_data p) - Suc (pp_idx p))" by simp
  with 2 show ?case by simp
next
  case (3 p x xa y xb ya)
  then have "snd (pp_next (Some xa) x) = ya" by (metis snd_conv)
  with 3 pp_next_moves_dom [of "Some xa" x] have "pp_same x ya" by simp
  with 3 have "Suc (pp_idx p) \<le> pp_idx ya" "pp_data ya = pp_data p" "pp_idx p < length (pp_data p)"
    by (simp_all add: pp_same_def)
  then show ?case by simp
next
  case (4 c p)
  then show ?case by simp
next
  case (5 c p x xa y)
  then have n: "pp_next None p = (xa, y)" and dom: "pp_next_dom (None, p)" by simp_all
  note moves = pp_next_moves_dom [OF dom, unfolded n]
  show ?case
  proof (cases "pp_idx p \<ge> length (pp_data p)")
    case True
    with 5 n moves show ?thesis by auto
  next
    case False
    with moves have "pp_idx p < pp_idx y" "pp_data y = pp_data p"
      by (simp_all add: pp_same_def)
    with False have "length (pp_data y) - pp_idx y < length (pp_data p) - pp_idx p" by simp
    then show ?thesis by simp
  qed
qed

termination pp_next
  by (rule pp_next_total)

declare pp_next.simps [simp del]

definition permparser_nextchar :: "gh_permparser \<Rightarrow> char \<times> gh_permparser" where
  "permparser_nextchar p = pp_next None p"

lemma nextchar_moves:
  "permparser_nextchar p = (c, p') \<Longrightarrow> pp_same p p' \<and>
     (if pp_idx p \<ge> length (pp_data p) then c = NUL \<and> p' = p else pp_idx p < pp_idx p')"
  using pp_next_moves_dom [of None p] pp_next_total
  by (simp add: permparser_nextchar_def split: if_splits)

text \<open>The measure of the loops \<^verbatim>\<open>while (p(c)) { ... c = permparser_nextchar(parser); }\<close>.\<close>

definition pp_left :: "char \<Rightarrow> gh_permparser \<Rightarrow> nat" where
  "pp_left c p = 2 * (length (pp_data p) - pp_idx p) + (if c = NUL then 0 else 1)"

lemma pp_left_decreases:
  assumes "permparser_nextchar p = (c', p')" "c \<noteq> NUL"
  shows "pp_left c' p' < pp_left c p"
proof (cases "pp_idx p \<ge> length (pp_data p)")
  case True
  with nextchar_moves [OF assms(1)] assms(2) show ?thesis by (simp add: pp_left_def)
next
  case False
  with nextchar_moves [OF assms(1)] have "pp_idx p < pp_idx p'" "pp_data p' = pp_data p"
    by (simp_all add: pp_same_def)
  with False have "length (pp_data p') - pp_idx p' < length (pp_data p) - pp_idx p" by simp
  then show ?thesis using assms(2) by (simp add: pp_left_def)
qed

section \<open>White space and words\<close>

definition permparser_chariswhitespace :: "char \<Rightarrow> bool" where
  "permparser_chariswhitespace c \<longleftrightarrow> c = CHR '' '' \<or> c = CHR 0x09 \<or> c = CHR 0x0A \<or> c = CHR 0x0D"

definition c_between :: "char \<Rightarrow> char \<Rightarrow> char \<Rightarrow> bool" where
  "c_between lo c hi \<longleftrightarrow> (of_char lo :: nat) \<le> of_char c \<and> (of_char c :: nat) \<le> of_char hi"

definition permparser_charisalphanumeric :: "char \<Rightarrow> bool" where
  "permparser_charisalphanumeric c \<longleftrightarrow>
     c_between (CHR ''0'') c (CHR ''9'') \<or> c_between (CHR ''a'') c (CHR ''z'') \<or>
     c_between (CHR ''A'') c (CHR ''Z'') \<or> c = CHR ''_''"

function pp_skip_loop :: "char \<Rightarrow> gh_permparser \<Rightarrow> gh_permparser" where
  "pp_skip_loop c p =
     (if permparser_chariswhitespace c then (let (c, p) = permparser_nextchar p in pp_skip_loop c p)
      else p)"
  by pat_completeness auto
termination
proof (relation "measure (\<lambda>(c, p). pp_left c p)", goal_cases)
  case 1
  then show ?case by simp
next
  case (2 c p r c' p')
  then have "pp_left c' p' < pp_left c p"
    by (intro pp_left_decreases) (auto simp: permparser_chariswhitespace_def)
  then show ?case by simp
qed

definition permparser_skipwhitespace :: "gh_permparser \<Rightarrow> gh_permparser" where
  "permparser_skipwhitespace p = pp_skip_loop (permparser_curchar p) p"

definition permparser_seterror :: "gh_permparser_loc \<Rightarrow> gh_permparser \<Rightarrow> gh_permparser" where
  "permparser_seterror l p = p\<lparr>pp_error := \<lparr>pe_loc = l, pe_detail = None\<rparr>\<rparr>"

text \<open>\<^verbatim>\<open>gh_bytebuffer_append(&parser->buffer, ...)\<close>\<close>

definition pp_append :: "gh_alloc \<Rightarrow> string \<Rightarrow> gh_permparser \<Rightarrow> (gh_result \<times> gh_permparser) option" where
  "pp_append al bytes p =
     map_option (\<lambda>(res, bb). (res, p\<lparr>pp_buffer := bb\<rparr>)) (gh_bytebuffer_append al (pp_buffer p) bytes)"

lemma pp_append_fields:
  "pp_append al bytes p = Some (res, p') \<Longrightarrow> pp_data p' = pp_data p \<and> pp_idx p' = pp_idx p"
  by (auto simp: pp_append_def)

text \<open>\<^verbatim>\<open>parser->buffer.buffer + parser->buffer.size\<close>\<close>

definition pp_mark :: "gh_permparser \<Rightarrow> da_ptr" where
  "pp_mark p = (da_block (pp_buffer p), unat (da_size (pp_buffer p)))"

function pp_ident_loop ::
  "gh_alloc \<Rightarrow> char \<Rightarrow> size_t \<Rightarrow> gh_permparser \<Rightarrow> (gh_result \<times> (size_t \<times> gh_permparser)) option" where
  "pp_ident_loop al c len p =
     (if permparser_charisalphanumeric c then
        (case pp_append al [c] p of
           None \<Rightarrow> None
         | Some (res, p) \<Rightarrow>
             if ghr_iserr res then Some (res, (len, p))
             else (let (c, p) = permparser_nextchar p in pp_ident_loop al c (len + 1) p))
      else Some (GHR_OK, (len, p)))"
  by pat_completeness auto
termination
proof (relation "measure (\<lambda>(al, c, len, p). pp_left c p)", goal_cases)
  case 1
  then show ?case by simp
next
  case (2 al c len p a res q r c' p')
  then have "pp_left c' p' < pp_left c q"
    by (intro pp_left_decreases) (auto simp: permparser_charisalphanumeric_def c_between_def)
  moreover have "pp_left c q = pp_left c p"
    using pp_append_fields [of al "[c]" p res q] 2 by (simp add: pp_left_def)
  ultimately show ?case by simp
qed

text \<open>The second component is \<^verbatim>\<open>*out_token\<close>, unset on an error.\<close>

definition permparser_readidentifier ::
  "gh_alloc \<Rightarrow> gh_permparser \<Rightarrow> (gh_result \<times> (gh_permtoken option \<times> gh_permparser)) option" where
  "permparser_readidentifier al p =
     (let start_loc = pp_loc p; start = pp_mark p in
      Option.bind (pp_ident_loop al (permparser_curchar p) 0 p) (\<lambda>(res, len, p).
      if ghr_iserr res then Some (res, (None, p))
      else Option.bind (pp_append al [NUL] p) (\<lambda>(res, p).
      if ghr_iserr res then Some (res, (None, p))
      else Some (GHR_OK, (Some \<lparr>tk_type = GH_PERMTOKEN_IDENTIFIER,
                               tk_value = \<lparr>tv_buffer = Buf start, tv_size = len\<rparr>,
                               tk_loc = start_loc\<rparr>, p)))))"

text \<open>The loop of \<^verbatim>\<open>permparser_readstring\<close>; the result holds the last \<^verbatim>\<open>c\<close>.\<close>

function pp_string_loop ::
  "gh_alloc \<Rightarrow> bool \<Rightarrow> char \<Rightarrow> gh_permparser \<Rightarrow> (gh_result \<times> (char \<times> gh_permparser)) option" where
  "pp_string_loop al escape c p =
     (if c \<noteq> NUL then
        (if \<not> escape \<and> c = CHR 0x5C then pp_string_loop al True c p
         else if \<not> escape \<and> c = CHR 0x22 then Some (GHR_OK, (c, p))
         else
           (case pp_append al [c] p of
              None \<Rightarrow> None
            | Some (res, p) \<Rightarrow>
                if ghr_iserr res then Some (res, (c, p))
                else (let (c, p) = permparser_nextchar p in pp_string_loop al escape c p)))
      else Some (GHR_OK, (c, p)))"
  by pat_completeness auto
termination
proof (relation "measure (\<lambda>(al, escape, c, p). 2 * pp_left c p + (if escape then 0 else 1))", goal_cases)
  case 1
  then show ?case by simp
next
  case (2 al escape c p)
  then show ?case by simp
next
  case (3 al escape c p a res q r c' p')
  then have "pp_left c' p' < pp_left c q" by (intro pp_left_decreases) auto
  moreover have "pp_left c q = pp_left c p"
    using pp_append_fields [of al "[c]" p res q] 3 by (simp add: pp_left_def)
  ultimately show ?case by simp
qed

text \<open>The pointer difference is defined only inside one block.\<close>

definition permparser_readstring ::
  "gh_alloc \<Rightarrow> gh_permparser \<Rightarrow> (gh_result \<times> (gh_permtoken option \<times> gh_permparser)) option" where
  "permparser_readstring al p =
     (let start_loc = pp_loc p; (c, p) = permparser_nextchar p; start = pp_mark p in
      Option.bind (pp_string_loop al False c p) (\<lambda>(res, c, p).
      if ghr_iserr res then Some (res, (None, p))
      else if c = NUL then
        Some (GHR_PERMPARSER_UNTERMINATEDSTRING, (None, permparser_seterror (pp_loc p) p))
      else
        (let (_, p) = permparser_nextchar p in
         Option.bind (pp_append al [NUL] p) (\<lambda>(res, p).
         if ghr_iserr res then Some (res, (None, p))
         else if fst start \<noteq> fst (pp_mark p) then None
         else
           (let sz = of_nat (snd (pp_mark p) - snd start) - 1 in
            Some (GHR_OK, (Some \<lparr>tk_type = GH_PERMTOKEN_STRING,
                               tk_value = \<lparr>tv_buffer = Buf start, tv_size = sz\<rparr>,
                               tk_loc = start_loc\<rparr>, p)))))))"

declare pp_skip_loop.simps [simp del] pp_ident_loop.simps [simp del] pp_string_loop.simps [simp del]

section \<open>Tokens\<close>

definition gh_permparser_nexttoken ::
  "gh_alloc \<Rightarrow> gh_permparser \<Rightarrow> (gh_result \<times> (gh_permtoken option \<times> gh_permparser)) option" where
  "gh_permparser_nexttoken al p =
     (if tk_type (pp_peek p) \<noteq> GH_PERMTOKEN_EOF then
        Some (GHR_OK, (Some (pp_peek p), p\<lparr>pp_peek := tok_none\<rparr>))
      else
        (let c = permparser_curchar p;
             finish = map_option (\<lambda>(res, tok, p). (res, (tok, permparser_skipwhitespace p)))
         in
         if c = NUL then
           finish (Some (GHR_OK, (Some \<lparr>tk_type = GH_PERMTOKEN_EOF,
                              tk_value = \<lparr>tv_buffer = Lit [NUL], tv_size = 1\<rparr>, tk_loc = pp_loc p\<rparr>, p)))
         else if c = CHR ''{'' then
           finish (Some (GHR_OK, (Some \<lparr>tk_type = GH_PERMTOKEN_LBRACE,
                              tk_value = \<lparr>tv_buffer = Lit ''{'', tv_size = 1\<rparr>, tk_loc = pp_loc p\<rparr>,
                          snd (permparser_nextchar p))))
         else if c = CHR ''}'' then
           finish (Some (GHR_OK, (Some \<lparr>tk_type = GH_PERMTOKEN_RBRACE,
                              tk_value = \<lparr>tv_buffer = Lit ''}'', tv_size = 1\<rparr>, tk_loc = pp_loc p\<rparr>,
                          snd (permparser_nextchar p))))
         else if c = CHR 0x22 then finish (permparser_readstring al p)
         else if permparser_charisalphanumeric c then finish (permparser_readidentifier al p)
         else Some (GHR_PERMPARSER_UNEXPECTEDTOKEN, (None, permparser_seterror (pp_loc p) p))))"

text \<open>A peeked token is stored where the next call finds it.\<close>

definition gh_permparser_peektoken ::
  "gh_alloc \<Rightarrow> gh_permparser \<Rightarrow> (gh_result \<times> (gh_permtoken option \<times> gh_permparser)) option" where
  "gh_permparser_peektoken al p =
     (if tk_type (pp_peek p) = GH_PERMTOKEN_EOF then
        Option.bind (gh_permparser_nexttoken al p) (\<lambda>(res, tok, p).
        let p = (case tok of None \<Rightarrow> p | Some t \<Rightarrow> p\<lparr>pp_peek := t\<rparr>) in
        if ghr_iserr res then Some (res, (None, p))
        else Some (res, (Some (pp_peek p), p)))
      else Some (GHR_OK, (Some (pp_peek p), p)))"

text \<open>
  \<^verbatim>\<open>gh_permparser_nextidentifier\<close> and \<^verbatim>\<open>gh_permparser_nextstring\<close>; the second component is
  \<^verbatim>\<open>*out_str\<close>.
\<close>

definition pp_expect ::
  "gh_permtoken_type \<Rightarrow> gh_result \<Rightarrow> gh_alloc \<Rightarrow> gh_permparser \<Rightarrow>
   (gh_result \<times> (tok_conststr option \<times> gh_permparser)) option" where
  "pp_expect ty err al p =
     Option.bind (gh_permparser_peektoken al (permparser_seterror (pp_loc p) p)) (\<lambda>(res, tok, p).
     if ghr_iserr res then Some (res, (None, p))
     else case tok of
       None \<Rightarrow> None
     | Some t \<Rightarrow>
         if tk_type t \<noteq> ty then Some (err, (None, permparser_seterror (tk_loc t) p))
         else
           Option.bind (gh_permparser_nexttoken al p) (\<lambda>(res, tok, p).
           if ghr_iserr res then Some (res, (None, p))
           else case tok of None \<Rightarrow> None | Some t \<Rightarrow> Some (GHR_OK, (Some (tk_value t), p))))"

definition gh_permparser_nextidentifier ::
  "gh_alloc \<Rightarrow> gh_permparser \<Rightarrow> (gh_result \<times> (tok_conststr option \<times> gh_permparser)) option" where
  "gh_permparser_nextidentifier =
     pp_expect GH_PERMTOKEN_IDENTIFIER GHR_PERMPARSER_EXPECTEDIDENTIFIER"

definition gh_permparser_nextstring ::
  "gh_alloc \<Rightarrow> gh_permparser \<Rightarrow> (gh_result \<times> (tok_conststr option \<times> gh_permparser)) option" where
  "gh_permparser_nextstring = pp_expect GH_PERMTOKEN_STRING GHR_PERMPARSER_EXPECTEDSTRING"

definition gh_permparser_resourceerror :: "string \<Rightarrow> gh_permparser \<Rightarrow> gh_result \<times> gh_permparser" where
  "gh_permparser_resourceerror detail p =
     (GHR_PERMPARSER_RESOURCEPARSEFAIL, p\<lparr>pp_error := (pp_error p)\<lparr>pe_detail := Some detail\<rparr>\<rparr>)"

section \<open>Construction\<close>

text \<open>\<^verbatim>\<open>*parser = (gh_permparser) {0}\<close>\<close>

definition permparser_zero :: gh_permparser where
  "permparser_zero =
     \<lparr>pp_buffer = \<lparr>da_buffer = None, da_capacity = 0, da_size = 0, da_block = 0\<rparr>, pp_data = [],
      pp_is_mmapped = False, pp_idx = 0, pp_loc = loc_zero,
      pp_peek = \<lparr>tk_type = GH_PERMTOKEN_IDENTIFIER, tk_value = \<lparr>tv_buffer = NullBuf, tv_size = 0\<rparr>,
                 tk_loc = loc_zero\<rparr>,
      pp_error = \<lparr>pe_loc = loc_zero, pe_detail = None\<rparr>\<rparr>"

definition gh_permparser_ctorbuffer :: "gh_alloc \<Rightarrow> string \<Rightarrow> gh_result \<times> gh_permparser" where
  "gh_permparser_ctorbuffer al buffer =
     (let (res, bb) = gh_bytebuffer_ctor al (pp_buffer permparser_zero);
          p = permparser_zero\<lparr>pp_buffer := bb\<rparr> in
      if ghr_iserr res then (res, p)
      else
        (GHR_OK, permparser_skipwhitespace
           (p\<lparr>pp_data := buffer, pp_idx := 0, pp_is_mmapped := False,
              pp_loc := \<lparr>loc_row = 1, loc_column = 1\<rparr>, pp_peek := tok_none\<rparr>)))"

text \<open>
  The file is mapped: its content is what the \<^verbatim>\<open>mmap\<close> call delivers, as many bytes as were asked
  for.
\<close>

definition gh_permparser_ctorfd ::
  "env \<Rightarrow> gh_alloc \<Rightarrow> int \<Rightarrow> trace \<Rightarrow> gh_result \<times> (gh_permparser \<times> trace)" where
  "gh_permparser_ctorfd env al fd tr =
     (let p = permparser_zero; (a, tr) = syscall env (Lseek fd 0 0) tr in
      if an_ret a < 0 then (ghr_errno GHR_PERMPARSER_FAILEDSEEK a, (p, tr))
      else
        (let (a, tr) = syscall env (Lseek fd 0 2) tr in
         if an_ret a < 0 then (ghr_errno GHR_PERMPARSER_FAILEDSEEK a, (p, tr))
         else
           (let file_size = of_int (an_ret a) :: size_t in
            if file_size = 0 then (let (res, p) = gh_permparser_ctorbuffer al [] in (res, (p, tr)))
            else
              (let (a, tr) = syscall env (Mmap fd file_size) tr in
               if an_ret a = -1 then (ghr_errno GHR_PERMPARSER_FAILEDMMAP a, (p, tr))
               else
                 (let (res, bb) = gh_bytebuffer_ctor al (pp_buffer p); p = p\<lparr>pp_buffer := bb\<rparr> in
                  if ghr_iserr res then (res, (p, tr))
                  else
                    (GHR_OK, (permparser_skipwhitespace
                       (p\<lparr>pp_data := take (unat file_size)
                            (an_data a @ replicate (unat file_size - length (an_data a)) NUL),
                          pp_idx := 0, pp_is_mmapped := True,
                          pp_loc := \<lparr>loc_row = 1, loc_column = 0\<rparr>, pp_peek := tok_none\<rparr>), tr)))))))"

definition gh_permparser_dtor ::
  "env \<Rightarrow> gh_alloc \<Rightarrow> gh_permparser \<Rightarrow> trace \<Rightarrow> (gh_result \<times> (gh_permparser \<times> trace)) option" where
  "gh_permparser_dtor env al p tr =
     ghr_then
       (if pp_is_mmapped p then
          (let (a, tr) = syscall env (Munmap (of_nat (length (pp_data p)))) tr in
           Some (if an_ret a < 0 then (ghr_errno GHR_PERMPARSER_FAILEDMUNMAP a, (p, tr))
                 else (GHR_OK, (p, tr))))
        else Some (GHR_OK, (p, tr)))
       (\<lambda>(p, tr). map_option (\<lambda>(res, bb). (res, (p\<lparr>pp_buffer := bb\<rparr>, tr)))
                    (gh_bytebuffer_dtor al (pp_buffer p)))"

end
