(* ===== verification/Parser.thy ===== *)
theory Parser
  imports Lexer
begin

text \<open>
  The parser of policy files (\<^verbatim>\<open>perms/parser.c\<close>). A resource parser is three callbacks over a
  user state \<open>'u\<close>, which stands for everything the callbacks' \<^verbatim>\<open>userdata\<close> pointers reach; \<open>'e\<close> is
  the type of the entry pointers they pass to each other. The list of registered resource parsers
  is kept beside the parser record. The loops follow callbacks that may do anything to the parser,
  so they are partial functions: \<open>None\<close> when the loop does not end or a callback has no defined
  result.
\<close>

section \<open>Resource parsers\<close>

record ('u, 'e) gh_permresourceparser =
  rp_matches :: "string \<Rightarrow> string \<Rightarrow> gh_permparser \<times> 'u \<Rightarrow> (gh_result \<times> (gh_permparser \<times> 'u)) option"
  rp_newentry :: "tok_conststr \<Rightarrow> gh_permparser \<times> 'u \<Rightarrow>
                  (gh_result \<times> ('e option \<times> (gh_permparser \<times> 'u))) option"
  rp_setfield :: "'e option \<Rightarrow> string \<Rightarrow> gh_permparser \<times> 'u \<Rightarrow>
                  (gh_result \<times> (gh_permparser \<times> 'u)) option"

abbreviation (input) GH_PERMPARSER_MAXRESOURCEPARSERS :: nat where
  "GH_PERMPARSER_MAXRESOURCEPARSERS \<equiv> 128"

definition gh_permparser_registerresource ::
  "('u, 'e) gh_permresourceparser list \<Rightarrow> ('u, 'e) gh_permresourceparser \<Rightarrow>
   gh_result \<times> ('u, 'e) gh_permresourceparser list" where
  "gh_permparser_registerresource rps rp =
     (if length rps \<ge> GH_PERMPARSER_MAXRESOURCEPARSERS then (GHR_PERMPARSER_RESOURCEPARSERLIMIT, rps)
      else (GHR_OK, rps @ [rp]))"

text \<open>\<^verbatim>\<open>permparser_seterror\<close> on the pair of the parser and the user state\<close>

definition pu_error :: "gh_permparser_loc \<Rightarrow> gh_permparser \<times> 'u \<Rightarrow> gh_permparser \<times> 'u" where
  "pu_error l st = (permparser_seterror l (fst st), snd st)"

fun permparser_findresourceparser ::
  "('u, 'e) gh_permresourceparser list \<Rightarrow> string \<Rightarrow> string \<Rightarrow> gh_permparser \<times> 'u \<Rightarrow>
   (gh_result \<times> (('u, 'e) gh_permresourceparser option \<times> (gh_permparser \<times> 'u))) option" where
  "permparser_findresourceparser [] group_id resource_id st =
     Some (GHR_PERMPARSER_UNKNOWNRESOURCE, (None, st))"
| "permparser_findresourceparser (rp # rps) group_id resource_id st =
     Option.bind (rp_matches rp group_id resource_id (pu_error (pp_loc (fst st)) st)) (\<lambda>(res, st).
     if ghr_iserr res \<and> \<not> ghr_is res GHR_PERMPARSER_NOMATCH then Some (res, (None, st))
     else if ghr_isok res then Some (GHR_OK, (Some rp, st))
     else permparser_findresourceparser rps group_id resource_id st)"

section \<open>Reading a resource\<close>

text \<open>
  \<^verbatim>\<open>gh_conststr_copyz(token.value, id, GH_PERMREQUEST_IDMAX)\<close>: the string in \<^verbatim>\<open>id\<close>, or \<open>None\<close>
  inside when the value does not fit.
\<close>

definition pp_copyid :: "gh_permparser \<Rightarrow> tok_conststr \<Rightarrow> string option option" where
  "pp_copyid p v =
     (if \<not> tv_size v < 64 then Some None
      else Option.bind (pp_resolve p v) (\<lambda>s.
           map_option (\<lambda>(fits, c). if fits then Some (cstr c) else None)
             (gh_conststr_copyz s (replicate GH_PERMREQUEST_IDMAX NUL) 64)))"

text \<open>\<^verbatim>\<open>res = gh_permparser_nexttoken(parser, &token); if (ghr_iserr(res)) return res;\<close>\<close>

definition with_token ::
  "(gh_result \<times> (gh_permtoken option \<times> gh_permparser)) option \<Rightarrow> 'u \<Rightarrow>
   (gh_permtoken \<Rightarrow> gh_permparser \<times> 'u \<Rightarrow> (gh_result \<times> (gh_permparser \<times> 'u)) option) \<Rightarrow>
   (gh_result \<times> (gh_permparser \<times> 'u)) option" where
  "with_token m u k =
     Option.bind m (\<lambda>(res, tok, p).
     if ghr_iserr res then Some (res, (p, u))
     else case tok of None \<Rightarrow> None | Some t \<Rightarrow> k t (p, u))"

lemma with_token_simps [simp]:
  "with_token None u k = None"
  "with_token (Some (0, (Some t, p))) u k = k t (p, u)"
  "res \<noteq> 0 \<Longrightarrow> with_token (Some (res, (tok, p))) u k = Some (res, (p, u))"
  by (simp_all add: with_token_def ghr_defs)

lemma with_token_mono [partial_function_mono]:
  assumes "\<And>t st. mono_option (\<lambda>f. k t st f)"
  shows "mono_option (\<lambda>f. with_token m u (\<lambda>t st. k t st f))"
  unfolding with_token_def
proof (rule bind_mono [OF option.const_mono])
  fix r :: "gh_result \<times> (gh_permtoken option \<times> gh_permparser)"
  obtain res tok p where r: "r = (res, tok, p)" by (cases r) auto
  show "mono_option (\<lambda>f. case r of (res, tok, p) \<Rightarrow>
      if ghr_iserr res then Some (res, (p, u)) else case tok of None \<Rightarrow> None | Some t \<Rightarrow> k t (p, u) f)"
    using assms by (cases "ghr_iserr res"; cases tok) (simp_all add: r option.const_mono)
qed

text \<open>The loop over the fields of an entry, from its current token on; it ends on \<^verbatim>\<open>}\<close> or the end.\<close>

partial_function (option) permparser_fields ::
  "gh_alloc \<Rightarrow> ('u, 'e) gh_permresourceparser \<Rightarrow> 'e option \<Rightarrow> gh_permtoken \<Rightarrow> gh_permparser \<times> 'u \<Rightarrow>
   (gh_result \<times> (gh_permparser \<times> 'u)) option" where
  "permparser_fields al rp entry tok st =
     (if tk_type tok \<noteq> GH_PERMTOKEN_RBRACE \<and> tk_type tok \<noteq> GH_PERMTOKEN_EOF then
        (if tk_type tok \<noteq> GH_PERMTOKEN_IDENTIFIER then
           Some (GHR_PERMPARSER_EXPECTEDFIELD, pu_error (tk_loc tok) st)
         else
           Option.bind (pp_copyid (fst st) (tk_value tok)) (\<lambda>field.
           case field of
             None \<Rightarrow> Some (GHR_PERMPARSER_LARGEFIELD, pu_error (tk_loc tok) st)
           | Some f \<Rightarrow>
               ghr_then (rp_setfield rp entry f (pu_error (tk_loc tok) st)) (\<lambda>st.
               with_token (gh_permparser_nexttoken al (fst st)) (snd st) (\<lambda>tok st.
               permparser_fields al rp entry tok st))))
      else
        (let (res, bb) = gh_bytebuffer_clear (pp_buffer (fst st)); st = ((fst st)\<lparr>pp_buffer := bb\<rparr>, snd st) in
         if ghr_iserr res then Some (res, st)
         else if tk_type tok \<noteq> GH_PERMTOKEN_RBRACE then
           Some (GHR_PERMPARSER_EXPECTEDENTRYEND, pu_error (tk_loc tok) st)
         else Some (GHR_OK, st)))"

text \<open>The loop over the entries; it ends before the \<^verbatim>\<open>}\<close> of the resource.\<close>

partial_function (option) permparser_entries ::
  "gh_alloc \<Rightarrow> ('u, 'e) gh_permresourceparser \<Rightarrow> gh_permparser \<times> 'u \<Rightarrow>
   (gh_result \<times> (gh_permparser \<times> 'u)) option" where
  "permparser_entries al rp st =
     with_token (gh_permparser_peektoken al (fst st)) (snd st) (\<lambda>tok st.
     if tk_type tok = GH_PERMTOKEN_RBRACE then Some (GHR_OK, st)
     else
       with_token (gh_permparser_nexttoken al (fst st)) (snd st) (\<lambda>tok st.
       if tk_type tok \<noteq> GH_PERMTOKEN_STRING then
         Some (GHR_PERMPARSER_EXPECTEDENTRY, pu_error (tk_loc tok) st)
       else
         Option.bind (rp_newentry rp (tk_value tok) (pu_error (tk_loc tok) st)) (\<lambda>(res, entry, st).
         if ghr_iserr res then Some (res, st)
         else
           with_token (gh_permparser_nexttoken al (fst st)) (snd st) (\<lambda>tok st.
           if tk_type tok \<noteq> GH_PERMTOKEN_LBRACE then
             Some (GHR_PERMPARSER_EXPECTEDENTRYBEGIN, pu_error (tk_loc tok) st)
           else
             with_token (gh_permparser_nexttoken al (fst st)) (snd st) (\<lambda>tok st.
             ghr_then (permparser_fields al rp entry tok st) (\<lambda>st.
             permparser_entries al rp st))))))"

text \<open>An identifier token copied to \<^verbatim>\<open>group_id\<close> or \<^verbatim>\<open>resource_id\<close>, with its two errors\<close>

definition permparser_id ::
  "gh_result \<Rightarrow> gh_result \<Rightarrow> gh_permtoken \<Rightarrow> gh_permparser \<times> 'u \<Rightarrow>
   (string \<Rightarrow> (gh_result \<times> (gh_permparser \<times> 'u)) option) \<Rightarrow> (gh_result \<times> (gh_permparser \<times> 'u)) option" where
  "permparser_id expected large tok st k =
     (if tk_type tok \<noteq> GH_PERMTOKEN_IDENTIFIER then Some (expected, pu_error (tk_loc tok) st)
      else Option.bind (pp_copyid (fst st) (tk_value tok)) (\<lambda>s.
           case s of None \<Rightarrow> Some (large, pu_error (tk_loc tok) st) | Some s \<Rightarrow> k s))"

definition permparser_resource ::
  "gh_alloc \<Rightarrow> ('u, 'e) gh_permresourceparser list \<Rightarrow> gh_permtoken \<Rightarrow> gh_permparser \<times> 'u \<Rightarrow>
   (gh_result \<times> (gh_permparser \<times> 'u)) option" where
  "permparser_resource al rps tok st =
     permparser_id GHR_PERMPARSER_EXPECTEDGROUPID GHR_PERMPARSER_LARGEGROUPID tok st (\<lambda>group_id.
     with_token (gh_permparser_nexttoken al (fst st)) (snd st) (\<lambda>tok st.
     permparser_id GHR_PERMPARSER_EXPECTEDRESOURCEID GHR_PERMPARSER_LARGERESOURCEID tok st (\<lambda>resource_id.
     with_token (gh_permparser_nexttoken al (fst st)) (snd st) (\<lambda>tok st.
     if tk_type tok \<noteq> GH_PERMTOKEN_LBRACE then
       Some (GHR_PERMPARSER_EXPECTEDRESOURCEBEGIN, pu_error (tk_loc tok) st)
     else
       Option.bind (permparser_findresourceparser rps group_id resource_id st) (\<lambda>(res, rp, st).
       if ghr_iserr res then Some (res, st)
       else case rp of
         None \<Rightarrow> None
       | Some rp \<Rightarrow>
           ghr_then (permparser_entries al rp st) (\<lambda>st.
           with_token (gh_permparser_nexttoken al (fst st)) (snd st) (\<lambda>tok st.
           if tk_type tok \<noteq> GH_PERMTOKEN_RBRACE then
             Some (GHR_PERMPARSER_EXPECTEDRESOURCEEND, pu_error (tk_loc tok) st)
           else Some (GHR_OK, st))))))))"

text \<open>The Boolean is \<^verbatim>\<open>*out_eof\<close>.\<close>

definition permparser_parsenextresource ::
  "gh_alloc \<Rightarrow> ('u, 'e) gh_permresourceparser list \<Rightarrow> gh_permparser \<times> 'u \<Rightarrow>
   (gh_result \<times> (bool \<times> (gh_permparser \<times> 'u))) option" where
  "permparser_parsenextresource al rps st =
     Option.bind (gh_permparser_nexttoken al (fst st)) (\<lambda>(res, tok, p).
     let st = (p, snd st) in
     if ghr_iserr res then Some (res, (False, st))
     else case tok of
       None \<Rightarrow> None
     | Some t \<Rightarrow>
         if tk_type t = GH_PERMTOKEN_EOF then Some (GHR_OK, (True, st))
         else map_option (\<lambda>(res, st). (res, (False, st))) (permparser_resource al rps t st))"

partial_function (option) gh_permparser_parse ::
  "gh_alloc \<Rightarrow> ('u, 'e) gh_permresourceparser list \<Rightarrow> gh_permparser \<times> 'u \<Rightarrow>
   (gh_result \<times> (gh_permparser \<times> 'u)) option" where
  "gh_permparser_parse al rps st =
     Option.bind (permparser_parsenextresource al rps st) (\<lambda>(res, eof, st).
     if ghr_iserr res then Some (res, st)
     else if eof then Some (GHR_OK, st)
     else gh_permparser_parse al rps st)"

end
