(* ===== verification/Writer.thy ===== *)
theory Writer
  imports Kernel
begin

text \<open>
  The writer of the policy file format (\<^verbatim>\<open>perms/writer.c\<close>): its scope and layer, and one
  operation per syntactic element, each a sequence of \<^verbatim>\<open>write\<close> calls that stops at the first
  one that fails or is short. The indentation and the quoted characters are the exception: the
  results of \<^verbatim>\<open>permwriter_printindent\<close> and \<^verbatim>\<open>permwriter_writeescaped\<close> are not looked at.
\<close>

section \<open>State and operations\<close>

datatype gh_permwriter_layer =
  GH_PERMWRITER_GROUPRESOURCE | GH_PERMWRITER_ENTRY | GH_PERMWRITER_FIELDARGS

record gh_permwriter =
  pw_fd :: int
  pw_scope :: int
  pw_layer :: gh_permwriter_layer

type_synonym pw_state = "gh_permwriter \<times> trace"

definition gh_permwriter_new :: "int \<Rightarrow> gh_permwriter" where
  "gh_permwriter_new fd = \<lparr>pw_fd = fd, pw_scope = 0, pw_layer = GH_PERMWRITER_GROUPRESOURCE\<rparr>"

definition write_or_return :: "env \<Rightarrow> string \<Rightarrow> pw_state \<Rightarrow> gh_result \<times> pw_state" where
  "write_or_return env buf st =
     (case st of (writer, tr) \<Rightarrow>
      (let (a, tr) = syscall env (Write (pw_fd writer) buf) tr in
       if an_ret a < 0 then (ghr_errno GHR_PERMWRITER_WRITEFAILED a, (writer, tr))
       else if an_ret a \<noteq> int (length buf) then (GHR_PERMWRITER_WRITETRUNCATED, (writer, tr))
       else (GHR_OK, (writer, tr))))"

fun indent_loop :: "env \<Rightarrow> nat \<Rightarrow> pw_state \<Rightarrow> gh_result \<times> pw_state" where
  "indent_loop env 0 st = (GHR_OK, st)"
| "indent_loop env (Suc n) st = ghr_seq (write_or_return env ''    '' st) (indent_loop env n)"

definition permwriter_printindent :: "env \<Rightarrow> pw_state \<Rightarrow> gh_result \<times> pw_state" where
  "permwriter_printindent env st = indent_loop env (nat (pw_scope (fst st))) st"

fun permwriter_writeescaped :: "env \<Rightarrow> string \<Rightarrow> pw_state \<Rightarrow> gh_result \<times> pw_state" where
  "permwriter_writeescaped env [] st = (GHR_OK, st)"
| "permwriter_writeescaped env (c # s) st =
     ghr_seq (write_or_return env [c] st) (permwriter_writeescaped env s)"

text \<open>\<^verbatim>\<open>writer->scope\<close> and \<^verbatim>\<open>writer->layer\<close> assignments\<close>

definition pw_enter :: "pw_state \<Rightarrow> gh_result \<times> pw_state" where
  "pw_enter st =
     (case st of (writer, tr) \<Rightarrow>
      (GHR_OK, (writer\<lparr>pw_scope := pw_scope writer + 1, pw_layer := GH_PERMWRITER_ENTRY\<rparr>, tr)))"

definition pw_leave :: "pw_state \<Rightarrow> pw_state" where
  "pw_leave st =
     (case st of (writer, tr) \<Rightarrow>
      (if pw_scope writer > 0 then writer\<lparr>pw_scope := pw_scope writer - 1\<rparr> else writer, tr))"

definition pw_setlayer :: "gh_permwriter_layer \<Rightarrow> pw_state \<Rightarrow> pw_state" where
  "pw_setlayer l st = (case st of (writer, tr) \<Rightarrow> (writer\<lparr>pw_layer := l\<rparr>, tr))"

definition gh_permwriter_beginresource ::
  "env \<Rightarrow> string \<Rightarrow> string \<Rightarrow> pw_state \<Rightarrow> gh_result \<times> pw_state" where
  "gh_permwriter_beginresource env grp resource st =
     (let st = snd (permwriter_printindent env st) in
      ghr_seq (write_or_return env (cstr grp) st) (\<lambda>st.
      ghr_seq (write_or_return env '' '' st) (\<lambda>st.
      ghr_seq (write_or_return env (cstr resource) st) (\<lambda>st.
      ghr_seq (write_or_return env '' {\<newline>'' st) pw_enter))))"

definition gh_permwriter_endresource :: "env \<Rightarrow> pw_state \<Rightarrow> gh_result \<times> pw_state" where
  "gh_permwriter_endresource env st =
     write_or_return env ''}\<newline>'' (snd (permwriter_printindent env (pw_leave st)))"

text \<open>\<open>entry\<close> is the array of \<^verbatim>\<open>entry_len\<close> characters.\<close>

definition gh_permwriter_beginentry :: "env \<Rightarrow> string \<Rightarrow> pw_state \<Rightarrow> gh_result \<times> pw_state" where
  "gh_permwriter_beginentry env entry st =
     (let st = snd (permwriter_printindent env st) in
      ghr_seq (write_or_return env ''\"'' st) (\<lambda>st.
      ghr_seq (write_or_return env ''\" {\<newline>'' (snd (permwriter_writeescaped env entry st))) pw_enter))"

definition pw_newline_unless_entry :: "env \<Rightarrow> pw_state \<Rightarrow> gh_result \<times> pw_state" where
  "pw_newline_unless_entry env st =
     (if pw_layer (fst st) \<noteq> GH_PERMWRITER_ENTRY then write_or_return env ''\<newline>'' st else (GHR_OK, st))"

definition gh_permwriter_endentry :: "env \<Rightarrow> pw_state \<Rightarrow> gh_result \<times> pw_state" where
  "gh_permwriter_endentry env st =
     ghr_seq (pw_newline_unless_entry env st) (\<lambda>st.
     write_or_return env ''}\<newline>''
       (snd (permwriter_printindent env (pw_leave (pw_setlayer GH_PERMWRITER_GROUPRESOURCE st)))))"

definition gh_permwriter_field :: "env \<Rightarrow> string \<Rightarrow> pw_state \<Rightarrow> gh_result \<times> pw_state" where
  "gh_permwriter_field env key st =
     ghr_seq (pw_newline_unless_entry env st) (\<lambda>st.
     ghr_seq (write_or_return env (cstr key) (snd (permwriter_printindent env st))) (\<lambda>st.
     (GHR_OK, pw_setlayer GH_PERMWRITER_FIELDARGS st)))"

definition pw_space_after_args :: "env \<Rightarrow> pw_state \<Rightarrow> gh_result \<times> pw_state" where
  "pw_space_after_args env st =
     (if pw_layer (fst st) = GH_PERMWRITER_FIELDARGS then write_or_return env '' '' st else (GHR_OK, st))"

definition gh_permwriter_fieldargstring :: "env \<Rightarrow> string \<Rightarrow> pw_state \<Rightarrow> gh_result \<times> pw_state" where
  "gh_permwriter_fieldargstring env val st =
     ghr_seq (pw_space_after_args env st) (\<lambda>st.
     ghr_seq (write_or_return env ''\"'' (pw_setlayer GH_PERMWRITER_FIELDARGS st)) (\<lambda>st.
     write_or_return env ''\"'' (snd (permwriter_writeescaped env val st))))"

definition gh_permwriter_fieldargident :: "env \<Rightarrow> string \<Rightarrow> pw_state \<Rightarrow> gh_result \<times> pw_state" where
  "gh_permwriter_fieldargident env val st =
     ghr_seq (pw_space_after_args env st) (\<lambda>st.
     write_or_return env val (pw_setlayer GH_PERMWRITER_FIELDARGS st))"

section \<open>What is written\<close>

definition pw_output :: "pw_state \<Rightarrow> string" where
  "pw_output st = fd_output (pw_fd (fst st)) (snd st)"

text \<open>
  The state of a writer that has written \<open>out\<close> to \<open>fd\<close>, and a successful operation that ends in
  such a state.
\<close>

definition pw_at :: "int \<Rightarrow> int \<Rightarrow> gh_permwriter_layer \<Rightarrow> string \<Rightarrow> pw_state \<Rightarrow> bool" where
  "pw_at fd n l out st \<longleftrightarrow>
     pw_fd (fst st) = fd \<and> pw_scope (fst st) = n \<and> pw_layer (fst st) = l \<and> pw_output st = out"

definition pw_ok ::
  "gh_result \<times> pw_state \<Rightarrow> int \<Rightarrow> int \<Rightarrow> gh_permwriter_layer \<Rightarrow> string \<Rightarrow> bool" where
  "pw_ok m fd n l out \<longleftrightarrow> fst m = GHR_OK \<and> pw_at fd n l out (snd m)"

definition indent :: "int \<Rightarrow> string" where
  "indent n = concat (replicate (nat n) ''    '')"

lemma pw_at_new: "pw_at fd 0 GH_PERMWRITER_GROUPRESOURCE (fd_output fd tr) (gh_permwriter_new fd, tr)"
  by (simp add: pw_at_def gh_permwriter_new_def pw_output_def)

lemma pw_ok_seq:
  assumes "pw_ok m fd n l out"
    and "\<And>st. pw_at fd n l out st \<Longrightarrow> pw_ok (k st) fd n' l' out'"
  shows "pw_ok (ghr_seq m k) fd n' l' out'"
  using assms by (cases m) (simp add: pw_ok_def)

lemma pw_ok_ignore: "pw_ok m fd n l out \<Longrightarrow> pw_at fd n l out (snd m)"
  by (simp add: pw_ok_def)

lemma pw_ok_done: "pw_at fd n l out st \<Longrightarrow> pw_ok (0, st) fd n l out"
  by (simp add: pw_ok_def)

lemma pw_write:
  "takes_writes env \<Longrightarrow> pw_at fd n l out st \<Longrightarrow> pw_ok (write_or_return env txt st) fd n l (out @ txt)"
  by (cases st)
    (auto simp: pw_ok_def pw_at_def write_or_return_def pw_output_def takes_writes_def syscall_pair)

lemma pw_indent_loop:
  assumes "takes_writes env" "pw_at fd n l out st"
  shows "pw_ok (indent_loop env k st) fd n l (out @ concat (replicate k ''    ''))"
  using assms(2)
proof (induction k arbitrary: st out)
  case 0
  then show ?case by (simp add: pw_ok_done)
next
  case (Suc k)
  show ?case
    unfolding indent_loop.simps
    by (rule pw_ok_seq [OF pw_write [OF assms(1) Suc.prems]]) (use Suc.IH in fastforce)
qed

lemma pw_printindent:
  "takes_writes env \<Longrightarrow> pw_at fd n l out st \<Longrightarrow>
   pw_at fd n l (out @ indent n) (snd (permwriter_printindent env st))"
  unfolding permwriter_printindent_def indent_def
  by (rule pw_ok_ignore) (auto simp: pw_at_def dest: pw_indent_loop)

lemma pw_escaped:
  assumes "takes_writes env" "pw_at fd n l out st"
  shows "pw_at fd n l (out @ s) (snd (permwriter_writeescaped env s st))"
proof -
  have "pw_ok (permwriter_writeescaped env s st) fd n l (out @ s)"
    using assms(2)
  proof (induction s arbitrary: st out)
    case Nil
    then show ?case by (simp add: pw_ok_done)
  next
    case (Cons c s)
    show ?case
      unfolding permwriter_writeescaped.simps
      by (rule pw_ok_seq [OF pw_write [OF assms(1) Cons.prems]]) (use Cons.IH in fastforce)
  qed
  then show ?thesis by (rule pw_ok_ignore)
qed

lemma pw_enter_at: "pw_at fd n l out st \<Longrightarrow> pw_ok (pw_enter st) fd (n + 1) GH_PERMWRITER_ENTRY out"
  by (cases st) (auto simp: pw_enter_def pw_ok_def pw_at_def pw_output_def)

lemma pw_leave_at: "pw_at fd n l out st \<Longrightarrow> pw_at fd (if n > 0 then n - 1 else n) l out (pw_leave st)"
  by (cases st) (auto simp: pw_leave_def pw_at_def pw_output_def)

lemma pw_setlayer_at: "pw_at fd n l out st \<Longrightarrow> pw_at fd n l' out (pw_setlayer l' st)"
  by (cases st) (auto simp: pw_setlayer_def pw_at_def pw_output_def)

section \<open>The text of each element\<close>

lemma pw_beginresource:
  assumes "takes_writes env" "pw_at fd n l out st" "nul_free g" "nul_free r"
  shows "pw_ok (gh_permwriter_beginresource env g r st) fd (n + 1) GH_PERMWRITER_ENTRY
           (out @ indent n @ g @ '' '' @ r @ '' {\<newline>'')"
  unfolding gh_permwriter_beginresource_def Let_def
  by (rule pw_ok_seq, rule pw_write, rule assms, rule pw_printindent, rule assms, rule assms,
      rule pw_ok_seq, rule pw_write, rule assms, assumption,
      rule pw_ok_seq, rule pw_write, rule assms, assumption,
      rule pw_ok_seq, rule pw_write, rule assms, assumption)
    (use assms(3,4) pw_enter_at in \<open>fastforce simp: cstr_nul_free\<close>)

lemma pw_endresource:
  assumes "takes_writes env" "pw_at fd (n + 1) l out st" "0 \<le> n"
  shows "pw_ok (gh_permwriter_endresource env st) fd n l (out @ indent n @ ''}\<newline>'')"
  using pw_write [OF assms(1) pw_printindent [OF assms(1) pw_leave_at [OF assms(2)]], of "''}\<newline>''"] assms(3)
  by (simp add: gh_permwriter_endresource_def)

lemma pw_beginentry:
  assumes "takes_writes env" "pw_at fd n l out st"
  shows "pw_ok (gh_permwriter_beginentry env e st) fd (n + 1) GH_PERMWRITER_ENTRY
           (out @ indent n @ ''\"'' @ e @ ''\" {\<newline>'')"
  unfolding gh_permwriter_beginentry_def Let_def
  by (rule pw_ok_seq, rule pw_write, rule assms, rule pw_printindent, rule assms, rule assms,
      rule pw_ok_seq, rule pw_write, rule assms, rule pw_escaped, rule assms, assumption)
    (use pw_enter_at in fastforce)

definition newline_unless_entry :: "gh_permwriter_layer \<Rightarrow> string" where
  "newline_unless_entry l = (if l \<noteq> GH_PERMWRITER_ENTRY then ''\<newline>'' else [])"

lemma pw_newline_unless:
  "takes_writes env \<Longrightarrow> pw_at fd n l out st \<Longrightarrow>
   pw_ok (pw_newline_unless_entry env st) fd n l (out @ newline_unless_entry l)"
  using pw_write [of env fd n l out st "''\<newline>''"] pw_ok_done [of fd n l out st]
  by (auto simp: pw_newline_unless_entry_def newline_unless_entry_def pw_at_def)

lemma pw_endentry:
  assumes "takes_writes env" "pw_at fd (n + 1) l out st" "0 \<le> n"
  shows "pw_ok (gh_permwriter_endentry env st) fd n GH_PERMWRITER_GROUPRESOURCE
           (out @ newline_unless_entry l @ indent n @ ''}\<newline>'')"
  unfolding gh_permwriter_endentry_def
proof (rule pw_ok_seq, rule pw_newline_unless [OF assms(1,2)])
  fix st1 assume "pw_at fd (n + 1) l (out @ newline_unless_entry l) st1"
  from pw_write [OF assms(1) pw_printindent [OF assms(1) pw_leave_at [OF pw_setlayer_at [OF this]]],
      of "''}\<newline>''" GH_PERMWRITER_GROUPRESOURCE] assms(3)
  show "pw_ok (write_or_return env ''}\<newline>'' (snd (permwriter_printindent env
      (pw_leave (pw_setlayer GH_PERMWRITER_GROUPRESOURCE st1))))) fd n GH_PERMWRITER_GROUPRESOURCE
      (out @ newline_unless_entry l @ indent n @ ''}\<newline>'')"
    by simp
qed

lemma pw_field:
  assumes "takes_writes env" "pw_at fd n l out st" "nul_free k"
  shows "pw_ok (gh_permwriter_field env k st) fd n GH_PERMWRITER_FIELDARGS
           (out @ newline_unless_entry l @ indent n @ k)"
  unfolding gh_permwriter_field_def
proof (rule pw_ok_seq, rule pw_newline_unless [OF assms(1,2)], rule pw_ok_seq,
    rule pw_write [OF assms(1)], rule pw_printindent [OF assms(1)], assumption)
  fix st2 assume "pw_at fd n l (((out @ newline_unless_entry l) @ indent n) @ cstr k) st2"
  from pw_ok_done [OF pw_setlayer_at [OF this]] assms(3)
  show "pw_ok (GHR_OK, pw_setlayer GH_PERMWRITER_FIELDARGS st2) fd n GH_PERMWRITER_FIELDARGS
      (out @ newline_unless_entry l @ indent n @ k)"
    by (simp add: cstr_nul_free)
qed

lemma pw_space_after:
  "takes_writes env \<Longrightarrow> pw_at fd n GH_PERMWRITER_FIELDARGS out st \<Longrightarrow>
   pw_ok (pw_space_after_args env st) fd n GH_PERMWRITER_FIELDARGS (out @ '' '')"
  using pw_write [of env fd n GH_PERMWRITER_FIELDARGS out st "'' ''"]
  by (auto simp: pw_space_after_args_def pw_at_def)

lemma pw_fieldargident:
  assumes "takes_writes env" "pw_at fd n GH_PERMWRITER_FIELDARGS out st"
  shows "pw_ok (gh_permwriter_fieldargident env v st) fd n GH_PERMWRITER_FIELDARGS (out @ '' '' @ v)"
  unfolding gh_permwriter_fieldargident_def
  by (rule pw_ok_seq, rule pw_space_after [OF assms])
    (use pw_write [OF assms(1) pw_setlayer_at] in fastforce)

lemma pw_fieldargstring:
  assumes "takes_writes env" "pw_at fd n GH_PERMWRITER_FIELDARGS out st"
  shows "pw_ok (gh_permwriter_fieldargstring env v st) fd n GH_PERMWRITER_FIELDARGS
           (out @ '' \"'' @ v @ ''\"'')"
  unfolding gh_permwriter_fieldargstring_def
  by (rule pw_ok_seq, rule pw_space_after [OF assms], rule pw_ok_seq, rule pw_write, rule assms,
      rule pw_setlayer_at, assumption)
    (use pw_write [OF assms(1) pw_escaped [OF assms(1)]] in fastforce)

text \<open>
  A call that fails or is cut short ends the operation with an error, whatever the environment: a
  successful element outside the unchecked indentation and quotes has been written whole.
\<close>

lemma write_or_return_ok:
  "fst (write_or_return env txt st) = GHR_OK \<longleftrightarrow>
   an_ret (env (snd st) (Write (pw_fd (fst st)) txt)) = int (length txt)"
  by (cases st) (auto simp: write_or_return_def syscall_pair ghr_errno_def Let_def ghr_simps)

end
