(* ===== verification/PermfsFile.thy ===== *)
theory PermfsFile
  imports Permfs Parser Writer
begin

text \<open>
  The filesystem permissions as a part of the policy file: the resource parser of
  \<^verbatim>\<open>perms/permfs.c\<close> for \<^verbatim>\<open>filesystem node\<close> and the function that writes the entries.
\<close>

section \<open>Reading\<close>

definition permfsparser_matches ::
  "string \<Rightarrow> string \<Rightarrow> gh_permparser \<times> 'u \<Rightarrow> (gh_result \<times> (gh_permparser \<times> 'u)) option" where
  "permfsparser_matches group_id resource_id st =
     Some (if gh_str_eqlzrz group_id ''filesystem'' \<and> gh_str_eqlzrz resource_id ''node''
           then GHR_OK else GHR_PERMPARSER_NOMATCH, st)"

definition permfsparser_newentry ::
  "gh_alloc \<Rightarrow> tok_conststr \<Rightarrow> gh_permparser \<times> gh_permfs \<Rightarrow>
   (gh_result \<times> (da_ptr option \<times> (gh_permparser \<times> gh_permfs))) option" where
  "permfsparser_newentry al v st =
     (case st of (p, permfs) \<Rightarrow>
      Option.bind (pp_resolve p v) (\<lambda>s.
      map_option (\<lambda>(res, entry, permfs). (res, (entry, (p, permfs))))
        (gh_permfs_add al permfs \<lparr>ac_ptr = Some (cs_buffer s), ac_len = cs_size s\<rparr>
           GH_PERMFS_MODESET_EMPTY GH_PERMFS_MODESET_EMPTY)))"

text \<open>The mode a field and an action select: \<^verbatim>\<open>&entry->self\<close> or \<^verbatim>\<open>&entry->children\<close>, then one of three.\<close>

datatype mode_action = Accept | Reject | PromptFor

definition modeset_or :: "mode_action \<Rightarrow> gh_permfs_mode \<Rightarrow> gh_permfs_modeset \<Rightarrow> gh_permfs_modeset" where
  "modeset_or act flag m =
     (case act of
        Accept \<Rightarrow> m\<lparr>mode_accept := mode_accept m OR flag\<rparr>
      | Reject \<Rightarrow> m\<lparr>mode_reject := mode_reject m OR flag\<rparr>
      | PromptFor \<Rightarrow> m\<lparr>mode_prompt := mode_prompt m OR flag\<rparr>)"

definition entry_or :: "bool \<Rightarrow> mode_action \<Rightarrow> gh_permfs_mode \<Rightarrow> gh_permfs_entry \<Rightarrow> gh_permfs_entry" where
  "entry_or is_self act flag e =
     (if is_self then e\<lparr>fe_self := modeset_or act flag (fe_self e)\<rparr>
      else e\<lparr>fe_children := modeset_or act flag (fe_children e)\<rparr>)"

definition mode_action_of :: "gh_conststr \<Rightarrow> mode_action option" where
  "mode_action_of action =
     (if gh_conststr_eqz action ''accept'' then Some Accept
      else if gh_conststr_eqz action ''reject'' then Some Reject
      else if gh_conststr_eqz action ''prompt'' then Some PromptFor
      else None)"

text \<open>
  \<^verbatim>\<open>strcpy(flag_ident, arg.buffer)\<close> into \<^verbatim>\<open>arg.size + 1\<close> characters: defined only for a string
  that fits.
\<close>

definition flag_ident_of :: "gh_conststr \<Rightarrow> string option" where
  "flag_ident_of arg =
     (if strlen (cs_buffer arg) \<le> unat (cs_size arg) then Some (cstr (cs_buffer arg)) else None)"

partial_function (option) permfs_setfield_loop ::
  "gh_alloc \<Rightarrow> da_ptr \<Rightarrow> bool \<Rightarrow> mode_action \<Rightarrow> gh_permparser \<times> gh_permfs \<Rightarrow>
   (gh_result \<times> (gh_permparser \<times> gh_permfs)) option" where
  "permfs_setfield_loop al entry is_self act st =
     (case st of (p, permfs) \<Rightarrow>
      Option.bind (gh_permparser_nextstring al p) (\<lambda>(res, v, p).
      if ghr_is res GHR_PERMPARSER_EXPECTEDSTRING then Some (GHR_OK, (p, permfs))
      else if ghr_iserr res then Some (res, (p, permfs))
      else
        Option.bind v (\<lambda>v.
        Option.bind (pp_resolve p v) (\<lambda>arg.
        Option.bind (flag_ident_of arg) (\<lambda>flag_ident.
        let new_mode_flag = gh_permfs_mode_fromident flag_ident in
        if new_mode_flag = 0 then
          (let (res, p) = gh_permparser_resourceerror ''Unknown mode flag'' p in Some (res, (p, permfs)))
        else
          Option.bind (da_deref permfs entry) (\<lambda>e.
          Option.bind (da_store permfs entry (entry_or is_self act new_mode_flag e)) (\<lambda>permfs.
          permfs_setfield_loop al entry is_self act (p, permfs))))))))"

definition permfsparser_setfield ::
  "gh_alloc \<Rightarrow> da_ptr option \<Rightarrow> string \<Rightarrow> gh_permparser \<times> gh_permfs \<Rightarrow>
   (gh_result \<times> (gh_permparser \<times> gh_permfs)) option" where
  "permfsparser_setfield al entry field st =
     (if gh_str_eqlzrz field ''self'' \<or> gh_str_eqlzrz field ''children'' then
        (case st of (p, permfs) \<Rightarrow>
         Option.bind (gh_permparser_nextidentifier al p) (\<lambda>(res, v, p).
         if ghr_iserr res then Some (res, (p, permfs))
         else
           Option.bind v (\<lambda>v.
           Option.bind (pp_resolve p v) (\<lambda>action.
           case mode_action_of action of
             None \<Rightarrow>
               (let (res, p) = gh_permparser_resourceerror ''Unknown action type'' p in Some (res, (p, permfs)))
           | Some act \<Rightarrow>
               Option.bind entry (\<lambda>entry.
               permfs_setfield_loop al entry (gh_str_eqlzrz field ''self'') act (p, permfs))))))
      else Some (GHR_PERMPARSER_UNKNOWNFIELD, st))"

definition permfs_resourceparser :: "gh_alloc \<Rightarrow> (gh_permfs, da_ptr) gh_permresourceparser" where
  "permfs_resourceparser al =
     \<lparr>rp_matches = permfsparser_matches, rp_newentry = permfsparser_newentry al,
      rp_setfield = permfsparser_setfield al\<rparr>"

definition gh_permfs_registerparser ::
  "gh_alloc \<Rightarrow> (gh_permfs, da_ptr) gh_permresourceparser list \<Rightarrow>
   gh_result \<times> (gh_permfs, da_ptr) gh_permresourceparser list" where
  "gh_permfs_registerparser al rps = gh_permparser_registerresource rps (permfs_resourceparser al)"

section \<open>Writing\<close>

fun permfs_writeflags :: "env \<Rightarrow> gh_permfs_mode list \<Rightarrow> pw_state \<Rightarrow> gh_result \<times> pw_state" where
  "permfs_writeflags env [] st = (GHR_OK, st)"
| "permfs_writeflags env (flag # flags) st =
     (case gh_permfs_mode_ident flag of
        None \<Rightarrow> (GHR_PERMFS_UNKNOWNMODE, st)
      | Some flag_str \<Rightarrow>
          ghr_seq (gh_permwriter_fieldargstring env flag_str st) (permfs_writeflags env flags))"

definition permfs_writemode ::
  "env \<Rightarrow> string \<Rightarrow> string \<Rightarrow> gh_permfs_mode \<Rightarrow> pw_state \<Rightarrow> gh_result \<times> pw_state" where
  "permfs_writemode env modeset_name mode_name mode st =
     (if mode = 0 then (GHR_OK, st)
      else
        ghr_seq (gh_permwriter_field env modeset_name st) (\<lambda>st.
        ghr_seq (gh_permwriter_fieldargident env mode_name st) (\<lambda>st.
        permfs_writeflags env (permfs_flags mode) st)))"

definition permfs_writemodeset ::
  "env \<Rightarrow> string \<Rightarrow> gh_permfs_modeset \<Rightarrow> pw_state \<Rightarrow> gh_result \<times> pw_state" where
  "permfs_writemodeset env modeset_name modeset st =
     ghr_seq (permfs_writemode env modeset_name ''accept'' (mode_accept modeset) st) (\<lambda>st.
     ghr_seq (permfs_writemode env modeset_name ''reject'' (mode_reject modeset) st) (\<lambda>st.
     permfs_writemode env modeset_name ''prompt'' (mode_prompt modeset) st))"

text \<open>The \<^verbatim>\<open>entry_len\<close> characters of the path\<close>

fun permfs_writeentries :: "env \<Rightarrow> gh_permfs_entry list \<Rightarrow> pw_state \<Rightarrow> gh_result \<times> pw_state" where
  "permfs_writeentries env [] st = (GHR_OK, st)"
| "permfs_writeentries env (entry # entries) st =
     ghr_seq (gh_permwriter_beginentry env (ac_view (fe_path entry)) st) (\<lambda>st.
     ghr_seq (permfs_writemodeset env ''self'' (fe_self entry) st) (\<lambda>st.
     ghr_seq (permfs_writemodeset env ''children'' (fe_children entry) st) (\<lambda>st.
     ghr_seq (gh_permwriter_endentry env st) (permfs_writeentries env entries))))"

definition gh_permfs_write :: "env \<Rightarrow> gh_permfs \<Rightarrow> pw_state \<Rightarrow> gh_result \<times> pw_state" where
  "gh_permfs_write env permfs st =
     ghr_seq (gh_permwriter_beginresource env ''filesystem'' ''node'' st) (\<lambda>st.
     ghr_seq (permfs_writeentries env (da_items permfs) st) (gh_permwriter_endresource env))"

end
