(* ===== verification/LexerFacts.thy ===== *)
theory LexerFacts
  imports Parser
begin

text \<open>
  What the tokenizer does on text without comments, backslashes and NUL characters, as long as the
  tokens fit in the byte buffer: the abstract view of the parser state (the text that is left, the
  bytes stored, the token that was peeked), and one lemma per operation on that view.
\<close>

section \<open>The abstract state\<close>

definition pp_rest :: "gh_permparser \<Rightarrow> string" where
  "pp_rest p = drop (pp_idx p) (pp_data p)"

text \<open>
  \<open>pp_at b u r pk p\<close>: \<open>r\<close> is left to read, \<open>u\<close> is stored in block \<open>b\<close> of the byte buffer, \<open>pk\<close> was
  peeked.
\<close>

fun pk_at :: "gh_permtoken option \<Rightarrow> gh_permtoken \<Rightarrow> bool" where
  "pk_at None peek \<longleftrightarrow> tk_type peek = GH_PERMTOKEN_EOF"
| "pk_at (Some t) peek \<longleftrightarrow> peek = t \<and> tk_type t \<noteq> GH_PERMTOKEN_EOF"

definition pp_at ::
  "nat \<Rightarrow> string \<Rightarrow> string \<Rightarrow> gh_permtoken option \<Rightarrow> gh_permparser \<Rightarrow> bool" where
  "pp_at b u r pk p \<longleftrightarrow>
     CHR ''#'' \<notin> set (pp_data p) \<and> pp_rest p = r \<and> bb_wf (pp_buffer p) \<and> da_block (pp_buffer p) = b \<and>
     unat (da_capacity (pp_buffer p)) = 1024 \<and> da_items (pp_buffer p) = u \<and>
     pk_at pk (pp_peek p)"

definition pp_space :: "string \<Rightarrow> string" where
  "pp_space r = dropWhile permparser_chariswhitespace r"

lemma curchar_rest: "permparser_curchar p = chd (pp_rest p)"
  by (cases "pp_rest p") (auto simp: permparser_curchar_def pp_rest_def dest: nth_via_drop)

lemma pp_at_curchar: "pp_at b u r pk p \<Longrightarrow> permparser_curchar p = chd r"
  by (simp add: curchar_rest pp_at_def)

lemma pp_rest_advance: "pp_rest (pp_advance p) = tl (pp_rest p)"
  by (simp add: pp_rest_def drop_Suc tl_drop)

lemma nextchar_at:
  assumes "pp_at b u (c # r) pk p"
  shows "\<exists>p'. permparser_nextchar p = (chd r, p') \<and> pp_at b u r pk p' \<and> pp_error p' = pp_error p"
proof -
  have lt: "pp_idx p < length (pp_data p)"
    using assms by (auto simp: pp_at_def pp_rest_def) (metis drop_all list.discI not_le)
  have cur: "permparser_curchar (pp_advance p) = chd r"
    using assms by (simp only: curchar_rest pp_rest_advance) (simp add: pp_at_def)
  have "chd r \<noteq> CHR ''#''"
  proof
    assume "chd r = CHR ''#''"
    then have "CHR ''#'' \<in> set r" by (cases r) auto
    then have "CHR ''#'' \<in> set (pp_rest p)" using assms by (simp add: pp_at_def)
    moreover have "set (pp_rest p) \<subseteq> set (pp_data p)" by (simp add: pp_rest_def set_drop_subset)
    ultimately show False using assms by (auto simp: pp_at_def)
  qed
  with lt cur have "permparser_nextchar p = (chd r, pp_advance p)"
    unfolding permparser_nextchar_def by (subst pp_next.simps(1)) (simp add: Let_def)
  moreover have "pp_at b u r pk (pp_advance p)"
    using assms by (auto simp: pp_at_def pp_rest_advance)
  ultimately show ?thesis by simp
qed

lemma nextchar_end:
  assumes "pp_at b u [] pk p"
  shows "permparser_nextchar p = (NUL, p)"
  unfolding permparser_nextchar_def
  by (subst pp_next.simps(1)) (use assms in \<open>simp add: pp_at_def pp_rest_def\<close>)

lemma skip_at:
  assumes "pp_at b u r pk p"
  shows "pp_at b u (pp_space r) pk (permparser_skipwhitespace p) \<and>
     pp_error (permparser_skipwhitespace p) = pp_error p"
proof -
  have "pp_at b u (pp_space r) pk (pp_skip_loop (chd r) p) \<and> pp_error (pp_skip_loop (chd r) p) = pp_error p"
    using assms
  proof (induction r arbitrary: p)
    case Nil
    then show ?case
      by (subst (1 2) pp_skip_loop.simps) (simp add: permparser_chariswhitespace_def pp_space_def)
  next
    case (Cons c r)
    show ?case
    proof (cases "permparser_chariswhitespace c")
      case True
      from nextchar_at [OF Cons.prems] obtain p' where
        "permparser_nextchar p = (chd r, p')" "pp_at b u r pk p'" "pp_error p' = pp_error p" by blast
      with True Cons.IH [of p'] show ?thesis
        by (subst (1 2) pp_skip_loop.simps) (simp add: pp_space_def)
    next
      case False
      with Cons.prems show ?thesis by (subst (1 2) pp_skip_loop.simps) (simp add: pp_space_def)
    qed
  qed
  then show ?thesis by (simp add: permparser_skipwhitespace_def pp_at_curchar [OF assms])
qed

lemma append_at:
  assumes "pp_at b u r pk p" "length u + length s \<le> 1024"
  shows "\<exists>p'. pp_append al s p = Some (GHR_OK, p') \<and> pp_at b (u @ s) r pk p' \<and> pp_loc p' = pp_loc p \<and>
     pp_error p' = pp_error p"
proof -
  have len: "length u = unat (da_size (pp_buffer p))"
    using assms(1) da_items_length [of bb_daopts "pp_buffer p"] by (auto simp: pp_at_def)
  then have "bb_small (pp_buffer p) (length s)" using assms(2) by (simp add: bb_small_def)
  from bb_append_result [OF _ this, of al] assms len obtain bb' where
    "gh_bytebuffer_append al (pp_buffer p) s = Some (GHR_OK, bb')" "bb_wf bb'"
    "da_items bb' = u @ s" "da_block bb' = b" "da_capacity bb' = da_capacity (pp_buffer p)"
    by (auto simp: pp_at_def)
  with assms(1) show ?thesis by (auto simp: pp_append_def pp_at_def pp_rest_def)
qed

lemma mark_at: "pp_at b u r pk p \<Longrightarrow> pp_mark p = (b, length u)"
  using da_items_length [of bb_daopts "pp_buffer p"] by (auto simp: pp_mark_def pp_at_def)

section \<open>Identifiers and strings\<close>

lemma ident_loop_at:
  assumes "pp_at b u (s @ r) pk p" "\<forall>c \<in> set s. permparser_charisalphanumeric c"
    "\<not> permparser_charisalphanumeric (chd r)" "length u + length s \<le> 1024"
  shows "\<exists>p'. pp_ident_loop al (chd (s @ r)) len p = Some (GHR_OK, (len + of_nat (length s), p')) \<and>
     pp_at b (u @ s) r pk p' \<and> pp_error p' = pp_error p"
  using assms
proof (induction s arbitrary: u p len)
  case Nil
  then show ?case by (subst pp_ident_loop.simps) simp
next
  case (Cons c s)
  from append_at [of b u "(c # s) @ r" pk p "[c]" al] Cons.prems obtain p1 where
    p1: "pp_append al [c] p = Some (GHR_OK, p1)" "pp_at b (u @ [c]) (c # (s @ r)) pk p1" "pp_error p1 = pp_error p"
    by auto
  from nextchar_at [OF p1(2)] obtain p2 where
    p2: "permparser_nextchar p1 = (chd (s @ r), p2)" "pp_at b (u @ [c]) (s @ r) pk p2" "pp_error p2 = pp_error p"
    using p1(3) by auto
  from Cons.IH [OF p2(2), of "len + 1"] Cons.prems obtain p' where
    "pp_ident_loop al (chd (s @ r)) (len + 1) p2 = Some (GHR_OK, (len + 1 + of_nat (length s), p'))"
    "pp_at b ((u @ [c]) @ s) r pk p'" "pp_error p' = pp_error p"
    using p2(3) by auto
  with p1 p2 Cons.prems show ?case
    by (subst pp_ident_loop.simps) (simp add: ghr_defs algebra_simps)
qed

lemma readidentifier_at:
  assumes "pp_at b u (s @ r) pk p" "\<forall>c \<in> set s. permparser_charisalphanumeric c"
    "\<not> permparser_charisalphanumeric (chd r)" "length u + length s < 1024"
  shows "\<exists>l p'. permparser_readidentifier al p =
       Some (GHR_OK, (Some \<lparr>tk_type = GH_PERMTOKEN_IDENTIFIER,
                        tk_value = \<lparr>tv_buffer = Buf (b, length u), tv_size = of_nat (length s)\<rparr>, tk_loc = l\<rparr>, p')) \<and>
     pp_at b (u @ s @ [NUL]) r pk p' \<and> pp_error p' = pp_error p"
proof -
  from ident_loop_at [OF assms(1-3), of al 0] assms(4) obtain p1 where
    p1: "pp_ident_loop al (chd (s @ r)) 0 p = Some (GHR_OK, (of_nat (length s), p1))"
    "pp_at b (u @ s) r pk p1" "pp_error p1 = pp_error p" by auto
  from append_at [OF p1(2), of "[NUL]" al] assms(4) obtain p2 where
    "pp_append al [NUL] p1 = Some (GHR_OK, p2)" "pp_at b (u @ s @ [NUL]) r pk p2" "pp_error p2 = pp_error p"
    using p1(3) by auto
  with p1 show ?thesis
    by (simp add: permparser_readidentifier_def pp_at_curchar [OF assms(1)] mark_at [OF assms(1)] ghr_defs)
qed

text \<open>Characters that may stand in a string.\<close>

definition plain_char :: "char \<Rightarrow> bool" where
  "plain_char c \<longleftrightarrow> c \<noteq> NUL \<and> c \<noteq> CHR 0x22 \<and> c \<noteq> CHR 0x5C"

lemma string_loop_at:
  assumes "pp_at b u (s @ CHR 0x22 # r) pk p" "\<forall>c \<in> set s. plain_char c" "length u + length s \<le> 1024"
  shows "\<exists>p'. pp_string_loop al False (chd (s @ CHR 0x22 # r)) p = Some (GHR_OK, (CHR 0x22, p')) \<and>
     pp_at b (u @ s) (CHR 0x22 # r) pk p' \<and> pp_error p' = pp_error p"
  using assms
proof (induction s arbitrary: u p)
  case Nil
  then show ?case by (subst pp_string_loop.simps) simp
next
  case (Cons c s)
  from append_at [of b u "(c # s) @ CHR 0x22 # r" pk p "[c]" al] Cons.prems obtain p1 where
    p1: "pp_append al [c] p = Some (GHR_OK, p1)" "pp_at b (u @ [c]) (c # (s @ CHR 0x22 # r)) pk p1"
    "pp_error p1 = pp_error p" by auto
  from nextchar_at [OF p1(2)] obtain p2 where
    p2: "permparser_nextchar p1 = (chd (s @ CHR 0x22 # r), p2)" "pp_at b (u @ [c]) (s @ CHR 0x22 # r) pk p2"
    "pp_error p2 = pp_error p" using p1(3) by auto
  from Cons.IH [OF p2(2)] Cons.prems obtain p' where
    "pp_string_loop al False (chd (s @ CHR 0x22 # r)) p2 = Some (GHR_OK, (CHR 0x22, p'))"
    "pp_at b ((u @ [c]) @ s) (CHR 0x22 # r) pk p'" "pp_error p' = pp_error p" using p2(3) by auto
  with p1 p2 Cons.prems show ?case
    by (subst pp_string_loop.simps) (simp add: ghr_defs plain_char_def)
qed

lemma readstring_at:
  assumes "pp_at b u (CHR 0x22 # s @ CHR 0x22 # r) pk p" "\<forall>c \<in> set s. plain_char c"
    "length u + length s < 1024"
  shows "\<exists>l p'. permparser_readstring al p =
       Some (GHR_OK, (Some \<lparr>tk_type = GH_PERMTOKEN_STRING,
                        tk_value = \<lparr>tv_buffer = Buf (b, length u), tv_size = of_nat (length s)\<rparr>, tk_loc = l\<rparr>, p')) \<and>
     pp_at b (u @ s @ [NUL]) r pk p' \<and> pp_error p' = pp_error p"
proof -
  from nextchar_at [OF assms(1)] obtain p1 where
    p1: "permparser_nextchar p = (chd (s @ CHR 0x22 # r), p1)" "pp_at b u (s @ CHR 0x22 # r) pk p1"
    "pp_error p1 = pp_error p" by blast
  from string_loop_at [OF p1(2) assms(2), of al] assms(3) obtain p2 where
    p2: "pp_string_loop al False (chd (s @ CHR 0x22 # r)) p1 = Some (GHR_OK, (CHR 0x22, p2))"
    "pp_at b (u @ s) (CHR 0x22 # r) pk p2" "pp_error p2 = pp_error p" using p1(3) by auto
  from nextchar_at [OF p2(2)] obtain p3 where
    p3: "permparser_nextchar p2 = (chd r, p3)" "pp_at b (u @ s) r pk p3" "pp_error p3 = pp_error p"
    using p2(3) by auto
  from append_at [OF p3(2), of "[NUL]" al] assms(3) obtain p4 where
    p4: "pp_append al [NUL] p3 = Some (GHR_OK, p4)" "pp_at b (u @ s @ [NUL]) r pk p4" "pp_error p4 = pp_error p"
    using p3(3) by auto
  have "of_nat (length (u @ s @ [NUL]) - length u) - 1 = (of_nat (length s) :: size_t)" by simp
  with p1 p2 p3 p4 show ?thesis
    by (simp add: permparser_readstring_def mark_at [OF p1(2)] mark_at [OF p4(2)] ghr_defs Let_def)
qed

text \<open>
  After a backslash the loop stores characters to the end of the text: a string with a backslash
  has no end.
\<close>

lemma escaped_loop_end:
  "pp_string_loop al True c p = Some (res, (c', p')) \<Longrightarrow> res \<noteq> 0 \<or> c' = NUL"
proof (induction al "True" c p arbitrary: res c' p' rule: pp_string_loop.induct)
  case (1 al c p)
  show ?case
  proof (cases "c = NUL")
    case True
    with 1(3) show ?thesis by (subst (asm) pp_string_loop.simps) simp
  next
    case False
    with 1(3) obtain r p1 where ap: "pp_append al [c] p = Some (r, p1)"
      by (subst (asm) pp_string_loop.simps) (auto split: option.splits)
    obtain c2 p2 where nx: "permparser_nextchar p1 = (c2, p2)" by fastforce
    show ?thesis
    proof (cases "ghr_iserr r")
      case True
      with 1(3) False ap show ?thesis by (subst (asm) pp_string_loop.simps) (auto simp: ghr_simps)
    next
      case err: False
      with 1(3) False ap nx have "pp_string_loop al True c2 p2 = Some (res, (c', p'))"
        by (subst (asm) pp_string_loop.simps) simp
      with 1(2) False ap err nx show ?thesis by auto
    qed
  qed
qed

lemma string_loop_prefix:
  assumes "pp_at b u (s @ r) pk p" "\<forall>c \<in> set s. plain_char c" "length u + length s \<le> 1024"
  shows "\<exists>p'. pp_string_loop al False (chd (s @ r)) p = pp_string_loop al False (chd r) p' \<and>
     pp_at b (u @ s) r pk p'"
  using assms
proof (induction s arbitrary: u p)
  case Nil
  then show ?case by auto
next
  case (Cons c s)
  from append_at [of b u "(c # s) @ r" pk p "[c]" al] Cons.prems obtain p1 where
    p1: "pp_append al [c] p = Some (GHR_OK, p1)" "pp_at b (u @ [c]) (c # (s @ r)) pk p1" by auto
  from nextchar_at [OF p1(2)] obtain p2 where
    p2: "permparser_nextchar p1 = (chd (s @ r), p2)" "pp_at b (u @ [c]) (s @ r) pk p2" by blast
  from Cons.IH [OF p2(2)] Cons.prems obtain p' where
    "pp_string_loop al False (chd (s @ r)) p2 = pp_string_loop al False (chd r) p'"
    "pp_at b ((u @ [c]) @ s) r pk p'" by auto
  with p1 p2 Cons.prems show ?case
    by (subst pp_string_loop.simps) (auto simp: ghr_defs plain_char_def)
qed

lemma readstring_backslash:
  assumes "pp_at b u (CHR 0x22 # s @ CHR 0x5C # r) pk p" "\<forall>c \<in> set s. plain_char c"
    "length u + length s \<le> 1024"
  shows "permparser_readstring al p \<noteq> Some (GHR_OK, (tok, p'))"
proof
  assume ok: "permparser_readstring al p = Some (GHR_OK, (tok, p'))"
  from nextchar_at [OF assms(1)] obtain p1 where
    p1: "permparser_nextchar p = (chd (s @ CHR 0x5C # r), p1)" "pp_at b u (s @ CHR 0x5C # r) pk p1" by blast
  from string_loop_prefix [OF p1(2) assms(2,3), of al] obtain p2 where
    "pp_string_loop al False (chd (s @ CHR 0x5C # r)) p1 = pp_string_loop al False (CHR 0x5C) p2" by auto
  also have "\<dots> = pp_string_loop al True (CHR 0x5C) p2"
    by (subst pp_string_loop.simps) simp
  finally have loop: "pp_string_loop al False (chd (s @ CHR 0x5C # r)) p1 = pp_string_loop al True (CHR 0x5C) p2" .
  from ok p1(1) loop obtain res c p3 where
    l: "pp_string_loop al True (CHR 0x5C) p2 = Some (res, (c, p3))"
    by (auto simp: permparser_readstring_def Let_def bind_eq_Some_conv)
  from escaped_loop_end [OF l] ok p1(1) loop l show False
    by (auto simp: permparser_readstring_def Let_def ghr_simps split: if_splits)
qed

section \<open>Tokens\<close>

datatype ptok = TId string | TStr string | TL | TR

fun tok_text :: "ptok \<Rightarrow> string" where
  "tok_text (TId s) = s"
| "tok_text (TStr s) = CHR 0x22 # s @ [CHR 0x22]"
| "tok_text TL = ''{''"
| "tok_text TR = ''}''"

fun tok_bytes :: "ptok \<Rightarrow> string" where
  "tok_bytes (TId s) = s @ [NUL]"
| "tok_bytes (TStr s) = s @ [NUL]"
| "tok_bytes _ = []"

fun tok_ok :: "ptok \<Rightarrow> bool" where
  "tok_ok (TId s) \<longleftrightarrow> s \<noteq> [] \<and> (\<forall>c \<in> set s. permparser_charisalphanumeric c)"
| "tok_ok (TStr s) \<longleftrightarrow> (\<forall>c \<in> set s. plain_char c)"
| "tok_ok _ \<longleftrightarrow> True"

text \<open>What may follow a token: an identifier goes on over letters and digits.\<close>

fun tok_ends :: "ptok \<Rightarrow> string \<Rightarrow> bool" where
  "tok_ends (TId s) r \<longleftrightarrow> \<not> permparser_charisalphanumeric (chd r)"
| "tok_ends _ r \<longleftrightarrow> True"

text \<open>A token value stored at place \<open>off\<close> of block \<open>b\<close>.\<close>

fun tok_is :: "nat \<Rightarrow> nat \<Rightarrow> ptok \<Rightarrow> gh_permtoken \<Rightarrow> bool" where
  "tok_is b off (TId s) t \<longleftrightarrow> tk_type t = GH_PERMTOKEN_IDENTIFIER \<and>
     tk_value t = \<lparr>tv_buffer = Buf (b, off), tv_size = of_nat (length s)\<rparr>"
| "tok_is b off (TStr s) t \<longleftrightarrow> tk_type t = GH_PERMTOKEN_STRING \<and>
     tk_value t = \<lparr>tv_buffer = Buf (b, off), tv_size = of_nat (length s)\<rparr>"
| "tok_is b off TL t \<longleftrightarrow> tk_type t = GH_PERMTOKEN_LBRACE"
| "tok_is b off TR t \<longleftrightarrow> tk_type t = GH_PERMTOKEN_RBRACE"

lemma tok_is_not_eof: "tok_is b off t tok \<Longrightarrow> tk_type tok \<noteq> GH_PERMTOKEN_EOF"
  by (cases t) auto

lemma alnum_char:
  assumes "permparser_charisalphanumeric c"
  shows "c \<noteq> NUL" "c \<noteq> CHR ''{''" "c \<noteq> CHR ''}''" "c \<noteq> CHR 0x22" "\<not> permparser_chariswhitespace c"
  using assms
  by (auto simp: permparser_charisalphanumeric_def c_between_def permparser_chariswhitespace_def)

lemma nexttoken_unfold:
  assumes "tk_type (pp_peek p) = GH_PERMTOKEN_EOF" "permparser_curchar p = c" "c \<noteq> NUL"
  shows "gh_permparser_nexttoken al p =
     (if c = CHR ''{'' then
        Some (GHR_OK, (Some \<lparr>tk_type = GH_PERMTOKEN_LBRACE,
                          tk_value = \<lparr>tv_buffer = Lit ''{'', tv_size = 1\<rparr>, tk_loc = pp_loc p\<rparr>,
                      permparser_skipwhitespace (snd (permparser_nextchar p))))
      else if c = CHR ''}'' then
        Some (GHR_OK, (Some \<lparr>tk_type = GH_PERMTOKEN_RBRACE,
                          tk_value = \<lparr>tv_buffer = Lit ''}'', tv_size = 1\<rparr>, tk_loc = pp_loc p\<rparr>,
                      permparser_skipwhitespace (snd (permparser_nextchar p))))
      else if c = CHR 0x22 then
        map_option (\<lambda>(res, tok, p). (res, (tok, permparser_skipwhitespace p))) (permparser_readstring al p)
      else if permparser_charisalphanumeric c then
        map_option (\<lambda>(res, tok, p). (res, (tok, permparser_skipwhitespace p))) (permparser_readidentifier al p)
      else Some (GHR_PERMPARSER_UNEXPECTEDTOKEN, (None, permparser_seterror (pp_loc p) p)))"
  using assms by (simp add: gh_permparser_nexttoken_def Let_def)

text \<open>Reading a token: what it is, what is left, and that the byte buffer has grown by its bytes.\<close>

lemma nexttoken_at:
  assumes "pp_at b u (tok_text t @ r) None p" "tok_ok t" "tok_ends t r"
    "length u + length (tok_bytes t) \<le> 1024"
  shows "\<exists>tok p'. gh_permparser_nexttoken al p = Some (GHR_OK, (Some tok, p')) \<and> tok_is b (length u) t tok \<and>
     pp_at b (u @ tok_bytes t) (pp_space r) None p' \<and> pp_error p' = pp_error p"
proof (cases t)
  case (TId s)
  then obtain c s' where s: "s = c # s'" using assms(2) by (cases s) auto
  with TId assms(2) have c: "permparser_charisalphanumeric c" by simp
  from readidentifier_at [of b u s r None p al] TId assms obtain l p1 where
    p1: "permparser_readidentifier al p =
       Some (GHR_OK, (Some \<lparr>tk_type = GH_PERMTOKEN_IDENTIFIER,
                        tk_value = \<lparr>tv_buffer = Buf (b, length u), tv_size = of_nat (length s)\<rparr>, tk_loc = l\<rparr>, p1))"
    "pp_at b (u @ s @ [NUL]) r None p1" "pp_error p1 = pp_error p" by auto
  have "permparser_curchar p = c" using pp_at_curchar [OF assms(1)] TId s by simp
  with assms(1) c alnum_char [OF c] p1(1) have
    "gh_permparser_nexttoken al p = Some (GHR_OK, (Some \<lparr>tk_type = GH_PERMTOKEN_IDENTIFIER,
        tk_value = \<lparr>tv_buffer = Buf (b, length u), tv_size = of_nat (length s)\<rparr>, tk_loc = l\<rparr>,
        permparser_skipwhitespace p1))"
    by (subst nexttoken_unfold) (auto simp: pp_at_def)
  with skip_at [OF p1(2)] TId p1(3) show ?thesis by simp
next
  case (TStr s)
  from readstring_at [of b u s r None p al] TStr assms obtain l p1 where
    p1: "permparser_readstring al p =
       Some (GHR_OK, (Some \<lparr>tk_type = GH_PERMTOKEN_STRING,
                        tk_value = \<lparr>tv_buffer = Buf (b, length u), tv_size = of_nat (length s)\<rparr>, tk_loc = l\<rparr>, p1))"
    "pp_at b (u @ s @ [NUL]) r None p1" "pp_error p1 = pp_error p" by auto
  have "permparser_curchar p = CHR 0x22" using pp_at_curchar [OF assms(1)] TStr by simp
  with assms(1) p1(1) have
    "gh_permparser_nexttoken al p = Some (GHR_OK, (Some \<lparr>tk_type = GH_PERMTOKEN_STRING,
        tk_value = \<lparr>tv_buffer = Buf (b, length u), tv_size = of_nat (length s)\<rparr>, tk_loc = l\<rparr>,
        permparser_skipwhitespace p1))"
    by (subst nexttoken_unfold) (auto simp: pp_at_def)
  with skip_at [OF p1(2)] TStr p1(3) show ?thesis by simp
next
  case TL
  from nextchar_at [of b u "CHR ''{''" r None p] TL assms(1) obtain p1 where
    p1: "permparser_nextchar p = (chd r, p1)" "pp_at b u r None p1" "pp_error p1 = pp_error p" by auto
  have "permparser_curchar p = CHR ''{''" using pp_at_curchar [OF assms(1)] TL by simp
  with assms(1) p1(1) have "gh_permparser_nexttoken al p = Some (GHR_OK, (Some \<lparr>tk_type = GH_PERMTOKEN_LBRACE,
        tk_value = \<lparr>tv_buffer = Lit ''{'', tv_size = 1\<rparr>, tk_loc = pp_loc p\<rparr>, permparser_skipwhitespace p1))"
    by (subst nexttoken_unfold) (auto simp: pp_at_def)
  with skip_at [OF p1(2)] TL p1(3) show ?thesis by simp
next
  case TR
  from nextchar_at [of b u "CHR ''}''" r None p] TR assms(1) obtain p1 where
    p1: "permparser_nextchar p = (chd r, p1)" "pp_at b u r None p1" "pp_error p1 = pp_error p" by auto
  have "permparser_curchar p = CHR ''}''" using pp_at_curchar [OF assms(1)] TR by simp
  with assms(1) p1(1) have "gh_permparser_nexttoken al p = Some (GHR_OK, (Some \<lparr>tk_type = GH_PERMTOKEN_RBRACE,
        tk_value = \<lparr>tv_buffer = Lit ''}'', tv_size = 1\<rparr>, tk_loc = pp_loc p\<rparr>, permparser_skipwhitespace p1))"
    by (subst nexttoken_unfold) (auto simp: pp_at_def)
  with skip_at [OF p1(2)] TR p1(3) show ?thesis by simp
qed

lemma nexttoken_end:
  assumes "pp_at b u [] None p"
  shows "\<exists>tok p'. gh_permparser_nexttoken al p = Some (GHR_OK, (Some tok, p')) \<and>
     tk_type tok = GH_PERMTOKEN_EOF \<and> pp_at b u [] None p' \<and> pp_error p' = pp_error p"
  using skip_at [OF assms] assms pp_at_curchar [OF assms]
  by (simp add: gh_permparser_nexttoken_def pp_at_def pp_space_def Let_def)

lemma nexttoken_peeked:
  assumes "pp_at b u r (Some tok) p"
  shows "\<exists>p'. gh_permparser_nexttoken al p = Some (GHR_OK, (Some tok, p')) \<and> pp_at b u r None p' \<and>
     pp_error p' = pp_error p"
  using assms
  by (auto simp: gh_permparser_nexttoken_def pp_at_def pp_rest_def tok_none_def)

lemma peektoken_at:
  assumes "pp_at b u (tok_text t @ r) None p" "tok_ok t" "tok_ends t r"
    "length u + length (tok_bytes t) \<le> 1024"
  shows "\<exists>tok p'. gh_permparser_peektoken al p = Some (GHR_OK, (Some tok, p')) \<and> tok_is b (length u) t tok \<and>
     pp_at b (u @ tok_bytes t) (pp_space r) (Some tok) p' \<and> pp_error p' = pp_error p"
proof -
  from nexttoken_at [OF assms] obtain tok p' where
    p': "gh_permparser_nexttoken al p = Some (GHR_OK, (Some tok, p'))" "tok_is b (length u) t tok"
    "pp_at b (u @ tok_bytes t) (pp_space r) None p'" "pp_error p' = pp_error p" by blast
  with assms(1) tok_is_not_eof [OF p'(2)] show ?thesis
    by (auto simp: gh_permparser_peektoken_def pp_at_def pp_rest_def ghr_defs)
qed

lemma peektoken_peeked:
  assumes "pp_at b u r (Some tok) p"
  shows "gh_permparser_peektoken al p = Some (GHR_OK, (Some tok, p))"
  using assms by (auto simp: gh_permparser_peektoken_def pp_at_def)

lemma seterror_at: "pp_at b u r pk p \<Longrightarrow> pp_at b u r pk (permparser_seterror l p)"
  by (simp add: pp_at_def permparser_seterror_def pp_rest_def)

section \<open>Token values\<close>

lemma resolve_at:
  assumes "pp_at b (u @ s @ NUL # w) r pk p"
    and "v = \<lparr>tv_buffer = Buf (b, length u), tv_size = of_nat (length s)\<rparr>"
  shows "\<exists>rest. pp_resolve p v = Some \<lparr>cs_buffer = s @ NUL # rest, cs_size = of_nat (length s)\<rparr>"
proof -
  from assms(1) obtain buf where buf: "da_buffer (pp_buffer p) = Some buf"
    "unat (da_size (pp_buffer p)) \<le> length buf" by (auto simp: pp_at_def da_reserved_def)
  then have items: "take (unat (da_size (pp_buffer p))) buf = u @ s @ NUL # w"
    using assms(1) by (simp add: pp_at_def da_items_def)
  have len: "unat (da_size (pp_buffer p)) = length (u @ s @ NUL # w)"
    using assms(1) da_items_length [of bb_daopts "pp_buffer p"] by (simp add: pp_at_def)
  have cap: "unat (da_size (pp_buffer p)) \<le> 1024"
    using assms(1) da_wf_size [of bb_daopts "pp_buffer p"] by (simp add: pp_at_def)
  then have n: "unat (of_nat (length s) :: size_t) = length s"
    using len by (intro unat_of_nat_nowrap) simp
  have "buf = (u @ s @ NUL # w) @ drop (unat (da_size (pp_buffer p))) buf"
    using items by (metis append_take_drop_id)
  then have "drop (length u) buf = s @ NUL # w @ drop (unat (da_size (pp_buffer p))) buf"
    by (metis append.assoc append_Cons append_eq_conv_conj)
  moreover have "bb_pad (length u + length s) buf = buf"
    using buf(2) len by (intro bb_pad_id) simp
  moreover have "length u + length s \<le> 1024" using len cap by simp
  ultimately show ?thesis
    using assms buf(1) n by (auto simp: pp_resolve_def pp_at_def)
qed

lemma plain_nul_free: "\<forall>c \<in> set s. plain_char c \<Longrightarrow> nul_free s"
  by (auto simp: nul_free_def plain_char_def)

lemma alnum_nul_free: "\<forall>c \<in> set s. permparser_charisalphanumeric c \<Longrightarrow> nul_free s"
  using alnum_char(1) by (auto simp: nul_free_def)

lemma copyid_at:
  assumes "pp_at b (u @ s @ NUL # w) r pk p"
    and "v = \<lparr>tv_buffer = Buf (b, length u), tv_size = of_nat (length s)\<rparr>"
    and "nul_free s" "length s < GH_PERMREQUEST_IDMAX"
  shows "pp_copyid p v = Some (Some s)"
proof -
  from resolve_at [OF assms(1,2)] obtain rest where
    res: "pp_resolve p v = Some \<lparr>cs_buffer = s @ NUL # rest, cs_size = of_nat (length s)\<rparr>" by blast
  let ?cs = "\<lparr>cs_buffer = s @ NUL # rest, cs_size = of_nat (length s)\<rparr>"
  have n: "unat (of_nat (length s) :: size_t) = length s" using assms(4) by (intro unat_of_nat_nowrap) simp
  have lt: "(of_nat (length s) :: size_t) < 64" using n assms(4) by (simp add: size_less_unat)
  have view: "cs_view ?cs = s" using n by (simp add: cs_view_def)
  have "gh_conststr_copyz ?cs (replicate 64 NUL) 64 =
      Some (True, s @ NUL # drop (Suc (length s)) (replicate 64 NUL))"
    using cs_copyz_result [of ?cs 64 "replicate 64 NUL"] view n assms(3,4) by (simp add: cs_wf_def)
  with res lt assms show ?thesis by (simp add: pp_copyid_def)
qed

end
