(* ===== verification/TokenText.thy ===== *)
theory TokenText
  imports LexerFacts
begin

text \<open>
  Text as a sequence of tokens: which texts the tokenizer splits into a given list of tokens, and
  the operations of the parser on a state described by the tokens that are left.
\<close>

section \<open>Texts and their tokens\<close>

definition is_space :: "string \<Rightarrow> bool" where
  "is_space w \<longleftrightarrow> list_all permparser_chariswhitespace w"

text \<open>\<open>toks s ts\<close>: \<open>s\<close> is the tokens \<open>ts\<close> with white space around them; no identifier ends \<open>s\<close>.\<close>

inductive toks :: "string \<Rightarrow> ptok list \<Rightarrow> bool" where
  toks_end: "is_space w \<Longrightarrow> toks w []"
| toks_tok: "is_space w \<Longrightarrow> tok_ok t \<Longrightarrow> (\<And>s. t = TId s \<Longrightarrow> r \<noteq> [] \<and> \<not> permparser_charisalphanumeric (chd r)) \<Longrightarrow>
    toks r ts \<Longrightarrow> toks (w @ tok_text t @ r) (t # ts)"

inductive_cases toks_NilE: "toks s []"
inductive_cases toks_ConsE: "toks s (t # ts)"

lemma is_space_append [simp]: "is_space (v @ w) \<longleftrightarrow> is_space v \<and> is_space w"
  by (simp add: is_space_def)

lemma is_space_simps [simp]:
  "is_space []" "is_space (c # w) \<longleftrightarrow> permparser_chariswhitespace c \<and> is_space w"
  by (simp_all add: is_space_def)

lemma whitespace_chars [simp]:
  "permparser_chariswhitespace (CHR '' '')" "permparser_chariswhitespace (CHR 0x0A)"
  by (simp_all add: permparser_chariswhitespace_def)

lemma toks_space: "toks s ts \<Longrightarrow> is_space v \<Longrightarrow> toks (v @ s) ts"
proof (induction s ts rule: toks.induct)
  case (toks_end w)
  then show ?case by (simp add: toks.toks_end)
next
  case (toks_tok w t r ts)
  then show ?case using toks.toks_tok [of "v @ w" t r ts] by simp
qed

lemma toks_append: "toks s ts \<Longrightarrow> toks s' ts' \<Longrightarrow> toks (s @ s') (ts @ ts')"
proof (induction s ts rule: toks.induct)
  case (toks_end w)
  then show ?case by (simp add: toks_space)
next
  case (toks_tok w t r ts)
  have "r @ s' \<noteq> [] \<and> \<not> permparser_charisalphanumeric (chd (r @ s'))" if "t = TId s" for s
    using toks_tok.hyps(3) [OF that] by (cases r) simp_all
  with toks_tok show ?case using toks.toks_tok [of w t "r @ s'" "ts @ ts'"] by simp
qed

lemma toks_id:
  assumes "s \<noteq> []" "list_all permparser_charisalphanumeric s" "toks (c # r) ts"
    "\<not> permparser_charisalphanumeric c"
  shows "toks (s @ c # r) (TId s # ts)"
  using toks.toks_tok [of "[]" "TId s" "c # r" ts] assms by (simp add: list_all_iff)

lemma toks_str:
  assumes "list_all plain_char s" "toks r ts"
  shows "toks (CHR 0x22 # s @ CHR 0x22 # r) (TStr s # ts)"
  using toks.toks_tok [of "[]" "TStr s" r ts] assms by (simp add: list_all_iff)

lemma toks_brace:
  "toks r ts \<Longrightarrow> toks (CHR ''{'' # r) (TL # ts)"
  "toks r ts \<Longrightarrow> toks (CHR ''}'' # r) (TR # ts)"
  using toks.toks_tok [of "[]" TL r ts] toks.toks_tok [of "[]" TR r ts] by simp_all

lemma toks_char: "permparser_chariswhitespace c \<Longrightarrow> toks r ts \<Longrightarrow> toks (c # r) ts"
  using toks_space [of r ts "[c]"] by simp

lemma toks_nil: "toks [] []"
  by (simp add: toks_end)

lemma toks_concat:
  "(\<And>x. x \<in> set xs \<Longrightarrow> toks (f x) (g x)) \<Longrightarrow> toks (concat (map f xs)) (concat (map g xs))"
  by (induction xs) (auto intro: toks_nil toks_append)

section \<open>The parser on tokens\<close>

definition at_toks ::
  "nat \<Rightarrow> string \<Rightarrow> ptok list \<Rightarrow> gh_permtoken option \<Rightarrow> gh_permparser \<Rightarrow> bool" where
  "at_toks b u ts pk p \<longleftrightarrow> (\<exists>s. toks s ts \<and> pp_at b u (pp_space s) pk p)"

definition toks_bytes :: "ptok list \<Rightarrow> string" where
  "toks_bytes ts = concat (map tok_bytes ts)"

lemma toks_bytes_simps [simp]:
  "toks_bytes [] = []" "toks_bytes (t # ts) = tok_bytes t @ toks_bytes ts"
  "toks_bytes (ts @ ts') = toks_bytes ts @ toks_bytes ts'"
  by (simp_all add: toks_bytes_def)

lemma pp_space_is_space: "is_space w \<Longrightarrow> pp_space (w @ s) = pp_space s"
  by (induction w) (auto simp: pp_space_def)

lemma tok_text_not_space:
  assumes "tok_ok t"
  shows "pp_space (tok_text t @ r) = tok_text t @ r"
proof (cases t)
  case (TId s)
  with assms obtain c s' where "s = c # s'" "permparser_charisalphanumeric c" by (cases s) auto
  with TId show ?thesis by (simp add: pp_space_def alnum_char)
qed (simp_all add: pp_space_def permparser_chariswhitespace_def)

lemma at_toks_seterror: "at_toks b u ts pk p \<Longrightarrow> at_toks b u ts pk (permparser_seterror l p)"
  by (auto simp: at_toks_def intro: seterror_at)

lemma at_toks_pp: "at_toks b u ts pk p \<Longrightarrow> \<exists>r. pp_at b u r pk p"
  by (auto simp: at_toks_def)

lemma at_toks_ConsE:
  assumes "at_toks b u (t # ts) pk p"
  obtains r where "pp_at b u (tok_text t @ r) pk p" "tok_ok t" "tok_ends t r" "toks r ts"
proof -
  from assms obtain s where s: "toks s (t # ts)" "pp_at b u (pp_space s) pk p"
    by (auto simp: at_toks_def)
  from s(1) obtain w r where w: "s = w @ tok_text t @ r" "is_space w" "tok_ok t"
    "\<And>x. t = TId x \<Longrightarrow> r \<noteq> [] \<and> \<not> permparser_charisalphanumeric (chd r)" "toks r ts"
    by (rule toks_ConsE) auto
  have "tok_ends t r" using w(4) by (cases t) auto
  with that s(2) w show thesis by (simp add: pp_space_is_space tok_text_not_space)
qed

lemma nexttoken_toks:
  assumes "at_toks b u (t # ts) None p" "length u + length (tok_bytes t) \<le> 1024"
  shows "\<exists>tok p'. gh_permparser_nexttoken al p = Some (GHR_OK, (Some tok, p')) \<and> tok_is b (length u) t tok \<and>
     at_toks b (u @ tok_bytes t) ts None p'"
proof -
  from assms(1) obtain r where r: "pp_at b u (tok_text t @ r) None p" "tok_ok t" "tok_ends t r" "toks r ts"
    by (rule at_toks_ConsE)
  with nexttoken_at [OF r(1-3) assms(2), of al] show ?thesis by (auto simp: at_toks_def)
qed

lemma nexttoken_toks_end:
  assumes "at_toks b u [] None p"
  shows "\<exists>tok p'. gh_permparser_nexttoken al p = Some (GHR_OK, (Some tok, p')) \<and>
     tk_type tok = GH_PERMTOKEN_EOF \<and> at_toks b u [] None p'"
proof -
  from assms obtain s where s: "toks s []" "pp_at b u (pp_space s) None p" by (auto simp: at_toks_def)
  then have "is_space s" by (auto elim: toks_NilE)
  then have "pp_space s = []" using pp_space_is_space [of s "[]"] by (simp add: pp_space_def)
  with s(2) have "pp_at b u [] None p" by simp
  from nexttoken_end [OF this, of al] obtain tok p' where
    p': "gh_permparser_nexttoken al p = Some (GHR_OK, (Some tok, p'))" "tk_type tok = GH_PERMTOKEN_EOF"
    "pp_at b u [] None p'" by blast
  have "pp_space [] = []" by (simp add: pp_space_def)
  with p'(3) toks_nil have "at_toks b u [] None p'" unfolding at_toks_def by metis
  with p' show ?thesis by blast
qed

lemma nexttoken_toks_peeked:
  assumes "at_toks b u ts (Some tok) p"
  shows "\<exists>p'. gh_permparser_nexttoken al p = Some (GHR_OK, (Some tok, p')) \<and> at_toks b u ts None p'"
  using assms nexttoken_peeked unfolding at_toks_def by blast

lemma peektoken_toks:
  assumes "at_toks b u (t # ts) None p" "length u + length (tok_bytes t) \<le> 1024"
  shows "\<exists>tok p'. gh_permparser_peektoken al p = Some (GHR_OK, (Some tok, p')) \<and> tok_is b (length u) t tok \<and>
     at_toks b (u @ tok_bytes t) ts (Some tok) p'"
proof -
  from assms(1) obtain r where r: "pp_at b u (tok_text t @ r) None p" "tok_ok t" "tok_ends t r" "toks r ts"
    by (rule at_toks_ConsE)
  with peektoken_at [OF r(1-3) assms(2), of al] show ?thesis by (auto simp: at_toks_def)
qed

text \<open>The expected type of a token for the two functions that take an argument of a field\<close>

fun tok_string :: "ptok \<Rightarrow> string" where
  "tok_string (TId s) = s"
| "tok_string (TStr s) = s"
| "tok_string TL = ''{''"
| "tok_string TR = ''}''"

fun tok_type :: "ptok \<Rightarrow> gh_permtoken_type" where
  "tok_type (TId s) = GH_PERMTOKEN_IDENTIFIER"
| "tok_type (TStr s) = GH_PERMTOKEN_STRING"
| "tok_type TL = GH_PERMTOKEN_LBRACE"
| "tok_type TR = GH_PERMTOKEN_RBRACE"

lemma tok_is_type: "tok_is b off t tok \<Longrightarrow> tk_type tok = tok_type t"
  by (cases t) auto

lemma tok_is_value:
  "tok_is b off t tok \<Longrightarrow> tok_type t \<in> {GH_PERMTOKEN_IDENTIFIER, GH_PERMTOKEN_STRING} \<Longrightarrow>
   tk_value tok = \<lparr>tv_buffer = Buf (b, off), tv_size = of_nat (length (tok_string t))\<rparr> \<and>
   tok_bytes t = tok_string t @ [NUL]"
  by (cases t) auto

lemma expect_hit:
  assumes "at_toks b u (t # ts) None p" "length u + length (tok_bytes t) \<le> 1024" "tok_type t = ty"
  shows "\<exists>tok p'. pp_expect ty err al p = Some (GHR_OK, (Some (tk_value tok), p')) \<and>
     tok_is b (length u) t tok \<and> at_toks b (u @ tok_bytes t) ts None p'"
proof -
  from peektoken_toks [OF at_toks_seterror [OF assms(1)] assms(2), of al "pp_loc p"] obtain tok p1 where
    p1: "gh_permparser_peektoken al (permparser_seterror (pp_loc p) p) = Some (GHR_OK, (Some tok, p1))"
    "tok_is b (length u) t tok" "at_toks b (u @ tok_bytes t) ts (Some tok) p1" by blast
  from nexttoken_toks_peeked [OF p1(3), of al] obtain p2 where
    "gh_permparser_nexttoken al p1 = Some (GHR_OK, (Some tok, p2))" "at_toks b (u @ tok_bytes t) ts None p2"
    by blast
  with p1 assms(3) tok_is_type [OF p1(2)] show ?thesis by (auto simp: pp_expect_def ghr_defs)
qed

lemma expect_miss:
  assumes "at_toks b u (t # ts) None p" "length u + length (tok_bytes t) \<le> 1024" "tok_type t \<noteq> ty"
  shows "\<exists>tok p'. pp_expect ty err al p = Some (err, (None, p')) \<and> tok_is b (length u) t tok \<and>
     at_toks b (u @ tok_bytes t) ts (Some tok) p'"
proof -
  from peektoken_toks [OF at_toks_seterror [OF assms(1)] assms(2), of al "pp_loc p"] obtain tok p1 where
    p1: "gh_permparser_peektoken al (permparser_seterror (pp_loc p) p) = Some (GHR_OK, (Some tok, p1))"
    "tok_is b (length u) t tok" "at_toks b (u @ tok_bytes t) ts (Some tok) p1" by blast
  with assms(3) tok_is_type [OF p1(2)] at_toks_seterror [OF p1(3)] show ?thesis
    by (auto simp: pp_expect_def ghr_defs)
qed

text \<open>A stored token: its bytes lie in the part of the byte buffer that is in use.\<close>

definition holds :: "nat \<Rightarrow> string \<Rightarrow> ptok \<Rightarrow> gh_permtoken \<Rightarrow> bool" where
  "holds b u t tok \<longleftrightarrow> (\<exists>u0 w. u = u0 @ tok_bytes t @ w \<and> tok_is b (length u0) t tok)"

lemma holds_last: "tok_is b (length u) t tok \<Longrightarrow> holds b (u @ tok_bytes t) t tok"
  unfolding holds_def by (metis append_Nil2)

lemma holds_more: "holds b u t tok \<Longrightarrow> holds b (u @ w) t tok"
  unfolding holds_def by (metis append.assoc)

lemma holds_type: "holds b u t tok \<Longrightarrow> tk_type tok = tok_type t"
  by (auto simp: holds_def dest: tok_is_type)

lemma holds_resolve:
  assumes "holds b u t tok" "at_toks b u ts pk p" "tok_type t \<in> {GH_PERMTOKEN_IDENTIFIER, GH_PERMTOKEN_STRING}"
  shows "\<exists>rest. pp_resolve p (tk_value tok) =
     Some \<lparr>cs_buffer = tok_string t @ NUL # rest, cs_size = of_nat (length (tok_string t))\<rparr>"
proof -
  from assms(1) obtain u0 w where u: "u = u0 @ tok_bytes t @ w" "tok_is b (length u0) t tok"
    by (auto simp: holds_def)
  from at_toks_pp [OF assms(2)] obtain r where "pp_at b u r pk p" ..
  with u tok_is_value [OF u(2) assms(3)] show ?thesis
    using resolve_at [of b u0 "tok_string t" w r pk p] by simp
qed

lemma holds_copyid:
  assumes "holds b u (TId s) tok" "at_toks b u ts pk p" "list_all permparser_charisalphanumeric s"
    "length s < GH_PERMREQUEST_IDMAX"
  shows "pp_copyid p (tk_value tok) = Some (Some s)"
proof -
  from assms(1) obtain u0 w where u: "u = u0 @ (s @ [NUL]) @ w" "tok_is b (length u0) (TId s) tok"
    by (auto simp: holds_def)
  from at_toks_pp [OF assms(2)] obtain r where "pp_at b u r pk p" ..
  with u assms(3,4) show ?thesis
    using copyid_at [of b u0 s w r pk p] alnum_nul_free [of s] by (simp add: list_all_iff)
qed

lemma at_toks_clear:
  assumes "at_toks b u ts pk p"
  shows "at_toks b [] ts pk (p\<lparr>pp_buffer := snd (gh_bytebuffer_clear (pp_buffer p))\<rparr>) \<and>
     fst (gh_bytebuffer_clear (pp_buffer p)) = GHR_OK"
proof -
  from assms obtain s where s: "toks s ts" "pp_at b u (pp_space s) pk p" by (auto simp: at_toks_def)
  then have "pp_at b [] (pp_space s) pk (p\<lparr>pp_buffer := snd (gh_bytebuffer_clear (pp_buffer p))\<rparr>)"
    using bb_clear_result [of "pp_buffer p"] by (simp add: pp_at_def pp_rest_def)
  with s(1) show ?thesis by (auto simp: at_toks_def gh_bytebuffer_clear_def split: prod.splits)
qed

end
