(* ===== verification/PermfsText.thy ===== *)
theory PermfsText
  imports PermfsFile TokenText
begin

text \<open>
  The text of the filesystem policy: the tokens of the entries, and that the writer of
  \<^verbatim>\<open>perms/permfs.c\<close> writes a text that splits into exactly these tokens.
\<close>

section \<open>The tokens of a policy\<close>

primrec action_name :: "mode_action \<Rightarrow> string" where
  "action_name Accept = ''accept''"
| "action_name Reject = ''reject''"
| "action_name PromptFor = ''prompt''"

definition field_name :: "bool \<Rightarrow> string" where
  "field_name is_self = (if is_self then ''self'' else ''children'')"

definition flag_idents :: "gh_permfs_mode \<Rightarrow> string list" where
  "flag_idents m = map (\<lambda>f. the (gh_permfs_mode_ident f)) (permfs_flags m)"

type_synonym policy_field = "bool \<times> mode_action \<times> gh_permfs_mode"

fun field_toks :: "policy_field \<Rightarrow> ptok list" where
  "field_toks (is_self, act, m) =
     TId (field_name is_self) # TId (action_name act) # map TStr (flag_idents m)"

definition modeset_fields :: "bool \<Rightarrow> gh_permfs_modeset \<Rightarrow> policy_field list" where
  "modeset_fields is_self m =
     filter (\<lambda>(_, _, f). f \<noteq> 0)
       [(is_self, Accept, mode_accept m), (is_self, Reject, mode_reject m), (is_self, PromptFor, mode_prompt m)]"

definition entry_fields :: "gh_permfs_entry \<Rightarrow> policy_field list" where
  "entry_fields e = modeset_fields True (fe_self e) @ modeset_fields False (fe_children e)"

definition entry_toks :: "gh_permfs_entry \<Rightarrow> ptok list" where
  "entry_toks e = TStr (ac_view (fe_path e)) # TL # concat (map field_toks (entry_fields e)) @ [TR]"

definition policy_toks :: "gh_permfs_entry list \<Rightarrow> ptok list" where
  "policy_toks es = TId ''filesystem'' # TId ''node'' # TL # concat (map entry_toks es) @ [TR]"

section \<open>Entries that can be written and read\<close>

definition modeset_valid :: "gh_permfs_modeset \<Rightarrow> bool" where
  "modeset_valid m \<longleftrightarrow> gh_permfs_ismodevalid (mode_accept m) \<and> gh_permfs_ismodevalid (mode_reject m) \<and>
     gh_permfs_ismodevalid (mode_prompt m)"

text \<open>A path may hold anything but quotes, backslashes, the comment character and NUL.\<close>

definition path_plain :: "string \<Rightarrow> bool" where
  "path_plain s \<longleftrightarrow> list_all plain_char s \<and> CHR ''#'' \<notin> set s"

definition entry_valid :: "gh_permfs_entry \<Rightarrow> bool" where
  "entry_valid e \<longleftrightarrow> path_plain (ac_view (fe_path e)) \<and> modeset_valid (fe_self e) \<and> modeset_valid (fe_children e)"

lemma flag_idents_ok:
  assumes "gh_permfs_ismodevalid m" "f \<in> set (permfs_flags m)"
  shows "gh_permfs_mode_ident f = Some (the (gh_permfs_mode_ident f)) \<and>
     gh_permfs_mode_fromident (the (gh_permfs_mode_ident f)) = f \<and> f \<noteq> 0 \<and>
     the (gh_permfs_mode_ident f) \<in> set (map ee_ident permfs_mode_table)"
  using permfs_flag_ident [OF assms] by auto

lemma table_idents_plain:
  "s \<in> set (map ee_ident permfs_mode_table) \<Longrightarrow> path_plain s \<and> nul_free s \<and> length s \<le> 11"
proof -
  have "list_all (\<lambda>s. path_plain s \<and> nul_free s \<and> length s \<le> 11) (map ee_ident permfs_mode_table)"
    unfolding permfs_mode_table_eq by (simp add: path_plain_def plain_char_def)
  then show "s \<in> set (map ee_ident permfs_mode_table) \<Longrightarrow> path_plain s \<and> nul_free s \<and> length s \<le> 11"
    unfolding list_all_iff by blast
qed

lemma flag_idents_plain: "gh_permfs_ismodevalid m \<Longrightarrow> s \<in> set (flag_idents m) \<Longrightarrow> path_plain s \<and> length s \<le> 11"
  using flag_idents_ok table_idents_plain by (fastforce simp: flag_idents_def)

lemma flags_Nil_iff: "permfs_flags m = [] \<longleftrightarrow> m = 0"
proof
  assume "permfs_flags m = []"
  then show "m = 0" using permfs_flags_join [of m 0] by simp
next
  assume "m = 0"
  then show "permfs_flags m = []" by (simp add: permfs_flags_bits)
qed

section \<open>The writer writes the tokens\<close>

definition pw_in :: "int \<Rightarrow> int \<Rightarrow> string \<Rightarrow> pw_state \<Rightarrow> bool" where
  "pw_in fd n out st \<longleftrightarrow> (\<exists>l. pw_at fd n l out st)"

text \<open>
  \<open>pw_toks P m fd n out ts\<close>: the operation succeeds and has added to the output a text of the
  tokens \<open>ts\<close>, with no character that \<open>P\<close> excludes.
\<close>

definition no_comment :: "string \<Rightarrow> bool" where
  "no_comment s \<longleftrightarrow> CHR ''#'' \<notin> set s"

lemma no_comment_simps [simp]:
  "no_comment []" "no_comment (c # s) \<longleftrightarrow> c \<noteq> CHR ''#'' \<and> no_comment s"
  "no_comment (s @ t) \<longleftrightarrow> no_comment s \<and> no_comment t"
  by (auto simp: no_comment_def)

definition pw_toks :: "gh_result \<times> pw_state \<Rightarrow> int \<Rightarrow> int \<Rightarrow> string \<Rightarrow> ptok list \<Rightarrow> bool" where
  "pw_toks m fd n out ts \<longleftrightarrow> (\<exists>l tx. pw_ok m fd n l (out @ tx) \<and> toks tx ts \<and> no_comment tx)"

lemma pw_toks_seq:
  assumes "pw_toks m fd n out ts"
    and "\<And>st out'. pw_in fd n out' st \<Longrightarrow> pw_toks (k st) fd n' out' ts'"
  shows "pw_toks (ghr_seq m k) fd n' out (ts @ ts')"
proof -
  from assms(1) obtain l tx where tx: "pw_ok m fd n l (out @ tx)" "toks tx ts" "no_comment tx"
    by (auto simp: pw_toks_def)
  then have "pw_in fd n (out @ tx) (snd m)" by (auto simp: pw_in_def pw_ok_def)
  from assms(2) [OF this] obtain l' tx' where
    "pw_ok (k (snd m)) fd n' l' ((out @ tx) @ tx')" "toks tx' ts'" "no_comment tx'"
    by (auto simp: pw_toks_def)
  moreover have "ghr_seq m k = k (snd m)" using tx(1) by (cases m) (simp add: pw_ok_def)
  ultimately show ?thesis
    using tx toks_append unfolding pw_toks_def by (metis append.assoc no_comment_simps(3))
qed

lemma pw_toks_done: "pw_in fd n out st \<Longrightarrow> pw_toks (0, st) fd n out []"
  unfolding pw_toks_def pw_in_def using pw_ok_done toks_nil by (metis append_Nil2 no_comment_simps(1))

lemma pw_toksI: "pw_ok m fd n l (out @ tx) \<Longrightarrow> toks tx ts \<Longrightarrow> no_comment tx \<Longrightarrow> pw_toks m fd n out ts"
  unfolding pw_toks_def by blast

lemma indent_space [simp]: "is_space (indent n)" "no_comment (indent n)"
proof -
  have "is_space (concat (replicate k ''    '')) \<and> no_comment (concat (replicate k ''    ''))" for k
    by (induction k) auto
  then show "is_space (indent n)" "no_comment (indent n)" by (simp_all add: indent_def)
qed

lemma newline_unless_space [simp]: "is_space (newline_unless_entry l)" "no_comment (newline_unless_entry l)"
  by (simp_all add: newline_unless_entry_def)

definition flags_text :: "string list \<Rightarrow> string" where
  "flags_text ss = concat (map (\<lambda>s. '' \"'' @ s @ ''\"'') ss)"

lemma toks_flags: "\<forall>s \<in> set ss. path_plain s \<Longrightarrow> toks (flags_text ss) (map TStr ss) \<and> no_comment (flags_text ss)"
proof (induction ss)
  case Nil
  then show ?case by (simp add: flags_text_def toks_nil)
next
  case (Cons s ss)
  then have "toks (CHR 0x22 # s @ CHR 0x22 # flags_text ss) (TStr s # map TStr ss)"
    by (intro toks_str) (auto simp: path_plain_def)
  from toks_char [OF whitespace_chars(1) this] Cons show ?case
    by (auto simp: flags_text_def path_plain_def no_comment_def)
qed

lemma pw_writeflags:
  assumes "takes_writes env" "pw_at fd n GH_PERMWRITER_FIELDARGS out st"
    and "\<forall>f \<in> set fs. gh_permfs_mode_ident f = Some (the (gh_permfs_mode_ident f))"
  shows "pw_ok (permfs_writeflags env fs st) fd n GH_PERMWRITER_FIELDARGS
           (out @ flags_text (map (\<lambda>f. the (gh_permfs_mode_ident f)) fs))"
  using assms(2,3)
proof (induction fs arbitrary: st out)
  case Nil
  then show ?case by (simp add: flags_text_def pw_ok_done)
next
  case (Cons f fs)
  then obtain s where s: "gh_permfs_mode_ident f = Some s" by (metis list.set_intros(1))
  have "pw_ok (ghr_seq (gh_permwriter_fieldargstring env s st) (permfs_writeflags env fs)) fd n
      GH_PERMWRITER_FIELDARGS
      ((out @ '' \"'' @ s @ ''\"'') @ flags_text (map (\<lambda>f. the (gh_permfs_mode_ident f)) fs))"
  proof (rule pw_ok_seq [OF pw_fieldargstring [OF assms(1) Cons.prems(1)]])
    fix st' assume "pw_at fd n GH_PERMWRITER_FIELDARGS (out @ '' \"'' @ s @ ''\"'') st'"
    with Cons.IH Cons.prems(2)
    show "pw_ok (permfs_writeflags env fs st') fd n GH_PERMWRITER_FIELDARGS
        ((out @ '' \"'' @ s @ ''\"'') @ flags_text (map (\<lambda>f. the (gh_permfs_mode_ident f)) fs))"
      by (meson list.set_intros(2))
  qed
  with s show ?case by (simp add: flags_text_def)
qed

definition mode_toks :: "string \<Rightarrow> string \<Rightarrow> gh_permfs_mode \<Rightarrow> ptok list" where
  "mode_toks k a m = (if m = 0 then [] else TId k # TId a # map TStr (flag_idents m))"

lemma pw_writemode:
  assumes "takes_writes env" "pw_in fd n out st" "gh_permfs_ismodevalid m"
    and "k \<noteq> []" "list_all permparser_charisalphanumeric k" "no_comment k"
    and "a \<noteq> []" "list_all permparser_charisalphanumeric a" "no_comment a"
  shows "pw_toks (permfs_writemode env k a m st) fd n out (mode_toks k a m)"
proof (cases "m = 0")
  case True
  with pw_toks_done [OF assms(2)] show ?thesis by (simp add: permfs_writemode_def mode_toks_def)
next
  case False
  from assms(2) obtain l where l: "pw_at fd n l out st" by (auto simp: pw_in_def)
  have nf: "nul_free k" using assms(5) alnum_nul_free by (simp add: list_all_iff)
  let ?tx = "newline_unless_entry l @ indent n @ k @ '' '' @ a @ flags_text (flag_idents m)"
  have "pw_ok (permfs_writemode env k a m st) fd n GH_PERMWRITER_FIELDARGS (out @ ?tx)"
    unfolding permfs_writemode_def if_not_P [OF False]
  proof (rule pw_ok_seq [OF pw_field [OF assms(1) l nf]], rule pw_ok_seq [OF pw_fieldargident [OF assms(1)]], assumption)
    fix st2
    assume "pw_at fd n GH_PERMWRITER_FIELDARGS ((out @ newline_unless_entry l @ indent n @ k) @ '' '' @ a) st2"
    from pw_writeflags [OF assms(1) this] flag_idents_ok [OF assms(3)]
    show "pw_ok (permfs_writeflags env (permfs_flags m) st2) fd n GH_PERMWRITER_FIELDARGS (out @ ?tx)"
      by (simp add: flag_idents_def)
  qed
  moreover have "toks (flags_text (flag_idents m)) (map TStr (flag_idents m)) \<and> no_comment (flags_text (flag_idents m))"
    using flag_idents_plain [OF assms(3)] by (intro toks_flags) blast
  moreover obtain r where r: "flags_text (flag_idents m) = CHR '' '' # r"
    using False flags_Nil_iff [of m] by (cases "permfs_flags m") (auto simp: flag_idents_def flags_text_def)
  moreover have "\<not> permparser_charisalphanumeric (CHR '' '')"
    using alnum_char(5) whitespace_chars(1) by blast
  ultimately have tk: "toks (CHR '' '' # r) (map TStr (flag_idents m))" "no_comment r"
    and sp: "\<not> permparser_charisalphanumeric (CHR '' '')" and fl: "flags_text (flag_idents m) = CHR '' '' # r"
    and ok: "pw_ok (permfs_writemode env k a m st) fd n GH_PERMWRITER_FIELDARGS (out @ ?tx)"
    by simp_all
  have "toks (k @ CHR '' '' # a @ CHR '' '' # r) (TId k # TId a # map TStr (flag_idents m))"
    by (rule toks_id [OF assms(4,5) toks_char [OF whitespace_chars(1) toks_id [OF assms(7,8) tk(1) sp]] sp])
  then have "toks ?tx (TId k # TId a # map TStr (flag_idents m))"
    by (simp add: fl toks_space)
  with ok tk(2) fl assms(6,9) False show ?thesis
    by (auto simp: mode_toks_def intro: pw_toksI)
qed

lemma pw_writemodeset:
  assumes "takes_writes env" "pw_in fd n out st" "modeset_valid m" "k \<in> {''self'', ''children''}"
  shows "pw_toks (permfs_writemodeset env k m st) fd n out
    (mode_toks k ''accept'' (mode_accept m) @ mode_toks k ''reject'' (mode_reject m) @
     mode_toks k ''prompt'' (mode_prompt m))"
proof -
  have k: "k \<noteq> [] \<and> list_all permparser_charisalphanumeric k \<and> no_comment k"
    using assms(4) by (auto simp: permparser_charisalphanumeric_def c_between_def)
  have a: "list_all permparser_charisalphanumeric s \<and> no_comment s"
    if "s \<in> {''accept'', ''reject'', ''prompt''}" for s
    using that by (auto simp: permparser_charisalphanumeric_def c_between_def)
  note wm = pw_writemode [OF assms(1)]
  show ?thesis
    unfolding permfs_writemodeset_def
  proof (intro pw_toks_seq)
    show "pw_toks (permfs_writemode env k ''accept'' (mode_accept m) st) fd n out
        (mode_toks k ''accept'' (mode_accept m))"
      using assms(3) k a [of "''accept''"] by (intro wm [OF assms(2)]) (auto simp: modeset_valid_def)
  next
    fix st1 out1 assume "pw_in fd n out1 st1"
    then show "pw_toks (permfs_writemode env k ''reject'' (mode_reject m) st1) fd n out1
        (mode_toks k ''reject'' (mode_reject m))"
      using assms(3) k a [of "''reject''"] by (intro wm) (auto simp: modeset_valid_def)
  next
    fix st1 out1 assume "pw_in fd n out1 st1"
    then show "pw_toks (permfs_writemode env k ''prompt'' (mode_prompt m) st1) fd n out1
        (mode_toks k ''prompt'' (mode_prompt m))"
      using assms(3) k a [of "''prompt''"] by (intro wm) (auto simp: modeset_valid_def)
  qed
qed

lemma modeset_toks:
  "concat (map field_toks (modeset_fields s m)) =
   mode_toks (field_name s) ''accept'' (mode_accept m) @ mode_toks (field_name s) ''reject'' (mode_reject m) @
   mode_toks (field_name s) ''prompt'' (mode_prompt m)"
  by (simp add: modeset_fields_def mode_toks_def)

lemma pw_beginentry_toks:
  assumes "takes_writes env" "pw_in fd n out st" "path_plain e"
  shows "pw_toks (gh_permwriter_beginentry env e st) fd (n + 1) out [TStr e, TL]"
proof -
  from assms(2) obtain l where "pw_at fd n l out st" by (auto simp: pw_in_def)
  from pw_beginentry [OF assms(1) this, of e]
  have "pw_ok (gh_permwriter_beginentry env e st) fd (n + 1) GH_PERMWRITER_ENTRY
      (out @ indent n @ CHR 0x22 # e @ CHR 0x22 # CHR '' '' # CHR ''{'' # [CHR 0x0A])" by simp
  moreover have "toks (indent n @ CHR 0x22 # e @ CHR 0x22 # CHR '' '' # CHR ''{'' # [CHR 0x0A]) [TStr e, TL]"
    using assms(3) by (intro toks_space toks_str toks_char toks_brace toks_nil) (simp_all add: path_plain_def)
  ultimately show ?thesis
    using assms(3) by (intro pw_toksI) (auto simp: path_plain_def no_comment_def [symmetric])
qed

lemma pw_end_toks:
  assumes "takes_writes env" "pw_in fd (n + 1) out st" "0 \<le> n"
  shows "pw_toks (gh_permwriter_endentry env st) fd n out [TR]"
    and "pw_toks (gh_permwriter_endresource env st) fd n out [TR]"
proof -
  from assms(2) obtain l where l: "pw_at fd (n + 1) l out st" by (auto simp: pw_in_def)
  have tk: "toks (v @ indent n @ ''}\<newline>'') [TR] \<and> no_comment (v @ indent n @ ''}\<newline>'')"
    if "is_space v" "no_comment v" for v
    using that by (auto intro!: toks_space toks_brace toks_char toks_nil)
  show "pw_toks (gh_permwriter_endentry env st) fd n out [TR]"
    using pw_endentry [OF assms(1) l assms(3)] tk [of "newline_unless_entry l"] by (intro pw_toksI) auto
  show "pw_toks (gh_permwriter_endresource env st) fd n out [TR]"
    using pw_endresource [OF assms(1) l assms(3)] tk [of "[]"] by (intro pw_toksI) auto
qed

lemma pw_writeentries:
  assumes "takes_writes env" "pw_in fd 1 out st" "list_all entry_valid es"
  shows "pw_toks (permfs_writeentries env es st) fd 1 out (concat (map entry_toks es))"
  using assms(2,3)
proof (induction es arbitrary: st out)
  case Nil
  then show ?case by (simp add: pw_toks_done)
next
  case (Cons e es)
  then have e: "path_plain (ac_view (fe_path e))" "modeset_valid (fe_self e)" "modeset_valid (fe_children e)"
    by (simp_all add: entry_valid_def)
  have "pw_toks (permfs_writeentries env (e # es) st) fd 1 out
     ([TStr (ac_view (fe_path e)), TL] @ concat (map field_toks (modeset_fields True (fe_self e))) @
      concat (map field_toks (modeset_fields False (fe_children e))) @ [TR] @ concat (map entry_toks es))"
    unfolding permfs_writeentries.simps modeset_toks field_name_def if_True if_False
  proof (intro pw_toks_seq)
    show "pw_toks (gh_permwriter_beginentry env (ac_view (fe_path e)) st) fd (1 + 1) out
        [TStr (ac_view (fe_path e)), TL]"
      by (rule pw_beginentry_toks [OF assms(1) Cons.prems(1) e(1)])
  next
    fix st1 out1 assume "pw_in fd (1 + 1) out1 st1"
    then show "pw_toks (permfs_writemodeset env ''self'' (fe_self e) st1) fd (1 + 1) out1
      (mode_toks ''self'' ''accept'' (mode_accept (fe_self e)) @
       mode_toks ''self'' ''reject'' (mode_reject (fe_self e)) @
       mode_toks ''self'' ''prompt'' (mode_prompt (fe_self e)))"
      using pw_writemodeset [OF assms(1) _ e(2)] by blast
  next
    fix st1 out1 assume "pw_in fd (1 + 1) out1 st1"
    then show "pw_toks (permfs_writemodeset env ''children'' (fe_children e) st1) fd (1 + 1) out1
      (mode_toks ''children'' ''accept'' (mode_accept (fe_children e)) @
       mode_toks ''children'' ''reject'' (mode_reject (fe_children e)) @
       mode_toks ''children'' ''prompt'' (mode_prompt (fe_children e)))"
      using pw_writemodeset [OF assms(1) _ e(3)] by blast
  next
    fix st1 out1 assume "pw_in fd (1 + 1) out1 st1"
    then show "pw_toks (gh_permwriter_endentry env st1) fd 1 out1 [TR]"
      by (intro pw_end_toks [OF assms(1)]) simp_all
  next
    fix st1 out1 assume "pw_in fd 1 out1 st1"
    then show "pw_toks (permfs_writeentries env es st1) fd 1 out1 (concat (map entry_toks es))"
      using Cons.IH Cons.prems(2) by simp
  qed
  then show ?case by (simp add: entry_toks_def [of e] entry_fields_def [of e])
qed

text \<open>The file \<^verbatim>\<open>gh_permfs_write\<close> writes.\<close>

lemma permfs_write_toks:
  assumes "takes_writes env" "pw_in fd 0 out st" "list_all entry_valid (da_items permfs)"
  shows "pw_toks (gh_permfs_write env permfs st) fd 0 out (policy_toks (da_items permfs))"
proof -
  have "pw_toks (gh_permfs_write env permfs st) fd 0 out
     ([TId ''filesystem'', TId ''node'', TL] @ concat (map entry_toks (da_items permfs)) @ [TR])"
    unfolding gh_permfs_write_def
  proof (intro pw_toks_seq)
    from assms(2) obtain l where l: "pw_at fd 0 l out st" by (auto simp: pw_in_def)
    have sp: "\<not> permparser_charisalphanumeric (CHR '' '')"
      using alnum_char(5) whitespace_chars(1) by blast
    have al: "list_all permparser_charisalphanumeric ''filesystem''" "list_all permparser_charisalphanumeric ''node''"
      by (simp_all add: permparser_charisalphanumeric_def c_between_def)
    have "toks (''filesystem'' @ CHR '' '' # ''node'' @ CHR '' '' # CHR ''{'' # [CHR 0x0A])
        [TId ''filesystem'', TId ''node'', TL]"
      by (intro toks_id toks_char toks_brace toks_nil sp al) simp_all
    moreover have "pw_ok (gh_permwriter_beginresource env ''filesystem'' ''node'' st) fd 1 GH_PERMWRITER_ENTRY
        (out @ ''filesystem'' @ CHR '' '' # ''node'' @ CHR '' '' # CHR ''{'' # [CHR 0x0A])"
      using pw_beginresource [OF assms(1) l, of "''filesystem''" "''node''"] by (simp add: indent_def)
    ultimately show "pw_toks (gh_permwriter_beginresource env ''filesystem'' ''node'' st) fd 1 out
        [TId ''filesystem'', TId ''node'', TL]"
      by (intro pw_toksI) auto
  next
    fix st1 out1 assume "pw_in fd 1 out1 st1"
    then show "pw_toks (permfs_writeentries env (da_items permfs) st1) fd 1 out1
        (concat (map entry_toks (da_items permfs)))"
      using pw_writeentries [OF assms(1) _ assms(3)] by blast
  next
    fix st1 out1 assume "pw_in fd 1 out1 st1"
    then show "pw_toks (gh_permwriter_endresource env st1) fd 0 out1 [TR]"
      by (intro pw_end_toks [OF assms(1)]) simp_all
  qed
  then show ?thesis by (simp add: policy_toks_def)
qed

end
