(* ===== verification/PermfsRoundTrip.thy ===== *)
theory PermfsRoundTrip
  imports PermfsText
begin

text \<open>
  The parser reads back what the writer writes: the resource parser of \<^verbatim>\<open>perms/permfs.c\<close> on the
  tokens of a filesystem policy, from a field up to the whole file.
\<close>

section \<open>The policy while it is built\<close>

definition permfs_at :: "gh_alloc \<Rightarrow> nat \<Rightarrow> gh_permfs_entry list \<Rightarrow> gh_permfs \<Rightarrow> bool" where
  "permfs_at al blk es permfs \<longleftrightarrow>
     da_wf (permfsfilelist_daopts al) permfs \<and> da_items permfs = es \<and> da_block permfs = blk"

lemma permfs_at_size: "permfs_at al blk es permfs \<Longrightarrow> unat (da_size permfs) = length es"
  using da_items_length [of "permfsfilelist_daopts al" permfs] by (simp add: permfs_at_def)

lemma permfs_at_room:
  assumes "permfs_at al blk es permfs" "length es + k \<le> 4294967296"
  shows "da_room (permfsfilelist_daopts al) permfs k"
  using assms(2) permfs_at_size [OF assms(1)] by (simp add: da_room_def permfsfilelist_daopts_def)

lemma permfs_at_deref:
  "permfs_at al blk es permfs \<Longrightarrow> i < length es \<Longrightarrow> da_deref permfs (blk, i) = Some (es ! i)"
  using deref_items by (auto simp: permfs_at_def)

lemma permfs_at_store:
  assumes "permfs_at al blk es permfs" "i < length es"
  shows "\<exists>permfs'. da_store permfs (blk, i) x = Some permfs' \<and> permfs_at al blk (es[i := x]) permfs'"
  using store_items [of "permfsfilelist_daopts al" permfs i x] assms by (auto simp: permfs_at_def)

text \<open>An entry as the parser makes it, with its own copy of the path\<close>

definition entry_of :: "string \<Rightarrow> gh_permfs_modeset \<Rightarrow> gh_permfs_modeset \<Rightarrow> gh_permfs_entry" where
  "entry_of s self_modeset children_modeset =
     \<lparr>fe_path = \<lparr>ac_ptr = Some (s @ [NUL]), ac_len = of_nat (length s)\<rparr>,
      fe_self = self_modeset, fe_children = children_modeset\<rparr>"

definition path_short :: "string \<Rightarrow> bool" where
  "path_short s \<longleftrightarrow> nul_free s \<and> length s < 1024"

lemma short_len [simp]: "path_short s \<Longrightarrow> unat (of_nat (length s) :: size_t) = length s"
  by (simp add: path_short_def unat_of_nat_nowrap)

lemma entry_of_view: "path_short s \<Longrightarrow> ac_view (fe_path (entry_of s m c)) = s"
  by (simp add: ac_view_def entry_of_def)

definition ident_of :: "string \<Rightarrow> string \<Rightarrow> gh_abscanonicalpath" where
  "ident_of s rest = \<lparr>ac_ptr = Some (s @ NUL # rest), ac_len = of_nat (length s)\<rparr>"

lemma identeq_short:
  assumes "path_short s" "path_short s'"
  shows "permfs_identeq (fe_path (entry_of s m c)) (ident_of s' rest) \<longleftrightarrow> s = s'"
proof (cases "length s = length s'")
  case True
  then have "strncmp_eq (s @ [NUL]) (s' @ NUL # rest) (length s) \<longleftrightarrow> s = s'"
    using assms strncmp_eq_takes [of "length s" "s @ [NUL]" "s' @ NUL # rest"]
    by (simp add: path_short_def)
  with True assms show ?thesis
    by (simp add: permfs_identeq_def entry_of_def ident_of_def ac_chars_def)
next
  case False
  then have "(of_nat (length s) :: size_t) \<noteq> of_nat (length s')" using assms short_len by metis
  with False show ?thesis by (auto simp: permfs_identeq_def entry_of_def ident_of_def)
qed

text \<open>The entries as a list of paths and mode sets\<close>

type_synonym policy = "(string \<times> gh_permfs_modeset \<times> gh_permfs_modeset) list"

definition policy_entries :: "policy \<Rightarrow> gh_permfs_entry list" where
  "policy_entries pol = map (\<lambda>(s, m, c). entry_of s m c) pol"

definition policy_of :: "gh_permfs_entry list \<Rightarrow> policy" where
  "policy_of es = map (\<lambda>e. (ac_view (fe_path e), fe_self e, fe_children e)) es"

definition policy_short :: "policy \<Rightarrow> bool" where
  "policy_short pol \<longleftrightarrow> list_all (\<lambda>(s, m, c). path_short s) pol"

lemma find_new_entry:
  assumes "permfs_at al blk (policy_entries pol) permfs" "policy_short pol" "path_short s"
    and "s \<notin> fst ` set pol" "length pol \<le> 4294967296"
  shows "i \<le> length pol \<Longrightarrow> permfs_find permfs (ident_of s rest) i = Some (GHR_OK, None)"
proof (induction "length pol - i" arbitrary: i)
  case 0
  then show ?case
    using permfs_at_size [OF assms(1)] by (subst permfs_find.simps) (simp add: policy_entries_def)
next
  case (Suc n)
  have sz: "unat (da_size permfs) = length pol"
    using permfs_at_size [OF assms(1)] by (simp add: policy_entries_def)
  have i: "i < length pol" using Suc.hyps(2) by simp
  then have ui: "unat (of_nat i :: size_t) = i" using assms(5) by (simp add: unat_of_nat_nowrap)
  obtain s' m c where pol: "pol ! i = (s', m, c)" by (cases "pol ! i")
  then have "(s', m, c) \<in> set pol" using i by (metis nth_mem)
  with assms(2,4) have "path_short s'" "s' \<noteq> s"
    by (auto simp: policy_short_def list_all_iff image_iff)
  moreover have "policy_entries pol ! i = entry_of s' m c" using pol i by (simp add: policy_entries_def)
  moreover have "gh_permfs_entrylist_getat permfs (of_nat i) = (GHR_OK, Some (blk, i))"
    using getat_result [of "permfsfilelist_daopts al" permfs "of_nat i"] assms(1) i ui
    by (simp add: permfs_at_def gh_permfs_entrylist_getat_def policy_entries_def)
  moreover have "da_deref permfs (blk, i) = Some (policy_entries pol ! i)"
    using i by (intro permfs_at_deref [OF assms(1)]) (simp add: policy_entries_def)
  moreover have "permfs_find permfs (ident_of s rest) (Suc i) = Some (GHR_OK, None)"
    using Suc i by simp
  ultimately show ?case
    using i sz identeq_short [of s' s m c rest] assms(3)
    by (subst permfs_find.simps) (simp add: ghr_defs)
qed

lemma append_new_entry:
  assumes "permfs_at al blk es permfs" "path_short s" "al_total al" "length es < 4294967296"
  shows "\<exists>permfs' blk'. permfs_appendentry al permfs (ident_of s rest) m c =
       Some (GHR_OK, (Some (blk', length es), permfs')) \<and> permfs_at al blk' (es @ [entry_of s m c]) permfs'"
proof -
  have n: "unat (of_nat (length s) + 1 :: size_t) = Suc (length s)"
    using assms(2) by (simp add: path_short_def unat_of_nat_nowrap unat_add_nowrap)
  then have nz: "(of_nat (length s) + 1 :: size_t) \<noteq> 0" by auto
  have cpy: "c_strncpy (replicate (Suc (length s)) NUL) 0 (s @ NUL # rest) (Suc (length s)) = Some (s @ [NUL])"
    using assms(2) by (simp add: c_strncpy_def cells_write_def strlen_def path_short_def)
  from append_succeeds [of "permfsfilelist_daopts al" permfs al "entry_of s m c"] assms
    permfs_at_room [OF assms(1), of 1]
  obtain permfs' where p: "gh_permfs_entrylist_append al permfs (entry_of s m c) = Some (GHR_OK, permfs')"
    "da_wf (permfsfilelist_daopts al) permfs'" "da_items permfs' = es @ [entry_of s m c]"
    by (auto simp: permfs_at_def gh_permfs_entrylist_append_def permfsfilelist_daopts_def)
  then have at: "permfs_at al (da_block permfs') (es @ [entry_of s m c]) permfs'"
    by (simp add: permfs_at_def)
  from permfs_at_size [OF this] have sz: "unat (da_size permfs') = Suc (length es)" by simp
  then have "da_size permfs' \<noteq> 0" by auto
  then have "unat (da_size permfs' - 1) = length es" using sz by (simp add: unat_minus_one)
  with p(1) at cpy n nz assms(3) show ?thesis
    by (auto simp: permfs_appendentry_def ident_of_def entry_of_def gh_alloc_new_result al_total_def ghr_defs)
qed

lemma add_new_entry:
  assumes "permfs_at al blk (policy_entries pol) permfs" "policy_short pol" "path_short s"
    and "s \<notin> fst ` set pol" "length pol < 4294967296" "al_total al"
  shows "\<exists>permfs' blk'. gh_permfs_add al permfs (ident_of s rest) m c =
       Some (GHR_OK, (Some (blk', length pol), permfs')) \<and>
     permfs_at al blk' (policy_entries (pol @ [(s, m, c)])) permfs'"
proof -
  have "permfs_find permfs (ident_of s rest) 0 = Some (GHR_OK, None)"
    using find_new_entry [OF assms(1-4), of 0 rest] assms(5) by simp
  moreover have "length (policy_entries pol) = length pol" by (simp add: policy_entries_def)
  ultimately show ?thesis
    using append_new_entry [OF assms(1,3,6), of rest m c] assms(5)
    by (auto simp: gh_permfs_add_def ghr_defs policy_entries_def)
qed

section \<open>A field\<close>

definition entry_apply :: "policy_field \<Rightarrow> gh_permfs_entry \<Rightarrow> gh_permfs_entry" where
  "entry_apply fld = (case fld of (is_self, act, m) \<Rightarrow> entry_or is_self act m)"

lemma entry_or_or: "entry_or s a f (entry_or s a g e) = entry_or s a (g OR f) e"
  by (cases a; simp add: entry_or_def modeset_or_def or.assoc)

lemma entry_or_zero [simp]: "entry_or s a 0 e = e"
  by (cases a; simp add: entry_or_def modeset_or_def)

lemma fold_entry_or: "fold (entry_or s a) fs (entry_or s a x e) = entry_or s a (fold (OR) fs x) e"
  by (induction fs arbitrary: x) (simp_all add: entry_or_or or.commute)

lemma fold_flags: "fold (entry_or s a) (permfs_flags m) e = entry_or s a m e"
  using fold_entry_or [of s a "permfs_flags m" 0 e] by (simp add: permfs_flags_join)

definition flag_reads :: "string \<Rightarrow> gh_permfs_mode \<Rightarrow> bool" where
  "flag_reads s f \<longleftrightarrow> gh_permfs_mode_fromident s = f \<and> f \<noteq> 0 \<and> nul_free s \<and> length s \<le> 11"

lemma flag_idents_read:
  assumes "gh_permfs_ismodevalid m"
  shows "list_all2 flag_reads (flag_idents m) (permfs_flags m)"
  unfolding flag_idents_def list_all2_map1
  by (rule list.rel_refl_strong)
    (use flag_idents_ok [OF assms] table_idents_plain in \<open>auto simp: flag_reads_def\<close>)

lemma flag_ident_of_at:
  "flag_reads s f \<Longrightarrow> flag_ident_of \<lparr>cs_buffer = s @ NUL # rest, cs_size = of_nat (length s)\<rparr> = Some s"
  by (simp add: flag_ident_of_def flag_reads_def strlen_def unat_of_nat_nowrap)

lemma setfield_loop_toks:
  assumes "at_toks b u (map TStr ss @ t # ts) None p" "permfs_at al blk es permfs" "i < length es"
    and "list_all2 flag_reads ss fs" "tok_type t \<noteq> GH_PERMTOKEN_STRING"
    and "length u + length (toks_bytes (map TStr ss @ [t])) \<le> 1024"
  shows "\<exists>p' permfs' tok.
     permfs_setfield_loop al (blk, i) is_self act (p, permfs) = Some (GHR_OK, (p', permfs')) \<and>
     at_toks b (u @ toks_bytes (map TStr ss @ [t])) ts (Some tok) p' \<and>
     holds b (u @ toks_bytes (map TStr ss @ [t])) t tok \<and>
     permfs_at al blk (es[i := fold (entry_or is_self act) fs (es ! i)]) permfs'"
  using assms(4,1,2,3,6)
proof (induction ss fs arbitrary: u p es permfs rule: list_all2_induct)
  case Nil
  from expect_miss [of b u t ts p GH_PERMTOKEN_STRING GHR_PERMPARSER_EXPECTEDSTRING al] Nil assms(5)
  obtain tok p' where p': "gh_permparser_nextstring al p = Some (GHR_PERMPARSER_EXPECTEDSTRING, (None, p'))"
    "tok_is b (length u) t tok" "at_toks b (u @ tok_bytes t) ts (Some tok) p'"
    by (auto simp: gh_permparser_nextstring_def)
  with Nil holds_last [OF p'(2)] show ?case
    by (subst permfs_setfield_loop.simps) (auto simp: ghr_simps)
next
  case (Cons s ss f fs)
  have room: "length u + length (s @ [NUL]) + length (toks_bytes (map TStr ss @ [t])) \<le> 1024"
    using Cons.prems(4) by simp
  with expect_hit [of b u "TStr s" "map TStr ss @ t # ts" p GH_PERMTOKEN_STRING GHR_PERMPARSER_EXPECTEDSTRING al] Cons.prems
  obtain tok p1 where p1: "gh_permparser_nextstring al p = Some (GHR_OK, (Some (tk_value tok), p1))"
    "tok_is b (length u) (TStr s) tok" "at_toks b (u @ s @ [NUL]) (map TStr ss @ t # ts) None p1"
    by (auto simp: gh_permparser_nextstring_def)
  have h: "holds b (u @ s @ [NUL]) (TStr s) tok" using holds_last [OF p1(2)] by simp
  from holds_resolve [OF h p1(3)] obtain rest where
    r: "pp_resolve p1 (tk_value tok) = Some \<lparr>cs_buffer = s @ NUL # rest, cs_size = of_nat (length s)\<rparr>" by auto
  have f: "gh_permfs_mode_fromident s = f" "f \<noteq> 0" using Cons.hyps(1) by (simp_all add: flag_reads_def)
  let ?e = "entry_or is_self act f (es ! i)"
  from permfs_at_store [OF Cons.prems(2,3), of ?e] obtain permfs1 where
    st: "da_store permfs (blk, i) ?e = Some permfs1" "permfs_at al blk (es[i := ?e]) permfs1" by blast
  have "permfs_setfield_loop al (blk, i) is_self act (p, permfs) =
      permfs_setfield_loop al (blk, i) is_self act (p1, permfs1)"
    using p1(1) r f flag_ident_of_at [OF Cons.hyps(1)] st(1) permfs_at_deref [OF Cons.prems(2,3)]
    by (subst permfs_setfield_loop.simps) (simp add: ghr_simps)
  with Cons.IH [OF p1(3) st(2)] room Cons.prems(3) show ?case by simp
qed

lemma field_name_ok:
  "gh_str_eqlzrz (field_name s) ''self'' \<longleftrightarrow> s"
  "gh_str_eqlzrz (field_name s) ''self'' \<or> gh_str_eqlzrz (field_name s) ''children''"
  by (simp_all add: field_name_def eqlzrz_exact)

lemma action_name_ok:
  "mode_action_of \<lparr>cs_buffer = action_name a @ NUL # rest, cs_size = of_nat (length (action_name a))\<rparr> = Some a"
proof -
  let ?cs = "\<lparr>cs_buffer = action_name a @ NUL # rest, cs_size = of_nat (length (action_name a))\<rparr>"
  have view: "cs_view ?cs = action_name a" by (cases a) (simp_all add: cs_view_def)
  then have "cs_wf ?cs" by (cases a) (simp_all add: cs_wf_def)
  with view have "gh_conststr_eqz ?cs s \<longleftrightarrow> action_name a = s" if "s \<in> {''accept'', ''reject'', ''prompt''}" for s
    using that cs_eqlsrz_view [of ?cs s] by (auto simp: gh_conststr_eqz_def)
  then show ?thesis unfolding mode_action_of_def by (cases a) auto
qed

lemma setfield_toks:
  assumes "at_toks b u (TId (action_name a) # map TStr (flag_idents m) @ t # ts) None p"
    and "permfs_at al blk es permfs" "i < length es" "gh_permfs_ismodevalid m"
    and "tok_type t \<noteq> GH_PERMTOKEN_STRING"
    and "length u + length (toks_bytes (TId (action_name a) # map TStr (flag_idents m) @ [t])) \<le> 1024"
  shows "\<exists>p' permfs' tok u'.
     permfsparser_setfield al (Some (blk, i)) (field_name s) (p, permfs) = Some (GHR_OK, (p', permfs')) \<and>
     u' = u @ toks_bytes (TId (action_name a) # map TStr (flag_idents m) @ [t]) \<and>
     at_toks b u' ts (Some tok) p' \<and> holds b u' t tok \<and>
     permfs_at al blk (es[i := entry_or s a m (es ! i)]) permfs'"
proof -
  from expect_hit [OF assms(1), of GH_PERMTOKEN_IDENTIFIER GHR_PERMPARSER_EXPECTEDIDENTIFIER al] assms(6)
  obtain tok p1 where p1: "gh_permparser_nextidentifier al p = Some (GHR_OK, (Some (tk_value tok), p1))"
    "tok_is b (length u) (TId (action_name a)) tok"
    "at_toks b (u @ action_name a @ [NUL]) (map TStr (flag_idents m) @ t # ts) None p1"
    by (auto simp: gh_permparser_nextidentifier_def)
  have "holds b (u @ action_name a @ [NUL]) (TId (action_name a)) tok" using holds_last [OF p1(2)] by simp
  from holds_resolve [OF this p1(3)] obtain rest where r: "pp_resolve p1 (tk_value tok) =
      Some \<lparr>cs_buffer = action_name a @ NUL # rest, cs_size = of_nat (length (action_name a))\<rparr>" by auto
  from setfield_loop_toks [OF p1(3) assms(2,3) flag_idents_read [OF assms(4)] assms(5), of s a] assms(6)
  show ?thesis
    using p1(1) r action_name_ok [of a rest] field_name_ok [of s]
    by (auto simp: permfsparser_setfield_def ghr_simps fold_flags)
qed

section \<open>The fields of an entry\<close>

lemma field_name_id:
  "list_all permparser_charisalphanumeric (field_name s)" "length (field_name s) < 64"
  by (simp_all add: field_name_def permparser_charisalphanumeric_def c_between_def)

definition fields_valid :: "policy_field list \<Rightarrow> bool" where
  "fields_valid fl \<longleftrightarrow> list_all (\<lambda>(s, a, m). gh_permfs_ismodevalid m) fl"

lemma next_field_token:
  obtains t r where "concat (map field_toks fl) @ [TR] = t # r" "tok_type t \<noteq> GH_PERMTOKEN_STRING"
proof (cases fl)
  case Nil
  then show thesis using that [of TR "[]"] by simp
next
  case (Cons fld fl')
  obtain s a m where "fld = (s, a, m)" by (cases fld)
  with Cons show thesis using that [of "TId (field_name s)"] by simp
qed

lemma fields_end:
  assumes "holds b u TR tok" "at_toks b u ts None p"
  shows "\<exists>p'. permparser_fields al rp entry tok (p, v) = Some (GHR_OK, (p', v)) \<and> at_toks b [] ts None p'"
proof -
  obtain bb where bb: "gh_bytebuffer_clear (pp_buffer p) = (GHR_OK, bb)"
    by (simp add: gh_bytebuffer_clear_def)
  have "at_toks b [] ts None (p\<lparr>pp_buffer := bb\<rparr>)" using at_toks_clear [OF assms(2)] bb by simp
  with bb holds_type [OF assms(1)] show ?thesis
    by (subst permparser_fields.simps) (simp add: ghr_simps)
qed

lemma fields_toks:
  assumes "concat (map field_toks fl) @ [TR] = t # r" "holds b u t tok" "at_toks b u (r @ ts) None p"
    and "permfs_at al blk es permfs" "i < length es" "fields_valid fl"
    and "length u + length (toks_bytes r) \<le> 1024"
  shows "\<exists>p' permfs'.
     permparser_fields al (permfs_resourceparser al) (Some (blk, i)) tok (p, permfs) =
       Some (GHR_OK, (p', permfs')) \<and>
     at_toks b [] ts None p' \<and> permfs_at al blk (es[i := fold entry_apply fl (es ! i)]) permfs'"
  using assms
proof (induction fl arbitrary: t r u tok p es permfs)
  case Nil
  then have "t = TR" "r = []" by auto
  with Nil fields_end [of b u tok ts p al "permfs_resourceparser al" "Some (blk, i)" permfs] show ?case by auto
next
  case (Cons fld fl)
  obtain s a m where fld: "fld = (s, a, m)" by (cases fld)
  obtain t' r' where nxt: "concat (map field_toks fl) @ [TR] = t' # r'" "tok_type t' \<noteq> GH_PERMTOKEN_STRING"
    by (rule next_field_token)
  then have t: "t = TId (field_name s)"
    and r: "r = TId (action_name a) # map TStr (flag_idents m) @ t' # r'"
    using Cons.prems(1) fld by auto
  have ty: "tk_type tok = GH_PERMTOKEN_IDENTIFIER" using holds_type [OF Cons.prems(2)] t by simp
  have id: "pp_copyid p (tk_value tok) = Some (Some (field_name s))"
    using holds_copyid [OF _ Cons.prems(3) field_name_id] Cons.prems(2) t by simp
  let ?p = "permparser_seterror (tk_loc tok) p"
  have at: "at_toks b u (TId (action_name a) # map TStr (flag_idents m) @ t' # r' @ ts) None ?p"
    using at_toks_seterror [OF Cons.prems(3)] r by simp
  have valid: "gh_permfs_ismodevalid m" "fields_valid fl" using Cons.prems(6) fld by (simp_all add: fields_valid_def)
  have "length u + length (toks_bytes (TId (action_name a) # map TStr (flag_idents m) @ [t'])) \<le> 1024"
    using Cons.prems(7) r by simp
  from setfield_toks [OF at Cons.prems(4,5) valid(1) nxt(2) this, of s] obtain p1 permfs1 tok1 u1 where
    s1: "permfsparser_setfield al (Some (blk, i)) (field_name s) (?p, permfs) = Some (GHR_OK, (p1, permfs1))"
    "u1 = u @ toks_bytes (TId (action_name a) # map TStr (flag_idents m) @ [t'])"
    "at_toks b u1 (r' @ ts) (Some tok1) p1" "holds b u1 t' tok1"
    "permfs_at al blk (es[i := entry_or s a m (es ! i)]) permfs1" by blast
  from nexttoken_toks_peeked [OF s1(3), of al] obtain p2 where
    p2: "gh_permparser_nexttoken al p1 = Some (GHR_OK, (Some tok1, p2))" "at_toks b u1 (r' @ ts) None p2"
    by blast
  have "permparser_fields al (permfs_resourceparser al) (Some (blk, i)) tok (p, permfs) =
      permparser_fields al (permfs_resourceparser al) (Some (blk, i)) tok1 (p2, permfs1)"
    using ty id s1(1) p2(1)
    by (subst permparser_fields.simps) (simp add: permfs_resourceparser_def pu_error_def)
  moreover have "length u1 + length (toks_bytes r') \<le> 1024" using Cons.prems(7) r s1(2) by simp
  ultimately show ?case
    using Cons.IH [OF nxt(1) s1(4) p2(2) s1(5) _ valid(2)] Cons.prems(5) fld by (simp add: entry_apply_def)
qed

lemma fold_nonzero_fields:
  "fold entry_apply (filter (\<lambda>(_, _, f). f \<noteq> 0) fl) e = fold entry_apply fl e"
  by (induction fl arbitrary: e) (auto simp: entry_apply_def)

lemma fold_entry_fields:
  "fold entry_apply (modeset_fields True m @ modeset_fields False c)
     (entry_of s GH_PERMFS_MODESET_EMPTY GH_PERMFS_MODESET_EMPTY) = entry_of s m c"
  unfolding modeset_fields_def fold_append comp_def fold_nonzero_fields
  by (simp add: entry_apply_def entry_or_def modeset_or_def entry_of_def)

section \<open>The entries\<close>

definition item_toks :: "string \<times> gh_permfs_modeset \<times> gh_permfs_modeset \<Rightarrow> ptok list" where
  "item_toks x = (case x of (s, m, c) \<Rightarrow>
     TStr s # TL # concat (map field_toks (modeset_fields True m @ modeset_fields False c)) @ [TR])"

lemma item_toks_entries: "map entry_toks es = map item_toks (policy_of es)"
  by (simp add: policy_of_def item_toks_def entry_toks_def entry_fields_def)

text \<open>
  The bytes of the tokens of one entry have to fit in the byte buffer beside the two identifiers
  of the resource.
\<close>

definition item_ok :: "string \<times> gh_permfs_modeset \<times> gh_permfs_modeset \<Rightarrow> bool" where
  "item_ok x \<longleftrightarrow> (case x of (s, m, c) \<Rightarrow>
     path_plain s \<and> modeset_valid m \<and> modeset_valid c \<and> 16 + length (toks_bytes (item_toks x)) \<le> 1024)"

lemma item_ok_short: "item_ok (s, m, c) \<Longrightarrow> path_short s"
  using plain_nul_free [of s]
  by (auto simp: item_ok_def path_short_def path_plain_def list_all_iff item_toks_def)

lemma item_fields_valid:
  "item_ok (s, m, c) \<Longrightarrow> fields_valid (modeset_fields True m @ modeset_fields False c)"
  by (auto simp: item_ok_def fields_valid_def modeset_fields_def modeset_valid_def)

lemma newentry_toks:
  assumes "holds b u (TStr s) tok" "at_toks b u ts pk p"
    and "permfs_at al blk (policy_entries pol) permfs" "policy_short pol" "path_short s"
    and "s \<notin> fst ` set pol" "length pol < 4294967296" "al_total al"
  shows "\<exists>permfs' blk'. permfsparser_newentry al (tk_value tok) (p, permfs) =
       Some (GHR_OK, (Some (blk', length pol), (p, permfs'))) \<and>
     permfs_at al blk' (policy_entries (pol @ [(s, GH_PERMFS_MODESET_EMPTY, GH_PERMFS_MODESET_EMPTY)])) permfs'"
proof -
  from holds_resolve [OF assms(1,2)] obtain rest where
    "pp_resolve p (tk_value tok) = Some \<lparr>cs_buffer = s @ NUL # rest, cs_size = of_nat (length s)\<rparr>" by auto
  with add_new_entry [OF assms(3-8), of rest GH_PERMFS_MODESET_EMPTY GH_PERMFS_MODESET_EMPTY]
  show ?thesis by (auto simp: permfsparser_newentry_def ident_of_def)
qed

lemma policy_entries_update:
  "(policy_entries (pol @ [x]))[length pol := entry_of s m c] = policy_entries (pol @ [(s, m, c)])"
  "policy_entries (pol @ [(s, m, c)]) ! length pol = entry_of s m c"
  by (simp_all add: policy_entries_def nth_append list_update_append)

text \<open>One round of the loop over the entries\<close>

lemma entry_round:
  assumes "at_toks b u (item_toks (s, m, c) @ ts) None p" "length u \<le> 16" "item_ok (s, m, c)"
    and "permfs_at al blk (policy_entries pol) permfs" "policy_short pol"
    and "s \<notin> fst ` set pol" "length pol < 4294967296" "al_total al"
  shows "\<exists>p' permfs' blk'.
     permparser_entries al (permfs_resourceparser al) (p, permfs) =
       permparser_entries al (permfs_resourceparser al) (p', permfs') \<and>
     at_toks b [] ts None p' \<and> permfs_at al blk' (policy_entries (pol @ [(s, m, c)])) permfs'"
proof -
  let ?fl = "modeset_fields True m @ modeset_fields False c"
  obtain t r where nxt: "concat (map field_toks ?fl) @ [TR] = t # r" by (rule next_field_token)
  have toks: "item_toks (s, m, c) @ ts = TStr s # TL # t # r @ ts"
    using nxt unfolding item_toks_def by (metis append.assoc append_Cons old.prod.case)
  have "toks_bytes (item_toks (s, m, c)) = s @ NUL # toks_bytes (t # r)"
    unfolding item_toks_def prod.case nxt [symmetric] by simp
  then have room: "length u + length s + 1 + length (tok_bytes t) + length (toks_bytes r) \<le> 1024"
    using assms(2,3) by (simp add: item_ok_def)
  from peektoken_toks [OF assms(1) [unfolded toks], of al] room obtain tok p1 where
    p1: "gh_permparser_peektoken al p = Some (GHR_OK, (Some tok, p1))" "tok_is b (length u) (TStr s) tok"
    "at_toks b (u @ s @ [NUL]) (TL # t # r @ ts) (Some tok) p1" by auto
  from nexttoken_toks_peeked [OF p1(3), of al] obtain p2 where
    p2: "gh_permparser_nexttoken al p1 = Some (GHR_OK, (Some tok, p2))"
    "at_toks b (u @ s @ [NUL]) (TL # t # r @ ts) None p2" by blast
  have ty: "tk_type tok = GH_PERMTOKEN_STRING" using tok_is_type [OF p1(2)] by simp
  have h: "holds b (u @ s @ [NUL]) (TStr s) tok" using holds_last [OF p1(2)] by simp
  let ?p2 = "permparser_seterror (tk_loc tok) p2"
  note at2 = at_toks_seterror [OF p2(2), of "tk_loc tok"]
  from newentry_toks [OF h at2 assms(4,5) item_ok_short [OF assms(3)] assms(6-8)] obtain permfs1 blk1 where
    n: "permfsparser_newentry al (tk_value tok) (?p2, permfs) = Some (GHR_OK, (Some (blk1, length pol), (?p2, permfs1)))"
    "permfs_at al blk1 (policy_entries (pol @ [(s, GH_PERMFS_MODESET_EMPTY, GH_PERMFS_MODESET_EMPTY)])) permfs1"
    by blast
  from nexttoken_toks [OF at2, of al] room obtain tok3 p3 where
    p3: "gh_permparser_nexttoken al ?p2 = Some (GHR_OK, (Some tok3, p3))" "tk_type tok3 = GH_PERMTOKEN_LBRACE"
    "at_toks b (u @ s @ [NUL]) (t # r @ ts) None p3" by auto
  from nexttoken_toks [OF p3(3), of al] room obtain tok4 p4 where
    p4: "gh_permparser_nexttoken al p3 = Some (GHR_OK, (Some tok4, p4))"
    "tok_is b (length (u @ s @ [NUL])) t tok4" "at_toks b ((u @ s @ [NUL]) @ tok_bytes t) (r @ ts) None p4" by auto
  have "length ((u @ s @ [NUL]) @ tok_bytes t) + length (toks_bytes r) \<le> 1024" using room by simp
  from fields_toks [OF nxt holds_last [OF p4(2)] p4(3) n(2) _ item_fields_valid [OF assms(3)] this, of "length pol"]
  obtain p5 permfs2 where
    f: "permparser_fields al (permfs_resourceparser al) (Some (blk1, length pol)) tok4 (p4, permfs1) =
        Some (GHR_OK, (p5, permfs2))" "at_toks b [] ts None p5"
    "permfs_at al blk1 (policy_entries (pol @ [(s, m, c)])) permfs2"
    by (auto simp: policy_entries_def fold_entry_fields [unfolded fold_append comp_def] nth_append
        list_update_append)
  have "permparser_entries al (permfs_resourceparser al) (p, permfs) =
      permparser_entries al (permfs_resourceparser al) (p5, permfs2)"
    using p1(1) p2(1) ty n(1) p3(1,2) p4(1) f(1)
    by (subst permparser_entries.simps) (simp add: permfs_resourceparser_def pu_error_def ghr_simps)
  with f show ?thesis by blast
qed

lemma entries_toks:
  assumes "at_toks b u (concat (map item_toks xs) @ TR # ts) None p" "length u \<le> 16" "list_all item_ok xs"
    and "permfs_at al blk (policy_entries pol) permfs" "policy_short pol"
    and "distinct (map fst (pol @ xs))" "length (pol @ xs) < 4294967296" "al_total al"
  shows "\<exists>p' permfs' blk' u' tok.
     permparser_entries al (permfs_resourceparser al) (p, permfs) = Some (GHR_OK, (p', permfs')) \<and>
     at_toks b u' ts (Some tok) p' \<and> length u' \<le> 16 \<and> tk_type tok = GH_PERMTOKEN_RBRACE \<and>
     permfs_at al blk' (policy_entries (pol @ xs)) permfs'"
  using assms
proof (induction xs arbitrary: u p blk pol permfs)
  case Nil
  from peektoken_toks [of b u TR ts p al] Nil obtain tok p1 where
    "gh_permparser_peektoken al p = Some (GHR_OK, (Some tok, p1))" "tk_type tok = GH_PERMTOKEN_RBRACE"
    "at_toks b u ts (Some tok) p1" by auto
  with Nil show ?case
    by (subst permparser_entries.simps) auto
next
  case (Cons x xs)
  obtain s m c where x: "x = (s, m, c)" by (cases x)
  have at: "at_toks b u (item_toks (s, m, c) @ concat (map item_toks xs) @ TR # ts) None p"
    using Cons.prems(1) x by simp
  have ok: "item_ok (s, m, c)" "list_all item_ok xs" "s \<notin> fst ` set pol" "length pol < 4294967296"
    using Cons.prems(3,6,7) x by auto
  from entry_round [OF at Cons.prems(2) ok(1) Cons.prems(4,5) ok(3,4) Cons.prems(8)] obtain p1 permfs1 blk1 where
    r: "permparser_entries al (permfs_resourceparser al) (p, permfs) =
        permparser_entries al (permfs_resourceparser al) (p1, permfs1)"
    "at_toks b [] (concat (map item_toks xs) @ TR # ts) None p1"
    "permfs_at al blk1 (policy_entries (pol @ [x])) permfs1" using x by blast
  have "policy_short (pol @ [x])"
    using Cons.prems(5) item_ok_short [OF ok(1)] x by (simp add: policy_short_def)
  with Cons.IH [OF r(2) _ ok(2) r(3)] Cons.prems(6-8) r(1) show ?case by simp
qed

section \<open>The file\<close>

lemma permfs_matches:
  "permfsparser_matches ''filesystem'' ''node'' st = Some (GHR_OK, st)"
  by (simp add: permfsparser_matches_def eqlzrz_exact)

lemma permparser_id_toks:
  assumes "tok_is b (length u) (TId s) tok" "at_toks b (u @ s @ [NUL]) ts pk p"
    and "list_all permparser_charisalphanumeric s" "length s < 64"
  shows "permparser_id expected large tok (p, v) k = k s"
proof -
  have "holds b (u @ s @ [NUL]) (TId s) tok" using holds_last [OF assms(1)] by simp
  with holds_copyid [OF this assms(2-4)] tok_is_type [OF assms(1)] show ?thesis
    by (simp add: permparser_id_def)
qed

lemma resource_toks:
  assumes "at_toks b [] (TId ''filesystem'' # TId ''node'' # TL # concat (map item_toks xs) @ TR # ts) None p"
    and "list_all item_ok xs" "permfs_at al blk [] permfs"
    and "distinct (map fst xs)" "length xs < 4294967296" "al_total al"
  shows "\<exists>p' permfs' blk' u'.
     permparser_parsenextresource al [permfs_resourceparser al] (p, permfs) =
       Some (GHR_OK, (False, (p', permfs'))) \<and>
     at_toks b u' ts None p' \<and> permfs_at al blk' (policy_entries xs) permfs'"
proof -
  have alnum: "list_all permparser_charisalphanumeric ''filesystem''" "list_all permparser_charisalphanumeric ''node''"
    by (simp_all add: permparser_charisalphanumeric_def c_between_def)
  from nexttoken_toks [OF assms(1), of al] obtain tok1 p1 where
    p1: "gh_permparser_nexttoken al p = Some (GHR_OK, (Some tok1, p1))"
    "tok_is b (length ([] :: string)) (TId ''filesystem'') tok1"
    "at_toks b ([] @ ''filesystem'' @ [NUL]) (TId ''node'' # TL # concat (map item_toks xs) @ TR # ts) None p1"
    by auto
  let ?u = "[] @ ''filesystem'' @ [NUL]"
  have id1: "permparser_id expected large tok1 (p1, permfs) k = k ''filesystem''" for expected large k
    by (rule permparser_id_toks [OF p1(2,3) alnum(1)]) simp
  from nexttoken_toks [OF p1(3), of al] obtain tok2 p2 where
    p2: "gh_permparser_nexttoken al p1 = Some (GHR_OK, (Some tok2, p2))" "tok_is b (length ?u) (TId ''node'') tok2"
    "at_toks b (?u @ ''node'' @ [NUL]) (TL # concat (map item_toks xs) @ TR # ts) None p2" by auto
  have id2: "permparser_id expected large tok2 (p2, permfs) k = k ''node''" for expected large k
    by (rule permparser_id_toks [OF p2(2,3) alnum(2)]) simp
  from nexttoken_toks [OF p2(3), of al] obtain tok3 p3 where
    p3: "gh_permparser_nexttoken al p2 = Some (GHR_OK, (Some tok3, p3))" "tk_type tok3 = GH_PERMTOKEN_LBRACE"
    "at_toks b (?u @ ''node'' @ [NUL]) (concat (map item_toks xs) @ TR # ts) None p3" by auto
  let ?st = "(permparser_seterror (pp_loc p3) p3, permfs)"
  have fnd: "permparser_findresourceparser [permfs_resourceparser al] ''filesystem'' ''node'' (p3, permfs) =
      Some (GHR_OK, (Some (permfs_resourceparser al), ?st))"
    by (simp add: permfs_resourceparser_def permfs_matches pu_error_def ghr_simps)
  have "permfs_at al blk (policy_entries []) permfs" "policy_short []"
    using assms(3) by (simp_all add: policy_entries_def policy_short_def)
  from entries_toks [OF at_toks_seterror [OF p3(3)] _ assms(2) this, of "pp_loc p3"] assms(4-6) obtain
    p4 permfs4 blk4 u4 tok4 where
    p4: "permparser_entries al (permfs_resourceparser al) ?st = Some (GHR_OK, (p4, permfs4))"
    "at_toks b u4 ts (Some tok4) p4" "tk_type tok4 = GH_PERMTOKEN_RBRACE"
    "permfs_at al blk4 (policy_entries xs) permfs4" by auto
  from nexttoken_toks_peeked [OF p4(2), of al] obtain p5 where
    p5: "gh_permparser_nexttoken al p4 = Some (GHR_OK, (Some tok4, p5))" "at_toks b u4 ts None p5" by blast
  have "tk_type tok1 = GH_PERMTOKEN_IDENTIFIER" using tok_is_type [OF p1(2)] by simp
  then have "permparser_parsenextresource al [permfs_resourceparser al] (p, permfs) =
      Some (GHR_OK, (False, (p5, permfs4)))"
    using p1(1) p2(1) p3(1,2) p4(1,3) p5(1) fnd
    by (simp add: permparser_parsenextresource_def permparser_resource_def id1 id2 ghr_simps
        del: permparser_findresourceparser.simps)
  with p5(2) p4(4) show ?thesis by blast
qed

lemma parse_policy:
  assumes "at_toks b [] (TId ''filesystem'' # TId ''node'' # TL # concat (map item_toks xs) @ [TR]) None p"
    and "list_all item_ok xs" "permfs_at al blk [] permfs"
    and "distinct (map fst xs)" "length xs < 4294967296" "al_total al"
  shows "\<exists>p' permfs' blk'.
     gh_permparser_parse al [permfs_resourceparser al] (p, permfs) = Some (GHR_OK, (p', permfs')) \<and>
     permfs_at al blk' (policy_entries xs) permfs'"
proof -
  from resource_toks [OF assms] obtain p1 permfs1 blk1 u1 where
    r: "permparser_parsenextresource al [permfs_resourceparser al] (p, permfs) =
        Some (GHR_OK, (False, (p1, permfs1)))" "at_toks b u1 [] None p1"
    "permfs_at al blk1 (policy_entries xs) permfs1" by blast
  from nexttoken_toks_end [OF r(2), of al] obtain tok p2 where
    "gh_permparser_nexttoken al p1 = Some (GHR_OK, (Some tok, p2))" "tk_type tok = GH_PERMTOKEN_EOF" by blast
  then have "permparser_parsenextresource al [permfs_resourceparser al] (p1, permfs1) =
      Some (GHR_OK, (True, (p2, permfs1)))"
    by (simp add: permparser_parsenextresource_def ghr_simps)
  then have "gh_permparser_parse al [permfs_resourceparser al] (p1, permfs1) = Some (GHR_OK, (p2, permfs1))"
    by (subst gh_permparser_parse.simps) (simp add: ghr_simps)
  with r show ?thesis by (subst gh_permparser_parse.simps) (auto simp: ghr_simps)
qed

lemma ctorbuffer_toks:
  assumes "al_total al" "toks s ts" "no_comment s"
  shows "\<exists>b p. gh_permparser_ctorbuffer al s = (GHR_OK, p) \<and> at_toks b [] ts None p"
proof -
  let ?bb = "\<lparr>da_buffer = Some [], da_capacity = 1024, da_size = 0, da_block = Suc 0\<rparr> :: gh_bytebuffer"
  let ?p = "permparser_zero\<lparr>pp_buffer := ?bb, pp_data := s, pp_idx := 0, pp_is_mmapped := False,
              pp_loc := \<lparr>loc_row = 1, loc_column = 1\<rparr>, pp_peek := tok_none\<rparr>"
  have bb: "gh_bytebuffer_ctor al (pp_buffer permparser_zero) = (GHR_OK, ?bb)"
    using assms(1) by (simp add: bb_ctor_result al_total_def permparser_zero_def)
  have "pp_at (Suc 0) [] s None ?p"
    using assms(3) by (simp add: pp_at_def pp_rest_def da_reserved_def da_items_def tok_none_def no_comment_def)
  from skip_at [OF this] assms(2) have "at_toks (Suc 0) [] ts None (permparser_skipwhitespace ?p)"
    by (auto simp: at_toks_def)
  with bb show ?thesis by (auto simp: gh_permparser_ctorbuffer_def ghr_simps)
qed

lemma permfs_ctor_at:
  assumes "al_total al"
  shows "\<exists>blk permfs'. gh_permfs_ctor al permfs = (GHR_OK, permfs') \<and> permfs_at al blk [] permfs'"
proof -
  obtain permfs' where c: "gh_dynamicarray_ctor al (permfsfilelist_daopts al) permfs = (GHR_OK, permfs')"
    using assms by (simp add: gh_dynamicarray_ctor_def gh_alloc_new_result al_total_def permfsfilelist_daopts_def ghr_simps)
  with ctor_wf [OF c] show ?thesis
    by (auto simp: gh_permfs_ctor_def gh_permfs_entrylist_ctor_def permfs_at_def permfsfilelist_daopts_def ghr_simps)
qed

text \<open>Entries that survive: \<open>policy_ok\<close> is what the writer and the parser need of a policy.\<close>

definition policy_ok :: "policy \<Rightarrow> bool" where
  "policy_ok pol \<longleftrightarrow> list_all item_ok pol \<and> distinct (map fst pol) \<and> length pol < 4294967296"

lemma policy_of_entries: "policy_short pol \<Longrightarrow> policy_of (policy_entries pol) = pol"
  by (induction pol) (auto simp: policy_of_def policy_entries_def policy_short_def entry_of_view
      entry_of_def ac_view_def path_short_def unat_of_nat_nowrap)

lemma policy_ok_short: "policy_ok pol \<Longrightarrow> policy_short pol"
  using item_ok_short by (auto simp: policy_ok_def policy_short_def list_all_iff)

lemma policy_ok_valid: "policy_ok (policy_of es) \<Longrightarrow> list_all entry_valid es"
  by (auto simp: policy_ok_def policy_of_def item_ok_def entry_valid_def list_all_iff)

lemma write_then_parse:
  assumes "takes_writes env" "al_total al" "fd_output fd tr = []" "policy_ok (policy_of (da_items permfs))"
  shows "\<exists>st p permfs0 p' permfs'.
     gh_permfs_write env permfs (gh_permwriter_new fd, tr) = (GHR_OK, st) \<and>
     gh_permparser_ctorbuffer al (pw_output st) = (GHR_OK, p) \<and>
     gh_permfs_ctor al fresh = (GHR_OK, permfs0) \<and>
     gh_permparser_parse al [permfs_resourceparser al] (p, permfs0) = Some (GHR_OK, (p', permfs')) \<and>
     policy_of (da_items permfs') = policy_of (da_items permfs)"
proof -
  let ?pol = "policy_of (da_items permfs)"
  have "pw_in fd 0 [] (gh_permwriter_new fd, tr)"
    using pw_at_new [of fd tr] assms(3) by (auto simp: pw_in_def)
  from permfs_write_toks [OF assms(1) this policy_ok_valid [OF assms(4)]] obtain st tx where
    w: "gh_permfs_write env permfs (gh_permwriter_new fd, tr) = (GHR_OK, st)" "pw_output st = tx"
    "toks tx (policy_toks (da_items permfs))" "no_comment tx"
    by (cases "gh_permfs_write env permfs (gh_permwriter_new fd, tr)") (auto simp: pw_toks_def pw_ok_def pw_at_def)
  from ctorbuffer_toks [OF assms(2) w(3,4)] obtain b p where
    p: "gh_permparser_ctorbuffer al tx = (GHR_OK, p)" "at_toks b [] (policy_toks (da_items permfs)) None p" by blast
  from permfs_ctor_at [OF assms(2)] obtain blk permfs0 where
    c: "gh_permfs_ctor al fresh = (GHR_OK, permfs0)" "permfs_at al blk [] permfs0" by blast
  have "list_all item_ok ?pol" "distinct (map fst ?pol)" "length ?pol < 4294967296"
    using assms(4) by (simp_all add: policy_ok_def)
  from parse_policy [OF p(2) [unfolded policy_toks_def item_toks_entries] this(1) c(2) this(2,3) assms(2)]
  obtain p' permfs' blk' where
    "gh_permparser_parse al [permfs_resourceparser al] (p, permfs0) = Some (GHR_OK, (p', permfs'))"
    "permfs_at al blk' (policy_entries ?pol) permfs'" by blast
  with w(1,2) p(1) c(1) policy_of_entries [OF policy_ok_short [OF assms(4)]] show ?thesis
    by (auto simp: permfs_at_def)
qed

end
