(* ===== verification/PermfsGate.thy ===== *)
theory PermfsGate
  imports PermfsRoundTrip
begin

text \<open>
  The filesystem policy as the code uses it: the list of entries as a list of paths with mode sets, what
  \<^verbatim>\<open>gh_permfs_add\<close> and \<^verbatim>\<open>gh_permfs_getmode\<close> compute on that list (\<open>policy_add\<close>, \<open>policy_eval\<close>), and the
  decisions of the gate. These are the functions of the code without its memory, with its way to treat
  the mode sets for children; the documented meaning is stated in PolicySpec.
\<close>

section \<open>Adding to a policy\<close>

fun policy_add :: "policy \<Rightarrow> string \<Rightarrow> gh_permfs_modeset \<Rightarrow> gh_permfs_modeset \<Rightarrow> policy" where
  "policy_add [] s m c = [(s, m, c)]"
| "policy_add ((s', m', c') # pol) s m c =
     (if s' = s then (s', merge_modeset (merge_modeset m' m) c, c') # pol
      else (s', m', c') # policy_add pol s m c)"

lemma policy_add_new: "s \<notin> fst ` set pol \<Longrightarrow> policy_add pol s m c = pol @ [(s, m, c)]"
  by (induction pol) auto

lemma policy_add_old:
  "i < length pol \<Longrightarrow> pol ! i = (s, m', c') \<Longrightarrow> (\<forall>j < i. fst (pol ! j) \<noteq> s) \<Longrightarrow>
   policy_add pol s m c = pol[i := (s, merge_modeset (merge_modeset m' m) c, c')]"
proof (induction pol arbitrary: i)
  case Nil
  then show ?case by simp
next
  case (Cons x pol)
  show ?case
  proof (cases i)
    case 0
    with Cons.prems show ?thesis by (cases x) auto
  next
    case (Suc j)
    have "fst x \<noteq> s" using Cons.prems(3) Suc by force
    moreover have "\<forall>k < j. fst (pol ! k) \<noteq> s" using Cons.prems(3) Suc by (metis Suc_mono nth_Cons_Suc)
    ultimately show ?thesis using Cons Suc by (cases x) auto
  qed
qed

lemma policy_add_short: "policy_short pol \<Longrightarrow> path_short s \<Longrightarrow> policy_short (policy_add pol s m c)"
  by (induction pol s m c rule: policy_add.induct) (auto simp: policy_short_def)

text \<open>The loop of \<^verbatim>\<open>gh_permfs_add\<close> over a policy, from an entry on\<close>

lemma find_entry_step:
  assumes "permfs_at al blk (policy_entries pol) permfs" "policy_short pol" "path_short s"
    and "i < length pol" "length pol \<le> 4294967296"
  shows "permfs_find permfs (ident_of s rest) i =
     (if fst (pol ! i) = s then Some (GHR_OK, Some (blk, i)) else permfs_find permfs (ident_of s rest) (Suc i))"
proof -
  have sz: "unat (da_size permfs) = length pol"
    using permfs_at_size [OF assms(1)] by (simp add: policy_entries_def)
  have ui: "unat (of_nat i :: size_t) = i" using assms(4,5) by (simp add: unat_of_nat_nowrap)
  obtain s' m c where pol: "pol ! i = (s', m, c)" by (cases "pol ! i")
  then have "path_short s'" using assms(2,4) nth_mem [of i pol] by (auto simp: policy_short_def list_all_iff)
  moreover have "policy_entries pol ! i = entry_of s' m c" using pol assms(4) by (simp add: policy_entries_def)
  moreover have "gh_permfs_entrylist_getat permfs (of_nat i) = (GHR_OK, Some (blk, i))"
    using getat_result [of "permfsfilelist_daopts al" permfs "of_nat i"] assms(1,4) ui
    by (simp add: permfs_at_def gh_permfs_entrylist_getat_def policy_entries_def)
  moreover have "da_deref permfs (blk, i) = Some (policy_entries pol ! i)"
    using assms(4) by (intro permfs_at_deref [OF assms(1)]) (simp add: policy_entries_def)
  ultimately show ?thesis
    using assms(4) sz pol identeq_short [of s' s m c rest] assms(3)
    by (subst permfs_find.simps) (simp add: ghr_simps)
qed

lemma find_old_entry:
  assumes "permfs_at al blk (policy_entries pol) permfs" "policy_short pol" "path_short s"
    and "length pol \<le> 4294967296" "i < length pol" "fst (pol ! i) = s" "\<forall>j < i. fst (pol ! j) \<noteq> s"
  shows "j \<le> i \<Longrightarrow> permfs_find permfs (ident_of s rest) j = Some (GHR_OK, Some (blk, i))"
proof (induction "i - j" arbitrary: j)
  case 0
  with find_entry_step [OF assms(1-3,5,4)] assms(6) show ?case by simp
next
  case (Suc n)
  then have "j < i" by simp
  with find_entry_step [OF assms(1-3) _ assms(4), of j rest] assms(5,7) Suc show ?case by simp
qed

lemma first_with_path:
  assumes "s \<in> fst ` set pol"
  obtains i m c where "i < length pol" "pol ! i = (s, m, c)" "\<forall>j < i. fst (pol ! j) \<noteq> s"
proof -
  from assms obtain x where "x \<in> set pol" "fst x = s" by auto
  then have "\<exists>i. i < length pol \<and> fst (pol ! i) = s" by (metis in_set_conv_nth)
  then obtain i where "i < length pol \<and> fst (pol ! i) = s" "\<forall>j < i. \<not> (j < length pol \<and> fst (pol ! j) = s)"
    using exists_least_iff [of "\<lambda>i. i < length pol \<and> fst (pol ! i) = s"] by blast
  with that show thesis by (metis order.strict_trans prod.collapse)
qed

lemma add_refines:
  assumes "permfs_at al blk (policy_entries pol) permfs" "policy_short pol" "path_short s"
    and "length pol < 4294967296" "al_total al"
  shows "\<exists>permfs' blk' i. gh_permfs_add al permfs (ident_of s rest) m c = Some (GHR_OK, (Some (blk', i), permfs')) \<and>
     permfs_at al blk' (policy_entries (policy_add pol s m c)) permfs'"
proof (cases "s \<in> fst ` set pol")
  case False
  from add_new_entry [OF assms(1-3) False assms(4,5), of rest m c] policy_add_new [OF False, of m c]
  show ?thesis by metis
next
  case True
  then obtain i m' c' where i: "i < length pol" "pol ! i = (s, m', c')" "\<forall>j < i. fst (pol ! j) \<noteq> s"
    by (rule first_with_path)
  from find_old_entry [OF assms(1-3) _ i(1) _ i(3), of 0 rest] i(2) assms(4)
  have fnd: "permfs_find permfs (ident_of s rest) 0 = Some (GHR_OK, Some (blk, i))" by simp
  have len: "i < length (policy_entries pol)" using i(1) by (simp add: policy_entries_def)
  have e: "policy_entries pol ! i = entry_of s m' c'" using i by (simp add: policy_entries_def)
  let ?e = "(entry_of s m' c')\<lparr>fe_self := merge_modeset (merge_modeset m' m) c\<rparr>"
  from permfs_at_store [OF assms(1) len, of ?e] obtain permfs' where
    st: "da_store permfs (blk, i) ?e = Some permfs'" "permfs_at al blk ((policy_entries pol)[i := ?e]) permfs'"
    by blast
  have "(policy_entries pol)[i := ?e] = policy_entries (policy_add pol s m c)"
    unfolding policy_add_old [OF i] by (simp add: policy_entries_def map_update entry_of_def)
  with st fnd permfs_at_deref [OF assms(1) len] e show ?thesis
    by (auto simp: gh_permfs_add_def ghr_simps entry_of_def)
qed

section \<open>Evaluating a policy\<close>

definition policy_step ::
  "string \<Rightarrow> string \<times> gh_permfs_modeset \<times> gh_permfs_modeset \<Rightarrow>
   gh_permfs_modeset \<times> gh_permfs_modeset \<Rightarrow> gh_permfs_modeset \<times> gh_permfs_modeset" where
  "policy_step p x acc =
     (case (x, acc) of ((s, m, c), (self_modeset, children_modeset)) \<Rightarrow>
        if s = p then (gh_permfs_modeset_join self_modeset m, gh_permfs_modeset_join children_modeset c)
        else if prefix s p \<and> p ! length s = CHR ''/'' then
          (gh_permfs_modeset_join self_modeset c,
           gh_permfs_modeset_join (gh_permfs_modeset_join self_modeset c) c)
        else acc)"

definition policy_eval :: "policy \<Rightarrow> string \<Rightarrow> gh_permfs_modeset \<times> gh_permfs_modeset" where
  "policy_eval pol p = fold (policy_step p) pol (GH_PERMFS_MODESET_EMPTY, GH_PERMFS_MODESET_EMPTY)"

lemma strncmp_eq_terminated:
  "nul_free a \<Longrightarrow> nul_free b \<Longrightarrow> strncmp_eq (a @ NUL # x) (b @ NUL # y) (Suc (length b)) \<longleftrightarrow> a = b"
proof (induction b arbitrary: a)
  case Nil
  then show ?case by (cases a) auto
next
  case (Cons c b)
  then show ?case by (cases a) auto
qed

lemma strncmp_eq_prefix_terminated:
  "nul_free a \<Longrightarrow> nul_free b \<Longrightarrow> strncmp_eq (a @ NUL # x) (b @ NUL # y) (length a) \<longleftrightarrow> prefix a b"
proof (induction a arbitrary: b)
  case Nil
  then show ?case by simp
next
  case (Cons c a)
  then show ?case by (cases b) auto
qed

lemma match_refines:
  assumes "path_short s" "path_short p"
  shows "permfs_match (ident_of p rest) (entry_of s m c) acc = Some (policy_step p (s, m, c) acc)"
proof -
  have chars: "ac_chars (fe_path (entry_of s m c)) = s @ NUL # []" "ac_chars (ident_of p rest) = p @ NUL # rest"
    "unat (ac_len (fe_path (entry_of s m c))) = length s" "unat (ac_len (ident_of p rest)) = length p"
    "fe_self (entry_of s m c) = m" "fe_children (entry_of s m c) = c"
    using assms by (simp_all add: ac_chars_def entry_of_def ident_of_def)
  have eq: "strncmp_eq (s @ NUL # []) (p @ NUL # rest) (length p + 1) \<longleftrightarrow> s = p"
    using assms strncmp_eq_terminated [of s p] by (simp add: path_short_def)
  have pre: "strncmp_eq (s @ NUL # []) (p @ NUL # rest) (length s) \<longleftrightarrow> prefix s p"
    using assms strncmp_eq_prefix_terminated [of s p] by (simp add: path_short_def)
  obtain self_modeset children_modeset where acc: "acc = (self_modeset, children_modeset)" by (cases acc)
  show ?thesis
  proof (cases "prefix s p \<and> s \<noteq> p")
    case True
    then have "length s < length p" by (simp add: prefix_length_less prefix_order.less_le)
    with True show ?thesis
      unfolding permfs_match_def chars Let_def eq pre policy_step_def acc by (simp add: nth_append)
  next
    case False
    then show ?thesis
      unfolding permfs_match_def chars Let_def eq pre policy_step_def acc by auto
  qed
qed

lemma getmode_refines:
  assumes "policy_short pol" "path_short p"
  shows "permfs_getmode_loop (ident_of p rest) (policy_entries pol) acc = Some (fold (policy_step p) pol acc)"
  using assms(1)
proof (induction pol arbitrary: acc)
  case Nil
  then show ?case by (simp add: policy_entries_def)
next
  case (Cons x pol)
  obtain s m c where x: "x = (s, m, c)" by (cases x)
  with Cons.prems have "path_short s" "policy_short pol" by (simp_all add: policy_short_def)
  with Cons.IH match_refines [OF _ assms(2), of s rest m c acc] x show ?case
    by (simp add: policy_entries_def)
qed

text \<open>The order of the mode sets: more flags of each kind\<close>

definition modeset_le :: "gh_permfs_modeset \<Rightarrow> gh_permfs_modeset \<Rightarrow> bool" where
  "modeset_le a b \<longleftrightarrow> gh_permfs_modeset_join a b = b"

lemma modeset_le_refl [simp]: "modeset_le a a"
  by (simp add: modeset_le_def modeset_join_laws)

lemma modeset_le_trans: "modeset_le a b \<Longrightarrow> modeset_le b c \<Longrightarrow> modeset_le a c"
  unfolding modeset_le_def by (metis modeset_join_laws(2))

lemma modeset_le_join: "modeset_le a (gh_permfs_modeset_join a b)" "modeset_le b (gh_permfs_modeset_join a b)"
  unfolding modeset_le_def by (metis modeset_join_laws)+

lemma merge_is_join: "merge_modeset a b = gh_permfs_modeset_join a b"
  by (simp add: merge_modeset_def gh_permfs_modeset_join_def)

lemma policy_step_grows: "modeset_le (fst acc) (fst (policy_step p x acc))"
  by (cases x; cases acc) (auto simp: policy_step_def modeset_le_join)

lemma policy_fold_grows: "modeset_le (fst acc) (fst (fold (policy_step p) pol acc))"
proof (induction pol arbitrary: acc)
  case Nil
  then show ?case by simp
next
  case (Cons x pol)
  show ?case
    using modeset_le_trans [OF policy_step_grows Cons.IH [of "policy_step p x acc"]] by simp
qed

lemma policy_fold_includes:
  "(p, m, c) \<in> set pol \<Longrightarrow> modeset_le m (fst (fold (policy_step p) pol acc))"
proof (induction pol arbitrary: acc)
  case Nil
  then show ?case by simp
next
  case (Cons x pol)
  show ?case
  proof (cases "x = (p, m, c)")
    case True
    then have "modeset_le m (fst (policy_step p x acc))"
      by (cases acc) (simp add: policy_step_def modeset_le_join)
    with policy_fold_grows modeset_le_trans show ?thesis by simp
  next
    case False
    with Cons show ?thesis by auto
  qed
qed

lemma policy_add_includes: "\<exists>m' c'. (s, m', c') \<in> set (policy_add pol s m c) \<and> modeset_le m m'"
proof (induction pol s m c rule: policy_add.induct)
  case (1 s m c)
  then show ?case by auto
next
  case (2 s' m' c' pol s m c)
  show ?case
  proof (cases "s' = s")
    case True
    have "modeset_le m (merge_modeset (merge_modeset m' m) c)"
      unfolding merge_is_join by (metis modeset_le_join modeset_le_trans)
    with True show ?thesis by auto
  next
    case False
    with 2 show ?thesis by auto
  qed
qed

text \<open>What is added to a path is in force when the path is evaluated again.\<close>

lemma added_in_force: "modeset_le m (fst (policy_eval (policy_add pol p m c) p))"
  using policy_add_includes [of p pol m c] policy_fold_includes modeset_le_trans
  unfolding policy_eval_def by blast

lemma modeset_le_parts:
  assumes "modeset_le a b"
  shows "mode_accept a OR mode_accept b = mode_accept b" "mode_reject a OR mode_reject b = mode_reject b"
    "mode_prompt a OR mode_prompt b = mode_prompt b"
  using assms by (cases a; cases b; simp add: modeset_le_def gh_permfs_modeset_join_def)+

lemma and_of_or:
  assumes "a OR b = b"
  shows "b AND a = (a :: gh_permfs_mode)"
proof -
  have "(a OR b) AND a = a" by (rule bit_word_eqI) (auto simp: bit_simps)
  with assms show ?thesis by simp
qed

lemma and_zero_bits: "(a :: gh_permfs_mode) AND b = 0 \<longleftrightarrow> (\<forall>n. \<not> (bit a n \<and> bit b n))"
proof
  assume "a AND b = 0"
  then have "\<not> bit (a AND b) n" for n by simp
  then show "\<forall>n. \<not> (bit a n \<and> bit b n)" by (simp add: bit_and_iff)
qed (auto intro!: bit_word_eqI simp: bit_and_iff)

lemma and_eq_bits: "(a :: gh_permfs_mode) AND b = b \<longleftrightarrow> (\<forall>n. bit b n \<longrightarrow> bit a n)"
proof
  assume eq: "a AND b = b"
  have "bit (a AND b) n \<longleftrightarrow> bit a n \<and> bit b n" for n by (rule bit_and_iff)
  with eq show "\<forall>n. bit b n \<longrightarrow> bit a n" by auto
qed (auto intro!: bit_word_eqI simp: bit_and_iff)

section \<open>The decision for a mode\<close>

definition mode_allowed :: "gh_permfs_modeset \<Rightarrow> gh_permfs_mode \<Rightarrow> bool" where
  "mode_allowed ms m \<longleftrightarrow> m \<noteq> 0 \<and> mode_reject ms AND m = 0 \<and> mode_accept ms AND m = m"

lemma actmode_ok_iff: "fst (permfs_actmode ms m) = GHR_OK \<longleftrightarrow> mode_allowed ms m"
  by (auto simp: permfs_actmode_def mode_allowed_def Let_def)

lemma actmode_rejects_iff: "fst (permfs_actmode ms m) = GHR_PERMS_REJECTEDPOLICY \<longleftrightarrow> mode_reject ms AND m \<noteq> 0"
  by (auto simp: permfs_actmode_def Let_def)

lemma actmode_cases:
  "fst (permfs_actmode ms m) \<in> {GHR_OK, GHR_PERMS_REJECTEDPOLICY, GHR_PERMS_REJECTEDPROMPT}"
  by (auto simp: permfs_actmode_def Let_def)

lemma actmode_asks_iff:
  "fst (permfs_actmode ms m) = GHR_PERMS_REJECTEDPROMPT \<longleftrightarrow> mode_reject ms AND m = 0 \<and> \<not> mode_allowed ms m"
  by (auto simp: permfs_actmode_def mode_allowed_def Let_def)

text \<open>The mode the user is asked for\<close>

definition mode_asked :: "gh_permfs_modeset \<Rightarrow> gh_permfs_mode \<Rightarrow> gh_permfs_mode" where
  "mode_asked ms m =
     (if mode_prompt ms AND (m AND NOT (mode_accept ms)) \<noteq> 0 then mode_prompt ms else m AND NOT (mode_accept ms))"

lemma actmode_asks_for:
  assumes "mode_reject ms AND m = 0" "\<not> mode_allowed ms m"
  shows "rejected_mode (snd (permfs_actmode ms m)) = mode_asked ms m"
proof -
  have "m AND NOT (mode_accept ms AND m) = m AND NOT (mode_accept ms)"
    by (rule bit_word_eqI) (auto simp: bit_simps)
  moreover have "mode_accept ms AND m = 0 \<Longrightarrow> m AND NOT (mode_accept ms) = m"
    by (rule bit_word_eqI) (auto simp: and_zero_bits bit_and_iff bit_not_iff bit_imp_le_length)
  ultimately show ?thesis
    using assms by (auto simp: permfs_actmode_def mode_allowed_def mode_asked_def Let_def)
qed

section \<open>The prompt\<close>

lemma promptrequest_ok:
  assumes "permfs_promptrequest env al prompter safe_id path node_type hint sm cm (permfs, tr) =
     Some (GHR_OK, (permfs', tr'))"
  shows "\<exists>req resp. permfs_makerequest safe_id path node_type hint sm cm = Some (GHR_OK, req) \<and>
     gh_permprompter_request prompter env req tr = Some (GHR_OK, (Some resp, tr')) \<and>
     (resp = GH_PERMRESPONSE_ACCEPT \<and> permfs' = permfs \<or>
      resp = GH_PERMRESPONSE_ACCEPTREMEMBER \<and>
        (\<exists>entry. gh_permfs_add al permfs path (GH_PERMFS_MODESET_EMPTY\<lparr>mode_accept := sm\<rparr>)
           (GH_PERMFS_MODESET_EMPTY\<lparr>mode_accept := cm\<rparr>) = Some (GHR_OK, (entry, permfs'))))"
proof -
  from assms obtain res req where m: "permfs_makerequest safe_id path node_type hint sm cm = Some (res, req)"
    by (auto simp: permfs_promptrequest_def bind_eq_Some_conv)
  with assms have "res = 0" by (auto simp: permfs_promptrequest_def ghr_simps split: if_splits)
  with assms m obtain res2 resp0 tr2 where r: "gh_permprompter_request prompter env req tr = Some (res2, (resp0, tr2))"
    by (auto simp: permfs_promptrequest_def bind_eq_Some_conv ghr_simps)
  with assms m \<open>res = 0\<close> have "res2 = 0" by (auto simp: permfs_promptrequest_def ghr_simps split: if_splits)
  with assms m r \<open>res = 0\<close> obtain resp where p: "resp0 = Some resp"
    by (cases resp0) (auto simp: permfs_promptrequest_def ghr_simps)
  show ?thesis
    using assms m r p \<open>res = 0\<close> \<open>res2 = 0\<close>
    by (cases resp) (auto simp: permfs_promptrequest_def ghr_simps split: if_splits)
qed

lemma promptrequest_remember:
  assumes "permfs_makerequest safe_id (ident_of p rest) node_type hint sm cm = Some (GHR_OK, req)"
    and "gh_permprompter_request prompter env req tr = Some (GHR_OK, (Some GH_PERMRESPONSE_ACCEPTREMEMBER, tr'))"
    and "permfs_at al blk (policy_entries pol) permfs" "policy_short pol" "path_short p"
    and "length pol < 4294967296" "al_total al"
  shows "\<exists>permfs' blk' pol'.
     permfs_promptrequest env al prompter safe_id (ident_of p rest) node_type hint sm cm (permfs, tr) =
       Some (GHR_OK, (permfs', tr')) \<and>
     pol' = policy_add pol p (GH_PERMFS_MODESET_EMPTY\<lparr>mode_accept := sm\<rparr>) (GH_PERMFS_MODESET_EMPTY\<lparr>mode_accept := cm\<rparr>) \<and>
     permfs_at al blk' (policy_entries pol') permfs' \<and> policy_short pol' \<and>
     mode_accept (fst (policy_eval pol' p)) AND sm = sm"
proof -
  let ?m = "GH_PERMFS_MODESET_EMPTY\<lparr>mode_accept := sm\<rparr>"
  let ?c = "GH_PERMFS_MODESET_EMPTY\<lparr>mode_accept := cm\<rparr>"
  from add_refines [OF assms(3-7), of rest ?m ?c] obtain permfs' blk' i where
    "gh_permfs_add al permfs (ident_of p rest) ?m ?c = Some (GHR_OK, (Some (blk', i), permfs'))"
    "permfs_at al blk' (policy_entries (policy_add pol p ?m ?c)) permfs'" by blast
  moreover have "mode_accept (fst (policy_eval (policy_add pol p ?m ?c) p)) AND sm = sm"
    using and_of_or [OF modeset_le_parts(1) [OF added_in_force [of ?m pol p ?c]]] by simp
  ultimately show ?thesis
    using assms(1,2) policy_add_short [OF assms(4,5), of ?m ?c]
    by (auto simp: permfs_promptrequest_def ghr_simps)
qed

section \<open>The gate\<close>

lemma dtor_fdpath_ok:
  "permfs_dtor_fdpath al path r = (GHR_OK, st) \<Longrightarrow> r = (GHR_OK, st)"
  by (auto simp: permfs_dtor_fdpath_def ghr_simps Let_def split: prod.splits if_splits)

lemma dtor_fdpath_total:
  assumes "al_total al" "path_short p"
  shows "permfs_dtor_fdpath al (ident_of p rest) r = r"
proof -
  have "unat (of_nat (length p) + 1 :: size_t) = Suc (length p)"
    using assms(2) by (simp add: path_short_def unat_of_nat_nowrap unat_add_nowrap)
  then have "(of_nat (length p) + 1 :: size_t) \<noteq> 0" by auto
  with assms(1) show ?thesis
    by (simp add: permfs_dtor_fdpath_def gh_procfd_fdpathdtor_def ident_of_def gh_alloc_delete_result
        al_total_def ghr_simps split: prod.splits)
qed

lemma gate_ok:
  assumes "gh_permfs_gatefile env al prompter procfd safe_id fd m hint (permfs, tr) = Some (GHR_OK, (permfs', tr'))"
  obtains path tr1 ms ch tr2 where
    "gh_procfd_fdpathctor env al procfd fd tr = Some (GHR_OK, (Some path, tr1))"
    "gh_permfs_getmode env permfs (pf_fd fd) path tr1 = Some (GHR_OK, ((ms, ch), tr2))"
    "mode_reject ms AND m = 0"
    "mode_allowed ms m \<and> permfs' = permfs \<and> tr' = tr2 \<or>
     \<not> mode_allowed ms m \<and>
     (\<exists>node_type req resp tr3.
        permfs_makerequest safe_id path node_type hint (mode_asked ms m) 0 = Some (GHR_OK, req) \<and>
        gh_permprompter_request prompter env req tr3 = Some (GHR_OK, (Some resp, tr')) \<and>
        (resp = GH_PERMRESPONSE_ACCEPT \<and> permfs' = permfs \<or>
         resp = GH_PERMRESPONSE_ACCEPTREMEMBER \<and>
           (\<exists>entry. gh_permfs_add al permfs path (GH_PERMFS_MODESET_EMPTY\<lparr>mode_accept := mode_asked ms m\<rparr>)
              GH_PERMFS_MODESET_EMPTY = Some (GHR_OK, (entry, permfs')))))"
proof -
  from assms obtain res0 path0 tr1 where
    c: "gh_procfd_fdpathctor env al procfd fd tr = Some (res0, (path0, tr1))"
    by (auto simp: gh_permfs_gatefile_def bind_eq_Some_conv)
  with assms have "res0 = 0" by (auto simp: gh_permfs_gatefile_def ghr_simps split: if_splits)
  with assms c obtain path where p: "path0 = Some path" by (cases path0) (auto simp: gh_permfs_gatefile_def ghr_simps)
  from assms c p \<open>res0 = 0\<close> obtain res2 ms ch tr2 where
    g: "gh_permfs_getmode env permfs (pf_fd fd) path tr1 = Some (res2, ((ms, ch), tr2))"
    by (auto simp: gh_permfs_gatefile_def ghr_simps bind_eq_Some_conv)
  have "res2 = 0"
    using assms c p \<open>res0 = 0\<close> g dtor_fdpath_ok
    by (fastforce simp: gh_permfs_gatefile_def ghr_simps split: if_splits)
  obtain ares act where a: "permfs_actmode ms m = (ares, act)" by fastforce
  have rest: "(if ares = GHR_PERMS_REJECTEDPROMPT then
      (let (res, node_type, tr) = permfs_getnodetype env fd tr2 in
       if res \<noteq> 0 then Some (res, (permfs, tr))
       else map_option (permfs_dtor_fdpath al path)
              (permfs_promptrequest env al prompter safe_id path node_type hint (rejected_mode act) 0 (permfs, tr)))
     else Some (permfs_dtor_fdpath al path (ares, (permfs, tr2)))) = Some (GHR_OK, (permfs', tr'))"
    using assms c p g a actmode_cases [of ms m] \<open>res0 = 0\<close> \<open>res2 = 0\<close>
    by (auto simp: gh_permfs_gatefile_def ghr_simps)
  show thesis
  proof (cases "ares = GHR_PERMS_REJECTEDPROMPT")
    case False
    with rest have "ares = GHR_OK" "permfs' = permfs" "tr' = tr2" using dtor_fdpath_ok by fastforce+
    with a actmode_ok_iff [of ms m] have "mode_allowed ms m" by simp
    with that c p g \<open>res0 = 0\<close> \<open>res2 = 0\<close> \<open>permfs' = permfs\<close> \<open>tr' = tr2\<close> show thesis
      by (simp add: mode_allowed_def)
  next
    case True
    obtain nres node_type tr3 where n: "permfs_getnodetype env fd tr2 = (nres, (node_type, tr3))"
      by (metis prod_cases3)
    with rest True have "nres = 0" by (auto split: if_splits)
    with rest True n obtain r where
      "permfs_promptrequest env al prompter safe_id path node_type hint (rejected_mode act) 0 (permfs, tr3) = Some r"
      "permfs_dtor_fdpath al path r = (GHR_OK, (permfs', tr'))" by auto
    then have "permfs_promptrequest env al prompter safe_id path node_type hint (rejected_mode act) 0 (permfs, tr3) =
        Some (GHR_OK, (permfs', tr'))" using dtor_fdpath_ok by blast
    moreover have ms: "mode_reject ms AND m = 0" "\<not> mode_allowed ms m"
      using actmode_asks_iff [of ms m] a True by simp_all
    moreover have "rejected_mode act = mode_asked ms m" using actmode_asks_for [OF ms] a by simp
    ultimately show thesis
      using that [OF _ _ ms(1)] c p g promptrequest_ok [of env al prompter safe_id path node_type hint "mode_asked ms m" 0 permfs tr3]
        \<open>res0 = 0\<close> \<open>res2 = 0\<close>
      by fastforce
  qed
qed

lemma getmode_at:
  assumes "permfs_at al blk (policy_entries pol) permfs" "policy_short pol" "path_short p"
    and "a = env tr (Fstat fd)" "0 \<le> an_ret a" "file_type_allowed (an_mode a)"
  shows "gh_permfs_getmode env permfs fd (ident_of p rest) tr =
     Some (GHR_OK, (policy_eval pol p, (Fstat fd, a) # tr))"
  using assms getmode_refines [OF assms(2,3)]
  by (simp add: gh_permfs_getmode_def syscall_pair permfs_at_def policy_eval_def Let_def)

lemma gate_decides:
  assumes "gh_procfd_fdpathctor env al procfd fd tr = Some (GHR_OK, (Some (ident_of p rest), tr1))"
    and "permfs_at al blk (policy_entries pol) permfs" "policy_short pol" "path_short p" "al_total al"
    and "a = env tr1 (Fstat (pf_fd fd))" "0 \<le> an_ret a" "file_type_allowed (an_mode a)"
    and "ms = fst (policy_eval pol p)" "mode_reject ms AND m \<noteq> 0 \<or> mode_allowed ms m"
  shows "gh_permfs_gatefile env al prompter procfd safe_id fd m hint (permfs, tr) =
     Some (if mode_allowed ms m then GHR_OK else GHR_PERMS_REJECTEDPOLICY,
           (permfs, (Fstat (pf_fd fd), a) # tr1))"
proof -
  obtain ch where ev: "policy_eval pol p = (ms, ch)" using assms(9) by (metis prod.collapse)
  obtain ares act where ac: "permfs_actmode ms m = (ares, act)" by fastforce
  have "ares = (if mode_allowed ms m then GHR_OK else GHR_PERMS_REJECTEDPOLICY)"
    using ac actmode_ok_iff [of ms m] actmode_rejects_iff [of ms m] assms(10) by (auto simp: mode_allowed_def)
  with getmode_at [where env = env, OF assms(2-4,6-8), of rest] assms(1) ev ac dtor_fdpath_total [OF assms(5,4)]
  show ?thesis by (auto simp: gh_permfs_gatefile_def ghr_simps)
qed

text \<open>
  Two defects of the decision: a prompt is made for all flags of the prompt set and not for those
  that are asked for, and the children of the root directory match no path.
\<close>

lemma prompt_for_other_flags:
  assumes "mode_reject ms AND m = 0" "mode_prompt ms AND (m AND NOT (mode_accept ms)) \<noteq> 0"
  shows "rejected_mode (snd (permfs_actmode ms m)) = mode_prompt ms"
proof -
  have "\<not> mode_allowed ms m"
  proof
    assume "mode_allowed ms m"
    then have "m AND NOT (mode_accept ms) = 0"
      by (auto simp: mode_allowed_def and_eq_bits and_zero_bits bit_not_iff)
    with assms(2) show False by simp
  qed
  from actmode_asks_for [OF assms(1) this] assms(2) show ?thesis by (simp add: mode_asked_def)
qed

lemma root_matches_nothing:
  assumes "s \<noteq> []" "hd s \<noteq> CHR ''/''"
  shows "policy_step (CHR ''/'' # s) (''/'', m, c) acc = acc"
  using assms by (cases s; cases acc) (simp_all add: policy_step_def)

end
