(* ===== verification/PermfsRequest.thy ===== *)
theory PermfsRequest
  imports PermfsGate
begin

text \<open>
  The request \<^verbatim>\<open>permfs_makerequest\<close> builds for the prompter: the text of its description, and that it
  is made whenever the text fits.
\<close>

definition flags_desc :: "string \<Rightarrow> gh_permfs_mode \<Rightarrow> string" where
  "flags_desc bullet m = concat (map (\<lambda>f. bullet @ gh_permfs_mode_desc f) (permfs_flags m))"

definition request_desc :: "gh_permfs_mode \<Rightarrow> gh_permfs_mode \<Rightarrow> string" where
  "request_desc sm cm =
     permfs_desc_intro @
     (if sm \<noteq> 0 then permfs_desc_self @ flags_desc ''$$ - '' sm else []) @
     (if cm \<noteq> 0 then ''$$'' @ permfs_desc_children @ flags_desc ''$$- '' cm else [])"

lemma desc_sentences: "nul_free permfs_desc_intro" "nul_free permfs_desc_self" "nul_free permfs_desc_children"
    "permfs_desc_intro \<noteq> []"
  by (simp_all add: permfs_desc_intro_def permfs_desc_self_def permfs_desc_children_def)

text \<open>A string that holds \<open>v\<close> and a step that makes it hold \<open>v'\<close>\<close>

definition st_holds :: "nat \<Rightarrow> string \<Rightarrow> gh_str \<Rightarrow> bool" where
  "st_holds cap v str \<longleftrightarrow> st_wf str \<and> unat (st_capacity str) = cap \<and> st_view str = v"

definition desc_ok :: "nat \<Rightarrow> (bool \<times> gh_str) option \<Rightarrow> string \<Rightarrow> bool" where
  "desc_ok cap m v \<longleftrightarrow> (\<exists>str. m = Some (True, str) \<and> st_holds cap v str)"

lemma desc_ok_done: "st_holds cap v str \<Longrightarrow> desc_ok cap (Some (True, str)) v"
  by (simp add: desc_ok_def)

lemma desc_ok_then:
  assumes "desc_ok cap m v" "\<And>str. st_holds cap v str \<Longrightarrow> desc_ok cap (k str) v'"
  shows "desc_ok cap (desc_then m k) v'"
  using assms by (auto simp: desc_ok_def desc_then_def)

lemma st_holds_size: "st_holds cap v str \<Longrightarrow> unat (st_size str) = length v"
  using st_view_length by (auto simp: st_holds_def)

lemma appendz_fits:
  assumes "st_holds cap v str" "nul_free s" "length v + length s \<le> cap"
  shows "desc_ok cap (gh_str_appendz str s trunc) (v @ s)"
proof -
  have "cap < 18446744073709551616" using assms(1) unat_size_bound by (auto simp: st_holds_def)
  with assms have len: "unat (c_strlen s) = length s" by (simp add: c_strlen_nul_free)
  from st_appendc_result [of str "c_strlen s" s trunc] assms len obtain fits str' where
    "gh_str_appendc str s (c_strlen s) trunc = Some (fits, str')" "st_wf str'"
    "fits = (unat (st_size str) + length s \<le> cap)" "st_capacity str' = st_capacity str"
    "st_view str' = (if fits \<or> trunc then take cap (v @ s) else v)"
    by (auto simp: st_holds_def)
  with assms st_holds_size [OF assms(1)] show ?thesis
    by (auto simp: desc_ok_def gh_str_appendz_def st_holds_def)
qed

lemma mode_desc_nul_free: "nul_free (gh_permfs_mode_desc f)"
proof -
  have "list_all (\<lambda>e. nul_free (ee_desc e)) permfs_mode_table"
    by (simp add: permfs_mode_table_def enum_table_def permfs_mode_rows_def Let_def)
  then show ?thesis
    unfolding gh_permfs_mode_desc_def enum_desc_def
    by (auto simp: enum_switch_find permfs_mode_unknown_def list_all_iff find_Some_iff split: option.split)
qed

lemma desc_flags_fits:
  assumes "st_holds cap v str" "nul_free bullet"
    and "length v + length (concat (map (\<lambda>f. bullet @ gh_permfs_mode_desc f) fs)) \<le> cap"
  shows "desc_ok cap (desc_flags bullet fs str) (v @ concat (map (\<lambda>f. bullet @ gh_permfs_mode_desc f) fs))"
  using assms(1,3)
proof (induction fs arbitrary: str v)
  case Nil
  then show ?case by (simp add: desc_ok_done)
next
  case (Cons f fs)
  show ?case
    unfolding desc_flags.simps
  proof (rule desc_ok_then)
    show "desc_ok cap (gh_str_appendz str bullet False) (v @ bullet)"
      using Cons.prems assms(2) by (intro appendz_fits) auto
  next
    fix str1 assume "st_holds cap (v @ bullet) str1"
    then show "desc_ok cap (desc_then (gh_str_appendz str1 (gh_permfs_mode_desc f) True) (desc_flags bullet fs))
        (v @ concat (map (\<lambda>f. bullet @ gh_permfs_mode_desc f) (f # fs)))"
    proof (rule desc_ok_then [OF appendz_fits, OF _ mode_desc_nul_free])
      show "length (v @ bullet) + length (gh_permfs_mode_desc f) \<le> cap" using Cons.prems(2) by simp
    next
      fix str2 assume "st_holds cap ((v @ bullet) @ gh_permfs_mode_desc f) str2"
      from Cons.IH [OF this] Cons.prems(2)
      show "desc_ok cap (desc_flags bullet fs str2) (v @ concat (map (\<lambda>f. bullet @ gh_permfs_mode_desc f) (f # fs)))"
        by simp
    qed
  qed
qed

lemma flags_fit:
  "st_holds cap v str \<Longrightarrow> nul_free bullet \<Longrightarrow> length v + length (flags_desc bullet m) \<le> cap \<Longrightarrow>
   desc_ok cap (desc_flags bullet (permfs_flags m) str) (v @ flags_desc bullet m)"
  unfolding flags_desc_def by (rule desc_flags_fits)

text \<open>A sentence and its bullet points\<close>

lemma sentence_fits:
  assumes "st_holds cap v str" "nul_free s" "nul_free bullet"
    and "length v + length s + length (flags_desc bullet m) \<le> cap"
  shows "desc_ok cap (desc_then (gh_str_appendz str s True) (desc_flags bullet (permfs_flags m)))
     (v @ s @ flags_desc bullet m)"
proof (rule desc_ok_then)
  show "desc_ok cap (gh_str_appendz str s True) (v @ s)"
    using assms(4) by (intro appendz_fits [OF assms(1,2)]) simp
  fix str' assume "st_holds cap (v @ s) str'"
  from flags_fit [OF this assms(3), of m] assms(4)
  show "desc_ok cap (desc_flags bullet (permfs_flags m) str') (v @ s @ flags_desc bullet m)" by simp
qed

lemma insertnull_fits:
  assumes "st_holds cap v str" "length v < cap"
  shows "\<exists>str'. gh_str_insertnull str = Some (True, str') \<and> st_holds cap (v @ [NUL]) str'"
proof -
  have sz: "unat (st_size str) = length v" using st_holds_size [OF assms(1)] .
  have "gh_str_appendchar str NUL = gh_str_insertnull str"
    using assms by (auto simp: gh_str_appendchar_def gh_str_insertnull_def st_holds_def size_le_unat size_less_unat
        unat_sub_nowrap sz Let_def)
  with st_appendchar_result [of str NUL] assms sz show ?thesis
    by (auto simp: st_holds_def size_less_unat)
qed

lemma buildreqdescription_fits:
  assumes "st_holds cap [] str" "length (request_desc sm cm) < cap"
  shows "\<exists>str'. permfs_buildreqdescription sm cm str = Some (True, str') \<and>
     st_holds cap (request_desc sm cm @ [NUL]) str'"
proof -
  let ?a = permfs_desc_intro
  let ?b = permfs_desc_self
  let ?c = permfs_desc_children
  let ?sm = "if sm \<noteq> 0 then ?b @ flags_desc ''$$ - '' sm else []"
  let ?cm = "if cm \<noteq> 0 then ''$$'' @ ?c @ flags_desc ''$$- '' cm else []"
  have total: "length ?a + length ?sm + length ?cm < cap"
    using assms(2) unfolding request_desc_def length_append by linarith
  have self: "desc_ok cap (if sm \<noteq> GH_PERMFS_NONE then desc_then (gh_str_appendz str1 ?b True)
      (desc_flags ''$$ - '' (permfs_flags sm)) else Some (True, str1)) (?a @ ?sm)"
    if "st_holds cap ?a str1" for str1
  proof (cases "sm = 0")
    case False
    with sentence_fits [OF that, of ?b "''$$ - ''" sm] total desc_sentences show ?thesis by simp
  next
    case True
    with desc_ok_done [OF that] show ?thesis by simp
  qed
  have children: "desc_ok cap (if cm \<noteq> GH_PERMFS_NONE then
      desc_then (if st_size str2 > 0 then gh_str_appendz str2 ''$$'' False else Some (True, str2)) (\<lambda>str.
      desc_then (gh_str_appendz str ?c True) (desc_flags ''$$- '' (permfs_flags cm))) else Some (True, str2))
      ((?a @ ?sm) @ ?cm)"
    if "st_holds cap (?a @ ?sm) str2" for str2
  proof (cases "cm = 0")
    case False
    have "unat (st_size str2) \<noteq> 0" using st_holds_size [OF that] desc_sentences(4) by simp
    then have pos: "st_size str2 > 0" by (metis unat_eq_zero word_gt_0)
    have "desc_ok cap (desc_then (gh_str_appendz str2 ''$$'' False) (\<lambda>str.
        desc_then (gh_str_appendz str ?c True) (desc_flags ''$$- '' (permfs_flags cm))))
        (((?a @ ?sm) @ ''$$'') @ ?c @ flags_desc ''$$- '' cm)"
    proof (rule desc_ok_then)
      show "desc_ok cap (gh_str_appendz str2 ''$$'' False) ((?a @ ?sm) @ ''$$'')"
        using total False by (intro appendz_fits [OF that]) simp_all
      fix str3 assume "st_holds cap ((?a @ ?sm) @ ''$$'') str3"
      then show "desc_ok cap (desc_then (gh_str_appendz str3 ?c True) (desc_flags ''$$- '' (permfs_flags cm)))
          (((?a @ ?sm) @ ''$$'') @ ?c @ flags_desc ''$$- '' cm)"
        using total False desc_sentences by (intro sentence_fits) simp_all
    qed
    with False pos show ?thesis by simp
  next
    case True
    with desc_ok_done [OF that] show ?thesis by simp
  qed
  let ?k = "\<lambda>str. map_option (\<lambda>(fits, str). (True, str)) (gh_str_insertnull str)"
  have last: "desc_ok cap (?k str3) (((?a @ ?sm) @ ?cm) @ [NUL])" if "st_holds cap ((?a @ ?sm) @ ?cm) str3" for str3
    using insertnull_fits [OF that] total by (auto simp: desc_ok_def)
  have first: "desc_ok cap (gh_str_appendz str ?a True) ?a"
    using appendz_fits [OF assms(1), of ?a True] total desc_sentences by simp
  have "desc_ok cap (permfs_buildreqdescription sm cm str) (((?a @ ?sm) @ ?cm) @ [NUL])"
    unfolding permfs_buildreqdescription_def
    by (rule desc_ok_then [OF first desc_ok_then [OF self desc_ok_then [OF children last]]])
  then show ?thesis by (simp add: desc_ok_def request_desc_def)
qed

lemma makerequest_fits:
  assumes "length (request_desc sm cm) < 2048" "strlen source < 512"
  shows "\<exists>req. permfs_makerequest source path node_type hint sm cm = Some (GHR_OK, req) \<and>
     rq_group req = ''filesystem'' \<and> rq_resource req = ''node'' \<and> rq_source req = cstr source \<and>
     rq_fields req ! 0 = \<lparr>rf_key = ''key'', rf_value = \<lparr>cs_buffer = ac_chars path, cs_size = ac_len path\<rparr>\<rparr> \<and>
     rf_key (rq_fields req ! 1) = ''description'' \<and>
     cs_view (rf_value (rq_fields req ! 1)) = request_desc sm cm @ [NUL]"
proof -
  have "st_holds 2048 [] (gh_str_fromc (replicate PERMFS_DESCRIPTIONMAX NUL) 0 2048)"
    by (simp add: st_holds_def st_wf_def st_view_def gh_str_fromc_def)
  from buildreqdescription_fits [OF this assms(1)] obtain str where
    "permfs_buildreqdescription sm cm (gh_str_fromc (replicate PERMFS_DESCRIPTIONMAX NUL) 0 2048) = Some (True, str)"
    "st_view str = request_desc sm cm @ [NUL]" by (auto simp: st_holds_def)
  with assms(2) show ?thesis
    by (cases hint)
      (simp_all add: permfs_makerequest_def rq_setat_def permrequest_zero_def Let_def cs_view_def st_view_def)
qed

end
