(* ===== verification/PolicySpec.thy ===== *)
theory PolicySpec
  imports PermfsGate
begin

text \<open>
  The filesystem policy as \<^verbatim>\<open>permfs.h\<close> documents it: the mode set of an entry for the path itself, the
  one for the nodes below it, and the addition of both. \<^verbatim>\<open>gh_permfs_getmode\<close> and \<^verbatim>\<open>gh_permfs_add\<close> are
  compared with it; where they differ, what they do instead is stated.
\<close>

section \<open>The documented policy\<close>

text \<open>\<open>path_below s p\<close>: the node at \<open>p\<close> is below the directory \<open>s\<close>, at any depth.\<close>

definition path_below :: "string \<Rightarrow> string \<Rightarrow> bool" where
  "path_below s p \<longleftrightarrow> (if s = ''/'' then p \<noteq> ''/'' \<and> prefix ''/'' p else prefix (s @ ''/'') p)"

definition joins :: "gh_permfs_modeset list \<Rightarrow> gh_permfs_modeset" where
  "joins ms = fold gh_permfs_modeset_join ms GH_PERMFS_MODESET_EMPTY"

text \<open>What the policy says about a path, and about the nodes below it\<close>

definition policy_self :: "policy \<Rightarrow> string \<Rightarrow> gh_permfs_modeset" where
  "policy_self pol p =
     joins (concat (map (\<lambda>(s, m, c). if s = p then [m] else if path_below s p then [c] else []) pol))"

definition policy_children :: "policy \<Rightarrow> string \<Rightarrow> gh_permfs_modeset" where
  "policy_children pol p =
     joins (concat (map (\<lambda>(s, m, c). if s = p \<or> path_below s p then [c] else []) pol))"

text \<open>Adding: into the first entry of the path, each mode set into its own; otherwise a new entry at the end\<close>

fun policy_merge :: "policy \<Rightarrow> string \<Rightarrow> gh_permfs_modeset \<Rightarrow> gh_permfs_modeset \<Rightarrow> policy" where
  "policy_merge [] s m c = [(s, m, c)]"
| "policy_merge ((s', m', c') # pol) s m c =
     (if s' = s then (s', gh_permfs_modeset_join m' m, gh_permfs_modeset_join c' c) # pol
      else (s', m', c') # policy_merge pol s m c)"

text \<open>Every entry for a directory above the path comes before the entries for the path.\<close>

fun parents_first :: "policy \<Rightarrow> string \<Rightarrow> bool" where
  "parents_first [] p \<longleftrightarrow> True"
| "parents_first ((s, m, c) # pol) p \<longleftrightarrow>
     (if s = p then list_all (\<lambda>x. \<not> path_below (fst x) p) pol else parents_first pol p)"

section \<open>Joins\<close>

lemma join_empty [simp]:
  "gh_permfs_modeset_join GH_PERMFS_MODESET_EMPTY m = m" "gh_permfs_modeset_join m GH_PERMFS_MODESET_EMPTY = m"
  by (cases m; simp add: gh_permfs_modeset_join_def)+

lemma join_again [simp]:
  "gh_permfs_modeset_join (gh_permfs_modeset_join a b) b = gh_permfs_modeset_join a b"
  unfolding modeset_join_laws(2) modeset_join_laws(3) ..

lemma fold_join: "fold gh_permfs_modeset_join ms a = gh_permfs_modeset_join a (joins ms)"
proof (induction ms arbitrary: a)
  case Nil
  then show ?case by (simp add: joins_def)
next
  case (Cons m ms)
  have "joins (m # ms) = gh_permfs_modeset_join m (joins ms)"
    using Cons.IH [of m] by (simp add: joins_def)
  moreover have "gh_permfs_modeset_join m a = gh_permfs_modeset_join a m" by (rule modeset_join_laws(1))
  ultimately show ?case
    using Cons.IH [of "gh_permfs_modeset_join m a"] by (simp add: modeset_join_laws(2))
qed

lemma joins_Nil [simp]: "joins [] = GH_PERMFS_MODESET_EMPTY"
  by (simp add: joins_def)

lemma joins_Cons [simp]: "joins (m # ms) = gh_permfs_modeset_join m (joins ms)"
  unfolding joins_def [of "m # ms"] fold_simps join_empty(2) by (rule fold_join)

lemma joins_append [simp]: "joins (ms @ ms') = gh_permfs_modeset_join (joins ms) (joins ms')"
  by (induction ms) (simp_all add: modeset_join_laws(2))

lemma policy_self_simps [simp]:
  "policy_self [] p = GH_PERMFS_MODESET_EMPTY"
  "policy_self ((s, m, c) # pol) p =
     gh_permfs_modeset_join (if s = p then m else if path_below s p then c else GH_PERMFS_MODESET_EMPTY)
       (policy_self pol p)"
  "policy_self (pol @ pol') p = gh_permfs_modeset_join (policy_self pol p) (policy_self pol' p)"
  by (simp_all add: policy_self_def)

lemma policy_children_simps [simp]:
  "policy_children [] p = GH_PERMFS_MODESET_EMPTY"
  "policy_children ((s, m, c) # pol) p =
     gh_permfs_modeset_join (if s = p \<or> path_below s p then c else GH_PERMFS_MODESET_EMPTY)
       (policy_children pol p)"
  "policy_children (pol @ pol') p = gh_permfs_modeset_join (policy_children pol p) (policy_children pol' p)"
  by (simp_all add: policy_children_def)

section \<open>Evaluation\<close>

lemma below_match:
  assumes "s \<noteq> ''/''"
  shows "s \<noteq> p \<and> prefix s p \<and> p ! length s = CHR ''/'' \<longleftrightarrow> path_below s p"
proof
  assume l: "s \<noteq> p \<and> prefix s p \<and> p ! length s = CHR ''/''"
  then obtain t where t: "p = s @ t" "t \<noteq> []" by (auto simp: prefix_def)
  with l obtain u where "t = CHR ''/'' # u" by (cases t) auto
  with t assms show "path_below s p" by (simp add: path_below_def)
next
  assume "path_below s p"
  with assms have "prefix (s @ ''/'') p" by (simp add: path_below_def)
  then obtain u where "p = s @ CHR ''/'' # u" by (auto simp: prefix_def)
  then show "s \<noteq> p \<and> prefix s p \<and> p ! length s = CHR ''/''" by simp
qed

lemma not_below_self [simp]: "\<not> path_below p p"
  by (auto simp: path_below_def prefix_def)

lemma step_below:
  assumes "s \<noteq> ''/''"
  shows "policy_step p (s, m, c) (a, b) =
     (if s = p then (gh_permfs_modeset_join a m, gh_permfs_modeset_join b c)
      else if path_below s p then (gh_permfs_modeset_join a c, gh_permfs_modeset_join a c) else (a, b))"
  using below_match [OF assms, of p] by (auto simp: policy_step_def)

lemma fold_self:
  "''/'' \<notin> fst ` set pol \<Longrightarrow> fst (fold (policy_step p) pol (a, b)) = gh_permfs_modeset_join a (policy_self pol p)"
proof (induction pol arbitrary: a b)
  case Nil
  then show ?case by simp
next
  case (Cons x pol)
  obtain s m c where "x = (s, m, c)" by (cases x)
  with Cons show ?case by (auto simp: step_below modeset_join_laws)
qed

lemma fold_no_parent:
  "''/'' \<notin> fst ` set pol \<Longrightarrow> list_all (\<lambda>x. \<not> path_below (fst x) p) pol \<Longrightarrow>
   snd (fold (policy_step p) pol (a, b)) = gh_permfs_modeset_join b (policy_children pol p)"
proof (induction pol arbitrary: a b)
  case Nil
  then show ?case by simp
next
  case (Cons x pol)
  obtain s m c where "x = (s, m, c)" by (cases x)
  with Cons show ?case by (auto simp: step_below modeset_join_laws)
qed

lemma fold_children:
  "''/'' \<notin> fst ` set pol \<Longrightarrow> parents_first pol p \<Longrightarrow>
   snd (fold (policy_step p) pol (a, a)) = gh_permfs_modeset_join a (policy_children pol p)"
proof (induction pol arbitrary: a)
  case Nil
  then show ?case by simp
next
  case (Cons x pol)
  obtain s m c where x: "x = (s, m, c)" by (cases x)
  show ?case
  proof (cases "s = p")
    case True
    with Cons.prems x fold_no_parent show ?thesis by (auto simp: step_below modeset_join_laws)
  next
    case False
    with Cons x show ?thesis by (auto simp: step_below modeset_join_laws)
  qed
qed

lemma eval_self: "''/'' \<notin> fst ` set pol \<Longrightarrow> fst (policy_eval pol p) = policy_self pol p"
  by (simp add: policy_eval_def fold_self)

lemma eval_children: "''/'' \<notin> fst ` set pol \<Longrightarrow> parents_first pol p \<Longrightarrow> snd (policy_eval pol p) = policy_children pol p"
  by (simp add: policy_eval_def fold_children)

text \<open>After a later entry for a parent, the modes for the children are those for the path itself.\<close>

lemma eval_leak:
  assumes "''/'' \<notin> fst ` set (pre @ (s, m, c) # post)" "path_below s p"
    and "list_all (\<lambda>x. \<not> path_below (fst x) p) post"
  shows "snd (policy_eval (pre @ (s, m, c) # post) p) =
     gh_permfs_modeset_join (policy_self (pre @ [(s, m, c)]) p) (policy_children post p)"
proof -
  obtain a b where ab: "fold (policy_step p) pre (GH_PERMFS_MODESET_EMPTY, GH_PERMFS_MODESET_EMPTY) = (a, b)"
    by (metis surj_pair)
  have "s \<noteq> p" "s \<noteq> ''/''" using assms(1,2) by auto
  moreover have "a = policy_self pre p" using fold_self [of pre p] ab assms(1) by (metis fst_conv image_Un join_empty(1) set_append UnI1)
  moreover have "''/'' \<notin> fst ` set post" using assms(1) by auto
  ultimately show ?thesis
    using assms(2) fold_no_parent [OF _ assms(3)] ab
    step_below [of s p m c a b] by (simp add: policy_eval_def)
qed

section \<open>Addition\<close>

lemma merge_new: "s \<notin> fst ` set pol \<Longrightarrow> policy_merge pol s m c = pol @ [(s, m, c)]"
  by (induction pol) auto

lemma add_is_merge:
  "policy_add pol s m c =
     (if s \<in> fst ` set pol then policy_merge pol s (gh_permfs_modeset_join m c) GH_PERMFS_MODESET_EMPTY
      else policy_merge pol s m c)"
proof (induction pol)
  case Nil
  then show ?case by simp
next
  case (Cons x pol)
  obtain s' m' c' where "x = (s', m', c')" by (cases x)
  with Cons show ?case by (auto simp: merge_is_join modeset_join_laws(2))
qed

lemma self_includes: "(p, m, c) \<in> set pol \<Longrightarrow> modeset_le m (policy_self pol p)"
proof (induction pol)
  case Nil
  then show ?case by simp
next
  case (Cons x pol)
  show ?case
  proof (cases "x = (p, m, c)")
    case True
    then show ?thesis by (simp add: modeset_le_join)
  next
    case False
    with Cons have "modeset_le m (policy_self pol p)" by simp
    then show ?thesis by (cases x) (auto intro: modeset_le_trans modeset_le_join(2))
  qed
qed

lemma self_includes_below: "(s, m, c) \<in> set pol \<Longrightarrow> path_below s p \<Longrightarrow> modeset_le c (policy_self pol p)"
proof (induction pol)
  case Nil
  then show ?case by simp
next
  case (Cons x pol)
  show ?case
  proof (cases "x = (s, m, c)")
    case True
    with Cons.prems(2) show ?thesis by (auto simp: modeset_le_join)
  next
    case False
    with Cons have "modeset_le c (policy_self pol p)" by simp
    then show ?thesis by (cases x) (auto intro: modeset_le_trans modeset_le_join(2))
  qed
qed

text \<open>The entry that an addition goes into is the first one of the path.\<close>

lemma merge_first:
  "\<exists>i < length (policy_merge pol s m c). fst (policy_merge pol s m c ! i) = s \<and>
     (\<forall>j < i. fst (policy_merge pol s m c ! j) \<noteq> s)"
proof (induction pol s m c rule: policy_merge.induct)
  case (1 s m c)
  then show ?case by simp
next
  case (2 s' m' c' pol s m c)
  show ?case
  proof (cases "s' = s")
    case True
    then show ?thesis by (intro exI [of _ 0]) simp
  next
    case False
    from 2 [OF False] obtain i where i: "i < length (policy_merge pol s m c)" "fst (policy_merge pol s m c ! i) = s"
      "\<forall>j < i. fst (policy_merge pol s m c ! j) \<noteq> s" by blast
    from False i show ?thesis
      by (intro exI [of _ "Suc i"]) (auto simp: nth_Cons split: nat.split)
  qed
qed

lemma add_returns:
  assumes "permfs_at al blk (policy_entries pol) permfs" "policy_short pol" "path_short s"
    and "length pol < 4294967296" "al_total al"
  shows "\<exists>permfs' blk' i pol'.
     gh_permfs_add al permfs (ident_of s rest) m c = Some (GHR_OK, (Some (blk', i), permfs')) \<and>
     permfs_at al blk' (policy_entries pol') permfs' \<and>
     pol' = (if s \<in> fst ` set pol then policy_merge pol s (gh_permfs_modeset_join m c) GH_PERMFS_MODESET_EMPTY
             else policy_merge pol s m c) \<and>
     i < length pol' \<and> fst (pol' ! i) = s \<and> (\<forall>j < i. fst (pol' ! j) \<noteq> s)"
proof (cases "s \<in> fst ` set pol")
  case False
  from add_new_entry [OF assms(1-3) False assms(4,5), of rest m c] False show ?thesis
    by (fastforce simp: merge_new nth_append image_iff)
next
  case True
  then obtain i m' c' where i: "i < length pol" "pol ! i = (s, m', c')" "\<forall>j < i. fst (pol ! j) \<noteq> s"
    by (rule first_with_path)
  from find_old_entry [OF assms(1-3) _ i(1) _ i(3), of 0 rest] i(2) assms(4)
  have fnd: "permfs_find permfs (ident_of s rest) 0 = Some (GHR_OK, Some (blk, i))" by simp
  from add_refines [OF assms, of rest m c] obtain permfs' blk' i' where
    add: "gh_permfs_add al permfs (ident_of s rest) m c = Some (GHR_OK, (Some (blk', i'), permfs'))"
      "permfs_at al blk' (policy_entries (policy_add pol s m c)) permfs'" by blast
  with fnd have i': "i' = i" by (auto simp: gh_permfs_add_def ghr_simps bind_eq_Some_conv)
  have "policy_merge pol s (gh_permfs_modeset_join m c) GH_PERMFS_MODESET_EMPTY = policy_add pol s m c"
    using add_is_merge [of pol s m c] True by simp
  moreover have "i < length (policy_add pol s m c) \<and> fst (policy_add pol s m c ! i) = s \<and>
      (\<forall>j < i. fst (policy_add pol s m c ! j) \<noteq> s)"
    using i by (simp add: policy_add_old [OF i])
  ultimately show ?thesis using add i' True by auto
qed

text \<open>A remembered answer\<close>

lemma merge_includes:
  "\<exists>m' c'. (s, m', c') \<in> set (policy_merge pol s m c) \<and> modeset_le m m' \<and> modeset_le c c'"
proof (induction pol s m c rule: policy_merge.induct)
  case (1 s m c)
  then show ?case by auto
next
  case (2 s' m' c' pol s m c)
  have "modeset_le m (gh_permfs_modeset_join m' m)" "modeset_le c (gh_permfs_modeset_join c' c)"
    by (rule modeset_le_join)+
  then show ?case using 2 by (cases "s' = s") fastforce+
qed

lemma accept_le: "modeset_le (GH_PERMFS_MODESET_EMPTY\<lparr>mode_accept := sm\<rparr>) ms \<Longrightarrow> mode_accept ms AND sm = sm"
  using and_of_or [OF modeset_le_parts(1), of "GH_PERMFS_MODESET_EMPTY\<lparr>mode_accept := sm\<rparr>" ms] by simp

lemma prompt_remembers:
  assumes "permfs_makerequest safe_id (ident_of p rest) node_type hint sm cm = Some (GHR_OK, req)"
    and "gh_permprompter_request prompter env req tr = Some (GHR_OK, (Some GH_PERMRESPONSE_ACCEPTREMEMBER, tr'))"
    and "permfs_at al blk (policy_entries pol) permfs" "policy_short pol" "path_short p"
    and "length pol < 4294967296" "al_total al"
    and "acc = (\<lambda>m. GH_PERMFS_MODESET_EMPTY\<lparr>mode_accept := m\<rparr>)"
  shows "\<exists>permfs' blk' pol'.
     permfs_promptrequest env al prompter safe_id (ident_of p rest) node_type hint sm cm (permfs, tr) =
       Some (GHR_OK, (permfs', tr')) \<and>
     permfs_at al blk' (policy_entries pol') permfs' \<and> policy_short pol' \<and>
     pol' = (if p \<in> fst ` set pol then policy_merge pol p (acc (sm OR cm)) GH_PERMFS_MODESET_EMPTY
             else policy_merge pol p (acc sm) (acc cm)) \<and>
     mode_accept (fst (policy_eval pol' p)) AND sm = sm \<and>
     (\<forall>q. p \<notin> fst ` set pol \<and> path_below p q \<longrightarrow> mode_accept (policy_self pol' q) AND cm = cm)"
proof -
  have j: "gh_permfs_modeset_join (acc sm) (acc cm) = acc (sm OR cm)"
    by (simp add: assms(8) gh_permfs_modeset_join_def)
  have "modeset_le (acc cm) (policy_self (policy_merge pol p (acc sm) (acc cm)) q)" if b: "path_below p q" for q
  proof -
    from merge_includes [of p pol "acc sm" "acc cm"] obtain m' c' where
      "(p, m', c') \<in> set (policy_merge pol p (acc sm) (acc cm))" "modeset_le (acc cm) c'" by blast
    with self_includes_below [OF _ b] show ?thesis by (blast intro: modeset_le_trans)
  qed
  then have below: "mode_accept (policy_self (policy_merge pol p (acc sm) (acc cm)) q) AND cm = cm" if "path_below p q" for q
    using that accept_le assms(8) by simp
  from promptrequest_remember [where env = env, OF assms(1-7)] obtain permfs' blk' where r:
    "permfs_promptrequest env al prompter safe_id (ident_of p rest) node_type hint sm cm (permfs, tr) =
       Some (GHR_OK, (permfs', tr'))"
    "permfs_at al blk' (policy_entries (policy_add pol p (acc sm) (acc cm))) permfs'"
    "policy_short (policy_add pol p (acc sm) (acc cm))"
    "mode_accept (fst (policy_eval (policy_add pol p (acc sm) (acc cm)) p)) AND sm = sm"
    by (auto simp: assms(8))
  have pol': "policy_add pol p (acc sm) (acc cm) =
      (if p \<in> fst ` set pol then policy_merge pol p (acc (sm OR cm)) GH_PERMFS_MODESET_EMPTY
       else policy_merge pol p (acc sm) (acc cm))"
    using add_is_merge [of pol p "acc sm" "acc cm"] by (simp only: j)
  have "\<forall>q. p \<notin> fst ` set pol \<and> path_below p q \<longrightarrow>
      mode_accept (policy_self (policy_add pol p (acc sm) (acc cm)) q) AND cm = cm"
    using below by (simp add: pol')
  with r pol' show ?thesis by blast
qed

section \<open>An example\<close>

text \<open>The policy the examples use\<close>

definition ex_modes :: gh_permfs_modeset where
  "ex_modes = \<lparr>mode_reject = GH_PERMFS_WRITE, mode_accept = GH_PERMFS_READ, mode_prompt = 0\<rparr>"

definition ex_policy :: policy where
  "ex_policy = [(''/tmp'', ex_modes, GH_PERMFS_MODESET_EMPTY), (''/etc'', GH_PERMFS_MODESET_EMPTY, ex_modes)]"

definition ex_permfs :: gh_permfs where
  "ex_permfs = \<lparr>da_buffer = Some (policy_entries ex_policy), da_capacity = 128, da_size = 2, da_block = 1\<rparr>"

lemma ex_flags: "permfs_flags 2048 = [2048]" "permfs_flags 4096 = [4096]" "permfs_flags 0 = []"
  by (simp_all add: permfs_flags_bits upt_rec)

lemma ex_idents: "flag_idents 2048 = [''read'']" "flag_idents 4096 = [''write'']" "flag_idents 0 = []"
proof -
  have "gh_permfs_mode_ident 2048 = Some ''read''" "gh_permfs_mode_ident 4096 = Some ''write''"
    by (simp_all add: gh_permfs_mode_ident_def permfs_mode_table_def enum_table_def permfs_mode_rows_def
        enum_ident_def Let_def)
  then show "flag_idents 2048 = [''read'']" "flag_idents 4096 = [''write'']" "flag_idents 0 = []"
    by (simp_all add: flag_idents_def ex_flags)
qed

lemma ex_policy_ok: "policy_ok ex_policy" "policy_short ex_policy"
proof -
  show "policy_ok ex_policy"
    by (simp add: policy_ok_def ex_policy_def ex_modes_def item_ok_def item_toks_def modeset_fields_def
        field_name_def path_plain_def plain_char_def modeset_valid_def gh_permfs_ismodevalid_def ex_idents)
  then show "policy_short ex_policy" by (rule policy_ok_short)
qed

lemma ex_permfs_at: "permfs_at ex_alloc 1 (policy_entries ex_policy) ex_permfs"
  by (simp add: permfs_at_def ex_permfs_def da_reserved_def da_items_def permfsfilelist_daopts_def
      policy_entries_def ex_policy_def)

lemma ex_permfs_policy: "policy_of (da_items ex_permfs) = ex_policy"
  using policy_of_entries [OF ex_policy_ok(2)] ex_permfs_at by (simp add: permfs_at_def)

text \<open>An environment with a descriptor 5 that is the directory \<^verbatim>\<open>/tmp\<close>, and a user who accepts\<close>

definition ex_env :: env where
  "ex_env tr c =
     (case c of
        Readlinkat _ _ _ \<Rightarrow> (plain_answer 4)\<lparr>an_data := ''/tmp''\<rparr>
      | Fstat _ \<Rightarrow> (plain_answer 0)\<lparr>an_mode := 0x4000\<rparr>
      | AskPrompter _ \<Rightarrow> plain_answer 2
      | _ \<Rightarrow> plain_answer 0)"

definition ex_fd :: gh_pathfd where
  "ex_fd = \<lparr>pf_fd = 5, pf_trailing = []\<rparr>"

definition ex_procfd :: gh_procfd where
  "ex_procfd = \<lparr>pr_fd = 7\<rparr>"

lemma ex_path: "path_short ''/tmp''" "path_short ''/etc''"
  by (simp_all add: path_short_def)

lemma fdpath_tmp:
  assumes "\<And>tr fd name n. env tr (Readlinkat fd name n) = (plain_answer 4)\<lparr>an_data := ''/tmp''\<rparr>"
    and "\<And>tr fd. 0 < an_nlink (env tr (Fstat fd))"
  shows "gh_procfd_fdpathctor env ex_alloc procfd ex_fd tr =
     Some (GHR_OK, (Some (ident_of ''/tmp'' (replicate 123 NUL)), procfd_trace env procfd ex_fd tr))"
proof -
  have "\<exists>path. gh_procfd_fdpathctor env ex_alloc procfd ex_fd tr =
      Some (GHR_OK, (Some path, procfd_trace env procfd ex_fd tr)) \<and>
      ac_ptr path = Some (''/tmp'' @ replicate (128 - length ''/tmp'') NUL) \<and> ac_len path = of_nat (length ''/tmp'')"
    by (rule fdpathctor_short)
      (simp_all add: ex_fd_def ex_alloc_def procfd_link_def assms plain_answer_def)
  then obtain path where p: "gh_procfd_fdpathctor env ex_alloc procfd ex_fd tr =
      Some (GHR_OK, (Some path, procfd_trace env procfd ex_fd tr))"
    "ac_ptr path = Some (''/tmp'' @ replicate (Suc 123) NUL)" "ac_len path = 4" by auto
  have "path = ident_of ''/tmp'' (replicate 123 NUL)"
    by (rule gh_abscanonicalpath.equality) (use p(2,3) in \<open>simp_all only: ident_of_def gh_abscanonicalpath.simps
      replicate_Suc unit_eq list.size of_nat_numeral\<close>, simp_all)
  with p(1) show ?thesis by simp
qed

lemma ex_fdpath:
  "gh_procfd_fdpathctor ex_env ex_alloc ex_procfd ex_fd tr =
     Some (GHR_OK, (Some (ident_of ''/tmp'' (replicate 123 NUL)), procfd_trace ex_env ex_procfd ex_fd tr))"
  by (rule fdpath_tmp) (simp_all add: ex_env_def plain_answer_def)

lemma ex_eval: "policy_eval ex_policy ''/tmp'' = (ex_modes, GH_PERMFS_MODESET_EMPTY)"
  by (simp add: policy_eval_def ex_policy_def policy_step_def)

lemma ex_answers:
  "an_ret (ex_env tr (Fstat n)) = 0" "file_type_allowed (an_mode (ex_env tr (Fstat n)))"
  by (simp_all add: ex_env_def plain_answer_def file_type_allowed_def S_ISREG_def S_ISDIR_def S_ISLNK_def)

lemma ex_gate_accepts:
  "\<exists>tr'. gh_permfs_gatefile ex_env ex_alloc (gh_permprompter_new app_prompter) ex_procfd ''safe'' ex_fd 2048 None
     (ex_permfs, []) = Some (GHR_OK, (ex_permfs, tr'))"
  using gate_decides [where env = ex_env, OF ex_fdpath ex_permfs_at ex_policy_ok(2) ex_path(1) ex_alloc_total refl,
      where m = 2048 and tr = "[]" and prompter = "gh_permprompter_new app_prompter" and safe_id = "''safe''" and hint = None]
  by (simp add: ex_answers ex_eval ex_modes_def mode_allowed_def)

end
