(* ===== verification/Sha256.thy ===== *)
theory Sha256
  imports DynamicArray Kernel
begin

text \<open>
  The SHA256 provider over OpenSSL (\<^verbatim>\<open>sha256provider_openssl.c\<close>). The functions of OpenSSL are
  calls of the environment: a digest context remembers what it has been updated with, so the final
  call names these bytes, and its answer holds the digest that is stored.
\<close>

abbreviation (input) GH_SHA256_DIGESTLEN :: nat where "GH_SHA256_DIGESTLEN \<equiv> 32"
abbreviation (input) SEEK_SET :: int where "SEEK_SET \<equiv> 0"
abbreviation (input) SEEK_END :: int where "SEEK_END \<equiv> 2"

text \<open>A hash is its 32 characters.\<close>

type_synonym gh_sha256 = string

definition sha256_zero :: gh_sha256 where
  "sha256_zero = replicate GH_SHA256_DIGESTLEN NUL"

text \<open>The loop of \<^verbatim>\<open>gh_sha256_eq\<close> over the \<open>n\<close> characters from \<open>i\<close> on\<close>

fun sha256_eq_loop :: "gh_sha256 \<Rightarrow> gh_sha256 \<Rightarrow> nat \<Rightarrow> nat \<Rightarrow> bool" where
  "sha256_eq_loop lhs rhs i 0 = True"
| "sha256_eq_loop lhs rhs i (Suc n) =
     (if lhs ! i \<noteq> rhs ! i then False else sha256_eq_loop lhs rhs (Suc i) n)"

definition gh_sha256_eq :: "gh_sha256 \<Rightarrow> gh_sha256 \<Rightarrow> bool" where
  "gh_sha256_eq lhs rhs = sha256_eq_loop lhs rhs 0 GH_SHA256_DIGESTLEN"

text \<open>The first \<open>n\<close> characters of \<open>buffer\<close> are hashed; the hash is \<^verbatim>\<open>*out_hash\<close>, when stored.\<close>

definition gh_sha256_buffer ::
  "env \<Rightarrow> nat \<Rightarrow> string \<Rightarrow> trace \<Rightarrow> gh_result \<times> (gh_sha256 option \<times> trace)" where
  "gh_sha256_buffer env n buffer tr =
     (let (ctx, tr) = syscall env EvpCtxNew tr in
      if an_ret ctx = 0 then (GHR_SHA256_FAILED, (None, tr))
      else
        (let (a, tr) = syscall env EvpDigestInit tr in
         if an_ret a \<noteq> 1 then (GHR_SHA256_FAILED, (None, tr))
         else
           (let (a, tr) = syscall env (EvpDigestUpdate (take n buffer)) tr in
            if an_ret a \<noteq> 1 then (GHR_SHA256_FAILED, (None, tr))
            else
              (let (digest, tr) = syscall env OpensslMalloc tr in
               if an_ret digest = 0 then (GHR_SHA256_FAILED, (None, tr))
               else
                 (let (a, tr) = syscall env (EvpDigestFinal (take n buffer)) tr in
                  if an_ret a \<noteq> 1 then (GHR_SHA256_FAILED, (None, tr))
                  else if length (an_data a) \<noteq> GH_SHA256_DIGESTLEN then (GHR_SHA256_FAILED, (None, tr))
                  else (GHR_OK, (Some (an_data a), tr)))))))"

text \<open>The label \<^verbatim>\<open>free_buffer\<close>\<close>

definition sha256_free_buffer :: "gh_alloc \<Rightarrow> size_t \<Rightarrow> gh_result \<times> 'r \<Rightarrow> gh_result \<times> 'r" where
  "sha256_free_buffer al n r =
     (let inner_res = fst (gh_alloc_delete al (Some (Some ())) n) in
      (if ghr_iserr inner_res then inner_res else fst r, snd r))"

definition gh_sha256_fd ::
  "env \<Rightarrow> gh_alloc \<Rightarrow> int \<Rightarrow> trace \<Rightarrow> gh_result \<times> (gh_sha256 option \<times> trace)" where
  "gh_sha256_fd env al fd tr =
     (let (a, tr) = syscall env (Lseek fd 0 SEEK_END) tr in
      if an_ret a < 0 then (ghr_errno GHR_SHA256_FAILED a, (None, tr))
      else
        (let n = word_of_int (an_ret a) :: size_t; (a, tr) = syscall env (Lseek fd 0 SEEK_SET) tr in
         if an_ret a < 0 then (ghr_errno GHR_SHA256_FAILED a, (None, tr))
         else
           (let (res, buffer) = gh_alloc_new al () (Some None) n in
            if ghr_iserr res then (res, (None, tr))
            else
              (let (r, tr) = syscall env (Read fd n) tr in
               if an_ret r < 0 then sha256_free_buffer al n (ghr_errno GHR_SHA256_FAILED r, (None, tr))
               else if word_of_int (an_ret r) \<noteq> n
               then sha256_free_buffer al n (GHR_SHA256_FAILED, (None, tr))
               else
                 (let (a, tr) = syscall env (Lseek fd 0 SEEK_SET) tr in
                  if an_ret a < 0 then sha256_free_buffer al n (GHR_SHA256_FAILED, (None, tr))
                  else sha256_free_buffer al n (gh_sha256_buffer env (unat n) (an_data r) tr))))))"

section \<open>What the provider promises\<close>

text \<open>
  The documented behaviour of OpenSSL: the digest of a buffer is a function of its bytes, and it
  has 32 bytes.
\<close>

definition sha256_env :: "(string \<Rightarrow> gh_sha256) \<Rightarrow> env \<Rightarrow> bool" where
  "sha256_env H env \<longleftrightarrow>
     (\<forall>tr. an_ret (env tr EvpCtxNew) = 1 \<and> an_ret (env tr EvpDigestInit) = 1 \<and>
           an_ret (env tr OpensslMalloc) = 1) \<and>
     (\<forall>tr s. an_ret (env tr (EvpDigestUpdate s)) = 1 \<and> an_ret (env tr (EvpDigestFinal s)) = 1 \<and>
             an_data (env tr (EvpDigestFinal s)) = H s) \<and>
     (\<forall>s. length (H s) = GH_SHA256_DIGESTLEN)"

text \<open>A file that can be sought and read as a whole.\<close>

definition file_holds :: "env \<Rightarrow> int \<Rightarrow> string \<Rightarrow> bool" where
  "file_holds env fd s \<longleftrightarrow>
     (\<forall>tr. an_ret (env tr (Lseek fd 0 SEEK_END)) = int (length s) \<and>
           an_ret (env tr (Lseek fd 0 SEEK_SET)) = 0 \<and>
           an_ret (env tr (Read fd (of_nat (length s)))) = int (length s) \<and>
           an_data (env tr (Read fd (of_nat (length s)))) = s)"

lemma eq_loop_take:
  "i + n \<le> length a \<Longrightarrow> i + n \<le> length b \<Longrightarrow>
   sha256_eq_loop a b i n \<longleftrightarrow> take n (drop i a) = take n (drop i b)"
proof (induction n arbitrary: i)
  case 0
  then show ?case by simp
next
  case (Suc n)
  then have "drop i a = a ! i # drop (Suc i) a" "drop i b = b ! i # drop (Suc i) b"
    by (simp_all add: Cons_nth_drop_Suc)
  with Suc show ?case by simp
qed

lemma sha256_eq_iff:
  "length a = GH_SHA256_DIGESTLEN \<Longrightarrow> length b = GH_SHA256_DIGESTLEN \<Longrightarrow> gh_sha256_eq a b \<longleftrightarrow> a = b"
  by (simp add: gh_sha256_eq_def eq_loop_take)

lemma sha256_buffer_hashes:
  assumes "sha256_env H env"
  shows "\<exists>tr'. gh_sha256_buffer env n s tr = (GHR_OK, (Some (H (take n s)), tr'))"
  using assms by (simp add: gh_sha256_buffer_def syscall_pair sha256_env_def Let_def)

text \<open>Whatever OpenSSL does, a stored hash has 32 characters.\<close>

lemma sha256_buffer_length:
  "gh_sha256_buffer env n s tr = (res, (h, tr')) \<Longrightarrow>
   res = GHR_OK \<longleftrightarrow> h \<noteq> None" "gh_sha256_buffer env n s tr = (res, (Some h', tr')) \<Longrightarrow> length h' = 32"
  by (auto simp: gh_sha256_buffer_def syscall_pair Let_def ghr_defs split: if_splits)

lemma sha256_fd_hashes:
  assumes "sha256_env H env" "file_holds env fd s" "al_total al" "0 < length s"
    "length s < 9223372036854775808"
  shows "\<exists>tr'. gh_sha256_fd env al fd tr = (GHR_OK, (Some (H s), tr'))"
proof -
  have n: "unat (of_nat (length s) :: size_t) = length s" using assms(5) by (simp add: unat_of_nat_nowrap)
  with assms(4) have nz: "(of_nat (length s) :: size_t) \<noteq> 0" by auto
  obtain tr1 where b: "gh_sha256_buffer env (length s) s t = (GHR_OK, (Some (H s), tr1 t))" for t
    using sha256_buffer_hashes [OF assms(1), of "length s" s] by (metis order_refl take_all)
  show ?thesis
    using assms(2,3) n nz b
    by (simp add: gh_sha256_fd_def syscall_pair file_holds_def al_total_def Let_def ghr_defs
        gh_alloc_new_result gh_alloc_delete_result sha256_free_buffer_def)
qed

end
