(* ===== verification/PermExec.thy ===== *)
theory PermExec
  imports Permfs PermfsFile Sha256
begin

text \<open>
  The permissions to run external programs (\<^verbatim>\<open>perms/permexec.c\<close>): the list of combined hashes, the
  hash of an executable and its arguments, the request, the gate, and the part of the policy file
  that holds the list. A list of C strings stands for a vector that a NULL pointer ends.
\<close>

section \<open>The list of hashes\<close>

datatype gh_permexec_mode = GH_PERMEXEC_ACCEPT | GH_PERMEXEC_REJECT | GH_PERMEXEC_PROMPT

record gh_permexec_entry =
  xe_mode :: gh_permexec_mode
  xe_hash :: gh_sha256

type_synonym gh_permexec_hashlist = "gh_permexec_entry gh_dynamicarray"

record gh_permexec =
  px_default_mode :: gh_permexec_mode
  px_hashlist :: gh_permexec_hashlist
  px_allowed_env :: "string option list"

abbreviation (input) GH_PERMEXEC_MAXARGS :: int where "GH_PERMEXEC_MAXARGS \<equiv> 2048"
abbreviation (input) GH_PERMEXEC_MAXALLOWEDENV :: nat where "GH_PERMEXEC_MAXALLOWEDENV \<equiv> 32"
abbreviation (input) INT_MAX :: nat where "INT_MAX \<equiv> 2147483647"

definition permexechashlist_daopts :: "gh_permexec_entry gh_dynamicarrayoptions" where
  "permexechashlist_daopts =
     \<lparr>initial_capacity = 128, max_capacity = GH_DYNAMICARRAY_NOMAXCAPACITY, element_size = 36,
      dtorelement_func = None\<rparr>"

definition gh_permexec_hashlist_ctor ::
  "gh_alloc \<Rightarrow> gh_permexec_hashlist \<Rightarrow> gh_result \<times> gh_permexec_hashlist" where
  "gh_permexec_hashlist_ctor al list = gh_dynamicarray_ctor al permexechashlist_daopts list"

definition gh_permexec_hashlist_add ::
  "gh_alloc \<Rightarrow> gh_permexec_hashlist \<Rightarrow> gh_permexec_entry \<Rightarrow> (gh_result \<times> gh_permexec_hashlist) option" where
  "gh_permexec_hashlist_add al list entry = gh_dynamicarray_append al permexechashlist_daopts list entry"

text \<open>The loop of \<^verbatim>\<open>tryget\<close> from index \<open>i\<close> on; the second component is \<^verbatim>\<open>*out_entry\<close>, NULL before.\<close>

function hashlist_find ::
  "gh_permexec_hashlist \<Rightarrow> gh_sha256 \<Rightarrow> nat \<Rightarrow> (gh_result \<times> da_ptr option) option" where
  "hashlist_find list h i =
     (if i < unat (da_size list) then
        Option.bind (da_deref list (da_block list, i)) (\<lambda>entry.
        if gh_sha256_eq (xe_hash entry) h then Some (GHR_OK, Some (da_block list, i))
        else hashlist_find list h (Suc i))
      else Some (GHR_OK, None))"
  by pat_completeness auto
termination
  by (relation "measure (\<lambda>(list, h, i). unat (da_size list) - i)") auto

declare hashlist_find.simps [simp del]

definition gh_permexec_hashlist_tryget ::
  "gh_permexec_hashlist \<Rightarrow> gh_sha256 \<Rightarrow> (gh_result \<times> da_ptr option) option" where
  "gh_permexec_hashlist_tryget list h = hashlist_find list h 0"

definition gh_permexec_hashlist_dtor ::
  "gh_alloc \<Rightarrow> gh_permexec_hashlist \<Rightarrow> (gh_result \<times> gh_permexec_hashlist) option" where
  "gh_permexec_hashlist_dtor al list = gh_dynamicarray_dtor al permexechashlist_daopts list"

text \<open>The blocks of the array are numbered from the one its memory held before.\<close>

definition gh_permexec_ctor :: "gh_alloc \<Rightarrow> gh_permexec \<Rightarrow> gh_result \<times> gh_permexec" where
  "gh_permexec_ctor al permexec =
     (let zero = \<lparr>da_buffer = None, da_capacity = 0, da_size = 0, da_block = da_block (px_hashlist permexec)\<rparr>;
          (res, list) = gh_permexec_hashlist_ctor al zero in
      (res, \<lparr>px_default_mode = GH_PERMEXEC_REJECT, px_hashlist = list,
             px_allowed_env = replicate GH_PERMEXEC_MAXALLOWEDENV None\<rparr>))"

definition gh_permexec_dtor :: "gh_alloc \<Rightarrow> gh_permexec \<Rightarrow> (gh_result \<times> gh_permexec) option" where
  "gh_permexec_dtor al permexec =
     map_option (\<lambda>(res, list). (res, permexec\<lparr>px_hashlist := list\<rparr>))
       (gh_permexec_hashlist_dtor al (px_hashlist permexec))"

section \<open>The combined hash\<close>

text \<open>The loop over the arguments; \<open>acc\<close> is the part of \<^verbatim>\<open>combined_buffer\<close> filled so far.\<close>

function hash_args ::
  "env \<Rightarrow> string list \<Rightarrow> nat \<Rightarrow> nat \<Rightarrow> string \<Rightarrow> trace \<Rightarrow> (gh_result \<times> (string \<times> trace)) option" where
  "hash_args env argv i argc acc tr =
     (if i < argc then
        (if i < length argv then
           (let arg = argv ! i; arg_size = strlen arg;
                (res, h, tr) = gh_sha256_buffer env arg_size arg tr in
            if ghr_iserr res then Some (res, (acc, tr))
            else case h of
              None \<Rightarrow> None
            | Some arg_hash \<Rightarrow> hash_args env argv (Suc i) argc (acc @ arg_hash) tr)
         else None)
      else Some (GHR_OK, (acc, tr)))"
  by pat_completeness auto
termination
  by (relation "measure (\<lambda>(env, argv, i, argc, acc, tr). argc - i)") auto

declare hash_args.simps [simp del]

definition gh_permexec_hash_build ::
  "env \<Rightarrow> gh_alloc \<Rightarrow> int \<Rightarrow> int \<Rightarrow> string list \<Rightarrow> trace \<Rightarrow>
   (gh_result \<times> (gh_sha256 option \<times> trace)) option" where
  "gh_permexec_hash_build env al exe_fd argc argv tr =
     (let (res, exe_hash, tr) = gh_sha256_fd env al exe_fd tr in
      if ghr_iserr res then Some (res, (None, tr))
      else if argc < 0 then Some (GHR_PERMEXEC_NEGARGC, (None, tr))
      else if argc > GH_PERMEXEC_MAXARGS then Some (GHR_PERMEXEC_TOOMANYARGS, (None, tr))
      else
        Option.bind exe_hash (\<lambda>exe_hash.
        map_option (\<lambda>(res, combined_buffer, tr).
            if ghr_iserr res then (res, (None, tr))
            else gh_sha256_buffer env (length combined_buffer) combined_buffer tr)
          (hash_args env argv 0 (nat argc) exe_hash tr)))"

section \<open>The request\<close>

fun append_escaped :: "gh_str \<Rightarrow> string \<Rightarrow> (bool \<times> gh_str) option" where
  "append_escaped str [] = Some (True, str)"
| "append_escaped str (c # cs) =
     desc_then
       (if c = CHR 0x5C then gh_str_appendc str [CHR 0x5C, CHR 0x5C] 2 False
        else if c = CHR 0x22 then gh_str_appendc str [CHR 0x5C, CHR 0x22] 2 False
        else if c = CHR 0x0A then gh_str_appendc str [CHR 0x5C, CHR ''n''] 2 False
        else if c = CHR 0x09 then gh_str_appendc str [CHR 0x5C, CHR ''t''] 2 False
        else gh_str_appendchar str c) (\<lambda>str. append_escaped str cs)"

text \<open>The loop over the arguments after the first\<close>

fun cmdline_args :: "string list \<Rightarrow> gh_str \<Rightarrow> (bool \<times> gh_str) option" where
  "cmdline_args [] str = Some (True, str)"
| "cmdline_args (arg # args) str =
     desc_then (gh_str_appendc str [CHR '' '', CHR 0x22] 2 False) (\<lambda>str.
     desc_then (append_escaped str (cstr arg)) (\<lambda>str.
     desc_then (gh_str_appendchar str (CHR 0x22)) (cmdline_args args)))"

definition permexec_buildcmdline ::
  "gh_str \<Rightarrow> gh_abscanonicalpath \<Rightarrow> string list \<Rightarrow> (bool \<times> gh_str) option" where
  "permexec_buildcmdline str exe_path argv =
     desc_then (gh_str_appendc str (ac_chars exe_path) (ac_len exe_path) False) (\<lambda>str.
     if argv = [] then Some (True, str)
     else
       desc_then (cmdline_args (tl argv) str) (\<lambda>str.
       desc_then (gh_str_insertnull str) (\<lambda>str. Some (True, str))))"

fun env_vars :: "bool \<Rightarrow> string list \<Rightarrow> gh_str \<Rightarrow> (bool \<times> gh_str) option" where
  "env_vars first [] str = Some (True, str)"
| "env_vars first (kv # kvs) str =
     desc_then (if \<not> first then gh_str_appendchar str (CHR '' '') else Some (True, str)) (\<lambda>str.
     desc_then (gh_str_appendchar str (CHR 0x22)) (\<lambda>str.
     desc_then (append_escaped str (cstr kv)) (\<lambda>str.
     desc_then (gh_str_appendchar str (CHR 0x22)) (env_vars False kvs))))"

definition permexec_buildenv :: "gh_str \<Rightarrow> string list \<Rightarrow> (bool \<times> gh_str) option" where
  "permexec_buildenv str envp =
     desc_then (env_vars True envp str) (\<lambda>str.
     desc_then (gh_str_insertnull str) (\<lambda>str. Some (True, str)))"

text \<open>The three sentences of the description\<close>

definition permexec_desc_intro :: string where
  "permexec_desc_intro =
     ''Source '${source}' is asking for permission to run the external program '${programname}' using the following command line: $$${}    ${cmdline}''"

definition permexec_desc_env :: string where
  "permexec_desc_env =
     ''$$ The following environment variables will be provided to the program: $$ ${}    ${env}''"

definition permexec_desc_warning :: string where
  "permexec_desc_warning = ''$$ If you are not sure of what this program may do, REJECT the request!''"

definition permexec_builddescription :: "gh_str \<Rightarrow> nat \<Rightarrow> (bool \<times> gh_str) option" where
  "permexec_builddescription str envc =
     desc_then (gh_str_appendz str permexec_desc_intro True) (\<lambda>str.
     desc_then (if envc > 0 then gh_str_appendz str permexec_desc_env True else Some (True, str)) (\<lambda>str.
     desc_then (gh_str_appendz str permexec_desc_warning True) (\<lambda>str.
     desc_then (gh_str_insertnull str) (\<lambda>str. Some (True, str)))))"

definition str_value :: "gh_str \<Rightarrow> gh_conststr" where
  "str_value s = \<lparr>cs_buffer = st_buffer s, cs_size = st_size s\<rparr>"

text \<open>
  \<^verbatim>\<open>strcpy(out_reqdata->request.source, source)\<close> is defined for a source that fits in its 512 bytes.
\<close>

definition permexec_makerequest ::
  "string \<Rightarrow> gh_abscanonicalpath \<Rightarrow> string list \<Rightarrow> string list \<Rightarrow> (gh_result \<times> gh_permrequest) option" where
  "permexec_makerequest source exe_path argv envp =
     (if strlen source \<ge> 512 then None
      else
        Option.bind (permexec_buildcmdline (gh_str_fromc (replicate 4096 NUL) 0 4096) exe_path argv)
          (\<lambda>(fits, cmdline).
        if \<not> fits then Some (GHR_PERMEXEC_LARGECMDLINE, permrequest_zero)
        else
          Option.bind (permexec_buildenv (gh_str_fromc (replicate 4096 NUL) 0 4096) envp) (\<lambda>(fits, env).
          if \<not> fits then Some (GHR_PERMEXEC_LARGEENV, permrequest_zero)
          else
            Option.bind (permexec_builddescription (gh_str_fromc (replicate 512 NUL) 0 512) (length envp))
              (\<lambda>(fits, description).
            if \<not> fits then Some (GHR_PERMEXEC_LARGEDESCRIPTION, permrequest_zero)
            else
              (let req = permrequest_zero\<lparr>rq_group := ''exec'', rq_resource := ''cmdline'', rq_source := cstr source\<rparr>;
                   req = rq_setat 0 ''description'' (str_value description) req;
                   req = rq_setat 1 ''cmdline'' (str_value cmdline) req;
                   req = rq_setat 2 ''programname''
                           (case argv of [] \<Rightarrow> gh_conststr_fromz ''<unknown>'' | arg # _ \<Rightarrow> gh_conststr_fromz arg) req;
                   req = (if envp \<noteq> [] then rq_setat 3 ''env'' (str_value env) req else req)
               in Some (GHR_OK, req))))))"

section \<open>The gate\<close>

text \<open>
  The loop over the allowed names: a variable is taken once for every matching name until the
  vector \<open>out\<close> is full.
\<close>

fun allowed_copies :: "gh_conststr \<Rightarrow> string \<Rightarrow> string option list \<Rightarrow> string list \<Rightarrow> string list" where
  "allowed_copies key kv [] out = out"
| "allowed_copies key kv (None # ks) out = out"
| "allowed_copies key kv (Some k # ks) out =
     (if gh_conststr_eqz key k then
        (if length (out @ [kv]) \<ge> GH_PERMEXEC_MAXALLOWEDENV then out @ [kv]
         else allowed_copies key kv ks (out @ [kv]))
      else allowed_copies key kv ks out)"

fun env_filter :: "string option list \<Rightarrow> string list \<Rightarrow> string list \<Rightarrow> string list" where
  "env_filter allowed [] out = out"
| "env_filter allowed (kv # kvs) out =
     (if length out \<ge> GH_PERMEXEC_MAXALLOWEDENV then out
      else if CHR ''='' \<notin> set (cstr kv) then env_filter allowed kvs out
      else
        (let key_len = length (takeWhile (\<lambda>c. c \<noteq> CHR ''='') (cstr kv)) in
         env_filter allowed kvs
           (allowed_copies (gh_conststr_fromc kv (of_nat key_len)) kv
              (take GH_PERMEXEC_MAXALLOWEDENV allowed) out)))"

text \<open>
  The label \<^verbatim>\<open>dtor_exe_path\<close>, and the switch on the response.
\<close>

definition permexec_dtor_exe_path ::
  "gh_alloc \<Rightarrow> gh_abscanonicalpath \<Rightarrow> gh_result \<times> 'r \<Rightarrow> gh_result \<times> 'r" where
  "permexec_dtor_exe_path al exe_path r =
     (let inner_res = fst (gh_procfd_fdpathdtor al exe_path) in
      (if ghr_iserr inner_res then inner_res else fst r, snd r))"

definition permexec_remember ::
  "gh_alloc \<Rightarrow> gh_permexec \<Rightarrow> gh_permexec_mode \<Rightarrow> gh_sha256 \<Rightarrow> (gh_result \<times> gh_permexec) option" where
  "permexec_remember al permexec mode h =
     map_option (\<lambda>(res, list). (res, permexec\<lparr>px_hashlist := list\<rparr>))
       (gh_permexec_hashlist_add al (px_hashlist permexec) \<lparr>xe_mode = mode, xe_hash = h\<rparr>)"

definition permexec_respond ::
  "gh_alloc \<Rightarrow> gh_result \<Rightarrow> gh_permresponse \<Rightarrow> gh_sha256 \<Rightarrow> gh_permexec \<Rightarrow> (gh_result \<times> gh_permexec) option" where
  "permexec_respond al res resp h permexec =
     (case resp of
        GH_PERMRESPONSE_ACCEPT \<Rightarrow> Some (res, permexec)
      | GH_PERMRESPONSE_REJECT \<Rightarrow> Some (GHR_PERMS_REJECTEDUSER, permexec)
      | GH_PERMRESPONSE_ACCEPTREMEMBER \<Rightarrow> permexec_remember al permexec GH_PERMEXEC_ACCEPT h
      | GH_PERMRESPONSE_REJECTREMEMBER \<Rightarrow>
          map_option (\<lambda>(res, px). (if ghr_isok res then GHR_PERMS_REJECTEDUSER else res, px))
            (permexec_remember al permexec GH_PERMEXEC_REJECT h)
      | OtherResponse _ \<Rightarrow> Some (GHR_PERMS_REJECTEDPROMPT, permexec))"

text \<open>The part of the gate after \<^verbatim>\<open>// Must be PROMPT then.\<close>\<close>

definition permexec_prompt ::
  "env \<Rightarrow> gh_alloc \<Rightarrow> gh_permprompter \<Rightarrow> gh_procfd \<Rightarrow> string \<Rightarrow> gh_pathfd \<Rightarrow> string list \<Rightarrow> string list \<Rightarrow>
   gh_sha256 \<Rightarrow> gh_permexec \<times> trace \<Rightarrow> (gh_result \<times> (gh_permexec \<times> trace)) option" where
  "permexec_prompt env al prompter procfd safe_id exe_fd argv new_envp h st =
     (case st of (permexec, tr) \<Rightarrow>
      Option.bind (gh_procfd_fdpathctor env al procfd exe_fd tr) (\<lambda>(res, exe_path, tr).
      if ghr_iserr res then Some (res, (permexec, tr))
      else
        Option.bind exe_path (\<lambda>exe_path.
        Option.bind (permexec_makerequest safe_id exe_path argv new_envp) (\<lambda>(res, req).
        if ghr_iserr res then Some (permexec_dtor_exe_path al exe_path (res, (permexec, tr)))
        else
          Option.bind (gh_permprompter_request prompter env req tr) (\<lambda>(res, resp, tr).
          if ghr_iserr res then Some (res, (permexec, tr))
          else
            Option.bind resp (\<lambda>resp.
            map_option (\<lambda>(res, permexec). permexec_dtor_exe_path al exe_path (res, (permexec, tr)))
              (permexec_respond al res resp h permexec)))))))"

definition gh_permexec_gate ::
  "env \<Rightarrow> gh_alloc \<Rightarrow> gh_permprompter \<Rightarrow> gh_procfd \<Rightarrow> string \<Rightarrow> gh_pathfd \<Rightarrow> string list \<Rightarrow> string list \<Rightarrow>
   gh_permexec \<times> trace \<Rightarrow> (gh_result \<times> (gh_permexec \<times> trace)) option" where
  "gh_permexec_gate env al prompter procfd safe_id exe_fd argv envp st =
     (case st of (permexec, tr) \<Rightarrow>
      (let (res, readable_exe_fd, tr) = gh_procfd_reopen env procfd exe_fd O_RDONLY 0 tr in
       if ghr_iserr res then Some (res, (permexec, tr))
       else
         (let new_envp = env_filter (px_allowed_env permexec) envp [];
              argc = int (min (length argv) INT_MAX) in
          Option.bind readable_exe_fd (\<lambda>readable_exe_fd.
          Option.bind (gh_permexec_hash_build env al readable_exe_fd argc argv tr) (\<lambda>(res, h, tr).
          if ghr_iserr res then Some (res, (permexec, tr))
          else
            Option.bind h (\<lambda>combined_hash.
            Option.bind (gh_permexec_hashlist_tryget (px_hashlist permexec) combined_hash) (\<lambda>(res, entry).
            if ghr_iserr res then Some (res, (permexec, tr))
            else
              Option.bind
                (case entry of
                   None \<Rightarrow> Some (px_default_mode permexec)
                 | Some p \<Rightarrow> map_option xe_mode (da_deref (px_hashlist permexec) p)) (\<lambda>mode.
              if mode = GH_PERMEXEC_ACCEPT then Some (GHR_OK, (permexec, tr))
              else if mode = GH_PERMEXEC_REJECT then Some (GHR_PERMS_REJECTEDPOLICY, (permexec, tr))
              else
                permexec_prompt env al prompter procfd safe_id exe_fd argv new_envp combined_hash
                  (permexec, tr)))))))))"

end
