(* ===== verification/PermExecGate.thy ===== *)
theory PermExecGate
  imports PermExec PermfsRequest
begin

text \<open>
  What the program permissions decide: the mode in force for a hash, the hash of an executable and
  its arguments, the answers of the gate, and the environment variables it shows.
\<close>

section \<open>The mode in force\<close>

definition exec_list :: "gh_permexec_hashlist \<Rightarrow> gh_permexec_entry list \<Rightarrow> bool" where
  "exec_list list es \<longleftrightarrow>
     da_wf permexechashlist_daopts list \<and> da_items list = es \<and>
     list_all (\<lambda>e. length (xe_hash e) = GH_SHA256_DIGESTLEN) es"

definition permexec_mode_of :: "gh_permexec \<Rightarrow> gh_sha256 \<Rightarrow> gh_permexec_mode" where
  "permexec_mode_of permexec h =
     (case find (\<lambda>e. xe_hash e = h) (da_items (px_hashlist permexec)) of
        None \<Rightarrow> px_default_mode permexec
      | Some e \<Rightarrow> xe_mode e)"

lemma exec_list_size: "exec_list list es \<Longrightarrow> unat (da_size list) = length es"
  using da_items_length [of permexechashlist_daopts list] by (simp add: exec_list_def)

lemma exec_list_deref:
  "exec_list list es \<Longrightarrow> i < length es \<Longrightarrow> da_deref list (da_block list, i) = Some (es ! i)"
  using deref_items by (auto simp: exec_list_def)

lemma exec_list_room:
  "exec_list list es \<Longrightarrow> length es < 4294967296 \<Longrightarrow> da_room permexechashlist_daopts list 1"
  using exec_list_size by (simp add: da_room_def permexechashlist_daopts_def)

lemma hashlist_find_result:
  assumes "exec_list list es" "length h = GH_SHA256_DIGESTLEN"
  shows "i \<le> length es \<Longrightarrow> \<exists>ptr. hashlist_find list h i = Some (GHR_OK, ptr) \<and>
     find (\<lambda>e. xe_hash e = h) (drop i es) = Option.bind ptr (da_deref list) \<and>
     (ptr = None \<longleftrightarrow> find (\<lambda>e. xe_hash e = h) (drop i es) = None)"
proof (induction "length es - i" arbitrary: i)
  case 0
  then show ?case using exec_list_size [OF assms(1)] by (subst hashlist_find.simps) simp
next
  case (Suc n)
  then have i: "i < length es" by simp
  then have dr: "drop i es = es ! i # drop (Suc i) es" by (simp add: Cons_nth_drop_Suc)
  have "length (xe_hash (es ! i)) = GH_SHA256_DIGESTLEN"
    using assms(1) i by (simp add: exec_list_def list_all_length)
  then have eq: "gh_sha256_eq (xe_hash (es ! i)) h \<longleftrightarrow> xe_hash (es ! i) = h"
    using assms(2) by (rule sha256_eq_iff)
  have "hashlist_find list h i =
      (if xe_hash (es ! i) = h then Some (GHR_OK, Some (da_block list, i)) else hashlist_find list h (Suc i))"
    using i exec_list_size [OF assms(1)] exec_list_deref [OF assms(1) i] eq
    by (subst hashlist_find.simps) simp
  moreover have "\<exists>ptr. hashlist_find list h (Suc i) = Some (GHR_OK, ptr) \<and>
     find (\<lambda>e. xe_hash e = h) (drop (Suc i) es) = Option.bind ptr (da_deref list) \<and>
     (ptr = None \<longleftrightarrow> find (\<lambda>e. xe_hash e = h) (drop (Suc i) es) = None)"
    using Suc.hyps(2) i by (intro Suc.hyps(1)) auto
  ultimately show ?case using dr exec_list_deref [OF assms(1) i] by auto
qed

lemma tryget_mode:
  assumes "exec_list (px_hashlist px) es" "length h = GH_SHA256_DIGESTLEN"
  shows "\<exists>ptr. gh_permexec_hashlist_tryget (px_hashlist px) h = Some (GHR_OK, ptr) \<and>
     (case ptr of None \<Rightarrow> Some (px_default_mode px)
                | Some p \<Rightarrow> map_option xe_mode (da_deref (px_hashlist px) p)) = Some (permexec_mode_of px h)"
proof -
  from hashlist_find_result [OF assms le0, unfolded drop_0] obtain ptr where
    f: "hashlist_find (px_hashlist px) h 0 = Some (GHR_OK, ptr) \<and>
      find (\<lambda>e. xe_hash e = h) es = Option.bind ptr (da_deref (px_hashlist px)) \<and>
      (ptr = None \<longleftrightarrow> find (\<lambda>e. xe_hash e = h) es = None)" by (rule exE)
  have it: "da_items (px_hashlist px) = es" using assms(1) by (simp add: exec_list_def)
  have "(case ptr of None \<Rightarrow> Some (px_default_mode px)
      | Some p \<Rightarrow> map_option xe_mode (da_deref (px_hashlist px) p)) = Some (permexec_mode_of px h)"
  proof (cases ptr)
    case None
    with f it show ?thesis by (simp add: permexec_mode_of_def)
  next
    case (Some p)
    with f obtain e where "find (\<lambda>e. xe_hash e = h) es = Some e"
      "da_deref (px_hashlist px) p = Some e" by (metis bind.bind_lunit not_None_eq)
    with Some it show ?thesis by (simp add: permexec_mode_of_def)
  qed
  with f show ?thesis by (auto simp: gh_permexec_hashlist_tryget_def)
qed

text \<open>Adding an entry\<close>

lemma hashlist_add_result:
  assumes "exec_list list es" "length es < 4294967296" "length (xe_hash e) = GH_SHA256_DIGESTLEN"
  shows "\<exists>r list'. gh_permexec_hashlist_add al list e = Some (r, list') \<and>
     (r = GHR_OK \<longrightarrow> exec_list list' (es @ [e])) \<and> (r \<noteq> GHR_OK \<longrightarrow> list' = list)"
  using append_result [of permexechashlist_daopts list al e] exec_list_room [OF assms(1,2)] assms(1,3)
  by (auto simp: exec_list_def gh_permexec_hashlist_add_def)

lemma hashlist_add_succeeds:
  assumes "exec_list list es" "length es < 4294967296" "length (xe_hash e) = GH_SHA256_DIGESTLEN" "al_total al"
  shows "\<exists>list'. gh_permexec_hashlist_add al list e = Some (GHR_OK, list') \<and> exec_list list' (es @ [e])"
  using append_succeeds [of permexechashlist_daopts list al e] exec_list_room [OF assms(1,2)] assms(1,3,4)
  by (auto simp: exec_list_def gh_permexec_hashlist_add_def permexechashlist_daopts_def)

section \<open>The combined hash\<close>

definition combined_hash :: "(string \<Rightarrow> gh_sha256) \<Rightarrow> string \<Rightarrow> string list \<Rightarrow> gh_sha256" where
  "combined_hash H exe argv = H (H exe @ concat (map (\<lambda>arg. H (cstr arg)) argv))"

lemma take_strlen [simp]: "take (strlen s) s = cstr s"
  unfolding strlen_def cstr_def by (rule takeWhile_eq_take [symmetric])

lemma hash_args_result:
  assumes "sha256_env H env"
  shows "i \<le> length argv \<Longrightarrow>
    \<exists>tr'. hash_args env argv i (length argv) acc tr =
      Some (GHR_OK, (acc @ concat (map (\<lambda>arg. H (cstr arg)) (drop i argv)), tr'))"
proof (induction "length argv - i" arbitrary: i acc tr)
  case 0
  then show ?case by (subst hash_args.simps) simp
next
  case (Suc n)
  then have i: "i < length argv" by simp
  then have dr: "drop i argv = argv ! i # drop (Suc i) argv" by (simp add: Cons_nth_drop_Suc)
  from sha256_buffer_hashes [OF assms, of "strlen (argv ! i)" "argv ! i" tr] obtain tr1 where
    b: "gh_sha256_buffer env (strlen (argv ! i)) (argv ! i) tr = (GHR_OK, (Some (H (cstr (argv ! i))), tr1))" by auto
  have "hash_args env argv i (length argv) acc tr =
      hash_args env argv (Suc i) (length argv) (acc @ H (cstr (argv ! i))) tr1"
    using i b by (subst hash_args.simps) (simp add: ghr_defs)
  moreover have "n = length argv - Suc i" "Suc i \<le> length argv" using Suc.hyps(2) by simp_all
  from Suc.hyps(1) [OF this, of "acc @ H (cstr (argv ! i))" tr1]
  have "\<exists>tr'. hash_args env argv (Suc i) (length argv) (acc @ H (cstr (argv ! i))) tr1 =
      Some (GHR_OK, (acc @ concat (map (\<lambda>arg. H (cstr arg)) (drop i argv)), tr'))" using dr by simp
  ultimately show ?case by simp
qed

lemma hash_build_result:
  assumes "sha256_env H env" "file_holds env fd exe" "al_total al" "0 < length exe"
    "length exe < 9223372036854775808" "length argv \<le> 2048"
  shows "\<exists>tr'. gh_permexec_hash_build env al fd (int (length argv)) argv tr =
     Some (GHR_OK, (Some (combined_hash H exe argv), tr'))"
proof -
  from sha256_fd_hashes [OF assms(1-5), of tr] obtain tr1 where
    f: "gh_sha256_fd env al fd tr = (GHR_OK, (Some (H exe), tr1))" by blast
  from hash_args_result [OF assms(1), of 0 argv "H exe" tr1] obtain tr2 where
    a: "hash_args env argv 0 (length argv) (H exe) tr1 =
      Some (GHR_OK, (H exe @ concat (map (\<lambda>arg. H (cstr arg)) argv), tr2))" by auto
  let ?b = "H exe @ concat (map (\<lambda>arg. H (cstr arg)) argv)"
  from sha256_buffer_hashes [OF assms(1), of "length ?b" ?b tr2] obtain tr3 where
    "gh_sha256_buffer env (length ?b) ?b tr2 = (GHR_OK, (Some (H ?b), tr3))" by auto
  with f a assms(6) show ?thesis
    by (simp add: gh_permexec_hash_build_def combined_hash_def ghr_defs)
qed

text \<open>A stored combined hash has the length of a hash, whatever the provider does.\<close>

lemma hash_build_length:
  assumes "gh_permexec_hash_build env al fd argc argv tr = Some (GHR_OK, (h, tr'))"
  shows "\<exists>h'. h = Some h' \<and> length h' = GH_SHA256_DIGESTLEN"
proof -
  from assms obtain n b tr1 where "gh_sha256_buffer env n b tr1 = (GHR_OK, (h, tr'))"
    by (auto simp: gh_permexec_hash_build_def Let_def ghr_defs bind_eq_Some_conv
        split: if_splits prod.splits)
  with sha256_buffer_length show ?thesis by (metis not_None_eq)
qed

text \<open>Hashes of the same length split, so a collision free hash determines the program and the arguments.\<close>

lemma concat_same_lengths:
  assumes "concat (map f xs) = concat (map f ys)" "\<And>x. length (f x) = k" "0 < k"
  shows "map f xs = map f ys"
  using assms(1)
proof (induction xs arbitrary: ys)
  case Nil
  then have "\<forall>y \<in> set ys. f y = []" by simp
  with assms(2,3) have "ys = []" by (metis list.set_intros(1) list.size(3) neq_Nil_conv less_irrefl)
  then show ?case by simp
next
  case (Cons x xs)
  then obtain y ys' where ys: "ys = y # ys'" using assms(2) [of x] assms(3) by (cases ys) auto
  with Cons.prems assms(2) have "f x = f y" "concat (map f xs) = concat (map f ys')" by auto
  with Cons.IH ys show ?case by auto
qed

lemma combined_hash_eq:
  assumes "combined_hash H exe argv = combined_hash H exe' argv'"
    and "\<And>s. length (H s) = GH_SHA256_DIGESTLEN" and "inj_on H S"
    and "{exe, exe'} \<union> cstr ` set argv \<union> cstr ` set argv' \<subseteq> S"
    and "H exe @ concat (map (\<lambda>arg. H (cstr arg)) argv) \<in> S"
    and "H exe' @ concat (map (\<lambda>arg. H (cstr arg)) argv') \<in> S"
  shows "exe = exe' \<and> map cstr argv = map cstr argv'"
proof -
  have eq: "H exe @ concat (map (\<lambda>arg. H (cstr arg)) argv) =
      H exe' @ concat (map (\<lambda>arg. H (cstr arg)) argv')"
    by (rule inj_onD [OF assms(3) assms(1) [unfolded combined_hash_def] assms(5,6)])
  with assms(2) have "H exe = H exe'"
    and c: "concat (map (\<lambda>arg. H (cstr arg)) argv) = concat (map (\<lambda>arg. H (cstr arg)) argv')"
    by (metis append_eq_append_conv)+
  with assms(3,4) have "exe = exe'" by (meson Un_iff inj_onD insertCI subsetD)
  moreover have "map (\<lambda>arg. H (cstr arg)) argv = map (\<lambda>arg. H (cstr arg)) argv'"
    by (rule concat_same_lengths [OF c assms(2)]) simp
  then have "map H (map cstr argv) = map H (map cstr argv')" by (simp add: comp_def)
  then have "map cstr argv = map cstr argv'"
  proof (rule map_inj_on)
    show "inj_on H (set (map cstr argv) \<union> set (map cstr argv'))"
      by (rule inj_on_subset [OF assms(3)]) (use assms(4) in auto)
  qed
  ultimately show ?thesis by blast
qed

section \<open>The gate\<close>

definition exec_argc :: "string list \<Rightarrow> int" where
  "exec_argc argv = int (min (length argv) INT_MAX)"

lemma gate_by_mode:
  assumes "exec_list (px_hashlist px) es"
    and "gh_procfd_reopen env procfd exe_fd O_RDONLY 0 tr = (GHR_OK, (Some fd, tr1))"
    and "gh_permexec_hash_build env al fd (exec_argc argv) argv tr1 = Some (GHR_OK, (Some h, tr2))"
  shows "gh_permexec_gate env al prompter procfd safe_id exe_fd argv envp (px, tr) =
     (case permexec_mode_of px h of
        GH_PERMEXEC_ACCEPT \<Rightarrow> Some (GHR_OK, (px, tr2))
      | GH_PERMEXEC_REJECT \<Rightarrow> Some (GHR_PERMS_REJECTEDPOLICY, (px, tr2))
      | GH_PERMEXEC_PROMPT \<Rightarrow>
          permexec_prompt env al prompter procfd safe_id exe_fd argv
            (env_filter (px_allowed_env px) envp []) h (px, tr2))"
proof -
  have "length h = GH_SHA256_DIGESTLEN" using hash_build_length [OF assms(3)] by simp
  from tryget_mode [OF assms(1) this] obtain ptr where
    t: "gh_permexec_hashlist_tryget (px_hashlist px) h = Some (GHR_OK, ptr)"
    "(case ptr of None \<Rightarrow> Some (px_default_mode px)
       | Some p \<Rightarrow> map_option xe_mode (da_deref (px_hashlist px) p)) = Some (permexec_mode_of px h)" by blast
  have b: "gh_permexec_hash_build env al fd (int (min (length argv) INT_MAX)) argv tr1 = Some (GHR_OK, (Some h, tr2))"
    using assms(3) by (simp add: exec_argc_def)
  show ?thesis
    unfolding gh_permexec_gate_def
    by (cases "permexec_mode_of px h")
      (simp_all only: prod.case assms(2) b t Let_def ghr_simps if_False if_True Option.bind.bind_lunit
        refl simp_thms gh_permexec_mode.distinct gh_permexec_mode.case)
qed

text \<open>A gate that grants has built a hash; the steps before that only fail.\<close>

lemma gate_grants:
  assumes "exec_list (px_hashlist px) es"
    and "gh_permexec_gate env al prompter procfd safe_id exe_fd argv envp (px, tr) = Some (GHR_OK, (px', tr'))"
  obtains fd tr1 h tr2 where
    "gh_procfd_reopen env procfd exe_fd O_RDONLY 0 tr = (GHR_OK, (Some fd, tr1))"
    "gh_permexec_hash_build env al fd (exec_argc argv) argv tr1 = Some (GHR_OK, (Some h, tr2))"
    "permexec_mode_of px h = GH_PERMEXEC_ACCEPT \<and> px' = px \<and> tr' = tr2 \<or>
     permexec_mode_of px h = GH_PERMEXEC_PROMPT \<and>
     permexec_prompt env al prompter procfd safe_id exe_fd argv
       (env_filter (px_allowed_env px) envp []) h (px, tr2) = Some (GHR_OK, (px', tr'))"
proof -
  obtain r0 fd0 tr1 where r: "gh_procfd_reopen env procfd exe_fd O_RDONLY 0 tr = (r0, (fd0, tr1))"
    by (metis prod_cases3)
  with assms(2) have r0: "r0 = 0" by (auto simp: gh_permexec_gate_def ghr_simps split: if_splits)
  with r assms(2) obtain fd where fd: "fd0 = Some fd"
    by (cases fd0) (auto simp: gh_permexec_gate_def ghr_simps)
  from assms(2) r r0 fd obtain r2 h0 tr2 where
    b: "gh_permexec_hash_build env al fd (exec_argc argv) argv tr1 = Some (r2, (h0, tr2))"
    unfolding exec_argc_def by (auto simp: gh_permexec_gate_def ghr_simps bind_eq_Some_conv)
  with assms(2) r r0 fd have r2: "r2 = 0"
    unfolding exec_argc_def by (auto simp: gh_permexec_gate_def ghr_simps split: if_splits)
  from hash_build_length [OF b [unfolded r2]] obtain h where h: "h0 = Some h" by blast
  from gate_by_mode [OF assms(1) r [unfolded r0 fd] b [unfolded r2 h], of prompter safe_id envp] assms(2)
  have "permexec_mode_of px h = GH_PERMEXEC_ACCEPT \<and> px' = px \<and> tr' = tr2 \<or>
     permexec_mode_of px h = GH_PERMEXEC_PROMPT \<and>
     permexec_prompt env al prompter procfd safe_id exe_fd argv
       (env_filter (px_allowed_env px) envp []) h (px, tr2) = Some (GHR_OK, (px', tr'))"
    by (cases "permexec_mode_of px h") (auto simp: ghr_simps)
  with that r r0 fd b r2 h show thesis by blast
qed

lemma dtor_exe_path_ok: "permexec_dtor_exe_path al p r = (GHR_OK, v) \<Longrightarrow> r = (GHR_OK, v)"
  by (cases r) (auto simp: permexec_dtor_exe_path_def ghr_simps Let_def split: if_splits)

lemma prompt_grants:
  assumes "permexec_prompt env al prompter procfd safe_id exe_fd argv new_envp h (px, tr) = Some (GHR_OK, (px', tr'))"
  obtains path tr1 req resp where
    "gh_procfd_fdpathctor env al procfd exe_fd tr = Some (GHR_OK, (Some path, tr1))"
    "permexec_makerequest safe_id path argv new_envp = Some (GHR_OK, req)"
    "gh_permprompter_request prompter env req tr1 = Some (GHR_OK, (Some resp, tr'))"
    "resp = GH_PERMRESPONSE_ACCEPT \<and> px' = px \<or>
     resp = GH_PERMRESPONSE_ACCEPTREMEMBER \<and> permexec_remember al px GH_PERMEXEC_ACCEPT h = Some (GHR_OK, px')"
proof -
  from assms obtain r0 path0 tr1 where
    c: "gh_procfd_fdpathctor env al procfd exe_fd tr = Some (r0, (path0, tr1))"
    by (auto simp: permexec_prompt_def bind_eq_Some_conv)
  with assms have r0: "r0 = 0" by (auto simp: permexec_prompt_def ghr_simps split: if_splits)
  with assms c obtain path where p: "path0 = Some path" by (cases path0) (auto simp: permexec_prompt_def ghr_simps)
  from assms c r0 p obtain r1 req where m: "permexec_makerequest safe_id path argv new_envp = Some (r1, req)"
    by (auto simp: permexec_prompt_def ghr_simps bind_eq_Some_conv)
  have r1: "r1 = 0"
    using assms c r0 p m dtor_exe_path_ok
    by (fastforce simp: permexec_prompt_def ghr_simps split: if_splits)
  from assms c r0 p m r1 obtain r2 resp0 tr2 where
    q: "gh_permprompter_request prompter env req tr1 = Some (r2, (resp0, tr2))"
    by (auto simp: permexec_prompt_def ghr_simps bind_eq_Some_conv)
  with assms c r0 p m r1 have r2: "r2 = 0" by (auto simp: permexec_prompt_def ghr_simps split: if_splits)
  with assms c r0 p m r1 q obtain resp where resp: "resp0 = Some resp"
    by (cases resp0) (auto simp: permexec_prompt_def ghr_simps)
  from assms c r0 p m r1 q r2 resp obtain r3 px3 where
    s: "permexec_respond al 0 resp h px = Some (r3, px3)"
    "permexec_dtor_exe_path al path (r3, (px3, tr2)) = (GHR_OK, (px', tr'))"
    by (auto simp: permexec_prompt_def ghr_simps)
  from dtor_exe_path_ok [OF s(2)] have "r3 = 0" "px3 = px'" "tr2 = tr'" by auto
  with s(1) have "resp = GH_PERMRESPONSE_ACCEPT \<and> px' = px \<or>
     resp = GH_PERMRESPONSE_ACCEPTREMEMBER \<and> permexec_remember al px GH_PERMEXEC_ACCEPT h = Some (GHR_OK, px')"
    by (cases resp) (auto simp: permexec_respond_def ghr_simps split: if_splits)
  with that c r0 p m r1 q r2 resp \<open>tr2 = tr'\<close> show thesis by blast
qed

text \<open>A remembered answer is appended: it is in force unless the list already has an entry for the hash.\<close>

lemma remember_result:
  assumes "exec_list (px_hashlist px) es" "length es < 4294967296" "length h = GH_SHA256_DIGESTLEN"
    and "permexec_remember al px mode h = Some (GHR_OK, px')"
  shows "exec_list (px_hashlist px') (es @ [\<lparr>xe_mode = mode, xe_hash = h\<rparr>]) \<and>
     px_default_mode px' = px_default_mode px"
proof -
  let ?e = "\<lparr>xe_mode = mode, xe_hash = h\<rparr>"
  from hashlist_add_result [of "px_hashlist px" es ?e al] assms(1-3) obtain r list' where
    "gh_permexec_hashlist_add al (px_hashlist px) ?e = Some (r, list')"
    "r = GHR_OK \<longrightarrow> exec_list list' (es @ [?e])" by auto
  with assms(4) show ?thesis by (auto simp: permexec_remember_def)
qed

lemma find_append: "find P (xs @ ys) = (case find P xs of None \<Rightarrow> find P ys | Some x \<Rightarrow> Some x)"
  by (induction xs) auto

lemma remember_mode:
  assumes "exec_list (px_hashlist px) es" "length es < 4294967296" "length h = GH_SHA256_DIGESTLEN"
    and "permexec_remember al px mode h = Some (GHR_OK, px')"
  shows "permexec_mode_of px' h = (case find (\<lambda>e. xe_hash e = h) es of None \<Rightarrow> mode | Some e \<Rightarrow> xe_mode e)"
    "h' \<noteq> h \<Longrightarrow> permexec_mode_of px' h' = permexec_mode_of px h'"
  using remember_result [OF assms] assms(1)
  by (simp_all add: permexec_mode_of_def exec_list_def find_append split: option.split)

section \<open>The environment variables that are shown\<close>

lemma allowed_copies_bound: "length out \<le> 32 \<Longrightarrow> length out \<noteq> 32 \<Longrightarrow> length (allowed_copies key kv ks out) \<le> 32"
  by (induction key kv ks out rule: allowed_copies.induct) auto

lemma allowed_copies_set:
  "set (allowed_copies key kv ks out) \<subseteq>
     set out \<union> (if \<exists>k. Some k \<in> set ks \<and> gh_conststr_eqz key k then {kv} else {})"
  by (induction key kv ks out rule: allowed_copies.induct) (auto split: if_splits)

lemma env_filter_bound: "length out \<le> 32 \<Longrightarrow> length (env_filter allowed kvs out) \<le> 32"
proof (induction allowed kvs out rule: env_filter.induct)
  case (1 allowed out)
  then show ?case by simp
next
  case (2 allowed kv kvs out)
  then show ?case using allowed_copies_bound [of out] by (simp add: Let_def)
qed

definition env_key :: "string \<Rightarrow> string" where
  "env_key kv = takeWhile (\<lambda>c. c \<noteq> CHR ''='') (cstr kv)"

definition env_shown :: "string option list \<Rightarrow> string \<Rightarrow> bool" where
  "env_shown allowed kv \<longleftrightarrow> CHR ''='' \<in> set (cstr kv) \<and> Some (env_key kv) \<in> set allowed"

lemma env_key_length: "length (env_key kv) \<le> length kv"
proof -
  have "length (env_key kv) \<le> length (cstr kv)" unfolding env_key_def by (rule length_takeWhile_le)
  also have "\<dots> \<le> length kv" unfolding cstr_def by (rule length_takeWhile_le)
  finally show ?thesis .
qed

lemma env_key_eqz:
  assumes "length kv < 18446744073709551616" "nul_free k" "length k < 18446744073709551616"
  shows "gh_conststr_eqz (gh_conststr_fromc kv (of_nat (length (env_key kv)))) k \<longleftrightarrow> env_key kv = k"
proof -
  let ?s = "gh_conststr_fromc kv (of_nat (length (env_key kv)))"
  have sz: "unat (of_nat (length (env_key kv)) :: size_t) = length (env_key kv)"
    using env_key_length [of kv] assms(1) by (simp add: unat_of_nat_nowrap)
  have "take (length (env_key kv)) (cstr kv) = env_key kv"
    unfolding env_key_def by (rule takeWhile_eq_take [symmetric])
  moreover have "take (length (cstr kv)) kv = cstr kv"
    unfolding cstr_def by (rule takeWhile_eq_take [symmetric])
  moreover have "length (env_key kv) \<le> length (cstr kv)" unfolding env_key_def by (rule length_takeWhile_le)
  ultimately have view: "cs_view ?s = env_key kv"
    using sz by (metis cs_view_def gh_conststr.select_convs gh_conststr_fromc_def min_absorb1 take_take)
  have "nul_free (env_key kv)"
    using nul_free_cstr [of kv] unfolding env_key_def by (auto simp: nul_free_def dest: set_takeWhileD)
  then have "cs_wf ?s" using sz env_key_length [of kv] view by (simp add: cs_wf_def gh_conststr_fromc_def)
  from cs_eqlsrz_view [OF this assms(2,3)] view show ?thesis by (simp add: gh_conststr_eqz_def)
qed

lemma env_filter_shown:
  assumes "\<forall>k. Some k \<in> set allowed \<longrightarrow> nul_free k \<and> length k < 18446744073709551616"
    and "\<forall>kv \<in> set kvs. length kv < 18446744073709551616"
  shows "set (env_filter allowed kvs out) \<subseteq> set out \<union> {kv \<in> set kvs. env_shown allowed kv}"
  using assms
proof (induction allowed kvs out rule: env_filter.induct)
  case (1 allowed out)
  then show ?case by simp
next
  case (2 allowed kv kvs out)
  let ?key = "gh_conststr_fromc kv (of_nat (length (env_key kv)))"
  let ?out = "allowed_copies ?key kv (take 32 allowed) out"
  show ?case
  proof (cases "length out \<ge> 32 \<or> CHR ''='' \<notin> set (cstr kv)")
    case True
    with 2 show ?thesis by (auto simp: env_shown_def)
  next
    case False
    then have eq: "env_filter allowed (kv # kvs) out = env_filter allowed kvs ?out"
      by (simp add: Let_def env_key_def)
    have "set (env_filter allowed kvs ?out) \<subseteq> set ?out \<union> {kv \<in> set kvs. env_shown allowed kv}"
      using 2 False by (simp add: Let_def env_key_def)
    moreover have "env_shown allowed kv" if "\<exists>k. Some k \<in> set (take 32 allowed) \<and> gh_conststr_eqz ?key k"
    proof -
      from that obtain k where k: "Some k \<in> set allowed" "gh_conststr_eqz ?key k" by (auto dest: in_set_takeD)
      with 2 env_key_eqz [of kv k] have "env_key kv = k" by auto
      with k(1) False show ?thesis by (simp add: env_shown_def)
    qed
    ultimately show ?thesis
      unfolding eq using allowed_copies_set [of ?key kv "take 32 allowed" out] by (fastforce split: if_splits)
  qed
qed

end
