(* ===== verification/PermExecRequest.thy ===== *)
theory PermExecRequest
  imports PermExecGate
begin

text \<open>
  The command line and the environment that the prompter shows for a program: the text the
  builders write, that they never cut it, and that it determines the arguments.
\<close>

section \<open>The text\<close>

definition escape_char :: "char \<Rightarrow> string" where
  "escape_char c =
     (if c = CHR 0x5C then [CHR 0x5C, CHR 0x5C] else if c = CHR 0x22 then [CHR 0x5C, CHR 0x22]
      else if c = CHR 0x0A then [CHR 0x5C, CHR ''n''] else if c = CHR 0x09 then [CHR 0x5C, CHR ''t''] else [c])"

definition escape_text :: "string \<Rightarrow> string" where
  "escape_text s = concat (map escape_char s)"

definition args_text :: "string list \<Rightarrow> string" where
  "args_text args = concat (map (\<lambda>a. CHR '' '' # CHR 0x22 # escape_text (cstr a) @ [CHR 0x22]) args)"

definition cmdline_text :: "string \<Rightarrow> string list \<Rightarrow> string" where
  "cmdline_text path argv = path @ args_text (tl argv)"

text \<open>A step that appends what fits and fails, with no truncation, when it does not.\<close>

definition desc_exact :: "nat \<Rightarrow> (bool \<times> gh_str) option \<Rightarrow> string \<Rightarrow> bool" where
  "desc_exact cap m v \<longleftrightarrow>
     (\<exists>fits str. m = Some (fits, str) \<and> (fits \<longleftrightarrow> length v \<le> cap) \<and> (fits \<longrightarrow> st_holds cap v str))"

lemma desc_exact_done: "st_holds cap v str \<Longrightarrow> length v \<le> cap \<Longrightarrow> desc_exact cap (Some (True, str)) v"
  unfolding desc_exact_def by blast

lemma desc_exact_then:
  assumes "desc_exact cap m v" "\<And>str. st_holds cap v str \<Longrightarrow> desc_exact cap (k str) v'" "length v \<le> length v'"
  shows "desc_exact cap (desc_then m k) v'"
  using assms by (fastforce simp: desc_exact_def desc_then_def)

lemma st_holds_length: "st_holds cap v str \<Longrightarrow> length v \<le> cap"
  using st_holds_size [of cap v str] st_wf_size [of str] by (auto simp: st_holds_def)

lemma appendc_exact:
  assumes "st_holds cap v str" "nul_free (take (unat n) s)" "unat n \<le> length s"
  shows "desc_exact cap (gh_str_appendc str s n False) (v @ take (unat n) s)"
proof -
  from st_appendc_result [OF _ assms(2,3), of str False] assms(1) obtain fits str' where
    "gh_str_appendc str s n False = Some (fits, str')" "st_wf str'"
    "fits = (unat (st_size str) + unat n \<le> cap)" "st_capacity str' = st_capacity str"
    "st_view str' = (if fits then take cap (v @ take (unat n) s) else v)"
    by (auto simp: st_holds_def)
  with assms st_holds_size [OF assms(1)] show ?thesis by (auto simp: desc_exact_def st_holds_def)
qed

lemma appendchar_exact:
  assumes "st_holds cap v str"
  shows "desc_exact cap (gh_str_appendchar str c) (v @ [c])"
proof -
  from st_appendchar_result [of str c] assms obtain str' where
    "gh_str_appendchar str c = Some (st_size str < st_capacity str, str')" "st_wf str'"
    "st_capacity str' = st_capacity str"
    "st_view str' = (if st_size str < st_capacity str then v @ [c] else v)"
    by (auto simp: st_holds_def)
  with assms st_holds_size [OF assms] show ?thesis
    by (auto simp: desc_exact_def st_holds_def size_less_unat)
qed

lemma append_escaped_exact: "st_holds cap v str \<Longrightarrow> nul_free s \<Longrightarrow> desc_exact cap (append_escaped str s) (v @ escape_text s)"
proof (induction s arbitrary: v str)
  case Nil
  then show ?case by (simp add: escape_text_def desc_exact_done st_holds_length)
next
  case (Cons c s)
  have two: "desc_exact cap (gh_str_appendc str [a, b] 2 False) (v @ [a, b])" if "a \<noteq> NUL" "b \<noteq> NUL" for a b
    using appendc_exact [OF Cons.prems(1), of 2 "[a, b]"] that by simp
  show ?case
    unfolding append_escaped.simps
  proof (rule desc_exact_then)
    show "desc_exact cap
      (if c = CHR 0x5C then gh_str_appendc str [CHR 0x5C, CHR 0x5C] 2 False
       else if c = CHR 0x22 then gh_str_appendc str [CHR 0x5C, CHR 0x22] 2 False
       else if c = CHR 0x0A then gh_str_appendc str [CHR 0x5C, CHR ''n''] 2 False
       else if c = CHR 0x09 then gh_str_appendc str [CHR 0x5C, CHR ''t''] 2 False
       else gh_str_appendchar str c) (v @ escape_char c)"
      using appendchar_exact [OF Cons.prems(1), of c] by (simp add: escape_char_def two)
  next
    fix str1 assume "st_holds cap (v @ escape_char c) str1"
    from Cons.IH [OF this] Cons.prems(2)
    show "desc_exact cap (append_escaped str1 s) (v @ escape_text (c # s))" by (simp add: escape_text_def)
  qed (simp add: escape_text_def)
qed

lemma cmdline_args_exact:
  "st_holds cap v str \<Longrightarrow> desc_exact cap (cmdline_args args str) (v @ args_text args)"
proof (induction args arbitrary: v str)
  case Nil
  then show ?case by (simp add: args_text_def desc_exact_done st_holds_length)
next
  case (Cons a args)
  let ?q = "[CHR '' '', CHR 0x22]"
  show ?case
    unfolding cmdline_args.simps
  proof (rule desc_exact_then)
    show "desc_exact cap (gh_str_appendc str ?q 2 False) (v @ ?q)"
      using appendc_exact [OF Cons.prems, of 2 ?q] by simp
  next
    fix str1 assume 1: "st_holds cap (v @ ?q) str1"
    show "desc_exact cap (desc_then (append_escaped str1 (cstr a))
        (\<lambda>str. desc_then (gh_str_appendchar str (CHR 0x22)) (cmdline_args args))) (v @ args_text (a # args))"
    proof (rule desc_exact_then [OF append_escaped_exact [OF 1]])
      fix str2 assume 2: "st_holds cap ((v @ ?q) @ escape_text (cstr a)) str2"
      show "desc_exact cap (desc_then (gh_str_appendchar str2 (CHR 0x22)) (cmdline_args args))
          (v @ args_text (a # args))"
      proof (rule desc_exact_then [OF appendchar_exact [OF 2]])
        fix str3 assume "st_holds cap (((v @ ?q) @ escape_text (cstr a)) @ [CHR 0x22]) str3"
        from Cons.IH [OF this] show "desc_exact cap (cmdline_args args str3) (v @ args_text (a # args))"
          by (simp add: args_text_def)
      qed (simp add: args_text_def)
    qed (simp_all add: args_text_def)
  qed (simp add: args_text_def)
qed

lemma insertnull_exact:
  assumes "st_holds cap v str"
  shows "desc_exact cap (gh_str_insertnull str) (v @ [NUL])"
proof (cases "length v < cap")
  case True
  then show ?thesis using insertnull_fits [OF assms True] by (auto simp: desc_exact_def)
next
  case False
  with st_holds_length [OF assms] have "length v = cap" by simp
  then have "st_size str \<ge> st_capacity str"
    using assms st_holds_size [OF assms] by (simp add: st_holds_def size_le_unat)
  then have "gh_str_insertnull str = Some (False, str)" by (simp add: gh_str_insertnull_def)
  with False show ?thesis unfolding desc_exact_def by fastforce
qed

lemma desc_exact_null:
  "st_holds cap v str \<Longrightarrow> desc_exact cap (desc_then (gh_str_insertnull str) (\<lambda>str. Some (True, str))) (v @ [NUL])"
  by (rule desc_exact_then [OF insertnull_exact desc_exact_done [OF _ st_holds_length] order_refl])

text \<open>The path of the program is an absolute path without NUL.\<close>

lemma buildcmdline_exact:
  assumes "st_holds cap [] str" "nul_free (ac_view path)" "unat (ac_len path) \<le> length (ac_chars path)"
  shows "desc_exact cap (permexec_buildcmdline str path argv)
     (cmdline_text (ac_view path) argv @ (if argv = [] then [] else [NUL]))"
proof -
  have view: "take (unat (ac_len path)) (ac_chars path) = ac_view path"
    by (simp add: ac_view_def ac_chars_def split: option.split)
  show ?thesis
    unfolding permexec_buildcmdline_def
  proof (rule desc_exact_then)
    show "desc_exact cap (gh_str_appendc str (ac_chars path) (ac_len path) False) (ac_view path)"
      using appendc_exact [OF assms(1), of "ac_len path" "ac_chars path"] assms(2,3) view by simp
  next
    fix str1 assume 1: "st_holds cap (ac_view path) str1"
    show "desc_exact cap (if argv = [] then Some (True, str1)
          else desc_then (cmdline_args (tl argv) str1)
                 (\<lambda>str. desc_then (gh_str_insertnull str) (\<lambda>str. Some (True, str))))
        (cmdline_text (ac_view path) argv @ (if argv = [] then [] else [NUL]))"
    proof (cases "argv = []")
      case True
      with 1 show ?thesis
        by (simp add: cmdline_text_def args_text_def desc_exact_done st_holds_length)
    next
      case False
      show ?thesis
        unfolding if_not_P [OF False]
      proof (rule desc_exact_then [OF cmdline_args_exact [OF 1]])
        fix str2 assume "st_holds cap (ac_view path @ args_text (tl argv)) str2"
        from desc_exact_null [OF this]
        show "desc_exact cap (desc_then (gh_str_insertnull str2) (\<lambda>str. Some (True, str)))
            (cmdline_text (ac_view path) argv @ [NUL])" by (simp add: cmdline_text_def)
      qed (simp add: cmdline_text_def)
    qed
  qed (simp add: cmdline_text_def)
qed

section \<open>The command line determines the arguments\<close>

lemma escape_char_cases:
  "(\<exists>d. escape_char c = [CHR 0x5C, d] \<and> d \<noteq> NUL) \<or> escape_char c = [c] \<and> c \<noteq> CHR 0x5C \<and> c \<noteq> CHR 0x22"
  by (auto simp: escape_char_def)

lemma escape_char_inj: "escape_char c @ x = escape_char d @ y \<Longrightarrow> c = d \<and> x = y"
  by (auto simp: escape_char_def split: if_splits)

lemma escape_char_no_quote: "escape_char c \<noteq> [] \<and> hd (escape_char c) \<noteq> CHR 0x22"
  by (simp add: escape_char_def)

lemma escape_text_inj:
  "escape_text a @ CHR 0x22 # x = escape_text b @ CHR 0x22 # y \<Longrightarrow> a = b \<and> x = y"
proof (induction a arbitrary: b)
  case Nil
  show ?case
  proof (cases b)
    case Nil
    with Nil.prems show ?thesis by (simp add: escape_text_def)
  next
    case (Cons d b')
    with Nil.prems escape_char_no_quote [of d] show ?thesis
      by (cases "escape_char d") (auto simp: escape_text_def)
  qed
next
  case (Cons c a)
  show ?case
  proof (cases b)
    case Nil
    with Cons.prems escape_char_no_quote [of c] show ?thesis
      by (cases "escape_char c") (auto simp: escape_text_def)
  next
    case (Cons d b')
    with Cons.prems have "escape_char c @ (escape_text a @ CHR 0x22 # x) = escape_char d @ (escape_text b' @ CHR 0x22 # y)"
      by (simp add: escape_text_def)
    from escape_char_inj [OF this] Cons.IH [of b'] Cons show ?thesis by blast
  qed
qed

lemma args_text_inj: "args_text as = args_text bs \<Longrightarrow> map cstr as = map cstr bs"
proof (induction as arbitrary: bs)
  case Nil
  then show ?case by (cases bs) (auto simp: args_text_def)
next
  case (Cons a as)
  then obtain b bs' where bs: "bs = b # bs'" by (cases bs) (auto simp: args_text_def)
  with Cons.prems have "escape_text (cstr a) @ CHR 0x22 # args_text as = escape_text (cstr b) @ CHR 0x22 # args_text bs'"
    by (simp add: args_text_def)
  from escape_text_inj [OF this] Cons.IH bs show ?case by auto
qed

section \<open>The request as a whole\<close>

fun env_text :: "bool \<Rightarrow> string list \<Rightarrow> string" where
  "env_text first [] = []"
| "env_text first (kv # kvs) =
     (if first then [] else [CHR '' '']) @ CHR 0x22 # escape_text (cstr kv) @ CHR 0x22 # env_text False kvs"

lemma env_vars_exact: "st_holds cap v str \<Longrightarrow> desc_exact cap (env_vars first kvs str) (v @ env_text first kvs)"
proof (induction first kvs arbitrary: v str rule: env_text.induct)
  case (1 first)
  then show ?case by (simp add: desc_exact_done st_holds_length)
next
  case (2 first kv kvs)
  let ?s = "if first then [] else [CHR '' '']" and ?e = "escape_text (cstr kv)"
  have "desc_exact cap (env_vars first (kv # kvs) str) (((((v @ ?s) @ [CHR 0x22]) @ ?e) @ [CHR 0x22]) @ env_text False kvs)"
    unfolding env_vars.simps
  proof (rule desc_exact_then)
    show "desc_exact cap (if \<not> first then gh_str_appendchar str (CHR '' '') else Some (True, str)) (v @ ?s)"
      using appendchar_exact [OF 2(2)] desc_exact_done [OF 2(2) st_holds_length [OF 2(2)]] by simp
    fix str1 assume 1: "st_holds cap (v @ ?s) str1"
    show "desc_exact cap (desc_then (gh_str_appendchar str1 (CHR 0x22)) (\<lambda>str.
        desc_then (append_escaped str (cstr kv)) (\<lambda>str.
        desc_then (gh_str_appendchar str (CHR 0x22)) (env_vars False kvs))))
        (((((v @ ?s) @ [CHR 0x22]) @ ?e) @ [CHR 0x22]) @ env_text False kvs)"
    proof (rule desc_exact_then [OF appendchar_exact [OF 1]])
      fix str2 assume 2: "st_holds cap ((v @ ?s) @ [CHR 0x22]) str2"
      show "desc_exact cap (desc_then (append_escaped str2 (cstr kv)) (\<lambda>str.
          desc_then (gh_str_appendchar str (CHR 0x22)) (env_vars False kvs)))
          (((((v @ ?s) @ [CHR 0x22]) @ ?e) @ [CHR 0x22]) @ env_text False kvs)"
      proof (rule desc_exact_then [OF append_escaped_exact [OF 2]])
        fix str3 assume 3: "st_holds cap (((v @ ?s) @ [CHR 0x22]) @ ?e) str3"
        show "desc_exact cap (desc_then (gh_str_appendchar str3 (CHR 0x22)) (env_vars False kvs))
            (((((v @ ?s) @ [CHR 0x22]) @ ?e) @ [CHR 0x22]) @ env_text False kvs)"
          by (rule desc_exact_then [OF appendchar_exact [OF 3] "2.IH"]) simp_all
      qed simp_all
    qed simp
  qed simp
  then show ?case by simp
qed

lemma buildenv_exact:
  assumes "st_holds cap [] str"
  shows "desc_exact cap (permexec_buildenv str envp) (env_text True envp @ [NUL])"
  unfolding permexec_buildenv_def
  using desc_exact_then [OF env_vars_exact [OF assms] desc_exact_null] by simp

lemma empty_str_holds: "st_holds n [] (gh_str_fromc (replicate n NUL) 0 (of_nat n))" if "n < 18446744073709551616"
  using that by (simp add: st_holds_def st_wf_def st_view_def gh_str_fromc_def unat_of_nat_nowrap)

lemma builddescription_fits:
  "\<exists>str. permexec_builddescription (gh_str_fromc (replicate 512 NUL) 0 512) n = Some (True, str)"
proof -
  let ?e = "if 0 < n then permexec_desc_env else []"
  have z: "nul_free permexec_desc_intro" "nul_free permexec_desc_env" "nul_free permexec_desc_warning"
    "length permexec_desc_intro + length permexec_desc_env + length permexec_desc_warning < 512"
    by (simp_all add: permexec_desc_intro_def permexec_desc_env_def permexec_desc_warning_def)
  have 0: "st_holds 512 [] (gh_str_fromc (replicate 512 NUL) 0 512)" using empty_str_holds [of 512] by simp
  have "desc_ok 512 (permexec_builddescription (gh_str_fromc (replicate 512 NUL) 0 512) n)
      (((permexec_desc_intro @ ?e) @ permexec_desc_warning) @ [NUL])"
    unfolding permexec_builddescription_def
  proof (rule desc_ok_then)
    show "desc_ok 512 (gh_str_appendz (gh_str_fromc (replicate 512 NUL) 0 512) permexec_desc_intro True) permexec_desc_intro"
      using appendz_fits [OF 0 z(1)] z(4) by simp
    fix s1 assume 1: "st_holds 512 permexec_desc_intro s1"
    show "desc_ok 512 (desc_then (if 0 < n then gh_str_appendz s1 permexec_desc_env True else Some (True, s1)) (\<lambda>str.
        desc_then (gh_str_appendz str permexec_desc_warning True) (\<lambda>str.
        desc_then (gh_str_insertnull str) (\<lambda>str. Some (True, str)))))
        (((permexec_desc_intro @ ?e) @ permexec_desc_warning) @ [NUL])"
    proof (rule desc_ok_then)
      show "desc_ok 512 (if 0 < n then gh_str_appendz s1 permexec_desc_env True else Some (True, s1)) (permexec_desc_intro @ ?e)"
        using appendz_fits [OF 1 z(2)] z(4) desc_ok_done [OF 1] by simp
      fix s2 assume 2: "st_holds 512 (permexec_desc_intro @ ?e) s2"
      show "desc_ok 512 (desc_then (gh_str_appendz s2 permexec_desc_warning True) (\<lambda>str.
          desc_then (gh_str_insertnull str) (\<lambda>str. Some (True, str))))
          (((permexec_desc_intro @ ?e) @ permexec_desc_warning) @ [NUL])"
      proof (rule desc_ok_then)
        show "desc_ok 512 (gh_str_appendz s2 permexec_desc_warning True) ((permexec_desc_intro @ ?e) @ permexec_desc_warning)"
          using appendz_fits [OF 2 z(3)] z(4) by simp
        fix s3 assume 3: "st_holds 512 ((permexec_desc_intro @ ?e) @ permexec_desc_warning) s3"
        show "desc_ok 512 (desc_then (gh_str_insertnull s3) (\<lambda>str. Some (True, str)))
            (((permexec_desc_intro @ ?e) @ permexec_desc_warning) @ [NUL])"
          by (rule desc_ok_then [OF _ desc_ok_done]) (use insertnull_fits [OF 3] z(4) in \<open>auto simp: desc_ok_def\<close>)
      qed
    qed
  qed
  then show ?thesis by (auto simp: desc_ok_def)
qed

text \<open>The request is made exactly when the two texts fit in their 4096 characters.\<close>

lemma makerequest_cases:
  assumes "strlen source < 512" "nul_free (ac_view path)" "unat (ac_len path) \<le> length (ac_chars path)" "argv \<noteq> []"
  shows "\<exists>res req. permexec_makerequest source path argv envp = Some (res, req) \<and>
     res = (if 4096 < length (cmdline_text (ac_view path) argv @ [NUL]) then GHR_PERMEXEC_LARGECMDLINE
            else if 4096 < length (env_text True envp @ [NUL]) then GHR_PERMEXEC_LARGEENV else GHR_OK) \<and>
     (res = GHR_OK \<longrightarrow> rq_source req = cstr source \<and> rq_group req = ''exec'' \<and> rq_resource req = ''cmdline'' \<and>
       cs_view (rf_value (rq_fields req ! 1)) = cmdline_text (ac_view path) argv @ [NUL])"
proof -
  have 0: "st_holds 4096 [] (gh_str_fromc (replicate 4096 NUL) 0 4096)" using empty_str_holds [of 4096] by simp
  from buildcmdline_exact [OF 0 assms(2,3), of argv] assms(4) obtain fits cmdline where
    c: "permexec_buildcmdline (gh_str_fromc (replicate 4096 NUL) 0 4096) path argv = Some (fits, cmdline)"
    "fits \<longleftrightarrow> length (cmdline_text (ac_view path) argv @ [NUL]) \<le> 4096"
    "fits \<longrightarrow> st_view cmdline = cmdline_text (ac_view path) argv @ [NUL]" by (auto simp: desc_exact_def st_holds_def)
  from buildenv_exact [OF 0, of envp] obtain fits' env where
    e: "permexec_buildenv (gh_str_fromc (replicate 4096 NUL) 0 4096) envp = Some (fits', env)"
    "fits' \<longleftrightarrow> length (env_text True envp @ [NUL]) \<le> 4096" by (auto simp: desc_exact_def)
  obtain d where d: "permexec_builddescription (gh_str_fromc (replicate 512 NUL) 0 512) (length envp) = Some (True, d)"
    using builddescription_fits by blast
  show ?thesis
    using c e d assms(1)
    by (cases fits; cases fits')
      (auto simp: permexec_makerequest_def Let_def rq_setat_def permrequest_zero_def str_value_def cs_view_def
        st_view_def ghr_simps)
qed

end
