(* ===== verification/PermExecFile.thy ===== *)
theory PermExecFile
  imports PermExec Parser Writer
begin

text \<open>
  The program permissions as a part of the policy file: hexadecimal hashes, the resource parser of
  \<^verbatim>\<open>perms/permexec.c\<close> for \<^verbatim>\<open>exec cmdline\<close> and the function that writes the entries.
\<close>

section \<open>Hexadecimal digits\<close>

definition hex_fromnibble :: "char \<Rightarrow> nat option" where
  "hex_fromnibble c =
     (if c_between (CHR ''A'') c (CHR ''F'') then Some (of_char c - of_char (CHR ''A'') + 10)
      else if c_between (CHR ''a'') c (CHR ''f'') then Some (of_char c - of_char (CHR ''a'') + 10)
      else if c_between (CHR ''0'') c (CHR ''9'') then Some (of_char c - of_char (CHR ''0''))
      else None)"

definition hex_digit :: "nat \<Rightarrow> char" where
  "hex_digit n =
     (if n \<ge> 10 then char_of (of_char (CHR ''a'') + (n - 10)) else char_of (of_char (CHR ''0'') + n))"

text \<open>The high digit and the low digit of a byte\<close>

definition hex_tonibbles :: "char \<Rightarrow> char \<times> char" where
  "hex_tonibbles byte =
     (let low = (of_char byte :: nat) AND 0xF; high = ((of_char byte :: nat) AND 0xF0) div 16 in
      (hex_digit high, hex_digit low))"

text \<open>
  The loop over the characters of a hash from index \<open>i\<close> on, \<open>n\<close> of them left; the second component
  is what has been stored.
\<close>

fun readhash_loop :: "string \<Rightarrow> nat \<Rightarrow> nat \<Rightarrow> string \<Rightarrow> (gh_result \<times> string) option" where
  "readhash_loop buf i 0 h = Some (GHR_OK, h)"
| "readhash_loop buf i (Suc n) h =
     (if i * 2 + 1 < length buf then
        (case hex_fromnibble (buf ! (i * 2 + 0)) of
           None \<Rightarrow> Some (GHR_PERMEXEC_NOTHASH, h)
         | Some nibble_high \<Rightarrow>
             (case hex_fromnibble (buf ! (i * 2 + 1)) of
                None \<Rightarrow> Some (GHR_PERMEXEC_NOTHASH, h)
              | Some nibble_low \<Rightarrow>
                  readhash_loop buf (Suc i) n (h @ [char_of (nibble_high * 16 + nibble_low)])))
      else None)"

definition permexec_readhash :: "gh_conststr \<Rightarrow> (gh_result \<times> gh_sha256) option" where
  "permexec_readhash str =
     (if cs_size str \<noteq> 64 then Some (GHR_PERMEXEC_NOTHASH, [])
      else readhash_loop (cs_buffer str) 0 GH_SHA256_DIGESTLEN [])"

section \<open>Reading\<close>

definition permexecparser_matches ::
  "string \<Rightarrow> string \<Rightarrow> gh_permparser \<times> 'u \<Rightarrow> (gh_result \<times> (gh_permparser \<times> 'u)) option" where
  "permexecparser_matches group_id resource_id st =
     Some (if gh_str_eqlzrz group_id ''exec'' \<and> gh_str_eqlzrz resource_id ''cmdline''
           then GHR_OK else GHR_PERMPARSER_NOMATCH, st)"

definition permexecparser_newentry ::
  "gh_alloc \<Rightarrow> tok_conststr \<Rightarrow> gh_permparser \<times> gh_permexec \<Rightarrow>
   (gh_result \<times> (da_ptr option \<times> (gh_permparser \<times> gh_permexec))) option" where
  "permexecparser_newentry al v st =
     (case st of (p, permexec) \<Rightarrow>
      Option.bind (pp_resolve p v) (\<lambda>value.
      Option.bind (permexec_readhash value) (\<lambda>(res, combined_hash).
      if ghr_iserr res then Some (res, (None, st))
      else
        Option.bind
          (gh_permexec_hashlist_add al (px_hashlist permexec)
             \<lparr>xe_mode = px_default_mode permexec, xe_hash = combined_hash\<rparr>) (\<lambda>(res, list).
        let permexec = permexec\<lparr>px_hashlist := list\<rparr> in
        if ghr_iserr res then Some (res, (None, (p, permexec)))
        else Some (GHR_OK, (Some (da_block list, unat (da_size list - 1)), (p, permexec)))))))"

definition exec_mode_of :: "gh_conststr \<Rightarrow> gh_permexec_mode option" where
  "exec_mode_of action =
     (if gh_conststr_eqz action ''accept'' then Some GH_PERMEXEC_ACCEPT
      else if gh_conststr_eqz action ''reject'' then Some GH_PERMEXEC_REJECT
      else if gh_conststr_eqz action ''prompt'' then Some GH_PERMEXEC_PROMPT
      else None)"

definition permexecparser_setfield ::
  "gh_alloc \<Rightarrow> da_ptr option \<Rightarrow> string \<Rightarrow> gh_permparser \<times> gh_permexec \<Rightarrow>
   (gh_result \<times> (gh_permparser \<times> gh_permexec)) option" where
  "permexecparser_setfield al entry field st =
     (if gh_str_eqlzrz field ''mode'' then
        (case st of (p, permexec) \<Rightarrow>
         Option.bind (gh_permparser_nextidentifier al p) (\<lambda>(res, v, p).
         if ghr_iserr res then Some (res, (p, permexec))
         else
           Option.bind v (\<lambda>v.
           Option.bind (pp_resolve p v) (\<lambda>action.
           case exec_mode_of action of
             None \<Rightarrow>
               (let (res, p) = gh_permparser_resourceerror ''Unknown action type'' p in Some (res, (p, permexec)))
           | Some mode \<Rightarrow>
               Option.bind entry (\<lambda>entry.
               Option.bind (da_deref (px_hashlist permexec) entry) (\<lambda>e.
               Option.bind (da_store (px_hashlist permexec) entry (e\<lparr>xe_mode := mode\<rparr>)) (\<lambda>list.
               Some (GHR_OK, (p, permexec\<lparr>px_hashlist := list\<rparr>)))))))))
      else Some (GHR_PERMPARSER_UNKNOWNFIELD, st))"

definition permexec_resourceparser :: "gh_alloc \<Rightarrow> (gh_permexec, da_ptr) gh_permresourceparser" where
  "permexec_resourceparser al =
     \<lparr>rp_matches = permexecparser_matches, rp_newentry = permexecparser_newentry al,
      rp_setfield = permexecparser_setfield al\<rparr>"

definition gh_permexec_registerparser ::
  "gh_alloc \<Rightarrow> (gh_permexec, da_ptr) gh_permresourceparser list \<Rightarrow>
   gh_result \<times> (gh_permexec, da_ptr) gh_permresourceparser list" where
  "gh_permexec_registerparser al rps = gh_permparser_registerresource rps (permexec_resourceparser al)"

section \<open>Writing\<close>

definition hash_bytes :: "gh_sha256 \<Rightarrow> string" where
  "hash_bytes h = concat (map (\<lambda>c. case hex_tonibbles c of (high, low) \<Rightarrow> [high, low]) h)"

text \<open>\<^verbatim>\<open>accept\<close> is written as an identifier, the other modes as strings.\<close>

definition permexec_writemode ::
  "env \<Rightarrow> gh_permexec_mode \<Rightarrow> pw_state \<Rightarrow> gh_result \<times> pw_state" where
  "permexec_writemode env mode st =
     (case mode of
        GH_PERMEXEC_ACCEPT \<Rightarrow> gh_permwriter_fieldargident env ''accept'' st
      | GH_PERMEXEC_REJECT \<Rightarrow> gh_permwriter_fieldargstring env ''reject'' st
      | GH_PERMEXEC_PROMPT \<Rightarrow> gh_permwriter_fieldargstring env ''prompt'' st)"

fun permexec_writeentries ::
  "env \<Rightarrow> gh_permexec_entry list \<Rightarrow> pw_state \<Rightarrow> gh_result \<times> pw_state" where
  "permexec_writeentries env [] st = (GHR_OK, st)"
| "permexec_writeentries env (entry # entries) st =
     ghr_seq (gh_permwriter_beginentry env (hash_bytes (xe_hash entry)) st) (\<lambda>st.
     ghr_seq (gh_permwriter_field env ''mode'' st) (\<lambda>st.
     ghr_seq (permexec_writemode env (xe_mode entry) st) (\<lambda>st.
     ghr_seq (gh_permwriter_endentry env st) (permexec_writeentries env entries))))"

definition gh_permexec_write :: "env \<Rightarrow> gh_permexec \<Rightarrow> pw_state \<Rightarrow> gh_result \<times> pw_state" where
  "gh_permexec_write env permexec st =
     ghr_seq (gh_permwriter_beginresource env ''exec'' ''cmdline'' st) (\<lambda>st.
     ghr_seq (permexec_writeentries env (da_items (px_hashlist permexec)) st) (gh_permwriter_endresource env))"

section \<open>Digits round trip\<close>

lemma digit_code: "n < 16 \<Longrightarrow> of_char (hex_digit n) = (if n \<ge> 10 then n + 87 else n + 48)"
  by (auto simp: hex_digit_def)

lemma nibble_digit: "n < 16 \<Longrightarrow> hex_fromnibble (hex_digit n) = Some n"
  by (simp add: hex_fromnibble_def c_between_def digit_code)

lemma high_bits: "(n :: nat) AND 240 = 16 * (n div 16 mod 16)"
proof -
  have "n AND 240 = push_bit 4 (take_bit 4 (drop_bit 4 n))"
  proof -
    have e: "(240 :: nat) = push_bit 4 (mask 4)" by (simp add: push_bit_eq_mult mask_eq_exp_minus_1)
    show ?thesis unfolding e by (auto intro!: bit_eqI simp: bit_simps)
  qed
  then show ?thesis by (simp add: push_bit_eq_mult take_bit_eq_mod drop_bit_eq_div)
qed
lemma low_bits: "(n :: nat) AND 15 = n mod 16"
  using take_bit_eq_mask [of 4 n] by (simp add: take_bit_eq_mod mask_eq_exp_minus_1)

lemma nibbles_of_byte:
  "hex_tonibbles c = (hex_digit (of_char c div 16), hex_digit (of_char c mod 16))"
proof -
  have "of_char c div 16 < (16 :: nat)" using nat_of_char_less_256 [of c] by linarith
  then show ?thesis by (simp add: hex_tonibbles_def high_bits low_bits)
qed

end
