(* ===== verification/Perms.thy ===== *)
theory Perms
  imports PermExecFile
begin

text \<open>
  The permission system of a thread (\<^verbatim>\<open>perms/perms.c\<close>): the filesystem permissions, the program
  permissions and the generic handlers of the application behind one interface, the policy file
  that holds them all, and the registry of the handlers.
\<close>

section \<open>Generic handlers\<close>

text \<open>
  The functions of \<^verbatim>\<open>gh_permgeneric\<close> belong to the application: \<open>'g\<close> is what an instance pointer
  points to, \<open>'h\<close> what an entry pointer of the handler is. A function that gets an instance returns
  it as it leaves it; \<open>gv_ctor\<close> is \<open>None\<close> for NULL.
\<close>

record ('g, 'h) gh_permgeneric =
  gv_ctor :: "'g option"
  gv_dtor :: "'g \<Rightarrow> gh_result \<times> 'g"
  gv_match :: "'g \<Rightarrow> string \<Rightarrow> string \<Rightarrow> gh_result \<times> 'g"
  gv_newentry :: "'g \<Rightarrow> gh_conststr \<Rightarrow> gh_result \<times> ('h option \<times> 'g)"
  gv_loadentry :: "'g \<Rightarrow> 'h option \<Rightarrow> string \<Rightarrow> gh_permparser \<Rightarrow> (gh_result \<times> (gh_permparser \<times> 'g)) option"
  gv_save :: "'g \<Rightarrow> pw_state \<Rightarrow> gh_result \<times> ('g \<times> pw_state)"

record ('g, 'h) gh_permgeneric_instance =
  gi_id :: string
  gi_vtable :: "('g, 'h) gh_permgeneric"
  gi_instance :: 'g

abbreviation (input) GH_PERMGENERIC_IDMAX :: nat where "GH_PERMGENERIC_IDMAX \<equiv> 64"
abbreviation (input) GH_PERMS_MAXGENERIC :: nat where "GH_PERMS_MAXGENERIC \<equiv> 16"

text \<open>The first \<^verbatim>\<open>generic_count\<close> instances of the array are the list \<open>ps_generic\<close>.\<close>

record ('g, 'h) gh_perms =
  ps_procfd :: gh_procfd
  ps_prompter :: gh_permprompter
  ps_filesystem :: gh_permfs
  ps_exec :: gh_permexec
  ps_generic :: "('g, 'h) gh_permgeneric_instance list"

section \<open>Construction and the gates\<close>

text \<open>The result of a step and the state with the part that the step has changed\<close>

definition part_step :: "('u \<Rightarrow> 's \<Rightarrow> 's) \<Rightarrow> 's \<Rightarrow> gh_result \<times> 'u \<Rightarrow> gh_result \<times> 's" where
  "part_step put s r = (case r of (res, u) \<Rightarrow> (res, put u s))"

definition put_filesystem :: "gh_permfs \<Rightarrow> ('g, 'h) gh_perms \<Rightarrow> ('g, 'h) gh_perms" where
  "put_filesystem permfs perms = perms\<lparr>ps_filesystem := permfs\<rparr>"

definition put_exec :: "gh_permexec \<Rightarrow> ('g, 'h) gh_perms \<Rightarrow> ('g, 'h) gh_perms" where
  "put_exec permexec perms = perms\<lparr>ps_exec := permexec\<rparr>"

definition permexec_zero :: gh_permexec where
  "permexec_zero =
     \<lparr>px_default_mode = GH_PERMEXEC_ACCEPT,
      px_hashlist = \<lparr>da_buffer = None, da_capacity = 0, da_size = 0, da_block = 0\<rparr>,
      px_allowed_env = replicate GH_PERMEXEC_MAXALLOWEDENV None\<rparr>"

definition gh_perms_ctor ::
  "env \<Rightarrow> gh_alloc \<Rightarrow> gh_permprompter \<Rightarrow> trace \<Rightarrow> gh_result \<times> (('g, 'h) gh_perms \<times> trace)" where
  "gh_perms_ctor env al prompter tr =
     (let perms = \<lparr>ps_procfd = \<lparr>pr_fd = 0\<rparr>, ps_prompter = prompter,
                   ps_filesystem = \<lparr>da_buffer = None, da_capacity = 0, da_size = 0, da_block = 0\<rparr>,
                   ps_exec = permexec_zero, ps_generic = []\<rparr>;
          (res, procfd, tr) = gh_procfd_ctor env tr;
          perms = (case procfd of None \<Rightarrow> perms | Some p \<Rightarrow> perms\<lparr>ps_procfd := p\<rparr>) in
      if ghr_iserr res then (res, (perms, tr))
      else
        (let (res, perms) = part_step put_filesystem perms (gh_permfs_ctor al (ps_filesystem perms)) in
         if ghr_iserr res then (res, (perms, tr))
         else
           (let (res, perms) = part_step put_exec perms (gh_permexec_ctor al (ps_exec perms)) in
            (res, (perms, tr)))))"

definition gh_perms_gatefile ::
  "env \<Rightarrow> gh_alloc \<Rightarrow> string \<Rightarrow> gh_pathfd \<Rightarrow> gh_permfs_mode \<Rightarrow> string option \<Rightarrow>
   ('g, 'h) gh_perms \<times> trace \<Rightarrow> (gh_result \<times> (('g, 'h) gh_perms \<times> trace)) option" where
  "gh_perms_gatefile env al safe_id fd mode hint st =
     (case st of (perms, tr) \<Rightarrow>
      map_option (\<lambda>(res, permfs, tr). (res, (put_filesystem permfs perms, tr)))
        (gh_permfs_gatefile env al (ps_prompter perms) (ps_procfd perms) safe_id fd mode hint
           (ps_filesystem perms, tr)))"

definition gh_perms_fsrequest ::
  "env \<Rightarrow> gh_alloc \<Rightarrow> string \<Rightarrow> gh_pathfd \<Rightarrow> gh_permfs_mode \<Rightarrow> gh_permfs_mode \<Rightarrow> string option \<Rightarrow> bool \<Rightarrow>
   ('g, 'h) gh_perms \<times> trace \<Rightarrow> (gh_result \<times> (bool \<times> (('g, 'h) gh_perms \<times> trace))) option" where
  "gh_perms_fsrequest env al safe_id fd self_mode children_mode hint dry st =
     (case st of (perms, tr) \<Rightarrow>
      map_option (\<lambda>(res, would, permfs, tr). (res, (would, (put_filesystem permfs perms, tr))))
        (gh_permfs_requestnode env al (ps_prompter perms) (ps_procfd perms) safe_id fd self_mode children_mode
           hint dry (ps_filesystem perms, tr)))"

definition gh_perms_gateexec ::
  "env \<Rightarrow> gh_alloc \<Rightarrow> string \<Rightarrow> gh_pathfd \<Rightarrow> string list \<Rightarrow> string list \<Rightarrow>
   ('g, 'h) gh_perms \<times> trace \<Rightarrow> (gh_result \<times> (('g, 'h) gh_perms \<times> trace)) option" where
  "gh_perms_gateexec env al safe_id exe_fd argv envp st =
     (case st of (perms, tr) \<Rightarrow>
      map_option (\<lambda>(res, permexec, tr). (res, (put_exec permexec perms, tr)))
        (gh_permexec_gate env al (ps_prompter perms) (ps_procfd perms) safe_id exe_fd argv envp
           (ps_exec perms, tr)))"

text \<open>The loop over the handlers ignores their results.\<close>

definition generic_dtor :: "('g, 'h) gh_permgeneric_instance \<Rightarrow> ('g, 'h) gh_permgeneric_instance" where
  "generic_dtor inst = inst\<lparr>gi_instance := snd (gv_dtor (gi_vtable inst) (gi_instance inst))\<rparr>"

definition gh_perms_dtor ::
  "env \<Rightarrow> gh_alloc \<Rightarrow> ('g, 'h) gh_perms \<times> trace \<Rightarrow> (gh_result \<times> (('g, 'h) gh_perms \<times> trace)) option" where
  "gh_perms_dtor env al st =
     (case st of (perms, tr) \<Rightarrow>
      (let perms = perms\<lparr>ps_generic := map generic_dtor (ps_generic perms)\<rparr> in
       Option.bind (gh_permfs_dtor al (ps_filesystem perms)) (\<lambda>r.
       let (res, perms) = part_step put_filesystem perms r in
       if ghr_iserr res then Some (res, (perms, tr))
       else
         Option.bind (gh_permexec_dtor al (ps_exec perms)) (\<lambda>r.
         let (res, perms) = part_step put_exec perms r in
         if ghr_iserr res then Some (res, (perms, tr))
         else (let (res, tr) = gh_procfd_dtor env (ps_procfd perms) tr in Some (res, (perms, tr)))))))"

section \<open>Resource parsers over the whole state\<close>

text \<open>
  The \<^verbatim>\<open>userdata\<close> of a resource parser points to a part of the permission system, and an entry pointer
  is what the callbacks of that part have made: \<open>tag\<close> tags it, \<open>untag\<close> is the cast back.
\<close>

datatype 'h perms_entry = FilesystemEntry da_ptr | ExecEntry da_ptr | GenericEntry nat 'h

definition rp_lift ::
  "('s \<Rightarrow> 'u) \<Rightarrow> ('u \<Rightarrow> 's \<Rightarrow> 's) \<Rightarrow> ('e \<Rightarrow> 'f) \<Rightarrow> ('f \<Rightarrow> 'e option) \<Rightarrow>
   ('u, 'e) gh_permresourceparser \<Rightarrow> ('s, 'f) gh_permresourceparser" where
  "rp_lift get put tag untag rp =
     \<lparr>rp_matches = (\<lambda>group_id resource_id (p, s).
        map_option (\<lambda>(res, p, u). (res, (p, put u s))) (rp_matches rp group_id resource_id (p, get s))),
      rp_newentry = (\<lambda>v (p, s).
        map_option (\<lambda>(res, entry, p, u). (res, (map_option tag entry, (p, put u s)))) (rp_newentry rp v (p, get s))),
      rp_setfield = (\<lambda>entry field (p, s).
        map_option (\<lambda>(res, p, u). (res, (p, put u s)))
          (rp_setfield rp (Option.bind entry untag) field (p, get s)))\<rparr>"

definition filesystem_entry :: "'h perms_entry \<Rightarrow> da_ptr option" where
  "filesystem_entry e = (case e of FilesystemEntry p \<Rightarrow> Some p | _ \<Rightarrow> None)"

definition exec_entry :: "'h perms_entry \<Rightarrow> da_ptr option" where
  "exec_entry e = (case e of ExecEntry p \<Rightarrow> Some p | _ \<Rightarrow> None)"

definition generic_entry :: "nat \<Rightarrow> 'h perms_entry \<Rightarrow> 'h option" where
  "generic_entry i e = (case e of GenericEntry j h \<Rightarrow> if i = j then Some h else None | _ \<Rightarrow> None)"

definition filesystem_rp :: "gh_alloc \<Rightarrow> (('g, 'h) gh_perms, 'h perms_entry) gh_permresourceparser" where
  "filesystem_rp al = rp_lift ps_filesystem put_filesystem FilesystemEntry filesystem_entry (permfs_resourceparser al)"

definition exec_rp :: "gh_alloc \<Rightarrow> (('g, 'h) gh_perms, 'h perms_entry) gh_permresourceparser" where
  "exec_rp al = rp_lift ps_exec put_exec ExecEntry exec_entry (permexec_resourceparser al)"

text \<open>The callbacks of a handler's resource parser; its \<^verbatim>\<open>userdata\<close> is the instance.\<close>

definition put_instance ::
  "'g \<Rightarrow> ('g, 'h) gh_permgeneric_instance \<Rightarrow> ('g, 'h) gh_permgeneric_instance" where
  "put_instance g inst = inst\<lparr>gi_instance := g\<rparr>"

definition permgeneric_matches ::
  "string \<Rightarrow> string \<Rightarrow> gh_permparser \<times> ('g, 'h) gh_permgeneric_instance \<Rightarrow>
   (gh_result \<times> (gh_permparser \<times> ('g, 'h) gh_permgeneric_instance)) option" where
  "permgeneric_matches group_id resource_id st =
     (case st of (p, inst) \<Rightarrow>
      (let (res, g) = gv_match (gi_vtable inst) (gi_instance inst) group_id resource_id in
       Some (res, (p, put_instance g inst))))"

definition permgeneric_newentry ::
  "tok_conststr \<Rightarrow> gh_permparser \<times> ('g, 'h) gh_permgeneric_instance \<Rightarrow>
   (gh_result \<times> ('h option \<times> (gh_permparser \<times> ('g, 'h) gh_permgeneric_instance))) option" where
  "permgeneric_newentry v st =
     (case st of (p, inst) \<Rightarrow>
      Option.bind (pp_resolve p v) (\<lambda>key.
      let (res, entry, g) = gv_newentry (gi_vtable inst) (gi_instance inst) key in
      Some (res, (entry, (p, put_instance g inst)))))"

definition permgeneric_setfield ::
  "'h option \<Rightarrow> string \<Rightarrow> gh_permparser \<times> ('g, 'h) gh_permgeneric_instance \<Rightarrow>
   (gh_result \<times> (gh_permparser \<times> ('g, 'h) gh_permgeneric_instance)) option" where
  "permgeneric_setfield entry field st =
     (case st of (p, inst) \<Rightarrow>
      map_option (\<lambda>(res, p, g). (res, (p, put_instance g inst)))
        (gv_loadentry (gi_vtable inst) (gi_instance inst) entry field p))"

definition permgeneric_resourceparser ::
  "(('g, 'h) gh_permgeneric_instance, 'h) gh_permresourceparser" where
  "permgeneric_resourceparser =
     \<lparr>rp_matches = permgeneric_matches, rp_newentry = permgeneric_newentry, rp_setfield = permgeneric_setfield\<rparr>"

definition generic_rp :: "nat \<Rightarrow> (('g, 'h) gh_perms, 'h perms_entry) gh_permresourceparser" where
  "generic_rp i =
     rp_lift (\<lambda>perms. ps_generic perms ! i) (\<lambda>inst perms. perms\<lparr>ps_generic := (ps_generic perms)[i := inst]\<rparr>)
       (GenericEntry i) (generic_entry i) permgeneric_resourceparser"

section \<open>The policy file\<close>

text \<open>The three registrations, the last one for every handler\<close>

fun perms_registerall ::
  "('u, 'e) gh_permresourceparser list \<Rightarrow> ('u, 'e) gh_permresourceparser list \<Rightarrow>
   gh_result \<times> ('u, 'e) gh_permresourceparser list" where
  "perms_registerall [] rps = (GHR_OK, rps)"
| "perms_registerall (rp # todo) rps =
     ghr_seq (gh_permparser_registerresource rps rp) (perms_registerall todo)"

definition perms_resourceparsers ::
  "gh_alloc \<Rightarrow> ('g, 'h) gh_perms \<Rightarrow> (('g, 'h) gh_perms, 'h perms_entry) gh_permresourceparser list" where
  "perms_resourceparsers al perms =
     filesystem_rp al # exec_rp al # map generic_rp [0..<length (ps_generic perms)]"

text \<open>The parser's error is \<^verbatim>\<open>*out_parsererror\<close> when the result is an error.\<close>

definition perms_parse ::
  "gh_alloc \<Rightarrow> gh_permparser \<times> ('g, 'h) gh_perms \<Rightarrow> (gh_result \<times> (gh_permparser \<times> ('g, 'h) gh_perms)) option" where
  "perms_parse al st =
     (let (res, rps) = perms_registerall (perms_resourceparsers al (snd st)) [] in
      if ghr_iserr res then Some (res, st) else gh_permparser_parse al rps st)"

definition gh_perms_readfd ::
  "env \<Rightarrow> gh_alloc \<Rightarrow> int \<Rightarrow> ('g, 'h) gh_perms \<times> trace \<Rightarrow>
   (gh_result \<times> (gh_permparser_error \<times> (('g, 'h) gh_perms \<times> trace))) option" where
  "gh_perms_readfd env al fd st =
     (case st of (perms, tr) \<Rightarrow>
      (let (res, p, tr) = gh_permparser_ctorfd env al fd tr in
       if ghr_iserr res then Some (res, (pp_error p, (perms, tr)))
       else
         Option.bind (perms_parse al (p, perms)) (\<lambda>(res, p, perms).
         map_option (\<lambda>(inner_res, p', tr). (if ghr_iserr inner_res then inner_res else res, (pp_error p, (perms, tr))))
           (gh_permparser_dtor env al p tr))))"

text \<open>The parser is not destroyed: its byte buffer is lost.\<close>

definition gh_perms_readbuffer ::
  "gh_alloc \<Rightarrow> string \<Rightarrow> ('g, 'h) gh_perms \<Rightarrow>
   (gh_result \<times> (gh_permparser_error \<times> ('g, 'h) gh_perms)) option" where
  "gh_perms_readbuffer al buffer perms =
     (let (res, p) = gh_permparser_ctorbuffer al buffer in
      if ghr_iserr res then Some (res, (pp_error p, perms))
      else map_option (\<lambda>(res, p, perms). (res, (pp_error p, perms))) (perms_parse al (p, perms)))"

fun generic_saveall ::
  "('g, 'h) gh_permgeneric_instance list \<Rightarrow> pw_state \<Rightarrow>
   gh_result \<times> (('g, 'h) gh_permgeneric_instance list \<times> pw_state)" where
  "generic_saveall [] st = (GHR_OK, ([], st))"
| "generic_saveall (inst # insts) st =
     (let (res, g, st) = gv_save (gi_vtable inst) (gi_instance inst) st; inst = put_instance g inst in
      if ghr_iserr res then (res, (inst # insts, st))
      else (let (res, insts, st) = generic_saveall insts st in (res, (inst # insts, st))))"

text \<open>The label \<^verbatim>\<open>emergency_clear\<close>\<close>

definition perms_emergency_clear ::
  "env \<Rightarrow> int \<Rightarrow> gh_result \<Rightarrow> ('g, 'h) gh_perms \<times> trace \<Rightarrow> gh_result \<times> (('g, 'h) gh_perms \<times> trace)" where
  "perms_emergency_clear env fd res st =
     (case st of (perms, tr) \<Rightarrow>
      (let (a, tr) = syscall env (Ftruncate fd 0) tr in
       (if an_ret a < 0 then ghr_errno GHR_PERMS_EMERGENCYTRUNC a else res, (perms, tr))))"

definition gh_perms_write ::
  "env \<Rightarrow> int \<Rightarrow> ('g, 'h) gh_perms \<times> trace \<Rightarrow> gh_result \<times> (('g, 'h) gh_perms \<times> trace)" where
  "gh_perms_write env fd st =
     (case st of (perms, tr) \<Rightarrow>
      (let (res, writer, tr) = gh_permfs_write env (ps_filesystem perms) (gh_permwriter_new fd, tr) in
       if ghr_iserr res then perms_emergency_clear env fd res (perms, tr)
       else
         (let (res, writer, tr) = gh_permexec_write env (ps_exec perms) (writer, tr) in
          if ghr_iserr res then perms_emergency_clear env fd res (perms, tr)
          else
            (let (res, insts, writer, tr) = generic_saveall (ps_generic perms) (writer, tr);
                 perms = perms\<lparr>ps_generic := insts\<rparr> in
             if ghr_iserr res then perms_emergency_clear env fd res (perms, tr)
             else (res, (perms, tr))))))"

section \<open>The registry\<close>

definition gh_perms_registergeneric ::
  "('g, 'h) gh_perms \<Rightarrow> string \<Rightarrow> ('g, 'h) gh_permgeneric \<Rightarrow> gh_result \<times> ('g, 'h) gh_perms" where
  "gh_perms_registergeneric perms ident vtable =
     (if strlen ident > GH_PERMGENERIC_IDMAX - 1 then (GHR_PERMS_GENERICLARGEID, perms)
      else if length (ps_generic perms) \<ge> GH_PERMS_MAXGENERIC then (GHR_PERMS_MAXGENERIC, perms)
      else case gv_ctor vtable of
        None \<Rightarrow> (GHR_PERMS_GENERICCTOR, perms)
      | Some inst \<Rightarrow>
          (GHR_OK, perms\<lparr>ps_generic := ps_generic perms @
                            [\<lparr>gi_id = cstr ident, gi_vtable = vtable, gi_instance = inst\<rparr>]\<rparr>))"

definition gh_perms_getgeneric :: "('g, 'h) gh_perms \<Rightarrow> string \<Rightarrow> 'g option" where
  "gh_perms_getgeneric perms ident =
     map_option gi_instance (find (\<lambda>inst. strcmp_eq (gi_id inst) ident) (ps_generic perms))"

end
