(* ===== verification/PermsLift.thy ===== *)
theory PermsLift
  imports Perms
begin

text \<open>
  A resource parser that works on a part of the state does to the whole state what it does to the
  part: the contract of a part, a simulation between code on the part and code on the whole, and the
  parser's loops over a lifted resource parser.
\<close>

section \<open>A part of the state\<close>

locale state_part =
  fixes get :: "'s \<Rightarrow> 'u" and put :: "'u \<Rightarrow> 's \<Rightarrow> 's"
    and tag :: "'e \<Rightarrow> 'f" and untag :: "'f \<Rightarrow> 'e option"
  assumes get_put: "get (put u s) = u"
    and put_get: "put (get s) s = s"
    and put_put: "put u (put v s) = put u s"
    and untag_tag: "untag (tag e) = Some e"
begin

abbreviation lifted :: "('u, 'e) gh_permresourceparser \<Rightarrow> ('s, 'f) gh_permresourceparser" where
  "lifted \<equiv> rp_lift get put tag untag"

lemma untag_entry [simp]: "Option.bind (map_option tag entry) untag = entry"
  by (cases entry) (simp_all add: untag_tag)

text \<open>Whenever the code on the part has a result, the code on the whole has it too.\<close>

definition sim :: "'s \<Rightarrow> (gh_result \<times> (gh_permparser \<times> 'u)) option \<Rightarrow>
    (gh_result \<times> (gh_permparser \<times> 's)) option \<Rightarrow> bool" where
  "sim s m m' \<longleftrightarrow> (\<forall>res p u. m = Some (res, (p, u)) \<longrightarrow> m' = Some (res, (p, put u s)))"

lemma sim_done: "sim s (Some (res, (p, get s))) (Some (res, (p, s)))"
  by (simp add: sim_def put_get)

lemma sim_then:
  assumes "sim s m m'" "\<And>p s'. sim s' (k (p, get s')) (k' (p, s'))"
  shows "sim s (ghr_then m k) (ghr_then m' k')"
proof (cases m)
  case None
  then show ?thesis by (simp add: sim_def)
next
  case (Some r)
  obtain res p u where r: "r = (res, (p, u))" by (metis prod_cases3)
  with Some assms(1) have m': "m' = Some (res, (p, put u s))" by (simp add: sim_def)
  show ?thesis
    using assms(2) [of "put u s" p] Some r m' by (cases "res = 0") (simp_all add: sim_def put_put get_put)
qed

lemma sim_token:
  assumes "\<And>t p'. sim s (k t (p', get s)) (k' t (p', s))"
  shows "sim s (with_token m (get s) k) (with_token m s k')"
proof (cases m)
  case None
  then show ?thesis by (simp add: sim_def)
next
  case (Some r)
  obtain res tok p where r: "r = (res, (tok, p))" by (metis prod_cases3)
  show ?thesis
    using assms Some r sim_done by (cases "res = 0"; cases tok) (simp_all add: with_token_def ghr_simps sim_def)
qed

lemma sim_bind:
  assumes "\<And>x. sim s (k x) (k' x)"
  shows "sim s (Option.bind m k) (Option.bind m k')"
  using assms by (cases m) (simp_all add: sim_def)

lemma sim_if: "(b \<Longrightarrow> sim s m m') \<Longrightarrow> (\<not> b \<Longrightarrow> sim s n n') \<Longrightarrow> sim s (if b then m else n) (if b then m' else n')"
  by simp

lemma sim_option:
  "sim s n n' \<Longrightarrow> (\<And>x. sim s (k x) (k' x)) \<Longrightarrow>
   sim s (case v of None \<Rightarrow> n | Some x \<Rightarrow> k x) (case v of None \<Rightarrow> n' | Some x \<Rightarrow> k' x)"
  by (cases v) simp_all

section \<open>The callbacks\<close>

lemma sim_setfield: "sim s (rp_setfield rp entry f (p, get s)) (rp_setfield (lifted rp) (map_option tag entry) f (p, s))"
  by (simp add: sim_def rp_lift_def)

lemma sim_newentry:
  assumes "\<And>entry p s'. sim s' (k entry (p, get s')) (k' (map_option tag entry) (p, s'))"
  shows "sim s
     (Option.bind (rp_newentry rp v (p, get s)) (\<lambda>(res, entry, st). if ghr_iserr res then Some (res, st) else k entry st))
     (Option.bind (rp_newentry (lifted rp) v (p, s)) (\<lambda>(res, entry, st). if ghr_iserr res then Some (res, st) else k' entry st))"
proof (cases "rp_newentry rp v (p, get s)")
  case None
  then show ?thesis by (simp add: sim_def)
next
  case (Some r)
  obtain res entry p1 u1 where r: "r = (res, (entry, (p1, u1)))" by (metis prod_cases4)
  show ?thesis
    using assms [of "put u1 s" entry p1] Some r
    by (cases "res = 0") (simp_all add: sim_def rp_lift_def ghr_simps put_put get_put)
qed

lemma lifted_matches:
  "rp_matches rp g r (p, get s) = Some (res, (p', get s)) \<Longrightarrow>
   rp_matches (lifted rp) g r (p, s) = Some (res, (p', s))"
  by (simp add: rp_lift_def put_get)

section \<open>The loops\<close>

lemma sim_fields: "sim s (permparser_fields al rp entry tok (p, get s))
    (permparser_fields al (lifted rp) (map_option tag entry) tok (p, s))"
proof -
  let ?P = "\<lambda>al rp entry tok st y. \<forall>s. snd st = get s \<longrightarrow>
      permparser_fields al (lifted rp) (map_option tag entry) tok (fst st, s) =
        Some (fst y, (fst (snd y), put (snd (snd y)) s))"
  have "?P al rp entry tok st y" if "permparser_fields al rp entry tok st = Some y" for st y
    using that
  proof (rule permparser_fields.raw_induct [rotated])
    fix F :: "gh_alloc \<Rightarrow> ('u, 'e) gh_permresourceparser \<Rightarrow> 'e option \<Rightarrow> gh_permtoken \<Rightarrow> gh_permparser \<times> 'u \<Rightarrow>
        (gh_result \<times> (gh_permparser \<times> 'u)) option"
      and al and rp :: "('u, 'e) gh_permresourceparser" and entry and tok :: gh_permtoken
      and st :: "gh_permparser \<times> 'u" and y
    let ?F = "\<lambda>al (rp :: ('u, 'e) gh_permresourceparser) entry tok (st :: gh_permparser \<times> 'u). F al rp entry tok st"
    assume ih: "\<And>al rp entry tok st y. F al rp entry tok st = Some y \<Longrightarrow> ?P al rp entry tok st y"
    have F: "sim s (F al rp entry tok (p, get s)) (permparser_fields al (lifted rp) (map_option tag entry) tok (p, s))"
      for al rp entry tok p s
      using ih unfolding sim_def by fastforce
    assume body: "(if tk_type tok \<noteq> GH_PERMTOKEN_RBRACE \<and> tk_type tok \<noteq> GH_PERMTOKEN_EOF then
        (if tk_type tok \<noteq> GH_PERMTOKEN_IDENTIFIER then
           Some (GHR_PERMPARSER_EXPECTEDFIELD, pu_error (tk_loc tok) st)
         else
           Option.bind (pp_copyid (fst st) (tk_value tok)) (\<lambda>field.
           case field of
             None \<Rightarrow> Some (GHR_PERMPARSER_LARGEFIELD, pu_error (tk_loc tok) st)
           | Some f \<Rightarrow>
               ghr_then (rp_setfield rp entry f (pu_error (tk_loc tok) st)) (\<lambda>st.
               with_token (gh_permparser_nexttoken al (fst st)) (snd st) (\<lambda>tok st.
               F al rp entry tok st))))
      else
        (let (res, bb) = gh_bytebuffer_clear (pp_buffer (fst st)); st = ((fst st)\<lparr>pp_buffer := bb\<rparr>, snd st) in
         if ghr_iserr res then Some (res, st)
         else if tk_type tok \<noteq> GH_PERMTOKEN_RBRACE then
           Some (GHR_PERMPARSER_EXPECTEDENTRYEND, pu_error (tk_loc tok) st)
         else Some (GHR_OK, st))) = Some y" (is "?body st = Some y")
    have step: "sim s (?body (p, get s)) (permparser_fields al (lifted rp) (map_option tag entry) tok (p, s))" for p s
    proof (subst permparser_fields.simps, simp only: fst_conv snd_conv pu_error_def, rule sim_if)
      show "sim s
        (if tk_type tok \<noteq> GH_PERMTOKEN_IDENTIFIER
         then Some (GHR_PERMPARSER_EXPECTEDFIELD, (permparser_seterror (tk_loc tok) p, get s))
         else Option.bind (pp_copyid p (tk_value tok)) (\<lambda>field. case field of
             None \<Rightarrow> Some (GHR_PERMPARSER_LARGEFIELD, (permparser_seterror (tk_loc tok) p, get s))
           | Some f \<Rightarrow> ghr_then (rp_setfield rp entry f (permparser_seterror (tk_loc tok) p, get s)) (\<lambda>st.
               with_token (gh_permparser_nexttoken al (fst st)) (snd st) (\<lambda>tok st. F al rp entry tok st))))
        (if tk_type tok \<noteq> GH_PERMTOKEN_IDENTIFIER
         then Some (GHR_PERMPARSER_EXPECTEDFIELD, (permparser_seterror (tk_loc tok) p, s))
         else Option.bind (pp_copyid p (tk_value tok)) (\<lambda>field. case field of
             None \<Rightarrow> Some (GHR_PERMPARSER_LARGEFIELD, (permparser_seterror (tk_loc tok) p, s))
           | Some f \<Rightarrow> ghr_then (rp_setfield (lifted rp) (map_option tag entry) f (permparser_seterror (tk_loc tok) p, s)) (\<lambda>st.
               with_token (gh_permparser_nexttoken al (fst st)) (snd st) (\<lambda>tok st.
                 permparser_fields al (lifted rp) (map_option tag entry) tok st))))"
        by (intro sim_if sim_bind sim_done sim_option sim_then sim_setfield, simp only: fst_conv snd_conv,
            intro sim_token F)
    qed (simp add: Let_def sim_done split: prod.split)
    show "?P al rp entry tok st y"
    proof (intro allI impI)
      fix s assume u: "snd st = get s"
      obtain r p' u' where y: "y = (r, (p', u'))" by (metis prod_cases3)
      from body have "?body (fst st, snd st) = Some y" by (simp only: prod.collapse)
      then have "?body (fst st, get s) = Some (r, (p', u'))" unfolding u y .
      from step [of s "fst st", unfolded sim_def, rule_format, OF this] y
      show "permparser_fields al (lifted rp) (map_option tag entry) tok (fst st, s) =
          Some (fst y, (fst (snd y), put (snd (snd y)) s))" by simp
    qed
  qed
  then show ?thesis unfolding sim_def by fastforce
qed

lemma sim_entries: "sim s (permparser_entries al rp (p, get s)) (permparser_entries al (lifted rp) (p, s))"
proof -
  let ?P = "\<lambda>al rp st y. \<forall>s. snd st = get s \<longrightarrow>
      permparser_entries al (lifted rp) (fst st, s) = Some (fst y, (fst (snd y), put (snd (snd y)) s))"
  have "?P al rp st y" if "permparser_entries al rp st = Some y" for st y
    using that
  proof (rule permparser_entries.raw_induct [rotated])
    fix F :: "gh_alloc \<Rightarrow> ('u, 'e) gh_permresourceparser \<Rightarrow> gh_permparser \<times> 'u \<Rightarrow>
        (gh_result \<times> (gh_permparser \<times> 'u)) option"
      and al and rp :: "('u, 'e) gh_permresourceparser" and st :: "gh_permparser \<times> 'u" and y
    assume ih: "\<And>al rp st y. F al rp st = Some y \<Longrightarrow> ?P al rp st y"
    have F: "sim s (F al rp (p, get s)) (permparser_entries al (lifted rp) (p, s))" for al rp p s
      using ih unfolding sim_def by fastforce
    assume body: "with_token (gh_permparser_peektoken al (fst st)) (snd st) (\<lambda>tok st.
     if tk_type tok = GH_PERMTOKEN_RBRACE then Some (GHR_OK, st)
     else
       with_token (gh_permparser_nexttoken al (fst st)) (snd st) (\<lambda>tok st.
       if tk_type tok \<noteq> GH_PERMTOKEN_STRING then
         Some (GHR_PERMPARSER_EXPECTEDENTRY, pu_error (tk_loc tok) st)
       else
         Option.bind (rp_newentry rp (tk_value tok) (pu_error (tk_loc tok) st)) (\<lambda>(res, entry, st).
         if ghr_iserr res then Some (res, st)
         else
           with_token (gh_permparser_nexttoken al (fst st)) (snd st) (\<lambda>tok st.
           if tk_type tok \<noteq> GH_PERMTOKEN_LBRACE then
             Some (GHR_PERMPARSER_EXPECTEDENTRYBEGIN, pu_error (tk_loc tok) st)
           else
             with_token (gh_permparser_nexttoken al (fst st)) (snd st) (\<lambda>tok st.
             ghr_then (permparser_fields al rp entry tok st) (\<lambda>st.
             F al rp st)))))) = Some y" (is "?body st = Some y")
    have step: "sim s (?body (p, get s)) (permparser_entries al (lifted rp) (p, s))" for p s
      by (subst permparser_entries.simps, simp only: fst_conv snd_conv pu_error_def)
        (intro sim_token sim_if sim_done sim_newentry sim_then sim_fields F | simp only: fst_conv snd_conv)+
    show "?P al rp st y"
    proof (intro allI impI)
      fix s assume u: "snd st = get s"
      obtain r p' u' where y: "y = (r, (p', u'))" by (metis prod_cases3)
      from body have "?body (fst st, snd st) = Some y" by (simp only: prod.collapse)
      then have "?body (fst st, get s) = Some (r, (p', u'))" unfolding u y .
      from step [of s "fst st", unfolded sim_def, rule_format, OF this] y
      show "permparser_entries al (lifted rp) (fst st, s) =
          Some (fst y, (fst (snd y), put (snd (snd y)) s))" by simp
    qed
  qed
  then show ?thesis unfolding sim_def by fastforce
qed

text \<open>What the proofs about the whole state use\<close>

lemma lifted_entries:
  "permparser_entries al rp (p, get s) = Some (res, (p', u')) \<Longrightarrow>
   permparser_entries al (lifted rp) (p, s) = Some (res, (p', put u' s))"
  using sim_entries [of s al rp p] by (simp add: sim_def)

end

section \<open>The parts of the permission system\<close>

interpretation filesystem_part:
  state_part "ps_filesystem :: ('g, 'h) gh_perms \<Rightarrow> gh_permfs" put_filesystem
    "FilesystemEntry :: da_ptr \<Rightarrow> 'h perms_entry" filesystem_entry
  by unfold_locales (simp_all add: put_filesystem_def filesystem_entry_def)

interpretation exec_part:
  state_part "ps_exec :: ('g, 'h) gh_perms \<Rightarrow> gh_permexec" put_exec
    "ExecEntry :: da_ptr \<Rightarrow> 'h perms_entry" exec_entry
  by unfold_locales (simp_all add: put_exec_def exec_entry_def)

lemma filesystem_entries:
  "permparser_entries al (permfs_resourceparser al) (p, ps_filesystem s) = Some (res, (p', u)) \<Longrightarrow>
   permparser_entries al (filesystem_rp al) (p, s) = Some (res, (p', put_filesystem u s))"
  unfolding filesystem_rp_def by (rule filesystem_part.lifted_entries)

lemma exec_entries:
  "permparser_entries al (permexec_resourceparser al) (p, ps_exec s) = Some (res, (p', u)) \<Longrightarrow>
   permparser_entries al (exec_rp al) (p, s) = Some (res, (p', put_exec u s))"
  unfolding exec_rp_def by (rule exec_part.lifted_entries)

end
