(* ===== verification/ParserFrame.thy ===== *)
theory ParserFrame
  imports PermfsRoundTrip
begin

text \<open>
  The parts of parsing that do not depend on the resource: the frame of an entry and of a resource
  around what the callbacks of a resource parser do, for any resource parser.
\<close>

section \<open>An entry\<close>

text \<open>From the key of an entry to the first token of its fields, given what \<^verbatim>\<open>newentry\<close> does.\<close>

lemma entry_frame:
  assumes "at_toks b u (TStr s # TL # t # r) None p" "length u + length s + 1 + length (tok_bytes t) \<le> 1024"
    and new: "\<And>tok p'. holds b (u @ s @ [NUL]) (TStr s) tok \<Longrightarrow> at_toks b (u @ s @ [NUL]) (TL # t # r) None p' \<Longrightarrow>
       rp_newentry rp (tk_value tok) (p', v) = Some (GHR_OK, (entry, (p', v')))"
  shows "\<exists>tok p'. permparser_entries al rp (p, v) =
       ghr_then (permparser_fields al rp entry tok (p', v')) (permparser_entries al rp) \<and>
     holds b ((u @ s @ [NUL]) @ tok_bytes t) t tok \<and> at_toks b ((u @ s @ [NUL]) @ tok_bytes t) r None p'"
proof -
  from peektoken_toks [OF assms(1), of al] assms(2) obtain tok p1 where
    p1: "gh_permparser_peektoken al p = Some (GHR_OK, (Some tok, p1))" "tok_is b (length u) (TStr s) tok"
    "at_toks b (u @ s @ [NUL]) (TL # t # r) (Some tok) p1" by auto
  from nexttoken_toks_peeked [OF p1(3), of al] obtain p2 where
    p2: "gh_permparser_nexttoken al p1 = Some (GHR_OK, (Some tok, p2))"
    "at_toks b (u @ s @ [NUL]) (TL # t # r) None p2" by blast
  have ty: "tk_type tok = GH_PERMTOKEN_STRING" using tok_is_type [OF p1(2)] by simp
  have h: "holds b (u @ s @ [NUL]) (TStr s) tok" using holds_last [OF p1(2)] by simp
  let ?p2 = "permparser_seterror (tk_loc tok) p2"
  note at2 = at_toks_seterror [OF p2(2), of "tk_loc tok"]
  from nexttoken_toks [OF at2, of al] assms(2) obtain tok3 p3 where
    p3: "gh_permparser_nexttoken al ?p2 = Some (GHR_OK, (Some tok3, p3))" "tk_type tok3 = GH_PERMTOKEN_LBRACE"
    "at_toks b (u @ s @ [NUL]) (t # r) None p3" by auto
  from nexttoken_toks [OF p3(3), of al] assms(2) obtain tok4 p4 where
    p4: "gh_permparser_nexttoken al p3 = Some (GHR_OK, (Some tok4, p4))"
    "tok_is b (length (u @ s @ [NUL])) t tok4" "at_toks b ((u @ s @ [NUL]) @ tok_bytes t) r None p4" by auto
  have "permparser_entries al rp (p, v) =
      ghr_then (permparser_fields al rp entry tok4 (p4, v')) (permparser_entries al rp)"
    using p1(1) p2(1) ty new [OF h at2] p3(1,2) p4(1)
    by (subst permparser_entries.simps) (simp add: pu_error_def ghr_simps)
  with holds_last [OF p4(2)] p4(3) show ?thesis by blast
qed

lemma entries_end:
  assumes "at_toks b u (TR # ts) None p" "length u \<le> 1024"
  shows "\<exists>p' tok. permparser_entries al rp (p, v) = Some (GHR_OK, (p', v)) \<and> at_toks b u ts (Some tok) p' \<and>
     tk_type tok = GH_PERMTOKEN_RBRACE"
proof -
  from peektoken_toks [OF assms(1), of al] assms(2) obtain tok p1 where
    "gh_permparser_peektoken al p = Some (GHR_OK, (Some tok, p1))" "tk_type tok = GH_PERMTOKEN_RBRACE"
    "at_toks b u ts (Some tok) p1" by auto
  then show ?thesis by (subst permparser_entries.simps) auto
qed

text \<open>One field: its name, then what \<^verbatim>\<open>setfield\<close> does with the tokens after it\<close>

lemma field_frame:
  assumes "holds b u (TId f) tok" "at_toks b u ts None p" "list_all permparser_charisalphanumeric f" "length f < 64"
  shows "permparser_fields al rp entry tok (p, v) =
     ghr_then (rp_setfield rp entry f (permparser_seterror (tk_loc tok) p, v)) (\<lambda>st.
     with_token (gh_permparser_nexttoken al (fst st)) (snd st) (\<lambda>tok st. permparser_fields al rp entry tok st))"
  using holds_type [OF assms(1)] holds_copyid [OF assms]
  by (subst permparser_fields.simps) (simp add: pu_error_def)

section \<open>A resource\<close>

text \<open>What follows the head of a resource, and the head\<close>

definition resource_body ::
  "gh_alloc \<Rightarrow> ('u, 'e) gh_permresourceparser list \<Rightarrow> string \<Rightarrow> string \<Rightarrow> gh_permparser \<times> 'u \<Rightarrow>
   (gh_result \<times> (gh_permparser \<times> 'u)) option" where
  "resource_body al rps g r st =
     Option.bind (permparser_findresourceparser rps g r st) (\<lambda>(res, rp, st).
       if ghr_iserr res then Some (res, st)
       else case rp of
         None \<Rightarrow> None
       | Some rp \<Rightarrow>
           ghr_then (permparser_entries al rp st) (\<lambda>st.
           with_token (gh_permparser_nexttoken al (fst st)) (snd st) (\<lambda>tok st.
           if tk_type tok \<noteq> GH_PERMTOKEN_RBRACE then
             Some (GHR_PERMPARSER_EXPECTEDRESOURCEEND, pu_error (tk_loc tok) st)
           else Some (GHR_OK, st))))"

lemma resource_head:
  assumes "at_toks b u (TId g # TId r # TL # ts) None p" "length u + length g + length r + 2 \<le> 1024"
    and "list_all permparser_charisalphanumeric g" "length g < 64"
    and "list_all permparser_charisalphanumeric r" "length r < 64"
  shows "\<exists>p'. at_toks b (u @ g @ NUL # r @ [NUL]) ts None p' \<and>
     permparser_parsenextresource al rps (p, v) =
       map_option (\<lambda>(res, st). (res, (False, st)))
        (resource_body al rps g r (p', v))"
proof -
  from nexttoken_toks [OF assms(1), of al] assms(2) obtain tok1 p1 where
    p1: "gh_permparser_nexttoken al p = Some (GHR_OK, (Some tok1, p1))" "tok_is b (length u) (TId g) tok1"
    "at_toks b (u @ g @ [NUL]) (TId r # TL # ts) None p1" by auto
  have id1: "permparser_id expected large tok1 (p1, v) k = k g" for expected large k
    by (rule permparser_id_toks [OF p1(2,3) assms(3,4)])
  from nexttoken_toks [OF p1(3), of al] assms(2) obtain tok2 p2 where
    p2: "gh_permparser_nexttoken al p1 = Some (GHR_OK, (Some tok2, p2))"
    "tok_is b (length (u @ g @ [NUL])) (TId r) tok2"
    "at_toks b ((u @ g @ [NUL]) @ r @ [NUL]) (TL # ts) None p2" by auto
  have id2: "permparser_id expected large tok2 (p2, v) k = k r" for expected large k
    by (rule permparser_id_toks [OF p2(2,3) assms(5,6)])
  from nexttoken_toks [OF p2(3), of al] assms(2) obtain tok3 p3 where
    p3: "gh_permparser_nexttoken al p2 = Some (GHR_OK, (Some tok3, p3))" "tk_type tok3 = GH_PERMTOKEN_LBRACE"
    "at_toks b ((u @ g @ [NUL]) @ r @ [NUL]) ts None p3" by auto
  have "tk_type tok1 = GH_PERMTOKEN_IDENTIFIER" using tok_is_type [OF p1(2)] by simp
  then have "permparser_parsenextresource al rps (p, v) =
     map_option (\<lambda>(res, st). (res, (False, st)))
      (resource_body al rps g r (p3, v))"
    using p1(1) p2(1) p3(1,2)
    by (simp add: permparser_parsenextresource_def permparser_resource_def resource_body_def id1 id2 ghr_simps
        del: permparser_findresourceparser.simps)
  with p3(3) show ?thesis by auto
qed

text \<open>A whole resource, when its parser reads all its entries\<close>

lemma resource_frame:
  assumes "at_toks b u (TId g # TId r # TL # ts) None p" "length u + length g + length r + 2 \<le> 1024"
    and "list_all permparser_charisalphanumeric g" "length g < 64"
    and "list_all permparser_charisalphanumeric r" "length r < 64"
    and fnd: "\<And>p'. at_toks b (u @ g @ NUL # r @ [NUL]) ts None p' \<Longrightarrow>
       \<exists>p''. permparser_findresourceparser rps g r (p', v) = Some (GHR_OK, (Some rp, (p'', v))) \<and>
         at_toks b (u @ g @ NUL # r @ [NUL]) ts None p''"
    and ent: "\<And>p'. at_toks b (u @ g @ NUL # r @ [NUL]) ts None p' \<Longrightarrow>
       \<exists>p'' u' v' tok. permparser_entries al rp (p', v) = Some (GHR_OK, (p'', v')) \<and>
         at_toks b u' ts' (Some tok) p'' \<and> tk_type tok = GH_PERMTOKEN_RBRACE \<and> Q u' v'"
  shows "\<exists>p' u' v'. permparser_parsenextresource al rps (p, v) = Some (GHR_OK, (False, (p', v'))) \<and>
     at_toks b u' ts' None p' \<and> Q u' v'"
proof -
  from resource_head [OF assms(1-6), of al rps v] obtain p1 where
    p1: "at_toks b (u @ g @ NUL # r @ [NUL]) ts None p1"
    "permparser_parsenextresource al rps (p, v) =
       map_option (\<lambda>(res, st). (res, (False, st)))
        (resource_body al rps g r (p1, v))" by blast
  from fnd [OF p1(1)] obtain p2 where
    p2: "permparser_findresourceparser rps g r (p1, v) = Some (GHR_OK, (Some rp, (p2, v)))"
    "at_toks b (u @ g @ NUL # r @ [NUL]) ts None p2" by blast
  from ent [OF p2(2)] obtain p3 u3 v' tok where
    p3: "permparser_entries al rp (p2, v) = Some (GHR_OK, (p3, v'))" "at_toks b u3 ts' (Some tok) p3"
    "tk_type tok = GH_PERMTOKEN_RBRACE" "Q u3 v'" by blast
  from nexttoken_toks_peeked [OF p3(2), of al] obtain p4 where
    p4: "gh_permparser_nexttoken al p3 = Some (GHR_OK, (Some tok, p4))" "at_toks b u3 ts' None p4" by blast
  have "permparser_parsenextresource al rps (p, v) = Some (GHR_OK, (False, (p4, v')))"
    using p1(2) p2(1) p3(1,3) p4(1) by (simp add: resource_body_def ghr_simps)
  with p4(2) p3(4) show ?thesis by blast
qed

text \<open>The end of the file, and a file after its first resource\<close>

lemma parse_end:
  assumes "at_toks b u [] None p"
  shows "\<exists>p'. gh_permparser_parse al rps (p, v) = Some (GHR_OK, (p', v))"
proof -
  from nexttoken_toks_end [OF assms, of al] obtain tok p1 where
    "gh_permparser_nexttoken al p = Some (GHR_OK, (Some tok, p1))" "tk_type tok = GH_PERMTOKEN_EOF" by blast
  then have "permparser_parsenextresource al rps (p, v) = Some (GHR_OK, (True, (p1, v)))"
    by (simp add: permparser_parsenextresource_def ghr_simps)
  then show ?thesis by (subst gh_permparser_parse.simps) (simp add: ghr_simps)
qed

lemma parse_next:
  "permparser_parsenextresource al rps st = Some (GHR_OK, (False, st')) \<Longrightarrow>
   gh_permparser_parse al rps st = gh_permparser_parse al rps st'"
  by (subst gh_permparser_parse.simps) (simp add: ghr_simps)

lemma parse_fails:
  "permparser_parsenextresource al rps st = Some (res, (eof, st')) \<Longrightarrow> res \<noteq> 0 \<Longrightarrow>
   gh_permparser_parse al rps st = Some (res, st')"
  by (subst gh_permparser_parse.simps) (simp add: ghr_simps)

end
