(* ===== verification/PermExecRoundTrip.thy ===== *)
theory PermExecRoundTrip
  imports PermExecFile PermExecGate ParserFrame
begin

text \<open>
  The program permissions through the policy file: the text \<^verbatim>\<open>gh_permexec_write\<close> writes and what the
  parser makes of it. Hashes survive; entries that accept survive; an entry that rejects or prompts is
  written in a form that the parser refuses.
\<close>

section \<open>Hashes as text\<close>

lemma hash_bytes_simps [simp]:
  "hash_bytes [] = []"
  "hash_bytes (c # h) = hex_digit (of_char c div 16) # hex_digit (of_char c mod 16) # hash_bytes h"
  by (simp_all add: hash_bytes_def nibbles_of_byte)

lemma hash_bytes_length [simp]: "length (hash_bytes h) = 2 * length h"
  by (induction h) auto

lemma char_halves: "of_char c div 16 < (16 :: nat)" "of_char c mod 16 < (16 :: nat)"
  using nat_of_char_less_256 [of c] by linarith simp

lemma readhash_loop_bytes:
  "length pre = 2 * i \<Longrightarrow>
   readhash_loop (pre @ hash_bytes h @ r) i (length h) acc = Some (GHR_OK, acc @ h)"
proof (induction h arbitrary: pre i acc)
  case Nil
  then show ?case by simp
next
  case (Cons c h)
  let ?pre = "pre @ [hex_digit (of_char c div 16), hex_digit (of_char c mod 16)]"
  have "readhash_loop (?pre @ hash_bytes h @ r) (Suc i) (length h) (acc @ [c]) = Some (GHR_OK, (acc @ [c]) @ h)"
    using Cons.prems by (intro Cons.IH) simp
  moreover have "(pre @ hash_bytes (c # h) @ r) ! (i * 2) = hex_digit (of_char c div 16)"
    "(pre @ hash_bytes (c # h) @ r) ! Suc (i * 2) = hex_digit (of_char c mod 16)"
    using Cons.prems by (simp_all add: nth_append mult.commute)
  ultimately show ?case
    using Cons.prems char_halves [of c] nibble_digit by (simp add: mult.commute)
qed

lemma readhash_bytes:
  assumes "length h = GH_SHA256_DIGESTLEN"
  shows "permexec_readhash \<lparr>cs_buffer = hash_bytes h @ NUL # rest, cs_size = of_nat (length (hash_bytes h))\<rparr> =
     Some (GHR_OK, h)"
  using readhash_loop_bytes [of "[]" 0 h "NUL # rest" "[]"] assms
  by (simp add: permexec_readhash_def)

lemma hex_digit_plain: "n < 16 \<Longrightarrow> plain_char (hex_digit n) \<and> CHR ''#'' \<noteq> hex_digit n"
proof -
  assume "n < 16"
  then have "48 \<le> (of_char (hex_digit n) :: nat)" "(of_char (hex_digit n) :: nat) \<noteq> 92"
    by (auto simp: digit_code)
  moreover have "CHR ''#'' \<noteq> hex_digit n"
  proof
    assume "CHR ''#'' = hex_digit n"
    from this [symmetric] have "(of_char (hex_digit n) :: nat) = 35" by simp
    with calculation(1) show False by simp
  qed
  ultimately show ?thesis by (auto simp: plain_char_def)
qed

lemma hash_bytes_plain: "path_plain (hash_bytes h)"
  by (induction h)
    (auto simp: path_plain_def hex_digit_plain [OF char_halves(1)] hex_digit_plain [OF char_halves(2)])

section \<open>The writer writes the tokens\<close>

primrec exec_mode_tok :: "gh_permexec_mode \<Rightarrow> ptok" where
  "exec_mode_tok GH_PERMEXEC_ACCEPT = TId ''accept''"
| "exec_mode_tok GH_PERMEXEC_REJECT = TStr ''reject''"
| "exec_mode_tok GH_PERMEXEC_PROMPT = TStr ''prompt''"

definition exec_toks :: "gh_permexec_entry \<Rightarrow> ptok list" where
  "exec_toks e = [TStr (hash_bytes (xe_hash e)), TL, TId ''mode'', exec_mode_tok (xe_mode e), TR]"

definition exec_file_toks :: "gh_permexec_entry list \<Rightarrow> ptok list" where
  "exec_file_toks es = TId ''exec'' # TId ''cmdline'' # TL # concat (map exec_toks es) @ [TR]"

lemma alnum_words:
  "list_all permparser_charisalphanumeric ''mode''" "list_all permparser_charisalphanumeric ''accept''"
  "list_all permparser_charisalphanumeric ''exec''" "list_all permparser_charisalphanumeric ''cmdline''"
  by (simp_all add: permparser_charisalphanumeric_def c_between_def)

lemma space_not_alnum: "\<not> permparser_charisalphanumeric (CHR '' '')"
  using alnum_char(5) whitespace_chars(1) by blast


lemma ghr_seq_assoc: "ghr_seq m (\<lambda>st. ghr_seq (k st) k') = ghr_seq (ghr_seq m k) k'"
  by (cases m) (simp add: ghr_seq_def)

definition exec_mode_text :: "gh_permexec_mode \<Rightarrow> string" where
  "exec_mode_text mode =
     (case mode of GH_PERMEXEC_ACCEPT \<Rightarrow> ''accept'' | GH_PERMEXEC_REJECT \<Rightarrow> CHR 0x22 # ''reject'' @ [CHR 0x22]
        | GH_PERMEXEC_PROMPT \<Rightarrow> CHR 0x22 # ''prompt'' @ [CHR 0x22])"

lemma toks_exec_mode:
  "toks r ts \<Longrightarrow> r = CHR 0x0A # r' \<Longrightarrow> toks (exec_mode_text mode @ r) (exec_mode_tok mode # ts)"
proof (cases mode)
  case GH_PERMEXEC_ACCEPT
  assume r: "toks r ts" "r = CHR 0x0A # r'"
  have "\<not> permparser_charisalphanumeric (CHR 0x0A)" using alnum_char(5) whitespace_chars(2) by blast
  from toks_id [OF _ alnum_words(2) r(1) [unfolded r(2)] this] show ?thesis
    by (simp add: exec_mode_text_def GH_PERMEXEC_ACCEPT r(2))
next
  case GH_PERMEXEC_REJECT
  assume "toks r ts"
  from toks_str [OF _ this, of "''reject''"] show ?thesis
    by (simp add: exec_mode_text_def GH_PERMEXEC_REJECT plain_char_def)
next
  case GH_PERMEXEC_PROMPT
  assume "toks r ts"
  from toks_str [OF _ this, of "''prompt''"] show ?thesis
    by (simp add: exec_mode_text_def GH_PERMEXEC_PROMPT plain_char_def)
qed

text \<open>The field and the end of an entry: the line break ends the identifier.\<close>

lemma pw_execmode:
  assumes "takes_writes env" "pw_in fd (n + 1) out st" "0 \<le> n"
  shows "pw_toks (ghr_seq (ghr_seq (gh_permwriter_field env ''mode'' st) (permexec_writemode env mode))
     (gh_permwriter_endentry env)) fd n out [TId ''mode'', exec_mode_tok mode, TR]"
proof -
  from assms(2) obtain l where l: "pw_at fd (n + 1) l out st" by (auto simp: pw_in_def)
  let ?close = "CHR 0x0A # indent n @ CHR ''}'' # [CHR 0x0A]"
  let ?tx = "newline_unless_entry l @ indent (n + 1) @ ''mode'' @ CHR '' '' # exec_mode_text mode"
  have field: "pw_ok (gh_permwriter_field env ''mode'' st) fd (n + 1) GH_PERMWRITER_FIELDARGS
      (out @ newline_unless_entry l @ indent (n + 1) @ ''mode'')"
    by (rule pw_field [OF assms(1) l]) simp
  have mode: "pw_ok (ghr_seq (gh_permwriter_field env ''mode'' st) (permexec_writemode env mode)) fd (n + 1)
      GH_PERMWRITER_FIELDARGS (out @ ?tx)"
  proof (rule pw_ok_seq [OF field])
    fix st1
    assume at: "pw_at fd (n + 1) GH_PERMWRITER_FIELDARGS (out @ newline_unless_entry l @ indent (n + 1) @ ''mode'') st1"
    show "pw_ok (permexec_writemode env mode st1) fd (n + 1) GH_PERMWRITER_FIELDARGS (out @ ?tx)"
      using pw_fieldargident [OF assms(1) at, of "''accept''"] pw_fieldargstring [OF assms(1) at, of "''reject''"]
        pw_fieldargstring [OF assms(1) at, of "''prompt''"]
      by (cases mode) (simp_all add: permexec_writemode_def exec_mode_text_def)
  qed
  have "pw_ok (ghr_seq (ghr_seq (gh_permwriter_field env ''mode'' st) (permexec_writemode env mode))
      (gh_permwriter_endentry env)) fd n GH_PERMWRITER_GROUPRESOURCE (out @ ?tx @ ?close)"
  proof (rule pw_ok_seq [OF mode])
    fix st1 assume "pw_at fd (n + 1) GH_PERMWRITER_FIELDARGS (out @ ?tx) st1"
    from pw_endentry [OF assms(1) this assms(3)]
    show "pw_ok (gh_permwriter_endentry env st1) fd n GH_PERMWRITER_GROUPRESOURCE (out @ ?tx @ ?close)"
      by (simp add: newline_unless_entry_def)
  qed
  moreover have e: "toks ?close [TR]" by (intro toks_char toks_space toks_brace toks_nil) simp_all
  have "toks (exec_mode_text mode @ ?close) [exec_mode_tok mode, TR]" by (rule toks_exec_mode [OF e refl])
  from toks_id [OF _ alnum_words(1) toks_char [OF whitespace_chars(1) this] space_not_alnum]
  have "toks (?tx @ ?close) [TId ''mode'', exec_mode_tok mode, TR]"
    by (auto intro!: toks_space)
  ultimately show ?thesis
    by (rule pw_toksI) (auto simp: exec_mode_text_def split: gh_permexec_mode.split)
qed

lemma pw_execentries:
  assumes "takes_writes env" "pw_in fd 1 out st"
  shows "pw_toks (permexec_writeentries env es st) fd 1 out (concat (map exec_toks es))"
  using assms(2)
proof (induction es arbitrary: st out)
  case Nil
  then show ?case by (simp add: pw_toks_done)
next
  case (Cons e es)
  have "pw_toks (permexec_writeentries env (e # es) st) fd 1 out
     ([TStr (hash_bytes (xe_hash e)), TL] @ [TId ''mode'', exec_mode_tok (xe_mode e), TR] @
      concat (map exec_toks es))"
    unfolding permexec_writeentries.simps ghr_seq_assoc
    unfolding ghr_seq_assoc [symmetric, of "gh_permwriter_beginentry env (hash_bytes (xe_hash e)) st"]
  proof (intro pw_toks_seq)
    show "pw_toks (gh_permwriter_beginentry env (hash_bytes (xe_hash e)) st) fd (1 + 1) out
        [TStr (hash_bytes (xe_hash e)), TL]"
      by (rule pw_beginentry_toks [OF assms(1) Cons.prems hash_bytes_plain])
  next
    fix st1 out1 assume "pw_in fd (1 + 1) out1 st1"
    from pw_execmode [OF assms(1) this, of "xe_mode e"]
    show "pw_toks (ghr_seq (ghr_seq (gh_permwriter_field env ''mode'' st1) (permexec_writemode env (xe_mode e)))
       (gh_permwriter_endentry env)) fd 1 out1 [TId ''mode'', exec_mode_tok (xe_mode e), TR]" by simp
  next
    fix st1 out1 assume "pw_in fd 1 out1 st1"
    then show "pw_toks (permexec_writeentries env es st1) fd 1 out1 (concat (map exec_toks es))"
      by (rule Cons.IH)
  qed
  then show ?case by (simp add: exec_toks_def [of e])
qed

text \<open>The head of a resource, for any two names\<close>

lemma pw_beginresource_toks:
  assumes "takes_writes env" "pw_in fd 0 out st" "list_all permparser_charisalphanumeric g" "g \<noteq> []"
    "list_all permparser_charisalphanumeric r" "r \<noteq> []"
  shows "pw_toks (gh_permwriter_beginresource env g r st) fd 1 out [TId g, TId r, TL]"
proof -
  from assms(2) obtain l where l: "pw_at fd 0 l out st" by (auto simp: pw_in_def)
  have "\<not> permparser_charisalphanumeric (CHR ''#'')"
    by (simp add: permparser_charisalphanumeric_def c_between_def)
  then have nf: "nul_free g" "nul_free r" "no_comment g" "no_comment r"
    using assms(3,5) alnum_char by (auto simp: nul_free_def no_comment_def list_all_iff)
  have tk: "toks (g @ CHR '' '' # r @ CHR '' '' # CHR ''{'' # [CHR 0x0A]) [TId g, TId r, TL]"
    by (intro toks_id toks_char toks_brace toks_nil space_not_alnum assms) simp_all
  have ok: "pw_ok (gh_permwriter_beginresource env g r st) fd 1 GH_PERMWRITER_ENTRY
      (out @ g @ CHR '' '' # r @ CHR '' '' # CHR ''{'' # [CHR 0x0A])"
    using pw_beginresource [OF assms(1) l nf(1,2)] by (simp add: indent_def)
  show ?thesis by (rule pw_toksI [OF ok tk]) (simp add: nf(3,4))
qed

lemma permexec_write_toks:
  assumes "takes_writes env" "pw_in fd 0 out st"
  shows "pw_toks (gh_permexec_write env px st) fd 0 out (exec_file_toks (da_items (px_hashlist px)))"
proof -
  have "pw_toks (gh_permexec_write env px st) fd 0 out
     ([TId ''exec'', TId ''cmdline'', TL] @ concat (map exec_toks (da_items (px_hashlist px))) @ [TR])"
    unfolding gh_permexec_write_def
  proof (intro pw_toks_seq)
    show "pw_toks (gh_permwriter_beginresource env ''exec'' ''cmdline'' st) fd 1 out
        [TId ''exec'', TId ''cmdline'', TL]"
      by (intro pw_beginresource_toks assms alnum_words) simp_all
  next
    fix st1 out1 assume "pw_in fd 1 out1 st1"
    then show "pw_toks (permexec_writeentries env (da_items (px_hashlist px)) st1) fd 1 out1
        (concat (map exec_toks (da_items (px_hashlist px))))"
      by (rule pw_execentries [OF assms(1)])
  next
    fix st1 out1 assume "pw_in fd 1 out1 st1"
    then show "pw_toks (gh_permwriter_endresource env st1) fd 0 out1 [TR]"
      by (intro pw_end_toks [OF assms(1)]) simp_all
  qed
  then show ?thesis by (simp add: exec_file_toks_def)
qed

section \<open>Reading an entry\<close>

definition px_with :: "gh_permexec \<Rightarrow> gh_permexec_hashlist \<Rightarrow> gh_permexec" where
  "px_with px list = px\<lparr>px_hashlist := list\<rparr>"

lemma px_with_simps [simp]:
  "px_hashlist (px_with px list) = list" "px_default_mode (px_with px list) = px_default_mode px"
  "px_allowed_env (px_with px list) = px_allowed_env px" "px_with (px_with px list) list' = px_with px list'"
  "px_with px (px_hashlist px) = px"
  by (simp_all add: px_with_def)

lemma newentry_exec:
  assumes "exec_list (px_hashlist px) es" "length h = GH_SHA256_DIGESTLEN" "length es < 4294967296" "al_total al"
  shows "\<exists>list'. exec_list list' (es @ [\<lparr>xe_mode = px_default_mode px, xe_hash = h\<rparr>]) \<and>
     (\<forall>b u ts pk p tok. holds b u (TStr (hash_bytes h)) tok \<longrightarrow> at_toks b u ts pk p \<longrightarrow>
        permexecparser_newentry al (tk_value tok) (p, px) =
          Some (GHR_OK, (Some (da_block list', length es), (p, px_with px list'))))"
proof -
  let ?e = "\<lparr>xe_mode = px_default_mode px, xe_hash = h\<rparr>"
  from hashlist_add_succeeds [of "px_hashlist px" es ?e al] assms obtain list' where
    l: "gh_permexec_hashlist_add al (px_hashlist px) ?e = Some (GHR_OK, list')" "exec_list list' (es @ [?e])" by auto
  have sz: "unat (da_size list') = Suc (length es)" using exec_list_size [OF l(2)] by simp
  then have "da_size list' \<noteq> 0" by auto
  then have ix: "unat (da_size list' - 1) = length es" using sz by (simp add: unat_minus_one)
  have "permexecparser_newentry al (tk_value tok) (p, px) =
      Some (GHR_OK, (Some (da_block list', length es), (p, px_with px list')))"
    if "holds b u (TStr (hash_bytes h)) tok" "at_toks b u ts pk p" for b u ts pk p tok
  proof -
    from holds_resolve [OF that] obtain rest where "pp_resolve p (tk_value tok) =
        Some \<lparr>cs_buffer = hash_bytes h @ NUL # rest, cs_size = of_nat (length (hash_bytes h))\<rparr>" by auto
    with readhash_bytes [OF assms(2), of rest] l(1) ix show ?thesis
      by (simp add: permexecparser_newentry_def ghr_simps px_with_def del: hash_bytes_length)
  qed
  with l(2) show ?thesis by blast
qed

lemma mode_field_name: "gh_str_eqlzrz ''mode'' ''mode''"
  by (simp add: eqlzrz_exact)

lemma accept_mode:
  "exec_mode_of \<lparr>cs_buffer = ''accept'' @ NUL # rest, cs_size = 6\<rparr> = Some GH_PERMEXEC_ACCEPT"
proof -
  let ?cs = "\<lparr>cs_buffer = ''accept'' @ NUL # rest, cs_size = 6\<rparr>"
  have view: "cs_view ?cs = ''accept''" by (simp add: cs_view_def)
  then have "cs_wf ?cs" by (simp add: cs_wf_def)
  with view cs_eqlsrz_view [of ?cs "''accept''"] show ?thesis by (simp add: exec_mode_of_def gh_conststr_eqz_def)
qed

lemma exec_list_store:
  assumes "exec_list list es" "i < length es"
  shows "\<exists>list'. da_store list (da_block list, i) ((es ! i)\<lparr>xe_mode := m\<rparr>) = Some list' \<and>
     exec_list list' (es[i := (es ! i)\<lparr>xe_mode := m\<rparr>]) \<and> da_block list' = da_block list"
proof -
  have "list_all (\<lambda>e. length (xe_hash e) = GH_SHA256_DIGESTLEN) (es[i := (es ! i)\<lparr>xe_mode := m\<rparr>])"
    using assms by (simp add: exec_list_def list_all_length nth_list_update)
  with store_items [of permexechashlist_daopts list i "(es ! i)\<lparr>xe_mode := m\<rparr>"] assms show ?thesis
    by (auto simp: exec_list_def)
qed

lemma setfield_accept:
  assumes "at_toks b u (TId ''accept'' # ts) None p" "length u + 7 \<le> 1024"
    and "exec_list (px_hashlist px) es" "i < length es"
  shows "\<exists>p' list'. permexecparser_setfield al (Some (da_block (px_hashlist px), i)) ''mode'' (p, px) =
       Some (GHR_OK, (p', px_with px list')) \<and> at_toks b (u @ ''accept'' @ [NUL]) ts None p' \<and>
     exec_list list' (es[i := (es ! i)\<lparr>xe_mode := GH_PERMEXEC_ACCEPT\<rparr>])"
proof -
  from expect_hit [OF assms(1), of GH_PERMTOKEN_IDENTIFIER GHR_PERMPARSER_EXPECTEDIDENTIFIER al] assms(2)
  obtain tok p1 where p1: "gh_permparser_nextidentifier al p = Some (GHR_OK, (Some (tk_value tok), p1))"
    "tok_is b (length u) (TId ''accept'') tok" "at_toks b (u @ ''accept'' @ [NUL]) ts None p1"
    by (auto simp: gh_permparser_nextidentifier_def)
  have "holds b (u @ ''accept'' @ [NUL]) (TId ''accept'') tok" using holds_last [OF p1(2)] by simp
  from holds_resolve [OF this p1(3)] obtain rest where
    r: "pp_resolve p1 (tk_value tok) = Some \<lparr>cs_buffer = ''accept'' @ NUL # rest, cs_size = 6\<rparr>" by auto
  from exec_list_store [OF assms(3,4), of GH_PERMEXEC_ACCEPT] obtain list' where
    "da_store (px_hashlist px) (da_block (px_hashlist px), i) ((es ! i)\<lparr>xe_mode := GH_PERMEXEC_ACCEPT\<rparr>) = Some list'"
    "exec_list list' (es[i := (es ! i)\<lparr>xe_mode := GH_PERMEXEC_ACCEPT\<rparr>])" by blast
  with p1(1,3) r accept_mode [of rest] mode_field_name exec_list_deref [OF assms(3,4)] show ?thesis
    by (auto simp: permexecparser_setfield_def ghr_simps px_with_def)
qed

lemma setfield_other:
  assumes "at_toks b u (TStr s # ts) None p" "length u + length s + 1 \<le> 1024"
  shows "\<exists>p'. permexecparser_setfield al entry ''mode'' (p, px) =
     Some (GHR_PERMPARSER_EXPECTEDIDENTIFIER, (p', px))"
proof -
  from expect_miss [OF assms(1), of GH_PERMTOKEN_IDENTIFIER GHR_PERMPARSER_EXPECTEDIDENTIFIER al] assms(2)
  obtain p1 where "gh_permparser_nextidentifier al p = Some (GHR_PERMPARSER_EXPECTEDIDENTIFIER, (None, p1))"
    by (auto simp: gh_permparser_nextidentifier_def)
  with mode_field_name show ?thesis by (simp add: permexecparser_setfield_def ghr_simps)
qed

text \<open>An entry that accepts\<close>

lemma entry_accepts:
  assumes "at_toks b u (exec_toks e @ ts) None p" "length u \<le> 64" "xe_mode e = GH_PERMEXEC_ACCEPT"
    and "length (xe_hash e) = GH_SHA256_DIGESTLEN" "exec_list (px_hashlist px) es" "length es < 4294967296" "al_total al"
  shows "\<exists>p' list'. permparser_entries al (permexec_resourceparser al) (p, px) =
       permparser_entries al (permexec_resourceparser al) (p', px_with px list') \<and>
     at_toks b [] ts None p' \<and> exec_list list' (es @ [e])"
proof -
  let ?rp = "permexec_resourceparser al" and ?s = "hash_bytes (xe_hash e)"
  let ?u = "(u @ ?s @ [NUL]) @ tok_bytes (TId ''mode'')"
  from newentry_exec [OF assms(5,4,6,7)] obtain l1 where
    l1: "exec_list l1 (es @ [\<lparr>xe_mode = px_default_mode px, xe_hash = xe_hash e\<rparr>])"
    "\<And>b u ts pk p tok. holds b u (TStr ?s) tok \<Longrightarrow> at_toks b u ts pk p \<Longrightarrow>
       rp_newentry ?rp (tk_value tok) (p, px) = Some (GHR_OK, (Some (da_block l1, length es), (p, px_with px l1)))"
    by (auto simp: permexec_resourceparser_def)
  have at: "at_toks b u (TStr ?s # TL # TId ''mode'' # TId ''accept'' # TR # ts) None p"
    using assms(1,3) by (simp add: exec_toks_def)
  have new: "rp_newentry ?rp (tk_value tok) (p', px) =
      Some (GHR_OK, (Some (da_block l1, length es), (p', px_with px l1)))"
    if "holds b (u @ ?s @ [NUL]) (TStr ?s) tok"
      "at_toks b (u @ ?s @ [NUL]) (TL # TId ''mode'' # TId ''accept'' # TR # ts) None p'" for tok p'
    by (rule l1(2) [OF that])
  have room: "length u + length ?s + 1 + length (tok_bytes (TId ''mode'')) \<le> 1024" using assms(2,4) by simp
  from entry_frame [where al = al, OF at room new] assms(2,4) obtain tok p1 where
    f: "permparser_entries al ?rp (p, px) =
       ghr_then (permparser_fields al ?rp (Some (da_block l1, length es)) tok (p1, px_with px l1))
         (permparser_entries al ?rp)"
    "holds b ?u (TId ''mode'') tok" "at_toks b ?u (TId ''accept'' # TR # ts) None p1"
    by blast
  let ?p1 = "permparser_seterror (tk_loc tok) p1"
  have i: "length es < length (es @ [\<lparr>xe_mode = px_default_mode px, xe_hash = xe_hash e\<rparr>])" by simp
  have sz: "length ?u + 7 \<le> 1024" using assms(2,4) by simp
  from setfield_accept [OF at_toks_seterror [OF f(3)] sz, of "px_with px l1"] l1(1) i obtain p2 l2 where
    s2: "permexecparser_setfield al (Some (da_block l1, length es)) ''mode'' (?p1, px_with px l1) =
       Some (GHR_OK, (p2, px_with px l2))" "at_toks b (?u @ ''accept'' @ [NUL]) (TR # ts) None p2"
    "exec_list l2 ((es @ [\<lparr>xe_mode = px_default_mode px, xe_hash = xe_hash e\<rparr>])[length es :=
        \<lparr>xe_mode = GH_PERMEXEC_ACCEPT, xe_hash = xe_hash e\<rparr>])"
    by (metis gh_permexec_entry.update_convs(1) nth_append_length px_with_simps(1,4))
  have l2: "exec_list l2 (es @ [e])" using s2(3) assms(3) by (cases e) (simp add: list_update_append)
  from nexttoken_toks [OF s2(2), of al] assms(2,4) obtain tok3 p3 where
    p3: "gh_permparser_nexttoken al p2 = Some (GHR_OK, (Some tok3, p3))"
    "tok_is b (length (?u @ ''accept'' @ [NUL])) TR tok3"
    "at_toks b ((?u @ ''accept'' @ [NUL]) @ tok_bytes TR) ts None p3" by auto
  from fields_end [OF holds_last [OF p3(2)] p3(3), of al ?rp "Some (da_block l1, length es)" "px_with px l2"]
  obtain p4 where
    p4: "permparser_fields al ?rp (Some (da_block l1, length es)) tok3 (p3, px_with px l2) =
       Some (GHR_OK, (p4, px_with px l2))" "at_toks b [] ts None p4" by blast
  have "permparser_fields al ?rp (Some (da_block l1, length es)) tok (p1, px_with px l1) =
      Some (GHR_OK, (p4, px_with px l2))"
    using field_frame [OF f(2,3) alnum_words(1), of al ?rp "Some (da_block l1, length es)" "px_with px l1"]
      s2(1) p3(1) p4(1) by (simp add: permexec_resourceparser_def)
  with f(1) p4(2) l2 show ?thesis by auto
qed

text \<open>An entry that does not\<close>

lemma entry_refused:
  assumes "at_toks b u (exec_toks e @ ts) None p" "length u \<le> 64" "xe_mode e \<noteq> GH_PERMEXEC_ACCEPT"
    and "length (xe_hash e) = GH_SHA256_DIGESTLEN" "exec_list (px_hashlist px) es" "length es < 4294967296" "al_total al"
  shows "\<exists>st. permparser_entries al (permexec_resourceparser al) (p, px) =
     Some (GHR_PERMPARSER_EXPECTEDIDENTIFIER, st)"
proof -
  let ?rp = "permexec_resourceparser al" and ?s = "hash_bytes (xe_hash e)"
  let ?u = "(u @ ?s @ [NUL]) @ tok_bytes (TId ''mode'')"
  obtain w where w: "exec_mode_tok (xe_mode e) = TStr w" "length w = 6"
    using assms(3) by (cases "xe_mode e") auto
  from newentry_exec [OF assms(5,4,6,7)] obtain l1 where
    l1: "\<And>b u ts pk p tok. holds b u (TStr ?s) tok \<Longrightarrow> at_toks b u ts pk p \<Longrightarrow>
       rp_newentry ?rp (tk_value tok) (p, px) = Some (GHR_OK, (Some (da_block l1, length es), (p, px_with px l1)))"
    by (auto simp: permexec_resourceparser_def)
  have at: "at_toks b u (TStr ?s # TL # TId ''mode'' # TStr w # TR # ts) None p"
    using assms(1) w(1) by (simp add: exec_toks_def)
  have new: "rp_newentry ?rp (tk_value tok) (p', px) =
      Some (GHR_OK, (Some (da_block l1, length es), (p', px_with px l1)))"
    if "holds b (u @ ?s @ [NUL]) (TStr ?s) tok"
      "at_toks b (u @ ?s @ [NUL]) (TL # TId ''mode'' # TStr w # TR # ts) None p'" for tok p'
    by (rule l1 [OF that])
  have room: "length u + length ?s + 1 + length (tok_bytes (TId ''mode'')) \<le> 1024" using assms(2,4) by simp
  from entry_frame [where al = al, OF at room new] assms(2,4) obtain tok p1 where
    f: "permparser_entries al ?rp (p, px) =
       ghr_then (permparser_fields al ?rp (Some (da_block l1, length es)) tok (p1, px_with px l1))
         (permparser_entries al ?rp)"
    "holds b ?u (TId ''mode'') tok" "at_toks b ?u (TStr w # TR # ts) None p1"
    by blast
  have sz: "length ?u + length w + 1 \<le> 1024" using assms(2,4) w(2) by simp
  from setfield_other [OF at_toks_seterror [OF f(3)] sz, of al "Some (da_block l1, length es)" "tk_loc tok" "px_with px l1"]
  obtain p2 where "permexecparser_setfield al (Some (da_block l1, length es)) ''mode''
      (permparser_seterror (tk_loc tok) p1, px_with px l1) =
      Some (GHR_PERMPARSER_EXPECTEDIDENTIFIER, (p2, px_with px l1))" by blast
  with f(1) field_frame [OF f(2,3) alnum_words(1), of al ?rp "Some (da_block l1, length es)" "px_with px l1"]
  show ?thesis by (simp add: permexec_resourceparser_def ghr_simps)
qed

section \<open>Reading the file\<close>

definition accepts :: "gh_permexec_entry \<Rightarrow> bool" where
  "accepts e \<longleftrightarrow> xe_mode e = GH_PERMEXEC_ACCEPT"

definition hashes_ok :: "gh_permexec_entry list \<Rightarrow> bool" where
  "hashes_ok es \<longleftrightarrow> list_all (\<lambda>e. length (xe_hash e) = GH_SHA256_DIGESTLEN) es"

lemma entries_accept:
  assumes "at_toks b u (concat (map exec_toks xs) @ TR # ts) None p" "length u \<le> 64" "list_all accepts xs"
    and "hashes_ok xs" "exec_list (px_hashlist px) es" "length (es @ xs) < 4294967296" "al_total al"
  shows "\<exists>p' list' u' tok. permparser_entries al (permexec_resourceparser al) (p, px) =
       Some (GHR_OK, (p', px_with px list')) \<and> at_toks b u' ts (Some tok) p' \<and> length u' \<le> 64 \<and>
     tk_type tok = GH_PERMTOKEN_RBRACE \<and> exec_list list' (es @ xs)"
  using assms
proof (induction xs arbitrary: u p px es)
  case Nil
  from entries_end [of b u ts p al "permexec_resourceparser al" px] Nil obtain p1 tok where
    "permparser_entries al (permexec_resourceparser al) (p, px) = Some (GHR_OK, (p1, px))"
    "at_toks b u ts (Some tok) p1" "tk_type tok = GH_PERMTOKEN_RBRACE" by auto
  with Nil show ?case by (metis append_Nil2 px_with_simps(5))
next
  case (Cons e xs)
  have at: "at_toks b u (exec_toks e @ concat (map exec_toks xs) @ TR # ts) None p" using Cons.prems(1) by simp
  have e: "xe_mode e = GH_PERMEXEC_ACCEPT" "length (xe_hash e) = GH_SHA256_DIGESTLEN" "hashes_ok xs" "list_all accepts xs"
    using Cons.prems(3,4) by (simp_all add: accepts_def [abs_def] hashes_ok_def)
  from entry_accepts [OF at Cons.prems(2) e(1,2) Cons.prems(5) _ Cons.prems(7)] Cons.prems(6) obtain p1 l1 where
    r: "permparser_entries al (permexec_resourceparser al) (p, px) =
        permparser_entries al (permexec_resourceparser al) (p1, px_with px l1)"
    "at_toks b [] (concat (map exec_toks xs) @ TR # ts) None p1" "exec_list l1 (es @ [e])" by auto
  from Cons.IH [OF r(2) _ e(4,3), of "px_with px l1" "es @ [e]"] r(1,3) Cons.prems(6,7) show ?case by simp
qed

lemma entries_refused:
  assumes "at_toks b u (concat (map exec_toks xs) @ TR # ts) None p" "length u \<le> 64" "\<not> list_all accepts xs"
    and "hashes_ok xs" "exec_list (px_hashlist px) es" "length (es @ xs) < 4294967296" "al_total al"
  shows "\<exists>st. permparser_entries al (permexec_resourceparser al) (p, px) =
     Some (GHR_PERMPARSER_EXPECTEDIDENTIFIER, st)"
  using assms
proof (induction xs arbitrary: u p px es)
  case Nil
  then show ?case by simp
next
  case (Cons e xs)
  have at: "at_toks b u (exec_toks e @ concat (map exec_toks xs) @ TR # ts) None p" using Cons.prems(1) by simp
  have e: "length (xe_hash e) = GH_SHA256_DIGESTLEN" "hashes_ok xs" using Cons.prems(4) by (simp_all add: hashes_ok_def)
  show ?case
  proof (cases "xe_mode e = GH_PERMEXEC_ACCEPT")
    case False
    from entry_refused [OF at Cons.prems(2) False e(1) Cons.prems(5) _ Cons.prems(7)] Cons.prems(6)
    show ?thesis by simp
  next
    case True
    from entry_accepts [OF at Cons.prems(2) True e(1) Cons.prems(5) _ Cons.prems(7)] Cons.prems(6) obtain p1 l1 where
      r: "permparser_entries al (permexec_resourceparser al) (p, px) =
          permparser_entries al (permexec_resourceparser al) (p1, px_with px l1)"
      "at_toks b [] (concat (map exec_toks xs) @ TR # ts) None p1" "exec_list l1 (es @ [e])" by auto
    have "\<not> list_all accepts xs" using Cons.prems(3) True by (simp add: accepts_def [abs_def])
    from Cons.IH [OF r(2) _ this e(2), of "px_with px l1" "es @ [e]"] r(1,3) Cons.prems(6,7) show ?thesis by simp
  qed
qed

lemma exec_matches: "permexecparser_matches ''exec'' ''cmdline'' st = Some (GHR_OK, st)"
  by (simp add: permexecparser_matches_def eqlzrz_exact)

lemma find_exec:
  "\<exists>p'. permparser_findresourceparser [permexec_resourceparser al] ''exec'' ''cmdline'' (p, v) =
     Some (GHR_OK, (Some (permexec_resourceparser al), (p', v))) \<and> (at_toks b u ts None p \<longrightarrow> at_toks b u ts None p')"
  using at_toks_seterror [of b u ts None p "pp_loc p"]
  by (auto simp: permexec_resourceparser_def exec_matches pu_error_def ghr_simps)

lemma parse_exec:
  assumes "at_toks b [] (exec_file_toks xs) None p" "hashes_ok xs" "exec_list (px_hashlist px) []"
    "length xs < 4294967296" "al_total al"
  shows "if list_all accepts xs
     then \<exists>p' list'. gh_permparser_parse al [permexec_resourceparser al] (p, px) =
            Some (GHR_OK, (p', px_with px list')) \<and> exec_list list' xs
     else \<exists>st. gh_permparser_parse al [permexec_resourceparser al] (p, px) =
            Some (GHR_PERMPARSER_EXPECTEDIDENTIFIER, st)"
proof (cases "list_all accepts xs")
  case True
  let ?u = "[] @ ''exec'' @ NUL # ''cmdline'' @ [NUL]" and ?ts = "concat (map exec_toks xs) @ [TR]"
  have at: "at_toks b [] (TId ''exec'' # TId ''cmdline'' # TL # ?ts) None p"
    using assms(1) by (simp add: exec_file_toks_def)
  have "\<exists>p' u' v'. permparser_parsenextresource al [permexec_resourceparser al] (p, px) =
      Some (GHR_OK, (False, (p', v'))) \<and> at_toks b u' [] None p' \<and> (\<exists>l. v' = px_with px l \<and> exec_list l xs)"
  proof (rule resource_frame [OF at _ alnum_words(3) _ alnum_words(4), where v = px])
    fix p1 assume "at_toks b ?u ?ts None p1"
    with find_exec [of al p1 px b ?u ?ts] show "\<exists>p2. permparser_findresourceparser [permexec_resourceparser al]
        ''exec'' ''cmdline'' (p1, px) = Some (GHR_OK, (Some (permexec_resourceparser al), (p2, px))) \<and>
        at_toks b ?u ?ts None p2" by blast
  next
    fix p1 assume "at_toks b ?u ?ts None p1"
    from entries_accept [OF this _ True assms(2,3) _ assms(5)] assms(4)
    show "\<exists>p2 u' v' tok. permparser_entries al (permexec_resourceparser al) (p1, px) = Some (GHR_OK, (p2, v')) \<and>
        at_toks b u' [] (Some tok) p2 \<and> tk_type tok = GH_PERMTOKEN_RBRACE \<and> (\<exists>l. v' = px_with px l \<and> exec_list l xs)"
      by fastforce
  qed simp_all
  then obtain p' u' l where r: "permparser_parsenextresource al [permexec_resourceparser al] (p, px) =
      Some (GHR_OK, (False, (p', px_with px l)))" "at_toks b u' [] None p'" "exec_list l xs" by blast
  with parse_next [OF r(1)] parse_end [OF r(2), of al "[permexec_resourceparser al]" "px_with px l"] True
  show ?thesis by auto
next
  case False
  let ?u = "[] @ ''exec'' @ NUL # ''cmdline'' @ [NUL]" and ?ts = "concat (map exec_toks xs) @ [TR]"
  have at: "at_toks b [] (TId ''exec'' # TId ''cmdline'' # TL # ?ts) None p"
    using assms(1) by (simp add: exec_file_toks_def)
  from resource_head [OF at _ alnum_words(3) _ alnum_words(4), of al "[permexec_resourceparser al]" px] obtain p1 where
    p1: "at_toks b ?u ?ts None p1"
    "permparser_parsenextresource al [permexec_resourceparser al] (p, px) =
      map_option (\<lambda>(res, st). (res, (False, st)))
        (resource_body al [permexec_resourceparser al] ''exec'' ''cmdline'' (p1, px))" by auto
  from find_exec [of al p1 px b ?u ?ts] p1(1) obtain p2 where
    p2: "permparser_findresourceparser [permexec_resourceparser al] ''exec'' ''cmdline'' (p1, px) =
      Some (GHR_OK, (Some (permexec_resourceparser al), (p2, px)))" "at_toks b ?u ?ts None p2" by blast
  from entries_refused [OF p2(2) _ False assms(2,3) _ assms(5)] assms(4) obtain st where
    "permparser_entries al (permexec_resourceparser al) (p2, px) = Some (GHR_PERMPARSER_EXPECTEDIDENTIFIER, st)"
    by auto
  with p1(2) p2(1) have "permparser_parsenextresource al [permexec_resourceparser al] (p, px) =
      Some (GHR_PERMPARSER_EXPECTEDIDENTIFIER, (False, st))" by (simp add: resource_body_def ghr_simps del: permparser_findresourceparser.simps)
  from parse_fails [OF this] False show ?thesis by (simp add: ghr_simps)
qed

lemma permexec_ctor_at:
  assumes "al_total al"
  shows "\<exists>px'. gh_permexec_ctor al px = (GHR_OK, px') \<and> exec_list (px_hashlist px') [] \<and>
     px_default_mode px' = GH_PERMEXEC_REJECT"
proof -
  let ?zero = "\<lparr>da_buffer = None, da_capacity = 0, da_size = 0, da_block = da_block (px_hashlist px)\<rparr>"
  obtain l where c: "gh_dynamicarray_ctor al permexechashlist_daopts ?zero = (GHR_OK, l)"
    using assms by (simp add: gh_dynamicarray_ctor_def gh_alloc_new_result al_total_def permexechashlist_daopts_def ghr_simps)
  with ctor_wf [OF c] show ?thesis
    by (simp add: gh_permexec_ctor_def gh_permexec_hashlist_ctor_def exec_list_def permexechashlist_daopts_def)
qed

lemma exec_write_then_parse:
  assumes "takes_writes env" "al_total al" "fd_output fd tr = []" "exec_list (px_hashlist px) es" "length es < 4294967296"
  shows "\<exists>st p px0 res p' px'.
     gh_permexec_write env px (gh_permwriter_new fd, tr) = (GHR_OK, st) \<and>
     gh_permparser_ctorbuffer al (pw_output st) = (GHR_OK, p) \<and>
     gh_permexec_ctor al fresh = (GHR_OK, px0) \<and>
     gh_permparser_parse al [permexec_resourceparser al] (p, px0) = Some (res, (p', px')) \<and>
     (if \<forall>e \<in> set es. xe_mode e = GH_PERMEXEC_ACCEPT
      then res = GHR_OK \<and> da_items (px_hashlist px') = es
      else res = GHR_PERMPARSER_EXPECTEDIDENTIFIER)"
proof -
  have es: "da_items (px_hashlist px) = es" "hashes_ok es" using assms(4) by (simp_all add: exec_list_def hashes_ok_def)
  have acc: "list_all accepts es \<longleftrightarrow> (\<forall>e \<in> set es. xe_mode e = GH_PERMEXEC_ACCEPT)"
    by (simp add: list_all_iff accepts_def)
  have "pw_in fd 0 [] (gh_permwriter_new fd, tr)" using pw_at_new [of fd tr] assms(3) by (auto simp: pw_in_def)
  from permexec_write_toks [OF assms(1) this, of px] obtain st tx where
    w: "gh_permexec_write env px (gh_permwriter_new fd, tr) = (GHR_OK, st)" "pw_output st = tx"
    "toks tx (exec_file_toks es)" "no_comment tx"
    by (cases "gh_permexec_write env px (gh_permwriter_new fd, tr)") (auto simp: pw_toks_def pw_ok_def pw_at_def es)
  from ctorbuffer_toks [OF assms(2) w(3,4)] obtain b p where
    p: "gh_permparser_ctorbuffer al tx = (GHR_OK, p)" "at_toks b [] (exec_file_toks es) None p" by blast
  from permexec_ctor_at [OF assms(2)] obtain px0 where
    c: "gh_permexec_ctor al fresh = (GHR_OK, px0)" "exec_list (px_hashlist px0) []" by blast
  show ?thesis
  proof (cases "list_all accepts es")
    case True
    with parse_exec [OF p(2) es(2) c(2) assms(5,2)] obtain p' l where
      "gh_permparser_parse al [permexec_resourceparser al] (p, px0) = Some (GHR_OK, (p', px_with px0 l))"
      "exec_list l es" by auto
    with w(1,2) p(1) c(1) True acc show ?thesis by (auto simp: exec_list_def)
  next
    case False
    with parse_exec [OF p(2) es(2) c(2) assms(5,2)] obtain p' px' where
      "gh_permparser_parse al [permexec_resourceparser al] (p, px0) =
        Some (GHR_PERMPARSER_EXPECTEDIDENTIFIER, (p', px'))" by auto
    with w(1,2) p(1) c(1) False acc show ?thesis by auto
  qed
qed

end
