(* ===== verification/PermsRoundTrip.thy ===== *)
theory PermsRoundTrip
  imports PermsLift PermExecRoundTrip
begin

text \<open>
  The policy file of the whole permission system: both resources are written one after the other and
  read back into a fresh system, a failing write leaves no policy behind, and the registry of
  generic handlers.
\<close>

section \<open>Writing\<close>

lemma perms_write_toks:
  assumes "takes_writes env" "fd_output fd tr = []" "list_all entry_valid (da_items (ps_filesystem perms))"
    and "ps_generic perms = []"
  shows "\<exists>tr' tx. gh_perms_write env fd (perms, tr) = (GHR_OK, (perms, tr')) \<and> fd_output fd tr' = tx \<and>
     toks tx (policy_toks (da_items (ps_filesystem perms)) @ exec_file_toks (da_items (px_hashlist (ps_exec perms)))) \<and>
     no_comment tx"
proof -
  have "pw_in fd 0 [] (gh_permwriter_new fd, tr)" using pw_at_new [of fd tr] assms(2) by (auto simp: pw_in_def)
  from permfs_write_toks [OF assms(1) this assms(3)] obtain l tx1 where
    1: "pw_ok (gh_permfs_write env (ps_filesystem perms) (gh_permwriter_new fd, tr)) fd 0 l tx1"
    "toks tx1 (policy_toks (da_items (ps_filesystem perms)))" "no_comment tx1" by (auto simp: pw_toks_def)
  obtain w1 tr1 where w1: "gh_permfs_write env (ps_filesystem perms) (gh_permwriter_new fd, tr) = (GHR_OK, (w1, tr1))"
    using 1(1) by (cases "gh_permfs_write env (ps_filesystem perms) (gh_permwriter_new fd, tr)") (auto simp: pw_ok_def)
  with 1(1) have "pw_in fd 0 tx1 (w1, tr1)" by (auto simp: pw_in_def pw_ok_def)
  from permexec_write_toks [OF assms(1) this, of "ps_exec perms"] obtain l2 tx2 where
    2: "pw_ok (gh_permexec_write env (ps_exec perms) (w1, tr1)) fd 0 l2 (tx1 @ tx2)"
    "toks tx2 (exec_file_toks (da_items (px_hashlist (ps_exec perms))))" "no_comment tx2" by (auto simp: pw_toks_def)
  obtain w2 tr2 where w2: "gh_permexec_write env (ps_exec perms) (w1, tr1) = (GHR_OK, (w2, tr2))"
    using 2(1) by (cases "gh_permexec_write env (ps_exec perms) (w1, tr1)") (auto simp: pw_ok_def)
  have "pw_fd w2 = fd" "pw_output (w2, tr2) = tx1 @ tx2" using 2(1) w2 by (auto simp: pw_ok_def pw_at_def)
  then have "fd_output fd tr2 = tx1 @ tx2" by (simp add: pw_output_def)
  moreover have "gh_perms_write env fd (perms, tr) = (GHR_OK, (perms, tr2))"
    using w1 w2 assms(4) by (cases perms) (simp add: gh_perms_write_def ghr_simps)
  ultimately show ?thesis using toks_append [OF 1(2) 2(2)] 1(3) 2(3) by auto
qed

text \<open>A write that fails ends with the file empty, if it can be truncated.\<close>

lemma perms_write_fails:
  assumes "gh_perms_write env fd (perms, tr) = (res, (perms', tr'))" "res \<noteq> GHR_OK"
    and "\<And>tr. an_ret (env tr (Ftruncate fd 0)) = 0"
  shows "fd_output fd tr' = []"
proof -
  from assms(1,2) obtain r st where "perms_emergency_clear env fd r st = (res, (perms', tr'))"
    by (auto simp: gh_perms_write_def ghr_simps Let_def split: if_splits prod.splits)
  then show ?thesis using assms(3)
    by (cases st) (auto simp: perms_emergency_clear_def syscall_pair)
qed

section \<open>Reading\<close>

definition perms_fresh :: "gh_alloc \<Rightarrow> ('g, 'h) gh_perms \<Rightarrow> bool" where
  "perms_fresh al perms \<longleftrightarrow>
     (\<exists>blk. permfs_at al blk [] (ps_filesystem perms)) \<and> exec_list (px_hashlist (ps_exec perms)) [] \<and>
     ps_generic perms = []"

lemma perms_ctor_fresh:
  assumes "al_total al" "gh_perms_ctor env al prompter tr = (GHR_OK, (perms, tr'))"
  shows "perms_fresh al perms"
proof -
  let ?zero = "\<lparr>da_buffer = None, da_capacity = 0, da_size = 0, da_block = 0\<rparr> :: gh_permfs"
  from permfs_ctor_at [OF assms(1), of ?zero] obtain blk permfs where
    f: "gh_permfs_ctor al ?zero = (GHR_OK, permfs)" "permfs_at al blk [] permfs" by blast
  from permexec_ctor_at [OF assms(1), of permexec_zero] obtain px where
    x: "gh_permexec_ctor al permexec_zero = (GHR_OK, px)" "exec_list (px_hashlist px) []" by blast
  obtain r procfd tr1 where p: "gh_procfd_ctor env tr = (r, (procfd, tr1))" by (metis prod_cases3)
  show ?thesis
    using assms(2) f x p
    by (cases procfd)
      (auto simp: gh_perms_ctor_def Let_def part_step_def put_filesystem_def put_exec_def perms_fresh_def ghr_simps
        split: if_splits)
qed

lemma find_filesystem_rp:
  "\<exists>p'. permparser_findresourceparser (filesystem_rp al # rps) ''filesystem'' ''node'' (p, s) =
     Some (GHR_OK, (Some (filesystem_rp al), (p', s))) \<and> (at_toks b u ts None p \<longrightarrow> at_toks b u ts None p')"
proof -
  have "rp_matches (filesystem_rp al) ''filesystem'' ''node'' (q, s) = Some (GHR_OK, (q, s))" for q
    unfolding filesystem_rp_def
    by (rule filesystem_part.lifted_matches) (simp add: permfs_resourceparser_def permfs_matches)
  then show ?thesis
    using at_toks_seterror [of b u ts None p "pp_loc p"] by (auto simp: pu_error_def ghr_simps)
qed

lemma find_exec_rp:
  "\<exists>p'. permparser_findresourceparser (filesystem_rp al # exec_rp al # rps) ''exec'' ''cmdline'' (p, s) =
     Some (GHR_OK, (Some (exec_rp al), (p', s))) \<and> (at_toks b u ts None p \<longrightarrow> at_toks b u ts None p')"
proof -
  have 1: "rp_matches (filesystem_rp al) ''exec'' ''cmdline'' (q, s) = Some (GHR_PERMPARSER_NOMATCH, (q, s))" for q
    unfolding filesystem_rp_def
    by (rule filesystem_part.lifted_matches)
      (simp add: permfs_resourceparser_def permfsparser_matches_def eqlzrz_exact)
  have 2: "rp_matches (exec_rp al) ''exec'' ''cmdline'' (q, s) = Some (GHR_OK, (q, s))" for q
    unfolding exec_rp_def
    by (rule exec_part.lifted_matches) (simp add: permexec_resourceparser_def exec_matches)
  show ?thesis
    using at_toks_seterror [OF at_toks_seterror [of b u ts None p "pp_loc p"], of "pp_loc p"] 1 2
    by (auto simp: pu_error_def ghr_simps permparser_seterror_def)
qed

lemma perms_registered:
  "ps_generic perms = [] \<Longrightarrow>
   perms_registerall (perms_resourceparsers al perms) [] = (GHR_OK, [filesystem_rp al, exec_rp al])"
  by (simp add: perms_resourceparsers_def gh_permparser_registerresource_def)

lemma parse_filesystem_part:
  assumes "at_toks b [] (policy_toks es @ ts) None p" "list_all item_ok (policy_of es)"
    "distinct (map fst (policy_of es))" "length es < 4294967296" "al_total al" "permfs_at al blk [] (ps_filesystem s)"
  shows "\<exists>p' u' s'. permparser_parsenextresource al (filesystem_rp al # rps) (p, s) = Some (GHR_OK, (False, (p', s'))) \<and>
     at_toks b u' ts None p' \<and> (length u' \<le> 16 \<and> (\<exists>blk' permfs. s' = put_filesystem permfs s \<and>
       permfs_at al blk' (policy_entries (policy_of es)) permfs))"
proof -
  let ?ts = "concat (map item_toks (policy_of es)) @ TR # ts"
  have at: "at_toks b [] (TId ''filesystem'' # TId ''node'' # TL # ?ts) None p"
    using assms(1) by (simp add: policy_toks_def item_toks_entries)
  have alnum: "list_all permparser_charisalphanumeric ''filesystem''" "list_all permparser_charisalphanumeric ''node''"
    by (simp_all add: permparser_charisalphanumeric_def c_between_def)
  show ?thesis
  proof (rule resource_frame [OF at _ alnum(1) _ alnum(2)])
    fix p1 assume "at_toks b ([] @ ''filesystem'' @ NUL # ''node'' @ [NUL]) ?ts None p1"
    with find_filesystem_rp [of al rps p1 s b "[] @ ''filesystem'' @ NUL # ''node'' @ [NUL]" ?ts]
    show "\<exists>p2. permparser_findresourceparser (filesystem_rp al # rps) ''filesystem'' ''node'' (p1, s) =
        Some (GHR_OK, (Some (filesystem_rp al), (p2, s))) \<and>
        at_toks b ([] @ ''filesystem'' @ NUL # ''node'' @ [NUL]) ?ts None p2" by blast
  next
    fix p1 assume at1: "at_toks b ([] @ ''filesystem'' @ NUL # ''node'' @ [NUL]) ?ts None p1"
    have "permfs_at al blk (policy_entries []) (ps_filesystem s)" "policy_short []"
      using assms(6) by (simp_all add: policy_entries_def policy_short_def)
    from entries_toks [OF at1 _ assms(2) this _ _ assms(5)] assms(3,4) obtain p2 permfs blk' u' tok where
      "permparser_entries al (permfs_resourceparser al) (p1, ps_filesystem s) = Some (GHR_OK, (p2, permfs))"
      "at_toks b u' ts (Some tok) p2" "length u' \<le> 16" "tk_type tok = GH_PERMTOKEN_RBRACE"
      "permfs_at al blk' (policy_entries (policy_of es)) permfs" by (auto simp: policy_of_def)
    with filesystem_entries show "\<exists>p2 u' s' tok. permparser_entries al (filesystem_rp al) (p1, s) =
        Some (GHR_OK, (p2, s')) \<and> at_toks b u' ts (Some tok) p2 \<and> tk_type tok = GH_PERMTOKEN_RBRACE \<and>
        (length u' \<le> 16 \<and> (\<exists>blk' permfs. s' = put_filesystem permfs s \<and>
           permfs_at al blk' (policy_entries (policy_of es)) permfs))" by blast
  qed simp_all
qed

lemma parse_exec_part:
  assumes "at_toks b u (exec_file_toks es @ ts) None p" "length u \<le> 16" "list_all accepts es" "hashes_ok es"
    "length es < 4294967296" "al_total al" "exec_list (px_hashlist (ps_exec s)) []"
  shows "\<exists>p' u' s'. permparser_parsenextresource al (filesystem_rp al # exec_rp al # rps) (p, s) =
       Some (GHR_OK, (False, (p', s'))) \<and> at_toks b u' ts None p' \<and>
     (\<exists>list. s' = put_exec (px_with (ps_exec s) list) s \<and> exec_list list es)"
proof -
  let ?ts = "concat (map exec_toks es) @ TR # ts" and ?u = "u @ ''exec'' @ NUL # ''cmdline'' @ [NUL]"
  have at: "at_toks b u (TId ''exec'' # TId ''cmdline'' # TL # ?ts) None p"
    using assms(1) by (simp add: exec_file_toks_def)
  show ?thesis
  proof (rule resource_frame [OF at _ alnum_words(3) _ alnum_words(4)])
    fix p1 assume "at_toks b ?u ?ts None p1"
    with find_exec_rp [of al rps p1 s b ?u ?ts]
    show "\<exists>p2. permparser_findresourceparser (filesystem_rp al # exec_rp al # rps) ''exec'' ''cmdline'' (p1, s) =
        Some (GHR_OK, (Some (exec_rp al), (p2, s))) \<and> at_toks b ?u ?ts None p2" by blast
  next
    fix p1 assume at1: "at_toks b ?u ?ts None p1"
    from entries_accept [OF at1 _ assms(3,4,7) _ assms(6)] assms(2,5) obtain p2 list u' tok where
      "permparser_entries al (permexec_resourceparser al) (p1, ps_exec s) = Some (GHR_OK, (p2, px_with (ps_exec s) list))"
      "at_toks b u' ts (Some tok) p2" "tk_type tok = GH_PERMTOKEN_RBRACE" "exec_list list es" by auto
    with exec_entries show "\<exists>p2 u' s' tok. permparser_entries al (exec_rp al) (p1, s) = Some (GHR_OK, (p2, s')) \<and>
        at_toks b u' ts (Some tok) p2 \<and> tk_type tok = GH_PERMTOKEN_RBRACE \<and>
        (\<exists>list. s' = put_exec (px_with (ps_exec s) list) s \<and> exec_list list es)" by blast
  qed (use assms(2) in simp_all)
qed

lemma perms_read_toks:
  assumes "toks tx (policy_toks es @ exec_file_toks xs)" "no_comment tx" "al_total al" "perms_fresh al perms0"
    and "policy_ok (policy_of es)" "list_all accepts xs" "hashes_ok xs" "length xs < 4294967296"
  shows "\<exists>err perms'. gh_perms_readbuffer al tx perms0 = Some (GHR_OK, (err, perms')) \<and>
     policy_of (da_items (ps_filesystem perms')) = policy_of es \<and> da_items (px_hashlist (ps_exec perms')) = xs \<and>
     ps_procfd perms' = ps_procfd perms0 \<and> ps_prompter perms' = ps_prompter perms0 \<and> ps_generic perms' = []"
proof -
  from assms(4) obtain blk where f: "permfs_at al blk [] (ps_filesystem perms0)"
    "exec_list (px_hashlist (ps_exec perms0)) []" "ps_generic perms0 = []" by (auto simp: perms_fresh_def)
  from ctorbuffer_toks [OF assms(3,1,2)] obtain b p where
    p: "gh_permparser_ctorbuffer al tx = (GHR_OK, p)" "at_toks b [] (policy_toks es @ exec_file_toks xs) None p" by blast
  have ok: "list_all item_ok (policy_of es)" "distinct (map fst (policy_of es))" "length es < 4294967296"
    using assms(5) by (simp_all add: policy_ok_def policy_of_def)
  let ?rps = "[filesystem_rp al, exec_rp al]"
  from parse_filesystem_part [OF p(2) ok assms(3) f(1)] obtain p1 u1 s1 permfs blk1 where
    1: "permparser_parsenextresource al ?rps (p, perms0) = Some (GHR_OK, (False, (p1, s1)))"
    "at_toks b u1 (exec_file_toks xs) None p1" "length u1 \<le> 16" "s1 = put_filesystem permfs perms0"
    "permfs_at al blk1 (policy_entries (policy_of es)) permfs" by blast
  have at1: "at_toks b u1 (exec_file_toks xs @ []) None p1" "exec_list (px_hashlist (ps_exec s1)) []"
    using 1(2,4) f(2) by (simp_all add: put_filesystem_def)
  from parse_exec_part [OF at1(1) 1(3) assms(6-8,3) at1(2), of "[]"] obtain p2 u2 s2 list where
    2: "permparser_parsenextresource al ?rps (p1, s1) = Some (GHR_OK, (False, (p2, s2)))"
    "at_toks b u2 [] None p2" "s2 = put_exec (px_with (ps_exec s1) list) s1" "exec_list list xs" by blast
  from parse_end [where rps = ?rps and v = s2 and al = al, OF 2(2)] obtain p3 where "gh_permparser_parse al ?rps (p2, s2) = Some (GHR_OK, (p3, s2))" by blast
  with parse_next [OF 1(1)] parse_next [OF 2(1)] have "gh_permparser_parse al ?rps (p, perms0) = Some (GHR_OK, (p3, s2))"
    by simp
  then have "gh_perms_readbuffer al tx perms0 = Some (GHR_OK, (pp_error p3, s2))"
    using p(1) perms_registered [OF f(3), of al] by (simp add: gh_perms_readbuffer_def perms_parse_def ghr_simps)
  moreover have "policy_of (da_items permfs) = policy_of es"
    using 1(5) policy_of_entries [OF policy_ok_short [OF assms(5)]] by (simp add: permfs_at_def)
  ultimately show ?thesis
    using 1(4) 2(3,4) f(3) by (auto simp: put_filesystem_def put_exec_def exec_list_def)
qed

section \<open>The registry of handlers\<close>

definition registry_wf :: "('g, 'h) gh_perms \<Rightarrow> bool" where
  "registry_wf perms \<longleftrightarrow> length (ps_generic perms) \<le> GH_PERMS_MAXGENERIC \<and>
     list_all (\<lambda>inst. nul_free (gi_id inst) \<and> length (gi_id inst) < GH_PERMGENERIC_IDMAX) (ps_generic perms)"

lemma register_wf:
  assumes "registry_wf perms"
  shows "registry_wf (snd (gh_perms_registergeneric perms ident vtable))"
proof (cases "gv_ctor vtable")
  case None
  with assms show ?thesis by (simp add: gh_perms_registergeneric_def)
next
  case (Some g)
  with assms show ?thesis by (auto simp: gh_perms_registergeneric_def registry_wf_def strlen_def)
qed

lemma register_get:
  assumes "gh_perms_registergeneric perms ident vtable = (GHR_OK, perms')"
  shows "gh_perms_getgeneric perms' other =
     (case gh_perms_getgeneric perms other of
        Some g \<Rightarrow> Some g
      | None \<Rightarrow> if cstr ident = cstr other then gv_ctor vtable else None)"
proof -
  from assms obtain g where "gv_ctor vtable = Some g"
    "ps_generic perms' = ps_generic perms @ [\<lparr>gi_id = cstr ident, gi_vtable = vtable, gi_instance = g\<rparr>]"
    by (auto simp: gh_perms_registergeneric_def ghr_simps split: if_splits option.splits)
  then show ?thesis
    by (simp add: gh_perms_getgeneric_def find_append strcmp_eq_def split: option.split)
qed

end
