(* ===== verification/ExecPolicy.thy ===== *)
theory ExecPolicy
  imports PermExecRequest PermsRoundTrip
begin

text \<open>
  What the program permissions and the policy file as a whole promise: the decisions of the exec gate
  and what they rest on, the hash a decision is remembered under, the texts the user is shown, and
  what survives when the policy is written and read again.
\<close>

section \<open>An example\<close>

text \<open>
  A program of four bytes behind descriptor 9, a hash that reverses, cuts and pads to 32 bytes, and a policy
  that accepts the program without arguments.
\<close>

definition pad_hash :: "string \<Rightarrow> gh_sha256" where
  "pad_hash s = take 32 (rev s @ replicate 32 NUL)"

definition exec_env :: env where
  "exec_env tr c =
     (case c of
        EvpCtxNew \<Rightarrow> plain_answer 1
      | EvpDigestInit \<Rightarrow> plain_answer 1
      | EvpDigestUpdate s \<Rightarrow> plain_answer 1
      | OpensslMalloc \<Rightarrow> plain_answer 1
      | EvpDigestFinal s \<Rightarrow> (plain_answer 1)\<lparr>an_data := pad_hash s\<rparr>
      | Lseek fd pos whence \<Rightarrow> plain_answer (if whence = SEEK_END then 4 else 0)
      | Read fd n \<Rightarrow> (plain_answer 4)\<lparr>an_data := ''prog''\<rparr>
      | Openat fd name flags m \<Rightarrow> plain_answer 9
      | Readlinkat fd name n \<Rightarrow> (plain_answer 4)\<lparr>an_data := ''/bin''\<rparr>
      | AskPrompter req \<Rightarrow> plain_answer 2
      | Write fd s \<Rightarrow> plain_answer (int (length s))
      | _ \<Rightarrow> plain_answer 0)"

definition exec_fd :: gh_pathfd where
  "exec_fd = \<lparr>pf_fd = 5, pf_trailing = []\<rparr>"

definition exec_procfd :: gh_procfd where
  "exec_procfd = \<lparr>pr_fd = 7\<rparr>"

definition exec_sample :: "gh_permexec_entry list" where
  "exec_sample = [\<lparr>xe_mode = GH_PERMEXEC_ACCEPT, xe_hash = combined_hash pad_hash ''prog'' []\<rparr>]"

definition exec_policy :: gh_permexec where
  "exec_policy =
     \<lparr>px_default_mode = GH_PERMEXEC_PROMPT,
      px_hashlist = \<lparr>da_buffer = Some exec_sample, da_capacity = 128, da_size = 1, da_block = 1\<rparr>,
      px_allowed_env = [Some ''HOME'']\<rparr>"

lemma pad_hash_length: "length (pad_hash s) = GH_SHA256_DIGESTLEN"
  by (simp add: pad_hash_def)

lemma exec_env_hashes: "sha256_env pad_hash exec_env"
  by (simp add: sha256_env_def exec_env_def plain_answer_def pad_hash_length)

lemma exec_env_file: "file_holds exec_env 9 ''prog''"
  by (simp add: file_holds_def exec_env_def plain_answer_def)

lemma exec_env_writes: "takes_writes exec_env"
  by (simp add: takes_writes_def exec_env_def plain_answer_def)

lemma exec_policy_list: "exec_list (px_hashlist exec_policy) exec_sample"
  by (simp add: exec_list_def exec_policy_def exec_sample_def da_reserved_def da_items_def
      permexechashlist_daopts_def combined_hash_def pad_hash_length)

lemma exec_reopen:
  "\<exists>tr1. gh_procfd_reopen exec_env exec_procfd exec_fd O_RDONLY 0 tr = (GHR_OK, (Some 9, tr1))"
  by (simp add: gh_procfd_reopen_def procfd_getfdfilename_def exec_fd_def exec_procfd_def exec_env_def
      plain_answer_def syscall_pair gh_pathfd_guaranteedtoexist_def Let_def ghr_simps)


lemma exec_mode_accept: "permexec_mode_of exec_policy (combined_hash pad_hash ''prog'' []) = GH_PERMEXEC_ACCEPT"
  by (simp add: permexec_mode_of_def exec_policy_def exec_sample_def da_items_def)

section \<open>The exec gate\<close>

text \<open>C15.
  The gate decides by the entry of the combined hash of the program and its arguments, or by the
  default mode when there is none: an accepting entry lets the program run, a rejecting one refuses
  it, both without asking; every other request goes to the prompter with the environment that is
  allowed to be shown.
\<close>

theorem permexec_gate_decides:
  assumes "exec_list (px_hashlist permexec) es" "sha256_env H env" "al_total al"
    and "gh_procfd_reopen env procfd exe_fd O_RDONLY 0 tr = (GHR_OK, (Some fd, tr1))"
    and "file_holds env fd exe" "0 < length exe" "length exe < 9223372036854775808" "length argv \<le> 2048"
  shows "\<exists>tr2. gh_permexec_gate env al prompter procfd safe_id exe_fd argv envp (permexec, tr) =
     (case permexec_mode_of permexec (combined_hash H exe argv) of
        GH_PERMEXEC_ACCEPT \<Rightarrow> Some (GHR_OK, (permexec, tr2))
      | GH_PERMEXEC_REJECT \<Rightarrow> Some (GHR_PERMS_REJECTEDPOLICY, (permexec, tr2))
      | GH_PERMEXEC_PROMPT \<Rightarrow>
          permexec_prompt env al prompter procfd safe_id exe_fd argv
            (env_filter (px_allowed_env permexec) envp []) (combined_hash H exe argv) (permexec, tr2))"
proof -
  from hash_build_result [OF assms(2,5,3,6-8), of tr1] obtain tr2 where
    h: "gh_permexec_hash_build env al fd (int (length argv)) argv tr1 =
      Some (GHR_OK, (Some (combined_hash H exe argv), tr2))" by blast
  have "exec_argc argv = int (length argv)" using assms(8) by (simp add: exec_argc_def)
  with gate_by_mode [OF assms(1,4)] h show ?thesis by auto
qed

theorem permexec_gate_decides_witness:
  "\<exists>tr2. gh_permexec_gate exec_env ex_alloc (gh_permprompter_new app_prompter) exec_procfd ''safe'' exec_fd [] []
     (exec_policy, []) = Some (GHR_OK, (exec_policy, tr2))"
proof -
  obtain tr1 where r: "gh_procfd_reopen exec_env exec_procfd exec_fd O_RDONLY 0 [] = (GHR_OK, (Some 9, tr1))"
    using exec_reopen by blast
  show ?thesis
    using permexec_gate_decides [OF exec_policy_list exec_env_hashes ex_alloc_total r exec_env_file,
        where argv = "[]" and envp = "[]" and prompter = "gh_permprompter_new app_prompter" and safe_id = "''safe''"]
    by (simp add: exec_mode_accept)
qed

text \<open>C5.
  The gate lets a program run only if the entry of its combined hash accepts, or if there is a
  prompt and the user accepts a request that was made from the path of the program, its arguments
  and the allowed part of the environment.
\<close>

theorem permexec_gate_grants:
  assumes "exec_list (px_hashlist permexec) es"
    and "gh_permexec_gate env al prompter procfd safe_id exe_fd argv envp (permexec, tr) =
      Some (GHR_OK, (permexec', tr'))"
  shows "\<exists>fd tr1 h tr2.
     gh_procfd_reopen env procfd exe_fd O_RDONLY 0 tr = (GHR_OK, (Some fd, tr1)) \<and>
     gh_permexec_hash_build env al fd (exec_argc argv) argv tr1 = Some (GHR_OK, (Some h, tr2)) \<and>
     (permexec_mode_of permexec h = GH_PERMEXEC_ACCEPT \<and> permexec' = permexec \<or>
      permexec_mode_of permexec h = GH_PERMEXEC_PROMPT \<and>
      (\<exists>path req resp tr3 tr4.
         gh_procfd_fdpathctor env al procfd exe_fd tr2 = Some (GHR_OK, (Some path, tr3)) \<and>
         permexec_makerequest safe_id path argv (env_filter (px_allowed_env permexec) envp []) =
           Some (GHR_OK, req) \<and>
         gh_permprompter_request prompter env req tr3 = Some (GHR_OK, (Some resp, tr4)) \<and>
         (resp = GH_PERMRESPONSE_ACCEPT \<and> permexec' = permexec \<or>
          resp = GH_PERMRESPONSE_ACCEPTREMEMBER \<and>
          permexec_remember al permexec GH_PERMEXEC_ACCEPT h = Some (GHR_OK, permexec'))))"
proof -
  from assms obtain fd tr1 h tr2 where
    g: "gh_procfd_reopen env procfd exe_fd O_RDONLY 0 tr = (GHR_OK, (Some fd, tr1))"
    "gh_permexec_hash_build env al fd (exec_argc argv) argv tr1 = Some (GHR_OK, (Some h, tr2))" and
    d: "permexec_mode_of permexec h = GH_PERMEXEC_ACCEPT \<and> permexec' = permexec \<and> tr' = tr2 \<or>
     permexec_mode_of permexec h = GH_PERMEXEC_PROMPT \<and>
     permexec_prompt env al prompter procfd safe_id exe_fd argv
       (env_filter (px_allowed_env permexec) envp []) h (permexec, tr2) = Some (GHR_OK, (permexec', tr'))"
    by (rule gate_grants)
  from d show ?thesis
  proof
    assume "permexec_mode_of permexec h = GH_PERMEXEC_ACCEPT \<and> permexec' = permexec \<and> tr' = tr2"
    with g show ?thesis by blast
  next
    assume p: "permexec_mode_of permexec h = GH_PERMEXEC_PROMPT \<and>
     permexec_prompt env al prompter procfd safe_id exe_fd argv
       (env_filter (px_allowed_env permexec) envp []) h (permexec, tr2) = Some (GHR_OK, (permexec', tr'))"
    from prompt_grants [OF p [THEN conjunct2]] g p show ?thesis by metis
  qed
qed

theorem permexec_gate_grants_witness:
  "\<exists>fd tr1 h tr2. gh_procfd_reopen exec_env exec_procfd exec_fd O_RDONLY 0 [] = (GHR_OK, (Some fd, tr1)) \<and>
     gh_permexec_hash_build exec_env ex_alloc fd 0 [] tr1 = Some (GHR_OK, (Some h, tr2))"
proof -
  obtain tr1 where r: "gh_procfd_reopen exec_env exec_procfd exec_fd O_RDONLY 0 [] = (GHR_OK, (Some 9, tr1))"
    using exec_reopen by blast
  from hash_build_result [OF exec_env_hashes exec_env_file ex_alloc_total, of "[]" tr1] obtain tr2 where
    h: "gh_permexec_hash_build exec_env ex_alloc 9 (exec_argc []) [] tr1 =
      Some (GHR_OK, (Some (combined_hash pad_hash ''prog'' []), tr2))" by (auto simp: exec_argc_def)
  have "gh_permexec_gate exec_env ex_alloc (gh_permprompter_new app_prompter) exec_procfd ''safe'' exec_fd [] []
     (exec_policy, []) = Some (GHR_OK, (exec_policy, tr2))"
    using gate_by_mode [OF exec_policy_list r h] exec_mode_accept by simp
  from permexec_gate_grants [OF exec_policy_list this] show ?thesis by (auto simp: exec_argc_def)
qed

text \<open>C16.
  The hash that a decision is remembered under binds the whole program and every argument: if the
  hash has no collision among the texts that are hashed, two calls that build the same hash are for
  programs with the same bytes and for the same arguments.
\<close>

theorem permexec_hash_binds:
  assumes "sha256_env H env" "al_total al" "file_holds env fd exe" "file_holds env fd' exe'"
    and "0 < length exe" "length exe < 9223372036854775808" "0 < length exe'" "length exe' < 9223372036854775808"
    and "length argv \<le> 2048" "length argv' \<le> 2048"
    and "inj_on H ({exe, exe'} \<union> cstr ` set argv \<union> cstr ` set argv' \<union>
      {H exe @ concat (map (\<lambda>arg. H (cstr arg)) argv), H exe' @ concat (map (\<lambda>arg. H (cstr arg)) argv')})"
    and "gh_permexec_hash_build env al fd (int (length argv)) argv tr = Some (GHR_OK, (Some h, tr1))"
    and "gh_permexec_hash_build env al fd' (int (length argv')) argv' tr' = Some (GHR_OK, (Some h, tr2))"
  shows "exe = exe' \<and> map cstr argv = map cstr argv'"
proof -
  have "h = combined_hash H exe argv" "h = combined_hash H exe' argv'"
    using hash_build_result [OF assms(1,3,2,5,6,9), of tr] hash_build_result [OF assms(1,4,2,7,8,10), of tr']
      assms(12,13) by auto
  moreover have "length (H s) = GH_SHA256_DIGESTLEN" for s using assms(1) by (simp add: sha256_env_def)
  ultimately show ?thesis
    by (intro combined_hash_eq [OF _ _ assms(11)]) auto
qed

theorem permexec_hash_binds_witness:
  "\<exists>h tr1. gh_permexec_hash_build exec_env ex_alloc 9 1 [''a''] [] = Some (GHR_OK, (Some h, tr1)) \<and>
     (\<forall>tr2. gh_permexec_hash_build exec_env ex_alloc 9 1 [''b''] [] \<noteq> Some (GHR_OK, (Some h, tr2)))"
proof -
  from hash_build_result [OF exec_env_hashes exec_env_file ex_alloc_total, of "[''a'']" "[]"] obtain h tr1 where
    h: "gh_permexec_hash_build exec_env ex_alloc 9 (int (length [''a''])) [''a''] [] = Some (GHR_OK, (Some h, tr1))" by auto
  have i: "inj_on pad_hash ({''prog'', ''prog''} \<union> cstr ` set [''a''] \<union> cstr ` set [''b''] \<union>
      {pad_hash ''prog'' @ concat (map (\<lambda>arg. pad_hash (cstr arg)) [''a'']),
       pad_hash ''prog'' @ concat (map (\<lambda>arg. pad_hash (cstr arg)) [''b''])})"
    by (simp add: pad_hash_def cstr_def numeral_eq_Suc)
  have "gh_permexec_hash_build exec_env ex_alloc 9 (int (length [''b''])) [''b''] [] \<noteq> Some (GHR_OK, (Some h, tr2))" for tr2
    using permexec_hash_binds [OF exec_env_hashes ex_alloc_total exec_env_file exec_env_file _ _ _ _ _ _ i h, of "[]" tr2]
    by (auto simp: cstr_def)
  with h show ?thesis by auto
qed

text \<open>
  A remembered answer is appended to the list, and the first entry of a hash is the one in force: the
  answer counts from then on only if the hash had no entry. With an entry that asks, the user is
  asked again every time.
\<close>

theorem permexec_remember_shadowed:
  assumes "exec_list (px_hashlist permexec) es" "length es < 4294967296" "length h = GH_SHA256_DIGESTLEN" "al_total al"
  shows "\<exists>permexec'. permexec_remember al permexec mode h = Some (GHR_OK, permexec') \<and>
     exec_list (px_hashlist permexec') (es @ [\<lparr>xe_mode = mode, xe_hash = h\<rparr>]) \<and>
     permexec_mode_of permexec' h =
       (if h \<in> xe_hash ` set es then permexec_mode_of permexec h else mode) \<and>
     (\<forall>h'. h' \<noteq> h \<longrightarrow> permexec_mode_of permexec' h' = permexec_mode_of permexec h')"
proof -
  from hashlist_add_succeeds [OF assms(1,2) _ assms(4), of "\<lparr>xe_mode = mode, xe_hash = h\<rparr>"] assms(3)
  obtain permexec' where r: "permexec_remember al permexec mode h = Some (GHR_OK, permexec')"
    by (auto simp: permexec_remember_def)
  have "find (\<lambda>e. xe_hash e = h) es = None \<longleftrightarrow> h \<notin> xe_hash ` set es" by (auto simp: find_None_iff)
  moreover have "da_items (px_hashlist permexec) = es" using assms(1) by (simp add: exec_list_def)
  ultimately show ?thesis
    using r remember_result [OF assms(1-3) r] remember_mode [OF assms(1-3) r]
    by (auto simp: permexec_mode_of_def split: option.split)
qed

theorem permexec_remember_shadowed_witness:
  "\<exists>permexec'. permexec_remember ex_alloc exec_policy GH_PERMEXEC_REJECT (combined_hash pad_hash ''prog'' []) =
       Some (GHR_OK, permexec') \<and>
     permexec_mode_of permexec' (combined_hash pad_hash ''prog'' []) = GH_PERMEXEC_ACCEPT"
  using permexec_remember_shadowed [OF exec_policy_list _ _ ex_alloc_total,
      of "combined_hash pad_hash ''prog'' []" GH_PERMEXEC_REJECT] exec_mode_accept
  by (auto simp: exec_sample_def combined_hash_def pad_hash_length)

section \<open>The texts the user is shown\<close>

text \<open>The values of the fields of a request\<close>

definition shown_field :: "gh_permrequest \<Rightarrow> nat \<Rightarrow> string" where
  "shown_field req i = cs_view (rf_value (rq_fields req ! i))"

text \<open>C28.
  The user is shown the whole command line: the field of the request is the path followed by every
  further argument in quotes with its special characters escaped. It is never cut: a command line or
  an environment of more than 4095 characters is an error. And it is not ambiguous: two requests that
  show the same command line for the same program have the same arguments.
\<close>

theorem permexec_cmdline_shown:
  assumes "strlen source < 512" "nul_free (ac_view path)" "unat (ac_len path) \<le> length (ac_chars path)" "argv \<noteq> []"
  shows "\<exists>res req. permexec_makerequest source path argv envp = Some (res, req) \<and>
     res = (if 4096 < length (cmdline_text (ac_view path) argv @ [NUL]) then GHR_PERMEXEC_LARGECMDLINE
            else if 4096 < length (env_text True envp @ [NUL]) then GHR_PERMEXEC_LARGEENV else GHR_OK) \<and>
     (res = GHR_OK \<longrightarrow> shown_field req 1 = cmdline_text (ac_view path) argv @ [NUL]) \<and>
     (\<forall>argv'. cmdline_text (ac_view path) argv' = cmdline_text (ac_view path) argv \<longrightarrow>
        map cstr (tl argv') = map cstr (tl argv))"
proof -
  have "\<forall>argv'. cmdline_text (ac_view path) argv' = cmdline_text (ac_view path) argv \<longrightarrow>
      map cstr (tl argv') = map cstr (tl argv)"
    by (intro allI impI, rule args_text_inj) (simp add: cmdline_text_def)
  moreover from makerequest_cases [OF assms, of envp] obtain res req where
    "permexec_makerequest source path argv envp = Some (res, req)"
    "res = (if 4096 < length (cmdline_text (ac_view path) argv @ [NUL]) then GHR_PERMEXEC_LARGECMDLINE
            else if 4096 < length (env_text True envp @ [NUL]) then GHR_PERMEXEC_LARGEENV else GHR_OK)"
    "res = GHR_OK \<longrightarrow> shown_field req 1 = cmdline_text (ac_view path) argv @ [NUL]"
    unfolding shown_field_def by (elim exE conjE) blast
  ultimately show ?thesis by (intro exI conjI) assumption+
qed

definition exec_path :: gh_abscanonicalpath where
  "exec_path = ident_of ''/bin/ls'' []"

theorem permexec_cmdline_shown_witness:
  "\<exists>req. permexec_makerequest ''safe'' exec_path [''ls'', ''a b''] [] = Some (GHR_OK, req) \<and>
     shown_field req 1 = ''/bin/ls'' @ CHR '' '' # CHR 0x22 # ''a b'' @ [CHR 0x22, NUL]"
proof -
  have "strlen ''safe'' < 512" "nul_free (ac_view exec_path)" "unat (ac_len exec_path) \<le> length (ac_chars exec_path)"
    and v: "ac_view exec_path = ''/bin/ls''"
    by (simp_all add: exec_path_def ident_of_def ac_view_def ac_chars_def strlen_def cstr_def)
  moreover have "cmdline_text ''/bin/ls'' [''ls'', ''a b''] = ''/bin/ls'' @ CHR '' '' # CHR 0x22 # ''a b'' @ [CHR 0x22]"
    by (simp add: cmdline_text_def args_text_def escape_text_def escape_char_def cstr_def)
  ultimately show ?thesis
    using permexec_cmdline_shown [of "''safe''" exec_path "[''ls'', ''a b'']" "[]"] v
    by auto
qed

text \<open>
  Of the environment the user is shown at most 32 variables, and only such that have a name - the
  part before the first equals sign - among the allowed ones.
\<close>

theorem permexec_env_shown:
  assumes "\<forall>k. Some k \<in> set (px_allowed_env permexec) \<longrightarrow> nul_free k \<and> length k < 18446744073709551616"
    and "\<forall>kv \<in> set envp. length kv < 18446744073709551616"
  shows "length (env_filter (px_allowed_env permexec) envp []) \<le> GH_PERMEXEC_MAXALLOWEDENV \<and>
     set (env_filter (px_allowed_env permexec) envp []) \<subseteq>
       {kv \<in> set envp. env_shown (px_allowed_env permexec) kv}"
  using env_filter_bound [of "[]"] env_filter_shown [OF assms, of "[]"] by simp

theorem permexec_env_shown_witness:
  "set (env_filter (px_allowed_env exec_policy) [''HOME=/'', ''LD_PRELOAD=x''] []) \<subseteq> {''HOME=/''}"
proof -
  have "set (env_filter (px_allowed_env exec_policy) [''HOME=/'', ''LD_PRELOAD=x''] []) \<subseteq>
      {kv \<in> set [''HOME=/'', ''LD_PRELOAD=x'']. env_shown (px_allowed_env exec_policy) kv}"
    using permexec_env_shown [of exec_policy "[''HOME=/'', ''LD_PRELOAD=x'']"] by (simp add: exec_policy_def)
  moreover have "{kv \<in> set [''HOME=/'', ''LD_PRELOAD=x'']. env_shown (px_allowed_env exec_policy) kv} = {''HOME=/''}"
    by (auto simp: env_shown_def env_key_def exec_policy_def cstr_def)
  ultimately show ?thesis by simp
qed

section \<open>The policy file\<close>

text \<open>C27.
  The program permissions in the file: what is written is read back, with the same hashes in the same
  order, if all entries accept. One entry that rejects or asks makes the whole file unreadable: its
  mode is written as a string, and the parser wants an identifier.
\<close>

theorem permexec_roundtrip:
  assumes "takes_writes env" "al_total al" "fd_output fd tr = []" "exec_list (px_hashlist permexec) es" "length es < 4294967296"
  shows "\<exists>st p px0 res p' px'.
     gh_permexec_write env permexec (gh_permwriter_new fd, tr) = (GHR_OK, st) \<and>
     gh_permparser_ctorbuffer al (pw_output st) = (GHR_OK, p) \<and>
     gh_permexec_ctor al fresh = (GHR_OK, px0) \<and>
     gh_permparser_parse al [permexec_resourceparser al] (p, px0) = Some (res, (p', px')) \<and>
     (if \<forall>e \<in> set es. xe_mode e = GH_PERMEXEC_ACCEPT
      then res = GHR_OK \<and> da_items (px_hashlist px') = es
      else res = GHR_PERMPARSER_EXPECTEDIDENTIFIER)"
  by (rule exec_write_then_parse [OF assms])

theorem permexec_roundtrip_witness:
  "\<exists>st p px0 p' px'.
     gh_permexec_write exec_env exec_policy (gh_permwriter_new 3, []) = (GHR_OK, st) \<and>
     gh_permparser_ctorbuffer ex_alloc (pw_output st) = (GHR_OK, p) \<and>
     gh_permexec_ctor ex_alloc exec_policy = (GHR_OK, px0) \<and>
     gh_permparser_parse ex_alloc [permexec_resourceparser ex_alloc] (p, px0) = Some (GHR_OK, (p', px')) \<and>
     da_items (px_hashlist px') = exec_sample"
  using permexec_roundtrip [OF exec_env_writes ex_alloc_total _ exec_policy_list, of 3 "[]" exec_policy]
  by (simp add: exec_sample_def)

text \<open>C26.
  The policy file of the whole system: a system that is written and read into a new one has the same
  filesystem policy and the same remembered programs, if the programs are all accepted and the
  application has no handlers of its own.
\<close>

theorem perms_roundtrip:
  assumes "takes_writes env" "al_total al" "fd_output fd tr = []" "ps_generic perms = []"
    and "policy_ok (policy_of (da_items (ps_filesystem perms)))"
    and "exec_list (px_hashlist (ps_exec perms)) es" "\<forall>e \<in> set es. xe_mode e = GH_PERMEXEC_ACCEPT" "length es < 4294967296"
    and "gh_perms_ctor env' al prompter tr0 = (GHR_OK, (perms0, tr0'))"
  shows "\<exists>tr' err perms'.
     gh_perms_write env fd (perms, tr) = (GHR_OK, (perms, tr')) \<and>
     gh_perms_readbuffer al (fd_output fd tr') perms0 = Some (GHR_OK, (err, perms')) \<and>
     policy_of (da_items (ps_filesystem perms')) = policy_of (da_items (ps_filesystem perms)) \<and>
     da_items (px_hashlist (ps_exec perms')) = es \<and> ps_procfd perms' = ps_procfd perms0 \<and>
     ps_prompter perms' = ps_prompter perms0 \<and> ps_generic perms' = []"
proof -
  have es: "da_items (px_hashlist (ps_exec perms)) = es" "hashes_ok es" "list_all accepts es"
    using assms(6,7) by (simp_all add: exec_list_def hashes_ok_def accepts_def list_all_iff)
  have "list_all entry_valid (da_items (ps_filesystem perms))" using policy_ok_valid [OF assms(5)] .
  from perms_write_toks [OF assms(1,3) this assms(4)] obtain tr' tx where
    w: "gh_perms_write env fd (perms, tr) = (GHR_OK, (perms, tr'))" "fd_output fd tr' = tx"
    "toks tx (policy_toks (da_items (ps_filesystem perms)) @ exec_file_toks es)" "no_comment tx" by (auto simp: es)
  from perms_read_toks [OF w(3,4) assms(2) perms_ctor_fresh [OF assms(2,9)] assms(5) es(3,2) assms(8)] w(1,2)
  show ?thesis by blast
qed

definition ex_perms :: "(unit, unit) gh_perms" where
  "ex_perms =
     \<lparr>ps_procfd = exec_procfd, ps_prompter = gh_permprompter_new app_prompter,
      ps_filesystem = \<lparr>da_buffer = Some [], da_capacity = 128, da_size = 0, da_block = 1\<rparr>,
      ps_exec = exec_policy, ps_generic = []\<rparr>"

theorem perms_roundtrip_witness:
  "\<exists>tr' err (perms0 :: (unit, unit) gh_perms) perms'.
     gh_perms_write exec_env 3 (ex_perms, []) = (GHR_OK, (ex_perms, tr')) \<and>
     gh_perms_readbuffer ex_alloc (fd_output 3 tr') perms0 = Some (GHR_OK, (err, perms')) \<and>
     da_items (px_hashlist (ps_exec perms')) = exec_sample"
proof -
  obtain perms0 tr0 where c: "gh_perms_ctor exec_env ex_alloc (gh_permprompter_new app_prompter) [] =
      (GHR_OK, (perms0 :: (unit, unit) gh_perms, tr0))"
    by (simp add: gh_perms_ctor_def gh_procfd_ctor_def syscall_pair exec_env_def plain_answer_def gh_permfs_ctor_def
        gh_permexec_ctor_def gh_permexec_hashlist_ctor_def gh_dynamicarray_ctor_def gh_alloc_new_result ex_alloc_def
        permexechashlist_daopts_def permfsfilelist_daopts_def gh_permfs_entrylist_ctor_def part_step_def Let_def ghr_simps)
  have ok: "policy_ok (policy_of (da_items (ps_filesystem ex_perms)))"
    by (simp add: ex_perms_def da_items_def policy_of_def policy_ok_def)
  have x: "exec_list (px_hashlist (ps_exec ex_perms)) exec_sample"
    using exec_policy_list by (simp add: ex_perms_def)
  have "fd_output 3 [] = []" "ps_generic ex_perms = []" "\<forall>e \<in> set exec_sample. xe_mode e = GH_PERMEXEC_ACCEPT"
    "length exec_sample < 4294967296" by (simp_all add: exec_sample_def ex_perms_def)
  from perms_roundtrip [OF exec_env_writes ex_alloc_total this(1,2) ok x this(3,4) c] show ?thesis by blast
qed

text \<open>
  A policy is written whole or not at all: if writing fails, the file is empty afterwards, as long as
  it can be truncated.
\<close>

theorem perms_write_fails_empty:
  assumes "gh_perms_write env fd (perms, tr) = (res, (perms', tr'))" "res \<noteq> GHR_OK"
    and "\<And>tr. an_ret (env tr (Ftruncate fd 0)) = 0"
  shows "fd_output fd tr' = []"
  by (rule perms_write_fails [OF assms])

text \<open>A disk that takes no more than 12 bytes\<close>

definition full_env :: env where
  "full_env tr c =
     (case c of
        Write fd s \<Rightarrow> if length (fd_output fd tr) + length s \<le> 12 then plain_answer (int (length s))
                      else (plain_answer (- 1))\<lparr>an_errno := 28\<rparr>
      | _ \<Rightarrow> plain_answer 0)"

theorem perms_write_fails_empty_witness:
  "\<exists>res perms' tr'. gh_perms_write full_env 3 (ex_perms, []) = (res, (perms', tr')) \<and> res \<noteq> GHR_OK \<and>
     fd_output 3 tr' = []"
proof -
  obtain res perms' tr' where w: "gh_perms_write full_env 3 (ex_perms, []) = (res, (perms', tr'))" by (metis prod_cases3)
  have "fst (gh_perms_write full_env 3 (ex_perms, [])) \<noteq> GHR_OK"
    by (simp add: gh_perms_write_def gh_permfs_write_def gh_permwriter_beginresource_def permwriter_printindent_def
        write_or_return_def gh_permwriter_new_def ghr_seq_def full_env_def plain_answer_def syscall_pair cstr_def
        Let_def ghr_simps perms_emergency_clear_def ghr_errno_def)
  with w have "res \<noteq> GHR_OK" by simp
  with perms_write_fails_empty [OF w] w show ?thesis by (simp add: full_env_def plain_answer_def)
qed

text \<open>
  The registry of handlers: a handler that is registered is found under its identifier, unless one
  with the same identifier was there before, and all others are found as before.
\<close>

theorem perms_registry:
  assumes "gh_perms_registergeneric perms ident vtable = (GHR_OK, perms')" "registry_wf perms"
  shows "registry_wf perms' \<and>
     gh_perms_getgeneric perms' other =
       (case gh_perms_getgeneric perms other of
          Some g \<Rightarrow> Some g
        | None \<Rightarrow> if cstr ident = cstr other then gv_ctor vtable else None)"
  using register_get [OF assms(1)] register_wf [OF assms(2), of ident vtable] assms(1) by simp

definition ex_vtable :: "(nat, unit) gh_permgeneric" where
  "ex_vtable =
     \<lparr>gv_ctor = Some 7, gv_dtor = (\<lambda>g. (GHR_OK, g)), gv_match = (\<lambda>g group_id resource_id. (GHR_OK, g)),
      gv_newentry = (\<lambda>g key. (GHR_OK, (None, g))), gv_loadentry = (\<lambda>g entry field p. Some (GHR_OK, (p, g))),
      gv_save = (\<lambda>g st. (GHR_OK, (g, st)))\<rparr>"

definition ex_registry :: "(nat, unit) gh_perms" where
  "ex_registry =
     \<lparr>ps_procfd = exec_procfd, ps_prompter = gh_permprompter_new app_prompter,
      ps_filesystem = \<lparr>da_buffer = Some [], da_capacity = 128, da_size = 0, da_block = 1\<rparr>,
      ps_exec = exec_policy, ps_generic = []\<rparr>"

theorem perms_registry_witness:
  "gh_perms_getgeneric (snd (gh_perms_registergeneric ex_registry ''net'' ex_vtable)) ''net'' = Some 7"
proof -
  have r: "gh_perms_registergeneric ex_registry ''net'' ex_vtable =
      (GHR_OK, snd (gh_perms_registergeneric ex_registry ''net'' ex_vtable))"
    by (simp add: gh_perms_registergeneric_def ex_registry_def ex_vtable_def strlen_def cstr_def)
  have "registry_wf ex_registry" by (simp add: registry_wf_def ex_registry_def)
  from perms_registry [OF r this, of "''net''"] show ?thesis
    by (simp add: gh_perms_getgeneric_def ex_registry_def ex_vtable_def)
qed

end
