(* ===== verification/Traces.thy ===== *)
theory Traces
  imports Kernel
begin

text \<open>
  Which calls a piece of code makes: a trace extends another one by calls of a certain kind. Facts of
  this form are collected per function; a call of another kind in a trace then tells where it was
  made.
\<close>

definition extends :: "(call \<Rightarrow> bool) \<Rightarrow> trace \<Rightarrow> trace \<Rightarrow> bool" where
  "extends P tr tr' \<longleftrightarrow> (\<exists>new. tr' = new @ tr \<and> (\<forall>x \<in> set new. P (fst x)))"

lemma extends_refl [simp, intro]: "extends P tr tr"
  by (simp add: extends_def)

lemma extends_call [intro]: "P c \<Longrightarrow> extends P tr tr' \<Longrightarrow> extends P tr ((c, a) # tr')"
  unfolding extends_def by (metis append_Cons fst_conv set_ConsD)

lemma extends_trans: "extends P tr tr1 \<Longrightarrow> extends P tr1 tr2 \<Longrightarrow> extends P tr tr2"
  unfolding extends_def by (metis Un_iff append.assoc set_append)

lemma extends_mono: "extends P tr tr' \<Longrightarrow> (\<And>c. P c \<Longrightarrow> Q c) \<Longrightarrow> extends Q tr tr'"
  unfolding extends_def by blast

text \<open>A call that is not of the kind was made before or after.\<close>

lemma extends_new:
  assumes "extends P tr tr'" "x \<in> set tr'" "\<not> P (fst x)"
  shows "x \<in> set tr"
  using assms unfolding extends_def by auto

lemma extends_count:
  assumes "extends P tr tr'" "\<And>x. Q x \<Longrightarrow> \<not> P (fst x)"
  shows "length (filter Q tr') = length (filter Q tr)"
proof -
  obtain new where new: "tr' = new @ tr" "\<forall>x \<in> set new. P (fst x)"
    using assms(1) unfolding extends_def by blast
  then have "filter Q new = []" using assms(2) by (auto simp: filter_empty_conv)
  with new(1) show ?thesis by simp
qed

lemma extends_suffix: "extends P tr tr' \<Longrightarrow> \<exists>new. tr' = new @ tr"
  unfolding extends_def by blast

lemma extends_syscall: "P c \<Longrightarrow> extends P tr (snd (syscall env c tr))"
  by (auto simp: syscall_def Let_def)

section \<open>Partial results\<close>

text \<open>What a result satisfies when there is one, and its rules along the structure of a program\<close>

definition gives :: "'a option \<Rightarrow> ('a \<Rightarrow> bool) \<Rightarrow> bool" where
  "gives m Q \<longleftrightarrow> (\<forall>x. m = Some x \<longrightarrow> Q x)"

named_theorems gives_intros

lemma gives_Some [simp]: "gives (Some x) Q \<longleftrightarrow> Q x"
  by (simp add: gives_def)

lemma gives_None [simp]: "gives None Q"
  by (simp add: gives_def)

lemma givesD: "gives m Q \<Longrightarrow> m = Some x \<Longrightarrow> Q x"
  by (simp add: gives_def)

lemma gives_if [gives_intros]: "(b \<Longrightarrow> gives m Q) \<Longrightarrow> (\<not> b \<Longrightarrow> gives n Q) \<Longrightarrow> gives (if b then m else n) Q"
  by simp

lemma gives_prod [gives_intros]: "(\<And>a b. p = (a, b) \<Longrightarrow> gives (k a b) Q) \<Longrightarrow> gives (case p of (a, b) \<Rightarrow> k a b) Q"
  by (cases p) simp

lemma gives_prod_app [gives_intros]:
  "(\<And>a b. p = (a, b) \<Longrightarrow> gives (k a b y) Q) \<Longrightarrow> gives ((case p of (a, b) \<Rightarrow> k a b) y) Q"
  by (cases p) simp

lemma gives_option [gives_intros]:
  "(x = None \<Longrightarrow> gives m Q) \<Longrightarrow> (\<And>y. x = Some y \<Longrightarrow> gives (k y) Q) \<Longrightarrow>
   gives (case x of None \<Rightarrow> m | Some y \<Rightarrow> k y) Q"
  by (cases x) simp_all

lemma gives_use: "gives m R \<Longrightarrow> (\<And>x. R x \<Longrightarrow> gives (k x) Q) \<Longrightarrow> gives (Option.bind m k) Q"
  by (cases m) simp_all

lemma gives_bind: "(\<And>x. m = Some x \<Longrightarrow> gives (k x) Q) \<Longrightarrow> gives (Option.bind m k) Q"
  by (cases m) simp_all

lemma gives_map: "gives m R \<Longrightarrow> (\<And>x. R x \<Longrightarrow> Q (f x)) \<Longrightarrow> gives (map_option f m) Q"
  by (cases m) simp_all

lemma gives_map_any: "(\<And>x. Q (f x)) \<Longrightarrow> gives (map_option f m) Q"
  by (cases m) simp_all

lemma gives_weaken: "gives m R \<Longrightarrow> (\<And>x. R x \<Longrightarrow> Q x) \<Longrightarrow> gives m Q"
  by (simp add: gives_def)

end
