(* ===== verification/GateCalls.thy ===== *)
theory GateCalls
  imports Traces PermExecGate Perms
begin

text \<open>
  The calls that the gates of the permission system make. The contract is a locale: \<open>P\<close> holds for
  the calls that look at a descriptor, and the prompter keeps to \<open>P\<close> as well.
\<close>

section \<open>Prompters\<close>

fun prompter_calls :: "(call \<Rightarrow> bool) \<Rightarrow> gh_permprompter \<Rightarrow> bool" where
  "prompter_calls P (Prompter func fallback) \<longleftrightarrow>
     (\<forall>env req tr res resp tr'. func env req tr = Some (res, (resp, tr')) \<longrightarrow> extends P tr tr') \<and>
     (case fallback of None \<Rightarrow> True | Some p \<Rightarrow> prompter_calls P p)"

lemma prompter_request_extends:
  "prompter_calls P prompter \<Longrightarrow> gh_permprompter_request prompter env req tr = Some (res, (resp, tr')) \<Longrightarrow>
   extends P tr tr'"
proof (induction prompter arbitrary: tr res resp tr')
  case (Prompter func fallback)
  then obtain res1 resp1 tr1 where f: "func env req tr = Some (res1, (resp1, tr1))"
    by (cases fallback) (auto simp: bind_eq_Some_conv)
  then have e: "extends P tr tr1" using Prompter.prems(1) by simp
  show ?case
  proof (cases fallback)
    case None
    then show ?thesis using Prompter.prems f e by simp
  next
    case (Some p)
    have "extends P tr1 tr2" if "gh_permprompter_request p env req tr1 = Some (r, (resp2, tr2))" for r resp2 tr2
      using Prompter.IH [of p] Prompter.prems(1) Some that by simp
    then show ?thesis using Prompter.prems(2) Some f e by (auto intro: extends_trans split: if_splits)
  qed
qed

lemma app_prompter_calls: "(\<And>req. P (AskPrompter req)) \<Longrightarrow> prompter_calls P (gh_permprompter_new app_prompter)"
  by (auto simp: gh_permprompter_new_def app_prompter_def syscall_pair)

section \<open>The gates\<close>

lemma gives_response [gives_intros]:
  "gives a Q \<Longrightarrow> gives b Q \<Longrightarrow> gives c Q \<Longrightarrow> gives d Q \<Longrightarrow> (\<And>n. gives (e n) Q) \<Longrightarrow>
   gives (case r of GH_PERMRESPONSE_ACCEPT \<Rightarrow> a | GH_PERMRESPONSE_REJECT \<Rightarrow> b | GH_PERMRESPONSE_ACCEPTREMEMBER \<Rightarrow> c
          | GH_PERMRESPONSE_REJECTREMEMBER \<Rightarrow> d | OtherResponse n \<Rightarrow> e n) Q"
  by (cases r) simp_all

locale gate_calls =
  fixes P :: "call \<Rightarrow> bool"
  assumes readlink_call: "P (Readlinkat fd s n)" and fstat_call: "P (Fstat fd)"
begin

lemma readlink_extends:
  assumes "extends P tr0 tr"
  shows "gives (procfd_readlink env al procfd s tr) (\<lambda>(res, buffer, len, tr'). extends P tr0 tr')"
  unfolding procfd_readlink_def Let_def syscall_pair prod.case
  by (intro gives_intros) (auto simp: assms readlink_call)

lemma fdpathctor_extends:
  assumes "extends P tr0 tr"
  shows "gives (gh_procfd_fdpathctor env al procfd fd tr) (\<lambda>(res, path, tr'). extends P tr0 tr')"
  unfolding gh_procfd_fdpathctor_def Let_def syscall_pair prod.case
  by (intro gives_intros gives_use [OF readlink_extends])
    (auto simp: assms fstat_call)

lemma getmode_extends:
  assumes "extends P tr0 tr"
  shows "gives (gh_permfs_getmode env permfs fd path tr) (\<lambda>(res, acc, tr'). extends P tr0 tr')"
  unfolding gh_permfs_getmode_def Let_def syscall_pair prod.case
  by (intro gives_intros gives_map [where R = "\<lambda>x. True"]) (auto simp: assms fstat_call gives_def)

lemma getnodetype_extends:
  assumes "permfs_getnodetype env fd tr = (res, (t, tr'))" "extends P tr0 tr"
  shows "extends P tr0 tr'"
  using assms fstat_call
  by (auto simp: permfs_getnodetype_def gh_pathfd_stat_def syscall_pair Let_def split: if_splits option.splits)

lemma promptrequest_extends:
  assumes "prompter_calls P prompter" "extends P tr0 tr"
  shows "gives (permfs_promptrequest env al prompter safe_id path node_type hint sm cm (permfs, tr))
    (\<lambda>(res, permfs', tr'). extends P tr0 tr')"
proof -
  have p: "gives (gh_permprompter_request prompter env req tr) (\<lambda>(res, resp, tr'). extends P tr0 tr')" for req
    using prompter_request_extends [OF assms(1)] assms(2) by (auto simp: gives_def intro: extends_trans)
  show ?thesis
    unfolding permfs_promptrequest_def prod.case
    by (rule gives_bind, rule gives_prod, rule gives_if, simp add: assms,
        rule gives_use [OF p], rule gives_prod, rule gives_prod, rule gives_if, simp, rule gives_bind)
      (intro gives_intros gives_map_any; auto)
qed

lemma gatefile_extends:
  assumes "prompter_calls P prompter" "extends P tr0 tr"
  shows "gives (gh_permfs_gatefile env al prompter procfd safe_id fd m hint (permfs, tr))
    (\<lambda>(res, permfs', tr'). extends P tr0 tr')"
  unfolding gh_permfs_gatefile_def Let_def prod.case
  by (intro gives_intros gives_use [OF fdpathctor_extends] gives_use [OF getmode_extends]
      gives_map [OF promptrequest_extends [where ?tr0.0 = tr0]] gives_bind [where k = "\<lambda>p :: gh_abscanonicalpath. _ p"])
    (auto simp: assms permfs_dtor_fdpath_def Let_def dest: getnodetype_extends)

lemma perms_gatefile_extends:
  assumes "prompter_calls P (ps_prompter perms)" "extends P tr0 tr"
  shows "gives (gh_perms_gatefile env al safe_id fd m hint (perms, tr)) (\<lambda>(res, perms', tr'). extends P tr0 tr')"
  unfolding gh_perms_gatefile_def prod.case
  by (rule gives_map [OF gatefile_extends [OF assms]]) auto

lemma requestnode_extends:
  assumes "prompter_calls P prompter" "extends P tr0 tr"
  shows "gives (gh_permfs_requestnode env al prompter procfd safe_id fd sm cm hint dry (permfs, tr))
    (\<lambda>(res, would, permfs', tr'). extends P tr0 tr')"
  unfolding gh_permfs_requestnode_def Let_def prod.case
  by (intro gives_intros gives_use [OF fdpathctor_extends] gives_use [OF getmode_extends]
      gives_map [OF promptrequest_extends [where ?tr0.0 = tr0]] gives_bind [where k = "\<lambda>p :: gh_abscanonicalpath. _ p"])
    (auto simp: assms permfs_dtor_fdpath_def Let_def dest: getnodetype_extends)

lemma perms_fsrequest_extends:
  assumes "prompter_calls P (ps_prompter perms)" "extends P tr0 tr"
  shows "gives (gh_perms_fsrequest env al safe_id fd sm cm hint dry (perms, tr))
    (\<lambda>(res, would, perms', tr'). extends P tr0 tr')"
  unfolding gh_perms_fsrequest_def prod.case
  by (rule gives_map [OF requestnode_extends [OF assms]]) auto

end

end
