(* ===== verification/Ipc.thy ===== *)
theory Ipc
  imports Kernel
begin

text \<open>
  Messages over a socket pair (\<^verbatim>\<open>ipc.c\<close>): sending with a file descriptor as control data, which only
  the controlling side may do, receiving with a timeout, and the remote call of the sandboxed side.
\<close>

datatype gh_ipc_mode = GH_IPCMODE_CONTROLLER | GH_IPCMODE_CHILD

record gh_ipc =
  ip_mode :: gh_ipc_mode
  ip_sockfd :: int

abbreviation (input) EPIPE :: nat where "EPIPE \<equiv> 32"
abbreviation (input) EBADF :: nat where "EBADF \<equiv> 9"

text \<open>The IPC object and the descriptor for the peer, when they are stored\<close>

definition gh_ipc_ctor :: "env \<Rightarrow> trace \<Rightarrow> gh_result \<times> ((gh_ipc \<times> int) option \<times> trace)" where
  "gh_ipc_ctor env tr =
     (let (a, tr) = syscall env Socketpair tr in
      if an_ret a < 0 then (ghr_errno GHR_IPC_SOCKCREATEFAIL a, (None, tr))
      else (GHR_OK, (Some (\<lparr>ip_mode = GH_IPCMODE_CONTROLLER, ip_sockfd = an_ret a\<rparr>, an_peer a), tr)))"

definition gh_ipc_ctorconnect :: "int \<Rightarrow> gh_result \<times> gh_ipc" where
  "gh_ipc_ctorconnect sockfd = (GHR_OK, \<lparr>ip_mode = GH_IPCMODE_CHILD, ip_sockfd = sockfd\<rparr>)"

definition gh_ipc_dtor :: "env \<Rightarrow> gh_ipc \<Rightarrow> trace \<Rightarrow> gh_result \<times> trace" where
  "gh_ipc_dtor env ipc tr =
     (let (a, tr) = syscall env (Close (ip_sockfd ipc)) tr in
      if an_ret a < 0 then (ghr_errno GHR_IPC_CLOSEFDFAIL a, tr) else (GHR_OK, tr))"

section \<open>Control data\<close>

text \<open>The member of a message that holds a descriptor, and whether it is required\<close>

definition ipcmsg_fd :: "gh_ipcmsg \<Rightarrow> (int \<times> bool) option" where
  "ipcmsg_fd msg =
     (case msg of
        MsgNewSubjail fd \<Rightarrow> Some (fd, True)
      | MsgFunctionReturn fd _ \<Rightarrow> Some (fd, False)
      | MsgLuaFile fd _ \<Rightarrow> Some (fd, True)
      | MsgLuaCall c \<Rightarrow> Some (lc_fd c, True)
      | _ \<Rightarrow> None)"

definition ipcmsg_setfd :: "int \<Rightarrow> gh_ipcmsg \<Rightarrow> gh_ipcmsg" where
  "ipcmsg_setfd fd msg =
     (case msg of
        MsgNewSubjail _ \<Rightarrow> MsgNewSubjail fd
      | MsgFunctionReturn _ r \<Rightarrow> MsgFunctionReturn fd r
      | MsgLuaFile _ name \<Rightarrow> MsgLuaFile fd name
      | MsgLuaCall c \<Rightarrow> MsgLuaCall (c\<lparr>lc_fd := fd\<rparr>)
      | _ \<Rightarrow> msg)"

text \<open>
  \<open>control\<close> is the descriptor in the first header of the control data: of the received message, or
  of the message to be sent, for which there always is a header once the buffer is set.
\<close>

definition prepare_cmsg ::
  "gh_ipc \<Rightarrow> gh_ipcmsg \<Rightarrow> bool \<Rightarrow> int option \<Rightarrow> gh_result \<times> (gh_ipcmsg \<times> int option)" where
  "prepare_cmsg ipc msg is_send control =
     (case ipcmsg_fd msg of
        None \<Rightarrow> (GHR_OK, (msg, control))
      | Some (fd, required) \<Rightarrow>
          if \<not> is_send \<or> fd \<ge> 0 then
            (if is_send \<and> ip_mode ipc \<noteq> GH_IPCMODE_CONTROLLER then (GHR_IPC_NOCONTROLMSG, (msg, control))
             else if is_send then (GHR_OK, (msg, Some fd))
             else case control of
               None \<Rightarrow> (if required then GHR_IPC_NOCONTROLDATA else GHR_OK, (msg, control))
             | Some fd \<Rightarrow> (GHR_OK, (ipcmsg_setfd fd msg, control)))
          else (GHR_OK, (msg, control)))"

section \<open>Sending and receiving\<close>

definition gh_ipc_send :: "env \<Rightarrow> gh_ipc \<Rightarrow> gh_ipcmsg \<Rightarrow> size_t \<Rightarrow> trace \<Rightarrow> gh_result \<times> trace" where
  "gh_ipc_send env ipc msg msg_size tr =
     (let (res, msg, control) = prepare_cmsg ipc msg True None in
      if ghr_iserr res then (res, tr)
      else
        (let (a, tr) = syscall env (Sendmsg (ip_sockfd ipc) msg msg_size control) tr in
         if an_ret a < 0 then
           (if an_errno a = EPIPE then (ghr_errno GHR_IPC_PEERSHUTDOWN a, tr)
            else (ghr_errno GHR_IPC_SENDMSGFAIL a, tr))
         else (GHR_OK, tr)))"

definition basic_sanitize_msg :: "gh_ipcmsg \<Rightarrow> gh_ipcmsg" where
  "basic_sanitize_msg msg =
     (case msg of
        MsgLuaString content \<Rightarrow> MsgLuaString (content[GH_IPCMSG_LUASTRING_MAXSIZE - 1 := NUL])
      | MsgLuaResult r \<Rightarrow>
          MsgLuaResult (r\<lparr>lr_error_msg := (lr_error_msg r)[GH_IPCMSG_LUARESULT_ERRORMSGMAX - 1 := NUL]\<rparr>)
      | MsgFunctionCall c \<Rightarrow>
          (let c = c\<lparr>fc_name := (fc_name c)[GH_IPCMSG_FUNCTIONCALL_MAXNAME - 1 := NUL]\<rparr> in
           MsgFunctionCall (if fc_arg_count c > of_nat GH_IPCMSG_FUNCTIONCALL_MAXARGS
                            then c\<lparr>fc_arg_count := of_nat GH_IPCMSG_FUNCTIONCALL_MAXARGS\<rparr> else c))
      | _ \<Rightarrow> msg)"

text \<open>The message is what the buffer holds when the result is \<^verbatim>\<open>GHR_OK\<close>.\<close>

definition ipc_recvmsg :: "env \<Rightarrow> gh_ipc \<Rightarrow> trace \<Rightarrow> gh_result \<times> (gh_ipcmsg option \<times> trace)" where
  "ipc_recvmsg env ipc tr =
     (let (a, tr) = syscall env (Recvmsg (ip_sockfd ipc)) tr in
      if an_ret a < 0 then (ghr_errno GHR_IPC_RECVMSGFAIL a, (None, tr))
      else if an_ret a = 0 then (GHR_IPC_PEERSHUTDOWN, (None, tr))
      else if an_trunc a then (GHR_IPC_RECVMSGTRUNC, (None, tr))
      else if an_ret a < 4 then (GHR_IPC_RECVTOOSMALL, (None, tr))
      else
        (let msg = basic_sanitize_msg (an_msg a); (res, msg, control) = prepare_cmsg ipc msg False (an_control a) in
         if ghr_iserr res then (res, (None, tr)) else (GHR_OK, (Some msg, tr))))"

definition gh_ipc_recv :: "env \<Rightarrow> gh_ipc \<Rightarrow> int \<Rightarrow> trace \<Rightarrow> gh_result \<times> (gh_ipcmsg option \<times> trace)" where
  "gh_ipc_recv env ipc timeout_ms tr =
     (if timeout_ms \<noteq> GH_IPC_NOTIMEOUT then
        (let (a, tr) = syscall env (Poll [ip_sockfd ipc] timeout_ms) tr in
         if an_ret a < 0 then (ghr_errno GHR_IPC_POLLMSGFAIL a, (None, tr))
         else if an_ret a = 0 then (GHR_IPC_RECVMSGTIMEOUT, (None, tr))
         else ipc_recvmsg env ipc tr)
      else ipc_recvmsg env ipc tr)"

section \<open>The call of the sandboxed side\<close>

text \<open>The second component is \<^verbatim>\<open>*return_fd\<close>, when it is stored; reading more arguments than there are is undefined.\<close>

definition gh_ipc_call ::
  "env \<Rightarrow> gh_ipc \<Rightarrow> string \<Rightarrow> size_t \<Rightarrow> gh_ipcmsg_functioncall_arg list \<Rightarrow> addr \<Rightarrow> size_t \<Rightarrow> trace \<Rightarrow>
   (gh_result \<times> (int option \<times> trace)) option" where
  "gh_ipc_call env ipc name argc args return_arg return_arg_size tr =
     (let arg_count = (if argc > of_nat GH_IPCMSG_FUNCTIONCALL_MAXARGS
                       then of_nat GH_IPCMSG_FUNCTIONCALL_MAXARGS else argc);
          n = unat arg_count in
      if length args < n then None
      else
        (let funccall = \<lparr>fc_name = char_array GH_IPCMSG_FUNCTIONCALL_MAXNAME
                                     (strncpy_term GH_IPCMSG_FUNCTIONCALL_MAXNAME name),
                         fc_return_arg = \<lparr>fa_addr = return_arg, fa_size = return_arg_size\<rparr>,
                         fc_arg_count = arg_count,
                         fc_args = take n args @
                           replicate (GH_IPCMSG_FUNCTIONCALL_MAXARGS - n) \<lparr>fa_addr = 0, fa_size = 0\<rparr>\<rparr>;
             msg = MsgFunctionCall funccall;
             (res, tr) = gh_ipc_send env ipc msg (ipcmsg_sizeof msg) tr in
         if ghr_iserr res then Some (res, (None, tr))
         else
           (let (res, msg, tr) = gh_ipc_recv env ipc GH_IPC_NOTIMEOUT tr in
            if ghr_iserr res then Some (res, (None, tr))
            else case msg of
              Some (MsgFunctionReturn fd result) \<Rightarrow> Some (result, (Some (if fd \<ge> 0 then fd else - 1), tr))
            | _ \<Rightarrow> Some (GHR_JAIL_NORETURN, (None, tr)))))"

section \<open>What crosses the socket\<close>

lemma strlen_terminated: "length s = n \<Longrightarrow> 0 < n \<Longrightarrow> strlen (s[n - 1 := NUL]) < n"
proof -
  assume a: "length s = n" "0 < n"
  then have "s[n - 1 := NUL] = take (n - 1) s @ [NUL]"
    by (metis One_nat_def Suc_pred diff_less drop_all le_refl less_numeral_extra(1) upd_conv_take_nth_drop)
  moreover have "length (takeWhile (\<lambda>c. c \<noteq> NUL) (take (n - 1) s @ [NUL])) \<le> length (take (n - 1) s)"
    by (subst takeWhile_tail) (simp_all add: length_takeWhile_le del: length_take)
  ultimately show ?thesis using a by (simp add: strlen_def cstr_def)
qed

lemma sanitize_shape: "ipcmsg_shape msg \<Longrightarrow> ipcmsg_shape (basic_sanitize_msg msg)"
  by (cases msg) (auto simp: ipcmsg_shape_def basic_sanitize_msg_def Let_def)

lemma setfd_shape [simp]: "ipcmsg_shape (ipcmsg_setfd fd msg) = ipcmsg_shape msg"
  by (cases msg; simp add: ipcmsg_shape_def ipcmsg_setfd_def)

text \<open>Messages arrive with the shape of their structures.\<close>

definition shapes_env :: "env \<Rightarrow> bool" where
  "shapes_env env \<longleftrightarrow> (\<forall>tr fd. ipcmsg_shape (an_msg (env tr (Recvmsg fd))))"

text \<open>Only the controlling side sends a descriptor.\<close>

lemma send_call:
  assumes "gh_ipc_send env ipc msg n tr = (res, tr')"
  shows "tr' = tr \<and> res = GHR_IPC_NOCONTROLMSG \<or>
     (\<exists>control. tr' = (Sendmsg (ip_sockfd ipc) msg n control, env tr (Sendmsg (ip_sockfd ipc) msg n control)) # tr \<and>
       (\<forall>fd. control = Some fd \<longrightarrow>
          ip_mode ipc = GH_IPCMODE_CONTROLLER \<and> fd \<ge> 0 \<and> (\<exists>required. ipcmsg_fd msg = Some (fd, required))))"
  using assms
  by (auto simp: gh_ipc_send_def prepare_cmsg_def syscall_pair Let_def ghr_simps split: if_splits option.splits)

lemma send_ok:
  assumes "gh_ipc_send env ipc msg n tr = (GHR_OK, tr')"
  shows "\<exists>control. tr' = (Sendmsg (ip_sockfd ipc) msg n control, env tr (Sendmsg (ip_sockfd ipc) msg n control)) # tr \<and>
     0 \<le> an_ret (env tr (Sendmsg (ip_sockfd ipc) msg n control))"
  using assms
  by (auto simp: gh_ipc_send_def prepare_cmsg_def syscall_pair Let_def ghr_simps ghr_errno_def
      split: if_splits option.splits)

end
