(* ===== verification/Rpc.thy ===== *)
theory Rpc
  imports DynamicArray Ipc
begin

text \<open>
  Remote procedure calls (\<^verbatim>\<open>rpc.c\<close>): the functions the host registers, the frame that is built from
  a message of the sandboxed process, its execution, and the response. \<open>'f\<close> is the type of the
  function pointers.
\<close>

section \<open>Functions and frames\<close>

datatype gh_rpcfunction_threadsafety =
  GH_RPCFUNCTION_THREADUNSAFELOCAL | GH_RPCFUNCTION_THREADUNSAFEGLOBAL | GH_RPCFUNCTION_THREADSAFE

record 'f gh_rpcfunction =
  rf_thread_safety :: gh_rpcfunction_threadsafety
  rf_name :: string
  rf_func :: 'f

record 'f gh_rpc =
  rp_functions :: "'f gh_rpcfunction gh_dynamicarray"
  rp_thread_refcount :: size_t

text \<open>
  The pointers of a frame point into one block of memory, \<open>fr_memory\<close>: the buffer of the frame, or
  the memory of the caller of \<^verbatim>\<open>gh_rpc_newframe\<close>. They are offsets, \<open>None\<close> is NULL.
\<close>

record gh_rpcarg =
  ra_ptr :: "size_t option"
  ra_size :: size_t

record gh_rpcframe =
  fr_function :: "da_ptr option"
  fr_fd :: int
  fr_result :: gh_result
  fr_arg_count :: size_t
  fr_args :: "gh_rpcarg list"
  fr_return_arg :: gh_rpcarg
  fr_buffer :: bool
  fr_buffer_size :: size_t
  fr_memory :: string

text \<open>What the calls use of the thread: its process, its socket, the frame limit of its sandbox\<close>

record gh_rpcthread =
  rt_pid :: int
  rt_ipc :: gh_ipc
  rt_frame_limit :: size_t

abbreviation (input) GH_RPCFUNCTION_MAXNAME :: nat where "GH_RPCFUNCTION_MAXNAME \<equiv> 256"
abbreviation (input) GH_SANDBOX_NOLIMIT :: size_t where "GH_SANDBOX_NOLIMIT \<equiv> 0"

definition rpcarg_null :: gh_rpcarg where
  "rpcarg_null = \<lparr>ra_ptr = None, ra_size = 0\<rparr>"

section \<open>Registration\<close>

text \<open>\<open>destroy\<close> answers for \<^verbatim>\<open>pthread_mutex_destroy\<close> of the mutex of a function.\<close>

definition rpc_dtorelement_func ::
  "('f gh_rpcfunction \<Rightarrow> nat) \<Rightarrow> 'f gh_rpcfunction \<Rightarrow> gh_result \<times> 'f gh_rpcfunction" where
  "rpc_dtorelement_func destroy func =
     (if rf_thread_safety func = GH_RPCFUNCTION_THREADUNSAFELOCAL \<and> destroy func \<noteq> 0
      then (ghr_errnoval GHR_RPC_MUTEXDESTROY (destroy func), func) else (GHR_OK, func))"

definition rpc_daopts :: "('f gh_rpcfunction \<Rightarrow> nat) \<Rightarrow> 'f gh_rpcfunction gh_dynamicarrayoptions" where
  "rpc_daopts destroy =
     \<lparr>initial_capacity = 128, max_capacity = 256, element_size = 312,
      dtorelement_func = Some (rpc_dtorelement_func destroy)\<rparr>"

definition gh_rpc_incthreadrefcount :: "'f gh_rpc \<Rightarrow> 'f gh_rpc" where
  "gh_rpc_incthreadrefcount rpc = rpc\<lparr>rp_thread_refcount := rp_thread_refcount rpc + 1\<rparr>"

definition gh_rpc_decthreadrefcount :: "'f gh_rpc \<Rightarrow> 'f gh_rpc" where
  "gh_rpc_decthreadrefcount rpc = rpc\<lparr>rp_thread_refcount := rp_thread_refcount rpc - 1\<rparr>"

definition gh_rpc_isinuse :: "'f gh_rpc \<Rightarrow> bool" where
  "gh_rpc_isinuse rpc \<longleftrightarrow> rp_thread_refcount rpc > 0"

definition gh_rpc_ctor ::
  "env \<Rightarrow> gh_alloc \<Rightarrow> ('f gh_rpcfunction \<Rightarrow> nat) \<Rightarrow> 'f gh_rpc \<Rightarrow> trace \<Rightarrow> gh_result \<times> ('f gh_rpc \<times> trace)" where
  "gh_rpc_ctor env al destroy rpc tr =
     (let rpc = rpc\<lparr>rp_thread_refcount := 0\<rparr>; (a, tr) = syscall env (Mutex MutexInit None) tr in
      if an_ret a \<noteq> 0 then (ghr_errnoval GHR_RPC_GLOBALMUTEXINIT (nat (an_ret a)), (rpc, tr))
      else
        (let (res, da) = gh_dynamicarray_ctor al (rpc_daopts destroy) (rp_functions rpc) in
         (res, (rpc\<lparr>rp_functions := da\<rparr>, tr))))"

definition gh_rpc_dtor ::
  "env \<Rightarrow> gh_alloc \<Rightarrow> ('f gh_rpcfunction \<Rightarrow> nat) \<Rightarrow> 'f gh_rpc \<Rightarrow> trace \<Rightarrow>
   (gh_result \<times> ('f gh_rpc \<times> trace)) option" where
  "gh_rpc_dtor env al destroy rpc tr =
     (let (a, tr) = syscall env (Mutex MutexDestroy None) tr in
      if an_ret a \<noteq> 0 then Some (ghr_errnoval GHR_RPC_GLOBALMUTEXDESTROY (nat (an_ret a)), (rpc, tr))
      else
        map_option (\<lambda>(res, da). (res, (rpc\<lparr>rp_functions := da\<rparr>, tr)))
          (gh_dynamicarray_dtor al (rpc_daopts destroy) (rp_functions rpc)))"

definition gh_rpc_register ::
  "env \<Rightarrow> gh_alloc \<Rightarrow> ('f gh_rpcfunction \<Rightarrow> nat) \<Rightarrow> 'f gh_rpc \<Rightarrow> string \<Rightarrow> 'f \<Rightarrow> gh_rpcfunction_threadsafety \<Rightarrow>
   trace \<Rightarrow> (gh_result \<times> ('f gh_rpc \<times> trace)) option" where
  "gh_rpc_register env al destroy rpc name func thread_safety tr =
     (if gh_rpc_isinuse rpc then Some (GHR_RPC_INUSE, (rpc, tr))
      else
        Option.bind
          (gh_dynamicarray_append al (rpc_daopts destroy) (rp_functions rpc)
            \<lparr>rf_thread_safety = thread_safety, rf_name = strncpy_term GH_RPCFUNCTION_MAXNAME name, rf_func = func\<rparr>)
          (\<lambda>(res, da).
        let rpc = rpc\<lparr>rp_functions := da\<rparr> in
        if ghr_iserr res then Some (res, (rpc, tr))
        else if thread_safety = GH_RPCFUNCTION_THREADUNSAFELOCAL then
          (let (a, tr) = syscall env (Mutex MutexInit (Some (unat (da_size da) - 1))) tr in
           if an_ret a \<noteq> 0 then Some (ghr_errnoval GHR_RPC_MUTEXINIT (nat (an_ret a)), (rpc, tr))
           else Some (GHR_OK, (rpc, tr)))
        else Some (GHR_OK, (rpc, tr))))"

section \<open>Frames\<close>

text \<open>
  The search of \<^verbatim>\<open>gh_rpc_newframe\<close>: \<open>func\<close> is the last entry that was looked at, so it is the last
  function when none has the name.
\<close>

function newframe_find ::
  "'f gh_rpcfunction gh_dynamicarray \<Rightarrow> string \<Rightarrow> nat \<Rightarrow> da_ptr option \<Rightarrow> da_ptr option option" where
  "newframe_find da name i func =
     (if i < unat (da_size da) then
        Option.bind (da_deref da (da_block da, i)) (\<lambda>entry.
        if strcmp_eq (rf_name entry) name then Some (Some (da_block da, i))
        else newframe_find da name (Suc i) (Some (da_block da, i)))
      else Some func)"
  by pat_completeness auto
termination
  by (relation "measure (\<lambda>(da, name, i, func). unat (da_size da) - i)") auto

text \<open>The search of \<^verbatim>\<open>gh_rpc_newframefrommsg\<close>, which resets the pointer\<close>

function msgframe_find :: "'f gh_rpcfunction gh_dynamicarray \<Rightarrow> string \<Rightarrow> nat \<Rightarrow> da_ptr option option" where
  "msgframe_find da name i =
     (if i < unat (da_size da) then
        Option.bind (da_deref da (da_block da, i)) (\<lambda>entry.
        if strcmp_eq (rf_name entry) name then Some (Some (da_block da, i))
        else msgframe_find da name (Suc i))
      else Some None)"
  by pat_completeness auto
termination
  by (relation "measure (\<lambda>(da, name, i). unat (da_size da) - i)") auto

declare newframe_find.simps [simp del] msgframe_find.simps [simp del]

text \<open>\<open>mem\<close> is the memory that the pointers of the arguments point into.\<close>

definition gh_rpc_newframe ::
  "'f gh_rpc \<Rightarrow> string \<Rightarrow> size_t \<Rightarrow> gh_rpcarg list \<Rightarrow> gh_rpcarg \<Rightarrow> string \<Rightarrow> (gh_result \<times> gh_rpcframe option) option" where
  "gh_rpc_newframe rpc name arg_count args return_arg mem =
     Option.bind (newframe_find (rp_functions rpc) name 0 None) (\<lambda>func.
     case func of
       None \<Rightarrow> Some (GHR_RPC_MISSINGFUNC, None)
     | Some f \<Rightarrow>
         if length args < GH_IPCMSG_FUNCTIONCALL_MAXARGS then None
         else
           Some (GHR_OK, Some
             \<lparr>fr_function = Some f, fr_fd = - 1, fr_result = GHR_RPC_UNEXECUTED, fr_arg_count = arg_count,
              fr_args = take GH_IPCMSG_FUNCTIONCALL_MAXARGS args, fr_return_arg = return_arg,
              fr_buffer = False, fr_buffer_size = 0, fr_memory = mem\<rparr>))"

text \<open>The sizes of the first arguments are added up; the sum wraps.\<close>

definition frame_args_size :: "gh_ipcmsg_functioncall_arg list \<Rightarrow> size_t" where
  "frame_args_size args = foldl (\<lambda>n arg. n + fa_size arg) 0 args"

text \<open>The pointers that the arguments get, one behind the other from \<open>offset\<close> on\<close>

fun frame_place :: "size_t \<Rightarrow> gh_ipcmsg_functioncall_arg list \<Rightarrow> gh_rpcarg list" where
  "frame_place offset [] = []"
| "frame_place offset (arg # args) =
     \<lparr>ra_ptr = Some offset, ra_size = fa_size arg\<rparr> # frame_place (offset + fa_size arg) args"

definition return_wanted :: "gh_ipcmsg_functioncall \<Rightarrow> bool" where
  "return_wanted msg \<longleftrightarrow> fa_addr (fc_return_arg msg) \<noteq> 0 \<and> fa_size (fc_return_arg msg) \<noteq> 0"

text \<open>The bytes that an I/O vector with these arguments has\<close>

definition args_total :: "gh_ipcmsg_functioncall_arg list \<Rightarrow> nat" where
  "args_total args = sum_list (map (\<lambda>a. unat (fa_size a)) args)"

text \<open>
  The system copies as many bytes as its answer says, and no more than either vector has; the local
  one is as long as the buffer less the size of the return value. Bytes behind the buffer are not the
  frame's: then the result is \<open>None\<close>. The bytes of the buffer that the system does not fill are
  whatever the answer says. After a failed copy \<^verbatim>\<open>gh_alloc_new\<close> is called once more, with the pointer
  to the buffer.
\<close>

definition readv_copied :: "answer \<Rightarrow> size_t \<Rightarrow> gh_ipcmsg_functioncall_arg list \<Rightarrow> nat" where
  "readv_copied a n args = min (nat (an_ret a)) (min (unat n) (args_total args))"

definition gh_rpc_newframefrommsg ::
  "env \<Rightarrow> gh_alloc \<Rightarrow> 'f gh_rpc \<Rightarrow> gh_rpcthread \<Rightarrow> gh_ipcmsg_functioncall \<Rightarrow> trace \<Rightarrow>
   (gh_result \<times> (gh_rpcframe option \<times> trace)) option" where
  "gh_rpc_newframefrommsg env al rpc thread msg tr =
     Option.bind (msgframe_find (rp_functions rpc) (fc_name msg) 0) (\<lambda>func.
     case func of
       None \<Rightarrow> Some (GHR_RPC_MISSINGFUNC, (None, tr))
     | Some f \<Rightarrow>
         (let arg_count = (if fc_arg_count msg > of_nat GH_IPCMSG_FUNCTIONCALL_MAXARGS then 16 else fc_arg_count msg);
              args = take (unat arg_count) (fc_args msg);
              args_size = frame_args_size args;
              return_size = fa_size (fc_return_arg msg);
              frame_buffer_size = (if return_wanted msg then args_size + return_size else args_size);
              frame =
                \<lparr>fr_function = Some f, fr_fd = - 1, fr_result = GHR_RPC_UNEXECUTED, fr_arg_count = arg_count,
                 fr_args = replicate GH_IPCMSG_FUNCTIONCALL_MAXARGS rpcarg_null, fr_return_arg = rpcarg_null,
                 fr_buffer = False, fr_buffer_size = 0, fr_memory = []\<rparr> in
          if length (fc_args msg) < unat arg_count then None
          else if rt_frame_limit thread \<noteq> GH_SANDBOX_NOLIMIT \<and> frame_buffer_size > rt_frame_limit thread
          then Some (GHR_RPC_LARGEFRAME, (None, tr))
          else if frame_buffer_size > 0 then
            (let (res, blk) = gh_alloc_new al () (Some None) frame_buffer_size in
             if ghr_iserr res then Some (res, (None, tr))
             else
               (let placed = frame_place 0 args;
                    frame = frame\<lparr>
                      fr_args := placed @ replicate (GH_IPCMSG_FUNCTIONCALL_MAXARGS - length placed) rpcarg_null,
                      fr_return_arg := (if return_wanted msg
                                        then \<lparr>ra_ptr = Some args_size, ra_size = return_size\<rparr> else rpcarg_null),
                      fr_buffer := True, fr_buffer_size := frame_buffer_size\<rparr>;
                    (a, tr) = syscall env (VmReadv (rt_pid thread) (frame_buffer_size - return_size) args) tr in
                if an_ret a < 0 then
                  (let inner_res = fst (gh_alloc_new al () (Some blk) frame_buffer_size) in
                   Some (if ghr_iserr inner_res then inner_res else ghr_errno GHR_RPC_ARGCOPYFAIL a, (None, tr)))
                else if readv_copied a (frame_buffer_size - return_size) args > unat frame_buffer_size then None
                else
                  Some (GHR_OK, (Some (frame\<lparr>fr_memory := take (unat frame_buffer_size)
                          (an_data a @ replicate (unat frame_buffer_size) NUL)\<rparr>), tr))))
          else Some (GHR_OK, (Some frame, tr))))"

section \<open>The memory of a frame\<close>

definition mem_load :: "string \<Rightarrow> size_t \<Rightarrow> nat \<Rightarrow> string option" where
  "mem_load mem ptr n = (if unat ptr + n \<le> length mem then Some (take n (drop (unat ptr) mem)) else None)"

definition mem_store :: "string \<Rightarrow> size_t \<Rightarrow> string \<Rightarrow> string option" where
  "mem_store mem ptr s =
     (if unat ptr + length s \<le> length mem then Some (cells_write mem (unat ptr) s) else None)"

definition frame_store :: "gh_rpcframe \<Rightarrow> size_t option \<Rightarrow> string \<Rightarrow> gh_rpcframe option" where
  "frame_store frame ptr s =
     Option.bind ptr (\<lambda>p. map_option (\<lambda>mem. frame\<lparr>fr_memory := mem\<rparr>) (mem_store (fr_memory frame) p s))"

section \<open>Execution\<close>

definition rpc_function :: "'f gh_rpc \<Rightarrow> gh_rpcframe \<Rightarrow> 'f gh_rpcfunction option" where
  "rpc_function rpc frame = Option.bind (fr_function frame) (da_deref (rp_functions rpc))"

text \<open>The mutex that the thread safety of a function asks for, with the error code of the operation\<close>

definition rpc_mutex ::
  "env \<Rightarrow> mutex_op \<Rightarrow> gh_result \<Rightarrow> gh_result \<Rightarrow> 'f gh_rpcfunction \<Rightarrow> da_ptr \<Rightarrow> trace \<Rightarrow> gh_result \<times> trace" where
  "rpc_mutex env op local_err global_err func ptr tr =
     (case rf_thread_safety func of
        GH_RPCFUNCTION_THREADUNSAFELOCAL \<Rightarrow>
          (let (a, tr) = syscall env (Mutex op (Some (snd ptr))) tr in
           (if an_ret a \<noteq> 0 then ghr_errnoval local_err (nat (an_ret a)) else GHR_OK, tr))
      | GH_RPCFUNCTION_THREADUNSAFEGLOBAL \<Rightarrow>
          (let (a, tr) = syscall env (Mutex op None) tr in
           (if an_ret a \<noteq> 0 then ghr_errnoval global_err (nat (an_ret a)) else GHR_OK, tr))
      | GH_RPCFUNCTION_THREADSAFE \<Rightarrow> (GHR_OK, tr))"

text \<open>
  \<open>run\<close> is the call through the function pointer: it gets the frame and the state \<open>'s\<close> the callbacks
  work on, and may make calls of its own.
\<close>

type_synonym ('f, 's) rpc_run = "'f \<Rightarrow> gh_rpcframe \<times> 's \<times> trace \<Rightarrow> (gh_rpcframe \<times> 's \<times> trace) option"

definition gh_rpc_callframe ::
  "env \<Rightarrow> ('f, 's) rpc_run \<Rightarrow> 'f gh_rpc \<Rightarrow> gh_rpcframe \<times> 's \<times> trace \<Rightarrow>
   (gh_result \<times> (gh_rpcframe \<times> 's \<times> trace)) option" where
  "gh_rpc_callframe env run rpc st =
     (case st of (frame, s, tr) \<Rightarrow>
      case fr_function frame of
        None \<Rightarrow> Some (GHR_RPC_FRAMEDISPOSED, (frame, s, tr))
      | Some ptr \<Rightarrow>
          if fr_result frame \<noteq> GHR_RPC_UNEXECUTED then Some (GHR_RPC_EXECUTED, (frame, s, tr))
          else
            Option.bind
              (if ra_size (fr_return_arg frame) \<noteq> 0 \<and> ra_ptr (fr_return_arg frame) \<noteq> None
               then frame_store frame (ra_ptr (fr_return_arg frame)) (replicate (unat (ra_size (fr_return_arg frame))) NUL)
               else Some frame) (\<lambda>frame.
            Option.bind (da_deref (rp_functions rpc) ptr) (\<lambda>func.
            let (res, tr) = rpc_mutex env MutexLock GHR_RPC_MUTEXLOCK GHR_RPC_GLOBALMUTEXLOCK func ptr tr in
            if ghr_iserr res then Some (res, (frame, s, tr))
            else
              map_option (\<lambda>(frame, s, tr).
                  let (res, tr) = rpc_mutex env MutexUnlock GHR_RPC_MUTEXUNLOCK GHR_RPC_GLOBALMUTEXUNLOCK func ptr tr in
                  (res, (frame, s, tr)))
                (run (rf_func func) (frame\<lparr>fr_result := GHR_OK\<rparr>, s, tr)))))"

section \<open>Responses\<close>

text \<open>The message that returns a result and a descriptor\<close>

definition send_return :: "env \<Rightarrow> gh_ipc \<Rightarrow> int \<Rightarrow> gh_result \<Rightarrow> trace \<Rightarrow> gh_result \<times> trace" where
  "send_return env ipc fd result tr =
     (let msg = MsgFunctionReturn fd result in gh_ipc_send env ipc msg (ipcmsg_sizeof msg) tr)"

text \<open>The return value is copied to the memory of the calling process.\<close>

definition rpc_copyreturn ::
  "env \<Rightarrow> gh_rpcthread \<Rightarrow> gh_ipcmsg_functioncall \<Rightarrow> gh_rpcframe \<Rightarrow> trace \<Rightarrow> (gh_result \<times> trace) option" where
  "rpc_copyreturn env thread msg frame tr =
     (if ghr_isok (fr_result frame) \<and> ra_size (fr_return_arg frame) \<noteq> 0 \<and> ra_ptr (fr_return_arg frame) \<noteq> None then
        Option.bind (ra_ptr (fr_return_arg frame)) (\<lambda>ptr.
        map_option (\<lambda>bytes.
            let (a, tr) = syscall env (VmWritev (rt_pid thread) bytes (fa_addr (fc_return_arg msg))) tr in
            (if an_ret a < 0 then ghr_errno GHR_RPC_RETURNCOPYFAIL a else GHR_OK, tr))
          (mem_load (fr_memory frame) ptr (unat (ra_size (fr_return_arg frame)))))
      else Some (GHR_OK, tr))"

text \<open>The message is sent again without the descriptor when the descriptor was the reason it failed.\<close>

definition rpc_sendreturn ::
  "env \<Rightarrow> gh_rpcthread \<Rightarrow> gh_rpcframe \<Rightarrow> trace \<Rightarrow> gh_result \<times> (gh_rpcframe \<times> trace)" where
  "rpc_sendreturn env thread frame tr =
     (let fd = (if \<not> ghr_isok (fr_result frame) then - 1 else fr_fd frame);
          (res, tr) = send_return env (rt_ipc thread) fd (fr_result frame) tr in
      if ghr_iserr res \<and> ghr_is res GHR_IPC_SENDMSGFAIL \<and> ghr_frag_errno res = EBADF then
        (let frame = frame\<lparr>fr_fd := - 1\<rparr>; (res, tr) = send_return env (rt_ipc thread) (- 1) GHR_RPC_INVALIDFD tr in
         (res, (frame, tr)))
      else (res, (frame, tr)))"

definition gh_rpc_respondtomsg ::
  "env \<Rightarrow> gh_rpcthread \<Rightarrow> gh_ipcmsg_functioncall \<Rightarrow> gh_rpcframe \<Rightarrow> trace \<Rightarrow>
   (gh_result \<times> (gh_rpcframe \<times> trace)) option" where
  "gh_rpc_respondtomsg env thread msg frame tr =
     (if fr_function frame = None then Some (GHR_RPC_FRAMEDISPOSED, (frame, tr))
      else if fr_result frame = GHR_RPC_UNEXECUTED then Some (GHR_RPC_UNEXECUTED, (frame, tr))
      else
        map_option (\<lambda>(res, tr).
            if ghr_iserr res then (res, (frame, tr))
            else
              (let (res, frame, tr) = rpc_sendreturn env thread frame tr in
               if ghr_iserr res then (res, (frame, tr))
               else if fr_fd frame \<ge> 0 then
                 (let (a, tr) = syscall env (Close (fr_fd frame)) tr in
                  (if an_ret a < 0 then ghr_errno GHR_RPC_CLOSEFD a else GHR_OK, (frame, tr)))
               else (GHR_OK, (frame, tr))))
          (rpc_copyreturn env thread msg frame tr))"

definition gh_rpc_respondmissing :: "env \<Rightarrow> gh_ipc \<Rightarrow> trace \<Rightarrow> gh_result \<times> trace" where
  "gh_rpc_respondmissing env ipc tr = send_return env ipc (- 1) GHR_RPC_MISSINGFUNC tr"

definition gh_rpc_disposeframe :: "gh_alloc \<Rightarrow> gh_rpcframe \<Rightarrow> gh_result \<times> gh_rpcframe" where
  "gh_rpc_disposeframe al frame =
     (if fr_buffer frame then
        (let res = fst (gh_alloc_delete al (Some (Some ())) (fr_buffer_size frame)) in
         if ghr_iserr res then (res, frame) else (GHR_OK, frame\<lparr>fr_function := None\<rparr>))
      else (GHR_OK, frame\<lparr>fr_function := None\<rparr>))"

section \<open>Access to arguments\<close>

text \<open>
  \<open>Some ptr\<close> is the stored pointer and the result true; \<open>Some None\<close> stores NULL or nothing and is
  false. The size is compared before the index: an index of 16 and more reads behind the array.
\<close>

definition gh_rpcframe_argv :: "gh_rpcframe \<Rightarrow> nat \<Rightarrow> size_t \<Rightarrow> (bool \<times> size_t option) option" where
  "gh_rpcframe_argv frame index n =
     (if index \<ge> length (fr_args frame) then None
      else if ra_size (fr_args frame ! index) \<noteq> n then Some (False, None)
      else if of_nat index \<ge> fr_arg_count frame then Some (False, None)
      else Some (True, ra_ptr (fr_args frame ! index)))"

definition gh_rpcframe_argbufv :: "gh_rpcframe \<Rightarrow> nat \<Rightarrow> (bool \<times> size_t option \<times> size_t) option" where
  "gh_rpcframe_argbufv frame index =
     (if of_nat index \<ge> fr_arg_count frame then Some (False, None, 0)
      else if index \<ge> length (fr_args frame) then None
      else Some (True, ra_ptr (fr_args frame ! index), ra_size (fr_args frame ! index)))"

text \<open>\<open>bytes\<close> is the value that \<^verbatim>\<open>ptr\<close> and \<^verbatim>\<open>size\<close> describe.\<close>

definition gh_rpcframe_setreturnv :: "gh_rpcframe \<Rightarrow> string \<Rightarrow> (bool \<times> gh_rpcframe) option" where
  "gh_rpcframe_setreturnv frame bytes =
     (if ra_size (fr_return_arg frame) = 0 then Some (False, frame)
      else if ra_ptr (fr_return_arg frame) = None then Some (False, frame)
      else if unat (ra_size (fr_return_arg frame)) < length bytes
      then Some (False, frame\<lparr>fr_result := GHR_RPC_RETURNSIZE\<rparr>)
      else map_option (\<lambda>frame. (True, frame)) (frame_store frame (ra_ptr (fr_return_arg frame)) bytes))"

definition gh_rpcframe_setresult :: "gh_rpcframe \<Rightarrow> gh_result \<Rightarrow> gh_rpcframe" where
  "gh_rpcframe_setresult frame result = frame\<lparr>fr_result := result\<rparr>"

definition gh_rpcframe_setreturnfd :: "gh_rpcframe \<Rightarrow> int \<Rightarrow> gh_rpcframe" where
  "gh_rpcframe_setreturnfd frame fd = frame\<lparr>fr_fd := fd\<rparr>"

end
