(* ===== verification/Fdmem.thy ===== *)
theory Fdmem
  imports Kernel
begin

text \<open>
  Memory shared with another process through an anonymous file (\<^verbatim>\<open>fdmem.c\<close>): a mapping with a bump
  allocator, and the translation between addresses of the mapping and the offsets that both
  processes understand. Pointers are 64 bit addresses, so the pointer arithmetic is the one of the
  machine.
\<close>

record gh_fdmem =
  fm_data :: addr
  fm_occupied :: size_t
  fm_size :: size_t
  fm_fd :: int

abbreviation (input) GH_IPCFDMEM_INITIALCAPACITY :: size_t where "GH_IPCFDMEM_INITIALCAPACITY \<equiv> 1024"
abbreviation (input) PROT_READ :: c_int where "PROT_READ \<equiv> 1"
abbreviation (input) PROT_WRITE :: c_int where "PROT_WRITE \<equiv> 2"
abbreviation (input) SEEK_END' :: int where "SEEK_END' \<equiv> 2"

section \<open>Construction\<close>

text \<open>\<^verbatim>\<open>MAP_FAILED\<close> is the answer -1; other answers of \<^verbatim>\<open>mmap\<close> are addresses.\<close>

definition map_failed :: "answer \<Rightarrow> bool" where
  "map_failed a \<longleftrightarrow> an_ret a = - 1"

definition ipcfdmem_ctorfdo ::
  "env \<Rightarrow> gh_fdmem \<Rightarrow> int \<Rightarrow> c_int \<Rightarrow> size_t \<Rightarrow> size_t \<Rightarrow> trace \<Rightarrow> gh_result \<times> (gh_fdmem \<times> trace)" where
  "ipcfdmem_ctorfdo env fdmem fd prot n occupied tr =
     (let (a, tr) = syscall env (MmapFd fd prot n) tr in
      if map_failed a then (ghr_errno GHR_IPCFDMEM_MAPFAIL a, (fdmem, tr))
      else (GHR_OK, (\<lparr>fm_data = word_of_int (an_ret a), fm_occupied = occupied, fm_size = n, fm_fd = fd\<rparr>, tr)))"

definition gh_fdmem_ctorfdo ::
  "env \<Rightarrow> gh_fdmem \<Rightarrow> int \<Rightarrow> size_t \<Rightarrow> trace \<Rightarrow> gh_result \<times> (gh_fdmem \<times> trace)" where
  "gh_fdmem_ctorfdo env fdmem fd occupied tr =
     (let (a, tr) = syscall env (Lseek fd 0 SEEK_END') tr in
      if an_ret a < 0 then (ghr_errno GHR_IPCFDMEM_GETLEN a, (fdmem, tr))
      else ipcfdmem_ctorfdo env fdmem fd (PROT_READ OR PROT_WRITE) (word_of_int (an_ret a)) occupied tr)"

definition gh_fdmem_ctorfd ::
  "env \<Rightarrow> gh_fdmem \<Rightarrow> int \<Rightarrow> trace \<Rightarrow> gh_result \<times> (gh_fdmem \<times> trace)" where
  "gh_fdmem_ctorfd env fdmem fd tr =
     (let (a, tr) = syscall env (Lseek fd 0 SEEK_END') tr in
      if an_ret a < 0 then (ghr_errno GHR_IPCFDMEM_GETLEN a, (fdmem, tr))
      else (let n = word_of_int (an_ret a) in ipcfdmem_ctorfdo env fdmem fd (PROT_READ OR PROT_WRITE) n n tr))"

definition gh_fdmem_ctor :: "env \<Rightarrow> gh_fdmem \<Rightarrow> trace \<Rightarrow> gh_result \<times> (gh_fdmem \<times> trace)" where
  "gh_fdmem_ctor env fdmem tr =
     (let (f, tr) = syscall env (MemfdCreate ''ipcfdmem'') tr in
      if an_ret f < 0 then (ghr_errno GHR_IPCFDMEM_OPENMEMFD f, (fdmem, tr))
      else
        (let (a, tr) = syscall env (Ftruncate (an_ret f) (uint GH_IPCFDMEM_INITIALCAPACITY)) tr in
         if an_ret a < 0 then (ghr_errno GHR_IPCFDMEM_TRUNCATE a, (fdmem, tr))
         else
           ipcfdmem_ctorfdo env fdmem (an_ret f) (PROT_READ OR PROT_WRITE) GH_IPCFDMEM_INITIALCAPACITY 0 tr))"

section \<open>Allocation\<close>

text \<open>The address that \<^verbatim>\<open>mremap\<close> returns is not stored.\<close>

definition ipcfdmem_resize :: "env \<Rightarrow> gh_fdmem \<Rightarrow> size_t \<Rightarrow> trace \<Rightarrow> gh_result \<times> (gh_fdmem \<times> trace)" where
  "ipcfdmem_resize env fdmem new_size tr =
     (let (a, tr) = syscall env (Ftruncate (fm_fd fdmem) (sint new_size)) tr in
      if an_ret a < 0 then (ghr_errno GHR_IPCFDMEM_TRUNCATE a, (fdmem, tr))
      else
        (let (a, tr) = syscall env (Mremap (fm_data fdmem) (fm_size fdmem) new_size) tr in
         if map_failed a then (ghr_errno GHR_IPCFDMEM_REMAPFAIL a, (fdmem, tr))
         else (GHR_OK, (fdmem\<lparr>fm_size := new_size\<rparr>, tr))))"

text \<open>The loop that doubles \<^verbatim>\<open>new_size\<close>; \<open>None\<close> when it does not end.\<close>

partial_function (option) fdmem_grow :: "size_t \<Rightarrow> size_t \<Rightarrow> size_t option" where
  "fdmem_grow target new_size = (if target > new_size then fdmem_grow target (new_size * 2) else Some new_size)"

text \<open>The pointer is \<^verbatim>\<open>*out_ptr\<close>, when stored.\<close>

definition gh_fdmem_new ::
  "env \<Rightarrow> gh_fdmem \<Rightarrow> size_t \<Rightarrow> trace \<Rightarrow> (gh_result \<times> (addr option \<times> gh_fdmem \<times> trace)) option" where
  "gh_fdmem_new env fdmem n tr =
     map_option (\<lambda>(res, fdmem, tr).
         if ghr_iserr res then (res, (None, fdmem, tr))
         else
           (GHR_OK, (Some (fm_data fdmem + fm_occupied fdmem),
                     fdmem\<lparr>fm_occupied := fm_occupied fdmem + n\<rparr>, tr)))
       (if fm_occupied fdmem + n > fm_size fdmem then
          map_option (\<lambda>new_size. ipcfdmem_resize env fdmem new_size tr)
            (fdmem_grow (fm_occupied fdmem + n) (fm_size fdmem))
        else Some (GHR_OK, (fdmem, tr)))"

section \<open>Translation of pointers\<close>

text \<open>A NULL pointer is 0.\<close>

definition ipcfdmem_realptr :: "gh_fdmem \<Rightarrow> gh_fdmem_ptr \<Rightarrow> addr" where
  "ipcfdmem_realptr fdmem ptr =
     (if ptr = 0 then 0
      else if ptr - 1 \<ge> fm_occupied fdmem then 0
      else fm_data fdmem + (ptr - 1))"

definition gh_fdmem_realptr :: "gh_fdmem \<Rightarrow> gh_fdmem_ptr \<Rightarrow> size_t \<Rightarrow> addr" where
  "gh_fdmem_realptr fdmem ptr n =
     (if n = 0 then 0
      else if ipcfdmem_realptr fdmem (ptr + n - 1) = 0 then 0
      else ipcfdmem_realptr fdmem ptr)"

definition ipcfdmem_virtptr :: "gh_fdmem \<Rightarrow> addr \<Rightarrow> gh_fdmem_ptr" where
  "ipcfdmem_virtptr fdmem ptr =
     (if ptr < fm_data fdmem \<or> ptr \<ge> fm_data fdmem + fm_occupied fdmem then 0
      else (ptr - fm_data fdmem) + 1)"

definition gh_fdmem_virtptr :: "gh_fdmem \<Rightarrow> addr \<Rightarrow> size_t \<Rightarrow> gh_fdmem_ptr" where
  "gh_fdmem_virtptr fdmem ptr n =
     (if n = 0 then 0
      else if ipcfdmem_virtptr fdmem (ptr + n - 1) = 0 then 0
      else ipcfdmem_virtptr fdmem ptr)"

section \<open>Destruction, synchronisation, sealing\<close>

definition gh_fdmem_dtor :: "env \<Rightarrow> gh_fdmem \<Rightarrow> trace \<Rightarrow> gh_result \<times> trace" where
  "gh_fdmem_dtor env fdmem tr =
     (let (a, tr) = syscall env (MunmapAt (fm_data fdmem) (fm_size fdmem)) tr in
      if an_ret a < 0 then (ghr_errno GHR_IPCFDMEM_UNMAPFAIL a, tr)
      else
        (let (a, tr) = syscall env (Close (fm_fd fdmem)) tr in
         if an_ret a < 0 then (ghr_errno GHR_IPCFDMEM_CLOSE a, tr) else (GHR_OK, tr)))"

definition gh_fdmem_sync :: "env \<Rightarrow> gh_fdmem \<Rightarrow> trace \<Rightarrow> gh_result \<times> (gh_fdmem \<times> trace)" where
  "gh_fdmem_sync env fdmem tr =
     (let (a, tr) = syscall env (MunmapAt (fm_data fdmem) (fm_size fdmem)) tr in
      if an_ret a < 0 then (ghr_errno GHR_IPCFDMEM_UNMAPFAIL a, (fdmem, tr))
      else gh_fdmem_ctorfd env fdmem (fm_fd fdmem) tr)"

text \<open>\<^verbatim>\<open>F_SEAL_SEAL | F_SEAL_SHRINK | F_SEAL_GROW | F_SEAL_WRITE\<close>\<close>

abbreviation (input) FDMEM_SEALS :: c_int where "FDMEM_SEALS \<equiv> 15"

definition gh_fdmem_seal :: "env \<Rightarrow> gh_fdmem \<Rightarrow> trace \<Rightarrow> gh_result \<times> (gh_fdmem \<times> trace)" where
  "gh_fdmem_seal env fdmem tr =
     (let (a, tr) = syscall env (MunmapAt (fm_data fdmem) (fm_size fdmem)) tr in
      if an_ret a < 0 then (ghr_errno GHR_IPCFDMEM_UNMAPFAIL a, (fdmem, tr))
      else
        (let (a, tr) = syscall env (AddSeals (fm_fd fdmem) FDMEM_SEALS) tr in
         if an_ret a < 0 then (ghr_errno GHR_IPCFDMEM_SEAL a, (fdmem, tr))
         else ipcfdmem_ctorfdo env fdmem (fm_fd fdmem) PROT_READ (fm_size fdmem) (fm_occupied fdmem) tr))"

end
