(* ===== verification/Sandbox.thy ===== *)
theory Sandbox
  imports Ipc
begin

text \<open>
  The process of the jail as the library sees it (\<^verbatim>\<open>sandbox.c\<close>, \<^verbatim>\<open>embedded_jail.c\<close>): the options that
  are handed over in an anonymous file, the fork and the execution of the embedded program, and the
  request to quit.
\<close>

section \<open>Ends of a process\<close>

text \<open>
  A function that may not return: it returns a value, the process exits, another program runs in
  the process, or the process aborts.
\<close>

datatype 'a outcome =
  Returns 'a | Exits int | Executes int "string list" "string list" | Aborts

text \<open>\<^verbatim>\<open>ghr_assert\<close> and \<^verbatim>\<open>ghr_fail\<close>; what they print goes to the standard error.\<close>

definition ghr_assert :: "gh_result \<Rightarrow> ('a outcome \<times> trace) \<Rightarrow> trace \<Rightarrow> 'a outcome \<times> trace" where
  "ghr_assert res k tr = (if res \<noteq> GHR_OK then (Exits 3, tr) else k)"

abbreviation (input) ghr_fail :: "trace \<Rightarrow> 'a outcome \<times> trace" where
  "ghr_fail tr \<equiv> (Exits 3, tr)"

section \<open>Options\<close>

record gh_sandboxoptions =
  so_name :: string
  so_memory_limit_bytes :: size_t
  so_functioncall_frame_limit_bytes :: size_t
  so_jail_ipc_sockfd :: c_int

record gh_sandbox =
  sb_pid :: int
  sb_options :: gh_sandboxoptions
  sb_ipc :: gh_ipc

abbreviation (input) GHOST_SANDBOXOPTIONS_NAME_MAX :: nat where "GHOST_SANDBOXOPTIONS_NAME_MAX \<equiv> 256"
abbreviation (input) GH_SANDBOX_TIMETOQUITMS :: int where "GH_SANDBOX_TIMETOQUITMS \<equiv> 4000"
abbreviation (input) SIGKILL :: int where "SIGKILL \<equiv> 9"
abbreviation (input) CLD_EXITED :: nat where "CLD_EXITED \<equiv> 1"
abbreviation (input) CLD_KILLED :: nat where "CLD_KILLED \<equiv> 2"
abbreviation (input) CLD_DUMPED :: nat where "CLD_DUMPED \<equiv> 3"
abbreviation (input) SANDBOXOPTIONS_SIZE :: nat where "SANDBOXOPTIONS_SIZE \<equiv> 280"

text \<open>The bytes of the structure; \<open>pad\<close> is what is in the four bytes behind its last member.\<close>

definition sandboxoptions_bytes :: "string \<Rightarrow> gh_sandboxoptions \<Rightarrow> string" where
  "sandboxoptions_bytes pad options =
     so_name options @ le_bytes 8 (unat (so_memory_limit_bytes options)) @
     le_bytes 8 (unat (so_functioncall_frame_limit_bytes options)) @
     le_bytes 4 (unat (so_jail_ipc_sockfd options)) @ pad"

definition sandboxoptions_of :: "string \<Rightarrow> gh_sandboxoptions" where
  "sandboxoptions_of s =
     \<lparr>so_name = take 256 s, so_memory_limit_bytes = of_nat (le_nat (take 8 (drop 256 s))),
      so_functioncall_frame_limit_bytes = of_nat (le_nat (take 8 (drop 264 s))),
      so_jail_ipc_sockfd = of_nat (le_nat (take 4 (drop 272 s)))\<rparr>"

definition gh_sandboxoptions_readfrom ::
  "env \<Rightarrow> int \<Rightarrow> gh_sandboxoptions \<Rightarrow> trace \<Rightarrow> gh_result \<times> (gh_sandboxoptions \<times> trace)" where
  "gh_sandboxoptions_readfrom env fd options tr =
     (let (a, tr) = syscall env (Read fd (of_nat SANDBOXOPTIONS_SIZE)) tr in
      if an_ret a < 0 then (ghr_errno GHR_SANDBOX_OPTIONSREADFAIL a, (options, tr))
      else if an_ret a \<noteq> int SANDBOXOPTIONS_SIZE then (GHR_SANDBOX_OPTIONSREADFAIL, (options, tr))
      else (GHR_OK, (sandboxoptions_of (an_data a), tr)))"

section \<open>The embedded program\<close>

text \<open>\<open>exe\<close> are the bytes the build links into the library, \<open>[]\<close> when there are none.\<close>

definition gh_embeddedjail_available :: "string \<Rightarrow> bool" where
  "gh_embeddedjail_available exe \<longleftrightarrow> length exe > 0"

definition gh_embeddedjail_createfd :: "env \<Rightarrow> string \<Rightarrow> trace \<Rightarrow> gh_result \<times> (int option \<times> trace)" where
  "gh_embeddedjail_createfd env exe tr =
     (if \<not> gh_embeddedjail_available exe then (GHR_EMBEDDEDJAIL_UNAVAILABLE, (None, tr))
      else
        (let (f, tr) = syscall env (MemfdCreate ''gh-embeddedjail'') tr in
         if an_ret f < 0 then (ghr_errno GHR_EMBEDDEDJAIL_CREATEFAIL f, (None, tr))
         else
           (let (a, tr) = syscall env (Write (an_ret f) exe) tr in
            if an_ret a < 0 then (ghr_errno GHR_EMBEDDEDJAIL_WRITEFAIL a, (None, tr))
            else if an_ret a \<noteq> int (length exe) then (GHR_EMBEDDEDJAIL_WRITETRUNC, (None, tr))
            else (GHR_OK, (Some (an_ret f), tr)))))"

text \<open>\<^verbatim>\<open>%d\<close>\<close>

definition c_int_decimal :: "int \<Rightarrow> string" where
  "c_int_decimal i = (if i < 0 then CHR ''-'' # c_decimal (nat (- i)) else c_decimal (nat i))"

text \<open>\<^verbatim>\<open>fexecve\<close> returns only when it fails.\<close>

definition gh_embeddedjail_exec ::
  "env \<Rightarrow> string \<Rightarrow> string \<Rightarrow> int \<Rightarrow> trace \<Rightarrow> gh_result outcome \<times> trace" where
  "gh_embeddedjail_exec env exe name options_fd tr =
     (let (res, fd, tr) = gh_embeddedjail_createfd env exe tr in
      case fd of
        None \<Rightarrow> (Returns res, tr)
      | Some fd \<Rightarrow>
          (let argv = [cstr name, c_int_decimal options_fd];
               (g, tr) = syscall env (Getenv ''GH_SANDBOX_DISABLED'') tr;
               envp = (if an_ret g \<ge> 0 \<and> strcmp_eq (an_data g) ''1'' then [''GH_SANDBOX_DISABLED=1''] else []);
               (a, tr) = syscall env (Fexecve fd argv envp) tr in
           if an_ret a < 0 then (Returns (ghr_errno GHR_EMBEDDEDJAIL_EXECFAIL a), tr)
           else (Executes fd argv envp, tr)))"

section \<open>Construction\<close>

definition send_hello :: "env \<Rightarrow> gh_ipc \<Rightarrow> trace \<Rightarrow> gh_result \<times> trace" where
  "send_hello env ipc tr =
     (let (a, tr) = syscall env Getpid tr; msg = MsgHello (an_ret a) in
      gh_ipc_send env ipc msg (ipcmsg_sizeof msg) tr)"

definition gh_sandbox_ctor_parent ::
  "env \<Rightarrow> gh_sandbox \<Rightarrow> gh_sandboxoptions \<Rightarrow> int \<Rightarrow> trace \<Rightarrow> gh_result \<times> (gh_sandbox \<times> trace)" where
  "gh_sandbox_ctor_parent env sandbox options pid tr =
     (let sandbox = sandbox\<lparr>sb_options := options, sb_pid := pid\<rparr>; (res, tr) = send_hello env (sb_ipc sandbox) tr in
      (res, (sandbox, tr)))"

definition gh_sandbox_ctor_child ::
  "env \<Rightarrow> string \<Rightarrow> string \<Rightarrow> gh_sandboxoptions \<Rightarrow> trace \<Rightarrow> gh_result outcome \<times> trace" where
  "gh_sandbox_ctor_child env exe pad options tr =
     (let (f, tr) = syscall env (MemfdCreate ''gh-sandbox-options'') tr in
      if an_ret f < 0 then (Returns (ghr_errno GHR_JAIL_OPTIONSMEMFAIL f), tr)
      else
        (let (w, tr) = syscall env (Write (an_ret f) (sandboxoptions_bytes pad options)) tr in
         if an_ret w < 0 then (Returns (ghr_errno GHR_JAIL_OPTIONSWRITEFAIL w), tr)
         else if an_ret w \<noteq> int SANDBOXOPTIONS_SIZE then (Returns (ghr_errno GHR_JAIL_OPTIONSSWRITETRUNC w), tr)
         else
           (let (a, tr) = syscall env (Lseek (an_ret f) 0 0) tr in
            if an_ret a = - 1 then (Returns (ghr_errno GHR_JAIL_OPTIONSSEEKFAIL a), tr)
            else gh_embeddedjail_exec env exe (so_name options) (an_ret f) tr)))"

text \<open>
  The process that calls and its child are both runs of this function; \<^verbatim>\<open>fork\<close> answers 0 in the child.
  A failed \<^verbatim>\<open>fork\<close> is not told apart from the parent: its pid is -1.
\<close>

definition gh_sandbox_ctor ::
  "env \<Rightarrow> string \<Rightarrow> string \<Rightarrow> gh_sandbox \<Rightarrow> gh_sandboxoptions \<Rightarrow> trace \<Rightarrow>
   (gh_result \<times> gh_sandbox) outcome \<times> trace" where
  "gh_sandbox_ctor env exe pad sandbox options tr =
     (if \<not> gh_embeddedjail_available exe then (Returns (GHR_EMBEDDEDJAIL_UNAVAILABLE, sandbox), tr)
      else
        (let (res, ipc, tr) = gh_ipc_ctor env tr in
         case ipc of
           None \<Rightarrow> (Returns (res, sandbox), tr)
         | Some (ipc, child_sockfd) \<Rightarrow>
             (let sandbox = sandbox\<lparr>sb_ipc := ipc\<rparr>;
                  options = options\<lparr>so_jail_ipc_sockfd := word_of_int child_sockfd\<rparr>;
                  (p, tr) = syscall env Fork tr in
              if an_ret p = 0 then
                (let (res, tr) = gh_ipc_dtor env ipc tr in
                 ghr_assert res
                   (case gh_sandbox_ctor_child env exe pad options tr of
                      (Returns _, tr) \<Rightarrow> (Exits 1, tr)
                    | (Executes fd argv envp, tr) \<Rightarrow> (Executes fd argv envp, tr)
                    | (Exits c, tr) \<Rightarrow> (Exits c, tr)
                    | (Aborts, tr) \<Rightarrow> (Aborts, tr)) tr)
              else
                (let (a, tr) = syscall env (Close child_sockfd) tr in
                 if an_ret a < 0 then
                   (let (k, tr) = syscall env (Kill (an_ret p) SIGKILL) tr in
                    if an_ret k < 0 then (Returns (ghr_errno GHR_SANDBOX_KILLCHILDFAIL k, sandbox), tr)
                    else
                      (let (dres, tr) = gh_ipc_dtor env ipc tr in
                       if ghr_iserr dres then (Returns (GHR_SANDBOX_CLEANIPCFAIL, sandbox), tr)
                       else
                         (let (w, tr) = syscall env (Waitpid (sb_pid sandbox)) tr in
                          (Returns (ghr_errno GHR_SANDBOX_CLOSESOCKFAIL (if an_ret w < 0 then w else a), sandbox), tr))))
                 else
                   (let (res, sandbox, tr) = gh_sandbox_ctor_parent env sandbox options (an_ret p) tr in
                    (Returns (res, sandbox), tr))))))"

section \<open>Destruction\<close>

text \<open>\<open>None\<close> is the \<^verbatim>\<open>__builtin_unreachable\<close> for another reason than an exit or a signal.\<close>

definition sandbox_wait :: "env \<Rightarrow> gh_sandbox \<Rightarrow> int \<Rightarrow> trace \<Rightarrow> (gh_result \<times> trace) option" where
  "sandbox_wait env sandbox timeout_ms tr =
     (let (f, tr) = syscall env (PidfdOpen (sb_pid sandbox)) tr in
      if an_ret f < 0 then Some (ghr_errno GHR_SANDBOX_PIDFD f, tr)
      else
        (let (p, tr) = syscall env (Poll [an_ret f] timeout_ms) tr in
         if an_ret p < 0 then Some (ghr_errno GHR_SANDBOX_PIDFDPOLL p, tr)
         else
           (let force_kill = (an_ret p = 0);
                (k, tr) = (if force_kill then syscall env (PidfdSendSignal (an_ret f) SIGKILL) tr else (p, tr)) in
            if force_kill \<and> an_ret k < 0 then Some (ghr_errno GHR_SANDBOX_PIDFDKILL k, tr)
            else
              (let (w, tr) = syscall env (Waitid (an_ret f)) tr in
               if an_ret w < 0 then Some (ghr_errno GHR_SANDBOX_PIDFDWAIT w, tr)
               else if force_kill then Some (GHR_SANDBOX_FORCEKILL, tr)
               else if an_code w = CLD_EXITED then
                 (if an_status w = 0 then Some (GHR_OK, tr)
                  else Some (ghr_errnoval GHR_JAIL_NONZEROEXIT (an_status w), tr))
               else if an_code w = CLD_KILLED \<or> an_code w = CLD_DUMPED then
                 Some (ghr_errnoval GHR_JAIL_KILLEDSIG (an_status w), tr)
               else None))))"

definition send_quit :: "env \<Rightarrow> gh_ipc \<Rightarrow> trace \<Rightarrow> gh_result \<times> trace" where
  "send_quit env ipc tr = gh_ipc_send env ipc MsgQuit (ipcmsg_sizeof MsgQuit) tr"

definition sandbox_requestquit :: "env \<Rightarrow> gh_sandbox \<Rightarrow> trace \<Rightarrow> (gh_result \<times> trace) option" where
  "sandbox_requestquit env sandbox tr =
     (let (res, tr) = send_quit env (sb_ipc sandbox) tr in
      if ghr_iserr res then Some (res, tr) else sandbox_wait env sandbox GH_SANDBOX_TIMETOQUITMS tr)"

text \<open>The second component of the result is \<^verbatim>\<open>*out_jailresult\<close>.\<close>

definition gh_sandbox_dtor :: "env \<Rightarrow> gh_sandbox \<Rightarrow> trace \<Rightarrow> (gh_result \<times> (gh_result \<times> trace)) option" where
  "gh_sandbox_dtor env sandbox tr =
     map_option (\<lambda>(quit_res, tr). let (res, tr) = gh_ipc_dtor env (sb_ipc sandbox) tr in (res, (quit_res, tr)))
       (sandbox_requestquit env sandbox tr)"

section \<open>The options cross the fork\<close>

lemma options_roundtrip:
  assumes "length (so_name options) = GHOST_SANDBOXOPTIONS_NAME_MAX"
  shows "sandboxoptions_of (sandboxoptions_bytes pad options) = options"
proof -
  have "unat x mod 256 ^ 8 = unat x" for x :: size_t
    using unsigned_less [of x, where ?'a = nat] by simp
  moreover have "unat x mod 256 ^ 4 = unat x" for x :: c_int
    using unsigned_less [of x, where ?'a = nat] by simp
  ultimately show ?thesis
    using assms by (cases options) (simp add: sandboxoptions_of_def sandboxoptions_bytes_def le_nat_bytes)
qed

end
