(* ===== verification/Variant.thy ===== *)
theory Variant
  imports Fdmem Sandbox
begin

text \<open>
  The values that host and sandbox exchange in shared memory (\<^verbatim>\<open>variant.h\<close>): the type in the first
  four bytes, the value from the eighth byte on, the bytes of a string behind it. The memory is
  shared with another process, so what a load delivers is the answer of the environment.
\<close>

datatype gh_variant_type = GH_VARIANT_NIL | GH_VARIANT_INT | GH_VARIANT_DOUBLE | GH_VARIANT_STRING

text \<open>\<^verbatim>\<open>sizeof(gh_variant)\<close> and the offsets of its members\<close>

abbreviation (input) VARIANT_SIZE :: size_t where "VARIANT_SIZE \<equiv> 16"
abbreviation (input) VARIANT_VALUE :: size_t where "VARIANT_VALUE \<equiv> 8"

fun variant_type_num :: "gh_variant_type \<Rightarrow> nat" where
  "variant_type_num GH_VARIANT_NIL = 0"
| "variant_type_num GH_VARIANT_INT = 1"
| "variant_type_num GH_VARIANT_DOUBLE = 2"
| "variant_type_num GH_VARIANT_STRING = 3"

definition load_nat :: "env \<Rightarrow> addr \<Rightarrow> nat \<Rightarrow> trace \<Rightarrow> nat \<times> trace" where
  "load_nat env p n tr =
     (let (a, tr) = syscall env (MemLoad p n) tr in (le_nat (take n (an_data a @ replicate n NUL)), tr))"

definition store_bytes :: "env \<Rightarrow> addr \<Rightarrow> string \<Rightarrow> trace \<Rightarrow> trace" where
  "store_bytes env p s tr = snd (syscall env (MemStore p s) tr)"

definition variant_loadtype :: "env \<Rightarrow> addr \<Rightarrow> trace \<Rightarrow> nat \<times> trace" where
  "variant_loadtype env p tr = load_nat env p 4 tr"

definition variant_storetype :: "env \<Rightarrow> addr \<Rightarrow> gh_variant_type \<Rightarrow> trace \<Rightarrow> trace" where
  "variant_storetype env p t tr = store_bytes env p (le_bytes 4 (variant_type_num t)) tr"

text \<open>The members of the union\<close>

definition variant_loadint :: "env \<Rightarrow> addr \<Rightarrow> trace \<Rightarrow> int \<times> trace" where
  "variant_loadint env p tr =
     (let (n, tr) = load_nat env (p + VARIANT_VALUE) 4 tr in (sint (of_nat n :: c_int), tr))"

definition variant_loaddouble :: "env \<Rightarrow> addr \<Rightarrow> trace \<Rightarrow> c_double \<times> trace" where
  "variant_loaddouble env p tr =
     (let (n, tr) = load_nat env (p + VARIANT_VALUE) 8 tr in (of_nat n, tr))"

definition variant_loadlen :: "env \<Rightarrow> addr \<Rightarrow> trace \<Rightarrow> size_t \<times> trace" where
  "variant_loadlen env p tr =
     (let (n, tr) = load_nat env (p + VARIANT_VALUE) 8 tr in (of_nat n, tr))"

definition variant_storeint :: "env \<Rightarrow> addr \<Rightarrow> int \<Rightarrow> trace \<Rightarrow> trace" where
  "variant_storeint env p i tr = store_bytes env (p + VARIANT_VALUE) (le_bytes 4 (unat (word_of_int i :: c_int))) tr"

definition variant_storedouble :: "env \<Rightarrow> addr \<Rightarrow> c_double \<Rightarrow> trace \<Rightarrow> trace" where
  "variant_storedouble env p d tr = store_bytes env (p + VARIANT_VALUE) (le_bytes 8 (unat d)) tr"

definition variant_storelen :: "env \<Rightarrow> addr \<Rightarrow> size_t \<Rightarrow> trace \<Rightarrow> trace" where
  "variant_storelen env p n tr = store_bytes env (p + VARIANT_VALUE) (le_bytes 8 (unat n)) tr"

definition variant_data :: "addr \<Rightarrow> addr" where
  "variant_data p = p + VARIANT_SIZE"

definition gh_variant_size :: "env \<Rightarrow> addr \<Rightarrow> trace \<Rightarrow> size_t \<times> trace" where
  "gh_variant_size env p tr =
     (let (t, tr) = variant_loadtype env p tr in
      if t = variant_type_num GH_VARIANT_STRING then
        (let (len, tr) = variant_loadlen env p tr in (VARIANT_SIZE + len, tr))
      else (VARIANT_SIZE, tr))"

end
