(* ===== verification/Thread.thy ===== *)
theory Thread
  imports Rpc Perms Variant
begin

text \<open>
  Threads (\<^verbatim>\<open>thread.c\<close>): the host's side of one sandboxed process. The operations send scripts, files,
  variables and calls to the process and wait for its result; while they wait, the function calls of
  the process are run and answered. \<open>'f\<close> is the type of the function pointers of the registrar.
\<close>

section \<open>State\<close>

record ('g, 'h, 'f) gh_thread =
  th_sandbox :: gh_sandbox
  th_name :: string
  th_safe_id :: string
  th_pid :: int
  th_ipc :: gh_ipc
  th_rpc :: "'f gh_rpc"
  th_perms :: "('g, 'h) gh_perms"
  th_default_timeout_ms :: int
  th_userdata :: addr

record 'f gh_threadoptions =
  to_sandbox :: gh_sandbox
  to_rpc :: "'f gh_rpc"
  to_prompter :: gh_permprompter
  to_name :: string
  to_safe_id :: string
  to_default_timeout_ms :: int

record gh_threadnotif_script =
  ts_result :: gh_result
  ts_id :: int
  ts_error_msg :: string
  ts_call_return_ptr :: gh_fdmem_ptr

record gh_threadnotif_function =
  tf_name :: string
  tf_missing :: bool

text \<open>The union of \<^verbatim>\<open>gh_threadnotif\<close>, tagged by its type\<close>

datatype gh_threadnotif = FunctionCalled gh_threadnotif_function | ScriptResult gh_threadnotif_script

abbreviation (input) GH_THREADNOTIF_SCRIPT_ERRORMSGMAX :: nat where "GH_THREADNOTIF_SCRIPT_ERRORMSGMAX \<equiv> 1024"
abbreviation (input) GH_SANDBOX_MAXWAITSUBJAILMS :: int where "GH_SANDBOX_MAXWAITSUBJAILMS \<equiv> 5000"
abbreviation (input) GH_THREAD_LUAINFO_TIMEOUTMS :: int where "GH_THREAD_LUAINFO_TIMEOUTMS \<equiv> 1000"

definition threadnotif_zero :: gh_threadnotif where
  "threadnotif_zero = FunctionCalled \<lparr>tf_name = [], tf_missing = False\<rparr>"

definition script_zero :: gh_threadnotif_script where
  "script_zero = \<lparr>ts_result = 0, ts_id = 0, ts_error_msg = [], ts_call_return_ptr = 0\<rparr>"

text \<open>What the calls of the registrar use of a thread\<close>

definition rpc_thread :: "('g, 'h, 'f) gh_thread \<Rightarrow> gh_rpcthread" where
  "rpc_thread thread =
     \<lparr>rt_pid = th_pid thread, rt_ipc = th_ipc thread,
      rt_frame_limit = so_functioncall_frame_limit_bytes (sb_options (th_sandbox thread))\<rparr>"

section \<open>Construction\<close>

definition thread_recover :: "env \<Rightarrow> gh_ipc \<Rightarrow> gh_result \<Rightarrow> trace \<Rightarrow> gh_result \<times> trace" where
  "thread_recover env direct_ipc res tr =
     (let (inner_res, tr) = gh_ipc_dtor env direct_ipc tr in
      (if ghr_iserr inner_res then inner_res else res, tr))"

definition thread_recoverkill :: "env \<Rightarrow> gh_ipc \<Rightarrow> int \<Rightarrow> gh_result \<Rightarrow> trace \<Rightarrow> gh_result \<times> trace" where
  "thread_recoverkill env direct_ipc subjail_pid res tr =
     (let (k, tr) = syscall env (Kill subjail_pid SIGKILL) tr in
      thread_recover env direct_ipc (if an_ret k < 0 then ghr_errno GHR_SANDBOX_THREADRECOVERYKILLFAIL k else res) tr)"

definition gh_thread_ctor ::
  "env \<Rightarrow> gh_alloc \<Rightarrow> ('g, 'h, 'f) gh_thread \<Rightarrow> 'f gh_threadoptions \<Rightarrow> trace \<Rightarrow>
   gh_result \<times> (('g, 'h, 'f) gh_thread \<times> trace)" where
  "gh_thread_ctor env al thread options tr =
     (let (res, perms, tr) = gh_perms_ctor env al (to_prompter options) tr; thread = thread\<lparr>th_perms := perms\<rparr> in
      if ghr_iserr res then (res, (thread, tr))
      else
        (let (res, ipc, tr) = gh_ipc_ctor env tr in
         case ipc of
           None \<Rightarrow> (res, (thread, tr))
         | Some (direct_ipc, direct_peerfd) \<Rightarrow>
             (let msg = MsgNewSubjail direct_peerfd;
                  (res, tr) = gh_ipc_send env (sb_ipc (to_sandbox options)) msg (ipcmsg_sizeof msg) tr in
              if ghr_iserr res then (let (res, tr) = thread_recover env direct_ipc res tr in (res, (thread, tr)))
              else
                (let (res, msg, tr) = gh_ipc_recv env direct_ipc GH_SANDBOX_MAXWAITSUBJAILMS tr in
                 if ghr_iserr res then (let (res, tr) = thread_recover env direct_ipc res tr in (res, (thread, tr)))
                 else case msg of
                   Some (MsgSubjailAlive idx subjail_pid) \<Rightarrow>
                     (let (c, tr) = syscall env (Close direct_peerfd) tr in
                      if an_ret c < 0 then
                        (let (res, tr) = thread_recoverkill env direct_ipc subjail_pid
                                           (ghr_errno GHR_SANDBOX_THREADCLOSESOCKFAIL c) tr in (res, (thread, tr)))
                      else
                        (let (res, tr) = send_hello env direct_ipc tr in
                         if ghr_iserr res then
                           (let (res, tr) = thread_recoverkill env direct_ipc subjail_pid res tr in (res, (thread, tr)))
                         else
                           (res, (thread\<lparr>th_ipc := direct_ipc, th_pid := subjail_pid, th_name := to_name options,
                                    th_sandbox := to_sandbox options, th_safe_id := to_safe_id options, th_userdata := 0,
                                    th_rpc := gh_rpc_incthreadrefcount (to_rpc options),
                                    th_default_timeout_ms := to_default_timeout_ms options\<rparr>, tr))))
                 | _ \<Rightarrow>
                     (let (res, tr) = thread_recover env direct_ipc GHR_SANDBOX_EXPECTEDSUBJAILALIVE tr
                      in (res, (thread, tr)))))))"

definition gh_thread_attachuserdata :: "('g, 'h, 'f) gh_thread \<Rightarrow> addr \<Rightarrow> gh_result \<times> ('g, 'h, 'f) gh_thread" where
  "gh_thread_attachuserdata thread userdata = (GHR_OK, thread\<lparr>th_userdata := userdata\<rparr>)"

section \<open>Messages of the sandboxed process\<close>

text \<open>The functions of the registrar work on the thread of their frame.\<close>

type_synonym ('g, 'h, 'f) thread_run = "('f, ('g, 'h, 'f) gh_thread) rpc_run"

definition thread_handlemsg_functioncall ::
  "env \<Rightarrow> gh_alloc \<Rightarrow> ('g, 'h, 'f) thread_run \<Rightarrow> gh_ipcmsg_functioncall \<Rightarrow> ('g, 'h, 'f) gh_thread \<times> trace \<Rightarrow>
   (gh_result \<times> (('g, 'h, 'f) gh_thread \<times> trace)) option" where
  "thread_handlemsg_functioncall env al run msg st =
     (case st of (thread, tr) \<Rightarrow>
      (let rpc = th_rpc thread in
       Option.bind (gh_rpc_newframefrommsg env al rpc (rpc_thread thread) msg tr) (\<lambda>(res, frame, tr).
       if ghr_is res GHR_RPC_MISSINGFUNC then
         (let (inner_res, tr) = gh_rpc_respondmissing env (th_ipc thread) tr in
          Some (if ghr_iserr inner_res then inner_res else res, (thread, tr)))
       else case frame of
         None \<Rightarrow> Some (res, (thread, tr))
       | Some frame \<Rightarrow>
           Option.bind (gh_rpc_callframe env run rpc (frame, thread, tr)) (\<lambda>(res, frame, thread, tr).
           if ghr_iserr res then Some (res, (thread, tr))
           else
             map_option (\<lambda>(res, frame, tr).
                 if ghr_iserr res then (res, (thread, tr))
                 else (fst (gh_rpc_disposeframe al frame), (thread, tr)))
               (gh_rpc_respondtomsg env (rpc_thread thread) msg frame tr)))))"

text \<open>\<open>None\<close> for the notification is NULL.\<close>

definition thread_handlemsg ::
  "env \<Rightarrow> gh_alloc \<Rightarrow> ('g, 'h, 'f) thread_run \<Rightarrow> gh_ipcmsg \<Rightarrow> gh_threadnotif option \<Rightarrow>
   ('g, 'h, 'f) gh_thread \<times> trace \<Rightarrow>
   (gh_result \<times> (gh_threadnotif option \<times> (('g, 'h, 'f) gh_thread \<times> trace))) option" where
  "thread_handlemsg env al run msg notif st =
     (case msg of
        MsgFunctionCall call_msg \<Rightarrow>
          map_option (\<lambda>(res, st).
              let missing = (case notif of Some (FunctionCalled f) \<Rightarrow> tf_missing f | _ \<Rightarrow> False);
                  called = (\<lambda>missing. map_option (\<lambda>_. FunctionCalled
                      \<lparr>tf_name = strncpy_term GH_IPCMSG_FUNCTIONCALL_MAXNAME (fc_name call_msg), tf_missing = missing\<rparr>)
                      notif) in
              if ghr_is res GHR_RPC_MISSINGFUNC then (GHR_OK, (called True, st))
              else (res, (called missing, st)))
            (thread_handlemsg_functioncall env al run call_msg st)
      | MsgLuaResult result_msg \<Rightarrow>
          Some (GHR_OK, (map_option (\<lambda>_. ScriptResult
              \<lparr>ts_result = lr_result result_msg, ts_id = lr_script_id result_msg,
               ts_error_msg = strncpy_term GH_THREADNOTIF_SCRIPT_ERRORMSGMAX (lr_error_msg result_msg),
               ts_call_return_ptr = lr_return_ptr result_msg\<rparr>) notif, st))
      | _ \<Rightarrow> Some (GHR_THREAD_UNKNOWNMESSAGE, (notif, st)))"

definition gh_thread_process ::
  "env \<Rightarrow> gh_alloc \<Rightarrow> ('g, 'h, 'f) thread_run \<Rightarrow> gh_threadnotif option \<Rightarrow> ('g, 'h, 'f) gh_thread \<times> trace \<Rightarrow>
   (gh_result \<times> (gh_threadnotif option \<times> (('g, 'h, 'f) gh_thread \<times> trace))) option" where
  "gh_thread_process env al run notif st =
     (case st of (thread, tr) \<Rightarrow>
      (let (res, msg, tr) = gh_ipc_recv env (th_ipc thread) (th_default_timeout_ms thread) tr in
       case msg of
         None \<Rightarrow> Some (res, (notif, (thread, tr)))
       | Some msg \<Rightarrow> thread_handlemsg env al run msg notif (thread, tr)))"

section \<open>Scripts\<close>

text \<open>The message LUAINFO with the identifier of the script, which the process sends first\<close>

definition thread_recvinfo :: "env \<Rightarrow> gh_ipc \<Rightarrow> trace \<Rightarrow> gh_result \<times> (int option \<times> trace)" where
  "thread_recvinfo env ipc tr =
     (let (res, msg, tr) = gh_ipc_recv env ipc GH_THREAD_LUAINFO_TIMEOUTMS tr in
      if ghr_iserr res then (res, (None, tr))
      else case msg of
        Some (MsgLuaInfo script_id) \<Rightarrow> (GHR_OK, (Some script_id, tr))
      | _ \<Rightarrow> (GHR_THREAD_EXPECTEDLUAINFO, (None, tr)))"

definition thread_start :: "env \<Rightarrow> ('g, 'h, 'f) gh_thread \<Rightarrow> gh_ipcmsg \<Rightarrow> trace \<Rightarrow> gh_result \<times> (int option \<times> trace)" where
  "thread_start env thread msg tr =
     (let (res, tr) = gh_ipc_send env (th_ipc thread) msg (ipcmsg_sizeof msg) tr in
      if ghr_iserr res then (res, (None, tr)) else thread_recvinfo env (th_ipc thread) tr)"

definition gh_thread_runstring ::
  "env \<Rightarrow> ('g, 'h, 'f) gh_thread \<Rightarrow> string \<Rightarrow> size_t \<Rightarrow> trace \<Rightarrow> gh_result \<times> (int option \<times> trace)" where
  "gh_thread_runstring env thread s s_len tr =
     (if s_len > of_nat (GH_IPCMSG_LUASTRING_MAXSIZE - 1) then (GHR_THREAD_LARGESTRING, (None, tr))
      else
        thread_start env thread
          (MsgLuaString (char_array GH_IPCMSG_LUASTRING_MAXSIZE (take (unat s_len) (cstr s)))) tr)"

text \<open>The loop of \<^verbatim>\<open>thread_syncscript\<close>; it ends with the result for the script or an error.\<close>

partial_function (option) thread_syncscript ::
  "env \<Rightarrow> gh_alloc \<Rightarrow> ('g, 'h, 'f) thread_run \<Rightarrow> int \<Rightarrow> ('g, 'h, 'f) gh_thread \<times> trace \<Rightarrow>
   (gh_result \<times> (gh_threadnotif_script \<times> (('g, 'h, 'f) gh_thread \<times> trace))) option" where
  "thread_syncscript env al run script_id st =
     Option.bind (gh_thread_process env al run (Some threadnotif_zero) st) (\<lambda>(res, notif, st).
     if ghr_iserr res then Some (res, (script_zero, st))
     else case notif of
       Some (ScriptResult s) \<Rightarrow>
         if ts_id s = script_id then Some (res, (s, st)) else thread_syncscript env al run script_id st
     | _ \<Rightarrow> thread_syncscript env al run script_id st)"

definition sync_started ::
  "env \<Rightarrow> gh_alloc \<Rightarrow> ('g, 'h, 'f) thread_run \<Rightarrow> ('g, 'h, 'f) gh_thread \<Rightarrow> gh_result \<times> (int option \<times> trace) \<Rightarrow>
   (gh_result \<times> (gh_threadnotif_script \<times> (('g, 'h, 'f) gh_thread \<times> trace))) option" where
  "sync_started env al run thread r =
     (case r of (res, script_id, tr) \<Rightarrow>
      case script_id of
        None \<Rightarrow> Some (res, (script_zero, (thread, tr)))
      | Some script_id \<Rightarrow> thread_syncscript env al run script_id (thread, tr))"

definition gh_thread_runstringsync ::
  "env \<Rightarrow> gh_alloc \<Rightarrow> ('g, 'h, 'f) thread_run \<Rightarrow> string \<Rightarrow> size_t \<Rightarrow> ('g, 'h, 'f) gh_thread \<times> trace \<Rightarrow>
   (gh_result \<times> (gh_threadnotif_script \<times> (('g, 'h, 'f) gh_thread \<times> trace))) option" where
  "gh_thread_runstringsync env al run s s_len st =
     (case st of (thread, tr) \<Rightarrow> sync_started env al run thread (gh_thread_runstring env thread s s_len tr))"

definition gh_thread_runfile ::
  "env \<Rightarrow> ('g, 'h, 'f) gh_thread \<Rightarrow> int \<Rightarrow> trace \<Rightarrow> gh_result \<times> (int option \<times> trace)" where
  "gh_thread_runfile env thread fd tr =
     thread_start env thread
       (MsgLuaFile fd (char_array GH_IPCMSG_LUAFILE_CHUNKNAMEMAX
          (strncpy_term GH_IPCMSG_LUAFILE_CHUNKNAMEMAX (th_safe_id thread)))) tr"

definition gh_thread_runfilesync ::
  "env \<Rightarrow> gh_alloc \<Rightarrow> ('g, 'h, 'f) thread_run \<Rightarrow> int \<Rightarrow> ('g, 'h, 'f) gh_thread \<times> trace \<Rightarrow>
   (gh_result \<times> (gh_threadnotif_script \<times> (('g, 'h, 'f) gh_thread \<times> trace))) option" where
  "gh_thread_runfilesync env al run fd st =
     (case st of (thread, tr) \<Rightarrow> sync_started env al run thread (gh_thread_runfile env thread fd tr))"

section \<open>Variables\<close>

definition thread_sethostvariable ::
  "env \<Rightarrow> ('g, 'h, 'f) gh_thread \<Rightarrow> string \<Rightarrow> int \<Rightarrow> gh_hostvalue \<Rightarrow> trace \<Rightarrow> gh_result \<times> (int option \<times> trace)" where
  "thread_sethostvariable env thread name table_index v tr =
     (if strlen name \<ge> GH_IPCMSG_LUAHOSTVARIABLE_NAMEMAX - 1 then (GHR_THREAD_LARGEHOSTVARNAME, (None, tr))
      else
        thread_start env thread
          (MsgLuaHostVariable \<lparr>hv_name = char_array GH_IPCMSG_LUAHOSTVARIABLE_NAMEMAX (cstr name),
             hv_value = v, hv_table_index = table_index\<rparr>) tr)"

definition thread_setvariable ::
  "env \<Rightarrow> gh_alloc \<Rightarrow> ('g, 'h, 'f) thread_run \<Rightarrow> string \<Rightarrow> int \<Rightarrow> gh_hostvalue \<Rightarrow> ('g, 'h, 'f) gh_thread \<times> trace \<Rightarrow>
   (gh_result \<times> (('g, 'h, 'f) gh_thread \<times> trace)) option" where
  "thread_setvariable env al run name table_index v st =
     (case st of (thread, tr) \<Rightarrow>
      map_option (\<lambda>(res, _, st). (res, st))
        (sync_started env al run thread (thread_sethostvariable env thread name table_index v tr)))"

definition gh_thread_setint ::
  "env \<Rightarrow> gh_alloc \<Rightarrow> ('g, 'h, 'f) thread_run \<Rightarrow> string \<Rightarrow> int \<Rightarrow> ('g, 'h, 'f) gh_thread \<times> trace \<Rightarrow>
   (gh_result \<times> (('g, 'h, 'f) gh_thread \<times> trace)) option" where
  "gh_thread_setint env al run name v st = thread_setvariable env al run name 0 (HostInt v) st"

definition gh_thread_setdouble ::
  "env \<Rightarrow> gh_alloc \<Rightarrow> ('g, 'h, 'f) thread_run \<Rightarrow> string \<Rightarrow> c_double \<Rightarrow> ('g, 'h, 'f) gh_thread \<times> trace \<Rightarrow>
   (gh_result \<times> (('g, 'h, 'f) gh_thread \<times> trace)) option" where
  "gh_thread_setdouble env al run name v st = thread_setvariable env al run name 0 (HostDouble v) st"

definition thread_setlstring_table ::
  "env \<Rightarrow> gh_alloc \<Rightarrow> ('g, 'h, 'f) thread_run \<Rightarrow> string \<Rightarrow> string \<Rightarrow> size_t \<Rightarrow> int \<Rightarrow> ('g, 'h, 'f) gh_thread \<times> trace \<Rightarrow>
   (gh_result \<times> (('g, 'h, 'f) gh_thread \<times> trace)) option" where
  "thread_setlstring_table env al run name s len table_index st =
     (if len \<ge> of_nat (GH_IPCMSG_LUAHOSTVARIABLE_STRINGMAX - 1) then Some (GHR_THREAD_LARGEHOSTVARSTRING, st)
      else
        thread_setvariable env al run name table_index
          (HostString (char_array GH_IPCMSG_LUAHOSTVARIABLE_STRINGMAX (take (unat len) (cstr s))) len) st)"

definition gh_thread_setlstring ::
  "env \<Rightarrow> gh_alloc \<Rightarrow> ('g, 'h, 'f) thread_run \<Rightarrow> string \<Rightarrow> string \<Rightarrow> size_t \<Rightarrow> ('g, 'h, 'f) gh_thread \<times> trace \<Rightarrow>
   (gh_result \<times> (('g, 'h, 'f) gh_thread \<times> trace)) option" where
  "gh_thread_setlstring env al run name s len st = thread_setlstring_table env al run name s len 0 st"

definition gh_thread_setstring ::
  "env \<Rightarrow> gh_alloc \<Rightarrow> ('g, 'h, 'f) thread_run \<Rightarrow> string \<Rightarrow> string \<Rightarrow> ('g, 'h, 'f) gh_thread \<times> trace \<Rightarrow>
   (gh_result \<times> (('g, 'h, 'f) gh_thread \<times> trace)) option" where
  "gh_thread_setstring env al run name s st = gh_thread_setlstring env al run name s (of_nat (strlen s)) st"

text \<open>Only the result of the last string is returned.\<close>

fun setstringtable_loop ::
  "env \<Rightarrow> gh_alloc \<Rightarrow> ('g, 'h, 'f) thread_run \<Rightarrow> string \<Rightarrow> string list \<Rightarrow> int \<Rightarrow> gh_result \<Rightarrow>
   ('g, 'h, 'f) gh_thread \<times> trace \<Rightarrow> (gh_result \<times> (('g, 'h, 'f) gh_thread \<times> trace)) option" where
  "setstringtable_loop env al run name [] i res st = Some (res, st)"
| "setstringtable_loop env al run name (s # ss) i res st =
     Option.bind (thread_setlstring_table env al run name s (of_nat (strlen s)) (i + 1) st)
       (\<lambda>(res, st). setstringtable_loop env al run name ss (i + 1) res st)"

definition gh_thread_setstringtable ::
  "env \<Rightarrow> gh_alloc \<Rightarrow> ('g, 'h, 'f) thread_run \<Rightarrow> string \<Rightarrow> string list \<Rightarrow> int \<Rightarrow> ('g, 'h, 'f) gh_thread \<times> trace \<Rightarrow>
   (gh_result \<times> (('g, 'h, 'f) gh_thread \<times> trace)) option" where
  "gh_thread_setstringtable env al run name strings count st =
     (if nat count > length strings then None
      else setstringtable_loop env al run name (take (nat count) strings) 0 GHR_OK st)"

end
