(* ===== verification/Stdlib.thy ===== *)
theory Stdlib
  imports Thread
begin

text \<open>
  The standard library (\<^verbatim>\<open>stdlib.c\<close>): what the sandboxed process may ask the host to do for it. Each
  operation opens a path descriptor, passes a gate of the permission system, and then acts; each has
  a function of the registrar that takes its arguments from a frame.
\<close>

section \<open>Gates of a thread\<close>

type_synonym ('g, 'h, 'f) std_state = "('g, 'h, 'f) gh_thread \<times> trace"

definition std_lift ::
  "('g, 'h, 'f) gh_thread \<Rightarrow> (gh_result \<times> (('g, 'h) gh_perms \<times> trace)) option \<Rightarrow>
   (gh_result \<times> ('g, 'h, 'f) std_state) option" where
  "std_lift thread m = map_option (\<lambda>(res, perms, tr). (res, (thread\<lparr>th_perms := perms\<rparr>, tr))) m"

definition std_gatefile ::
  "env \<Rightarrow> gh_alloc \<Rightarrow> gh_pathfd \<Rightarrow> gh_permfs_mode \<Rightarrow> string option \<Rightarrow> ('g, 'h, 'f) std_state \<Rightarrow>
   (gh_result \<times> ('g, 'h, 'f) std_state) option" where
  "std_gatefile env al pathfd mode hint st =
     (case st of (thread, tr) \<Rightarrow>
      std_lift thread (gh_perms_gatefile env al (th_safe_id thread) pathfd mode hint (th_perms thread, tr)))"

definition std_gateexec ::
  "env \<Rightarrow> gh_alloc \<Rightarrow> gh_pathfd \<Rightarrow> string list \<Rightarrow> string list \<Rightarrow> ('g, 'h, 'f) std_state \<Rightarrow>
   (gh_result \<times> ('g, 'h, 'f) std_state) option" where
  "std_gateexec env al pathfd argv envp st =
     (case st of (thread, tr) \<Rightarrow>
      std_lift thread (gh_perms_gateexec env al (th_safe_id thread) pathfd argv envp (th_perms thread, tr)))"

text \<open>The label \<^verbatim>\<open>close_pathfd\<close>\<close>

definition std_close :: "env \<Rightarrow> gh_pathfd \<Rightarrow> gh_result \<Rightarrow> trace \<Rightarrow> gh_result \<times> trace" where
  "std_close env pathfd res tr =
     (let (inner_res, tr) = gh_pathfd_close env pathfd tr in (if ghr_iserr inner_res then inner_res else res, tr))"

section \<open>Opening\<close>

text \<open>\<^verbatim>\<open>(flags & O_CREAT) != 0\<close> as a mode of path descriptors\<close>

definition std_openmode :: "c_int \<Rightarrow> c_int" where
  "std_openmode flags = (if flags AND O_CREAT \<noteq> 0 then 1 else 0)"

definition gh_std_openat ::
  "env \<Rightarrow> gh_alloc \<Rightarrow> int \<Rightarrow> string \<Rightarrow> c_int \<Rightarrow> mode_t \<Rightarrow> ('g, 'h, 'f) std_state \<Rightarrow>
   (gh_result \<times> (int option \<times> ('g, 'h, 'f) std_state)) option" where
  "gh_std_openat env al dirfd path flags create_mode st =
     (case st of (thread, tr) \<Rightarrow>
      (let (res, pathfd, tr) = gh_pathfd_open env dirfd path pathfd_zero (std_openmode flags) tr in
       if ghr_iserr res then Some (res, (None, (thread, tr)))
       else
         (let (res, mode) = gh_permfs_fcntlflags2permfsmode flags create_mode pathfd in
          case mode of
            None \<Rightarrow> (let (res, tr) = std_close env pathfd res tr in Some (res, (None, (thread, tr))))
          | Some mode \<Rightarrow>
              map_option (\<lambda>(res, thread, tr).
                  if ghr_iserr res then (let (res, tr) = std_close env pathfd res tr in (res, (None, (thread, tr))))
                  else
                    (let (res, new_fd, tr) = gh_procfd_reopen env (ps_procfd (th_perms thread)) pathfd flags create_mode tr;
                         (res, tr) = std_close env pathfd res tr in
                     (res, (new_fd, (thread, tr)))))
                (std_gatefile env al pathfd mode None (thread, tr)))))"

section \<open>Renaming and removing\<close>

abbreviation (input) RENAME_NOREPLACE :: c_int where "RENAME_NOREPLACE \<equiv> 1"

text \<open>From the second gate on, with its result\<close>

definition rename_last :: "env \<Rightarrow> gh_pathfd \<Rightarrow> gh_pathfd \<Rightarrow> gh_result \<Rightarrow> trace \<Rightarrow> gh_result \<times> trace" where
  "rename_last env from_pathfd to_pathfd res tr =
     (let (res, tr) =
        (if ghr_iserr res then (res, tr)
         else
           (let (a, tr) = syscall env (Renameat2 (pf_fd from_pathfd) (pf_trailing from_pathfd)
                             (pf_fd to_pathfd) (pf_trailing to_pathfd) RENAME_NOREPLACE) tr in
            (if an_ret a < 0 then ghr_errno GHR_STD_RENAME a else res, tr)));
          (res, tr) = std_close env to_pathfd res tr in
      std_close env from_pathfd res tr)"

definition gh_std_rename ::
  "env \<Rightarrow> gh_alloc \<Rightarrow> int \<Rightarrow> string \<Rightarrow> int \<Rightarrow> string \<Rightarrow> ('g, 'h, 'f) std_state \<Rightarrow>
   (gh_result \<times> ('g, 'h, 'f) std_state) option" where
  "gh_std_rename env al from_dirfd from_path to_dirfd to_path st =
     (case st of (thread, tr) \<Rightarrow>
      (let (res, from_pathfd, tr) = gh_pathfd_opentrailing env from_dirfd from_path pathfd_zero tr in
       if ghr_iserr res then Some (res, (thread, tr))
       else
         Option.bind (std_gatefile env al from_pathfd GH_PERMFS_MOVE None (thread, tr)) (\<lambda>(res, thread, tr).
         if ghr_iserr res then (let (res, tr) = std_close env from_pathfd res tr in Some (res, (thread, tr)))
         else
           (let (res, to_pathfd, tr) = gh_pathfd_opentrailing env to_dirfd to_path pathfd_zero tr in
            if ghr_iserr res then Some (res, (thread, tr))
            else
              map_option (\<lambda>(res, thread, tr).
                  let (res, tr) = rename_last env from_pathfd to_pathfd res tr in (res, (thread, tr)))
                (std_gatefile env al to_pathfd GH_PERMFS_CREATEFILE None (thread, tr))))))"

definition gh_std_unlinkat ::
  "env \<Rightarrow> gh_alloc \<Rightarrow> int \<Rightarrow> string \<Rightarrow> ('g, 'h, 'f) std_state \<Rightarrow> (gh_result \<times> ('g, 'h, 'f) std_state) option" where
  "gh_std_unlinkat env al dirfd path st =
     (case st of (thread, tr) \<Rightarrow>
      (let (res, pathfd, tr) = gh_pathfd_opentrailing env dirfd path pathfd_zero tr in
       if ghr_iserr res then (let (res, tr) = std_close env pathfd res tr in Some (res, (thread, tr)))
       else
         map_option (\<lambda>(res, thread, tr).
             if ghr_iserr res then (let (res, tr) = std_close env pathfd res tr in (res, (thread, tr)))
             else
               (let (a, tr) = syscall env (Unlinkat (pf_fd pathfd) (pf_trailing pathfd) 0) tr in
                if an_ret a < 0 then (ghr_errno GHR_STD_UNLINK a, (thread, tr))
                else (let (res, tr) = std_close env pathfd res tr in (res, (thread, tr)))))
           (std_gatefile env al pathfd GH_PERMFS_UNLINK None (thread, tr))))"

section \<open>Temporary files\<close>

definition lcgrand :: "32 word \<Rightarrow> 32 word" where
  "lcgrand input = (1103515245 * input + 12345) mod 0x80000000"

definition random_charset :: string where
  "random_charset = ''0123456789ABCDEFGHIJKLMNOPQRSTUVWXYZabcdefghijklmnopqrstuvwxyz''"

fun random_chars :: "nat \<Rightarrow> 32 word \<Rightarrow> string" where
  "random_chars 0 seed = []"
| "random_chars (Suc n) seed =
     (let seed = lcgrand seed in random_charset ! (unat seed mod 62) # random_chars n seed)"

definition random_str :: "env \<Rightarrow> nat \<Rightarrow> trace \<Rightarrow> string \<times> trace" where
  "random_str env n tr =
     (let (a, tr) = syscall env Time tr in (random_chars n (lcgrand (word_of_int (an_ret a))), tr))"

record gh_std_tempfile =
  tm_fd :: int
  tm_path :: string

abbreviation (input) GH_STD_TEMPFILE_PATHMAX :: nat where "GH_STD_TEMPFILE_PATHMAX \<equiv> 4096"

text \<open>The label \<^verbatim>\<open>err_close_fd\<close>; the path descriptor stays open, and \<^verbatim>\<open>close(new_fd < 0)\<close> closes 0.\<close>

definition opentemp_closefd :: "env \<Rightarrow> int \<Rightarrow> int \<Rightarrow> gh_result \<Rightarrow> trace \<Rightarrow> gh_result \<times> trace" where
  "opentemp_closefd env tmp_fd new_fd res tr =
     (let (a, tr) = syscall env (Close tmp_fd) tr in
      if an_ret a < 0 then
        (if new_fd \<ge> 0 then
           (let (b, tr) = syscall env (Close 0) tr in
            if an_ret b < 0 then (ghr_errno GHR_STD_CLOSETMPFILE b, tr) else (ghr_errno GHR_STD_CLOSETMP a, tr))
         else (ghr_errno GHR_STD_CLOSETMP a, tr))
      else (res, tr))"

definition gh_std_opentemp ::
  "env \<Rightarrow> gh_alloc \<Rightarrow> string \<Rightarrow> c_int \<Rightarrow> ('g, 'h, 'f) std_state \<Rightarrow>
   (gh_result \<times> (gh_std_tempfile option \<times> ('g, 'h, 'f) std_state)) option" where
  "gh_std_opentemp env al pfx flags st =
     (case st of (thread, tr) \<Rightarrow>
      (let (t, tr) = syscall env (Open ''/tmp'' (O_PATH OR O_DIRECTORY)) tr; tmp_fd = an_ret t in
       if tmp_fd < 0 then Some (GHR_STD_OPENTMP, (None, (thread, tr)))
       else
         (let (suffix, tr) = random_str env 16 tr;
              tmp_name = cstr pfx @ suffix;
              (res, pathfd, tr) = gh_pathfd_open env tmp_fd tmp_name pathfd_zero (std_openmode flags) tr;
              fail = (\<lambda>res thread tr. let (res, tr) = opentemp_closefd env tmp_fd (- 1) res tr in (res, (None, (thread, tr)))) in
          if ghr_iserr res then Some (fail res thread tr)
          else
            (let (res, mode) = gh_permfs_fcntlflags2permfsmode flags 0x1A4 pathfd in
             case mode of
               None \<Rightarrow> Some (fail res thread tr)
             | Some mode \<Rightarrow>
                 Option.bind (std_gatefile env al pathfd mode (Some ''tmpfile'') (thread, tr)) (\<lambda>(res, thread, tr).
                 if ghr_iserr res then Some (fail res thread tr)
                 else
                   Option.bind (gh_procfd_fdpathctor env al (ps_procfd (th_perms thread)) pathfd tr) (\<lambda>(res, path, tr).
                   case path of
                     None \<Rightarrow> Some (fail res thread tr)
                   | Some path \<Rightarrow>
                       (let (o', tr) = syscall env (Openat tmp_fd tmp_name (O_RDWR OR O_CREAT) 0) tr;
                            new_fd = an_ret o';
                            res = (if new_fd < 0 then ghr_errno GHR_STD_OPENTMPFILE o' else res);
                            tempfile = (if new_fd < 0 then None
                              else map_option (\<lambda>s. \<lparr>tm_fd = new_fd, tm_path = strncpy_term GH_STD_TEMPFILE_PATHMAX s\<rparr>)
                                     (ac_ptr path));
                            (inner_res, path) = gh_procfd_fdpathdtor al path;
                            res = (if ghr_iserr inner_res then inner_res else res);
                            (res, tr) = opentemp_closefd env tmp_fd new_fd res tr in
                        Some (res, (tempfile, (thread, tr))))))))))"

section \<open>Requests for permissions\<close>

text \<open>\<open>dry\<close>: \<^verbatim>\<open>out_wouldprompt\<close> is not NULL; the first component is its value, false before.\<close>

definition gh_std_fsrequest ::
  "env \<Rightarrow> gh_alloc \<Rightarrow> int \<Rightarrow> string \<Rightarrow> gh_permfs_mode \<Rightarrow> gh_permfs_mode \<Rightarrow> bool \<Rightarrow> ('g, 'h, 'f) std_state \<Rightarrow>
   (gh_result \<times> (bool \<times> ('g, 'h, 'f) std_state)) option" where
  "gh_std_fsrequest env al dirfd path self_mode children_mode dry st =
     (if \<not> gh_permfs_ismodevalid self_mode then Some (GHR_STD_INVALIDMODE, (False, st))
      else if \<not> gh_permfs_ismodevalid children_mode then Some (GHR_STD_INVALIDMODE, (False, st))
      else if self_mode = children_mode \<and> self_mode = GH_PERMFS_NONE then Some (GHR_STD_INVALIDMODE, (False, st))
      else
        (case st of (thread, tr) \<Rightarrow>
         (let (res, pathfd, tr) = gh_pathfd_open env dirfd path pathfd_zero 1 tr in
          if ghr_iserr res then Some (res, (False, (thread, tr)))
          else
            map_option (\<lambda>(res, would, perms, tr).
                let (res, tr) = std_close env pathfd res tr in (res, (would, (thread\<lparr>th_perms := perms\<rparr>, tr))))
              (gh_perms_fsrequest env al (th_safe_id thread) pathfd self_mode children_mode (Some ''future'') dry
                 (th_perms thread, tr)))))"

section \<open>Running programs\<close>

text \<open>
  The child of \<^verbatim>\<open>fork\<close>: with a terminal it replaces the standard streams, then the program of the
  path descriptor runs, with the environment as it is.
\<close>

fun child_steps :: "env \<Rightarrow> call list \<Rightarrow> trace \<Rightarrow> bool \<times> trace" where
  "child_steps env [] tr = (True, tr)"
| "child_steps env (c # cs) tr =
     (let (a, tr) = syscall env c tr in if an_ret a < 0 then (False, tr) else child_steps env cs tr)"

definition execute_child ::
  "env \<Rightarrow> gh_pathfd \<Rightarrow> string list \<Rightarrow> string list \<Rightarrow> (int \<times> int) option \<Rightarrow> trace \<Rightarrow> 'a outcome \<times> trace" where
  "execute_child env pathfd argv envp pty tr =
     (let (ok, tr) =
        (case pty of
           None \<Rightarrow> (True, tr)
         | Some (master, slave) \<Rightarrow>
             child_steps env [Close master, Dup2 slave 0, Dup2 slave 1, Dup2 slave 2, Close slave] tr) in
      if \<not> ok then (Aborts, tr)
      else
        (let (a, tr) = syscall env (Execveat (pf_fd pathfd) argv envp) tr in
         if an_ret a < 0 then (Aborts, tr) else (Executes (pf_fd pathfd) argv envp, tr)))"

definition shell_argv :: "string \<Rightarrow> string list" where
  "shell_argv shellscript = [''/bin/sh'', ''-c'', shellscript]"

text \<open>
  \<open>want_status\<close> and \<open>want_pty\<close>: the pointers are not NULL. \<^verbatim>\<open>openpty\<close> answers the descriptor of the
  master, and that of the slave as the peer. The value is the result, \<^verbatim>\<open>*out_status\<close> and \<^verbatim>\<open>*out_ptyfd\<close>
  when stored. A failed \<^verbatim>\<open>fork\<close> goes the way of the parent, with pid -1.
\<close>

definition gh_std_execute ::
  "env \<Rightarrow> gh_alloc \<Rightarrow> int \<Rightarrow> string \<Rightarrow> string list \<Rightarrow> bool \<Rightarrow> bool \<Rightarrow> ('g, 'h, 'f) std_state \<Rightarrow>
   ((gh_result \<times> nat option \<times> int option \<times> ('g, 'h, 'f) gh_thread) outcome \<times> trace) option" where
  "gh_std_execute env al dirfd shellscript envp want_status want_pty st =
     (case st of (thread, tr) \<Rightarrow>
      (let (res, pathfd, tr) = gh_pathfd_open env dirfd ''/bin/sh'' pathfd_zero GH_PATHFD_RESOLVELINKS tr in
       if ghr_iserr res then Some (Returns (res, None, None, thread), tr)
       else
         map_option (\<lambda>(res, thread, tr).
             let argv = shell_argv shellscript;
                 finish = (\<lambda>res status pty tr.
                   let (res, tr) = std_close env pathfd res tr in (Returns (res, status, pty, thread), tr)) in
             if ghr_iserr res then finish res None None tr
             else
               (let (res, pty, tr) =
                  (if want_pty then
                     (let (a, tr) = syscall env Openpty tr in
                      if an_ret a < 0 then (ghr_errno GHR_STD_SPAWNPTY a, None, tr)
                      else (res, Some (an_ret a, an_peer a), tr))
                   else (res, None, tr)) in
                if ghr_iserr res then finish res None None tr
                else
                  (let (p, tr) = syscall env Fork tr; ptyfd = map_option fst pty in
                   if an_ret p = 0 then execute_child env pathfd argv envp pty tr
                   else
                     (let (res, tr) =
                        (case pty of
                           None \<Rightarrow> (res, tr)
                         | Some (master, slave) \<Rightarrow>
                             (let (a, tr) = syscall env (Close slave) tr in
                              (if an_ret a < 0 then ghr_errno GHR_STD_SPAWNPTYCLOSE a else res, tr))) in
                      if ghr_iserr res then finish res None ptyfd tr
                      else if want_status then
                        (let (a, tr) = syscall env (Waitpid (an_ret p)) tr in
                         if an_ret a < 0 then finish (ghr_errno GHR_STD_SPAWNWAIT a) None ptyfd tr
                         else finish res (Some (an_status a)) ptyfd tr)
                      else finish res None ptyfd tr))))
           (std_gateexec env al pathfd (shell_argv shellscript) envp (thread, tr))))"

end
