(* ===== verification/StdRpc.thy ===== *)
theory StdRpc
  imports Stdlib
begin

text \<open>
  The functions of the standard library as the registrar calls them: each takes its arguments out of
  a frame, calls the operation and puts the result into the frame. \<open>AppFunction\<close> are the functions
  that the application registers besides.
\<close>

datatype 'x std_function =
    GhostOpen | GhostRename | GhostOpentemp | GhostRemove | GhostFsrequest | GhostFshas | GhostExecute | GhostPopen
  | AppFunction 'x

type_synonym ('g, 'h, 'x) std_thread = "('g, 'h, 'x std_function) gh_thread"
type_synonym ('g, 'h, 'x) std_frame_state = "gh_rpcframe \<times> ('g, 'h, 'x) std_thread \<times> trace"

abbreviation (input) GH_PERMEXEC_CMDLINEMAX :: nat where "GH_PERMEXEC_CMDLINEMAX \<equiv> 4096"
abbreviation (input) AT_FDCWD :: int where "AT_FDCWD \<equiv> - 100"

section \<open>Arguments\<close>

text \<open>\<^verbatim>\<open>gh_rpcframe_failhere\<close>\<close>

definition failhere :: "gh_result \<Rightarrow> ('g, 'h, 'x) std_frame_state \<Rightarrow> ('g, 'h, 'x) std_frame_state option" where
  "failhere res st = (case st of (frame, s) \<Rightarrow> Some (gh_rpcframe_setresult frame res, s))"

text \<open>
  The argument \<open>index\<close> as a string: the last byte of its buffer is overwritten by a NUL. A NULL
  pointer or an offset outside the memory of the frame is undefined.
\<close>

definition with_strarg ::
  "nat \<Rightarrow> gh_result \<Rightarrow> gh_result \<Rightarrow>
   (size_t \<Rightarrow> ('g, 'h, 'x) std_frame_state \<Rightarrow> ('g, 'h, 'x) std_frame_state option) \<Rightarrow>
   ('g, 'h, 'x) std_frame_state \<Rightarrow> ('g, 'h, 'x) std_frame_state option" where
  "with_strarg index missing big k st =
     (case st of (frame, s) \<Rightarrow>
      Option.bind (gh_rpcframe_argbufv frame index) (\<lambda>(ok, ptr, n).
      if \<not> ok then failhere (ghr_errnoval missing EINVAL) st
      else if n > of_nat INT_MAX then failhere (ghr_errnoval big EFBIG) st
      else
        Option.bind ptr (\<lambda>p.
        Option.bind (frame_store frame (Some (p + n - 1)) [NUL]) (\<lambda>frame. k p (frame, s)))))"

text \<open>The argument \<open>index\<close> as a pointer to a value of four bytes\<close>

definition with_intarg ::
  "nat \<Rightarrow> gh_result \<Rightarrow> (size_t option \<Rightarrow> ('g, 'h, 'x) std_frame_state \<Rightarrow> ('g, 'h, 'x) std_frame_state option) \<Rightarrow>
   ('g, 'h, 'x) std_frame_state \<Rightarrow> ('g, 'h, 'x) std_frame_state option" where
  "with_intarg index missing k st =
     (case st of (frame, s) \<Rightarrow>
      Option.bind (gh_rpcframe_argv frame index 4) (\<lambda>(ok, ptr).
      if \<not> ok then failhere (ghr_errnoval missing EINVAL) st else k ptr st))"

text \<open>What the pointers point to\<close>

definition frame_string :: "gh_rpcframe \<Rightarrow> size_t \<Rightarrow> string option" where
  "frame_string frame p =
     (if NUL \<in> set (drop (unat p) (fr_memory frame)) then Some (cstr (drop (unat p) (fr_memory frame))) else None)"

definition frame_word :: "gh_rpcframe \<Rightarrow> size_t option \<Rightarrow> c_int option" where
  "frame_word frame ptr =
     Option.bind ptr (\<lambda>p. map_option (\<lambda>s. of_nat (le_nat s)) (mem_load (fr_memory frame) p 4))"

section \<open>The functions\<close>

definition ghost_open ::
  "env \<Rightarrow> gh_alloc \<Rightarrow> ('g, 'h, 'x) std_frame_state \<Rightarrow> ('g, 'h, 'x) std_frame_state option" where
  "ghost_open env al =
     with_strarg 0 GHR_RPCF_ARG0 GHR_RPCF_ARG0 (\<lambda>path_buf.
     with_intarg 1 GHR_RPCF_ARG1 (\<lambda>flags.
     with_intarg 2 GHR_RPCF_ARG2 (\<lambda>access_mode (frame, st).
       Option.bind (frame_string frame path_buf) (\<lambda>path.
       Option.bind (frame_word frame flags) (\<lambda>flags.
       Option.bind (frame_word frame access_mode) (\<lambda>access_mode.
       Option.bind (gh_std_openat env al AT_FDCWD path flags access_mode st) (\<lambda>(res, fd, st).
       if ghr_iserr res then failhere res (frame, st)
       else map_option (\<lambda>fd. (gh_rpcframe_setreturnfd frame fd, st)) fd)))))))"

definition ghost_rename ::
  "env \<Rightarrow> gh_alloc \<Rightarrow> ('g, 'h, 'x) std_frame_state \<Rightarrow> ('g, 'h, 'x) std_frame_state option" where
  "ghost_rename env al =
     with_strarg 0 GHR_RPCF_ARG0 GHR_RPCF_ARG0 (\<lambda>from_buf.
     with_strarg 1 GHR_RPCF_ARG0 GHR_RPCF_ARG1 (\<lambda>to_buf (frame, st).
       Option.bind (frame_string frame from_buf) (\<lambda>from_path.
       Option.bind (frame_string frame to_buf) (\<lambda>to_path.
       Option.bind (gh_std_rename env al AT_FDCWD from_path AT_FDCWD to_path st) (\<lambda>(res, st).
       if ghr_iserr res then failhere res (frame, st) else Some (frame, st))))))"

definition ghost_remove ::
  "env \<Rightarrow> gh_alloc \<Rightarrow> ('g, 'h, 'x) std_frame_state \<Rightarrow> ('g, 'h, 'x) std_frame_state option" where
  "ghost_remove env al =
     with_strarg 0 GHR_RPCF_ARG0 GHR_RPCF_ARG0 (\<lambda>path_buf (frame, st).
       Option.bind (frame_string frame path_buf) (\<lambda>path.
       Option.bind (gh_std_unlinkat env al AT_FDCWD path st) (\<lambda>(res, st).
       if ghr_iserr res then failhere res (frame, st) else Some (frame, st))))"

text \<open>The results of \<^verbatim>\<open>setreturn\<close> are ignored.\<close>

definition ghost_opentemp ::
  "env \<Rightarrow> gh_alloc \<Rightarrow> ('g, 'h, 'x) std_frame_state \<Rightarrow> ('g, 'h, 'x) std_frame_state option" where
  "ghost_opentemp env al =
     with_strarg 0 GHR_RPCF_ARG0 GHR_RPCF_ARG0 (\<lambda>prefix_buf.
     with_intarg 1 GHR_RPCF_ARG1 (\<lambda>flags (frame, st).
       Option.bind (frame_string frame prefix_buf) (\<lambda>pfx.
       Option.bind (frame_word frame flags) (\<lambda>flags.
       Option.bind (gh_std_opentemp env al pfx flags st) (\<lambda>(res, tempfile, st).
       if ghr_iserr res then failhere res (frame, st)
       else
         Option.bind tempfile (\<lambda>tempfile.
         map_option (\<lambda>(ok, frame). (frame, st))
           (gh_rpcframe_setreturnv (gh_rpcframe_setreturnfd frame (tm_fd tempfile)) (tm_path tempfile))))))))"

definition ghost_fsrequest ::
  "env \<Rightarrow> gh_alloc \<Rightarrow> ('g, 'h, 'x) std_frame_state \<Rightarrow> ('g, 'h, 'x) std_frame_state option" where
  "ghost_fsrequest env al =
     with_strarg 0 GHR_RPCF_ARG0 GHR_RPCF_ARG0 (\<lambda>path_buf.
     with_intarg 1 GHR_RPCF_ARG1 (\<lambda>self_mode.
     with_intarg 2 GHR_RPCF_ARG2 (\<lambda>children_mode (frame, st).
       Option.bind (frame_string frame path_buf) (\<lambda>path.
       Option.bind (frame_word frame self_mode) (\<lambda>self_mode.
       Option.bind (frame_word frame children_mode) (\<lambda>children_mode.
       Option.bind (gh_std_fsrequest env al AT_FDCWD path self_mode children_mode False st) (\<lambda>(res, _, st).
       if ghr_iserr res then failhere res (frame, st) else Some (frame, st))))))))"

definition ghost_fshas ::
  "env \<Rightarrow> gh_alloc \<Rightarrow> ('g, 'h, 'x) std_frame_state \<Rightarrow> ('g, 'h, 'x) std_frame_state option" where
  "ghost_fshas env al =
     with_strarg 0 GHR_RPCF_ARG0 GHR_RPCF_ARG0 (\<lambda>path_buf.
     with_intarg 1 GHR_RPCF_ARG1 (\<lambda>self_mode.
     with_intarg 2 GHR_RPCF_ARG2 (\<lambda>children_mode (frame, st).
       Option.bind (frame_string frame path_buf) (\<lambda>path.
       Option.bind (frame_word frame self_mode) (\<lambda>self_mode.
       Option.bind (frame_word frame children_mode) (\<lambda>children_mode.
       Option.bind (gh_std_fsrequest env al AT_FDCWD path self_mode children_mode True st) (\<lambda>(res, would_prompt, st).
       if ghr_iserr res then failhere res (frame, st)
       else
         map_option (\<lambda>(ok, frame). (frame, st))
           (gh_rpcframe_setreturnv frame [if would_prompt then CHR 0x00 else CHR 0x01]))))))))"

text \<open>
  The process that continues after \<^verbatim>\<open>gh_std_execute\<close> is the parent; the child does not return, which is
  \<open>None\<close>. \<open>environ\<close> is the environment of the process.
\<close>

definition with_returns :: "('a outcome \<times> trace) option \<Rightarrow> ('a \<Rightarrow> trace \<Rightarrow> 'b option) \<Rightarrow> 'b option" where
  "with_returns m k = Option.bind m (\<lambda>(out, tr). case out of Returns x \<Rightarrow> k x tr | _ \<Rightarrow> None)"

text \<open>The command of the two functions; \<open>back\<close> is 1 when the NUL is stored in the last byte.\<close>

definition with_command ::
  "size_t \<Rightarrow> (string \<Rightarrow> ('g, 'h, 'x) std_frame_state \<Rightarrow> ('g, 'h, 'x) std_frame_state option) \<Rightarrow>
   ('g, 'h, 'x) std_frame_state \<Rightarrow> ('g, 'h, 'x) std_frame_state option" where
  "with_command back k st =
     (case st of (frame, s) \<Rightarrow>
      Option.bind (gh_rpcframe_argbufv frame 0) (\<lambda>(ok, ptr, n).
      if \<not> ok then failhere (ghr_errnoval GHR_RPCF_ARG0 EINVAL) st
      else if n > of_nat GH_PERMEXEC_CMDLINEMAX then failhere (ghr_errnoval GHR_RPCF_ARG0 EFBIG) st
      else
        Option.bind ptr (\<lambda>p.
        Option.bind (if n > 0 then frame_store frame (Some (p + n - back)) [NUL] else Some frame) (\<lambda>frame.
        Option.bind (frame_string frame p) (\<lambda>cmd. k cmd (frame, s))))))"

definition ghost_execute ::
  "env \<Rightarrow> gh_alloc \<Rightarrow> string list \<Rightarrow> ('g, 'h, 'x) std_frame_state \<Rightarrow> ('g, 'h, 'x) std_frame_state option" where
  "ghost_execute env al environ =
     with_command 0 (\<lambda>cmd (frame, st).
       with_returns (gh_std_execute env al AT_FDCWD cmd environ True False st) (\<lambda>(res, status, _, thread) tr.
       if ghr_iserr res then failhere res (frame, thread, tr)
       else
         map_option (\<lambda>(ok, frame). (frame, thread, tr))
           (gh_rpcframe_setreturnv frame
              (le_bytes 4 (case status of Some n \<Rightarrow> n | None \<Rightarrow> unat (- 1 :: c_int))))))"

definition ghost_popen ::
  "env \<Rightarrow> gh_alloc \<Rightarrow> string list \<Rightarrow> ('g, 'h, 'x) std_frame_state \<Rightarrow> ('g, 'h, 'x) std_frame_state option" where
  "ghost_popen env al environ =
     with_command 1 (\<lambda>cmd (frame, st).
       with_returns (gh_std_execute env al AT_FDCWD cmd environ False True st) (\<lambda>(res, _, ptyfd, thread) tr.
       if ghr_iserr res then failhere res (frame, thread, tr)
       else Some (gh_rpcframe_setreturnfd frame (case ptyfd of Some fd \<Rightarrow> fd | None \<Rightarrow> - 1), thread, tr)))"

text \<open>The call through the function pointer; \<open>app\<close> are the functions of the application.\<close>

definition std_run ::
  "env \<Rightarrow> gh_alloc \<Rightarrow> string list \<Rightarrow>
   ('x \<Rightarrow> ('g, 'h, 'x) std_frame_state \<Rightarrow> ('g, 'h, 'x) std_frame_state option) \<Rightarrow>
   ('g, 'h, 'x std_function) thread_run" where
  "std_run env al environ app func st =
     (case func of
        GhostOpen \<Rightarrow> ghost_open env al st
      | GhostRename \<Rightarrow> ghost_rename env al st
      | GhostOpentemp \<Rightarrow> ghost_opentemp env al st
      | GhostRemove \<Rightarrow> ghost_remove env al st
      | GhostFsrequest \<Rightarrow> ghost_fsrequest env al st
      | GhostFshas \<Rightarrow> ghost_fshas env al st
      | GhostExecute \<Rightarrow> ghost_execute env al environ st
      | GhostPopen \<Rightarrow> ghost_popen env al environ st
      | AppFunction x \<Rightarrow> app x st)"

section \<open>Registration\<close>

definition std_functions :: "(string \<times> 'x std_function) list" where
  "std_functions =
     [(''ghost.open'', GhostOpen), (''ghost.rename'', GhostRename), (''ghost.opentemp'', GhostOpentemp),
      (''ghost.remove'', GhostRemove), (''ghost.perm.fsrequest'', GhostFsrequest),
      (''ghost.perm.fshas'', GhostFshas), (''ghost.execute'', GhostExecute), (''ghost.popen'', GhostPopen)]"

fun std_registerall ::
  "env \<Rightarrow> gh_alloc \<Rightarrow> ('x std_function gh_rpcfunction \<Rightarrow> nat) \<Rightarrow> (string \<times> 'x std_function) list \<Rightarrow> gh_result \<Rightarrow>
   'x std_function gh_rpc \<times> trace \<Rightarrow> (gh_result \<times> ('x std_function gh_rpc \<times> trace)) option" where
  "std_registerall env al destroy [] res st = Some (res, st)"
| "std_registerall env al destroy ((name, func) # fs) res st =
     (case st of (rpc, tr) \<Rightarrow>
      Option.bind (gh_rpc_register env al destroy rpc name func GH_RPCFUNCTION_THREADSAFE tr) (\<lambda>(res, st).
      if ghr_iserr res then Some (res, st) else std_registerall env al destroy fs res st))"

definition gh_std_registerinrpc ::
  "env \<Rightarrow> gh_alloc \<Rightarrow> ('x std_function gh_rpcfunction \<Rightarrow> nat) \<Rightarrow> 'x std_function gh_rpc \<times> trace \<Rightarrow>
   (gh_result \<times> ('x std_function gh_rpc \<times> trace)) option" where
  "gh_std_registerinrpc env al destroy st = std_registerall env al destroy std_functions GHR_OK st"

end
