(* ===== verification/StdFacts.thy ===== *)
theory StdFacts
  imports GateCalls StdRpc
begin

text \<open>
  The standard library acts only on what a gate has let pass: a call that opens, renames or removes a
  file was made after the gate of the thread granted this operation on this path descriptor, a
  temporary file is opened after the gate granted the modes of its flags, and the shell is started
  after the gate for programs passed it. Every other call is one of a list of harmless ones.
\<close>

section \<open>Calls that need a permission\<close>

text \<open>
  The other calls: they look at files, what they open only stands for a path, they read what is open,
  hash it, and ask the user. Nothing is sent to another process, or written to its memory.
\<close>

definition file_harmless :: "call \<Rightarrow> bool" where
  "file_harmless c \<longleftrightarrow>
     (case c of
        Open _ flags \<Rightarrow> flags AND O_PATH \<noteq> 0
      | Openat _ _ flags _ \<Rightarrow> flags AND O_PATH \<noteq> 0
      | Close _ \<Rightarrow> True | Fstat _ \<Rightarrow> True | Readlinkat _ _ _ \<Rightarrow> True | Time \<Rightarrow> True
      | Read _ _ \<Rightarrow> True | Lseek _ _ _ \<Rightarrow> True
      | EvpCtxNew \<Rightarrow> True | EvpDigestInit \<Rightarrow> True | EvpDigestUpdate _ \<Rightarrow> True | OpensslMalloc \<Rightarrow> True
      | EvpDigestFinal _ \<Rightarrow> True
      | AskPrompter _ \<Rightarrow> True | Terminal _ \<Rightarrow> True
      | _ \<Rightarrow> False)"

interpretation file_gate: gate_calls file_harmless
  by unfold_locales (simp_all add: file_harmless_def)

text \<open>
  What a gate asks for: at some time the policy of the thread rejected none of the mode for the path of
  the descriptor, and it accepted all of it or the prompter accepted a request made for this path. The
  request is for what the policy leaves open - or, when one of these flags is in the prompt set, for the
  whole prompt set.
\<close>

definition gate_granted ::
  "env \<Rightarrow> gh_alloc \<Rightarrow> ('g, 'h, 'f) gh_thread \<Rightarrow> gh_pathfd \<Rightarrow> gh_permfs_mode \<Rightarrow> bool" where
  "gate_granted env al thread pathfd mode \<longleftrightarrow>
     (\<exists>tr path tr1 ms ch tr2.
        gh_procfd_fdpathctor env al (ps_procfd (th_perms thread)) pathfd tr = Some (GHR_OK, (Some path, tr1)) \<and>
        gh_permfs_getmode env (ps_filesystem (th_perms thread)) (pf_fd pathfd) path tr1 =
          Some (GHR_OK, ((ms, ch), tr2)) \<and>
        mode_reject ms AND mode = 0 \<and>
        (mode \<noteq> 0 \<and> mode_accept ms AND mode = mode \<or>
         (\<exists>node_type hint req resp tr3 tr4.
            permfs_makerequest (th_safe_id thread) path node_type hint (mode_asked ms mode) 0 = Some (GHR_OK, req) \<and>
            gh_permprompter_request (ps_prompter (th_perms thread)) env req tr3 = Some (GHR_OK, (Some resp, tr4)) \<and>
            (resp = GH_PERMRESPONSE_ACCEPT \<or> resp = GH_PERMRESPONSE_ACCEPTREMEMBER))))"

lemma gate_grantedI:
  assumes "std_gatefile env al pathfd mode hint (thread, tr) = Some (0, st)"
  shows "gate_granted env al thread pathfd mode"
proof -
  obtain permfs tr' where "gh_permfs_gatefile env al (ps_prompter (th_perms thread)) (ps_procfd (th_perms thread))
      (th_safe_id thread) pathfd mode hint (ps_filesystem (th_perms thread), tr) = Some (GHR_OK, (permfs, tr'))"
    using assms by (auto simp: std_gatefile_def std_lift_def gh_perms_gatefile_def)
  from gate_ok [OF this] show ?thesis
    unfolding gate_granted_def mode_allowed_def by metis
qed

lemma pathfd_eta [simp]: "\<lparr>pf_fd = pf_fd p, pf_trailing = pf_trailing p\<rparr> = (p :: gh_pathfd)"
  by (cases p) simp

text \<open>
  The three ways in which a file is opened, each after its gate. The temporary file is the one of the
  path descriptor that the gate was asked about, for the mode of the flags that were asked for; it is
  opened for reading and writing whatever these were.
\<close>

definition opens_granted ::
  "env \<Rightarrow> gh_alloc \<Rightarrow> ('g, 'h, 'f) gh_thread \<Rightarrow> int \<Rightarrow> string \<Rightarrow> c_int \<Rightarrow> mode_t \<Rightarrow> bool" where
  "opens_granted env al thread d s flags create_mode \<longleftrightarrow>
     (\<exists>pathfd mode.
        gh_permfs_fcntlflags2permfsmode flags create_mode pathfd = (GHR_OK, Some mode) \<and>
        gate_granted env al thread pathfd mode \<and>
        (gh_pathfd_guaranteedtoexist pathfd \<and> procfd_getfdfilename pathfd = (GHR_OK, s) \<or>
         \<not> gh_pathfd_guaranteedtoexist pathfd \<and> d = pf_fd pathfd \<and> s = cstr (pf_trailing pathfd)))"

definition opens_tempfile ::
  "env \<Rightarrow> gh_alloc \<Rightarrow> ('g, 'h, 'f) gh_thread \<Rightarrow> int \<Rightarrow> string \<Rightarrow> c_int \<Rightarrow> mode_t \<Rightarrow> bool" where
  "opens_tempfile env al thread d s flags create_mode \<longleftrightarrow>
     flags = O_RDWR OR O_CREAT \<and> create_mode = 0 \<and>
     (\<exists>asked_flags pathfd mode tr tr1.
        gh_pathfd_open env d s pathfd_zero (std_openmode asked_flags) tr = (GHR_OK, (pathfd, tr1)) \<and>
        gh_permfs_fcntlflags2permfsmode asked_flags 0x1A4 pathfd = (GHR_OK, Some mode) \<and>
        gate_granted env al thread pathfd mode)"

text \<open>The shell is opened for reading before the gate for programs, which hashes it.\<close>

definition shell_opened :: "env \<Rightarrow> gh_pathfd \<Rightarrow> trace \<Rightarrow> bool" where
  "shell_opened env pathfd tr1 \<longleftrightarrow>
     (\<exists>dirfd tr. gh_pathfd_open env dirfd ''/bin/sh'' pathfd_zero GH_PATHFD_RESOLVELINKS tr = (GHR_OK, (pathfd, tr1)))"

definition reads_shell ::
  "env \<Rightarrow> ('g, 'h, 'f) gh_thread \<Rightarrow> int \<Rightarrow> string \<Rightarrow> c_int \<Rightarrow> mode_t \<Rightarrow> bool" where
  "reads_shell env thread d s flags create_mode \<longleftrightarrow>
     flags = O_RDONLY \<and> create_mode = 0 \<and>
     (\<exists>pathfd tr1 a res fd.
        shell_opened env pathfd tr1 \<and>
        gh_procfd_reopen env (ps_procfd (th_perms thread)) pathfd O_RDONLY 0 tr1 = (res, (fd, (Openat d s flags create_mode, a) # tr1)))"

text \<open>The gate for programs has let the shell pass, with a script.\<close>

definition shell_passed :: "env \<Rightarrow> gh_alloc \<Rightarrow> string list \<Rightarrow> ('g, 'h, 'f) gh_thread \<Rightarrow> bool" where
  "shell_passed env al environ thread \<longleftrightarrow>
     (\<exists>pathfd tr1 script st.
        shell_opened env pathfd tr1 \<and>
        std_gateexec env al pathfd (shell_argv script) environ (thread, tr1) = Some (GHR_OK, st))"

definition std_granted :: "env \<Rightarrow> gh_alloc \<Rightarrow> string list \<Rightarrow> ('g, 'h, 'f) gh_thread \<Rightarrow> call \<Rightarrow> bool" where
  "std_granted env al environ thread c \<longleftrightarrow>
     (case c of
        Unlinkat d n _ \<Rightarrow> gate_granted env al thread \<lparr>pf_fd = d, pf_trailing = n\<rparr> GH_PERMFS_UNLINK
      | Renameat2 d n d' n' flags \<Rightarrow>
          flags = RENAME_NOREPLACE \<and>
          (\<exists>tr thread' tr'.
             std_gatefile env al \<lparr>pf_fd = d, pf_trailing = n\<rparr> GH_PERMFS_MOVE None (thread, tr) =
               Some (GHR_OK, (thread', tr')) \<and>
             gate_granted env al thread \<lparr>pf_fd = d, pf_trailing = n\<rparr> GH_PERMFS_MOVE \<and>
             gate_granted env al thread' \<lparr>pf_fd = d', pf_trailing = n'\<rparr> GH_PERMFS_CREATEFILE)
      | Openat d s flags create_mode \<Rightarrow>
          opens_granted env al thread d s flags create_mode \<or> opens_tempfile env al thread d s flags create_mode \<or>
          reads_shell env thread d s flags create_mode
      | Fork \<Rightarrow> shell_passed env al environ thread
      | Openpty \<Rightarrow> shell_passed env al environ thread
      | Waitpid _ \<Rightarrow> shell_passed env al environ thread
      | _ \<Rightarrow> False)"

text \<open>Every call that was added needs no permission or has it.\<close>

definition acts_granted :: "env \<Rightarrow> gh_alloc \<Rightarrow> string list \<Rightarrow> ('g, 'h, 'f) gh_thread \<Rightarrow> trace \<Rightarrow> trace \<Rightarrow> bool" where
  "acts_granted env al environ thread tr tr' \<longleftrightarrow> extends (\<lambda>c. file_harmless c \<or> std_granted env al environ thread c) tr tr'"

lemma harmless_acts: "extends file_harmless tr tr' \<Longrightarrow> acts_granted env al environ thread tr tr'"
  unfolding acts_granted_def by (erule extends_mono) auto

lemma acts_refl [simp, intro]: "acts_granted env al environ thread tr tr"
  by (simp add: acts_granted_def)

lemma acts_call:
  "acts_granted env al environ thread tr tr' \<Longrightarrow> file_harmless c \<or> std_granted env al environ thread c \<Longrightarrow>
   acts_granted env al environ thread tr ((c, a) # tr')"
  unfolding acts_granted_def by auto

lemma acts_then: "acts_granted env al environ thread tr tr1 \<Longrightarrow> extends file_harmless tr1 tr2 \<Longrightarrow> acts_granted env al environ thread tr tr2"
  using harmless_acts unfolding acts_granted_def by (metis extends_trans)

section \<open>Path descriptors\<close>

lemma path_opens_harmless [simp]:
  "file_harmless (Openat d s 0x200000 m)" "file_harmless (Openat d s 0x210000 m)" "file_harmless (Openat d s 0x220000 m)"
  by (simp_all add: file_harmless_def)

lemma opentrailing_extends:
  assumes "gh_pathfd_opentrailing env dirfd path pf tr = (res, (pf', tr'))"
  shows "extends file_harmless tr tr'"
  using assms by (auto simp: gh_pathfd_opentrailing_def syscall_pair Let_def intro!: extends_call split: if_splits)

lemma pathfd_open_extends:
  assumes "gh_pathfd_open env dirfd path pf mode tr = (res, (pf', tr'))"
  shows "extends file_harmless tr tr'"
proof -
  have o: "extends file_harmless tr0 tr'"
    if "gh_pathfd_opentrailing env dirfd path pf1 tr1 = (res, (pf', tr'))" "extends file_harmless tr0 tr1" for pf1 tr1 tr0
    using opentrailing_extends [OF that(1)] that(2) by (rule extends_trans [rotated])
  show ?thesis
    using assms
    by (auto simp: gh_pathfd_open_def syscall_pair Let_def dest!: o [where ?tr0.0 = tr] intro!: extends_call split: if_splits)
qed

lemma close_extends: "std_close env pathfd res tr = (res', tr') \<Longrightarrow> extends file_harmless tr tr'"
  by (auto simp: std_close_def gh_pathfd_close_def syscall_pair Let_def file_harmless_def intro!: extends_call
      split: if_splits)

section \<open>The gate of a thread\<close>

definition thread_quiet :: "('g, 'h, 'f) gh_thread \<Rightarrow> bool" where
  "thread_quiet thread \<longleftrightarrow> prompter_calls file_harmless (ps_prompter (th_perms thread))"

lemma gatefile_prompter:
  assumes "std_gatefile env al pathfd mode hint (thread, tr) = Some (res, (thread', tr'))"
  shows "ps_prompter (th_perms thread') = ps_prompter (th_perms thread) \<and> rpc_thread thread' = rpc_thread thread"
  using assms by (auto simp: std_gatefile_def std_lift_def gh_perms_gatefile_def put_filesystem_def rpc_thread_def)

lemma std_gatefile_extends:
  assumes "thread_quiet thread"
  shows "gives (std_gatefile env al pathfd mode hint (thread, tr))
    (\<lambda>(res, thread', tr'). extends file_harmless tr tr' \<and> thread_quiet thread' \<and> rpc_thread thread' = rpc_thread thread)"
  unfolding gives_def
proof (intro allI impI)
  fix x assume s: "std_gatefile env al pathfd mode hint (thread, tr) = Some x"
  obtain res thread' tr' where x: "x = (res, (thread', tr'))" by (metis prod_cases3)
  from s x obtain perms' where
    "gh_perms_gatefile env al (th_safe_id thread) pathfd mode hint (th_perms thread, tr) = Some (res, (perms', tr'))"
    by (auto simp: std_gatefile_def std_lift_def)
  with file_gate.perms_gatefile_extends [of "th_perms thread" tr tr env al "th_safe_id thread" pathfd mode hint] assms
  have "extends file_harmless tr tr'" by (auto simp: thread_quiet_def gives_def)
  then show "case x of (res, thread', tr') \<Rightarrow>
      extends file_harmless tr tr' \<and> thread_quiet thread' \<and> rpc_thread thread' = rpc_thread thread"
    using assms gatefile_prompter [OF s [unfolded x]] x by (simp add: thread_quiet_def)
qed

lemma gate_use:
  assumes "thread_quiet thread"
    and "\<And>res thread' tr'. std_gatefile env al pathfd mode hint (thread, tr) = Some (res, (thread', tr')) \<Longrightarrow>
       extends file_harmless tr tr' \<Longrightarrow> thread_quiet thread' \<Longrightarrow> rpc_thread thread' = rpc_thread thread \<Longrightarrow> gives (k (res, (thread', tr'))) Q"
  shows "gives (Option.bind (std_gatefile env al pathfd mode hint (thread, tr)) k) Q"
  using std_gatefile_extends [OF assms(1), of env al pathfd mode hint tr] assms(2)
  by (cases "std_gatefile env al pathfd mode hint (thread, tr)") auto

lemma gate_use_map:
  assumes "thread_quiet thread"
    and "\<And>res thread' tr'. std_gatefile env al pathfd mode hint (thread, tr) = Some (res, (thread', tr')) \<Longrightarrow>
       extends file_harmless tr tr' \<Longrightarrow> thread_quiet thread' \<Longrightarrow> rpc_thread thread' = rpc_thread thread \<Longrightarrow> Q (f (res, (thread', tr')))"
  shows "gives (map_option f (std_gatefile env al pathfd mode hint (thread, tr))) Q"
  using std_gatefile_extends [OF assms(1), of env al pathfd mode hint tr] assms(2)
  by (cases "std_gatefile env al pathfd mode hint (thread, tr)") auto

section \<open>The operations\<close>

lemma acts_close:
  "std_close env pathfd res tr1 = (res', tr') \<Longrightarrow> acts_granted env al environ thread tr tr1 \<Longrightarrow> acts_granted env al environ thread tr tr'"
  by (rule acts_then) (auto dest: close_extends)

lemma unlinkat_acts:
  assumes "thread_quiet thread"
  shows "gives (gh_std_unlinkat env al dirfd path (thread, tr)) (\<lambda>(res, thread', tr'). acts_granted env al environ thread tr tr' \<and> rpc_thread thread' = rpc_thread thread)"
proof -
  obtain res pathfd tr1 where o: "gh_pathfd_opentrailing env dirfd path pathfd_zero tr = (res, (pathfd, tr1))"
    by (metis prod_cases3)
  have 1: "acts_granted env al environ thread tr tr1" using opentrailing_extends [OF o] by (rule harmless_acts)
  have g: "acts_granted env al environ thread tr ((Unlinkat (pf_fd pathfd) (pf_trailing pathfd) 0, a) # tr2)"
    if "std_gatefile env al pathfd GH_PERMFS_UNLINK None (thread, tr1) = Some (0, st)" "extends file_harmless tr1 tr2"
    for st a tr2
    using gate_grantedI [OF that(1)] acts_then [OF 1 that(2)] by (auto simp: std_granted_def intro!: acts_call)
  show ?thesis
    unfolding gh_std_unlinkat_def prod.case o Let_def
    by (intro gives_intros gate_use_map)
      (auto simp: assms 1 syscall_pair ghr_simps intro: g acts_then [OF 1] dest: acts_close split: prod.splits if_splits)
qed

lemma openat_acts:
  assumes "thread_quiet thread"
  shows "gives (gh_std_openat env al dirfd path flags create_mode (thread, tr))
    (\<lambda>(res, fd, thread', tr'). acts_granted env al environ thread tr tr' \<and> rpc_thread thread' = rpc_thread thread)"
proof -
  obtain res pathfd tr1 where o: "gh_pathfd_open env dirfd path pathfd_zero (std_openmode flags) tr = (res, (pathfd, tr1))"
    by (metis prod_cases3)
  have 1: "acts_granted env al environ thread tr tr1" using pathfd_open_extends [OF o] by (rule harmless_acts)
  have r: "acts_granted env al environ thread tr tr3"
    if m: "gh_permfs_fcntlflags2permfsmode flags create_mode pathfd = (res0, Some mode)"
      and g: "std_gatefile env al pathfd mode None (thread, tr1) = Some (0, st)" and e: "extends file_harmless tr1 tr2"
      and p: "gh_procfd_reopen env procfd pathfd flags create_mode tr2 = (res1, (fd, tr3))"
    for res0 mode st tr2 procfd res1 fd tr3
  proof -
    have m0: "gh_permfs_fcntlflags2permfsmode flags create_mode pathfd = (0, Some mode)"
      using m by (auto simp: gh_permfs_fcntlflags2permfsmode_def Let_def split: option.splits prod.splits if_splits)
    have gg: "gate_granted env al thread pathfd mode" using g by (rule gate_grantedI)
    have a: "acts_granted env al environ thread tr tr2" using 1 e by (rule acts_then)
    have c: "std_granted env al environ thread (Openat d s flags create_mode)"
      if "gh_pathfd_guaranteedtoexist pathfd \<and> procfd_getfdfilename pathfd = (0, s) \<or>
        \<not> gh_pathfd_guaranteedtoexist pathfd \<and> d = pf_fd pathfd \<and> s = cstr (pf_trailing pathfd)" for d s
      using m0 gg that unfolding std_granted_def opens_granted_def call.case by blast
    from p show ?thesis
      using a
      by (auto simp: gh_procfd_reopen_def syscall_pair Let_def ghr_simps intro!: acts_call c
          split: if_splits prod.splits)
  qed
  show ?thesis
    unfolding gh_std_openat_def prod.case o Let_def
    by (intro gives_intros gate_use_map)
      (auto simp: assms 1 ghr_simps intro: acts_then [OF 1] dest!: r dest: acts_close split: prod.splits if_splits)
qed

lemma acts_trailing:
  "gh_pathfd_opentrailing env dirfd path pf tr1 = (res, (pf', tr2)) \<Longrightarrow> acts_granted env al environ thread tr tr1 \<Longrightarrow>
   acts_granted env al environ thread tr tr2"
  by (rule acts_then) (auto dest: opentrailing_extends)

lemma acts_rename:
  assumes "std_gatefile env al pf1 GH_PERMFS_MOVE None (thread, tr1) = Some (0, (thread', tr2))"
    and "std_gatefile env al pf2 GH_PERMFS_CREATEFILE None (thread', tr3) = Some (0, st)"
    and "acts_granted env al environ thread tr tr4"
  shows "acts_granted env al environ thread tr ((Renameat2 (pf_fd pf1) (pf_trailing pf1) (pf_fd pf2) (pf_trailing pf2) 1, a) # tr4)"
proof -
  have "std_granted env al environ thread (Renameat2 (pf_fd pf1) (pf_trailing pf1) (pf_fd pf2) (pf_trailing pf2) 1)"
    using assms(1) gate_grantedI [OF assms(1)] gate_grantedI [OF assms(2)] unfolding std_granted_def call.case pathfd_eta by blast
  with assms(3) show ?thesis by (simp add: acts_call)
qed

lemma rename_last_acts:
  assumes "rename_last env pf1 pf2 res tr1 = (res', tr')" "acts_granted env al environ thread tr tr1"
    and "std_gatefile env al pf1 GH_PERMFS_MOVE None (thread, tr2) = Some (0, (thread', tr3))"
    and "std_gatefile env al pf2 GH_PERMFS_CREATEFILE None (thread', tr4) = Some (res, st)"
  shows "acts_granted env al environ thread tr tr'"
proof -
  define c where "c = Renameat2 (pf_fd pf1) (pf_trailing pf1) (pf_fd pf2) (pf_trailing pf2) RENAME_NOREPLACE"
  let ?r = "if ghr_iserr res then (res, tr1)
     else (if an_ret (env tr1 c) < 0 then ghr_errno GHR_STD_RENAME (env tr1 c) else res, (c, env tr1 c) # tr1)"
  obtain r2 tr2 where 2: "std_close env pf2 (fst ?r) (snd ?r) = (r2, tr2)" by (metis prod.exhaust)
  have "acts_granted env al environ thread tr (snd ?r)"
    using assms(2-4)
    by (auto simp: ghr_simps c_def intro: acts_rename)
  from acts_close [OF 2 this] have "acts_granted env al environ thread tr tr2" .
  moreover have "std_close env pf1 r2 tr2 = (res', tr')"
    using assms(1) 2 by (simp add: rename_last_def c_def syscall_pair Let_def split: if_splits)
  ultimately show ?thesis by (rule acts_close [rotated])
qed

lemma rename_acts:
  assumes "thread_quiet thread"
  shows "gives (gh_std_rename env al fd1 path1 fd2 path2 (thread, tr)) (\<lambda>(res, thread', tr'). acts_granted env al environ thread tr tr' \<and> rpc_thread thread' = rpc_thread thread)"
proof -
  obtain res pf1 tr1 where o: "gh_pathfd_opentrailing env fd1 path1 pathfd_zero tr = (res, (pf1, tr1))"
    by (metis prod_cases3)
  have 1: "acts_granted env al environ thread tr tr1" using opentrailing_extends [OF o] by (rule harmless_acts)
  have last: "acts_granted env al environ thread tr tr'"
    if "std_gatefile env al pf1 GH_PERMFS_MOVE None (thread, tr1) = Some (0, (thread', tr2))" "extends file_harmless tr1 tr2"
      and "gh_pathfd_opentrailing env fd2 path2 pathfd_zero tr2 = (res2, (pf2, tr3))"
      and "std_gatefile env al pf2 GH_PERMFS_CREATEFILE None (thread', tr3) = Some (r, (thread'', tr4))" "extends file_harmless tr3 tr4"
      and "rename_last env pf1 pf2 r tr4 = (r', tr')"
    for thread' tr2 res2 pf2 tr3 r thread'' tr4 r' tr'
    using rename_last_acts [OF that(6) acts_then [OF acts_trailing [OF that(3) acts_then [OF 1 that(2)]] that(5)] that(1,4)] .
  show ?thesis
    unfolding gh_std_rename_def prod.case o Let_def
    by (intro gives_intros gate_use gate_use_map)
      (auto simp: assms 1 ghr_simps intro: acts_then [OF 1] dest: acts_close acts_trailing last split: prod.splits)
qed

lemma fsrequest_acts:
  assumes "thread_quiet thread"
  shows "gives (gh_std_fsrequest env al dirfd path self_mode children_mode dry (thread, tr))
    (\<lambda>(res, would, thread', tr'). acts_granted env al environ thread tr tr' \<and> rpc_thread thread' = rpc_thread thread)"
proof -
  obtain res pathfd tr1 where o: "gh_pathfd_open env dirfd path pathfd_zero 1 tr = (res, (pathfd, tr1))"
    by (metis prod_cases3)
  have 1: "acts_granted env al environ thread tr tr1" using pathfd_open_extends [OF o] by (rule harmless_acts)
  have rt: "rpc_thread (thread\<lparr>th_perms := p\<rparr>) = rpc_thread thread" for p by (simp add: rpc_thread_def)
  have g: "gives (gh_perms_fsrequest env al (th_safe_id thread) pathfd self_mode children_mode (Some ''future'') dry
      (th_perms thread, tr1)) (\<lambda>(res, would, perms, tr'). extends file_harmless tr1 tr')"
    using file_gate.perms_fsrequest_extends [of "th_perms thread" tr1 tr1] assms by (simp add: thread_quiet_def)
  show ?thesis
    unfolding gh_std_fsrequest_def prod.case o Let_def
    by (intro gives_intros gives_map [OF g]) (auto simp: 1 rt intro: acts_then [OF 1] dest: acts_close split: prod.splits)
qed

section \<open>Temporary files\<close>

lemma acts_trans: "acts_granted env al environ thread tr tr1 \<Longrightarrow> acts_granted env al environ thread tr1 tr2 \<Longrightarrow> acts_granted env al environ thread tr tr2"
  unfolding acts_granted_def by (rule extends_trans)

lemma closefd_acts:
  "opentemp_closefd env tmp_fd new_fd res tr1 = (res', tr') \<Longrightarrow> acts_granted env al environ thread tr tr1 \<Longrightarrow>
   acts_granted env al environ thread tr tr'"
  by (auto simp: opentemp_closefd_def syscall_pair Let_def file_harmless_def intro!: acts_call split: if_splits)

lemma random_str_acts:
  "random_str env n tr1 = (s, tr') \<Longrightarrow> acts_granted env al environ thread tr tr1 \<Longrightarrow> acts_granted env al environ thread tr tr'"
  by (auto simp: random_str_def syscall_pair file_harmless_def intro!: acts_call)

lemma open_tmp_acts: "acts_granted env al environ thread tr ((Open ''/tmp'' 0x210000, a) # tr)"
  by (rule acts_call) (simp_all add: file_harmless_def)

lemma pathfd_open_acts:
  "gh_pathfd_open env d s pf mode tr1 = (res, (pf', tr')) \<Longrightarrow> acts_granted env al environ thread tr tr1 \<Longrightarrow>
   acts_granted env al environ thread tr tr'"
  by (rule acts_then) (auto dest: pathfd_open_extends)

lemma tempfile_acts:
  assumes "gh_pathfd_open env d s pathfd_zero (std_openmode flags) tr0 = (0, (pathfd, tr1))"
    and "gh_permfs_fcntlflags2permfsmode flags 0x1A4 pathfd = (r, Some mode)"
    and "std_gatefile env al pathfd mode hint (thread, tr2) = Some (0, st)"
    and "acts_granted env al environ thread tr tr3"
  shows "acts_granted env al environ thread tr ((Openat d s 66 0, a) # tr3)"
proof (rule acts_call [OF assms(4)])
  have "gh_permfs_fcntlflags2permfsmode flags 0x1A4 pathfd = (0, Some mode)"
    using assms(2) by (auto simp: gh_permfs_fcntlflags2permfsmode_def Let_def split: option.splits prod.splits if_splits)
  with assms(1) gate_grantedI [OF assms(3)] have "opens_tempfile env al thread d s 66 0"
    unfolding opens_tempfile_def by auto
  then show "file_harmless (Openat d s 66 0) \<or> std_granted env al environ thread (Openat d s 66 0)"
    by (simp add: std_granted_def)
qed

lemma opentemp_acts:
  assumes "thread_quiet thread"
  shows "gives (gh_std_opentemp env al pfx flags (thread, tr))
    (\<lambda>(res, tempfile, thread', tr'). acts_granted env al environ thread tr tr' \<and> rpc_thread thread' = rpc_thread thread)"
proof -
  let ?c = "Open ''/tmp'' (O_PATH OR O_DIRECTORY)"
  let ?tr0 = "(?c, env tr ?c) # tr"
  obtain suffix tr1 where r: "random_str env 16 ?tr0 = (suffix, tr1)" by (metis prod.exhaust)
  define d where "d = an_ret (env tr ?c)"
  define name where "name = cstr pfx @ suffix"
  obtain res pathfd tr2 where o: "gh_pathfd_open env d name pathfd_zero (std_openmode flags) tr1 = (res, (pathfd, tr2))"
    by (metis prod_cases3)
  have 0: "acts_granted env al environ thread tr ?tr0" using open_tmp_acts by simp
  have 2: "acts_granted env al environ thread tr tr2"
    using pathfd_open_acts [OF o random_str_acts [OF r 0]] .
  have e: "acts_granted env al environ thread tr tr'"
    if "std_gatefile env al pathfd mode hint (thread, tr2) = Some (gres, (thread', tr3))" "extends file_harmless tr2 tr3"
      "extends file_harmless tr3 tr'" for mode hint gres thread' tr3 tr'
    using acts_then [OF acts_then [OF 2 that(2)] that(3)] .
  show ?thesis
    unfolding gh_std_opentemp_def prod.case syscall_pair Let_def r d_def [symmetric] name_def [symmetric] o
    by (intro gives_intros gate_use [OF assms] gives_use [OF file_gate.fdpathctor_extends])
      (auto simp: open_tmp_acts ghr_simps r o name_def [symmetric] intro: 2 e acts_then [OF 2] tempfile_acts [of env d name flags tr1 pathfd tr2]
        elim!: closefd_acts
        split: prod.splits if_splits)
qed

section \<open>Programs\<close>

lemma sha256_buffer_extends: "gh_sha256_buffer env n buffer tr = (res, (h, tr')) \<Longrightarrow> extends file_harmless tr tr'"
  by (auto simp: gh_sha256_buffer_def syscall_pair Let_def file_harmless_def intro!: extends_call split: if_splits)

lemma sha256_buffer_then:
  "extends file_harmless tr tr1 \<Longrightarrow> extends file_harmless tr (snd (snd (gh_sha256_buffer env n buffer tr1)))"
  using sha256_buffer_extends [of env n buffer tr1] by (metis extends_trans prod.collapse)

lemma sha256_fd_extends: "gh_sha256_fd env al fd tr = (res, (h, tr')) \<Longrightarrow> extends file_harmless tr tr'"
proof -
  have f: "snd (sha256_free_buffer al n r) = snd r" for al :: gh_alloc and n and r :: "gh_result \<times> gh_sha256 option \<times> trace"
    by (simp add: sha256_free_buffer_def Let_def)
  have h: "file_harmless (Lseek fd n w)" "file_harmless (Read fd m)" for n w m by (simp_all add: file_harmless_def)
  have "extends file_harmless tr (snd (snd (gh_sha256_fd env al fd tr)))"
    by (simp add: gh_sha256_fd_def syscall_pair Let_def f sha256_buffer_then extends_call h split: prod.split)
  moreover assume "gh_sha256_fd env al fd tr = (res, (h, tr'))"
  ultimately show "extends file_harmless tr tr'" by simp
qed

lemma hash_args_extends: "gives (hash_args env argv i argc acc tr) (\<lambda>(res, buffer, tr'). extends file_harmless tr tr')"
proof (induction env argv i argc acc tr rule: hash_args.induct)
  case (1 env argv i argc acc tr)
  show ?case
  proof (cases "i < argc \<and> i < length argv")
    case True
    obtain res h tr1 where b: "gh_sha256_buffer env (strlen (argv ! i)) (argv ! i) tr = (res, (h, tr1))" by (metis prod_cases3)
    note e = sha256_buffer_extends [OF b]
    show ?thesis
    proof (cases "ghr_iserr res \<or> h = None")
      case err: True
      with True b e show ?thesis by (subst hash_args.simps) (auto split: option.splits)
    next
      case False
      then obtain ah where h: "h = Some ah" "\<not> ghr_iserr res" by auto
      from 1 [OF _ _ refl refl b [symmetric] refl refl h(2) h(1)] True
      have "gives (hash_args env argv (Suc i) argc (acc @ ah) tr1) (\<lambda>(res, buffer, tr'). extends file_harmless tr1 tr')" by simp
      then show ?thesis
        using True b h e by (subst hash_args.simps) (auto simp: gives_def intro: extends_trans)
    qed
  next
    case False
    then show ?thesis by (subst hash_args.simps) auto
  qed
qed

lemma hash_build_extends:
  "gives (gh_permexec_hash_build env al fd argc argv tr) (\<lambda>(res, h, tr'). extends file_harmless tr tr')"
proof -
  obtain res h tr1 where b: "gh_sha256_fd env al fd tr = (res, (h, tr1))" by (metis prod_cases3)
  have e: "extends file_harmless tr tr1" by (rule sha256_fd_extends [OF b])
  have e2: "extends file_harmless tr tr3"
    if "gh_sha256_buffer env n s tr2 = (r, (h', tr3))" "extends file_harmless tr1 tr2" for n s tr2 r h' tr3
    using sha256_buffer_extends [OF that(1)] that(2) e by (blast intro: extends_trans)
  show ?thesis
    unfolding gh_permexec_hash_build_def b prod.case Let_def
    by (intro gives_intros gives_bind gives_map [OF hash_args_extends]) (auto simp: e intro: e2 extends_trans [OF e] split: if_splits)
qed

lemma permexec_prompt_extends:
  assumes "prompter_calls file_harmless prompter"
  shows "gives (permexec_prompt env al prompter procfd safe_id fd argv envp h (px, tr)) (\<lambda>(res, px', tr'). extends file_harmless tr tr')"
proof -
  have p: "extends file_harmless tr tr2"
    if "gh_permprompter_request prompter env req tr1 = Some (res, (resp, tr2))" "extends file_harmless tr tr1" for req tr1 res resp tr2
    using prompter_request_extends [OF assms that(1)] that(2) by (rule extends_trans [rotated])
  show ?thesis
    unfolding permexec_prompt_def prod.case
    by (rule gives_use [OF file_gate.fdpathctor_extends [OF extends_refl]])
      (intro gives_intros gives_bind gives_map_any; auto simp: permexec_dtor_exe_path_def Let_def intro: p)
qed

lemma reopen_shell_acts:
  assumes "gh_procfd_reopen env (ps_procfd (th_perms thread)) pathfd O_RDONLY 0 tr1 = (res, (fd, tr2))"
    and "shell_opened env pathfd tr1" "acts_granted env al environ thread tr tr1"
  shows "acts_granted env al environ thread tr tr2"
proof -
  have "tr2 = tr1 \<or> (\<exists>d s a. tr2 = (Openat d s 0 0, a) # tr1)"
    using assms(1) by (auto simp: gh_procfd_reopen_def syscall_pair Let_def split: if_splits prod.splits)
  moreover have "std_granted env al environ thread (Openat d s 0 0)" if "tr2 = (Openat d s 0 0, a) # tr1" for d s a
    using assms(1,2) that unfolding std_granted_def reads_shell_def by auto
  ultimately show ?thesis using assms(3) by (auto intro: acts_call)
qed

lemma gateexec_acts:
  assumes "thread_quiet thread" "shell_opened env pathfd tr1" "acts_granted env al environ thread tr tr1"
  shows "gives (std_gateexec env al pathfd argv envp (thread, tr1)) (\<lambda>(res, thread', tr').
    acts_granted env al environ thread tr tr' \<and> rpc_thread thread' = rpc_thread thread)"
proof -
  let ?perms = "th_perms thread"
  obtain res fd tr2 where r: "gh_procfd_reopen env (ps_procfd ?perms) pathfd O_RDONLY 0 tr1 = (res, (fd, tr2))"
    by (metis prod_cases3)
  have 2: "acts_granted env al environ thread tr tr2" by (rule reopen_shell_acts [OF r assms(2,3)])
  have pr: "gives (permexec_prompt env al (ps_prompter ?perms) (ps_procfd ?perms) (th_safe_id thread) pathfd argv new h (px, tr3))
      (\<lambda>(res, px', tr'). acts_granted env al environ thread tr tr')" if "extends file_harmless tr2 tr3" for new h px tr3
    by (rule gives_weaken [OF permexec_prompt_extends])
      (use assms(1) that in \<open>auto simp: thread_quiet_def intro: acts_then [OF acts_then [OF 2]]\<close>)
  have "gives (gh_permexec_gate env al (ps_prompter ?perms) (ps_procfd ?perms) (th_safe_id thread) pathfd argv envp
      (ps_exec ?perms, tr1)) (\<lambda>(res, px', tr'). acts_granted env al environ thread tr tr')"
    unfolding gh_permexec_gate_def prod.case r Let_def
    by (intro gives_intros gives_bind gives_use [OF hash_build_extends] pr) (auto intro: 2 acts_then [OF 2])
  then have "gives (gh_perms_gateexec env al (th_safe_id thread) pathfd argv envp (?perms, tr1))
      (\<lambda>(res, perms', tr'). acts_granted env al environ thread tr tr')"
    unfolding gh_perms_gateexec_def prod.case by (rule gives_map) auto
  then show ?thesis
    unfolding std_gateexec_def std_lift_def prod.case by (rule gives_map) (auto simp: rpc_thread_def)
qed

text \<open>What the parent of \<^verbatim>\<open>gh_std_execute\<close> has done when it returns; \<open>A\<close> is what its traces satisfy.\<close>

definition parent_ok ::
  "(trace \<Rightarrow> bool) \<Rightarrow> gh_rpcthread \<Rightarrow> (gh_result \<times> nat option \<times> int option \<times> ('g, 'h, 'f) gh_thread) outcome \<times> trace \<Rightarrow> bool" where
  "parent_ok A rt x \<longleftrightarrow>
     (case fst x of Returns (res, status, pty, thread') \<Rightarrow> A (snd x) \<and> rpc_thread thread' = rt | _ \<Rightarrow> True)"

lemma parent_if: "(b \<Longrightarrow> parent_ok A rt x) \<Longrightarrow> (\<not> b \<Longrightarrow> parent_ok A rt y) \<Longrightarrow> parent_ok A rt (if b then x else y)"
  by simp

lemma parent_prod: "(\<And>a b. p = (a, b) \<Longrightarrow> parent_ok A rt (k a b)) \<Longrightarrow> parent_ok A rt (case p of (a, b) \<Rightarrow> k a b)"
  by (cases p) simp

lemma parent_returns: "A tr' \<Longrightarrow> rpc_thread thread' = rt \<Longrightarrow> parent_ok A rt (Returns (res, status, pty, thread'), tr')"
  by (simp add: parent_ok_def)

lemma gives_map_eq: "(\<And>x. m = Some x \<Longrightarrow> Q (f x)) \<Longrightarrow> gives (map_option f m) Q"
  by (cases m) simp_all

lemma parent_child: "parent_ok A rt (execute_child env pathfd argv envp pty tr')"
  by (auto simp: parent_ok_def execute_child_def Let_def split: prod.splits)

lemma execute_acts:
  assumes "thread_quiet thread"
  shows "gives (gh_std_execute env al dirfd script environ ws wp (thread, tr))
    (parent_ok (acts_granted env al environ thread tr) (rpc_thread thread))"
proof -
  let ?A = "acts_granted env al environ thread tr"
  obtain res pathfd tr1 where o: "gh_pathfd_open env dirfd ''/bin/sh'' pathfd_zero GH_PATHFD_RESOLVELINKS tr = (res, (pathfd, tr1))"
    by (metis prod_cases3)
  have base: "?A tr1" by (rule pathfd_open_acts [OF o acts_refl])
  show ?thesis
  proof (cases "ghr_iserr res")
    case True
    with base show ?thesis by (simp add: gh_std_execute_def o parent_ok_def)
  next
    case False
    then have sh: "shell_opened env pathfd tr1" using o by (auto simp: shell_opened_def ghr_simps)
    have c: "?A ((Close fd, a) # tr2)" if "?A tr2" for fd a tr2
      using that by (simp add: acts_call file_harmless_def)
    have p: "?A ((x, a) # tr2)"
      if "std_gateexec env al pathfd (shell_argv script) environ (thread, tr1) = Some (0, st)"
        "?A tr2" "x = Fork \<or> x = Openpty \<or> x = Waitpid pid" for st x a tr2 pid
    proof (rule acts_call [OF that(2)])
      have "shell_passed env al environ thread" using that(1) sh unfolding shell_passed_def by blast
      with that(3) show "file_harmless x \<or> std_granted env al environ thread x" by (auto simp: std_granted_def)
    qed
    have pf: "?A ((Fork, a) # tr2)" and po: "?A ((Openpty, a) # tr2)" and pw: "?A ((Waitpid pid, a) # tr2)"
      if "std_gateexec env al pathfd (shell_argv script) environ (thread, tr1) = Some (0, st)" "?A tr2" for st a tr2 pid
      using p [OF that] by blast+
    have fin: "parent_ok ?A (rpc_thread thread)
        (case std_close env pathfd r tr2 of (r', tr3) \<Rightarrow> (Returns (r', status, pty, thread'), tr3))"
      if "?A tr2" "rpc_thread thread' = rpc_thread thread" for r tr2 status pty and thread' :: "('a, 'b, 'c) gh_thread"
      using that by (auto simp: parent_ok_def dest: acts_close split: prod.split)
    show ?thesis
      unfolding gh_std_execute_def prod.case o Let_def syscall_pair if_not_P [OF False]
    proof (rule gives_map_eq, intro parent_prod, goal_cases)
      case (1 x gres y thread' tr2)
      then have g: "std_gateexec env al pathfd (shell_argv script) environ (thread, tr1) = Some (gres, (thread', tr2))" by simp
      with gateexec_acts [OF assms sh base, of "shell_argv script" environ] have
        ga: "?A tr2" "rpc_thread thread' = rpc_thread thread" by auto
      note fin' = fin [OF _ ga(2)]
      show ?case
      proof (rule parent_if, goal_cases)
        case 1
        show ?case by (rule fin' [OF ga(1)])
      next
        case 2
        then have "gres = 0" by (simp add: ghr_simps)
        note g0 = g [unfolded this]
        show ?case
        proof (intro parent_prod, rule parent_if, goal_cases)
          case (1 r y pty tr3)
          then have "?A tr3" using ga(1) by (auto intro!: po [OF g0] split: if_splits)
          then show ?case by (rule fin')
        next
          case (2 r y pty tr3)
          then have A3: "?A tr3" using ga(1) by (auto intro!: po [OF g0] split: if_splits)
          show ?case
            by (intro fin' parent_if parent_child parent_prod)
              (use A3 in \<open>auto intro!: c pf [OF g0] pw [OF g0] split: option.splits prod.splits if_splits\<close>)
        qed
      qed
    qed
  qed
qed

section \<open>The functions of the registrar\<close>

text \<open>A function keeps \<open>Q\<close> of the state behind the frame, if what it does with its arguments keeps it.\<close>

lemma gives_failhere [simp]: "gives (failhere res (frame, s)) (\<lambda>(frame, s). Q s) \<longleftrightarrow> Q s"
  by (simp add: failhere_def)

lemma strarg_gives:
  assumes "\<And>p frame. gives (k p (frame, s)) (\<lambda>(frame, s). Q s)" "Q s"
  shows "gives (with_strarg i missing big k (frame, s)) (\<lambda>(frame, s). Q s)"
  unfolding with_strarg_def prod.case by (intro gives_intros gives_bind) (simp_all add: assms)

lemma intarg_gives:
  assumes "\<And>p frame. gives (k p (frame, s)) (\<lambda>(frame, s). Q s)" "Q s"
  shows "gives (with_intarg i missing k (frame, s)) (\<lambda>(frame, s). Q s)"
  unfolding with_intarg_def prod.case by (intro gives_intros gives_bind) (simp_all add: assms)

lemma command_gives:
  assumes "\<And>cmd frame. gives (k cmd (frame, s)) (\<lambda>(frame, s). Q s)" "Q s"
  shows "gives (with_command back k (frame, s)) (\<lambda>(frame, s). Q s)"
  unfolding with_command_def prod.case by (intro gives_intros gives_bind) (simp_all add: assms)

lemma returns_gives:
  assumes "gives m (parent_ok A rt)"
    and "\<And>res status pty thread' tr'. A tr' \<Longrightarrow> rpc_thread thread' = rt \<Longrightarrow> gives (k (res, status, pty, thread') tr') Q"
  shows "gives (with_returns m k) Q"
proof (cases m)
  case (Some x)
  with assms show ?thesis
    by (cases x; cases "fst x") (auto simp: with_returns_def parent_ok_def)
qed (simp add: with_returns_def)

text \<open>The eight functions of the standard library\<close>

lemma std_run_acts:
  assumes "thread_quiet thread" "func \<in> snd ` set std_functions"
  shows "gives (std_run env al environ app func (frame, thread, tr))
    (\<lambda>(frame', thread', tr'). acts_granted env al environ thread tr tr' \<and> rpc_thread thread' = rpc_thread thread)"
proof -
  let ?Q = "\<lambda>(thread', tr'). acts_granted env al environ thread tr tr' \<and> rpc_thread thread' = rpc_thread thread"
  have "func \<in> {GhostOpen, GhostRename, GhostRemove, GhostFsrequest, GhostFshas, GhostOpentemp, GhostExecute, GhostPopen}"
    using assms(2) by (auto simp: std_functions_def)
  then have "gives (std_run env al environ app func (frame, thread, tr)) (\<lambda>(frame', s). ?Q s)"
    by (elim insertE emptyE; hypsubst; unfold std_run_def std_function.case ghost_open_def ghost_rename_def ghost_remove_def
        ghost_fsrequest_def ghost_fshas_def ghost_opentemp_def ghost_execute_def ghost_popen_def;
        intro strarg_gives intarg_gives command_gives;
        (unfold prod.case)?;
        (intro gives_intros gives_use [OF openat_acts [OF assms(1)]] gives_use [OF rename_acts [OF assms(1)]]
          gives_use [OF unlinkat_acts [OF assms(1)]] gives_use [OF fsrequest_acts [OF assms(1)]]
          gives_use [OF opentemp_acts [OF assms(1)]] returns_gives [OF execute_acts [OF assms(1)]] gives_bind gives_map_any)?;
        auto)
  then show ?thesis by (simp add: case_prod_unfold)
qed

end
