(* ===== verification/RpcFacts.thy ===== *)
theory RpcFacts
  imports Rpc
begin

text \<open>
  Frames: the arguments and the return value of a frame lie inside its buffer when the sizes of the
  message do not wrap, and what happens when they do; the search for the function; the memory safety
  of a call; the one response to a message.
\<close>

section \<open>The layout of a frame\<close>

lemma list_all_replicate [simp]: "list_all P (replicate n x) \<longleftrightarrow> n = 0 \<or> P x"
  by (induction n) auto

lemma args_total_simps [simp]:
  "args_total [] = 0" "args_total (a # args) = unat (fa_size a) + args_total args"
  by (simp_all add: args_total_def)

lemma foldl_args_size:
  "unat n + args_total args < 18446744073709551616 \<Longrightarrow>
   unat (foldl (\<lambda>n arg. n + fa_size arg) n args) = unat n + args_total args"
proof (induction args arbitrary: n)
  case Nil
  then show ?case by simp
next
  case (Cons a args)
  then have "unat (n + fa_size a) = unat n + unat (fa_size a)" by (intro unat_add_nowrap) simp
  with Cons show ?case by simp
qed

lemma args_size_total: "args_total args < 18446744073709551616 \<Longrightarrow> unat (frame_args_size args) = args_total args"
  using foldl_args_size [of 0 args] by (simp add: frame_args_size_def)

definition arg_inside :: "nat \<Rightarrow> nat \<Rightarrow> gh_rpcarg \<Rightarrow> bool" where
  "arg_inside lo hi arg \<longleftrightarrow>
     (case ra_ptr arg of None \<Rightarrow> ra_size arg = 0 | Some p \<Rightarrow> lo \<le> unat p \<and> unat p + unat (ra_size arg) \<le> hi)"

lemma arg_inside_mono: "arg_inside lo hi a \<Longrightarrow> lo' \<le> lo \<Longrightarrow> hi \<le> hi' \<Longrightarrow> arg_inside lo' hi' a"
  by (auto simp: arg_inside_def split: option.splits)

lemma arg_inside_null [simp]: "arg_inside lo hi rpcarg_null"
  by (simp add: arg_inside_def rpcarg_null_def)

text \<open>The arguments lie one behind the other, each in its own part.\<close>

fun args_follow :: "nat \<Rightarrow> gh_rpcarg list \<Rightarrow> bool" where
  "args_follow lo [] = True"
| "args_follow lo (a # as) =
     (case ra_ptr a of None \<Rightarrow> False | Some p \<Rightarrow> unat p = lo \<and> args_follow (lo + unat (ra_size a)) as)"

lemma frame_place_layout:
  "unat n + args_total args < 18446744073709551616 \<Longrightarrow>
   args_follow (unat n) (frame_place n args) \<and>
   map ra_size (frame_place n args) = map fa_size args \<and>
   list_all (arg_inside (unat n) (unat n + args_total args)) (frame_place n args)"
proof (induction args arbitrary: n)
  case Nil
  then show ?case by simp
next
  case (Cons a args)
  then have s: "unat (n + fa_size a) = unat n + unat (fa_size a)" by (intro unat_add_nowrap) simp
  with Cons.prems Cons.IH [of "n + fa_size a"] have
    ih: "args_follow (unat n + unat (fa_size a)) (frame_place (n + fa_size a) args)"
    "map ra_size (frame_place (n + fa_size a) args) = map fa_size args"
    "list_all (arg_inside (unat n + unat (fa_size a)) (unat n + unat (fa_size a) + args_total args))
      (frame_place (n + fa_size a) args)" by simp_all
  from ih(3) have "list_all (arg_inside (unat n) (unat n + args_total (a # args))) (frame_place (n + fa_size a) args)"
    by (auto simp: list_all_iff intro: arg_inside_mono)
  moreover have "arg_inside (unat n) (unat n + args_total (a # args)) \<lparr>ra_ptr = Some n, ra_size = fa_size a\<rparr>"
    by (simp add: arg_inside_def)
  ultimately show ?case using ih(1,2) by simp
qed

definition frame_inside :: "gh_rpcframe \<Rightarrow> bool" where
  "frame_inside frame \<longleftrightarrow>
     length (fr_args frame) = GH_IPCMSG_FUNCTIONCALL_MAXARGS \<and> unat (fr_arg_count frame) \<le> GH_IPCMSG_FUNCTIONCALL_MAXARGS \<and>
     (fr_buffer frame \<longrightarrow> unat (fr_buffer_size frame) = length (fr_memory frame)) \<and>
     list_all (arg_inside 0 (length (fr_memory frame))) (fr_args frame) \<and>
     arg_inside 0 (length (fr_memory frame)) (fr_return_arg frame)"

text \<open>The sizes a message asks for\<close>

definition msg_args :: "gh_ipcmsg_functioncall \<Rightarrow> gh_ipcmsg_functioncall_arg list" where
  "msg_args msg = take (min (unat (fc_arg_count msg)) GH_IPCMSG_FUNCTIONCALL_MAXARGS) (fc_args msg)"

definition msg_total :: "gh_ipcmsg_functioncall \<Rightarrow> nat" where
  "msg_total msg = args_total (msg_args msg) + (if return_wanted msg then unat (fa_size (fc_return_arg msg)) else 0)"

lemma msg_args_count:
  "take (unat (if fc_arg_count msg > of_nat GH_IPCMSG_FUNCTIONCALL_MAXARGS then 16 else fc_arg_count msg)) (fc_args msg) =
   msg_args msg"
  by (auto simp: msg_args_def size_less_unat min_def)

lemma frame_place_length [simp]: "length (frame_place n args) = length args"
  by (induction args arbitrary: n) simp_all

definition msg_buffer_size :: "gh_ipcmsg_functioncall \<Rightarrow> size_t" where
  "msg_buffer_size msg =
     (if return_wanted msg then frame_args_size (msg_args msg) + fa_size (fc_return_arg msg)
      else frame_args_size (msg_args msg))"

definition msg_frame :: "gh_ipcmsg_functioncall \<Rightarrow> da_ptr \<Rightarrow> string \<Rightarrow> gh_rpcframe" where
  "msg_frame msg f bytes =
     \<lparr>fr_function = Some f, fr_fd = - 1, fr_result = GHR_RPC_UNEXECUTED,
      fr_arg_count = (if fc_arg_count msg > of_nat GH_IPCMSG_FUNCTIONCALL_MAXARGS then 16 else fc_arg_count msg),
      fr_args = (if msg_buffer_size msg > 0
                 then frame_place 0 (msg_args msg) @ replicate (16 - length (msg_args msg)) rpcarg_null
                 else replicate 16 rpcarg_null),
      fr_return_arg = (if msg_buffer_size msg > 0 \<and> return_wanted msg
                       then \<lparr>ra_ptr = Some (frame_args_size (msg_args msg)), ra_size = fa_size (fc_return_arg msg)\<rparr>
                       else rpcarg_null),
      fr_buffer = (msg_buffer_size msg > 0), fr_buffer_size = msg_buffer_size msg, fr_memory = bytes\<rparr>"

text \<open>The frame that a message makes, when it makes one.\<close>

lemma newframe_frame:
  assumes "gh_rpc_newframefrommsg env al rpc thread msg tr = Some (GHR_OK, (Some frame, tr'))"
  shows "\<exists>f bytes. frame = msg_frame msg f bytes \<and> length bytes = unat (msg_buffer_size msg) \<and>
     msgframe_find (rp_functions rpc) (fc_name msg) 0 = Some (Some f) \<and>
     (rt_frame_limit thread = 0 \<or> msg_buffer_size msg \<le> rt_frame_limit thread)"
proof -
  from assms obtain f where f: "msgframe_find (rp_functions rpc) (fc_name msg) 0 = Some (Some f)"
    by (auto simp: gh_rpc_newframefrommsg_def bind_eq_Some_conv ghr_simps split: option.splits)
  show ?thesis
  proof (cases "msg_buffer_size msg > 0")
    case True
    let ?c = "VmReadv (rt_pid thread) (msg_buffer_size msg - fa_size (fc_return_arg msg)) (msg_args msg)"
    let ?n = "unat (msg_buffer_size msg)"
    have "frame = msg_frame msg f (take ?n (an_data (env tr ?c) @ replicate ?n NUL)) \<and>
        (rt_frame_limit thread = 0 \<or> msg_buffer_size msg \<le> rt_frame_limit thread)"
      using assms f True
      unfolding gh_rpc_newframefrommsg_def msg_args_count Let_def msg_buffer_size_def [symmetric]
      by (auto simp: ghr_simps syscall_pair gh_alloc_new_occupied ghr_errno_def msg_frame_def split: if_splits prod.splits)
    with f show ?thesis by (intro exI [of _ f] exI [of _ "take ?n (an_data (env tr ?c) @ replicate ?n NUL)"]) simp
  next
    case False
    with assms f show ?thesis
      unfolding gh_rpc_newframefrommsg_def msg_args_count Let_def msg_buffer_size_def [symmetric]
      by (cases f) (auto simp: ghr_simps msg_frame_def word_gt_0 not_less split: if_splits)
  qed
qed

lemma buffer_size_total: "msg_total msg < 18446744073709551616 \<Longrightarrow> unat (msg_buffer_size msg) = msg_total msg"
  using args_size_total [of "msg_args msg"]
  by (cases "return_wanted msg") (simp_all add: msg_total_def msg_buffer_size_def unat_add_nowrap)

lemma readv_fits:
  assumes "msg_total msg < 18446744073709551616"
  shows "\<not> readv_copied a n (msg_args msg) > unat (msg_buffer_size msg)"
  using buffer_size_total [OF assms] by (simp add: readv_copied_def msg_total_def)

lemma msg_frame_inside:
  assumes "msg_total msg < 18446744073709551616" "length bytes = unat (msg_buffer_size msg)"
  shows "frame_inside (msg_frame msg f bytes)"
proof -
  have total: "args_total (msg_args msg) < 18446744073709551616"
    using assms(1) by (simp add: msg_total_def split: if_splits)
  have b: "length bytes = msg_total msg" using assms buffer_size_total by simp
  have len: "length (msg_args msg) \<le> 16" by (simp add: msg_args_def)
  have "list_all (arg_inside 0 (args_total (msg_args msg))) (frame_place 0 (msg_args msg))"
    using frame_place_layout [of 0 "msg_args msg"] total by simp
  then have "list_all (arg_inside 0 (msg_total msg)) (frame_place 0 (msg_args msg))"
    by (auto simp: list_all_iff msg_total_def intro: arg_inside_mono)
  then have 1: "list_all (arg_inside 0 (length bytes)) (fr_args (msg_frame msg f bytes))"
    using b by (simp add: msg_frame_def)
  have 2: "arg_inside 0 (length bytes) (fr_return_arg (msg_frame msg f bytes))"
    using b args_size_total [OF total] by (simp add: msg_frame_def msg_total_def arg_inside_def rpcarg_null_def)
  have "length (fr_args (msg_frame msg f bytes)) = 16" using len by (simp add: msg_frame_def)
  moreover have "unat (fr_arg_count (msg_frame msg f bytes)) \<le> 16" by (simp add: msg_frame_def size_less_unat)
  ultimately show ?thesis using 1 2 assms(2) by (simp add: frame_inside_def) (simp add: msg_frame_def)
qed

lemma msg_frame_layout:
  assumes "msg_total msg < 18446744073709551616" "msg_buffer_size msg > 0"
  shows "args_follow 0 (take (length (msg_args msg)) (fr_args (msg_frame msg f bytes)))"
    "map ra_size (take (length (msg_args msg)) (fr_args (msg_frame msg f bytes))) = map fa_size (msg_args msg)"
proof -
  have "args_total (msg_args msg) < 18446744073709551616"
    using assms(1) by (simp add: msg_total_def split: if_splits)
  with frame_place_layout [of 0 "msg_args msg"] assms(2)
  show "args_follow 0 (take (length (msg_args msg)) (fr_args (msg_frame msg f bytes)))"
    "map ra_size (take (length (msg_args msg)) (fr_args (msg_frame msg f bytes))) = map fa_size (msg_args msg)"
    by (simp_all add: msg_frame_def)
qed

text \<open>The return value lies behind the last argument.\<close>

lemma size_of_unat: "unat (w :: size_t) = n \<Longrightarrow> w = of_nat n"
  by (auto simp: of_nat_unat)

lemma msg_frame_return:
  assumes "msg_total msg < 18446744073709551616" "msg_buffer_size msg > 0"
  shows "fr_return_arg (msg_frame msg f bytes) =
    (if return_wanted msg then \<lparr>ra_ptr = Some (of_nat (args_total (msg_args msg))), ra_size = fa_size (fc_return_arg msg)\<rparr>
     else rpcarg_null)"
proof -
  have "args_total (msg_args msg) < 18446744073709551616"
    using assms(1) by (simp add: msg_total_def split: if_splits)
  from args_size_total [OF this] have "frame_args_size (msg_args msg) = of_nat (args_total (msg_args msg))"
    by (rule size_of_unat)
  with assms(2) show ?thesis by (simp add: msg_frame_def)
qed

section \<open>Sizes that wrap\<close>

text \<open>
  The sizes of the arguments have a sum \<open>n\<close>, and the size of the return value makes the sum of all wrap
  to less: the system is told to copy \<open>n\<close> bytes to the smaller buffer. What it copies, up to the
  buffer's size, makes a frame whose last argument and return value do not lie in the buffer.
\<close>

lemma wrapped_size:
  assumes "args_total (msg_args msg) < 18446744073709551616" "return_wanted msg"
    and "msg_total msg \<ge> 18446744073709551616"
  shows "unat (msg_buffer_size msg) = msg_total msg - 18446744073709551616"
    "unat (msg_buffer_size msg - fa_size (fc_return_arg msg)) = args_total (msg_args msg)"
proof -
  let ?n = "args_total (msg_args msg)" and ?r = "fa_size (fc_return_arg msg)"
  have n: "unat (frame_args_size (msg_args msg)) = ?n" by (rule args_size_total [OF assms(1)])
  have t: "msg_total msg = ?n + unat ?r" using assms(2) by (simp add: msg_total_def)
  have r: "unat ?r < 18446744073709551616" using unsigned_less [of ?r] by simp
  have "unat (msg_buffer_size msg) = (?n + unat ?r) mod 18446744073709551616"
    using assms(2) n by (simp add: msg_buffer_size_def unat_word_ariths)
  also have "\<dots> = ?n + unat ?r - 18446744073709551616"
    using assms(1,3) r t by (simp add: le_mod_geq)
  finally show "unat (msg_buffer_size msg) = msg_total msg - 18446744073709551616" using t by simp
  show "unat (msg_buffer_size msg - ?r) = ?n"
    using assms(2) n by (simp add: msg_buffer_size_def)
qed

lemma newframe_wraps:
  assumes "msgframe_find (rp_functions rpc) (fc_name msg) 0 = Some (Some f)"
    and "unat (fc_arg_count msg) \<le> 16" "length (fc_args msg) = 16"
    and "args_total (msg_args msg) < 18446744073709551616" "return_wanted msg"
    and "msg_total msg > 18446744073709551616"
    and "rt_frame_limit thread = 0 \<or> msg_buffer_size msg \<le> rt_frame_limit thread"
    and "al 0 (msg_buffer_size msg) = GHR_OK"
    and "a = env tr (VmReadv (rt_pid thread) (of_nat (args_total (msg_args msg))) (msg_args msg))"
    and "0 \<le> an_ret a" "nat (an_ret a) \<le> args_total (msg_args msg)"
  shows "gh_rpc_newframefrommsg env al rpc thread msg tr =
     (if nat (an_ret a) > unat (msg_buffer_size msg) then None
      else Some (GHR_OK, (Some (msg_frame msg f (take (unat (msg_buffer_size msg))
               (an_data a @ replicate (unat (msg_buffer_size msg)) NUL))),
             (VmReadv (rt_pid thread) (of_nat (args_total (msg_args msg))) (msg_args msg), a) # tr)))"
proof -
  let ?b = "msg_buffer_size msg" and ?r = "fa_size (fc_return_arg msg)"
  have s: "unat ?b = msg_total msg - 18446744073709551616" "unat (?b - ?r) = args_total (msg_args msg)"
    using wrapped_size [OF assms(4,5)] assms(6) by simp_all
  have pos: "?b > 0" using s(1) assms(6) by (simp add: size_less_unat)
  have l: "?b - ?r = of_nat (args_total (msg_args msg))" by (rule size_of_unat [OF s(2)])
  have c: "readv_copied a (?b - ?r) (msg_args msg) = nat (an_ret a)"
    using assms(11) s(2) by (simp add: readv_copied_def)
  have len: "\<not> length (fc_args msg) < unat (if fc_arg_count msg > of_nat 16 then 16 else fc_arg_count msg)"
    using assms(2,3) by (simp add: size_less_unat)
  have limit: "\<not> (rt_frame_limit thread \<noteq> 0 \<and> ?b > rt_frame_limit thread)" using assms(7) by auto
  show ?thesis
    using assms(1,8,10) pos len limit
    unfolding gh_rpc_newframefrommsg_def msg_args_count Let_def msg_buffer_size_def [symmetric] l syscall_pair prod.case
      assms(9) [symmetric] c [unfolded l]
    by (auto simp: ghr_simps gh_alloc_new_result msg_frame_def split: if_splits)
qed

lemma wrapped_outside:
  assumes "args_total (msg_args msg) < 18446744073709551616" "return_wanted msg"
    and "msg_total msg > 18446744073709551616" "length bytes = unat (msg_buffer_size msg)"
  shows "\<not> frame_inside (msg_frame msg f bytes)"
proof -
  have s: "length bytes = msg_total msg - 18446744073709551616"
    using wrapped_size(1) [OF assms(1,2)] assms(3,4) by simp
  with assms(3,4) have "msg_buffer_size msg > 0" by (simp add: size_less_unat)
  then have "fr_return_arg (msg_frame msg f bytes) =
      \<lparr>ra_ptr = Some (frame_args_size (msg_args msg)), ra_size = fa_size (fc_return_arg msg)\<rparr>"
    using assms(2) by (simp add: msg_frame_def)
  moreover have "fr_memory (msg_frame msg f bytes) = bytes" by (simp add: msg_frame_def)
  moreover have "args_total (msg_args msg) + unat (fa_size (fc_return_arg msg)) > length bytes"
    using s assms(2,3) by (simp add: msg_total_def)
  ultimately show ?thesis
    using args_size_total [OF assms(1)] by (simp add: frame_inside_def arg_inside_def)
qed

section \<open>The search for a function\<close>

definition rpc_list :: "('f gh_rpcfunction \<Rightarrow> nat) \<Rightarrow> 'f gh_rpc \<Rightarrow> 'f gh_rpcfunction list \<Rightarrow> bool" where
  "rpc_list destroy rpc fs \<longleftrightarrow> da_wf (rpc_daopts destroy) (rp_functions rpc) \<and> da_items (rp_functions rpc) = fs"

lemma rpc_list_deref:
  assumes "rpc_list destroy rpc fs"
  shows "unat (da_size (rp_functions rpc)) = length fs"
    "i < length fs \<Longrightarrow> da_deref (rp_functions rpc) (da_block (rp_functions rpc), i) = Some (fs ! i)"
  using assms da_items_length [of "rpc_daopts destroy" "rp_functions rpc"] deref_items [of "rpc_daopts destroy" "rp_functions rpc" i]
  by (auto simp: rpc_list_def)

text \<open>The index of the first function with a name, among those from \<open>i\<close> on\<close>

fun first_named :: "string \<Rightarrow> nat \<Rightarrow> 'f gh_rpcfunction list \<Rightarrow> nat option" where
  "first_named name i [] = None"
| "first_named name i (f # fs) = (if cstr (rf_name f) = cstr name then Some i else first_named name (Suc i) fs)"

lemma msgframe_find_result:
  assumes "rpc_list destroy rpc fs"
  shows "i \<le> length fs \<Longrightarrow> msgframe_find (rp_functions rpc) name i =
     Some (map_option (\<lambda>k. (da_block (rp_functions rpc), k)) (first_named name i (drop i fs)))"
proof (induction "length fs - i" arbitrary: i)
  case 0
  then show ?case using rpc_list_deref(1) [OF assms] by (subst msgframe_find.simps) simp
next
  case (Suc n)
  then have i: "i < length fs" by simp
  then have d: "drop i fs = fs ! i # drop (Suc i) fs" by (simp add: Cons_nth_drop_Suc)
  show ?case
    using Suc(1) [of "Suc i"] Suc(2) i d rpc_list_deref [OF assms]
    by (subst msgframe_find.simps) (simp add: strcmp_eq_def)
qed

text \<open>The other search never fails when there is a function: an unknown name gets the last one.\<close>

lemma newframe_find_result:
  assumes "rpc_list destroy rpc fs"
  shows "i \<le> length fs \<Longrightarrow> newframe_find (rp_functions rpc) name i func =
     Some (case first_named name i (drop i fs) of
             Some k \<Rightarrow> Some (da_block (rp_functions rpc), k)
           | None \<Rightarrow> if i < length fs then Some (da_block (rp_functions rpc), length fs - 1) else func)"
proof (induction "length fs - i" arbitrary: i func)
  case 0
  then show ?case using rpc_list_deref(1) [OF assms] by (subst newframe_find.simps) simp
next
  case (Suc n)
  then have i: "i < length fs" by simp
  then have d: "drop i fs = fs ! i # drop (Suc i) fs" by (simp add: Cons_nth_drop_Suc)
  show ?case
  proof (cases "Suc i < length fs")
    case True
    then show ?thesis
      using Suc(1) [of "Suc i" "Some (da_block (rp_functions rpc), i)"] Suc(2) i d rpc_list_deref [OF assms]
      by (subst newframe_find.simps) (simp add: strcmp_eq_def split: option.split)
  next
    case False
    with i have "Suc i = length fs" by simp
    then show ?thesis
      using Suc(1) [of "Suc i" "Some (da_block (rp_functions rpc), i)"] Suc(2) i d rpc_list_deref [OF assms]
      by (subst newframe_find.simps) (auto simp: strcmp_eq_def split: option.split)
  qed
qed

section \<open>A call\<close>

lemma mem_store_fits: "unat p + length s \<le> length mem \<Longrightarrow> \<exists>mem'. mem_store mem p s = Some mem' \<and> length mem' = length mem"
  by (auto simp: mem_store_def cells_write_def)

lemma frame_store_inside:
  assumes "frame_inside frame" "ra_ptr (fr_return_arg frame) = Some p" "length s \<le> unat (ra_size (fr_return_arg frame))"
  shows "\<exists>frame'. frame_store frame (ra_ptr (fr_return_arg frame)) s = Some frame' \<and> frame_inside frame' \<and>
     frame' = frame\<lparr>fr_memory := fr_memory frame'\<rparr>"
proof -
  have "unat p + length s \<le> length (fr_memory frame)" using assms by (simp add: frame_inside_def arg_inside_def)
  from mem_store_fits [OF this] assms(1,2) show ?thesis by (auto simp: frame_store_def frame_inside_def)
qed

text \<open>The memory that a call clears is inside the buffer of the frame.\<close>

definition frame_cleared :: "gh_rpcframe \<Rightarrow> gh_rpcframe option" where
  "frame_cleared frame =
     (if ra_size (fr_return_arg frame) \<noteq> 0 \<and> ra_ptr (fr_return_arg frame) \<noteq> None
      then frame_store frame (ra_ptr (fr_return_arg frame)) (replicate (unat (ra_size (fr_return_arg frame))) NUL)
      else Some frame)"

lemma frame_cleared_inside:
  assumes "frame_inside frame"
  shows "\<exists>frame'. frame_cleared frame = Some frame' \<and> frame_inside frame'"
proof (cases "ra_size (fr_return_arg frame) \<noteq> 0 \<and> ra_ptr (fr_return_arg frame) \<noteq> None")
  case True
  then obtain p where "ra_ptr (fr_return_arg frame) = Some p" by auto
  from frame_store_inside [OF assms this, of "replicate (unat (ra_size (fr_return_arg frame))) NUL"]
  show ?thesis using True by (auto simp: frame_cleared_def)
next
  case False
  then have "frame_cleared frame = Some frame" unfolding frame_cleared_def by (rule if_not_P)
  with assms show ?thesis by simp
qed

lemma inside_result [simp]: "frame_inside (frame\<lparr>fr_result := r\<rparr>) \<longleftrightarrow> frame_inside frame"
  by (simp add: frame_inside_def)

text \<open>A call of a frame that lies inside its memory, step by step\<close>

lemma callframe_steps:
  assumes "frame_inside frame" "rpc_function rpc frame = Some func" "fr_result frame = GHR_RPC_UNEXECUTED"
  shows "\<exists>frame' ptr. frame_inside frame' \<and> fr_function frame = Some ptr \<and>
     gh_rpc_callframe env run rpc (frame, s, tr) =
       (let (res, tr) = rpc_mutex env MutexLock GHR_RPC_MUTEXLOCK GHR_RPC_GLOBALMUTEXLOCK func ptr tr in
        if ghr_iserr res then Some (res, (frame', s, tr))
        else
          map_option (\<lambda>(frame, s, tr).
              let (res, tr) = rpc_mutex env MutexUnlock GHR_RPC_MUTEXUNLOCK GHR_RPC_GLOBALMUTEXUNLOCK func ptr tr in
              (res, (frame, s, tr)))
            (run (rf_func func) (frame'\<lparr>fr_result := GHR_OK\<rparr>, s, tr)))"
proof -
  from assms(2) obtain ptr where p: "fr_function frame = Some ptr" "da_deref (rp_functions rpc) ptr = Some func"
    by (auto simp: rpc_function_def bind_eq_Some_conv)
  obtain frame' where f: "frame_cleared frame = Some frame'" "frame_inside frame'"
    using frame_cleared_inside [OF assms(1)] by blast
  show ?thesis
    unfolding gh_rpc_callframe_def prod.case p(1) option.case frame_cleared_def [symmetric] f(1) assms(3)
    using f(2) p(2) by (intro exI [of _ frame'] exI [of _ ptr]) simp
qed

section \<open>Responses\<close>

text \<open>How many answers a trace has sent to the calling process\<close>

definition returns_sent :: "trace \<Rightarrow> nat" where
  "returns_sent tr = length (filter (\<lambda>(c, a). case c of Sendmsg _ (MsgFunctionReturn _ _) _ _ \<Rightarrow> an_ret a \<ge> 0 | _ \<Rightarrow> False) tr)"

lemma returns_sent_simps [simp]:
  "returns_sent [] = 0"
  "returns_sent ((Sendmsg fd msg n control, a) # tr) =
     returns_sent tr + (case msg of MsgFunctionReturn _ _ \<Rightarrow> if an_ret a \<ge> 0 then 1 else 0 | _ \<Rightarrow> 0)"
  "returns_sent ((VmWritev pid bytes ptr, a) # tr) = returns_sent tr"
  "returns_sent ((VmReadv pid n args, a) # tr) = returns_sent tr"
  "returns_sent ((Close fd, a) # tr) = returns_sent tr"
  "returns_sent ((Mutex op m, a) # tr) = returns_sent tr"
  by (auto simp: returns_sent_def split: gh_ipcmsg.split)

lemma send_return_count:
  assumes "send_return env ipc fd r tr = (res, tr')"
  shows "returns_sent tr' = returns_sent tr + (if res = GHR_OK then 1 else 0)"
  using assms
  by (auto simp: send_return_def gh_ipc_send_def prepare_cmsg_def syscall_pair Let_def ghr_simps ghr_errno_def
      ipcmsg_fd_def split: if_splits)

lemma sendreturn_count:
  assumes "rpc_sendreturn env thread frame tr = (res, (frame', tr'))"
  shows "returns_sent tr' = returns_sent tr + (if res = GHR_OK then 1 else 0)"
proof -
  let ?fd = "if \<not> ghr_isok (fr_result frame) then - 1 else fr_fd frame"
  obtain r1 tr1 where 1: "send_return env (rt_ipc thread) ?fd (fr_result frame) tr = (r1, tr1)" by (metis prod.exhaust)
  obtain r2 tr2 where 2: "send_return env (rt_ipc thread) (- 1) GHR_RPC_INVALIDFD tr1 = (r2, tr2)" by (metis prod.exhaust)
  from assms 1 2 send_return_count [OF 1] send_return_count [OF 2] show ?thesis
    by (auto simp: rpc_sendreturn_def Let_def ghr_simps split: if_splits)
qed

text \<open>A response that is reported as sent is one message, and no more than one is ever sent.\<close>

lemma respond_count:
  assumes "gh_rpc_respondtomsg env thread msg frame tr = Some (res, (frame', tr'))"
  shows "returns_sent tr' \<le> returns_sent tr + 1" "res = GHR_OK \<Longrightarrow> returns_sent tr' = returns_sent tr + 1"
proof -
  have c: "returns_sent tr1 = returns_sent tr" if "rpc_copyreturn env thread msg frame tr = Some (r, tr1)" for r tr1
    using that by (auto simp: rpc_copyreturn_def syscall_pair bind_eq_Some_conv split: if_splits)
  obtain r1 tr1 where 1: "rpc_copyreturn env thread msg frame tr = Some (r1, tr1) \<or> tr' = tr \<and> res \<noteq> GHR_OK"
    using assms by (auto simp: gh_rpc_respondtomsg_def split: if_splits)
  show "returns_sent tr' \<le> returns_sent tr + 1" "res = GHR_OK \<Longrightarrow> returns_sent tr' = returns_sent tr + 1"
    using assms 1 c
    by (auto simp: gh_rpc_respondtomsg_def Let_def ghr_simps syscall_pair ghr_errno_def
        dest: sendreturn_count split: if_splits prod.splits)
qed

end
