(* ===== verification/StdMessages.thy ===== *)
theory StdMessages
  imports StdFacts RpcFacts
begin

text \<open>
  A function call of the sandboxed process, from the message to the response: which calls the host
  makes for it, and how many responses it sends.
\<close>

section \<open>The calls of the registrar\<close>

text \<open>What the registrar itself does for a message: it copies from and to the process that called, and answers it.\<close>

definition rpc_call :: "gh_rpcthread \<Rightarrow> call \<Rightarrow> bool" where
  "rpc_call thread c \<longleftrightarrow>
     (case c of
        VmReadv pid _ _ \<Rightarrow> pid = rt_pid thread
      | VmWritev pid _ _ \<Rightarrow> pid = rt_pid thread
      | Sendmsg fd (MsgFunctionReturn _ _) _ _ \<Rightarrow> fd = ip_sockfd (rt_ipc thread)
      | Mutex _ _ \<Rightarrow> True
      | Close _ \<Rightarrow> True
      | _ \<Rightarrow> False)"

lemma newframe_calls:
  "gives (gh_rpc_newframefrommsg env al rpc thread msg tr) (\<lambda>(res, frame, tr').
     extends (rpc_call thread) tr tr' \<and> returns_sent tr' = returns_sent tr)"
  unfolding gh_rpc_newframefrommsg_def Let_def syscall_pair prod.case
  by (intro gives_intros gives_bind) (auto simp: rpc_call_def)

lemma mutex_calls:
  "rpc_mutex env op l g func ptr tr = (res, tr') \<Longrightarrow> extends (rpc_call thread) tr tr' \<and> returns_sent tr' = returns_sent tr"
  by (cases "rf_thread_safety func") (auto simp: rpc_mutex_def syscall_pair Let_def rpc_call_def)

lemma send_return_calls:
  "send_return env (rt_ipc thread) fd r tr = (res, tr') \<Longrightarrow> extends (rpc_call thread) tr tr'"
  by (auto simp: send_return_def gh_ipc_send_def prepare_cmsg_def syscall_pair Let_def ipcmsg_fd_def ghr_simps rpc_call_def
      split: if_splits)

lemma respond_calls:
  "gives (gh_rpc_respondtomsg env thread msg frame tr) (\<lambda>(res, frame', tr'). extends (rpc_call thread) tr tr')"
proof -
  have c: "gives (rpc_copyreturn env thread msg frame tr) (\<lambda>(res, tr'). extends (rpc_call thread) tr tr')"
    unfolding rpc_copyreturn_def syscall_pair prod.case Let_def
    by (intro gives_intros gives_bind gives_map_any) (auto simp: rpc_call_def)
  have s: "extends (rpc_call thread) tr tr2"
    if "rpc_sendreturn env thread frame tr1 = (r, (frame', tr2))" "extends (rpc_call thread) tr tr1" for tr1 r frame' tr2
    using that send_return_calls [of env thread]
    by (auto simp: rpc_sendreturn_def Let_def split: if_splits prod.splits) (meson extends_trans)+
  show ?thesis
    unfolding gh_rpc_respondtomsg_def Let_def syscall_pair prod.case
    by (intro gives_intros gives_map [OF c]) (auto simp: rpc_call_def dest: s split: prod.splits)
qed

text \<open>The call of the function, under what the function itself does\<close>

lemma callframe_calls:
  assumes run: "\<And>frame tr1. gives (run (rf_func func) (frame, s, tr1))
      (\<lambda>(frame', s', tr'). extends P tr1 tr' \<and> returns_sent tr' = returns_sent tr1 \<and> S s')" and "S s"
    and "\<And>c. rpc_call thread c \<Longrightarrow> P c"
    and "rpc_function rpc frame = Some func"
  shows "gives (gh_rpc_callframe env run rpc (frame, s, tr))
    (\<lambda>(res, frame', s', tr'). extends P tr tr' \<and> returns_sent tr' = returns_sent tr \<and> S s')"
proof -
  have m: "extends P tr0 tr' \<and> returns_sent tr' = n"
    if "rpc_mutex env op l g func ptr tr1 = (res, tr')" "extends P tr0 tr1" "returns_sent tr1 = n" for op l g ptr tr0 tr1 n res tr'
    using mutex_calls [OF that(1), of thread] that(2,3) assms(3) by (meson extends_mono extends_trans)
  from assms(4) obtain ptr where p: "fr_function frame = Some ptr" "da_deref (rp_functions rpc) ptr = Some func"
    by (auto simp: rpc_function_def bind_eq_Some_conv)
  have u: "gives (run (rf_func func) (frame1, s, tr1))
      (\<lambda>(frame', s', tr'). extends P tr tr' \<and> returns_sent tr' = returns_sent tr \<and> S s')"
    if "extends P tr tr1" "returns_sent tr1 = returns_sent tr" for frame1 tr1
    using run [of frame1 tr1] that by (auto simp: gives_def intro: extends_trans)
  show ?thesis
    unfolding gh_rpc_callframe_def prod.case p option.case Let_def
    by (intro gives_intros gives_bind)
      (auto simp: p(2) assms(2) dest!: m [OF _ extends_refl refl] intro!: gives_map [OF u] intro: extends_trans split: prod.splits)
qed

section \<open>The message\<close>

lemma first_named_bound: "first_named name i fs = Some k \<Longrightarrow> i \<le> k \<and> k < i + length fs"
  by (induction fs arbitrary: i) (fastforce split: if_splits)+

lemma newframe_ok:
  "gives (gh_rpc_newframefrommsg env al rpc thread msg tr) (\<lambda>(res, frame, tr'). frame \<noteq> None \<longleftrightarrow> res = GHR_OK)"
  unfolding gh_rpc_newframefrommsg_def Let_def syscall_pair prod.case
  by (intro gives_intros gives_bind) (auto simp: ghr_simps ghr_errno_def)

lemma newframe_function:
  assumes "rpc_list destroy rpc fs"
    and "gh_rpc_newframefrommsg env al rpc thread msg tr = Some (res, (Some frame, tr'))"
  shows "\<exists>k. first_named (fc_name msg) 0 fs = Some k \<and> k < length fs \<and> rpc_function rpc frame = Some (fs ! k)"
proof -
  have "res = GHR_OK" using givesD [OF newframe_ok assms(2)] by simp
  from newframe_frame [OF assms(2) [unfolded this]] obtain f bytes where
    f: "frame = msg_frame msg f bytes" "msgframe_find (rp_functions rpc) (fc_name msg) 0 = Some (Some f)" by blast
  from f(2) msgframe_find_result [OF assms(1), of 0 "fc_name msg"] obtain k where
    k: "first_named (fc_name msg) 0 fs = Some k" "f = (da_block (rp_functions rpc), k)" by auto
  from first_named_bound [OF k(1)] have "k < length fs" by simp
  with k rpc_list_deref(2) [OF assms(1) this] f(1) show ?thesis
    by (auto simp: rpc_function_def msg_frame_def)
qed

text \<open>
  All calls for a message, when the functions keep to \<open>P\<close> and send no response themselves. A message that is
  handled without an error, or whose function is missing, was answered once; no message is answered twice.
\<close>

lemma functioncall_calls:
  assumes list: "rpc_list destroy (th_rpc thread) fs"
    and run: "\<And>func frame tr1. func \<in> set fs \<Longrightarrow> gives (run (rf_func func) (frame, thread, tr1))
      (\<lambda>(frame', s', tr'). extends P tr1 tr' \<and> returns_sent tr' = returns_sent tr1 \<and> rpc_thread s' = rpc_thread thread)"
    and P: "\<And>c. rpc_call (rpc_thread thread) c \<Longrightarrow> P c"
  shows "gives (thread_handlemsg_functioncall env al run msg (thread, tr)) (\<lambda>(res, thread', tr').
     extends P tr tr' \<and> returns_sent tr' \<le> returns_sent tr + 1 \<and>
     (res = GHR_OK \<longrightarrow> returns_sent tr' = returns_sent tr + 1))"
proof -
  have e: "extends P tr1 tr3" if "extends (rpc_call (rpc_thread thread)) tr2 tr3" "extends P tr1 tr2" for tr1 tr2 tr3
    using that P by (meson extends_mono extends_trans)
  have call: "gives (gh_rpc_callframe env run (th_rpc thread) (frame, thread, tr1))
      (\<lambda>(res, frame', s', tr'). extends P tr tr' \<and> returns_sent tr' = returns_sent tr \<and> rpc_thread s' = rpc_thread thread)"
    if n: "gh_rpc_newframefrommsg env al (th_rpc thread) (rpc_thread thread) msg tr = Some (res, (Some frame, tr1))" for res frame tr1
  proof -
    from newframe_function [OF list n] obtain k where
      k: "k < length fs" "rpc_function (th_rpc thread) frame = Some (fs ! k)" by blast
    have "extends P tr tr1" "returns_sent tr1 = returns_sent tr"
      using givesD [OF newframe_calls n] by (auto intro: e)
    then show ?thesis
      using callframe_calls [of run "fs ! k" thread P "\<lambda>s. rpc_thread s = rpc_thread thread" "rpc_thread thread"
          "th_rpc thread" frame env tr1, OF run refl P k(2)] k(1)
      by (auto simp: gives_def intro: extends_trans)
  qed
  have resp: "gives (gh_rpc_respondtomsg env (rpc_thread thread) msg frame tr1) (\<lambda>(res, frame', tr').
      extends P tr tr' \<and> returns_sent tr' \<le> returns_sent tr + 1 \<and> (res = GHR_OK \<longrightarrow> returns_sent tr' = returns_sent tr + 1))"
    if "extends P tr tr1" "returns_sent tr1 = returns_sent tr" for frame tr1
    using respond_count [of env "rpc_thread thread" msg frame tr1] respond_calls [of env "rpc_thread thread" msg frame tr1] that
    by (auto simp: gives_def intro: e)
  have miss: "extends P tr tr2 \<and> returns_sent tr2 = returns_sent tr + (if r = GHR_OK then 1 else 0)"
    if "gh_rpc_respondmissing env (th_ipc thread) tr1 = (r, tr2)" "extends P tr tr1" "returns_sent tr1 = returns_sent tr" for r tr1 tr2
    using send_return_count [of env "th_ipc thread" "- 1" GHR_RPC_MISSINGFUNC tr1]
      send_return_calls [of env "rpc_thread thread" "- 1" GHR_RPC_MISSINGFUNC tr1] that
    by (auto simp: gh_rpc_respondmissing_def rpc_thread_def intro: e)
  show ?thesis
    unfolding thread_handlemsg_functioncall_def prod.case Let_def
  proof (rule gives_bind, intro gives_prod gives_if gives_option, goal_cases)
    case (1 x res y frame tr1)
    then show ?case
      using givesD [OF newframe_calls, of env al "th_rpc thread" "rpc_thread thread" msg tr x]
      by (auto simp: ghr_simps dest!: miss intro: e split: prod.splits)
  next
    case (2 x res y frame tr1)
    then show ?case
      using givesD [OF newframe_calls, of env al "th_rpc thread" "rpc_thread thread" msg tr x]
        givesD [OF newframe_ok, of env al "th_rpc thread" "rpc_thread thread" msg tr x]
      by (auto intro: e)
  next
    case (3 x res y frame tr1 fr)
    then have "gives (gh_rpc_callframe env run (th_rpc thread) (fr, thread, tr1))
      (\<lambda>(res, frame', s', tr'). extends P tr tr' \<and> returns_sent tr' = returns_sent tr \<and> rpc_thread s' = rpc_thread thread)" using call by simp
    then show ?case
      by (rule gives_use) (intro gives_prod gives_if, auto simp: ghr_simps intro!: gives_map [OF resp] split: prod.splits if_splits)
  qed
qed

end
