(* ===== verification/ThreadFacts.thy ===== *)
theory ThreadFacts
  imports StdMessages
begin

text \<open>
  Waiting for a script: the host's loop over the messages of the process ends, when the process sends
  the result at some time, its calls are well formed and the functions of the registrar give a result
  for each frame that lies inside its memory.
\<close>

section \<open>Calls of functions always return\<close>

text \<open>What a function of the registrar does not change in a thread\<close>

definition thread_fixed :: "('g, 'h, 'f) gh_thread \<Rightarrow> 'f gh_rpc \<times> gh_ipc \<times> int \<times> gh_sandbox \<times> int" where
  "thread_fixed thread = (th_rpc thread, th_ipc thread, th_pid thread, th_sandbox thread, th_default_timeout_ms thread)"

lemma thread_fixed_rpc: "thread_fixed thread' = thread_fixed thread \<Longrightarrow> rpc_thread thread' = rpc_thread thread"
  by (simp add: thread_fixed_def rpc_thread_def)

text \<open>The functions return, and leave the frame inside its memory.\<close>

definition run_safe :: "('g, 'h, 'f) thread_run \<Rightarrow> ('g, 'h, 'f) gh_thread \<Rightarrow> 'f gh_rpcfunction list \<Rightarrow> bool" where
  "run_safe run thread fs \<longleftrightarrow>
     (\<forall>func \<in> set fs. \<forall>frame thread1 tr. frame_inside frame \<longrightarrow> thread_fixed thread1 = thread_fixed thread \<longrightarrow>
        (\<exists>frame' thread' tr'. run (rf_func func) (frame, thread1, tr) = Some (frame', thread', tr') \<and>
           frame_inside frame' \<and> thread_fixed thread' = thread_fixed thread \<and> extends (\<lambda>_. True) tr tr'))"

abbreviation (input) later :: "trace \<Rightarrow> trace \<Rightarrow> bool" where
  "later tr tr' \<equiv> extends (\<lambda>_. True) tr tr'"

lemma later_Cons [simp, intro]: "later tr tr' \<Longrightarrow> later tr (x # tr')"
  by (cases x) auto

lemma callframe_total:
  assumes "frame_inside frame" "rpc_function rpc frame = Some func" "func \<in> set fs" "run_safe run thread fs"
    and "thread_fixed thread1 = thread_fixed thread"
  shows "\<exists>res frame' thread' tr'. gh_rpc_callframe env run rpc (frame, thread1, tr) = Some (res, frame', thread', tr') \<and>
     frame_inside frame' \<and> thread_fixed thread' = thread_fixed thread \<and> later tr tr'"
proof (cases "fr_result frame = GHR_RPC_UNEXECUTED")
  case False
  obtain ptr where "fr_function frame = Some ptr" using assms(2) by (auto simp: rpc_function_def bind_eq_Some_conv)
  with False assms(1,5) show ?thesis by (simp add: gh_rpc_callframe_def)
next
  case True
  from callframe_steps [OF assms(1,2) True, of env run thread1 tr] obtain frame' ptr where
    f: "frame_inside frame'" and
    c: "gh_rpc_callframe env run rpc (frame, thread1, tr) =
       (let (res, tr) = rpc_mutex env MutexLock GHR_RPC_MUTEXLOCK GHR_RPC_GLOBALMUTEXLOCK func ptr tr in
        if ghr_iserr res then Some (res, (frame', thread1, tr))
        else
          map_option (\<lambda>(frame, s, tr).
              let (res, tr) = rpc_mutex env MutexUnlock GHR_RPC_MUTEXUNLOCK GHR_RPC_GLOBALMUTEXUNLOCK func ptr tr in
              (res, (frame, s, tr)))
            (run (rf_func func) (frame'\<lparr>fr_result := GHR_OK\<rparr>, thread1, tr)))" by blast
  obtain res tr1 where m: "rpc_mutex env MutexLock GHR_RPC_MUTEXLOCK GHR_RPC_GLOBALMUTEXLOCK func ptr tr = (res, tr1)"
    by (metis prod.exhaust)
  have "frame_inside (frame'\<lparr>fr_result := GHR_OK\<rparr>)" using f by simp
  then obtain frame2 thread2 tr2 where u: "run (rf_func func) (frame'\<lparr>fr_result := GHR_OK\<rparr>, thread1, tr1) = Some (frame2, thread2, tr2)"
    "frame_inside frame2" "thread_fixed thread2 = thread_fixed thread" "later tr1 tr2"
    using assms(3-5) unfolding run_safe_def by blast
  obtain res3 tr3 where m3: "rpc_mutex env MutexUnlock GHR_RPC_MUTEXUNLOCK GHR_RPC_GLOBALMUTEXUNLOCK func ptr tr2 = (res3, tr3)"
    by (metis prod.exhaust)
  have l: "later tr tr1" "later tr2 tr3"
    using mutex_calls [OF m, of "rpc_thread thread"] mutex_calls [OF m3, of "rpc_thread thread"]
    by (auto elim: extends_mono)
  then have "later tr tr3" using u(4) by (meson extends_trans)
  then show ?thesis
    using f l(1) assms(5) by (cases "ghr_iserr res") (simp_all add: c m m3 u)
qed

text \<open>A message of the shape of its structure whose sizes do not wrap\<close>

definition call_safe :: "gh_ipcmsg_functioncall \<Rightarrow> bool" where
  "call_safe msg \<longleftrightarrow> ipcmsg_shape (MsgFunctionCall msg) \<and> msg_total msg < 18446744073709551616"

lemma newframe_total:
  assumes "rpc_list destroy rpc fs" "call_safe msg"
  shows "\<exists>res frame tr'. gh_rpc_newframefrommsg env al rpc thread msg tr = Some (res, (frame, tr')) \<and>
     (\<forall>fr. frame = Some fr \<longrightarrow> frame_inside fr \<and> (\<exists>k < length fs. rpc_function rpc fr = Some (fs ! k)))"
proof -
  obtain f where f: "msgframe_find (rp_functions rpc) (fc_name msg) 0 = Some f"
    using msgframe_find_result [OF assms(1), of 0] by simp
  have len: "\<not> length (fc_args msg) < unat (if of_nat 16 < fc_arg_count msg then 16 else fc_arg_count msg)"
    using assms(2) by (simp add: call_safe_def ipcmsg_shape_def size_less_unat)
  have fits: "\<not> readv_copied a n (msg_args msg) > unat (msg_buffer_size msg)" for a n
    using assms(2) by (intro readv_fits) (simp add: call_safe_def)
  have "gh_rpc_newframefrommsg env al rpc thread msg tr \<noteq> None"
    using len fits
    unfolding gh_rpc_newframefrommsg_def f msg_args_count Let_def msg_buffer_size_def [symmetric]
    by (cases f) (simp_all split: prod.split)
  then obtain res frame tr' where n: "gh_rpc_newframefrommsg env al rpc thread msg tr = Some (res, (frame, tr'))"
    by (metis not_None_eq prod_cases3)
  have "frame_inside fr \<and> (\<exists>k < length fs. rpc_function rpc fr = Some (fs ! k))" if fr: "frame = Some fr" for fr
  proof -
    have "res = GHR_OK" using givesD [OF newframe_ok n] fr by simp
    then obtain f bytes where "fr = msg_frame msg f bytes" "length bytes = unat (msg_buffer_size msg)"
      using newframe_frame [of env al rpc thread msg tr fr tr'] n fr by blast
    with msg_frame_inside [of msg bytes f] assms(2) newframe_function [OF assms(1) n [unfolded fr]] show ?thesis
      by (auto simp: call_safe_def)
  qed
  with n show ?thesis by blast
qed

lemma respond_total:
  assumes "frame_inside frame"
  shows "gh_rpc_respondtomsg env thread msg frame tr \<noteq> None"
proof -
  have "rpc_copyreturn env thread msg frame tr \<noteq> None"
    using assms by (auto simp: rpc_copyreturn_def frame_inside_def arg_inside_def mem_load_def)
  then show ?thesis by (simp add: gh_rpc_respondtomsg_def del: not_None_eq)
qed

lemma functioncall_total:
  assumes "rpc_list destroy (th_rpc thread) fs" "call_safe msg" "run_safe run thread fs"
  shows "\<exists>res thread' tr'. thread_handlemsg_functioncall env al run msg (thread, tr) = Some (res, (thread', tr')) \<and>
     thread_fixed thread' = thread_fixed thread \<and> later tr tr'"
proof -
  from newframe_total [OF assms(1,2)] obtain res frame tr1 where
    n: "gh_rpc_newframefrommsg env al (th_rpc thread) (rpc_thread thread) msg tr = Some (res, (frame, tr1))" and
    fr: "\<And>fr. frame = Some fr \<Longrightarrow> frame_inside fr \<and> (\<exists>k < length fs. rpc_function (th_rpc thread) fr = Some (fs ! k))"
    by (metis (no_types, lifting))
  have l: "later tr tr1" using givesD [OF newframe_calls n] by (auto elim: extends_mono)
  show ?thesis
  proof (cases "ghr_is res GHR_RPC_MISSINGFUNC")
    case True
    obtain r2 tr2 where m: "gh_rpc_respondmissing env (th_ipc thread) tr1 = (r2, tr2)" by (metis prod.exhaust)
    then have "later tr1 tr2" using send_return_calls [of env "rpc_thread thread" "- 1" GHR_RPC_MISSINGFUNC tr1]
      by (auto simp: gh_rpc_respondmissing_def rpc_thread_def elim: extends_mono)
    with True n m l show ?thesis by (auto simp: thread_handlemsg_functioncall_def intro: extends_trans)
  next
    case False
    show ?thesis
    proof (cases frame)
      case None
      with False n l show ?thesis by (simp add: thread_handlemsg_functioncall_def)
    next
      case (Some f)
      from fr [OF Some] obtain k where k: "frame_inside f" "k < length fs" "rpc_function (th_rpc thread) f = Some (fs ! k)" by blast
      from callframe_total [OF k(1,3) _ assms(3) refl, of env tr1] k(2) obtain res2 f2 thread2 tr2 where
        c: "gh_rpc_callframe env run (th_rpc thread) (f, thread, tr1) = Some (res2, f2, thread2, tr2)"
        "frame_inside f2" "thread_fixed thread2 = thread_fixed thread" "later tr1 tr2" by auto
      obtain res3 f3 tr3 where r: "gh_rpc_respondtomsg env (rpc_thread thread2) msg f2 tr2 = Some (res3, (f3, tr3))"
        using respond_total [OF c(2)] by (metis not_None_eq prod_cases3)
      have "later tr2 tr3" using givesD [OF respond_calls r] by (auto elim: extends_mono)
      with False Some n l c r show ?thesis
        by (cases "ghr_iserr res2"; cases "ghr_iserr res3")
          (auto simp: thread_handlemsg_functioncall_def intro: extends_trans)
    qed
  qed
qed

section \<open>The loop ends\<close>

text \<open>How many messages were received\<close>

definition recv_count :: "trace \<Rightarrow> nat" where
  "recv_count tr = length (filter (\<lambda>(c, a). case c of Recvmsg _ \<Rightarrow> True | _ \<Rightarrow> False) tr)"

lemma recv_count_simps [simp]:
  "recv_count [] = 0" "recv_count ((Recvmsg fd, a) # tr) = Suc (recv_count tr)"
  "recv_count ((Poll fds t, a) # tr) = recv_count tr"
  by (simp_all add: recv_count_def)

lemma recv_count_later: "later tr tr' \<Longrightarrow> recv_count tr \<le> recv_count tr'"
  by (auto simp: extends_def recv_count_def)

text \<open>The function calls that arrive are well formed: what the process asks for does not wrap.\<close>

definition calls_safe :: "env \<Rightarrow> bool" where
  "calls_safe env \<longleftrightarrow> shapes_env env \<and>
     (\<forall>tr fd c. an_msg (env tr (Recvmsg fd)) = MsgFunctionCall c \<longrightarrow> msg_total c < 18446744073709551616)"

lemma args_total_take: "args_total (take m args) \<le> args_total args"
  by (induction args arbitrary: m) (auto simp: take_Cons split: nat.split)

lemma sanitized_call_safe:
  assumes "ipcmsg_shape (MsgFunctionCall c)" "msg_total c < 18446744073709551616" "basic_sanitize_msg (MsgFunctionCall c) = MsgFunctionCall c'"
  shows "call_safe c'"
proof -
  have "ipcmsg_shape (MsgFunctionCall c')" using sanitize_shape [OF assms(1)] assms(3) by simp
  moreover have "msg_total c' = msg_total c"
  proof -
    have "fc_args c' = fc_args c" "fc_return_arg c' = fc_return_arg c"
      "min (unat (fc_arg_count c')) 16 = min (unat (fc_arg_count c)) 16"
      using assms(3) by (auto simp: basic_sanitize_msg_def Let_def size_less_unat split: if_splits)
    then show ?thesis by (simp add: msg_total_def msg_args_def return_wanted_def)
  qed
  ultimately show ?thesis using assms(2) by (simp add: call_safe_def)
qed

text \<open>A message that is received without error was one call, and is safe.\<close>

lemma recv_received:
  assumes "calls_safe env"
  obtains res msg tr' where "gh_ipc_recv env ipc timeout tr = (res, (msg, tr'))" "later tr tr'"
    and "msg = None \<longleftrightarrow> res \<noteq> GHR_OK"
    and "\<And>m. msg = Some m \<Longrightarrow> (\<exists>tr1. recv_count tr1 = recv_count tr \<and> later tr tr1 \<and>
           tr' = (Recvmsg (ip_sockfd ipc), env tr1 (Recvmsg (ip_sockfd ipc))) # tr1 \<and>
           (\<exists>fd. m = basic_sanitize_msg (an_msg (env tr1 (Recvmsg (ip_sockfd ipc)))) \<or>
                 m = ipcmsg_setfd fd (basic_sanitize_msg (an_msg (env tr1 (Recvmsg (ip_sockfd ipc))))))) \<and>
         (\<forall>c. m = MsgFunctionCall c \<longrightarrow> call_safe c)"
proof -
  let ?c = "Recvmsg (ip_sockfd ipc)"
  have one: "later tr0 tr' \<and> (msg = None \<longleftrightarrow> res \<noteq> GHR_OK) \<and>
     (\<forall>m. msg = Some m \<longrightarrow> tr' = (?c, env tr0 ?c) # tr0 \<and>
        (\<exists>fd. m = basic_sanitize_msg (an_msg (env tr0 ?c)) \<or> m = ipcmsg_setfd fd (basic_sanitize_msg (an_msg (env tr0 ?c)))))"
    if "ipc_recvmsg env ipc tr0 = (res, (msg, tr'))" for tr0 res msg tr'
    using that
    by (auto simp: ipc_recvmsg_def syscall_pair Let_def ghr_simps ghr_errno_def prepare_cmsg_def
        split: if_splits option.splits)
  have safe: "call_safe c"
    if "MsgFunctionCall c = basic_sanitize_msg (an_msg (env tr0 ?c)) \<or>
        MsgFunctionCall c = ipcmsg_setfd fd (basic_sanitize_msg (an_msg (env tr0 ?c)))" for tr0 fd c
  proof -
    from that obtain c0 where c0: "an_msg (env tr0 ?c) = MsgFunctionCall c0"
      by (cases "an_msg (env tr0 ?c)") (auto simp: basic_sanitize_msg_def ipcmsg_setfd_def Let_def split: if_splits)
    with that have "basic_sanitize_msg (MsgFunctionCall c0) = MsgFunctionCall c"
      by (auto simp: basic_sanitize_msg_def ipcmsg_setfd_def Let_def split: if_splits)
    moreover have "ipcmsg_shape (MsgFunctionCall c0)" using assms c0 by (metis calls_safe_def shapes_env_def)
    ultimately show ?thesis using sanitized_call_safe assms c0 by (metis calls_safe_def)
  qed
  obtain res msg tr' where r: "gh_ipc_recv env ipc timeout tr = (res, (msg, tr'))" by (metis prod_cases3)
  show thesis
  proof (cases "timeout \<noteq> GH_IPC_NOTIMEOUT \<and> an_ret (env tr (Poll [ip_sockfd ipc] timeout)) \<le> 0")
    case True
    then have "msg = None" "res \<noteq> GHR_OK" "tr' = (Poll [ip_sockfd ipc] timeout, env tr (Poll [ip_sockfd ipc] timeout)) # tr"
      using r by (auto simp: gh_ipc_recv_def syscall_pair Let_def ghr_simps ghr_errno_def split: if_splits)
    then show ?thesis using that [OF r] by auto
  next
    case False
    then obtain tr1 where 1: "ipc_recvmsg env ipc tr1 = (res, (msg, tr'))" "later tr tr1" "recv_count tr1 = recv_count tr"
      using r by (cases "timeout = GH_IPC_NOTIMEOUT") (auto simp: gh_ipc_recv_def syscall_pair Let_def split: if_splits)
    show ?thesis
    proof (rule that [OF r])
      show "later tr tr'" using one [OF 1(1)] 1(2) by (meson extends_trans)
      show "(msg = None) = (res \<noteq> GHR_OK)" using one [OF 1(1)] by blast
    next
      fix m assume "msg = Some m"
      with one [OF 1(1)] 1(2,3) safe show "(\<exists>tr1. recv_count tr1 = recv_count tr \<and> later tr tr1 \<and>
           tr' = (?c, env tr1 ?c) # tr1 \<and>
           (\<exists>fd. m = basic_sanitize_msg (an_msg (env tr1 ?c)) \<or>
                 m = ipcmsg_setfd fd (basic_sanitize_msg (an_msg (env tr1 ?c))))) \<and>
         (\<forall>c. m = MsgFunctionCall c \<longrightarrow> call_safe c)" by blast
    qed
  qed
qed

lemma run_safe_fixed: "thread_fixed thread' = thread_fixed thread \<Longrightarrow> run_safe run thread' fs = run_safe run thread fs"
  by (simp add: run_safe_def)

lemma handlemsg_total:
  assumes "rpc_list destroy (th_rpc thread) fs" "run_safe run thread fs" "\<And>c. msg = MsgFunctionCall c \<Longrightarrow> call_safe c"
  shows "\<exists>res notif' thread' tr'. thread_handlemsg env al run msg notif (thread, tr) = Some (res, (notif', (thread', tr'))) \<and>
     thread_fixed thread' = thread_fixed thread \<and> later tr tr'"
proof (cases "\<exists>c. msg = MsgFunctionCall c")
  case True
  then obtain c where c: "msg = MsgFunctionCall c" by blast
  from functioncall_total [OF assms(1) assms(3) [OF c] assms(2), of env al tr] obtain res thread' tr' where
    "thread_handlemsg_functioncall env al run c (thread, tr) = Some (res, (thread', tr'))"
    "thread_fixed thread' = thread_fixed thread" "later tr tr'" by blast
  then show ?thesis
    by (cases "ghr_is res GHR_RPC_MISSINGFUNC") (simp_all add: thread_handlemsg_def c Let_def)
next
  case False
  then show ?thesis by (cases msg) (auto simp: thread_handlemsg_def)
qed

text \<open>From some number of received messages on, the process sends the result of the script.\<close>

definition result_comes :: "env \<Rightarrow> gh_ipc \<Rightarrow> int \<Rightarrow> nat \<Rightarrow> bool" where
  "result_comes env ipc script_id n \<longleftrightarrow>
     (\<forall>tr. n \<le> recv_count tr \<longrightarrow>
        (\<exists>r. an_msg (env tr (Recvmsg (ip_sockfd ipc))) = MsgLuaResult r \<and> lr_script_id r = script_id))"

lemma syncscript_returns:
  assumes "calls_safe env" "result_comes env (th_ipc thread) script_id n"
    and "rpc_list destroy (th_rpc thread) fs" "run_safe run thread fs"
  shows "thread_fixed thread1 = thread_fixed thread \<Longrightarrow>
     \<exists>res s st. thread_syncscript env al run script_id (thread1, tr) = Some (res, (s, st)) \<and>
       (res = GHR_OK \<longrightarrow> ts_id s = script_id)"
proof (induction "n - recv_count tr" arbitrary: thread1 tr rule: less_induct)
  case less
  have th: "th_ipc thread1 = th_ipc thread" "th_rpc thread1 = th_rpc thread"
    using less.prems by (simp_all add: thread_fixed_def)
  let ?c = "Recvmsg (ip_sockfd (th_ipc thread))"
  obtain res msg tr1 where r: "gh_ipc_recv env (th_ipc thread) (th_default_timeout_ms thread1) tr = (res, (msg, tr1))" "later tr tr1"
    "msg = None \<longleftrightarrow> res \<noteq> GHR_OK" and
    m: "\<And>m. msg = Some m \<Longrightarrow> (\<exists>tr0. recv_count tr0 = recv_count tr \<and> later tr tr0 \<and> tr1 = (?c, env tr0 ?c) # tr0 \<and>
           (\<exists>fd. m = basic_sanitize_msg (an_msg (env tr0 ?c)) \<or> m = ipcmsg_setfd fd (basic_sanitize_msg (an_msg (env tr0 ?c))))) \<and>
         (\<forall>c. m = MsgFunctionCall c \<longrightarrow> call_safe c)"
    using recv_received [OF assms(1)] by (metis (no_types, lifting))
  show ?case
  proof (cases msg)
    case None
    then have "gh_thread_process env al run (Some threadnotif_zero) (thread1, tr) = Some (res, (Some threadnotif_zero, (thread1, tr1)))"
      using r(1) th by (simp add: gh_thread_process_def)
    then show ?thesis using None r(3) by (subst thread_syncscript.simps) (simp add: ghr_simps)
  next
    case (Some msg')
    from m [OF Some] obtain tr0 fd where tr0: "recv_count tr0 = recv_count tr" "tr1 = (?c, env tr0 ?c) # tr0"
      "msg' = basic_sanitize_msg (an_msg (env tr0 ?c)) \<or> msg' = ipcmsg_setfd fd (basic_sanitize_msg (an_msg (env tr0 ?c)))"
      "\<And>c. msg' = MsgFunctionCall c \<Longrightarrow> call_safe c" by blast
    have h: "rpc_list destroy (th_rpc thread1) fs" "run_safe run thread1 fs"
      using assms(3,4) th run_safe_fixed [OF less.prems] by simp_all
    from handlemsg_total [where msg = msg' and env = env and al = al and notif = "Some threadnotif_zero" and tr = tr1, OF h tr0(4)] obtain res2 notif2 thread2 tr2 where
      p: "thread_handlemsg env al run msg' (Some threadnotif_zero) (thread1, tr1) = Some (res2, (notif2, (thread2, tr2)))"
      "thread_fixed thread2 = thread_fixed thread1" "later tr1 tr2" by blast
    have pr: "gh_thread_process env al run (Some threadnotif_zero) (thread1, tr) = Some (res2, (notif2, (thread2, tr2)))"
      using r(1) th p(1) Some by (simp add: gh_thread_process_def)
    show ?thesis
    proof (cases "n \<le> recv_count tr")
      case True
      with assms(2) tr0(1) obtain lr where lr: "an_msg (env tr0 ?c) = MsgLuaResult lr" "lr_script_id lr = script_id"
        by (metis result_comes_def)
      with tr0(3) obtain lr' where "msg' = MsgLuaResult lr'" "lr_script_id lr' = script_id"
        by (auto simp: basic_sanitize_msg_def ipcmsg_setfd_def)
      then show ?thesis
        using p(1) pr by (subst thread_syncscript.simps) (auto simp: thread_handlemsg_def ghr_simps)
    next
      case False
      have "recv_count tr2 > recv_count tr" using recv_count_later [OF p(3)] tr0 by simp
      then have "n - recv_count tr2 < n - recv_count tr" using False by simp
      from less.hyps [OF this, of thread2] p(2) less.prems obtain res3 s3 st3 where
        "thread_syncscript env al run script_id (thread2, tr2) = Some (res3, (s3, st3)) \<and> (res3 = GHR_OK \<longrightarrow> ts_id s3 = script_id)"
        by auto
      then show ?thesis using pr
        by (subst thread_syncscript.simps) (auto simp: ghr_simps split: option.split gh_threadnotif.split)
    qed
  qed
qed

end
