(* ===== verification/StdExec.thy ===== *)
theory StdExec
  imports StdFacts
begin

text \<open>
  Programs and temporary files: what runs after a fork has passed the gate for programs, and what the
  gate for a temporary file says of the way it is opened.
\<close>

section \<open>Programs\<close>

text \<open>The program that replaces the child is the shell of the path descriptor that the gate let pass.\<close>

lemma execute_child_executes:
  assumes "execute_child env pathfd argv envp pty tr = (Executes fd argv' envp', tr')"
  shows "fd = pf_fd pathfd \<and> argv' = argv \<and> envp' = envp"
  using assms by (auto simp: execute_child_def Let_def syscall_pair split: if_splits prod.splits)

lemma execute_executes:
  fixes thread :: "('g, 'h, 'f) gh_thread"
  assumes "gh_std_execute env al dirfd script envp ws wp (thread, tr) = Some (Executes fd argv envp', tr')"
  shows "argv = shell_argv script \<and> envp' = envp \<and>
     (\<exists>pathfd tr1 thread' tr2.
        gh_pathfd_open env dirfd ''/bin/sh'' pathfd_zero GH_PATHFD_RESOLVELINKS tr = (GHR_OK, (pathfd, tr1)) \<and>
        fd = pf_fd pathfd \<and>
        std_gateexec env al pathfd (shell_argv script) envp (thread, tr1) = Some (GHR_OK, (thread', tr2)))"
proof -
  obtain res pathfd tr1 where o: "gh_pathfd_open env dirfd ''/bin/sh'' pathfd_zero GH_PATHFD_RESOLVELINKS tr = (res, (pathfd, tr1))"
    by (metis prod_cases3)
  with assms have r: "res = GHR_OK" by (auto simp: gh_std_execute_def ghr_simps split: if_splits)
  then obtain gres thread' tr2 where g: "std_gateexec env al pathfd (shell_argv script) envp (thread, tr1) = Some (gres, (thread', tr2))"
    using assms o by (auto simp: gh_std_execute_def ghr_simps)
  have ok: "gres = GHR_OK"
    using assms o r g by (auto simp: gh_std_execute_def ghr_simps Let_def split: if_splits prod.splits)
  have "\<exists>pty tr3. execute_child env pathfd (shell_argv script) envp pty tr3 =
      (Executes fd argv envp' :: (gh_result \<times> nat option \<times> int option \<times> ('g, 'h, 'f) gh_thread) outcome, tr')"
    using assms o r g ok
    by (auto simp: gh_std_execute_def ghr_simps ghr_errno_def Let_def syscall_pair split: if_splits prod.splits option.splits)
  with execute_child_executes o r g ok show ?thesis by blast
qed

section \<open>Temporary files\<close>

text \<open>
  The file is opened for reading and writing, and created with no permissions, whatever was asked for
  and whatever mode the gate was asked about.
\<close>

lemma opentemp_opens:
  assumes "gh_std_opentemp env al pfx flags (thread, tr) = Some (res, (Some tempfile, st))"
  shows "\<exists>d name tr1 pathfd mode thread' tr2 tr3.
     tm_fd tempfile = an_ret (env tr3 (Openat d name (O_RDWR OR O_CREAT) 0)) \<and>
     (Openat d name (O_RDWR OR O_CREAT) 0, env tr3 (Openat d name (O_RDWR OR O_CREAT) 0)) \<in> set (snd st) \<and>
     gh_permfs_fcntlflags2permfsmode flags 0x1A4 pathfd = (GHR_OK, Some mode) \<and>
     std_gatefile env al pathfd mode (Some ''tmpfile'') (thread, tr1) = Some (GHR_OK, (thread', tr2))"
proof -
  have c: "x \<in> set tr2" if "opentemp_closefd env t f r (x # tr1) = (r', tr2)" for t f r tr1 r' tr2 x
    using that by (auto simp: opentemp_closefd_def syscall_pair Let_def split: if_splits)
  have m: "r = 0" if "gh_permfs_fcntlflags2permfsmode flags 0x1A4 pathfd = (r, Some mode)" for r pathfd mode
    using that by (auto simp: gh_permfs_fcntlflags2permfsmode_def Let_def split: option.splits prod.splits if_splits)
  let ?o = "\<lambda>d name. Openat d name (O_RDWR OR O_CREAT) 0"
  have "gives (gh_std_opentemp env al pfx flags (thread, tr)) (\<lambda>(res, tempfile, st). \<forall>tm. tempfile = Some tm \<longrightarrow>
     (\<exists>d name tr1 pathfd mode thread' tr2 tr3.
        tm_fd tm = an_ret (env tr3 (?o d name)) \<and> (?o d name, env tr3 (?o d name)) \<in> set (snd st) \<and>
        (\<exists>r. gh_permfs_fcntlflags2permfsmode flags 0x1A4 pathfd = (r, Some mode)) \<and>
        std_gatefile env al pathfd mode (Some ''tmpfile'') (thread, tr1) = Some (GHR_OK, (thread', tr2))))"
    unfolding gh_std_opentemp_def syscall_pair prod.case Let_def
    by (intro gives_intros gives_bind) (auto simp: ghr_simps dest!: c split: prod.splits if_splits,
        (intro exI conjI, rule refl, assumption, assumption, assumption)+)
  then show ?thesis using assms m unfolding gives_def by fastforce
qed

end
