(* ===== verification/ThreadCall.thy ===== *)
theory ThreadCall
  imports Thread
begin

text \<open>
  Calls of functions of the sandboxed process (\<^verbatim>\<open>gh_thread_callframe_*\<close>, \<^verbatim>\<open>gh_thread_call\<close>): the
  parameters are written to shared memory and named by virtual pointers, the return value is read
  from there after the memory was sealed.
\<close>

record gh_thread_callframe =
  cf_param_count :: size_t
  cf_fdmem :: gh_fdmem
  cf_param_ptrs :: "gh_fdmem_ptr list"
  cf_returned :: bool
  cf_return_value :: addr

definition callframe_zero :: gh_thread_callframe where
  "callframe_zero =
     \<lparr>cf_param_count = 0, cf_fdmem = \<lparr>fm_data = 0, fm_occupied = 0, fm_size = 0, fm_fd = 0\<rparr>,
      cf_param_ptrs = replicate GH_IPCMSG_LUACALL_MAXPARAMS 0, cf_returned = False, cf_return_value = 0\<rparr>"

definition gh_thread_callframe_ctor :: "env \<Rightarrow> trace \<Rightarrow> gh_result \<times> (gh_thread_callframe \<times> trace)" where
  "gh_thread_callframe_ctor env tr =
     (let frame = callframe_zero; (res, fdmem, tr) = gh_fdmem_ctor env (cf_fdmem frame) tr;
          frame = frame\<lparr>cf_fdmem := fdmem\<rparr> in
      if ghr_iserr res then (res, (frame, tr))
      else (res, (frame\<lparr>cf_param_count := 0, cf_returned := False\<rparr>, tr)))"

section \<open>Parameters\<close>

text \<open>
  The three functions allocate the variant, store it, and only then look whether there is room for
  another parameter; \<open>store\<close> is what they store in the variant.
\<close>

definition callframe_param ::
  "env \<Rightarrow> size_t \<Rightarrow> (addr \<Rightarrow> trace \<Rightarrow> trace) \<Rightarrow> gh_thread_callframe \<times> trace \<Rightarrow>
   (gh_result \<times> (gh_thread_callframe \<times> trace)) option" where
  "callframe_param env n store st =
     (case st of (frame, tr) \<Rightarrow>
      Option.bind (gh_fdmem_new env (cf_fdmem frame) n tr) (\<lambda>(res, ptr, fdmem, tr).
      let frame = frame\<lparr>cf_fdmem := fdmem\<rparr> in
      case ptr of
        None \<Rightarrow> Some (res, (frame, tr))
      | Some variant \<Rightarrow>
          (let tr = store variant tr in
           if cf_param_count frame + 1 > of_nat GH_IPCMSG_LUACALL_MAXPARAMS
           then Some (GHR_THREAD_TOOMANYARGS, (frame, tr))
           else
             (let virt_ptr = gh_fdmem_virtptr (cf_fdmem frame) variant n in
              if virt_ptr = 0 then Some (GHR_THREAD_FDMEMNULL, (frame, tr))
              else if unat (cf_param_count frame) \<ge> length (cf_param_ptrs frame) then None
              else
                Some (GHR_OK, (frame\<lparr>cf_param_ptrs := (cf_param_ptrs frame)[unat (cf_param_count frame) := virt_ptr],
                                cf_param_count := cf_param_count frame + 1\<rparr>, tr))))))"

definition gh_thread_callframe_int ::
  "env \<Rightarrow> int \<Rightarrow> gh_thread_callframe \<times> trace \<Rightarrow> (gh_result \<times> (gh_thread_callframe \<times> trace)) option" where
  "gh_thread_callframe_int env v st =
     callframe_param env VARIANT_SIZE
       (\<lambda>p tr. variant_storeint env p v (variant_storetype env p GH_VARIANT_INT tr)) st"

definition gh_thread_callframe_double ::
  "env \<Rightarrow> c_double \<Rightarrow> gh_thread_callframe \<times> trace \<Rightarrow> (gh_result \<times> (gh_thread_callframe \<times> trace)) option" where
  "gh_thread_callframe_double env v st =
     callframe_param env VARIANT_SIZE
       (\<lambda>p tr. variant_storedouble env p v (variant_storetype env p GH_VARIANT_DOUBLE tr)) st"

definition gh_thread_callframe_lstring ::
  "env \<Rightarrow> size_t \<Rightarrow> string \<Rightarrow> gh_thread_callframe \<times> trace \<Rightarrow> (gh_result \<times> (gh_thread_callframe \<times> trace)) option" where
  "gh_thread_callframe_lstring env n s st =
     callframe_param env (VARIANT_SIZE + n)
       (\<lambda>p tr.
          let tr = variant_storelen env p n (variant_storetype env p GH_VARIANT_STRING tr) in
          store_bytes env (variant_data p) (char_array (unat n) (cstr s)) tr) st"

definition gh_thread_callframe_string ::
  "env \<Rightarrow> string \<Rightarrow> gh_thread_callframe \<times> trace \<Rightarrow> (gh_result \<times> (gh_thread_callframe \<times> trace)) option" where
  "gh_thread_callframe_string env s st = gh_thread_callframe_lstring env (of_nat (strlen s)) s st"

section \<open>The return value\<close>

text \<open>The address of the value when it has the type; the type is read from the shared memory.\<close>

definition callframe_value :: "env \<Rightarrow> gh_variant_type \<Rightarrow> gh_thread_callframe \<Rightarrow> trace \<Rightarrow> addr option \<times> trace" where
  "callframe_value env t frame tr =
     (if \<not> cf_returned frame \<or> cf_return_value frame = 0 then (None, tr)
      else
        (let (n, tr) = variant_loadtype env (cf_return_value frame) tr in
         (if n \<noteq> variant_type_num t then None else Some (cf_return_value frame), tr)))"

definition gh_thread_callframe_getint :: "env \<Rightarrow> gh_thread_callframe \<Rightarrow> trace \<Rightarrow> int option \<times> trace" where
  "gh_thread_callframe_getint env frame tr =
     (let (v, tr) = callframe_value env GH_VARIANT_INT frame tr in
      case v of None \<Rightarrow> (None, tr) | Some p \<Rightarrow> (let (i, tr) = variant_loadint env p tr in (Some i, tr)))"

definition gh_thread_callframe_getdouble :: "env \<Rightarrow> gh_thread_callframe \<Rightarrow> trace \<Rightarrow> c_double option \<times> trace" where
  "gh_thread_callframe_getdouble env frame tr =
     (let (v, tr) = callframe_value env GH_VARIANT_DOUBLE frame tr in
      case v of None \<Rightarrow> (None, tr) | Some p \<Rightarrow> (let (d, tr) = variant_loaddouble env p tr in (Some d, tr)))"

text \<open>The size and the address of the string\<close>

definition gh_thread_callframe_getlstring ::
  "env \<Rightarrow> gh_thread_callframe \<Rightarrow> trace \<Rightarrow> (size_t \<times> addr) option \<times> trace" where
  "gh_thread_callframe_getlstring env frame tr =
     (let (v, tr) = callframe_value env GH_VARIANT_STRING frame tr in
      case v of
        None \<Rightarrow> (None, tr)
      | Some p \<Rightarrow> (let (n, tr) = variant_loadlen env p tr in (Some (n, variant_data p), tr)))"

text \<open>The result, and \<^verbatim>\<open>*out_string\<close> when it is stored\<close>

definition gh_thread_callframe_getstring ::
  "env \<Rightarrow> gh_thread_callframe \<Rightarrow> trace \<Rightarrow> bool \<times> (addr option \<times> trace)" where
  "gh_thread_callframe_getstring env frame tr =
     (let (v, tr) = callframe_value env GH_VARIANT_STRING frame tr in
      case v of
        None \<Rightarrow> (False, (None, tr))
      | Some p \<Rightarrow>
          (let (n, tr) = variant_loadlen env p tr;
               (c, tr) = load_nat env (variant_data p + n - 1) 1 tr in
           if c = 0 then (False, (Some (variant_data p), tr))
           else
             (let (n, tr) = variant_loadlen env p tr in
              if gh_fdmem_virtptr (cf_fdmem frame) (variant_data p + n) 1 \<noteq> 0 then
                (let (n, tr) = variant_loadlen env p tr; (c, tr) = load_nat env (variant_data p + n) 1 tr in
                 if c = 0 then (True, (Some (variant_data p), tr)) else (False, (None, tr)))
              else (False, (None, tr)))))"

definition gh_thread_callframe_loadreturnvalue ::
  "env \<Rightarrow> gh_thread_callframe \<Rightarrow> gh_fdmem_ptr \<Rightarrow> trace \<Rightarrow> gh_result \<times> (gh_thread_callframe \<times> trace)" where
  "gh_thread_callframe_loadreturnvalue env frame return_value_ptr tr =
     (let (res, fdmem, tr) = gh_fdmem_sync env (cf_fdmem frame) tr; frame = frame\<lparr>cf_fdmem := fdmem\<rparr> in
      if ghr_iserr res then (res, (frame, tr))
      else
        (let (res, fdmem, tr) = gh_fdmem_seal env (cf_fdmem frame) tr; frame = frame\<lparr>cf_fdmem := fdmem\<rparr> in
         if ghr_iserr res then (res, (frame, tr))
         else
           (let frame = frame\<lparr>cf_returned := True\<rparr>;
                return_value = gh_fdmem_realptr (cf_fdmem frame) return_value_ptr VARIANT_SIZE in
            (GHR_OK, (if return_value \<noteq> 0 then frame\<lparr>cf_return_value := return_value\<rparr> else frame, tr)))))"

definition gh_thread_callframe_dtor :: "env \<Rightarrow> gh_thread_callframe \<Rightarrow> trace \<Rightarrow> gh_result \<times> trace" where
  "gh_thread_callframe_dtor env frame tr = gh_fdmem_dtor env (cf_fdmem frame) tr"

section \<open>The call\<close>

definition gh_thread_call ::
  "env \<Rightarrow> gh_alloc \<Rightarrow> ('g, 'h, 'f) thread_run \<Rightarrow> string \<Rightarrow>
   gh_thread_callframe \<times> ('g, 'h, 'f) gh_thread \<times> trace \<Rightarrow>
   (gh_result \<times> (gh_threadnotif_script \<times> (gh_thread_callframe \<times> ('g, 'h, 'f) gh_thread \<times> trace))) option" where
  "gh_thread_call env al run name st =
     (case st of (frame, thread, tr) \<Rightarrow>
      if strlen name > GH_IPCMSG_LUACALL_NAMEMAX - 1
      then Some (GHR_THREAD_CALLNAMEMAX, (script_zero, (frame, thread, tr)))
      else
        (let msg = MsgLuaCall \<lparr>lc_fd = fm_fd (cf_fdmem frame), lc_occupied = fm_occupied (cf_fdmem frame),
                               lc_name = char_array GH_IPCMSG_LUACALL_NAMEMAX (cstr name),
                               lc_params = cf_param_ptrs frame\<rparr> in
         map_option (\<lambda>(res, script_result, thread, tr).
             if ghr_iserr res then (res, (script_zero, (frame, thread, tr)))
             else
               (let (res, frame, tr) = gh_thread_callframe_loadreturnvalue env frame (ts_call_return_ptr script_result) tr
                in (res, (script_result, (frame, thread, tr)))))
           (sync_started env al run thread (thread_start env thread msg tr))))"

end
