(* ===== verification/FdmemFacts.thy ===== *)
theory FdmemFacts
  imports Fdmem
begin

text \<open>
  The shared memory: blocks lie inside the mapping, both translations agree on the blocks that are
  allocated, the loop that finds the new size ends, and what goes wrong after a resize and for sizes
  that wrap.
\<close>

section \<open>The invariant\<close>

text \<open>\<open>fdmem_wf\<close>: the mapping is not at 0 and ends before the end of the address space.\<close>

definition fdmem_wf :: "gh_fdmem \<Rightarrow> bool" where
  "fdmem_wf m \<longleftrightarrow>
     0 < unat (fm_data m) \<and> unat (fm_data m) + unat (fm_size m) < 18446744073709551616 \<and>
     unat (fm_occupied m) \<le> unat (fm_size m)"

text \<open>The \<open>n\<close> bytes from \<open>p\<close> on are occupied.\<close>

definition fdmem_block :: "gh_fdmem \<Rightarrow> addr \<Rightarrow> nat \<Rightarrow> bool" where
  "fdmem_block m p n \<longleftrightarrow>
     unat (fm_data m) \<le> unat p \<and> unat p + n \<le> unat (fm_data m) + unat (fm_occupied m)"

lemma unat_minus_one: "(p :: size_t) \<noteq> 0 \<Longrightarrow> unat (p - 1) = unat p - 1"
  by (rule unat_minus_one)

lemma realptr_valid:
  assumes "fdmem_wf m" "ipcfdmem_realptr m v \<noteq> 0"
  shows "v \<noteq> 0 \<and> unat v \<le> unat (fm_occupied m) \<and> unat (ipcfdmem_realptr m v) = unat (fm_data m) + (unat v - 1)"
proof -
  from assms(2) have v: "v \<noteq> 0" "\<not> fm_occupied m \<le> v - 1" "ipcfdmem_realptr m v = fm_data m + (v - 1)"
    by (auto simp: ipcfdmem_realptr_def split: if_splits)
  then have "unat v - 1 < unat (fm_occupied m)" by (simp add: size_le_unat unat_minus_one)
  moreover have "unat v > 0" using v(1) by (simp add: unat_gt_0)
  moreover have "unat (fm_data m + (v - 1)) = unat (fm_data m) + (unat v - 1)"
    using assms(1) calculation v(1) by (subst unat_add_nowrap) (simp_all add: unat_minus_one fdmem_wf_def, linarith)
  ultimately show ?thesis using v by simp
qed

lemma realptr_inside:
  assumes "fdmem_wf m" "0 < unat v" "unat v \<le> unat (fm_occupied m)"
  shows "ipcfdmem_realptr m v = fm_data m + (v - 1)" "ipcfdmem_realptr m v \<noteq> 0"
proof -
  have v: "v \<noteq> 0" using assms(2) by auto
  then have "\<not> fm_occupied m \<le> v - 1" using assms(2,3) by (simp add: size_le_unat unat_minus_one)
  with v show 1: "ipcfdmem_realptr m v = fm_data m + (v - 1)" by (simp add: ipcfdmem_realptr_def)
  have "unat (fm_data m + (v - 1)) = unat (fm_data m) + (unat v - 1)"
    using assms v by (subst unat_add_nowrap) (simp_all add: unat_minus_one fdmem_wf_def, linarith)
  with 1 assms(1) show "ipcfdmem_realptr m v \<noteq> 0" by (auto simp: fdmem_wf_def unat_eq_zero)
qed

text \<open>A translated offset addresses a block of the mapping, unless the size makes the offset wrap.\<close>

lemma realptr_block:
  assumes "fdmem_wf m" "gh_fdmem_realptr m v n \<noteq> 0" "unat v + unat n < 18446744073709551616"
  shows "fdmem_block m (gh_fdmem_realptr m v n) (unat n)"
proof -
  from assms(2) have n: "n \<noteq> 0" "ipcfdmem_realptr m (v + n - 1) \<noteq> 0" "ipcfdmem_realptr m v \<noteq> 0"
    "gh_fdmem_realptr m v n = ipcfdmem_realptr m v"
    by (auto simp: gh_fdmem_realptr_def split: if_splits)
  have pos: "unat n > 0" using n(1) by (simp add: unat_gt_0)
  have s: "unat (v + n) = unat v + unat n" using assms(3) by (rule unat_add_nowrap)
  then have "v + n \<noteq> 0" using pos by auto
  then have "unat (v + n - 1) = unat v + unat n - 1" using s by (simp add: unat_minus_one)
  with realptr_valid [OF assms(1) n(2)] have "unat v + unat n - 1 \<le> unat (fm_occupied m)" by simp
  with realptr_valid [OF assms(1) n(3)] n(4) pos show ?thesis
    unfolding fdmem_block_def by (metis (no_types, lifting) add.assoc le_add1 nat_add_left_cancel_le Nat.add_diff_assoc2
      Nat.diff_add_assoc2 One_nat_def Suc_leI unat_gt_0)
qed

text \<open>The translations of a block agree.\<close>

lemma virtptr_block:
  assumes "fdmem_wf m" "fdmem_block m p (unat n)" "n \<noteq> 0"
  shows "gh_fdmem_virtptr m p n \<noteq> 0 \<and> gh_fdmem_realptr m (gh_fdmem_virtptr m p n) n = p"
proof -
  let ?D = "unat (fm_data m)" and ?O = "unat (fm_occupied m)"
  have pos: "unat n > 0" using assms(3) by (simp add: unat_gt_0)
  have b: "?D \<le> unat p" "unat p + unat n \<le> ?D + ?O" "?D + ?O < 18446744073709551616" "0 < ?D"
    using assms(1,2) by (simp_all add: fdmem_block_def fdmem_wf_def)
  have pe: "unat (p + n - 1) = unat p + unat n - 1"
  proof -
    have s: "unat (p + n) = unat p + unat n" using b by (intro unat_add_nowrap) simp
    then have "p + n \<noteq> 0" using pos by auto
    with s show ?thesis by (simp add: unat_minus_one)
  qed
  have e: "unat (fm_data m + fm_occupied m) = ?D + ?O" using b(3) by (rule unat_add_nowrap)
  have virt: "ipcfdmem_virtptr m q = (q - fm_data m) + 1 \<and> unat ((q - fm_data m) + 1) = unat q - ?D + 1"
    if "?D \<le> unat q" "unat q < ?D + ?O" for q
  proof -
    have "unat (q - fm_data m) = unat q - ?D" using that(1) by (intro unat_sub_nowrap) (simp add: size_le_unat)
    then have "unat ((q - fm_data m) + 1) = unat q - ?D + 1"
      using that b(3) by (subst unat_add_nowrap) simp_all
    with that e show ?thesis by (simp add: ipcfdmem_virtptr_def size_le_unat size_less_unat)
  qed
  let ?v = "(p - fm_data m) + 1"
  have v: "ipcfdmem_virtptr m p = ?v" "unat ?v = unat p - ?D + 1" using virt [of p] b pos by simp_all
  have "unat (ipcfdmem_virtptr m (p + n - 1)) = unat p + unat n - 1 - ?D + 1"
    using virt [of "p + n - 1"] b pos pe by simp
  then have "ipcfdmem_virtptr m (p + n - 1) \<noteq> 0" by auto
  then have g: "gh_fdmem_virtptr m p n = ?v" using assms(3) v(1) by (simp add: gh_fdmem_virtptr_def)
  have ve: "unat (?v + n - 1) = unat p - ?D + unat n"
  proof -
    have s: "unat (?v + n) = unat ?v + unat n" using b v(2) by (intro unat_add_nowrap) linarith
    then have "?v + n \<noteq> 0" using pos by auto
    from unat_minus_one [OF this] s v(2) show ?thesis by linarith
  qed
  have "ipcfdmem_realptr m (?v + n - 1) \<noteq> 0" by (rule realptr_inside [OF assms(1)]) (use ve b pos in simp_all)
  moreover have "ipcfdmem_realptr m ?v = p" "ipcfdmem_realptr m ?v \<noteq> 0"
    using realptr_inside [OF assms(1), of ?v] v(2) b pos by simp_all
  ultimately have "gh_fdmem_realptr m ?v n = p" using assms(3) by (simp add: gh_fdmem_realptr_def)
  with g v(2) show ?thesis by (metis Suc_eq_plus1 nat.distinct(1) unat_0)
qed

section \<open>Allocation\<close>

lemma new_fits:
  assumes "fdmem_wf m" "unat (fm_occupied m) + unat n \<le> unat (fm_size m)"
  shows "gh_fdmem_new env m n tr =
       Some (GHR_OK, (Some (fm_data m + fm_occupied m), m\<lparr>fm_occupied := fm_occupied m + n\<rparr>, tr))"
    "fdmem_wf (m\<lparr>fm_occupied := fm_occupied m + n\<rparr>)"
    "fdmem_block (m\<lparr>fm_occupied := fm_occupied m + n\<rparr>) (fm_data m + fm_occupied m) (unat n)"
    "fdmem_block m p k \<Longrightarrow> unat p + k \<le> unat (fm_data m + fm_occupied m)"
proof -
  have s: "unat (fm_occupied m + n) = unat (fm_occupied m) + unat n"
    using assms by (intro unat_add_nowrap) (simp add: fdmem_wf_def)
  have p: "unat (fm_data m + fm_occupied m) = unat (fm_data m) + unat (fm_occupied m)"
    using assms by (intro unat_add_nowrap) (simp add: fdmem_wf_def)
  show "gh_fdmem_new env m n tr =
      Some (GHR_OK, (Some (fm_data m + fm_occupied m), m\<lparr>fm_occupied := fm_occupied m + n\<rparr>, tr))"
    using s assms(2) by (simp add: gh_fdmem_new_def size_less_unat ghr_simps)
  show "fdmem_wf (m\<lparr>fm_occupied := fm_occupied m + n\<rparr>)" using assms s by (simp add: fdmem_wf_def)
  show "fdmem_block (m\<lparr>fm_occupied := fm_occupied m + n\<rparr>) (fm_data m + fm_occupied m) (unat n)"
    by (simp add: fdmem_block_def p s)
  show "fdmem_block m p k \<Longrightarrow> unat p + k \<le> unat (fm_data m + fm_occupied m)"
    by (simp add: fdmem_block_def p)
qed

text \<open>The doubling ends for a size that is not 0 and a target in the lower half of the range.\<close>

lemma fdmem_grow_result:
  assumes "0 < unat s" "unat target \<le> 9223372036854775808"
  shows "\<exists>s'. fdmem_grow target s = Some s' \<and> target \<le> s' \<and> unat s' < max (unat s + 1) (2 * unat target)"
  using assms(1)
proof (induction "unat target - unat s" arbitrary: s rule: less_induct)
  case less
  show ?case
  proof (cases "target > s")
    case True
    then have lt: "unat s < unat target" by (simp add: size_less_unat)
    then have d: "unat (s * 2) = 2 * unat s"
      using assms(2) unat_mult_nowrap [of s 2] by simp
    have "unat target - unat (s * 2) < unat target - unat s" "0 < unat (s * 2)" using less.prems lt d by simp_all
    from less.hyps [OF this] obtain s' where
      "fdmem_grow target (s * 2) = Some s' \<and> target \<le> s' \<and> unat s' < max (unat (s * 2) + 1) (2 * unat target)" ..
    with True lt d show ?thesis by (subst fdmem_grow.simps) auto
  next
    case False
    then show ?thesis by (subst fdmem_grow.simps) (auto simp: not_less)
  qed
qed

lemma fdmem_grow_zero: "0 < target \<Longrightarrow> fdmem_grow target 0 = None"
proof (cases "fdmem_grow target 0")
  case (Some s)
  have "0 < target \<longrightarrow> (0 :: size_t) = 0 \<longrightarrow> False"
    by (rule fdmem_grow.raw_induct [where P = "\<lambda>t c r. 0 < t \<longrightarrow> c = 0 \<longrightarrow> False", OF _ Some])
      (fastforce split: if_splits)
  then show "0 < target \<Longrightarrow> ?thesis" by simp
qed

text \<open>
  After a resize the pointer is computed from the old address of the mapping, wherever the system has
  moved it.
\<close>

lemma new_resized:
  assumes "gh_fdmem_new env m n tr = Some (GHR_OK, (Some p, m', tr'))" "fm_occupied m + n > fm_size m"
  shows "p = fm_data m + fm_occupied m \<and> fm_data m' = fm_data m \<and>
     (\<exists>tr1. tr' = (Mremap (fm_data m) (fm_size m) (fm_size m'), env tr1 (Mremap (fm_data m) (fm_size m) (fm_size m'))) # tr1)"
  using assms
  by (auto simp: gh_fdmem_new_def ipcfdmem_resize_def syscall_pair Let_def ghr_simps ghr_errno_def split: if_splits)

end
