(* ===== verification/CallFacts.thy ===== *)
theory CallFacts
  imports ThreadCall FdmemFacts
begin

text \<open>
  The call frame: every parameter that was stored is a block of the shared memory under a pointer that
  the other process can translate, and the pointers behind the last parameter are 0.
\<close>

lemma realptr_grows:
  assumes "ipcfdmem_realptr m v \<noteq> 0" "fm_occupied m \<le> occ"
  shows "ipcfdmem_realptr (m\<lparr>fm_occupied := occ\<rparr>) v = ipcfdmem_realptr m v"
proof -
  have "v \<noteq> 0" "\<not> fm_occupied m \<le> v - 1" using assms(1) by (auto simp: ipcfdmem_realptr_def split: if_splits)
  moreover have "\<not> occ \<le> v - 1" using calculation(2) assms(2) by simp
  ultimately show ?thesis by (simp add: ipcfdmem_realptr_def)
qed

lemma gh_realptr_grows:
  assumes "gh_fdmem_realptr m v n \<noteq> 0" "fm_occupied m \<le> occ"
  shows "gh_fdmem_realptr (m\<lparr>fm_occupied := occ\<rparr>) v n = gh_fdmem_realptr m v n"
  using assms realptr_grows [OF _ assms(2)] by (auto simp: gh_fdmem_realptr_def split: if_splits)

text \<open>A pointer that names a variant of the shared memory\<close>

definition param_valid :: "gh_fdmem \<Rightarrow> gh_fdmem_ptr \<Rightarrow> bool" where
  "param_valid m v \<longleftrightarrow> gh_fdmem_realptr m v VARIANT_SIZE \<noteq> 0"

definition callframe_wf :: "gh_thread_callframe \<Rightarrow> bool" where
  "callframe_wf frame \<longleftrightarrow>
     fdmem_wf (cf_fdmem frame) \<and> length (cf_param_ptrs frame) = GH_IPCMSG_LUACALL_MAXPARAMS \<and>
     unat (cf_param_count frame) \<le> GH_IPCMSG_LUACALL_MAXPARAMS \<and>
     (\<forall>i < GH_IPCMSG_LUACALL_MAXPARAMS.
        if i < unat (cf_param_count frame) then param_valid (cf_fdmem frame) (cf_param_ptrs frame ! i)
        else cf_param_ptrs frame ! i = 0)"

lemma block_prefix: "fdmem_block m p n \<Longrightarrow> k \<le> n \<Longrightarrow> fdmem_block m p k"
  by (simp add: fdmem_block_def)

text \<open>The pointer that is stored for a block of \<open>n\<close> bytes also translates for the variant at its begin.\<close>

lemma virtptr_param:
  assumes "fdmem_wf m" "fdmem_block m p (unat n)" "16 \<le> unat n"
  shows "gh_fdmem_virtptr m p n \<noteq> 0" "gh_fdmem_realptr m (gh_fdmem_virtptr m p n) VARIANT_SIZE = p" "p \<noteq> 0"
proof -
  have n: "n \<noteq> 0" using assms(3) by auto
  have b: "fdmem_block m p (unat VARIANT_SIZE)" using block_prefix [OF assms(2,3)] by simp
  have "gh_fdmem_virtptr m p n \<noteq> 0" "gh_fdmem_virtptr m p VARIANT_SIZE \<noteq> 0"
    "gh_fdmem_realptr m (gh_fdmem_virtptr m p VARIANT_SIZE) VARIANT_SIZE = p"
    using virtptr_block [OF assms(1,2) n] virtptr_block [OF assms(1) b] by simp_all
  moreover then have "gh_fdmem_virtptr m p n = gh_fdmem_virtptr m p VARIANT_SIZE"
    by (simp add: gh_fdmem_virtptr_def split: if_splits)
  ultimately show "gh_fdmem_virtptr m p n \<noteq> 0" "gh_fdmem_realptr m (gh_fdmem_virtptr m p n) VARIANT_SIZE = p" by simp_all
  show "p \<noteq> 0" using assms(1,2) by (auto simp: fdmem_wf_def fdmem_block_def)
qed

text \<open>A parameter for which there is room in the memory, and among the parameters\<close>

lemma callframe_param_ok:
  fixes n :: size_t
  assumes "callframe_wf frame" "unat (fm_occupied (cf_fdmem frame)) + unat n \<le> unat (fm_size (cf_fdmem frame))" "16 \<le> unat n"
    and "unat (cf_param_count frame) < GH_IPCMSG_LUACALL_MAXPARAMS"
  obtains v frame' where
    "frame' = frame\<lparr>cf_fdmem := (cf_fdmem frame)\<lparr>fm_occupied := fm_occupied (cf_fdmem frame) + n\<rparr>,
       cf_param_ptrs := (cf_param_ptrs frame)[unat (cf_param_count frame) := v], cf_param_count := cf_param_count frame + 1\<rparr>"
    "callframe_param env n store (frame, tr) =
       Some (GHR_OK, (frame', store (fm_data (cf_fdmem frame) + fm_occupied (cf_fdmem frame)) tr))"
    "callframe_wf frame'" "unat (cf_param_count frame') = Suc (unat (cf_param_count frame))"
    "unat (fm_occupied (cf_fdmem frame')) = unat (fm_occupied (cf_fdmem frame)) + unat n"
    "gh_fdmem_realptr (cf_fdmem frame') v VARIANT_SIZE = fm_data (cf_fdmem frame) + fm_occupied (cf_fdmem frame)"
    "\<And>i. i < unat (cf_param_count frame) \<Longrightarrow> gh_fdmem_realptr (cf_fdmem frame') (cf_param_ptrs frame' ! i) VARIANT_SIZE =
       gh_fdmem_realptr (cf_fdmem frame) (cf_param_ptrs frame ! i) VARIANT_SIZE"
proof -
  let ?m = "cf_fdmem frame" and ?c = "unat (cf_param_count frame)"
  let ?m' = "?m\<lparr>fm_occupied := fm_occupied ?m + n\<rparr>" and ?p = "fm_data ?m + fm_occupied ?m"
  have wf: "fdmem_wf ?m" "length (cf_param_ptrs frame) = 16"
    and ptrs: "\<And>i. i < 16 \<Longrightarrow> if i < ?c then param_valid ?m (cf_param_ptrs frame ! i) else cf_param_ptrs frame ! i = 0"
    using assms(1) by (simp_all add: callframe_wf_def)
  note new = new_fits [OF wf(1) assms(2)]
  let ?v = "gh_fdmem_virtptr ?m' ?p n"
  have v: "?v \<noteq> 0" "gh_fdmem_realptr ?m' ?v VARIANT_SIZE = ?p" "?p \<noteq> 0"
    using virtptr_param [OF new(2,3) assms(3)] by simp_all
  have u: "unat (fm_occupied ?m + n) = unat (fm_occupied ?m) + unat n"
    using assms(2) wf(1) by (intro unat_add_nowrap) (simp add: fdmem_wf_def)
  then have occ: "fm_occupied ?m \<le> fm_occupied ?m + n" by (simp add: size_le_unat)
  have old: "gh_fdmem_realptr ?m' (cf_param_ptrs frame ! i) VARIANT_SIZE = gh_fdmem_realptr ?m (cf_param_ptrs frame ! i) VARIANT_SIZE"
    "param_valid ?m' (cf_param_ptrs frame ! i)" if "i < ?c" for i
    using ptrs [of i] that assms(4) gh_realptr_grows [OF _ occ] by (auto simp: param_valid_def)
  have count: "\<not> cf_param_count frame + 1 > of_nat GH_IPCMSG_LUACALL_MAXPARAMS" "unat (cf_param_count frame + 1) = Suc ?c"
    using assms(4) by (auto simp: size_less_unat unat_add_nowrap)
  define frame' where "frame' = frame\<lparr>cf_fdmem := ?m', cf_param_ptrs := (cf_param_ptrs frame)[?c := ?v],
    cf_param_count := cf_param_count frame + 1\<rparr>"
  have "callframe_param env n store (frame, tr) = Some (GHR_OK, (frame', store ?p tr))"
    using new(1) [of env tr] count assms(4) v(1) wf(2) by (simp add: callframe_param_def frame'_def Let_def)
  moreover have "callframe_wf frame'"
    using new(2) wf ptrs old(2) count(2) assms(4) v
    by (auto simp: callframe_wf_def frame'_def nth_list_update param_valid_def less_Suc_eq split: if_splits)
  moreover have "gh_fdmem_realptr (cf_fdmem frame') (cf_param_ptrs frame' ! i) VARIANT_SIZE =
       gh_fdmem_realptr (cf_fdmem frame) (cf_param_ptrs frame ! i) VARIANT_SIZE" if "i < ?c" for i
    using old(1) [OF that] that by (simp add: frame'_def)
  ultimately show thesis using that [OF frame'_def] v(2) count(2) u by (simp add: frame'_def)
qed

section \<open>A list of parameters\<close>

text \<open>The parameters of a call, and the number of bytes each takes\<close>

datatype call_param = IntParam int | DoubleParam c_double | StringParam size_t string

fun param_size :: "call_param \<Rightarrow> nat" where
  "param_size (StringParam n s) = 16 + unat n"
| "param_size p = 16"

fun callframe_push ::
  "env \<Rightarrow> call_param \<Rightarrow> gh_thread_callframe \<times> trace \<Rightarrow> (gh_result \<times> (gh_thread_callframe \<times> trace)) option" where
  "callframe_push env (IntParam v) st = gh_thread_callframe_int env v st"
| "callframe_push env (DoubleParam v) st = gh_thread_callframe_double env v st"
| "callframe_push env (StringParam n s) st = gh_thread_callframe_lstring env n s st"

fun callframe_pushes ::
  "env \<Rightarrow> call_param list \<Rightarrow> gh_thread_callframe \<times> trace \<Rightarrow> (gh_result \<times> (gh_thread_callframe \<times> trace)) option" where
  "callframe_pushes env [] st = Some (GHR_OK, st)"
| "callframe_pushes env (p # ps) st =
     Option.bind (callframe_push env p st) (\<lambda>(res, st). if ghr_iserr res then Some (res, st) else callframe_pushes env ps st)"

lemma callframe_push_param:
  assumes "param_size p < 18446744073709551616"
  shows "\<exists>n store. unat (n :: size_t) = param_size p \<and> (\<forall>st. callframe_push env p st = callframe_param env n store st)"
proof (cases p)
  case (StringParam n s)
  then have "unat (VARIANT_SIZE + n) = param_size p" using assms by (simp add: unat_add_nowrap)
  moreover have "\<exists>store. \<forall>st. callframe_push env p st = callframe_param env (VARIANT_SIZE + n) store st"
    unfolding StringParam callframe_push.simps gh_thread_callframe_lstring_def by blast
  ultimately show ?thesis by blast
qed (simp_all add: gh_thread_callframe_int_def gh_thread_callframe_double_def, (rule exI [of _ VARIANT_SIZE], simp, blast)+)

text \<open>They lie one behind the other, and each pointer translates to its own parameter.\<close>

lemma callframe_pushes_ok:
  assumes "callframe_wf frame" "unat (cf_param_count frame) + length ps \<le> GH_IPCMSG_LUACALL_MAXPARAMS"
    and "unat (fm_occupied (cf_fdmem frame)) + sum_list (map param_size ps) \<le> unat (fm_size (cf_fdmem frame))"
  shows "\<exists>frame' tr'. callframe_pushes env ps (frame, tr) = Some (GHR_OK, (frame', tr')) \<and> callframe_wf frame' \<and>
     unat (cf_param_count frame') = unat (cf_param_count frame) + length ps \<and>
     fm_data (cf_fdmem frame') = fm_data (cf_fdmem frame) \<and>
     (\<forall>i < unat (cf_param_count frame). gh_fdmem_realptr (cf_fdmem frame') (cf_param_ptrs frame' ! i) VARIANT_SIZE =
        gh_fdmem_realptr (cf_fdmem frame) (cf_param_ptrs frame ! i) VARIANT_SIZE) \<and>
     (\<forall>i < length ps. unat (gh_fdmem_realptr (cf_fdmem frame') (cf_param_ptrs frame' ! (unat (cf_param_count frame) + i)) VARIANT_SIZE) =
        unat (fm_data (cf_fdmem frame)) + unat (fm_occupied (cf_fdmem frame)) + sum_list (map param_size (take i ps)))"
  using assms
proof (induction ps arbitrary: frame tr)
  case Nil
  then show ?case by simp
next
  case (Cons p ps)
  have wf: "fdmem_wf (cf_fdmem frame)" using Cons.prems(1) by (simp add: callframe_wf_def)
  have "param_size p < 18446744073709551616" using Cons.prems(3) wf by (simp add: fdmem_wf_def)
  from callframe_push_param [OF this, of env] obtain n store where
    n: "unat (n :: size_t) = param_size p" "\<And>st. callframe_push env p st = callframe_param env n store st" by blast
  have r: "unat (fm_occupied (cf_fdmem frame)) + unat n \<le> unat (fm_size (cf_fdmem frame))" "16 \<le> unat n"
    "unat (cf_param_count frame) < 16"
    using Cons.prems(2,3) n(1) by (cases p; simp)+
  let ?p = "fm_data (cf_fdmem frame) + fm_occupied (cf_fdmem frame)"
  obtain v frame1 where f: "frame1 = frame\<lparr>cf_fdmem := (cf_fdmem frame)\<lparr>fm_occupied := fm_occupied (cf_fdmem frame) + n\<rparr>,
       cf_param_ptrs := (cf_param_ptrs frame)[unat (cf_param_count frame) := v], cf_param_count := cf_param_count frame + 1\<rparr>"
    "callframe_param env n store (frame, tr) = Some (GHR_OK, (frame1, store ?p tr))"
    "callframe_wf frame1" "unat (cf_param_count frame1) = Suc (unat (cf_param_count frame))"
    "unat (fm_occupied (cf_fdmem frame1)) = unat (fm_occupied (cf_fdmem frame)) + unat n"
    "gh_fdmem_realptr (cf_fdmem frame1) v VARIANT_SIZE = ?p"
    "\<And>i. i < unat (cf_param_count frame) \<Longrightarrow> gh_fdmem_realptr (cf_fdmem frame1) (cf_param_ptrs frame1 ! i) VARIANT_SIZE =
       gh_fdmem_realptr (cf_fdmem frame) (cf_param_ptrs frame ! i) VARIANT_SIZE"
    using callframe_param_ok [OF Cons.prems(1) r] by metis
  have d: "fm_data (cf_fdmem frame1) = fm_data (cf_fdmem frame)" "fm_size (cf_fdmem frame1) = fm_size (cf_fdmem frame)"
    using f(1) by simp_all
  have here: "gh_fdmem_realptr (cf_fdmem frame1) (cf_param_ptrs frame1 ! unat (cf_param_count frame)) VARIANT_SIZE = ?p"
    using f(1,6) r(3) Cons.prems(1) by (simp add: callframe_wf_def)
  have p: "unat ?p = unat (fm_data (cf_fdmem frame)) + unat (fm_occupied (cf_fdmem frame))"
    using wf by (intro unat_add_nowrap) (simp add: fdmem_wf_def)
  from Cons.IH [OF f(3), of "store ?p tr"] Cons.prems(2,3) f(4,5) d n(1) obtain frame' tr' where
    g: "callframe_pushes env ps (frame1, store ?p tr) = Some (GHR_OK, (frame', tr'))" "callframe_wf frame'"
    "unat (cf_param_count frame') = Suc (unat (cf_param_count frame)) + length ps" "fm_data (cf_fdmem frame') = fm_data (cf_fdmem frame)"
    "\<And>i. i < Suc (unat (cf_param_count frame)) \<Longrightarrow> gh_fdmem_realptr (cf_fdmem frame') (cf_param_ptrs frame' ! i) VARIANT_SIZE =
        gh_fdmem_realptr (cf_fdmem frame1) (cf_param_ptrs frame1 ! i) VARIANT_SIZE"
    "\<And>i. i < length ps \<Longrightarrow> unat (gh_fdmem_realptr (cf_fdmem frame') (cf_param_ptrs frame' ! (Suc (unat (cf_param_count frame)) + i)) VARIANT_SIZE) =
        unat (fm_data (cf_fdmem frame)) + (unat (fm_occupied (cf_fdmem frame)) + param_size p) + sum_list (map param_size (take i ps))"
    by auto
  have 1: "callframe_pushes env (p # ps) (frame, tr) = Some (GHR_OK, (frame', tr'))" using n(2) f(2) g(1) by (simp add: ghr_simps)
  have 2: "gh_fdmem_realptr (cf_fdmem frame') (cf_param_ptrs frame' ! i) VARIANT_SIZE =
      gh_fdmem_realptr (cf_fdmem frame) (cf_param_ptrs frame ! i) VARIANT_SIZE" if "i < unat (cf_param_count frame)" for i
    using g(5) [of i] f(7) [OF that] that by simp
  have 3: "unat (gh_fdmem_realptr (cf_fdmem frame') (cf_param_ptrs frame' ! (unat (cf_param_count frame) + i)) VARIANT_SIZE) =
      unat (fm_data (cf_fdmem frame)) + unat (fm_occupied (cf_fdmem frame)) + sum_list (map param_size (take i (p # ps)))"
    if "i < length (p # ps)" for i
  proof (cases i)
    case 0
    then show ?thesis using g(5) [of "unat (cf_param_count frame)"] here p by simp
  next
    case (Suc j)
    then show ?thesis using g(6) [of j] that by simp
  qed
  from 1 2 3 g(2-4) show ?case by auto
qed

text \<open>
  A string that the other process returns: its length is what the memory says, whatever the size of
  the memory is.
\<close>

lemma getlstring_length:
  assumes "cf_returned frame" "cf_return_value frame \<noteq> 0"
    and "an_data (env tr (MemLoad (cf_return_value frame) 4)) = le_bytes 4 3"
    and "\<And>tr'. an_data (env tr' (MemLoad (cf_return_value frame + VARIANT_VALUE) 8)) = le_bytes 8 (unat n)"
  shows "\<exists>tr'. gh_thread_callframe_getlstring env frame tr = (Some (n, variant_data (cf_return_value frame)), tr')"
proof -
  have "unat n mod 256 ^ 8 = unat n" using unsigned_less [of n, where ?'a = nat] by simp
  then have "le_nat (le_bytes 8 (unat n)) = unat n" by (simp add: le_nat_bytes)
  moreover have "le_nat (le_bytes 4 3) = 3" by (simp add: le_nat_bytes)
  ultimately show ?thesis
    using assms
    by (auto simp: gh_thread_callframe_getlstring_def callframe_value_def variant_loadtype_def variant_loadlen_def
        load_nat_def syscall_pair Let_def)
qed

end
