(* ===== verification/HostProps.thy ===== *)
theory HostProps
  imports ThreadFacts StdExec CallFacts ExecPolicy PolicySpec
begin

text \<open>
  What the host promises while it serves a sandboxed process: it acts only on what the policy or the
  user let pass, and answers each call once.
\<close>

section \<open>Function calls\<close>

lemma extends_new_calls: "extends P tr tr' \<Longrightarrow> c \<in> set (new_calls tr tr') \<Longrightarrow> P c"
  by (auto simp: extends_def new_calls_def)

lemma granted_no_return:
  "file_harmless c \<or> std_granted env al environ thread c \<Longrightarrow>
   \<not> (case c of Sendmsg _ (MsgFunctionReturn _ _) _ _ \<Rightarrow> an_ret a \<ge> 0 | _ \<Rightarrow> False)"
  by (cases c) (simp_all add: file_harmless_def std_granted_def)

lemma std_run_calls:
  assumes "thread_quiet thread" "func \<in> snd ` set std_functions"
  shows "gives (std_run env al environ app func (frame, thread, tr)) (\<lambda>(frame', thread', tr').
     extends (\<lambda>c. file_harmless c \<or> rpc_call (rpc_thread thread) c \<or> std_granted env al environ thread c) tr tr' \<and>
     returns_sent tr' = returns_sent tr \<and> rpc_thread thread' = rpc_thread thread)"
proof (rule gives_weaken [OF std_run_acts [OF assms]], clarsimp)
  fix frame' thread' tr'
  assume a: "acts_granted env al environ thread tr tr'"
  have "returns_sent tr' = returns_sent tr"
    unfolding returns_sent_def using a unfolding acts_granted_def
    by (rule extends_count) (use granted_no_return in \<open>fastforce simp: case_prod_unfold\<close>)
  with a show "extends (\<lambda>c. file_harmless c \<or> rpc_call (rpc_thread thread) c \<or> std_granted env al environ thread c) tr tr' \<and>
      returns_sent tr' = returns_sent tr"
    unfolding acts_granted_def by (auto elim: extends_mono)
qed

text \<open>A thread with one function, and a call of it without arguments\<close>

definition ex_remove :: "unit std_function gh_rpcfunction" where
  "ex_remove = \<lparr>rf_thread_safety = GH_RPCFUNCTION_THREADSAFE, rf_name = ''ghost.remove'', rf_func = GhostRemove\<rparr>"

definition ex_rpc :: "unit std_function gh_rpc" where
  "ex_rpc = \<lparr>rp_functions = \<lparr>da_buffer = Some [ex_remove], da_capacity = 128, da_size = 1, da_block = 1\<rparr>, rp_thread_refcount = 1\<rparr>"

definition ex_thread :: "(unit, unit, unit std_function) gh_thread" where
  "ex_thread =
     \<lparr>th_sandbox = \<lparr>sb_pid = 20,
        sb_options = \<lparr>so_name = replicate 256 NUL, so_memory_limit_bytes = 0, so_functioncall_frame_limit_bytes = 4096,
                      so_jail_ipc_sockfd = 0\<rparr>,
        sb_ipc = \<lparr>ip_mode = GH_IPCMODE_CONTROLLER, ip_sockfd = 4\<rparr>\<rparr>,
      th_name = ''thread'', th_safe_id = ''safe'', th_pid = 21, th_ipc = \<lparr>ip_mode = GH_IPCMODE_CONTROLLER, ip_sockfd = 5\<rparr>,
      th_rpc = ex_rpc, th_perms = ex_perms, th_default_timeout_ms = 0, th_userdata = 0\<rparr>"

definition ex_call :: gh_ipcmsg_functioncall where
  "ex_call =
     \<lparr>fc_name = char_array 256 ''ghost.remove'', fc_return_arg = \<lparr>fa_addr = 0, fa_size = 0\<rparr>, fc_arg_count = 0,
      fc_args = replicate 16 \<lparr>fa_addr = 0, fa_size = 0\<rparr>\<rparr>"

lemma ex_rpc_list: "rpc_list (\<lambda>_. 0) (th_rpc ex_thread) [ex_remove]"
  by (simp add: rpc_list_def ex_thread_def ex_rpc_def da_reserved_def da_items_def rpc_daopts_def)

lemma ex_thread_quiet: "thread_quiet ex_thread"
  by (simp add: thread_quiet_def ex_thread_def ex_perms_def app_prompter_calls file_harmless_def)

lemma ex_remove_std: "\<forall>f \<in> set [ex_remove]. rf_func f \<in> snd ` set std_functions"
  by (simp add: ex_remove_def std_functions_def)

lemma ex_call_name: "cstr (fc_name ex_call) = ''ghost.remove''"
  by (simp add: ex_call_def cstr_char_array)

lemma ex_find: "msgframe_find (rp_functions (th_rpc ex_thread)) (fc_name ex_call) 0 = Some (Some (1, 0))"
proof -
  have "cstr (rf_name ex_remove) = ''ghost.remove''" by (simp add: ex_remove_def cstr_def)
  then show ?thesis
    using msgframe_find_result [OF ex_rpc_list, of 0 "fc_name ex_call"] ex_call_name
    by (simp add: ex_thread_def ex_rpc_def)
qed

lemma ex_handle:
  "thread_handlemsg_functioncall quiet_env ex_alloc (std_run quiet_env ex_alloc [] (\<lambda>_ st. Some st)) ex_call (ex_thread, tr) =
     Some (GHR_OK, (ex_thread, (Sendmsg 5 (MsgFunctionReturn (- 1) (ghr_errnoval GHR_RPCF_ARG0 22)) 12 None, plain_answer 0) # tr))"
proof -
  have d: "da_deref (rp_functions (th_rpc ex_thread)) (Suc 0, 0) = Some ex_remove"
    by (simp add: ex_thread_def ex_rpc_def da_deref_def)
  have m: "fc_arg_count ex_call = 0" "fc_return_arg ex_call = \<lparr>fa_addr = 0, fa_size = 0\<rparr>" "length (fc_args ex_call) = 16"
    by (simp_all add: ex_call_def)
  have t: "rpc_thread ex_thread = \<lparr>rt_pid = 21, rt_ipc = \<lparr>ip_mode = GH_IPCMODE_CONTROLLER, ip_sockfd = 5\<rparr>, rt_frame_limit = 4096\<rparr>"
    by (simp add: rpc_thread_def ex_thread_def)
  let ?f = "\<lparr>fr_function = Some (Suc 0, 0), fr_fd = - 1, fr_result = GHR_RPC_UNEXECUTED, fr_arg_count = 0,
     fr_args = replicate 16 rpcarg_null, fr_return_arg = rpcarg_null, fr_buffer = False, fr_buffer_size = 0, fr_memory = []\<rparr>"
  have n: "gh_rpc_newframefrommsg quiet_env ex_alloc (th_rpc ex_thread) (rpc_thread ex_thread) ex_call tr = Some (GHR_OK, (Some ?f, tr))"
    by (simp add: gh_rpc_newframefrommsg_def ex_find m frame_args_size_def return_wanted_def Let_def)
  have r: "std_run quiet_env ex_alloc [] (\<lambda>_ st. Some st) GhostRemove (?f\<lparr>fr_result := GHR_OK\<rparr>, ex_thread, tr) =
      Some (?f\<lparr>fr_result := ghr_errnoval GHR_RPCF_ARG0 22\<rparr>, ex_thread, tr)"
    by (simp add: std_run_def ghost_remove_def with_strarg_def gh_rpcframe_argbufv_def failhere_def gh_rpcframe_setresult_def)
  have c: "gh_rpc_callframe quiet_env (std_run quiet_env ex_alloc [] (\<lambda>_ st. Some st)) (th_rpc ex_thread) (?f, ex_thread, tr) =
      Some (GHR_OK, ?f\<lparr>fr_result := ghr_errnoval GHR_RPCF_ARG0 22\<rparr>, ex_thread, tr)"
    using r by (simp add: gh_rpc_callframe_def d rpc_mutex_def ex_remove_def rpcarg_null_def ghr_simps)
  have s: "gh_rpc_respondtomsg quiet_env (rpc_thread ex_thread) ex_call (?f\<lparr>fr_result := ghr_errnoval GHR_RPCF_ARG0 22\<rparr>) tr =
      Some (GHR_OK, (?f\<lparr>fr_result := ghr_errnoval GHR_RPCF_ARG0 22\<rparr>,
        (Sendmsg 5 (MsgFunctionReturn (- 1) (ghr_errnoval GHR_RPCF_ARG0 22)) 12 None, plain_answer 0) # tr))"
    by (simp add: t gh_rpc_respondtomsg_def rpc_copyreturn_def rpcarg_null_def rpc_sendreturn_def send_return_def gh_ipc_send_def
        prepare_cmsg_def ipcmsg_fd_def syscall_pair quiet_env_def plain_answer_def ipcmsg_sizeof_def ghr_simps Let_def)
  show ?thesis
    using s by (simp add: thread_handlemsg_functioncall_def n c ghr_simps gh_rpc_disposeframe_def)
qed

text \<open>C1.
  A thread whose registrar has functions of the standard library: whatever message the sandboxed process
  sends, each call the host makes for it is harmless, or belongs to the transport of the arguments and
  the answer, or is one of these, after its gate has let it pass: opening, renaming or removing a file -
  the policy of the thread rejects none of the modes of this operation on the path, and it accepts all of
  them or the user accepted the request that was made for this path; opening a temporary file, for
  reading and writing, after the gate has let the modes pass that were asked for; starting the shell,
  after the gate for programs has let it pass, and reading it in order to hash it for this gate.
\<close>

theorem std_message_granted:
  assumes "thread_quiet thread" "rpc_list destroy (th_rpc thread) fs" "\<forall>f \<in> set fs. rf_func f \<in> snd ` set std_functions"
    and "thread_handlemsg_functioncall env al (std_run env al environ app) msg (thread, tr) = Some (res, (thread', tr'))"
    and "c \<in> set (new_calls tr tr')"
  shows "file_harmless c \<or> rpc_call (rpc_thread thread) c \<or> std_granted env al environ thread c"
proof -
  let ?P = "\<lambda>c. file_harmless c \<or> rpc_call (rpc_thread thread) c \<or> std_granted env al environ thread c"
  have run: "gives (std_run env al environ app (rf_func f) (frame, thread, tr1)) (\<lambda>(frame', s', tr').
      extends ?P tr1 tr' \<and> returns_sent tr' = returns_sent tr1 \<and> rpc_thread s' = rpc_thread thread)" if "f \<in> set fs" for f frame tr1
    by (rule std_run_calls [OF assms(1)]) (use assms(3) that in simp)
  have "extends ?P tr tr'"
    using givesD [OF functioncall_calls [where P = ?P and run = "std_run env al environ app", OF assms(2) run] assms(4)] by blast
  from extends_new_calls [OF this assms(5)] show ?thesis .
qed

text \<open>A thread with all functions of the standard library, and a call that opens \<^verbatim>\<open>/tmp\<close> for reading\<close>

definition std_rpc :: "'x std_function gh_rpcfunction list \<Rightarrow> 'x std_function gh_rpc" where
  "std_rpc fs = \<lparr>rp_functions = \<lparr>da_buffer = Some fs, da_capacity = 128, da_size = of_nat (length fs), da_block = 1\<rparr>,
                 rp_thread_refcount = 0\<rparr>"

definition std_entry :: "string \<times> 'x std_function \<Rightarrow> 'x std_function gh_rpcfunction" where
  "std_entry x = \<lparr>rf_thread_safety = GH_RPCFUNCTION_THREADSAFE, rf_name = strncpy_term GH_RPCFUNCTION_MAXNAME (fst x), rf_func = snd x\<rparr>"

lemma register_room:
  assumes "length xs < 128"
  shows "gh_rpc_register env al destroy (std_rpc xs) name f GH_RPCFUNCTION_THREADSAFE tr =
     Some (GHR_OK, (std_rpc (xs @ [std_entry (name, f)]), tr))"
proof -
  have n: "unat (of_nat (length xs) :: size_t) = length xs" using assms by (simp add: unat_of_nat_nowrap)
  have "(of_nat (length xs) :: size_t) + 1 \<le> 128"
    using assms n by (simp add: size_le_unat unat_add_nowrap)
  moreover have "da_slots (rpc_daopts destroy) (rp_functions (std_rpc xs)) = 128"
    using assms n by (subst da_slots_reserved [of 0]) (simp_all add: std_rpc_def da_reserved_def rpc_daopts_def)
  ultimately show ?thesis
    using n assms
    by (simp add: gh_rpc_register_def gh_rpc_isinuse_def std_rpc_def gh_dynamicarray_append_def gh_dynamicarray_expandtofit_def
        da_memcpy_end_def cells_write_def ghr_simps std_entry_def algebra_simps)
qed

lemma registerall_room:
  "length xs + length fs \<le> 128 \<Longrightarrow> std_registerall env al destroy fs 0 (std_rpc xs, tr) =
     Some (GHR_OK, (std_rpc (xs @ map std_entry fs), tr))"
proof (induction fs arbitrary: xs)
  case Nil
  then show ?case by simp
next
  case (Cons x fs)
  then show ?case using register_room [of xs env al destroy "fst x" "snd x" tr] by (cases x) (simp add: ghr_simps)
qed

definition full_functions :: "unit std_function gh_rpcfunction list" where
  "full_functions = map std_entry std_functions"

lemma full_rpc_registered:
  "gh_std_registerinrpc env al destroy (std_rpc [], tr) = Some (GHR_OK, (std_rpc full_functions, tr))"
  using registerall_room [of "[]" std_functions env al destroy tr]
  by (simp add: gh_std_registerinrpc_def full_functions_def) (simp add: std_functions_def)

lemma full_list: "rpc_list (\<lambda>_. 0) (std_rpc full_functions) full_functions"
  by (simp add: rpc_list_def std_rpc_def full_functions_def std_functions_def da_reserved_def da_items_def rpc_daopts_def)

definition full_thread :: "(unit, unit, unit std_function) gh_thread" where
  "full_thread = ex_thread\<lparr>th_rpc := gh_rpc_incthreadrefcount (std_rpc full_functions),
     th_perms := ex_perms\<lparr>ps_filesystem := ex_permfs\<rparr>\<rparr>"

definition open_call :: gh_ipcmsg_functioncall where
  "open_call = ex_call\<lparr>fc_name := char_array 256 ''ghost.open'', fc_arg_count := 3,
     fc_args := \<lparr>fa_addr = 4096, fa_size = 5\<rparr> # \<lparr>fa_addr = 8192, fa_size = 4\<rparr> # \<lparr>fa_addr = 8200, fa_size = 4\<rparr> #
       replicate 13 \<lparr>fa_addr = 0, fa_size = 0\<rparr>\<rparr>"

text \<open>The descriptor 5 stands for \<^verbatim>\<open>/tmp\<close>; the arguments are the path, the flags 0 and the mode 0.\<close>

definition open_env :: env where
  "open_env tr c =
     (case c of
        VmReadv _ _ _ \<Rightarrow> (plain_answer 13)\<lparr>an_data := ''/tmp'' @ [NUL, NUL, NUL, NUL, NUL, NUL, NUL, NUL, NUL]\<rparr>
      | Openat _ _ _ _ \<Rightarrow> plain_answer 5
      | _ \<Rightarrow> ex_env tr c)"

lemma open_find: "msgframe_find (rp_functions (th_rpc full_thread)) (fc_name open_call) 0 = Some (Some (1, 0))"
proof -
  have "cstr (rf_name (hd full_functions)) = ''ghost.open''"
    by (simp add: full_functions_def std_functions_def std_entry_def strncpy_term_def cstr_def)
  moreover have "cstr (fc_name open_call) = ''ghost.open''" by (simp add: open_call_def cstr_char_array)
  moreover have "rpc_list (\<lambda>_. 0) (th_rpc full_thread) full_functions"
    using full_list by (simp add: full_thread_def rpc_list_def gh_rpc_incthreadrefcount_def)
  ultimately show ?thesis
    using msgframe_find_result [of "\<lambda>_. 0" "th_rpc full_thread" full_functions 0 "fc_name open_call"]
    by (simp add: full_thread_def std_rpc_def gh_rpc_incthreadrefcount_def full_functions_def std_functions_def)
qed

lemma open_gate:
  "\<exists>tr'. std_gatefile open_env ex_alloc ex_fd 2048 None (full_thread, tr) = Some (GHR_OK, (full_thread, tr'))"
proof -
  have path: "gh_procfd_fdpathctor open_env ex_alloc exec_procfd ex_fd tr =
     Some (GHR_OK, (Some (ident_of ''/tmp'' (replicate 123 NUL)), procfd_trace open_env exec_procfd ex_fd tr))"
    by (rule fdpath_tmp) (simp_all add: open_env_def ex_env_def plain_answer_def)
  have "\<exists>tr'. gh_permfs_gatefile open_env ex_alloc (gh_permprompter_new app_prompter) exec_procfd ''safe'' ex_fd 2048 None
     (ex_permfs, tr) = Some (GHR_OK, (ex_permfs, tr'))"
    using gate_decides [where env = open_env, OF path ex_permfs_at ex_policy_ok(2) ex_path(1) ex_alloc_total refl,
        where m = 2048 and prompter = "gh_permprompter_new app_prompter" and safe_id = "''safe''" and hint = None]
    by (simp add: open_env_def ex_answers ex_eval ex_modes_def mode_allowed_def)
  then show ?thesis
    by (auto simp: std_gatefile_def std_lift_def gh_perms_gatefile_def full_thread_def ex_thread_def ex_perms_def put_filesystem_def)
qed

lemma open_answers:
  "open_env tr (Openat d name flags m) = plain_answer 5" "an_ret (open_env tr (Close fd)) = 0"
  "an_ret (open_env tr (Sendmsg fd msg n control)) = 0"
  by (simp_all add: open_env_def ex_env_def plain_answer_def)

lemma open_runs:
  "\<exists>tr'. gh_std_openat open_env ex_alloc (- 100) ''/tmp'' 0 0 (full_thread, tr) =
     Some (GHR_OK, (Some 5, (full_thread, tr'))) \<and> Openat 7 ''5'' 0 0 \<in> fst ` set tr'"
proof -
  obtain tr1 where o: "gh_pathfd_open open_env (- 100) ''/tmp'' pathfd_zero 0 tr = (GHR_OK, (ex_fd, tr1))"
    by (simp add: gh_pathfd_open_def syscall_pair open_answers plain_answer_def pathfd_zero_def ex_fd_def Let_def)
  obtain tr2 where g: "std_gatefile open_env ex_alloc ex_fd 2048 None (full_thread, tr1) = Some (GHR_OK, (full_thread, tr2))"
    using open_gate by blast
  have p: "procfd_getfdfilename ex_fd = (GHR_OK, ''5'')" by (simp add: procfd_getfdfilename_def ex_fd_def c_decimal.simps [of 5] char_of_def bit_0)
  have e: "gh_pathfd_guaranteedtoexist ex_fd" by (simp add: gh_pathfd_guaranteedtoexist_def ex_fd_def)
  have m: "gh_permfs_fcntlflags2permfsmode 0 0 ex_fd = (GHR_OK, Some 2048)"
    by (simp add: gh_permfs_fcntlflags2permfsmode_def fcntl_access_def)
  have t: "ps_procfd (th_perms full_thread) = \<lparr>pr_fd = 7\<rparr>" by (simp add: full_thread_def ex_perms_def exec_procfd_def)
  show ?thesis
    by (simp add: gh_std_openat_def std_openmode_def o m g t gh_procfd_reopen_def p e syscall_pair open_answers
        std_close_def gh_pathfd_close_def plain_answer_def ghr_simps Let_def)
qed

definition open_frame :: gh_rpcframe where
  "open_frame = \<lparr>fr_function = Some (1, 0), fr_fd = - 1, fr_result = GHR_RPC_UNEXECUTED, fr_arg_count = 3,
     fr_args = \<lparr>ra_ptr = Some 0, ra_size = 5\<rparr> # \<lparr>ra_ptr = Some 5, ra_size = 4\<rparr> # \<lparr>ra_ptr = Some 9, ra_size = 4\<rparr> #
       replicate 13 rpcarg_null,
     fr_return_arg = rpcarg_null, fr_buffer = True, fr_buffer_size = 13, fr_memory = ''/tmp'' @ [NUL, NUL, NUL, NUL, NUL, NUL, NUL, NUL, NUL]\<rparr>"

lemma open_newframe:
  "\<exists>tr'. gh_rpc_newframefrommsg open_env ex_alloc (th_rpc full_thread) (rpc_thread full_thread) open_call tr =
     Some (GHR_OK, (Some open_frame, tr'))"
proof -
  have m: "fc_arg_count open_call = 3" "fc_return_arg open_call = \<lparr>fa_addr = 0, fa_size = 0\<rparr>" "length (fc_args open_call) = 16"
    "take 3 (fc_args open_call) = [\<lparr>fa_addr = 4096, fa_size = 5\<rparr>, \<lparr>fa_addr = 8192, fa_size = 4\<rparr>, \<lparr>fa_addr = 8200, fa_size = 4\<rparr>]"
    by (simp_all add: open_call_def ex_call_def)
  have a: "open_env tr (VmReadv pid n args) = (plain_answer 13)\<lparr>an_data := ''/tmp'' @ [NUL, NUL, NUL, NUL, NUL, NUL, NUL, NUL, NUL]\<rparr>" for tr pid n args
    by (simp add: open_env_def)
  have l: "rt_frame_limit (rpc_thread full_thread) = 4096" by (simp add: rpc_thread_def full_thread_def ex_thread_def)
  have c: "\<not> readv_copied a 13 args > 13" for a args by (simp add: readv_copied_def)
  show ?thesis
    using c
    by (simp add: gh_rpc_newframefrommsg_def open_find m frame_args_size_def return_wanted_def Let_def l gh_alloc_new_result
        ex_alloc_def ghr_simps syscall_pair a plain_answer_def open_frame_def)
qed

lemma open_run:
  "\<exists>tr'. std_run open_env ex_alloc [] app GhostOpen (open_frame\<lparr>fr_result := GHR_OK\<rparr>, full_thread, tr) =
     Some (open_frame\<lparr>fr_result := GHR_OK, fr_fd := 5\<rparr>, full_thread, tr') \<and> Openat 7 ''5'' 0 0 \<in> fst ` set tr'"
proof -
  obtain tr' where o: "gh_std_openat open_env ex_alloc (- 100) ''/tmp'' 0 0 (full_thread, tr) =
     Some (GHR_OK, (Some 5, (full_thread, tr')))" "Openat 7 ''5'' 0 0 \<in> fst ` set tr'" using open_runs by blast
  moreover have "\<not> (3 :: size_t) \<le> 1" "\<not> (3 :: size_t) \<le> 2" by (simp_all add: size_le_unat)
  ultimately show ?thesis
    by (simp add: std_run_def ghost_open_def with_strarg_def with_intarg_def gh_rpcframe_argbufv_def gh_rpcframe_argv_def
        open_frame_def frame_store_def mem_store_def cells_write_def frame_string_def frame_word_def mem_load_def cstr_def
        gh_rpcframe_setreturnfd_def ghr_simps)
qed

lemma open_handle:
  "\<exists>tr'. thread_handlemsg_functioncall open_env ex_alloc (std_run open_env ex_alloc [] app) open_call (full_thread, []) =
     Some (GHR_OK, (full_thread, tr')) \<and> Openat 7 ''5'' 0 0 \<in> fst ` set tr'"
proof -
  let ?run = "std_run open_env ex_alloc [] app"
  let ?f = "open_frame\<lparr>fr_result := GHR_OK, fr_fd := 5\<rparr>"
  obtain tr1 where n: "gh_rpc_newframefrommsg open_env ex_alloc (th_rpc full_thread) (rpc_thread full_thread) open_call [] =
     Some (GHR_OK, (Some open_frame, tr1))" using open_newframe by blast
  obtain tr2 where r: "?run GhostOpen (open_frame\<lparr>fr_result := GHR_OK\<rparr>, full_thread, tr1) = Some (?f, full_thread, tr2)"
    "Openat 7 ''5'' 0 0 \<in> fst ` set tr2" using open_run by blast
  have d: "da_deref (rp_functions (th_rpc full_thread)) (1, 0) = Some (std_entry (''ghost.open'', GhostOpen))"
    by (simp add: full_thread_def std_rpc_def gh_rpc_incthreadrefcount_def full_functions_def std_functions_def da_deref_def)
  have f: "fr_function open_frame = Some (1, 0)" "fr_result open_frame = GHR_RPC_UNEXECUTED" "fr_return_arg open_frame = rpcarg_null"
    "fr_buffer open_frame" "fr_buffer_size open_frame = 13"
    by (simp_all add: open_frame_def)
  have c: "gh_rpc_callframe open_env ?run (th_rpc full_thread) (open_frame, full_thread, tr1) = Some (GHR_OK, ?f, full_thread, tr2)"
    using r(1) d f by (simp add: gh_rpc_callframe_def rpc_mutex_def std_entry_def rpcarg_null_def ghr_simps)
  have t: "rt_ipc (rpc_thread full_thread) = \<lparr>ip_mode = GH_IPCMODE_CONTROLLER, ip_sockfd = 5\<rparr>"
    by (simp add: rpc_thread_def full_thread_def ex_thread_def)
  obtain tr3 where s: "gh_rpc_respondtomsg open_env (rpc_thread full_thread) open_call ?f tr2 = Some (GHR_OK, (?f, tr3))"
    "set tr2 \<subseteq> set tr3"
    by (simp add: t f gh_rpc_respondtomsg_def rpc_copyreturn_def rpcarg_null_def rpc_sendreturn_def send_return_def gh_ipc_send_def
        prepare_cmsg_def ipcmsg_fd_def syscall_pair open_answers ghr_simps Let_def) blast
  have "fst (gh_rpc_disposeframe ex_alloc ?f) = GHR_OK"
    by (simp add: gh_rpc_disposeframe_def f gh_alloc_delete_result ex_alloc_def ghr_simps)
  with n c s r(2) show ?thesis
    by (auto simp: thread_handlemsg_functioncall_def ghr_simps)
qed

theorem std_message_granted_witness:
  "\<exists>thread' tr'. thread_handlemsg_functioncall open_env ex_alloc (std_run open_env ex_alloc [] (\<lambda>_ st. Some st)) open_call (full_thread, []) =
     Some (GHR_OK, (thread', tr')) \<and> Openat 7 ''5'' O_RDONLY 0 \<in> set (new_calls [] tr') \<and>
     std_granted open_env ex_alloc [] full_thread (Openat 7 ''5'' O_RDONLY 0)"
proof -
  obtain tr' where h: "thread_handlemsg_functioncall open_env ex_alloc (std_run open_env ex_alloc [] (\<lambda>_ st. Some st)) open_call (full_thread, []) =
     Some (GHR_OK, (full_thread, tr'))" and "Openat 7 ''5'' 0 0 \<in> fst ` set tr'" using open_handle by blast
  then have c: "Openat 7 ''5'' 0 0 \<in> set (new_calls [] tr')" by (simp add: new_calls_def)
  have q: "thread_quiet full_thread"
    by (simp add: thread_quiet_def full_thread_def ex_perms_def app_prompter_calls file_harmless_def)
  have l: "rpc_list (\<lambda>_. 0) (th_rpc full_thread) full_functions"
    using full_list by (simp add: full_thread_def rpc_list_def gh_rpc_incthreadrefcount_def)
  have "\<forall>f \<in> set full_functions. rf_func f \<in> snd ` set std_functions" by (auto simp: full_functions_def std_entry_def)
  from std_message_granted [OF q l this h c]
  have "std_granted open_env ex_alloc [] full_thread (Openat 7 ''5'' 0 0)" by (simp add: file_harmless_def rpc_call_def)
  with h c show ?thesis by blast
qed

text \<open>A name that no function has\<close>

lemma unknown_name_answered:
  assumes "rpc_list destroy (th_rpc thread) fs" "first_named (fc_name msg) 0 fs = None"
    and "thread_handlemsg_functioncall env al run msg (thread, tr) = Some (res, (thread', tr'))"
  shows "returns_sent tr' = returns_sent tr + (if res = GHR_RPC_MISSINGFUNC then 1 else 0)"
proof -
  have "gh_rpc_newframefrommsg env al (th_rpc thread) (rpc_thread thread) msg tr = Some (GHR_RPC_MISSINGFUNC, (None, tr))"
    using msgframe_find_result [OF assms(1), of 0 "fc_name msg"] assms(2) by (simp add: gh_rpc_newframefrommsg_def)
  moreover obtain r tr2 where m: "gh_rpc_respondmissing env (th_ipc thread) tr = (r, tr2)" by (metis prod.exhaust)
  moreover have "r = GHR_OK \<or> \<not> ghr_is r GHR_RPC_MISSINGFUNC"
    using m by (auto simp: gh_rpc_respondmissing_def send_return_def gh_ipc_send_def prepare_cmsg_def ipcmsg_fd_def
        ghr_errno_def ghr_simps Let_def split: if_splits prod.splits)
  moreover have "returns_sent tr2 = returns_sent tr + (if r = GHR_OK then 1 else 0)"
    using send_return_count [of env "th_ipc thread" "- 1" GHR_RPC_MISSINGFUNC tr] m by (simp add: gh_rpc_respondmissing_def)
  ultimately show ?thesis
    using assms(3) by (auto simp: thread_handlemsg_functioncall_def ghr_simps split: if_splits)
qed

text \<open>C8.
  Each message that calls a function is answered at most once, exactly once when it is handled without an
  error, and a message with the name of no function exactly when the result says that it is missing.
  The functions must not send responses themselves.
\<close>

theorem message_answered_once:
  assumes "rpc_list destroy (th_rpc thread) fs"
    and "\<And>f frame tr1. f \<in> set fs \<Longrightarrow> gives (run (rf_func f) (frame, thread, tr1))
      (\<lambda>(frame', thread', tr'). extends (\<lambda>_. True) tr1 tr' \<and> returns_sent tr' = returns_sent tr1 \<and>
         rpc_thread thread' = rpc_thread thread)"
    and "thread_handlemsg_functioncall env al run msg (thread, tr) = Some (res, (thread', tr'))"
  shows "returns_sent tr' \<le> returns_sent tr + 1 \<and> (res = GHR_OK \<longrightarrow> returns_sent tr' = returns_sent tr + 1) \<and>
     (first_named (fc_name msg) 0 fs = None \<longrightarrow>
        returns_sent tr' = returns_sent tr + (if res = GHR_RPC_MISSINGFUNC then 1 else 0))"
  using givesD [OF functioncall_calls [where P = "\<lambda>_. True" and run = run, OF assms(1) assms(2)] assms(3)]
    unknown_name_answered [OF assms(1) _ assms(3)] by simp

theorem message_answered_once_witness:
  "returns_sent [(Sendmsg 5 (MsgFunctionReturn (- 1) (ghr_errnoval GHR_RPCF_ARG0 22)) 12 None, plain_answer 0)] = 1"
proof -
  have run: "gives (std_run quiet_env ex_alloc [] (\<lambda>_ st. Some st) (rf_func f) (frame, ex_thread, tr1))
      (\<lambda>(frame', thread', tr'). extends (\<lambda>_. True) tr1 tr' \<and> returns_sent tr' = returns_sent tr1 \<and>
         rpc_thread thread' = rpc_thread ex_thread)" if "f \<in> set [ex_remove]" for f frame tr1
    by (rule gives_weaken [OF std_run_calls [OF ex_thread_quiet]])
      (use that ex_remove_std in \<open>auto elim: extends_mono\<close>)
  show ?thesis using message_answered_once [OF ex_rpc_list run ex_handle [of "[]"]] by (simp add: returns_sent_def)
qed

section \<open>Programs\<close>

text \<open>C6.
  What the child of \<^verbatim>\<open>ghost.execute\<close> executes is the shell with the given script and environment: the
  file behind the descriptor for which the gate for programs let exactly these arguments pass, by an entry
  of the policy that accepts or by the answer of the user.
\<close>

theorem execute_granted:
  fixes thread :: "('g, 'h, 'f) gh_thread"
  assumes "gh_std_execute env al dirfd script envp ws wp (thread, tr) = Some (Executes fd argv envp', tr')"
    and "exec_list (px_hashlist (ps_exec (th_perms thread))) es"
  shows "argv = shell_argv script \<and> envp' = envp \<and>
     (\<exists>pathfd tr1 fd2 tr2 h tr3.
        gh_pathfd_open env dirfd ''/bin/sh'' pathfd_zero GH_PATHFD_RESOLVELINKS tr = (GHR_OK, (pathfd, tr1)) \<and> fd = pf_fd pathfd \<and>
        gh_procfd_reopen env (ps_procfd (th_perms thread)) pathfd O_RDONLY 0 tr1 = (GHR_OK, (Some fd2, tr2)) \<and>
        gh_permexec_hash_build env al fd2 (exec_argc argv) argv tr2 = Some (GHR_OK, (Some h, tr3)) \<and>
        (permexec_mode_of (ps_exec (th_perms thread)) h = GH_PERMEXEC_ACCEPT \<or>
         permexec_mode_of (ps_exec (th_perms thread)) h = GH_PERMEXEC_PROMPT \<and>
         (\<exists>px st. permexec_prompt env al (ps_prompter (th_perms thread)) (ps_procfd (th_perms thread)) (th_safe_id thread) pathfd argv
            (env_filter (px_allowed_env (ps_exec (th_perms thread))) envp []) h (ps_exec (th_perms thread), tr3) = Some (GHR_OK, (px, st)))))"
proof -
  from execute_executes [OF assms(1)] obtain pathfd tr1 thread' tr4 where
    e: "argv = shell_argv script" "envp' = envp" "fd = pf_fd pathfd"
    "gh_pathfd_open env dirfd ''/bin/sh'' pathfd_zero GH_PATHFD_RESOLVELINKS tr = (GHR_OK, (pathfd, tr1))"
    "std_gateexec env al pathfd (shell_argv script) envp (thread, tr1) = Some (GHR_OK, (thread', tr4))" by blast
  then obtain px where "gh_permexec_gate env al (ps_prompter (th_perms thread)) (ps_procfd (th_perms thread)) (th_safe_id thread)
      pathfd argv envp (ps_exec (th_perms thread), tr1) = Some (GHR_OK, (px, tr4))"
    by (auto simp: std_gateexec_def std_lift_def gh_perms_gateexec_def)
  from gate_grants [OF assms(2) this] e show ?thesis by (smt (verit, best))
qed

definition sh_argv :: "string list" where
  "sh_argv = shell_argv ''ls''"

definition sh_entries :: "gh_permexec_entry list" where
  "sh_entries = [\<lparr>xe_mode = GH_PERMEXEC_ACCEPT, xe_hash = combined_hash pad_hash ''prog'' sh_argv\<rparr>]"

definition sh_policy :: gh_permexec where
  "sh_policy = exec_policy\<lparr>px_hashlist := \<lparr>da_buffer = Some sh_entries, da_capacity = 128, da_size = 1, da_block = 1\<rparr>\<rparr>"

definition sh_thread :: "(unit, unit, unit std_function) gh_thread" where
  "sh_thread = ex_thread\<lparr>th_perms := ex_perms\<lparr>ps_exec := sh_policy\<rparr>\<rparr>"

lemma sh_list: "exec_list (px_hashlist sh_policy) sh_entries"
  by (simp add: exec_list_def sh_policy_def sh_entries_def da_reserved_def da_items_def
      permexechashlist_daopts_def combined_hash_def pad_hash_length)

theorem execute_granted_witness: "\<exists>tr'. gh_std_execute exec_env ex_alloc 8 ''ls'' [] False False (sh_thread, []) =
     Some (Executes 9 sh_argv [], tr') \<and> sh_argv = shell_argv ''ls''"
proof -
  define pf where "pf = \<lparr>pf_fd = 9, pf_trailing = []\<rparr>"
  obtain tr1 where o: "gh_pathfd_open exec_env 8 ''/bin/sh'' pathfd_zero GH_PATHFD_RESOLVELINKS [] = (GHR_OK, (pf, tr1))"
    by (simp add: gh_pathfd_open_def syscall_pair exec_env_def plain_answer_def pathfd_zero_def pf_def Let_def)
  obtain tr2 where r: "gh_procfd_reopen exec_env exec_procfd pf O_RDONLY 0 tr1 = (GHR_OK, (Some 9, tr2))"
    by (simp add: gh_procfd_reopen_def procfd_getfdfilename_def pf_def exec_procfd_def exec_env_def
        plain_answer_def syscall_pair gh_pathfd_guaranteedtoexist_def Let_def ghr_simps)
  from hash_build_result [OF exec_env_hashes exec_env_file ex_alloc_total, of sh_argv tr2] obtain tr3 where
    h: "gh_permexec_hash_build exec_env ex_alloc 9 (exec_argc sh_argv) sh_argv tr2 =
      Some (GHR_OK, (Some (combined_hash pad_hash ''prog'' sh_argv), tr3))" by (auto simp: exec_argc_def sh_argv_def shell_argv_def)
  have "permexec_mode_of sh_policy (combined_hash pad_hash ''prog'' sh_argv) = GH_PERMEXEC_ACCEPT"
    by (simp add: permexec_mode_of_def sh_policy_def sh_entries_def da_items_def)
  with gate_by_mode [OF sh_list r h] have "gh_permexec_gate exec_env ex_alloc (gh_permprompter_new app_prompter) exec_procfd ''safe'' pf
      sh_argv [] (sh_policy, tr1) = Some (GHR_OK, (sh_policy, tr3))" by simp
  then obtain thread' where g: "std_gateexec exec_env ex_alloc pf sh_argv [] (sh_thread, tr1) = Some (GHR_OK, (thread', tr3))"
    by (auto simp: std_gateexec_def std_lift_def gh_perms_gateexec_def sh_thread_def ex_thread_def ex_perms_def)
  have "an_ret (exec_env tr Fork) = 0" "\<not> an_ret (exec_env tr (Execveat fd argv envp)) < 0" for tr fd argv envp
    by (simp_all add: exec_env_def plain_answer_def)
  with o g obtain tr' where x: "gh_std_execute exec_env ex_alloc 8 ''ls'' [] False False (sh_thread, []) =
     Some (Executes 9 sh_argv [], tr')"
    by (simp add: gh_std_execute_def ghr_simps execute_child_def syscall_pair pf_def Let_def flip: sh_argv_def)
  have "exec_list (px_hashlist (ps_exec (th_perms sh_thread))) sh_entries" using sh_list by (simp add: sh_thread_def)
  from execute_granted [OF x this] x show ?thesis by blast
qed

end
