(* ===== verification/MemProps.thy ===== *)
theory MemProps
  imports HostProps
begin

text \<open>
  What crosses the border between host and sandbox: messages, the frames that messages are copied to,
  shared memory and the parameters of calls.
\<close>

section \<open>Messages\<close>

definition long_call :: gh_ipcmsg_functioncall where
  "long_call = ex_call\<lparr>fc_name := replicate 256 CHR ''A'', fc_arg_count := 99\<rparr>"

definition call_env :: env where
  "call_env tr c = (case c of Recvmsg fd \<Rightarrow> (plain_answer 1000)\<lparr>an_msg := MsgFunctionCall long_call\<rparr> | _ \<Rightarrow> plain_answer 1)"

lemma call_env_shapes: "shapes_env call_env"
  by (simp add: shapes_env_def call_env_def ipcmsg_shape_def long_call_def ex_call_def)

text \<open>
  What becomes of the message that the other side has sent: the three kinds that are sanitized keep
  their members, but their string ends in its array and a call counts at most 16 arguments; all others
  arrive as they were sent, with the descriptor that was passed along.
\<close>

definition received_as :: "gh_ipcmsg \<Rightarrow> int option \<Rightarrow> gh_ipcmsg \<Rightarrow> bool" where
  "received_as raw control m \<longleftrightarrow>
     (case raw of
        MsgLuaString s \<Rightarrow>
          (\<exists>s'. m = MsgLuaString s' \<and> length s' = GH_IPCMSG_LUASTRING_MAXSIZE \<and>
             strlen s' < GH_IPCMSG_LUASTRING_MAXSIZE \<and> butlast s' = butlast s)
      | MsgLuaResult r \<Rightarrow>
          (\<exists>s'. m = MsgLuaResult (r\<lparr>lr_error_msg := s'\<rparr>) \<and> length s' = GH_IPCMSG_LUARESULT_ERRORMSGMAX \<and>
             strlen s' < GH_IPCMSG_LUARESULT_ERRORMSGMAX \<and> butlast s' = butlast (lr_error_msg r))
      | MsgFunctionCall c \<Rightarrow>
          (\<exists>s'. m = MsgFunctionCall (c\<lparr>fc_name := s', fc_arg_count := min (fc_arg_count c) 16\<rparr>) \<and>
             length s' = GH_IPCMSG_FUNCTIONCALL_MAXNAME \<and>
             strlen s' < GH_IPCMSG_FUNCTIONCALL_MAXNAME \<and> butlast s' = butlast (fc_name c))
      | MsgNewSubjail _ \<Rightarrow> (\<exists>fd. control = Some fd \<and> m = MsgNewSubjail fd)
      | MsgLuaFile _ name \<Rightarrow> (\<exists>fd. control = Some fd \<and> m = MsgLuaFile fd name)
      | MsgLuaCall c \<Rightarrow> (\<exists>fd. control = Some fd \<and> m = MsgLuaCall (c\<lparr>lc_fd := fd\<rparr>))
      | MsgFunctionReturn fd r \<Rightarrow> m = MsgFunctionReturn (case control of None \<Rightarrow> fd | Some fd' \<Rightarrow> fd') r
      | _ \<Rightarrow> m = raw)"

lemma butlast_upd_last: "length s = Suc n \<Longrightarrow> butlast (s[n := x]) = butlast s"
  by (simp add: butlast_conv_take)

lemma sanitize_received:
  assumes "ipcmsg_shape raw" "prepare_cmsg ipc (basic_sanitize_msg raw) False control = (GHR_OK, (m, control'))"
  shows "received_as raw control m"
proof (cases raw)
  case (MsgLuaString s)
  with assms strlen_terminated [of s GH_IPCMSG_LUASTRING_MAXSIZE] butlast_upd_last [of s 10235 NUL] show ?thesis
    by (auto simp: received_as_def basic_sanitize_msg_def prepare_cmsg_def ipcmsg_fd_def ipcmsg_shape_def)
next
  case (MsgLuaResult r)
  with assms strlen_terminated [of "lr_error_msg r" GH_IPCMSG_LUARESULT_ERRORMSGMAX]
    butlast_upd_last [of "lr_error_msg r" "GH_IPCMSG_LUARESULT_ERRORMSGMAX - 1" NUL]
  show ?thesis
    by (auto simp: received_as_def basic_sanitize_msg_def prepare_cmsg_def ipcmsg_fd_def ipcmsg_shape_def
        intro!: exI [of _ "(lr_error_msg r)[GH_IPCMSG_LUARESULT_ERRORMSGMAX - 1 := NUL]"])
next
  case (MsgFunctionCall c)
  with assms strlen_terminated [of "fc_name c" GH_IPCMSG_FUNCTIONCALL_MAXNAME]
    butlast_upd_last [of "fc_name c" "GH_IPCMSG_FUNCTIONCALL_MAXNAME - 1" NUL]
  show ?thesis
    by (cases c) (auto simp: received_as_def basic_sanitize_msg_def prepare_cmsg_def ipcmsg_fd_def ipcmsg_shape_def
        Let_def min_def not_less)
qed (use assms in \<open>auto simp: received_as_def basic_sanitize_msg_def prepare_cmsg_def ipcmsg_fd_def ipcmsg_setfd_def
      ghr_simps split: option.splits\<close>)

lemma recv_delivers:
  assumes "shapes_env env" "gh_ipc_recv env ipc timeout tr = (GHR_OK, (msg, tr'))"
  shows "\<exists>m a tr1. msg = Some m \<and> tr' = (Recvmsg (ip_sockfd ipc), a) # tr1 \<and> a = env tr1 (Recvmsg (ip_sockfd ipc)) \<and>
     received_as (an_msg a) (an_control a) m"
proof -
  obtain tr1 where r: "ipc_recvmsg env ipc tr1 = (GHR_OK, (msg, tr'))"
    using assms(2) by (auto simp: gh_ipc_recv_def syscall_pair Let_def ghr_simps ghr_errno_def split: if_splits)
  let ?a = "env tr1 (Recvmsg (ip_sockfd ipc))"
  obtain res m control where p: "prepare_cmsg ipc (basic_sanitize_msg (an_msg ?a)) False (an_control ?a) = (res, (m, control))"
    by (metis prod_cases3)
  with r have "res = GHR_OK" "msg = Some m" "tr' = (Recvmsg (ip_sockfd ipc), ?a) # tr1"
    by (auto simp: ipc_recvmsg_def syscall_pair Let_def ghr_simps ghr_errno_def split: if_splits)
  with sanitize_received [of "an_msg ?a"] p assms(1) show ?thesis by (auto simp: shapes_env_def)
qed

text \<open>C24.
  What a message that is received without an error is: a string, a result or a call has its string ended
  inside its array - and a call counts at most 16 arguments - whatever the other side has sent; the rest
  of it, and every other message, is as it was sent, up to the descriptor passed along, so the names
  in \<^verbatim>\<open>LUAFILE\<close>, \<^verbatim>\<open>LUAHOSTVARIABLE\<close> and \<^verbatim>\<open>LUACALL\<close> are not ended by receiving them.
\<close>

theorem received_sane:
  assumes "shapes_env env" "gh_ipc_recv env ipc timeout tr = (GHR_OK, (msg, tr'))"
  shows "\<exists>m a tr1. msg = Some m \<and> tr' = (Recvmsg (ip_sockfd ipc), a) # tr1 \<and> a = env tr1 (Recvmsg (ip_sockfd ipc)) \<and>
     received_as (an_msg a) (an_control a) m"
  by (rule recv_delivers [OF assms])

theorem received_sane_witness:
  "\<exists>c. fst (snd (gh_ipc_recv call_env (th_ipc ex_thread) 50 [])) = Some (MsgFunctionCall c) \<and>
     unat (fc_arg_count c) = 16 \<and> strlen (fc_name c) < 256"
proof -
  have r: "gh_ipc_recv call_env (th_ipc ex_thread) 50 [] =
      (GHR_OK, (Some (basic_sanitize_msg (MsgFunctionCall long_call)),
         [(Recvmsg 5, call_env [(Poll [5] 50, plain_answer 1)] (Recvmsg 5)), (Poll [5] 50, plain_answer 1)]))"
    by (simp add: gh_ipc_recv_def ipc_recvmsg_def syscall_pair call_env_def prepare_cmsg_def ipcmsg_fd_def
        basic_sanitize_msg_def ex_thread_def plain_answer_def ghr_simps Let_def)
  have "fc_arg_count long_call = 99" by (simp add: long_call_def)
  with received_sane [OF call_env_shapes r] show ?thesis
    by (auto simp: r call_env_def plain_answer_def received_as_def)
qed

text \<open>C25.
  Sending makes at most one call, to the own socket; it passes a descriptor only for the controlling
  side, and only the one that the message names.
\<close>

theorem sends_descriptor:
  assumes "gh_ipc_send env ipc msg n tr = (res, tr')"
  shows "tr' = tr \<and> res = GHR_IPC_NOCONTROLMSG \<or>
     (\<exists>control. tr' = (Sendmsg (ip_sockfd ipc) msg n control, env tr (Sendmsg (ip_sockfd ipc) msg n control)) # tr \<and>
       (\<forall>fd. control = Some fd \<longrightarrow>
          ip_mode ipc = GH_IPCMODE_CONTROLLER \<and> fd \<ge> 0 \<and> (\<exists>required. ipcmsg_fd msg = Some (fd, required))))"
  by (rule send_call [OF assms])

theorem sends_descriptor_witness:
  "ip_mode (th_ipc ex_thread) = GH_IPCMODE_CONTROLLER \<and> (\<exists>required. ipcmsg_fd (MsgLuaFile 7 ''x'') = Some (7, required))"
proof -
  have "gh_ipc_send quiet_env (th_ipc ex_thread) (MsgLuaFile 7 ''x'') 12 [] =
      (GHR_OK, [(Sendmsg 5 (MsgLuaFile 7 ''x'') 12 (Some 7), plain_answer 0)])"
    by (simp add: gh_ipc_send_def prepare_cmsg_def ipcmsg_fd_def syscall_pair quiet_env_def ex_thread_def plain_answer_def
        ghr_simps Let_def)
  from sends_descriptor [OF this] show ?thesis by auto
qed

section \<open>Frames\<close>

definition two_args :: gh_ipcmsg_functioncall where
  "two_args = ex_call\<lparr>fc_arg_count := 2, fc_return_arg := \<lparr>fa_addr = 64, fa_size = 8\<rparr>,
     fc_args := \<lparr>fa_addr = 4096, fa_size = 5\<rparr> # \<lparr>fa_addr = 8192, fa_size = 3\<rparr> # replicate 14 \<lparr>fa_addr = 0, fa_size = 0\<rparr>\<rparr>"

lemma two_args_simps:
  "fc_arg_count two_args = 2" "fc_return_arg two_args = \<lparr>fa_addr = 64, fa_size = 8\<rparr>" "length (fc_args two_args) = 16"
  "take 2 (fc_args two_args) = [\<lparr>fa_addr = 4096, fa_size = 5\<rparr>, \<lparr>fa_addr = 8192, fa_size = 3\<rparr>]" "fc_name two_args = fc_name ex_call"
  by (simp_all add: two_args_def ex_call_def)

text \<open>C17.
  The frame for a message whose sizes do not wrap: the buffer holds the bytes that were asked for and
  keeps the limit of the sandbox, the arguments have the sizes of the message and lie in it one behind
  the other from its start, and the return value, if one is asked for, lies behind the last of them with
  the size of the message and ends where the buffer ends.
\<close>

theorem frame_layout:
  assumes "gh_rpc_newframefrommsg env al rpc thread msg tr = Some (GHR_OK, (Some frame, tr'))"
    and "msg_total msg < 18446744073709551616" "msg_total msg > 0"
  shows "length (fr_memory frame) = msg_total msg \<and> frame_inside frame \<and>
     (rt_frame_limit thread = 0 \<or> msg_total msg \<le> unat (rt_frame_limit thread)) \<and>
     args_follow 0 (take (length (msg_args msg)) (fr_args frame)) \<and>
     map ra_size (take (length (msg_args msg)) (fr_args frame)) = map fa_size (msg_args msg) \<and>
     drop (length (msg_args msg)) (fr_args frame) = replicate (16 - length (msg_args msg)) rpcarg_null \<and>
     fr_return_arg frame =
       (if return_wanted msg
        then \<lparr>ra_ptr = Some (of_nat (args_total (msg_args msg))), ra_size = fa_size (fc_return_arg msg)\<rparr>
        else \<lparr>ra_ptr = None, ra_size = 0\<rparr>)"
proof -
  from newframe_frame [OF assms(1)] obtain f bytes where
    f: "frame = msg_frame msg f bytes" "length bytes = unat (msg_buffer_size msg)"
    "rt_frame_limit thread = 0 \<or> msg_buffer_size msg \<le> rt_frame_limit thread" by blast
  have b: "unat (msg_buffer_size msg) = msg_total msg" by (rule buffer_size_total [OF assms(2)])
  then have pos: "msg_buffer_size msg > 0" using assms(3) by (simp add: size_less_unat)
  note l = msg_frame_layout [OF assms(2) pos, of f bytes] msg_frame_return [OF assms(2) pos, of f bytes]
    msg_frame_inside [OF assms(2) f(2), of f]
  have "drop (length (msg_args msg)) (fr_args frame) = replicate (16 - length (msg_args msg)) rpcarg_null"
    using pos by (simp add: f(1) msg_frame_def)
  with l f b show ?thesis by (auto simp: msg_frame_def rpcarg_null_def size_le_unat)
qed

theorem frame_layout_witness:
  "\<exists>frame tr'. gh_rpc_newframefrommsg quiet_env ex_alloc (th_rpc ex_thread) (rpc_thread ex_thread) two_args [] = Some (GHR_OK, (Some frame, tr')) \<and>
     length (fr_memory frame) = 16 \<and> frame_inside frame"
proof -
  have find: "msgframe_find (rp_functions (th_rpc ex_thread)) (fc_name two_args) 0 = Some (Some (1, 0))"
    using ex_find by (simp only: two_args_simps)
  have t: "rt_frame_limit (rpc_thread ex_thread) = 4096" by (simp add: rpc_thread_def ex_thread_def)
  have total: "msg_total two_args = 16" by (simp add: msg_total_def msg_args_def two_args_simps return_wanted_def)
  have s: "frame_args_size (take 2 (fc_args two_args)) = 8" by (simp add: two_args_simps(4) frame_args_size_def)
  obtain frame tr' where n: "gh_rpc_newframefrommsg quiet_env ex_alloc (th_rpc ex_thread) (rpc_thread ex_thread) two_args [] = Some (GHR_OK, (Some frame, tr'))"
    using s by (simp add: gh_rpc_newframefrommsg_def find two_args_simps(1-3) t return_wanted_def Let_def syscall_pair
        gh_alloc_new_result ex_alloc_def ghr_simps quiet_env_def plain_answer_def readv_copied_def)
  from frame_layout [OF n] total n show ?thesis by simp
qed

text \<open>C18.
  The size of the buffer wraps when the size of the return value is added to the sizes of the arguments:
  for a message whose arguments the system can copy and whose sum is beyond 2 to the 64th, the buffer is
  smaller than the arguments, and the system is nevertheless told that it holds all of them. If it copies
  more bytes than the buffer has, memory behind the buffer is overwritten; otherwise there is a frame, and
  its return value does not lie in its buffer.
\<close>

theorem frame_overflow:
  assumes "msgframe_find (rp_functions rpc) (fc_name msg) 0 = Some (Some f)"
    and "unat (fc_arg_count msg) \<le> 16" "length (fc_args msg) = 16"
    and "args_total (msg_args msg) < 9223372036854775808" "return_wanted msg"
    and "msg_total msg > 18446744073709551616"
    and "rt_frame_limit thread = 0 \<or> msg_total msg - 18446744073709551616 \<le> unat (rt_frame_limit thread)"
    and "al 0 (of_nat (msg_total msg - 18446744073709551616)) = GHR_OK"
    and "a = env tr (VmReadv (rt_pid thread) (of_nat (args_total (msg_args msg))) (msg_args msg))"
    and "0 \<le> an_ret a" "nat (an_ret a) \<le> args_total (msg_args msg)"
  shows "msg_total msg - 18446744073709551616 < args_total (msg_args msg) \<and>
     (if nat (an_ret a) > msg_total msg - 18446744073709551616
      then gh_rpc_newframefrommsg env al rpc thread msg tr = None
      else \<exists>frame tr'. gh_rpc_newframefrommsg env al rpc thread msg tr = Some (GHR_OK, (Some frame, tr')) \<and>
             length (fr_memory frame) = msg_total msg - 18446744073709551616 \<and> \<not> frame_inside frame)"
proof -
  have args: "args_total (msg_args msg) < 18446744073709551616" using assms(4) by simp
  have b: "unat (msg_buffer_size msg) = msg_total msg - 18446744073709551616"
    using wrapped_size(1) [OF args assms(5)] assms(6) by simp
  have limit: "rt_frame_limit thread = 0 \<or> msg_buffer_size msg \<le> rt_frame_limit thread"
    using assms(7) b by (simp add: size_le_unat)
  have alloc: "al 0 (msg_buffer_size msg) = GHR_OK" using assms(8) size_of_unat [OF b] by simp
  have "unat (fa_size (fc_return_arg msg)) < 18446744073709551616"
    using unsigned_less [of "fa_size (fc_return_arg msg)"] by simp
  then have "msg_total msg - 18446744073709551616 < args_total (msg_args msg)"
    using assms(4-6) by (simp add: msg_total_def)
  moreover have "gh_rpc_newframefrommsg env al rpc thread msg tr =
     (if nat (an_ret a) > unat (msg_buffer_size msg) then None
      else Some (GHR_OK, (Some (msg_frame msg f (take (unat (msg_buffer_size msg))
               (an_data a @ replicate (unat (msg_buffer_size msg)) NUL))),
             (VmReadv (rt_pid thread) (of_nat (args_total (msg_args msg))) (msg_args msg), a) # tr)))"
    by (rule newframe_wraps) (fact assms args limit alloc)+
  moreover have "length (take (unat (msg_buffer_size msg)) (an_data a @ replicate (unat (msg_buffer_size msg)) NUL)) =
      unat (msg_buffer_size msg)" by simp
  moreover note wrapped_outside [OF args assms(5,6) this, of f]
  ultimately show ?thesis using b by (simp add: msg_frame_def)
qed

definition wrap_msg :: gh_ipcmsg_functioncall where
  "wrap_msg = ex_call\<lparr>fc_arg_count := 1, fc_return_arg := \<lparr>fa_addr = 64, fa_size = - 996\<rparr>,
     fc_args := \<lparr>fa_addr = 4096, fa_size = 1000\<rparr> # replicate 15 \<lparr>fa_addr = 0, fa_size = 0\<rparr>\<rparr>"

definition wrap_env :: env where
  "wrap_env tr c = (case c of VmReadv _ _ _ \<Rightarrow> plain_answer 1000 | _ \<Rightarrow> plain_answer 0)"

theorem frame_overflow_witness:
  "gh_rpc_newframefrommsg wrap_env ex_alloc (th_rpc ex_thread) (rpc_thread ex_thread) wrap_msg [] = None"
proof -
  have w: "fc_arg_count wrap_msg = 1" "fc_return_arg wrap_msg = \<lparr>fa_addr = 64, fa_size = - 996\<rparr>" "length (fc_args wrap_msg) = 16"
    "fc_name wrap_msg = fc_name ex_call" "msg_args wrap_msg = [\<lparr>fa_addr = 4096, fa_size = 1000\<rparr>]"
    by (simp_all add: wrap_msg_def msg_args_def)
  have find: "msgframe_find (rp_functions (th_rpc ex_thread)) (fc_name wrap_msg) 0 = Some (Some (1, 0))"
    using ex_find by (simp only: w)
  have total: "return_wanted wrap_msg" "args_total (msg_args wrap_msg) = 1000" "msg_total wrap_msg = 18446744073709551620"
    by (simp_all add: return_wanted_def w msg_total_def)
  show ?thesis
    using frame_overflow [of "th_rpc ex_thread" wrap_msg "(1, 0)" "rpc_thread ex_thread" ex_alloc _ wrap_env "[]", OF find _ w(3) _ total(1) _ _ _ refl]
    by (simp add: w(1) total wrap_env_def plain_answer_def ex_alloc_def rpc_thread_def ex_thread_def)
qed

text \<open>
  The search of the frames that the host makes itself never resets its pointer: a name that no function
  has gets the frame of the last function, as long as there is one.
\<close>

theorem unknown_name_last_function:
  assumes "rpc_list destroy rpc fs" "fs \<noteq> []" "first_named name 0 fs = None" "length args = GH_IPCMSG_FUNCTIONCALL_MAXARGS"
  shows "\<exists>frame. gh_rpc_newframe rpc name arg_count args return_arg mem = Some (GHR_OK, Some frame) \<and>
     rpc_function rpc frame = Some (last fs)"
proof -
  have "newframe_find (rp_functions rpc) name 0 None = Some (Some (da_block (rp_functions rpc), length fs - 1))"
    using newframe_find_result [OF assms(1), of 0 name None] assms(2,3) by simp
  moreover have "da_deref (rp_functions rpc) (da_block (rp_functions rpc), length fs - 1) = Some (last fs)"
    using rpc_list_deref(2) [OF assms(1), of "length fs - 1"] assms(2) by (simp add: last_conv_nth)
  ultimately show ?thesis using assms(4) by (simp add: gh_rpc_newframe_def rpc_function_def)
qed

theorem unknown_name_last_function_witness:
  "\<exists>frame. gh_rpc_newframe (th_rpc ex_thread) ''ghost.nothing'' 0 (replicate 16 rpcarg_null) rpcarg_null [] = Some (GHR_OK, Some frame) \<and>
     rpc_function (th_rpc ex_thread) frame = Some ex_remove"
  using unknown_name_last_function [OF ex_rpc_list, of "''ghost.nothing''" "replicate 16 rpcarg_null" 0 rpcarg_null "[]"]
  by (simp add: ex_remove_def cstr_def)

end
