(* ===== verification/ShareProps.thy ===== *)
theory ShareProps
  imports CallFacts
begin

text \<open>
  The memory that host and sandbox share: its pointers, its growth, the parameters and the return value
  of a call.
\<close>

section \<open>Pointers\<close>

definition ex_mem :: gh_fdmem where
  "ex_mem = \<lparr>fm_data = 4096, fm_occupied = 0, fm_size = 1024, fm_fd = 3\<rparr>"

lemma ex_mem_wf: "fdmem_wf ex_mem" "fdmem_wf (ex_mem\<lparr>fm_occupied := 100\<rparr>)"
  by (simp_all add: ex_mem_def fdmem_wf_def)

text \<open>C20.
  A pointer of the other process that translates addresses a block inside the occupied part of the
  mapping, unless pointer and size wrap.
\<close>

theorem realptr_inside_mapping:
  assumes "fdmem_wf m" "gh_fdmem_realptr m v n \<noteq> 0" "unat v + unat n < 18446744073709551616"
  shows "fdmem_block m (gh_fdmem_realptr m v n) (unat n)"
  by (rule realptr_block [OF assms])

theorem realptr_inside_mapping_witness: "fdmem_block (ex_mem\<lparr>fm_occupied := 100\<rparr>) 4112 16"
proof -
  have r: "gh_fdmem_realptr (ex_mem\<lparr>fm_occupied := 100\<rparr>) 17 16 = 4112"
    by (simp add: gh_fdmem_realptr_def ipcfdmem_realptr_def ex_mem_def)
  then have "gh_fdmem_realptr (ex_mem\<lparr>fm_occupied := 100\<rparr>) 17 16 \<noteq> 0" by simp
  from realptr_inside_mapping [OF ex_mem_wf(2) this] r show ?thesis by simp
qed

text \<open>C21.
  Every block of the shared memory has a pointer for the other process, and the pointer translates
  back to the block.
\<close>

theorem virtptr_roundtrip:
  assumes "fdmem_wf m" "fdmem_block m p (unat n)" "n \<noteq> 0"
  shows "gh_fdmem_virtptr m p n \<noteq> 0 \<and> gh_fdmem_realptr m (gh_fdmem_virtptr m p n) n = p"
  by (rule virtptr_block [OF assms])

theorem virtptr_roundtrip_witness:
  "gh_fdmem_realptr (ex_mem\<lparr>fm_occupied := 100\<rparr>) (gh_fdmem_virtptr (ex_mem\<lparr>fm_occupied := 100\<rparr>) 4180 16) 16 = 4180"
proof -
  have "fdmem_block (ex_mem\<lparr>fm_occupied := 100\<rparr>) 4180 (unat (16 :: size_t))" by (simp add: fdmem_block_def ex_mem_def)
  from virtptr_roundtrip [OF ex_mem_wf(2) this] show ?thesis by simp
qed

section \<open>Growth\<close>

text \<open>Powers of two, as the doubling of the size makes them: past half of the range it never reaches the target.\<close>

lemma double_power: "i < 64 \<Longrightarrow> (2 :: size_t) ^ i * 2 = (if i = 63 then 0 else 2 ^ Suc i)"
proof (cases "i = 63")
  case True
  then have "(2 :: size_t) ^ i * 2 = 2 ^ 64" by (simp flip: power_Suc2)
  then show ?thesis using True by simp
qed (simp add: mult.commute)

lemma power_below: "i < 64 \<Longrightarrow> 9223372036854775808 < unat (target :: size_t) \<Longrightarrow> (2 :: size_t) ^ i < target"
proof -
  assume a: "i < 64" "9223372036854775808 < unat target"
  have "(2 :: nat) ^ i \<le> 2 ^ 63" using a(1) by (intro power_increasing) simp_all
  moreover have "unat ((2 :: size_t) ^ i) = 2 ^ i"
  proof -
    have "(2 :: nat) ^ i < 2 ^ 64" using a(1) by (intro power_strict_increasing) simp_all
    then have "unat (of_nat (2 ^ i) :: size_t) = 2 ^ i" using a(1) by (simp add: unsigned_of_nat take_bit_nat_eq_self del: of_nat_power)
    then show ?thesis by simp
  qed
  ultimately show ?thesis using a(2) by (simp add: size_less_unat)
qed

lemma fdmem_grow_wraps:
  assumes "9223372036854775808 < unat target" "i < 64"
  shows "fdmem_grow target (2 ^ i) = None"
proof (cases "fdmem_grow target (2 ^ i)")
  case (Some s)
  have "9223372036854775808 < unat target \<longrightarrow> ((2 :: size_t) ^ i = 0 \<or> (\<exists>j < 64. (2 :: size_t) ^ i = 2 ^ j)) \<longrightarrow> False"
  proof (rule fdmem_grow.raw_induct [where P = "\<lambda>t c r. 9223372036854775808 < unat t \<longrightarrow> (c = 0 \<or> (\<exists>j < 64. c = 2 ^ j)) \<longrightarrow> False", OF _ Some])
    fix grow :: "size_t \<Rightarrow> size_t \<Rightarrow> size_t option" and t c r :: size_t
    assume ih: "\<And>t c r. grow t c = Some r \<Longrightarrow> 9223372036854775808 < unat t \<longrightarrow> (c = 0 \<or> (\<exists>j < 64. c = 2 ^ j)) \<longrightarrow> False"
      and s: "(if t > c then grow t (c * 2) else Some c) = Some r"
    show "9223372036854775808 < unat t \<longrightarrow> (c = 0 \<or> (\<exists>j < 64. c = 2 ^ j)) \<longrightarrow> False"
    proof (intro impI)
      assume t: "9223372036854775808 < unat t" and c: "c = 0 \<or> (\<exists>j < 64. c = 2 ^ j)"
      have "t \<noteq> 0" using t by auto
      then have "0 < t" by (rule word_neq_0_conv [THEN iffD1])
      then have "t > c" using c t power_below [of _ t] by blast
      moreover have "(2 :: size_t) ^ j * 2 = 0 \<or> (\<exists>k < 64. (2 :: size_t) ^ j * 2 = 2 ^ k)" if "j < 64" for j
      proof (cases "j = 63")
        case False
        with that have "Suc j < 64" by simp
        then show ?thesis using double_power [OF that] False by metis
      qed (use double_power [of 63] in simp)
      then have "c * 2 = 0 \<or> (\<exists>j < 64. c * 2 = 2 ^ j)" using c by auto
      ultimately show False using ih [of t "c * 2" r] s t by simp
    qed
  qed
  then show ?thesis using assms by blast
qed

text \<open>C23.
  The loop that doubles the size of the mapping: it ends, with a size that is large enough and less than
  twice the target, when the size is not 0 and the target is in the lower half of the range. It never
  ends for a size of 0, and for a power of two and a target in the upper half.
\<close>

theorem fdmem_grow_ends:
  "(0 < s \<and> unat target \<le> 9223372036854775808 \<longrightarrow>
      (\<exists>s'. fdmem_grow target s = Some s' \<and> target \<le> s' \<and> unat s' < max (unat s + 1) (2 * unat target))) \<and>
   (0 < target \<longrightarrow> fdmem_grow target 0 = None) \<and>
   (9223372036854775808 < unat target \<and> i < 64 \<longrightarrow> fdmem_grow target (2 ^ i) = None)"
  using fdmem_grow_result [of s target] fdmem_grow_zero [of target] fdmem_grow_wraps [of target i]
  by (auto simp: size_less_unat)

theorem fdmem_grow_ends_witness:
  "(\<exists>s'. fdmem_grow 5000 1024 = Some s' \<and> 5000 \<le> s' \<and> unat s' < 10000) \<and> fdmem_grow 5 0 = None \<and>
   fdmem_grow 18446744073709551615 (2 ^ 10) = None"
  using fdmem_grow_ends [of 1024 5000 10] fdmem_grow_ends [of 1 5 10] fdmem_grow_ends [of 1 18446744073709551615 10] by simp

text \<open>C22.
  When the mapping grows, the block that is handed out and the whole translation go on with the old
  address, whatever address the system has given the mapping.
\<close>

theorem grown_mapping_stale:
  assumes "gh_fdmem_new env m n tr = Some (GHR_OK, (Some p, m', tr'))" "fm_occupied m + n > fm_size m"
  shows "p = fm_data m + fm_occupied m \<and> fm_data m' = fm_data m \<and>
     (\<exists>tr1. tr' = (Mremap (fm_data m) (fm_size m) (fm_size m'), env tr1 (Mremap (fm_data m) (fm_size m) (fm_size m'))) # tr1)"
  by (rule new_resized [OF assms])

definition moving_env :: env where
  "moving_env tr c = (case c of Mremap p old new \<Rightarrow> plain_answer 1000000 | _ \<Rightarrow> plain_answer 0)"

theorem grown_mapping_stale_witness:
  "\<exists>m' tr'. gh_fdmem_new moving_env (ex_mem\<lparr>fm_occupied := 1000\<rparr>) 100 [] = Some (GHR_OK, (Some 5096, m', tr')) \<and>
     fst (hd tr') = Mremap 4096 1024 2048 \<and> an_ret (snd (hd tr')) = 1000000"
proof -
  let ?m = "ex_mem\<lparr>fm_occupied := 1000\<rparr>"
  have g: "fdmem_grow 1100 1024 = Some 2048"
    by (subst fdmem_grow.simps, simp, subst fdmem_grow.simps, simp)
  obtain p m' tr' where n: "gh_fdmem_new moving_env ?m 100 [] = Some (GHR_OK, (Some p, m', tr'))" "fm_size m' = 2048"
    by (simp add: gh_fdmem_new_def ex_mem_def g ipcfdmem_resize_def syscall_pair moving_env_def plain_answer_def
        map_failed_def ghr_simps Let_def)
  have "fm_occupied ?m + 100 > fm_size ?m" by (simp add: ex_mem_def)
  from grown_mapping_stale [OF n(1) this] n show ?thesis by (auto simp: ex_mem_def moving_env_def plain_answer_def)
qed

section \<open>Calls\<close>

definition ex_frame :: gh_thread_callframe where
  "ex_frame = \<lparr>cf_param_count = 0, cf_fdmem = ex_mem, cf_param_ptrs = replicate 16 0, cf_returned = False, cf_return_value = 0\<rparr>"

lemma ex_frame_wf: "callframe_wf ex_frame"
  by (simp add: callframe_wf_def ex_frame_def ex_mem_wf)

text \<open>C19.
  A list of parameters for which the mapping and the array have room: each is stored behind the one
  before, is counted, and its pointer translates to its own address, as do those stored earlier.
\<close>

theorem call_parameters:
  assumes "callframe_wf frame" "unat (cf_param_count frame) + length ps \<le> GH_IPCMSG_LUACALL_MAXPARAMS"
    and "unat (fm_occupied (cf_fdmem frame)) + sum_list (map param_size ps) \<le> unat (fm_size (cf_fdmem frame))"
  shows "\<exists>frame' tr'. callframe_pushes env ps (frame, tr) = Some (GHR_OK, (frame', tr')) \<and> callframe_wf frame' \<and>
     unat (cf_param_count frame') = unat (cf_param_count frame) + length ps \<and>
     (\<forall>i < unat (cf_param_count frame). gh_fdmem_realptr (cf_fdmem frame') (cf_param_ptrs frame' ! i) VARIANT_SIZE =
        gh_fdmem_realptr (cf_fdmem frame) (cf_param_ptrs frame ! i) VARIANT_SIZE) \<and>
     (\<forall>i < length ps. unat (gh_fdmem_realptr (cf_fdmem frame') (cf_param_ptrs frame' ! (unat (cf_param_count frame) + i)) VARIANT_SIZE) =
        unat (fm_data (cf_fdmem frame)) + unat (fm_occupied (cf_fdmem frame)) + sum_list (map param_size (take i ps)))"
  using callframe_pushes_ok [OF assms, of env tr] by blast

theorem call_parameters_witness:
  "\<exists>frame' tr'. callframe_pushes quiet_env [StringParam 3 ''abc'', IntParam 5] (ex_frame, []) = Some (GHR_OK, (frame', tr')) \<and>
     callframe_wf frame' \<and> unat (gh_fdmem_realptr (cf_fdmem frame') (cf_param_ptrs frame' ! 1) VARIANT_SIZE) = 4115"
proof -
  have "unat (cf_param_count ex_frame) + length [StringParam 3 ''abc'', IntParam 5] \<le> GH_IPCMSG_LUACALL_MAXPARAMS"
    "unat (fm_occupied (cf_fdmem ex_frame)) + sum_list (map param_size [StringParam 3 ''abc'', IntParam 5]) \<le> unat (fm_size (cf_fdmem ex_frame))"
    by (simp_all add: ex_frame_def ex_mem_def)
  from call_parameters [OF ex_frame_wf this, of quiet_env "[]"] obtain frame' tr' where
    f: "callframe_pushes quiet_env [StringParam 3 ''abc'', IntParam 5] (ex_frame, []) = Some (GHR_OK, (frame', tr'))" "callframe_wf frame'"
    "\<forall>i < 2. unat (gh_fdmem_realptr (cf_fdmem frame') (cf_param_ptrs frame' ! i) VARIANT_SIZE) =
        4096 + sum_list (map param_size (take i [StringParam 3 ''abc'', IntParam 5]))"
    by (auto simp: ex_frame_def ex_mem_def)
  from f(3) have "unat (gh_fdmem_realptr (cf_fdmem frame') (cf_param_ptrs frame' ! 1) VARIANT_SIZE) = 4115"
    by (drule_tac spec [of _ 1]) simp
  with f(1,2) show ?thesis by blast
qed

text \<open>C37.
  The length of a string that a call has returned is what the other process has written, for every size
  of the shared memory.
\<close>

theorem returned_length_unchecked:
  assumes "cf_returned frame" "cf_return_value frame \<noteq> 0"
    and "an_data (env tr (MemLoad (cf_return_value frame) 4)) = le_bytes 4 3"
    and "\<And>tr'. an_data (env tr' (MemLoad (cf_return_value frame + VARIANT_VALUE) 8)) = le_bytes 8 (unat n)"
  shows "\<exists>tr'. gh_thread_callframe_getlstring env frame tr = (Some (n, variant_data (cf_return_value frame)), tr')"
  using getlstring_length [of frame env tr n] assms by blast

definition long_env :: env where
  "long_env tr c = (case c of
     MemLoad p k \<Rightarrow> (plain_answer 0)\<lparr>an_data := if k = 4 then le_bytes 4 3 else le_bytes 8 1000000000000\<rparr>
   | _ \<Rightarrow> plain_answer 0)"

theorem returned_length_unchecked_witness:
  "\<exists>tr'. gh_thread_callframe_getlstring long_env (ex_frame\<lparr>cf_returned := True, cf_return_value := 4096\<rparr>) [] =
     (Some (1000000000000, variant_data 4096), tr')"
  using returned_length_unchecked [of "ex_frame\<lparr>cf_returned := True, cf_return_value := 4096\<rparr>" long_env "[]" 1000000000000]
  by (simp add: long_env_def ex_frame_def)

end
