(* ===== verification/Seccomp.thy ===== *)
theory Seccomp
  imports Kernel
begin

text \<open>
  The filters of system calls (\<^verbatim>\<open>gh_jail_lockdown\<close>, \<^verbatim>\<open>gh_subjail_lockdown\<close>): the two programs for
  the packet filter machine as the sources write them, the machine, and how the kernel combines the
  verdicts of several filters.
\<close>

section \<open>The machine\<close>

abbreviation (input) BPF_LD :: "16 word" where "BPF_LD \<equiv> 0x00"
abbreviation (input) BPF_JMP :: "16 word" where "BPF_JMP \<equiv> 0x05"
abbreviation (input) BPF_RET :: "16 word" where "BPF_RET \<equiv> 0x06"
abbreviation (input) BPF_W :: "16 word" where "BPF_W \<equiv> 0x00"
abbreviation (input) BPF_ABS :: "16 word" where "BPF_ABS \<equiv> 0x20"
abbreviation (input) BPF_JEQ :: "16 word" where "BPF_JEQ \<equiv> 0x10"
abbreviation (input) BPF_K :: "16 word" where "BPF_K \<equiv> 0x00"

abbreviation (input) SECCOMP_RET_KILL_PROCESS :: "32 word" where "SECCOMP_RET_KILL_PROCESS \<equiv> 0x80000000"
abbreviation (input) SECCOMP_RET_ALLOW :: "32 word" where "SECCOMP_RET_ALLOW \<equiv> 0x7FFF0000"
abbreviation (input) AUDIT_ARCH_X86_64 :: "32 word" where "AUDIT_ARCH_X86_64 \<equiv> 0xC000003E"

definition BPF_STMT :: "16 word \<Rightarrow> 32 word \<Rightarrow> sock_filter" where
  "BPF_STMT code k = \<lparr>sf_code = code, sf_jt = 0, sf_jf = 0, sf_k = k\<rparr>"

definition BPF_JUMP :: "16 word \<Rightarrow> 32 word \<Rightarrow> 8 word \<Rightarrow> 8 word \<Rightarrow> sock_filter" where
  "BPF_JUMP code k jt jf = \<lparr>sf_code = code, sf_jt = jt, sf_jf = jf, sf_k = k\<rparr>"

text \<open>\<^verbatim>\<open>struct seccomp_data\<close>, and the words the filters load from it: a 64 bit argument by its lower half\<close>

record seccomp_data =
  sd_nr :: "32 word"
  sd_arch :: "32 word"
  sd_args :: "64 word list"

abbreviation (input) OFFSET_NR :: "32 word" where "OFFSET_NR \<equiv> 0"
abbreviation (input) OFFSET_ARCH :: "32 word" where "OFFSET_ARCH \<equiv> 4"
abbreviation (input) OFFSET_ARG1 :: "32 word" where "OFFSET_ARG1 \<equiv> 24"

definition seccomp_arg :: "seccomp_data \<Rightarrow> nat \<Rightarrow> 32 word" where
  "seccomp_arg d i = ucast ((sd_args d @ replicate 6 0) ! i)"

definition seccomp_load :: "seccomp_data \<Rightarrow> 32 word \<Rightarrow> 32 word option" where
  "seccomp_load d k =
     (if k = OFFSET_NR then Some (sd_nr d)
      else if k = OFFSET_ARCH then Some (sd_arch d)
      else if k = OFFSET_ARG1 then Some (seccomp_arg d 1)
      else None)"

text \<open>
  A run from the first instruction of the list on; jumps go forward, so the run ends. \<open>None\<close> is a
  program the kernel does not accept: another instruction, or one that runs off its end.
\<close>

function bpf_run :: "sock_filter list \<Rightarrow> seccomp_data \<Rightarrow> 32 word \<Rightarrow> 32 word option" where
  "bpf_run [] d acc = None"
| "bpf_run (i # is) d acc =
     (if sf_code i = BPF_LD + BPF_W + BPF_ABS then
        (case seccomp_load d (sf_k i) of None \<Rightarrow> None | Some v \<Rightarrow> bpf_run is d v)
      else if sf_code i = BPF_JMP + BPF_JEQ + BPF_K then
        bpf_run (drop (unat (if acc = sf_k i then sf_jt i else sf_jf i)) is) d acc
      else if sf_code i = BPF_RET + BPF_K then Some (sf_k i)
      else None)"
  by pat_completeness auto
termination
  by (relation "measure (\<lambda>(is, d, acc). length is)") auto

section \<open>The two programs\<close>

abbreviation (input) SYS_fcntl :: "32 word" where "SYS_fcntl \<equiv> 72"
abbreviation (input) SYS_ioctl :: "32 word" where "SYS_ioctl \<equiv> 16"
abbreviation (input) SYS_clock_gettime :: "32 word" where "SYS_clock_gettime \<equiv> 228"
abbreviation (input) SYS_mremap :: "32 word" where "SYS_mremap \<equiv> 25"
abbreviation (input) SYS_ftruncate :: "32 word" where "SYS_ftruncate \<equiv> 77"
abbreviation (input) SYS_fsync :: "32 word" where "SYS_fsync \<equiv> 74"
abbreviation (input) SYS_lseek :: "32 word" where "SYS_lseek \<equiv> 8"
abbreviation (input) SYS_seccomp :: "32 word" where "SYS_seccomp \<equiv> 317"
abbreviation (input) SYS_wait4 :: "32 word" where "SYS_wait4 \<equiv> 61"
abbreviation (input) SYS_kill :: "32 word" where "SYS_kill \<equiv> 62"
abbreviation (input) SYS_futex :: "32 word" where "SYS_futex \<equiv> 202"
abbreviation (input) SYS_recvmsg :: "32 word" where "SYS_recvmsg \<equiv> 47"
abbreviation (input) SYS_sendmsg :: "32 word" where "SYS_sendmsg \<equiv> 46"
abbreviation (input) SYS_close :: "32 word" where "SYS_close \<equiv> 3"
abbreviation (input) SYS_set_robust_list :: "32 word" where "SYS_set_robust_list \<equiv> 273"
abbreviation (input) SYS_clone :: "32 word" where "SYS_clone \<equiv> 56"
abbreviation (input) SYS_poll :: "32 word" where "SYS_poll \<equiv> 7"
abbreviation (input) SYS_fstat :: "32 word" where "SYS_fstat \<equiv> 5"
abbreviation (input) SYS_msync :: "32 word" where "SYS_msync \<equiv> 26"
abbreviation (input) SYS_munmap :: "32 word" where "SYS_munmap \<equiv> 11"
abbreviation (input) SYS_mprotect :: "32 word" where "SYS_mprotect \<equiv> 10"
abbreviation (input) SYS_mmap :: "32 word" where "SYS_mmap \<equiv> 9"
abbreviation (input) SYS_gettid :: "32 word" where "SYS_gettid \<equiv> 186"
abbreviation (input) SYS_getpid :: "32 word" where "SYS_getpid \<equiv> 39"
abbreviation (input) SYS_recvfrom :: "32 word" where "SYS_recvfrom \<equiv> 45"
abbreviation (input) SYS_sendto :: "32 word" where "SYS_sendto \<equiv> 44"
abbreviation (input) SYS_clock_nanosleep :: "32 word" where "SYS_clock_nanosleep \<equiv> 230"
abbreviation (input) SYS_getrandom :: "32 word" where "SYS_getrandom \<equiv> 318"
abbreviation (input) SYS_brk :: "32 word" where "SYS_brk \<equiv> 12"
abbreviation (input) SYS_write :: "32 word" where "SYS_write \<equiv> 1"
abbreviation (input) SYS_read :: "32 word" where "SYS_read \<equiv> 0"
abbreviation (input) SYS_exit :: "32 word" where "SYS_exit \<equiv> 60"
abbreviation (input) SYS_exit_group :: "32 word" where "SYS_exit_group \<equiv> 231"
abbreviation (input) SYS_fork :: "32 word" where "SYS_fork \<equiv> 57"
abbreviation (input) SYS_execve :: "32 word" where "SYS_execve \<equiv> 59"
abbreviation (input) SYS_execveat :: "32 word" where "SYS_execveat \<equiv> 322"
abbreviation (input) SYS_openat :: "32 word" where "SYS_openat \<equiv> 257"
abbreviation (input) SYS_socket :: "32 word" where "SYS_socket \<equiv> 41"
abbreviation (input) SYS_vfork :: "32 word" where "SYS_vfork \<equiv> 58"
abbreviation (input) SYS_clone3 :: "32 word" where "SYS_clone3 \<equiv> 435"
abbreviation (input) F_GETFL :: "32 word" where "F_GETFL \<equiv> 3"
abbreviation (input) TCGETS :: "32 word" where "TCGETS \<equiv> 0x5401"

definition jail_filter :: "sock_filter list" where
  "jail_filter =
     [BPF_STMT (BPF_LD + BPF_W + BPF_ABS) OFFSET_ARCH,
      BPF_JUMP (BPF_JMP + BPF_JEQ + BPF_K) AUDIT_ARCH_X86_64 1 0,
      BPF_STMT (BPF_RET + BPF_K) SECCOMP_RET_KILL_PROCESS,
      BPF_STMT (BPF_LD + BPF_W + BPF_ABS) OFFSET_NR,
      BPF_JUMP (BPF_JMP + BPF_JEQ + BPF_K) SYS_fcntl 0 4,
      BPF_STMT (BPF_LD + BPF_W + BPF_ABS) OFFSET_ARG1,
      BPF_JUMP (BPF_JMP + BPF_JEQ + BPF_K) F_GETFL 0 1,
      BPF_STMT (BPF_RET + BPF_K) SECCOMP_RET_ALLOW,
      BPF_STMT (BPF_RET + BPF_K) SECCOMP_RET_KILL_PROCESS,
      BPF_JUMP (BPF_JMP + BPF_JEQ + BPF_K) SYS_ioctl 0 4,
      BPF_STMT (BPF_LD + BPF_W + BPF_ABS) OFFSET_ARG1,
      BPF_JUMP (BPF_JMP + BPF_JEQ + BPF_K) TCGETS 0 1,
      BPF_STMT (BPF_RET + BPF_K) SECCOMP_RET_ALLOW,
      BPF_STMT (BPF_RET + BPF_K) SECCOMP_RET_KILL_PROCESS,
      BPF_JUMP (BPF_JMP + BPF_JEQ + BPF_K) SYS_clock_gettime 32 0,
      BPF_JUMP (BPF_JMP + BPF_JEQ + BPF_K) SYS_mremap 31 0,
      BPF_JUMP (BPF_JMP + BPF_JEQ + BPF_K) SYS_ftruncate 30 0,
      BPF_JUMP (BPF_JMP + BPF_JEQ + BPF_K) SYS_fsync 29 0,
      BPF_JUMP (BPF_JMP + BPF_JEQ + BPF_K) SYS_lseek 28 0,
      BPF_JUMP (BPF_JMP + BPF_JEQ + BPF_K) SYS_seccomp 27 0,
      BPF_JUMP (BPF_JMP + BPF_JEQ + BPF_K) SYS_wait4 26 0,
      BPF_JUMP (BPF_JMP + BPF_JEQ + BPF_K) SYS_kill 25 0,
      BPF_JUMP (BPF_JMP + BPF_JEQ + BPF_K) SYS_futex 24 0,
      BPF_JUMP (BPF_JMP + BPF_JEQ + BPF_K) SYS_recvmsg 23 0,
      BPF_JUMP (BPF_JMP + BPF_JEQ + BPF_K) SYS_sendmsg 22 0,
      BPF_JUMP (BPF_JMP + BPF_JEQ + BPF_K) SYS_close 21 0,
      BPF_JUMP (BPF_JMP + BPF_JEQ + BPF_K) SYS_set_robust_list 20 0,
      BPF_JUMP (BPF_JMP + BPF_JEQ + BPF_K) SYS_clone 19 0,
      BPF_JUMP (BPF_JMP + BPF_JEQ + BPF_K) SYS_poll 18 0,
      BPF_JUMP (BPF_JMP + BPF_JEQ + BPF_K) SYS_fstat 17 0,
      BPF_JUMP (BPF_JMP + BPF_JEQ + BPF_K) SYS_msync 16 0,
      BPF_JUMP (BPF_JMP + BPF_JEQ + BPF_K) SYS_munmap 15 0,
      BPF_JUMP (BPF_JMP + BPF_JEQ + BPF_K) SYS_mprotect 14 0,
      BPF_JUMP (BPF_JMP + BPF_JEQ + BPF_K) SYS_mmap 13 0,
      BPF_JUMP (BPF_JMP + BPF_JEQ + BPF_K) SYS_gettid 12 0,
      BPF_JUMP (BPF_JMP + BPF_JEQ + BPF_K) SYS_getpid 11 0,
      BPF_JUMP (BPF_JMP + BPF_JEQ + BPF_K) SYS_recvfrom 10 0,
      BPF_JUMP (BPF_JMP + BPF_JEQ + BPF_K) SYS_recvmsg 9 0,
      BPF_JUMP (BPF_JMP + BPF_JEQ + BPF_K) SYS_sendto 8 0,
      BPF_JUMP (BPF_JMP + BPF_JEQ + BPF_K) SYS_clock_nanosleep 7 0,
      BPF_JUMP (BPF_JMP + BPF_JEQ + BPF_K) SYS_getrandom 6 0,
      BPF_JUMP (BPF_JMP + BPF_JEQ + BPF_K) SYS_brk 5 0,
      BPF_JUMP (BPF_JMP + BPF_JEQ + BPF_K) SYS_write 4 0,
      BPF_JUMP (BPF_JMP + BPF_JEQ + BPF_K) SYS_read 3 0,
      BPF_JUMP (BPF_JMP + BPF_JEQ + BPF_K) SYS_exit 2 0,
      BPF_JUMP (BPF_JMP + BPF_JEQ + BPF_K) SYS_exit_group 1 0,
      BPF_STMT (BPF_RET + BPF_K) SECCOMP_RET_KILL_PROCESS,
      BPF_STMT (BPF_RET + BPF_K) SECCOMP_RET_ALLOW]"

definition subjail_filter :: "sock_filter list" where
  "subjail_filter =
     [BPF_STMT (BPF_LD + BPF_W + BPF_ABS) OFFSET_ARCH,
      BPF_JUMP (BPF_JMP + BPF_JEQ + BPF_K) AUDIT_ARCH_X86_64 1 0,
      BPF_STMT (BPF_RET + BPF_K) SECCOMP_RET_KILL_PROCESS,
      BPF_STMT (BPF_LD + BPF_W + BPF_ABS) OFFSET_NR,
      BPF_JUMP (BPF_JMP + BPF_JEQ + BPF_K) SYS_wait4 3 0,
      BPF_JUMP (BPF_JMP + BPF_JEQ + BPF_K) SYS_fork 2 0,
      BPF_JUMP (BPF_JMP + BPF_JEQ + BPF_K) SYS_kill 1 0,
      BPF_STMT (BPF_RET + BPF_K) SECCOMP_RET_ALLOW,
      BPF_STMT (BPF_RET + BPF_K) SECCOMP_RET_KILL_PROCESS]"

section \<open>Locking down\<close>

text \<open>\<^verbatim>\<open>getenv\<close> answers the value, or a negative number for NULL.\<close>

definition sandbox_disabled :: "answer \<Rightarrow> bool" where
  "sandbox_disabled a \<longleftrightarrow> an_ret a \<ge> 0 \<and> strcmp_eq (an_data a) ''1''"

definition gh_jail_lockdown :: "env \<Rightarrow> size_t \<Rightarrow> trace \<Rightarrow> gh_result \<times> trace" where
  "gh_jail_lockdown env memory_limit_bytes tr =
     (let (a, tr) = syscall env (Getenv ''GH_SANDBOX_DISABLED'') tr in
      if sandbox_disabled a then (GHR_OK, tr)
      else
        (let (a, tr) = syscall env SetNoNewPrivs tr in
         if an_ret a \<noteq> 0 then (ghr_errno GHR_JAIL_NONEWPRIVSFAIL a, tr)
         else
           (let (res, tr) =
              (if memory_limit_bytes \<noteq> 0 then
                 (let (a, tr) = syscall env (Setrlimit memory_limit_bytes) tr in
                  (if an_ret a < 0 then ghr_errno GHR_JAIL_MEMRESTRICTFAIL a else GHR_OK, tr))
               else (GHR_OK, tr)) in
            if ghr_iserr res then (res, tr)
            else
              (let (a, tr) = syscall env (Seccomp jail_filter) tr in
               (if an_ret a \<noteq> 0 then ghr_errno GHR_JAIL_SECCOMPFAIL a else GHR_OK, tr)))))"

definition gh_subjail_lockdown :: "env \<Rightarrow> trace \<Rightarrow> gh_result \<times> trace" where
  "gh_subjail_lockdown env tr =
     (let (a, tr) = syscall env (Getenv ''GH_SANDBOX_DISABLED'') tr in
      if sandbox_disabled a then (GHR_OK, tr)
      else
        (let (a, tr) = syscall env (Seccomp subjail_filter) tr in
         (if an_ret a \<noteq> 0 then ghr_errno GHR_JAIL_SECCOMPFAIL a else GHR_OK, tr)))"

section \<open>What the filters let through\<close>

text \<open>The filters a trace has installed; the kernel runs them all, and killing wins.\<close>

fun installed_filters :: "trace \<Rightarrow> sock_filter list list" where
  "installed_filters [] = []"
| "installed_filters ((Seccomp f, a) # tr) =
     (if an_ret a = 0 then f # installed_filters tr else installed_filters tr)"
| "installed_filters ((_, a) # tr) = installed_filters tr"

definition seccomp_allows :: "sock_filter list list \<Rightarrow> seccomp_data \<Rightarrow> bool" where
  "seccomp_allows fs d \<longleftrightarrow> list_all (\<lambda>f. bpf_run f d 0 = Some SECCOMP_RET_ALLOW) fs"

definition jail_syscalls :: "32 word list" where
  "jail_syscalls =
     [
      SYS_clock_gettime, SYS_mremap, SYS_ftruncate, SYS_fsync, SYS_lseek, SYS_seccomp, SYS_wait4,
      SYS_kill, SYS_futex, SYS_recvmsg, SYS_sendmsg, SYS_close, SYS_set_robust_list, SYS_clone,
      SYS_poll, SYS_fstat, SYS_msync, SYS_munmap, SYS_mprotect, SYS_mmap, SYS_gettid, SYS_getpid,
      SYS_recvfrom, SYS_recvmsg, SYS_sendto, SYS_clock_nanosleep, SYS_getrandom, SYS_brk, SYS_write,
      SYS_read, SYS_exit, SYS_exit_group]"

definition jail_allows :: "seccomp_data \<Rightarrow> bool" where
  "jail_allows d \<longleftrightarrow>
     sd_arch d = AUDIT_ARCH_X86_64 \<and>
     (sd_nr d \<in> set jail_syscalls \<or> sd_nr d = SYS_fcntl \<and> seccomp_arg d 1 = F_GETFL \<or>
      sd_nr d = SYS_ioctl \<and> seccomp_arg d 1 = TCGETS)"

lemma bpf_steps [simp]:
  "bpf_run (BPF_STMT 32 k # is) d acc =
     (case seccomp_load d k of None \<Rightarrow> None | Some v \<Rightarrow> bpf_run is d v)"
  "bpf_run (BPF_JUMP 21 k jt jf # is) d acc =
     (if acc = k then bpf_run (drop (unat jt) is) d acc else bpf_run (drop (unat jf) is) d acc)"
  "bpf_run (BPF_STMT 6 k # is) d acc = Some k"
  by (simp_all add: BPF_STMT_def BPF_JUMP_def)

lemma subjail_filter_run:
  "bpf_run subjail_filter d acc =
     Some (if sd_arch d = AUDIT_ARCH_X86_64 \<and> sd_nr d \<notin> {SYS_wait4, SYS_fork, SYS_kill}
           then SECCOMP_RET_ALLOW else SECCOMP_RET_KILL_PROCESS)"
  by (simp add: subjail_filter_def seccomp_load_def del: bpf_run.simps)

lemma jail_filter_run:
  "bpf_run jail_filter d acc = Some (if jail_allows d then SECCOMP_RET_ALLOW else SECCOMP_RET_KILL_PROCESS)"
  by (simp add: jail_filter_def seccomp_load_def jail_allows_def jail_syscalls_def del: bpf_run.simps)

text \<open>
  The two together, as a process of the subjail runs under both: what is left is the jail's list
  without the two calls the second filter takes away. Its third call, \<^verbatim>\<open>fork\<close>, was never on the
  list, and \<^verbatim>\<open>clone\<close>, by which the C library forks, is on the list and stays.
\<close>

lemma subjail_filters_allow:
  "seccomp_allows [subjail_filter, jail_filter] d \<longleftrightarrow>
     jail_allows d \<and> sd_nr d \<noteq> SYS_wait4 \<and> sd_nr d \<noteq> SYS_kill"
  by (auto simp: seccomp_allows_def subjail_filter_run jail_filter_run jail_allows_def jail_syscalls_def)

lemma seccomp_allows_append:
  "seccomp_allows (fs @ gs) d \<longleftrightarrow> seccomp_allows fs d \<and> seccomp_allows gs d"
  by (simp add: seccomp_allows_def)

text \<open>A lockdown adds exactly its own filter, unless the environment variable turned it off.\<close>

definition lockdown_off :: "env \<Rightarrow> trace \<Rightarrow> bool" where
  "lockdown_off env tr = sandbox_disabled (env tr (Getenv ''GH_SANDBOX_DISABLED''))"

lemma installed_filters_plain [simp]:
  "installed_filters ((Getenv v, a) # tr) = installed_filters tr"
  "installed_filters ((SetNoNewPrivs, a) # tr) = installed_filters tr"
  "installed_filters ((Setrlimit n, a) # tr) = installed_filters tr"
  by simp_all

lemma jail_lockdown_result:
  assumes ok: "fst (gh_jail_lockdown env mem tr) = GHR_OK" and on: "\<not> lockdown_off env tr"
  shows "installed_filters (snd (gh_jail_lockdown env mem tr)) = jail_filter # installed_filters tr"
  using ok on
  by (auto simp: gh_jail_lockdown_def lockdown_off_def syscall_def Let_def ghr_simps ghr_errno_def
      split: if_splits)

lemma subjail_lockdown_result:
  assumes ok: "fst (gh_subjail_lockdown env tr) = GHR_OK" and on: "\<not> lockdown_off env tr"
  shows "installed_filters (snd (gh_subjail_lockdown env tr)) = subjail_filter # installed_filters tr"
  using ok on
  by (auto simp: gh_subjail_lockdown_def lockdown_off_def syscall_def Let_def ghr_simps ghr_errno_def
      split: if_splits)

lemma lockdown_seccomp_call:
  assumes ok: "fst (gh_jail_lockdown env mem tr) = GHR_OK" and on: "\<not> lockdown_off env tr"
  shows "\<exists>a. (SetNoNewPrivs, a) \<in> set (snd (gh_jail_lockdown env mem tr)) \<and> an_ret a = 0"
  using ok on
  by (auto simp: gh_jail_lockdown_def lockdown_off_def syscall_def Let_def ghr_simps ghr_errno_def
      split: if_splits)

end
