(* ===== verification/Subjail.thy ===== *)
theory Subjail
  imports Seccomp Variant
begin

text \<open>
  The sandboxed process (\<^verbatim>\<open>subjail.c\<close>, \<^verbatim>\<open>lua.c\<close>): it locks itself down, prepares the interpreter, and
  runs what the messages of the host ask for. The interpreter is third party code: its functions are
  calls of the environment, and what a script does while it runs is part of the answer.
\<close>

section \<open>The interpreter\<close>

definition lua :: "env \<Rightarrow> string \<Rightarrow> lua_arg list \<Rightarrow> trace \<Rightarrow> answer \<times> trace" where
  "lua env f args tr = syscall env (Lua f args) tr"

text \<open>Calls whose results are not used\<close>

fun luas :: "env \<Rightarrow> (string \<times> lua_arg list) list \<Rightarrow> trace \<Rightarrow> trace" where
  "luas env [] tr = tr"
| "luas env ((f, args) # fs) tr = luas env fs (snd (lua env f args tr))"

abbreviation (input) LUA_TNIL :: int where "LUA_TNIL \<equiv> 0"
abbreviation (input) LUA_TNUMBER :: int where "LUA_TNUMBER \<equiv> 3"
abbreviation (input) LUA_TSTRING :: int where "LUA_TSTRING \<equiv> 4"
abbreviation (input) LUA_GLOBALSINDEX :: int where "LUA_GLOBALSINDEX \<equiv> - 10002"

definition gh_lua2result :: "int \<Rightarrow> gh_result" where
  "gh_lua2result r =
     (if r = 0 then GHR_OK
      else if r = 3 then GHR_LUA_SYNTAX
      else if r = 4 then GHR_LUA_MEM
      else if r = 2 then GHR_LUA_RUNTIME
      else if r = 5 then GHR_LUA_RECURSIVEERR
      else GHR_LUA_FAIL)"

text \<open>The handler of errors, as the interpreter calls it: it returns one value.\<close>

definition luafunc_errorhandler :: "env \<Rightarrow> trace \<Rightarrow> int \<times> trace" where
  "luafunc_errorhandler env tr =
     (let (a, tr) = lua env ''lua_isstring'' [LuaInt (- 1)] tr in
      if an_ret a = 0 then (1, tr)
      else
        (let tr = luas env [(''lua_getfield'', [LuaInt LUA_GLOBALSINDEX, LuaString ''debug''])] tr;
             (a, tr) = lua env ''lua_istable'' [LuaInt (- 1)] tr in
         if an_ret a = 0 then (1, luas env [(''lua_pop'', [LuaInt 1])] tr)
         else
           (let tr = luas env [(''lua_getfield'', [LuaInt (- 1), LuaString ''traceback''])] tr;
                (a, tr) = lua env ''lua_isfunction'' [LuaInt (- 1)] tr in
            if an_ret a = 0 then (1, luas env [(''lua_pop'', [LuaInt 1])] tr)
            else
              (1, luas env [(''lua_pushvalue'', [LuaInt 1]), (''lua_pushinteger'', [LuaInt 2]),
                            (''lua_call'', [LuaInt 2, LuaInt 1])] tr))))"

definition gh_lua_pcall :: "env \<Rightarrow> int \<Rightarrow> int \<Rightarrow> trace \<Rightarrow> int \<times> trace" where
  "gh_lua_pcall env nargs nret tr =
     (let (top, tr) = lua env ''lua_gettop'' [] tr;
          errorhandler_pos = an_ret top - nargs;
          tr = luas env [(''lua_pushcfunction'', [LuaString ''luafunc_errorhandler'']),
                         (''lua_insert'', [LuaInt errorhandler_pos])] tr;
          (r, tr) = lua env ''lua_pcall'' [LuaInt nargs, LuaInt nret, LuaInt errorhandler_pos] tr;
          tr = luas env [(''lua_remove'', [LuaInt errorhandler_pos])] tr in
      (an_ret r, tr))"

text \<open>
  The error on the top of the stack as a string; a negative answer is NULL, which the copy that
  follows reads.
\<close>

definition lua_errorstring :: "env \<Rightarrow> trace \<Rightarrow> (string \<times> trace) option" where
  "lua_errorstring env tr =
     (let (a, tr) = lua env ''lua_tostring'' [LuaInt (- 1)] tr in
      if an_ret a < 0 then None else Some (an_data a, tr))"

definition lua_errorbuffer :: "string \<Rightarrow> string" where
  "lua_errorbuffer s = char_array GH_IPCMSG_LUARESULT_ERRORMSGMAX (strncpy_term GH_IPCMSG_LUARESULT_ERRORMSGMAX s)"

definition lua_poperror :: "env \<Rightarrow> int \<Rightarrow> trace \<Rightarrow> (gh_result \<times> (string \<times> trace)) option" where
  "lua_poperror env r tr =
     map_option (\<lambda>(s, tr). (gh_lua2result r, (lua_errorbuffer s, luas env [(''lua_pop'', [LuaInt 1])] tr)))
       (lua_errorstring env tr)"

section \<open>Scripts\<close>

definition luaresult :: "gh_result \<Rightarrow> string \<Rightarrow> int \<Rightarrow> gh_fdmem_ptr \<Rightarrow> gh_ipcmsg" where
  "luaresult result error_msg script_id return_ptr =
     MsgLuaResult \<lparr>lr_result = result, lr_error_msg = error_msg, lr_script_id = script_id, lr_return_ptr = return_ptr\<rparr>"

definition no_errormsg :: string where
  "no_errormsg = replicate GH_IPCMSG_LUARESULT_ERRORMSGMAX NUL"

definition send_msg :: "env \<Rightarrow> gh_ipc \<Rightarrow> gh_ipcmsg \<Rightarrow> trace \<Rightarrow> gh_result \<times> trace" where
  "send_msg env ipc msg tr = gh_ipc_send env ipc msg (ipcmsg_sizeof msg) tr"

text \<open>\<open>script_idx\<close> is \<^verbatim>\<open>gh_global_script_idx\<close>, which is also the identifier that is stored.\<close>

definition lua_sendinfomsg :: "env \<Rightarrow> gh_ipc \<Rightarrow> int \<times> trace \<Rightarrow> gh_result \<times> (int \<times> trace)" where
  "lua_sendinfomsg env ipc st =
     (case st of (script_idx, tr) \<Rightarrow>
      (let script_idx = script_idx + 1; (res, tr) = send_msg env ipc (MsgLuaInfo script_idx) tr in
       (res, (script_idx, tr))))"

definition lua_execute :: "env \<Rightarrow> gh_ipc \<Rightarrow> int \<Rightarrow> trace \<Rightarrow> (gh_result \<times> trace) option" where
  "lua_execute env ipc script_id tr =
     (let (r, tr) = gh_lua_pcall env 0 0 tr in
      map_option (\<lambda>(result, error_msg, tr). send_msg env ipc (luaresult result error_msg script_id 0) tr)
        (if r \<noteq> 0 then lua_poperror env r tr else Some (GHR_OK, no_errormsg, tr)))"

text \<open>
  After a chunk was loaded with the answer \<open>r\<close>: an error is reported, and the script is executed all
  the same.
\<close>

definition lua_executeloaded :: "env \<Rightarrow> gh_ipc \<Rightarrow> int \<Rightarrow> int \<Rightarrow> trace \<Rightarrow> (gh_result \<times> trace) option" where
  "lua_executeloaded env ipc script_id r tr =
     (let (res, tr) = (if r \<noteq> 0 then send_msg env ipc (luaresult (gh_lua2result r) no_errormsg script_id 0) tr
                       else (GHR_OK, tr)) in
      if ghr_iserr res then Some (res, tr) else lua_execute env ipc script_id tr)"

definition lua_executestring ::
  "env \<Rightarrow> gh_ipc \<Rightarrow> string \<Rightarrow> int \<times> trace \<Rightarrow> (gh_result \<times> (int \<times> trace)) option" where
  "lua_executestring env ipc s st =
     (let (res, script_idx, tr) = lua_sendinfomsg env ipc st in
      if ghr_iserr res then Some (res, (script_idx, tr))
      else
        (let (a, tr) = lua env ''luaL_loadbuffer'' [LuaString (cstr s), LuaString ''string''] tr in
         map_option (\<lambda>(res, tr). (res, (script_idx, tr))) (lua_executeloaded env ipc script_idx (an_ret a) tr)))"

text \<open>The reader of a file: the bytes, or \<open>None\<close> for NULL\<close>

abbreviation (input) LUA_EXECUTEFILE_BUFFERSIZE :: size_t where "LUA_EXECUTEFILE_BUFFERSIZE \<equiv> 4096"

definition lua_fdreader :: "env \<Rightarrow> int \<Rightarrow> trace \<Rightarrow> string option \<times> trace" where
  "lua_fdreader env fd tr =
     (let (a, tr) = syscall env (Read fd LUA_EXECUTEFILE_BUFFERSIZE) tr in
      (if an_ret a < 0 then None else Some (take (nat (an_ret a)) (an_data a)), tr))"

text \<open>The interpreter calls the reader as often as it likes, until that returns NULL or nothing.\<close>

fun lua_reads :: "env \<Rightarrow> int \<Rightarrow> nat \<Rightarrow> trace \<Rightarrow> trace" where
  "lua_reads env fd 0 tr = tr"
| "lua_reads env fd (Suc n) tr =
     (let (s, tr) = lua_fdreader env fd tr in
      case s of None \<Rightarrow> tr | Some s \<Rightarrow> if s = [] then tr else lua_reads env fd n tr)"

definition lua_executefile ::
  "env \<Rightarrow> gh_ipc \<Rightarrow> int \<Rightarrow> string \<Rightarrow> int \<times> trace \<Rightarrow> (gh_result \<times> (int \<times> trace)) option" where
  "lua_executefile env ipc fd chunk_name st =
     (let (res, script_idx, tr) = lua_sendinfomsg env ipc st in
      if ghr_iserr res then Some (res, (script_idx, tr))
      else
        (let (a, tr) = lua env ''lua_load'' [LuaString (cstr chunk_name)] tr;
             tr = lua_reads env fd (an_code a) tr in
         map_option (\<lambda>(res, tr). (res, (script_idx, tr))) (lua_executeloaded env ipc script_idx (an_ret a) tr)))"

section \<open>Variables\<close>

definition lua_pushhost :: "env \<Rightarrow> gh_hostvalue \<Rightarrow> trace \<Rightarrow> trace" where
  "lua_pushhost env v tr =
     (case v of
        HostInt i \<Rightarrow> luas env [(''lua_pushnumber'', [LuaInt i])] tr
      | HostDouble d \<Rightarrow> luas env [(''lua_pushnumber'', [LuaNumber d])] tr
      | HostString buffer len \<Rightarrow> luas env [(''lua_pushlstring'', [LuaString (take (unat len) buffer)])] tr)"

text \<open>A string with a length beyond its buffer is read behind the buffer: \<open>None\<close>.\<close>

definition host_inside :: "gh_hostvalue \<Rightarrow> bool" where
  "host_inside v = (case v of HostString buffer len \<Rightarrow> unat len \<le> length buffer | _ \<Rightarrow> True)"

definition lua_sethostvariable ::
  "env \<Rightarrow> gh_ipc \<Rightarrow> gh_ipcmsg_luahostvariable \<Rightarrow> int \<times> trace \<Rightarrow> (gh_result \<times> (int \<times> trace)) option" where
  "lua_sethostvariable env ipc msg st =
     (let (res, script_idx, tr) = lua_sendinfomsg env ipc st in
      if ghr_iserr res then Some (res, (script_idx, tr))
      else if \<not> host_inside (hv_value msg) then None
      else
        (let name = LuaString (cstr (hv_name msg));
             (prev_top, tr) = lua env ''lua_gettop'' [] tr;
             tr = luas env [(''lua_getglobal'', [LuaString ''__ghost_host''])] tr;
             (t, tr) = lua env ''lua_type'' [LuaInt (- 1)] tr;
             tr = (if an_ret t = LUA_TNIL
                   then luas env [(''lua_pop'', [LuaInt 1]), (''lua_createtable'', [LuaInt 0, LuaInt 1]),
                                  (''lua_pushvalue'', [LuaInt (- 1)]), (''lua_setglobal'', [LuaString ''__ghost_host''])] tr
                   else tr);
             tr = (if hv_table_index msg > 0 then
                     (let tr = luas env [(''lua_pushstring'', [name]), (''lua_gettable'', [LuaInt (- 2)])] tr;
                          (t, tr) = lua env ''lua_type'' [LuaInt (- 1)] tr;
                          tr = (if an_ret t = LUA_TNIL
                                then luas env [(''lua_pop'', [LuaInt 1]), (''lua_createtable'', [LuaInt 1, LuaInt 0]),
                                               (''lua_pushstring'', [name]), (''lua_pushvalue'', [LuaInt (- 2)]),
                                               (''lua_settable'', [LuaInt (- 4)])] tr
                                else tr) in
                      luas env [(''lua_pushnumber'', [LuaInt (hv_table_index msg)])] tr)
                   else luas env [(''lua_pushstring'', [name])] tr);
             tr = lua_pushhost env (hv_value msg) tr;
             tr = luas env [(''lua_settable'', [LuaInt (- 3)]), (''lua_settop'', [LuaInt (an_ret prev_top)])] tr;
             (res, tr) = send_msg env ipc (luaresult GHR_OK no_errormsg script_idx 0) tr in
         Some (res, (script_idx, tr))))"

end
