(* ===== verification/SubjailMain.thy ===== *)
theory SubjailMain
  imports Subjail
begin

text \<open>
  Calls of Lua functions by the host, the messages of the sandboxed process, its preparation and
  its main loop (\<^verbatim>\<open>subjail.c\<close>).
\<close>

section \<open>Calls of functions\<close>

text \<open>A parameter is read from the shared memory at the address \<open>param\<close>.\<close>

definition lua_callfunction_pushparam :: "env \<Rightarrow> addr \<Rightarrow> trace \<Rightarrow> gh_result \<times> trace" where
  "lua_callfunction_pushparam env param tr =
     (let (t, tr) = variant_loadtype env param tr in
      if t = variant_type_num GH_VARIANT_NIL then (GHR_OK, luas env [(''lua_pushnil'', [])] tr)
      else if t = variant_type_num GH_VARIANT_INT then
        (let (i, tr) = variant_loadint env param tr in (GHR_OK, luas env [(''lua_pushnumber'', [LuaInt i])] tr))
      else if t = variant_type_num GH_VARIANT_DOUBLE then
        (let (d, tr) = variant_loaddouble env param tr in (GHR_OK, luas env [(''lua_pushnumber'', [LuaNumber d])] tr))
      else if t = variant_type_num GH_VARIANT_STRING then
        (let (len, tr) = variant_loadlen env param tr;
             (a, tr) = syscall env (MemLoad (variant_data param) (unat len)) tr in
         (GHR_OK, luas env [(''lua_pushlstring'', [LuaString (an_data a)])] tr))
      else (GHR_JAIL_LUACALLPARAM, tr))"

text \<open>The variant for the return value, the store of its members, the error when its pointer is 0\<close>

definition return_variant ::
  "env \<Rightarrow> size_t \<Rightarrow> gh_result \<Rightarrow> (addr \<Rightarrow> trace \<Rightarrow> trace) \<Rightarrow> gh_fdmem \<times> trace \<Rightarrow>
   (gh_result \<times> (gh_fdmem_ptr \<times> (gh_fdmem \<times> trace))) option" where
  "return_variant env n null_err store st =
     (case st of (mem, tr) \<Rightarrow>
      map_option (\<lambda>(res, ptr, mem, tr).
          case ptr of
            None \<Rightarrow> (res, (0, (mem, tr)))
          | Some param \<Rightarrow>
              (let virtptr = gh_fdmem_virtptr mem param n in
               if virtptr = 0 then (null_err, (0, (mem, tr)))
               else (GHR_OK, (virtptr, (mem, store param tr)))))
        (gh_fdmem_new env mem n tr))"

definition lua_callfunction_getreturn ::
  "env \<Rightarrow> gh_fdmem \<times> trace \<Rightarrow> (gh_result \<times> (gh_fdmem_ptr \<times> (gh_fdmem \<times> trace))) option" where
  "lua_callfunction_getreturn env st =
     (case st of (mem, tr) \<Rightarrow>
      (let (t, tr) = lua env ''lua_type'' [LuaInt (- 1)] tr in
       if an_ret t = LUA_TNUMBER then
         return_variant env VARIANT_SIZE GHR_JAIL_LUACALLRETURN
           (\<lambda>param tr.
              let tr = variant_storetype env param GH_VARIANT_DOUBLE tr;
                  (a, tr) = lua env ''lua_tonumber'' [LuaInt (- 1)] tr in
              variant_storedouble env param (of_nat (le_nat (take 8 (an_data a)))) tr) (mem, tr)
       else if an_ret t = LUA_TSTRING then
         (let (a, tr) = lua env ''lua_tolstring'' [LuaInt (- 1)] tr;
              str = an_data a; len = of_nat (length str) in
          return_variant env (VARIANT_SIZE + len + 1) GHR_JAIL_LUACALLRETURN
            (\<lambda>param tr.
               let tr = variant_storetype env param GH_VARIANT_STRING tr;
                   tr = variant_storelen env param len tr;
                   tr = store_bytes env (variant_data param) (char_array (length str) (cstr str)) tr in
               store_bytes env (variant_data param + len) [NUL] tr) (mem, tr))
       else
         return_variant env VARIANT_SIZE GHR_UNKNOWN
           (\<lambda>param tr. variant_storetype env param GH_VARIANT_NIL tr) (mem, tr)))"

text \<open>
  The loop over the parameters: it ends at the first 0; only the first byte of a parameter is checked
  to lie in the memory. The values are the result, whether the result of the message is
  \<^verbatim>\<open>GHR_JAIL_LUACALLPARAM\<close>, and the number of arguments.
\<close>

fun pushparams :: "env \<Rightarrow> gh_fdmem \<Rightarrow> gh_fdmem_ptr list \<Rightarrow> int \<Rightarrow> trace \<Rightarrow> gh_result \<times> (bool \<times> int \<times> trace)" where
  "pushparams env mem [] nargs tr = (GHR_OK, (False, nargs, tr))"
| "pushparams env mem (param_ptr # ptrs) nargs tr =
     (if param_ptr = 0 then (GHR_OK, (False, nargs, tr))
      else
        (let param = gh_fdmem_realptr mem param_ptr 1 in
         if param = 0 then (GHR_OK, (True, nargs, tr))
         else
           (let (res, tr) = lua_callfunction_pushparam env param tr in
            if ghr_iserr res then (res, (False, nargs, tr)) else pushparams env mem ptrs (nargs + 1) tr)))"

text \<open>
  Everything between the lookup of the function and the label \<^verbatim>\<open>respond\<close>: \<^verbatim>\<open>res\<close>, and the members of
  the result message.
\<close>

definition lua_callfunction_run ::
  "env \<Rightarrow> gh_ipcmsg_luacall \<Rightarrow> gh_fdmem \<times> trace \<Rightarrow>
   (gh_result \<times> (gh_result \<times> string \<times> gh_fdmem_ptr) \<times> (gh_fdmem \<times> trace)) option" where
  "lua_callfunction_run env msg st =
     (case st of (mem, tr) \<Rightarrow>
      (let respond = (\<lambda>res result mem tr. Some (res, (result, no_errormsg, 0), (mem, tr)));
           tr = luas env [(''lua_getglobal'', [LuaString ''__ghost_callbacks''])] tr;
           (t, tr) = lua env ''lua_type'' [LuaInt (- 1)] tr in
       if an_ret t = LUA_TNIL then respond GHR_OK GHR_JAIL_LUACALLMISSING mem tr
       else
         (let tr = luas env [(''lua_getfield'', [LuaInt (- 1), LuaString (cstr (lc_name msg))])] tr;
              (t, tr) = lua env ''lua_type'' [LuaInt (- 1)] tr in
          if an_ret t = LUA_TNIL then respond GHR_OK GHR_JAIL_LUACALLMISSING mem tr
          else
            (let (res, bad, nargs, tr) = pushparams env mem (take GH_IPCMSG_LUACALL_MAXPARAMS (lc_params msg)) 0 tr in
             if bad then respond GHR_OK GHR_JAIL_LUACALLPARAM mem tr
             else if ghr_iserr res then respond res GHR_OK mem tr
             else
               (let (r, tr) = gh_lua_pcall env nargs 1 tr in
                if r \<noteq> 0 then
                  map_option (\<lambda>(result, error_msg, tr). (GHR_OK, (result, error_msg, 0), (mem, tr)))
                    (lua_poperror env r tr)
                else
                  map_option (\<lambda>(res, return_ptr, mem, tr). (res, (GHR_OK, no_errormsg, return_ptr), (mem, tr)))
                    (lua_callfunction_getreturn env (mem, tr)))))))"

definition lua_callfunction ::
  "env \<Rightarrow> gh_ipc \<Rightarrow> gh_ipcmsg_luacall \<Rightarrow> int \<times> trace \<Rightarrow> (gh_result \<times> (int \<times> trace)) option" where
  "lua_callfunction env ipc msg st =
     (let (res, script_idx, tr) = lua_sendinfomsg env ipc st in
      if ghr_iserr res then Some (res, (script_idx, tr))
      else
        (let (res, mem, tr) = gh_fdmem_ctorfdo env \<lparr>fm_data = 0, fm_occupied = 0, fm_size = 0, fm_fd = 0\<rparr>
                                (lc_fd msg) (lc_occupied msg) tr in
         if ghr_iserr res then Some (res, (script_idx, tr))
         else
           (let (prev_top, tr) = lua env ''lua_gettop'' [] tr in
            map_option (\<lambda>(res, (result, error_msg, return_ptr), mem, tr).
                let result = (if ghr_iserr res then res else result);
                    tr = luas env [(''lua_settop'', [LuaInt (an_ret prev_top)])] tr;
                    (dtor_res, tr) = gh_fdmem_dtor env mem tr;
                    (inner_res, tr) = send_msg env ipc (luaresult result error_msg script_idx return_ptr) tr in
                (if ghr_iserr inner_res then inner_res else if ghr_iserr dtor_res then dtor_res else res,
                 (script_idx, tr)))
              (lua_callfunction_run env msg (mem, tr)))))"

section \<open>Messages\<close>

text \<open>The result of \<^verbatim>\<open>message_recv\<close>, or the exit by \<^verbatim>\<open>ghr_fail\<close> or \<^verbatim>\<open>ghr_assert\<close>\<close>

definition asserted :: "(gh_result \<times> (int \<times> trace)) option \<Rightarrow> (bool outcome \<times> (int \<times> trace)) option" where
  "asserted m = map_option (\<lambda>(res, st). (if res \<noteq> GHR_OK then Exits 3 else Returns False, st)) m"

definition subjail_message_recv ::
  "env \<Rightarrow> gh_ipc \<Rightarrow> gh_ipcmsg \<Rightarrow> int \<times> trace \<Rightarrow> (bool outcome \<times> (int \<times> trace)) option" where
  "subjail_message_recv env ipc msg st =
     (case msg of
        MsgQuit \<Rightarrow> Some (Returns True, st)
      | MsgLuaString content \<Rightarrow> asserted (lua_executestring env ipc content st)
      | MsgLuaFile fd chunk_name \<Rightarrow> asserted (lua_executefile env ipc fd chunk_name st)
      | MsgLuaHostVariable v \<Rightarrow> asserted (lua_sethostvariable env ipc v st)
      | MsgLuaCall c \<Rightarrow> asserted (lua_callfunction env ipc c st)
      | _ \<Rightarrow> Some (Exits 3, st))"

text \<open>The main loop, until a message ends it or the process exits\<close>

partial_function (option) subjail_loop :: "env \<Rightarrow> gh_ipc \<Rightarrow> int \<times> trace \<Rightarrow> (unit outcome \<times> (int \<times> trace)) option" where
  "subjail_loop env ipc st =
     (let (res, msg, tr) = gh_ipc_recv env ipc GH_IPC_NOTIMEOUT (snd st) in
      case msg of
        None \<Rightarrow> Some (Exits 3, (fst st, tr))
      | Some msg \<Rightarrow>
          Option.bind (subjail_message_recv env ipc msg (fst st, tr)) (\<lambda>(out, st).
          case out of
            Returns quit \<Rightarrow> if quit then Some (Returns (), st) else subjail_loop env ipc st
          | _ \<Rightarrow> Some (Exits 3, st)))"

section \<open>Preparation\<close>

text \<open>\<^verbatim>\<open>fdopen\<close> for the scripts: it raises an error of the interpreter or pushes a file.\<close>

definition luafunc_fdopen :: "env \<Rightarrow> trace \<Rightarrow> int \<times> trace" where
  "luafunc_fdopen env tr =
     (let (fd, tr) = lua env ''lua_tonumber'' [LuaInt 1] tr;
          (mode, tr) = lua env ''lua_tostring'' [LuaInt 2] tr;
          (fp, tr) = syscall env (Fdopen (an_ret fd) (an_data mode)) tr in
      if an_ret fp < 0 then
        (0, luas env [(''lua_pushstring'', [LuaString ''fdopen failed: '']),
                      (''lua_pushstring'', [LuaString (an_data fp)]),
                      (''lua_concat'', [LuaInt 2]), (''lua_error'', [])] tr)
      else (1, luas env [(''gh_luajit_pushfile'', [LuaInt (an_ret fp)])] tr))"

definition hex_lower :: "nat \<Rightarrow> char" where
  "hex_lower n = ''0123456789abcdef'' ! n"

fun c_hex :: "nat \<Rightarrow> string" where
  "c_hex n = (if n < 16 then [hex_lower n] else c_hex (n div 16) @ [hex_lower (n mod 16)])"

text \<open>All 16 bytes of the buffer are pushed; \<^verbatim>\<open>snprintf\<close> keeps at most 15 digits.\<close>

definition luafunc_udptr :: "env \<Rightarrow> trace \<Rightarrow> int \<times> trace" where
  "luafunc_udptr env tr =
     (let (p, tr) = lua env ''lua_touserdata'' [LuaInt 1] tr in
      (1, luas env [(''lua_pushlstring'', [LuaString (char_array 16 (take 15 (c_hex (unat (word_of_int (an_ret p) :: addr)))))])] tr))"

text \<open>The chunks of the preparation, one after the other, until one fails\<close>

fun lua_runchunks :: "env \<Rightarrow> (string \<times> string) list \<Rightarrow> trace \<Rightarrow> int \<times> trace" where
  "lua_runchunks env [] tr = (0, tr)"
| "lua_runchunks env ((chunk, name) # chunks) tr =
     (let (a, tr) = lua env ''luaL_loadbuffer'' [LuaString chunk, LuaString name] tr in
      if an_ret a \<noteq> 0 then (an_ret a, tr)
      else
        (let (r, tr) = gh_lua_pcall env 0 0 tr in
         if r \<noteq> 0 then (r, tr) else lua_runchunks env chunks tr))"

text \<open>
  \<open>ipc_line\<close> is the line with the address of the IPC object; the two scripts are files that the build
  makes part of the program. The error is printed.
\<close>

definition lua_init :: "env \<Rightarrow> string \<Rightarrow> string \<Rightarrow> string \<Rightarrow> trace \<Rightarrow> (gh_result \<times> trace) option" where
  "lua_init env ipc_line luainit luastdlib tr =
     (let tr = luas env
            [(''luaL_openlibs'', []), (''lua_createtable'', [LuaInt 0, LuaInt 1]),
             (''lua_pushvalue'', [LuaInt (- 1)]), (''lua_setglobal'', [LuaString ''c_support'']),
             (''lua_pushvalue'', [LuaInt (- 1)]), (''lua_pushcfunction'', [LuaString ''luafunc_fdopen'']),
             (''lua_setfield'', [LuaInt (- 2), LuaString ''fdopen'']),
             (''lua_pushcfunction'', [LuaString ''luafunc_udptr'']),
             (''lua_setfield'', [LuaInt (- 2), LuaString ''udptr''])] tr;
          (r, tr) = lua_runchunks env
            [(ipc_line, ''init(ipc_line)''), (luainit, ''init''), (luastdlib, ''stdlib'')] tr in
      if r \<noteq> 0 then map_option (\<lambda>(res, _, tr). (res, tr)) (lua_poperror env r tr) else Some (GHR_OK, tr))"

section \<open>The process\<close>

abbreviation (input) GH_JAIL_HELLOTIMEOUTMS :: int where "GH_JAIL_HELLOTIMEOUTMS \<equiv> 5000"

text \<open>\<open>idx\<close> is \<^verbatim>\<open>gh_global_subjail_idx\<close>. The value is the status of the process, by return or by exit.\<close>

definition gh_subjail_main ::
  "env \<Rightarrow> string \<Rightarrow> string \<Rightarrow> string \<Rightarrow> gh_ipc \<Rightarrow> gh_ipc \<Rightarrow> int \<Rightarrow> trace \<Rightarrow> (int \<times> trace) option" where
  "gh_subjail_main env ipc_line luainit luastdlib ipc parent_ipc idx tr =
     (let (res, tr) = gh_ipc_dtor env parent_ipc tr in
      if res \<noteq> GHR_OK then Some (3, tr)
      else
        (let (res, tr) = gh_subjail_lockdown env tr in
         if res \<noteq> GHR_OK then Some (3, tr)
         else
           (let tr = luas env [(''luaL_newstate'', [])] tr in
            Option.bind (lua_init env ipc_line luainit luastdlib tr) (\<lambda>(res, tr).
            if ghr_iserr res then Some (1, tr)
            else
              (let (p, tr) = syscall env Getpid tr; (res, tr) = send_msg env ipc (MsgSubjailAlive idx (an_ret p)) tr in
               if res \<noteq> GHR_OK then Some (3, tr)
               else
                 (let (res, msg, tr) = gh_ipc_recv env ipc GH_JAIL_HELLOTIMEOUTMS tr in
                  if res = GHR_IPC_RECVMSGTIMEOUT then Some (1, tr)
                  else if res \<noteq> GHR_OK then Some (3, tr)
                  else case msg of
                    Some (MsgHello _) \<Rightarrow>
                      map_option (\<lambda>(out, _, tr).
                          case out of Returns _ \<Rightarrow> (0, luas env [(''lua_close'', [])] tr) | _ \<Rightarrow> (3, tr))
                        (subjail_loop env ipc (- 1, tr))
                  | _ \<Rightarrow> Some (1, tr)))))))"

text \<open>
  \<^verbatim>\<open>gh_subjail_spawn\<close>: the child does not return. The index is counted in both processes, and when
  \<^verbatim>\<open>fork\<close> fails.
\<close>

definition gh_subjail_spawn ::
  "env \<Rightarrow> string \<Rightarrow> string \<Rightarrow> string \<Rightarrow> int \<Rightarrow> gh_ipc \<Rightarrow> int \<times> trace \<Rightarrow> (unit outcome \<times> (int \<times> trace)) option" where
  "gh_subjail_spawn env ipc_line luainit luastdlib sockfd parent_ipc st =
     (case st of (idx, tr) \<Rightarrow>
      (let idx = idx + 1; (p, tr) = syscall env Fork tr in
       if an_ret p = 0 then
         map_option (\<lambda>(status, tr). (Exits status, (idx, tr)))
           (gh_subjail_main env ipc_line luainit luastdlib (snd (gh_ipc_ctorconnect sockfd)) parent_ipc idx tr)
       else Some (Returns (), (idx, tr))))"

end
