(* ===== verification/Jail.thy ===== *)
theory Jail
  imports SubjailMain
begin

text \<open>
  The process of the jail (\<^verbatim>\<open>jail.c\<close>): it reads its options, connects to the host, locks itself down,
  and then forks a sandboxed process for every request until it is told to quit.
\<close>

text \<open>The parts of the program that the build makes: the line and the two scripts\<close>

record jail_image =
  ji_ipc_line :: string
  ji_luainit :: string
  ji_luastdlib :: string

section \<open>Messages\<close>

definition jail_message_recv ::
  "env \<Rightarrow> jail_image \<Rightarrow> gh_ipc \<Rightarrow> gh_ipcmsg \<Rightarrow> int \<times> trace \<Rightarrow> (bool outcome \<times> (int \<times> trace)) option" where
  "jail_message_recv env img ipc msg st =
     (case msg of
        MsgQuit \<Rightarrow> Some (Returns True, st)
      | MsgNewSubjail sockfd \<Rightarrow>
          (case st of (idx, tr) \<Rightarrow>
           (let (p, tr) = syscall env Getpid tr in
            map_option (\<lambda>(out, idx, tr).
                case out of
                  Returns _ \<Rightarrow>
                    (let (a, tr) = syscall env (Close sockfd) tr in
                     (if an_ret a < 0 then Exits 3 else Returns False, (idx, tr)))
                | Exits status \<Rightarrow> (Exits status, (idx, tr))
                | _ \<Rightarrow> (Aborts, (idx, tr)))
              (gh_subjail_spawn env (ji_ipc_line img) (ji_luainit img) (ji_luastdlib img) sockfd ipc (idx, tr))))
      | _ \<Rightarrow> Some (Exits 3, st))"

partial_function (option) jail_loop ::
  "env \<Rightarrow> jail_image \<Rightarrow> gh_ipc \<Rightarrow> int \<times> trace \<Rightarrow> (unit outcome \<times> (int \<times> trace)) option" where
  "jail_loop env img ipc st =
     (let (res, msg, tr) = gh_ipc_recv env ipc GH_IPC_NOTIMEOUT (snd st) in
      case msg of
        None \<Rightarrow> Some (Exits 3, (fst st, tr))
      | Some msg \<Rightarrow>
          Option.bind (jail_message_recv env img ipc msg (fst st, tr)) (\<lambda>(out, st).
          case out of
            Returns quit \<Rightarrow> if quit then Some (Returns (), st) else jail_loop env img ipc st
          | Exits status \<Rightarrow> Some (Exits status, st)
          | _ \<Rightarrow> Some (Aborts, st)))"

section \<open>The process\<close>

text \<open>\<^verbatim>\<open>strtoimax\<close> in base 10: blanks, a sign, digits; what follows is ignored.\<close>

definition c_strtoimax :: "string \<Rightarrow> int" where
  "c_strtoimax s =
     (let s = dropWhile c_blank (cstr s) in
      case s of
        [] \<Rightarrow> 0
      | c # cs \<Rightarrow>
          (if c = CHR ''-'' then max (- 9223372036854775808) (- int (digits_value cs))
           else min 9223372036854775807 (int (digits_value (if c = CHR ''+'' then cs else s)))))"

abbreviation (input) SIGCHLD :: int where "SIGCHLD \<equiv> 17"

text \<open>
  \<^verbatim>\<open>main\<close>. The value is the status of the process, by return or by exit; the child of a fork has its
  own run, which ends with the status of the sandboxed process.
\<close>

definition jail_main :: "env \<Rightarrow> jail_image \<Rightarrow> string list \<Rightarrow> trace \<Rightarrow> (int \<times> trace) option" where
  "jail_main env img argv tr =
     (if length argv < 2 then Some (3, tr)
      else
        (let (s, tr) = syscall env (SignalIgnore SIGCHLD) tr in
         if an_ret s = - 1 then Some (3, tr)
         else
           (let fd = c_strtoimax (argv ! 1) in
            if fd < 0 \<or> fd > 2147483647 then Some (3, tr)
            else
              (let (res, options, tr) = gh_sandboxoptions_readfrom env fd
                     \<lparr>so_name = replicate 256 NUL, so_memory_limit_bytes = 0,
                      so_functioncall_frame_limit_bytes = 0, so_jail_ipc_sockfd = 0\<rparr> tr in
               if res \<noteq> GHR_OK then Some (3, tr)
               else
                 (let ipc = snd (gh_ipc_ctorconnect (sint (so_jail_ipc_sockfd options)));
                      (res, tr) = gh_jail_lockdown env (so_memory_limit_bytes options) tr in
                  if res \<noteq> GHR_OK then Some (3, tr)
                  else
                    (let (res, msg, tr) = gh_ipc_recv env ipc GH_JAIL_HELLOTIMEOUTMS tr in
                     if res = GHR_IPC_RECVMSGTIMEOUT then Some (1, tr)
                     else if res \<noteq> GHR_OK then Some (3, tr)
                     else case msg of
                       Some (MsgHello _) \<Rightarrow>
                         map_option (\<lambda>(out, _, tr).
                             case out of Returns _ \<Rightarrow> (0, tr) | Exits status \<Rightarrow> (status, tr) | _ \<Rightarrow> (- 1, tr))
                           (jail_loop env img ipc (- 1, tr))
                     | _ \<Rightarrow> Some (1, tr)))))))"

end
