(* ===== verification/JailCalls.thy ===== *)
theory JailCalls
  imports Traces Jail
begin

text \<open>
  Which system calls the sandboxed processes make once they are locked down. The contract is a locale:
  \<open>P\<close> holds for the calls that receive and send messages, read a file, use the shared memory, and for
  the functions of the interpreter.
\<close>

section \<open>The sandboxed process\<close>

locale subjail_calls =
  fixes P :: "call \<Rightarrow> bool"
  assumes msg_calls: "P (Poll fds t)" "P (Recvmsg fd)" "P (Sendmsg fd msg n control)"
    and mem_calls: "P (Lseek fd off whence)" "P (MmapFd fd prot n)" "P (MunmapAt p n)" "P (Mremap p m n)"
      "P (Ftruncate fd len)" "P (MemLoad p k)" "P (MemStore p s)"
    and lua_calls: "P (Lua f args)"
    and file_calls: "P (Read fd n)" "P (Close fd)" "P Getpid"
begin

lemmas calls = msg_calls mem_calls lua_calls file_calls

text \<open>One call after another\<close>

lemma steps [simp, intro]:
  assumes "extends P tr0 tr"
  shows "extends P tr0 ((Lua f args, a) # tr)" "extends P tr0 ((MemLoad p k, a) # tr)" "extends P tr0 ((MemStore p s, a) # tr)"
    "extends P tr0 ((Read fd n, a) # tr)" "extends P tr0 ((Close fd, a) # tr)" "extends P tr0 ((Getpid, a) # tr)" "extends P tr0 ((Poll fds t, a) # tr)"
    "extends P tr0 ((Recvmsg fd, a) # tr)" "extends P tr0 ((Sendmsg fd msg n control, a) # tr)"
    "extends P tr0 ((Lseek fd off whence, a) # tr)" "extends P tr0 ((MmapFd fd prot n, a) # tr)"
    "extends P tr0 ((MunmapAt p n, a) # tr)" "extends P tr0 ((Mremap p m n, a) # tr)" "extends P tr0 ((Ftruncate fd len, a) # tr)"
  using assms by (auto simp: calls)

lemma lua_extends [simp, intro]: "extends P tr0 tr \<Longrightarrow> extends P tr0 (snd (lua env f args tr))"
  by (simp add: lua_def)

lemma luas_extends [intro!, simp]: "extends P tr0 tr \<Longrightarrow> extends P tr0 (luas env fs tr)"
proof (induction fs arbitrary: tr)
  case Nil
  then show ?case by simp
next
  case (Cons f fs)
  then show ?case by (cases f) simp
qed

lemma send_extends: "gh_ipc_send env ipc msg n tr = (res, tr') \<Longrightarrow> extends P tr0 tr \<Longrightarrow> extends P tr0 tr'"
  by (auto simp: gh_ipc_send_def syscall_pair Let_def calls split: prod.splits if_splits)

lemma recv_extends: "gh_ipc_recv env ipc t tr = (res, (msg, tr')) \<Longrightarrow> extends P tr0 tr \<Longrightarrow> extends P tr0 tr'"
  by (auto simp: gh_ipc_recv_def ipc_recvmsg_def syscall_pair Let_def calls split: prod.splits if_splits)

lemma send_msg_extends: "send_msg env ipc msg tr = (res, tr') \<Longrightarrow> extends P tr0 tr \<Longrightarrow> extends P tr0 tr'"
  by (auto simp: send_msg_def intro: send_extends)

lemma pcall_extends: "gh_lua_pcall env nargs nret tr = (r, tr') \<Longrightarrow> extends P tr0 tr \<Longrightarrow> extends P tr0 tr'"
  by (auto simp: gh_lua_pcall_def lua_def syscall_pair Let_def calls)

lemma info_extends: "lua_sendinfomsg env ipc (idx, tr) = (res, (idx', tr')) \<Longrightarrow> extends P tr0 tr \<Longrightarrow> extends P tr0 tr'"
  by (auto simp: lua_sendinfomsg_def Let_def intro: send_msg_extends split: prod.splits)

lemma poperror_extends:
  "extends P tr0 tr \<Longrightarrow> gives (lua_poperror env r tr) (\<lambda>(res, s, tr'). extends P tr0 tr')"
  by (auto simp: lua_poperror_def lua_errorstring_def lua_def syscall_pair calls gives_def split: if_splits)

lemma execute_extends:
  "extends P tr0 tr \<Longrightarrow> gives (lua_execute env ipc i tr) (\<lambda>(res, tr'). extends P tr0 tr')"
  unfolding lua_execute_def Let_def
  by (intro gives_intros gives_map [where R = "\<lambda>(res, s, tr'). extends P tr0 tr'"] poperror_extends)
    (auto intro: pcall_extends send_msg_extends split: prod.splits)

lemma executeloaded_extends:
  "extends P tr0 tr \<Longrightarrow> gives (lua_executeloaded env ipc i r tr) (\<lambda>(res, tr'). extends P tr0 tr')"
  unfolding lua_executeloaded_def Let_def
  by (intro gives_intros execute_extends) (auto intro: send_msg_extends split: if_splits)

lemma executestring_extends:
  "extends P tr0 tr \<Longrightarrow> gives (lua_executestring env ipc s (idx, tr)) (\<lambda>(res, idx', tr'). extends P tr0 tr')"
  unfolding lua_executestring_def Let_def lua_def syscall_pair prod.case
  by (intro gives_intros gives_map [OF executeloaded_extends [of tr0]])
    (auto simp: calls intro: info_extends)

lemma reads_extends: "extends P tr0 tr \<Longrightarrow> extends P tr0 (lua_reads env fd n tr)"
  by (induction n arbitrary: tr) (auto simp: lua_fdreader_def syscall_pair Let_def calls split: option.splits)

lemma executefile_extends:
  "extends P tr0 tr \<Longrightarrow> gives (lua_executefile env ipc fd name (idx, tr)) (\<lambda>(res, idx', tr'). extends P tr0 tr')"
  unfolding lua_executefile_def Let_def lua_def syscall_pair prod.case
  by (intro gives_intros gives_map [OF executeloaded_extends [of tr0]])
    (auto simp: calls intro: info_extends reads_extends)

lemma pushhost_extends: "extends P tr0 tr \<Longrightarrow> extends P tr0 (lua_pushhost env v tr)"
  by (cases v) (auto simp: lua_pushhost_def)

text \<open>Along a program: a trace that is named, a call of the interpreter, a message that is sent\<close>

lemma let_trace:
  fixes tr :: trace
  assumes "extends P tr0 tr" "\<And>tr'. extends P tr0 tr' \<Longrightarrow> gives (k tr') Q"
  shows "gives (let tr = tr in k tr) Q"
  using assms by simp

lemma let_value: "(\<And>x. gives (k x) Q) \<Longrightarrow> gives (let x = e in k x) Q"
  by simp

lemma let_lua:
  assumes "extends P tr0 tr" "\<And>a tr'. extends P tr0 tr' \<Longrightarrow> gives (k a tr') Q"
  shows "gives (let (a, tr) = lua env f args tr in k a tr) Q"
  using assms by (simp add: lua_def syscall_pair)

lemma let_send:
  assumes "extends P tr0 tr" "\<And>res tr'. extends P tr0 tr' \<Longrightarrow> gives (k res tr') Q"
  shows "gives (let (res, tr) = send_msg env ipc msg tr in k res tr) Q"
  by (cases "send_msg env ipc msg tr") (simp add: assms(2) [OF send_msg_extends [OF _ assms(1)]])

lemma let_pcall:
  assumes "extends P tr0 tr" "\<And>r tr'. extends P tr0 tr' \<Longrightarrow> gives (k r tr') Q"
  shows "gives (let (r, tr) = gh_lua_pcall env nargs nret tr in k r tr) Q"
  by (cases "gh_lua_pcall env nargs nret tr") (simp add: assms(2) [OF pcall_extends [OF _ assms(1)]])

lemma let_info:
  assumes "extends P tr0 tr" "\<And>res idx' tr'. extends P tr0 tr' \<Longrightarrow> gives (k res idx' tr') Q"
  shows "gives (let (res, idx, tr) = lua_sendinfomsg env ipc (idx, tr) in k res idx tr) Q"
  by (cases "lua_sendinfomsg env ipc (idx, tr)") (simp add: assms(2) [OF info_extends [OF _ assms(1)]])

lemma let_recv:
  assumes "extends P tr0 tr" "\<And>res msg tr'. extends P tr0 tr' \<Longrightarrow> gives (k res msg tr') Q"
  shows "gives (let (res, msg, tr) = gh_ipc_recv env ipc t tr in k res msg tr) Q"
  by (cases "gh_ipc_recv env ipc t tr") (simp add: assms(2) [OF recv_extends [OF _ assms(1)]])

lemma if_extends [intro]: "extends P tr0 tr \<Longrightarrow> extends P tr0 tr' \<Longrightarrow> extends P tr0 (if b then tr else tr')"
  by simp

lemmas run_rules = let_lua let_send let_pcall let_info let_recv let_trace

lemma sethostvariable_extends:
  assumes "extends P tr0 tr"
  shows "gives (lua_sethostvariable env ipc msg (idx, tr)) (\<lambda>(res, idx', tr'). extends P tr0 tr')"
proof -
  have table: "extends P tr0 (let tr = luas env fs tr; (t, tr) = lua env f args tr; tr = (if c t then luas env gs tr else tr) in luas env hs tr)"
    if "extends P tr0 tr" for fs f args c gs hs tr
    using that by (simp add: Let_def lua_def syscall_pair)
  note rules = run_rules [where ?tr0.0 = tr0]
  show ?thesis
    unfolding lua_sethostvariable_def
    by (rule rules, rule assms, intro gives_if, simp, simp, rule let_value)
      (intro rules; (intro if_extends table pushhost_extends luas_extends)?; assumption?; simp?)
qed

text \<open>The shared memory\<close>

lemma store_extends [simp, intro]: "extends P tr0 tr \<Longrightarrow> extends P tr0 (store_bytes env p s tr)"
  by (simp add: store_bytes_def)

lemma variant_stores [simp, intro]:
  assumes "extends P tr0 tr"
  shows "extends P tr0 (variant_storetype env p t tr)" "extends P tr0 (variant_storelen env p n tr)"
    "extends P tr0 (variant_storedouble env p d tr)"
  using assms by (simp_all add: variant_storetype_def variant_storelen_def variant_storedouble_def)

lemmas variant_loads_def = variant_loadtype_def variant_loadlen_def variant_loadint_def variant_loaddouble_def

lemma pushparam_extends:
  "lua_callfunction_pushparam env param tr = (res, tr') \<Longrightarrow> extends P tr0 tr \<Longrightarrow> extends P tr0 tr'"
  by (auto simp: lua_callfunction_pushparam_def variant_loads_def load_nat_def Let_def syscall_pair split: if_splits)

lemma pushparams_extends:
  "pushparams env mem ptrs nargs tr = (res, bad, n, tr') \<Longrightarrow> extends P tr0 tr \<Longrightarrow> extends P tr0 tr'"
proof (induction ptrs arbitrary: nargs tr)
  case Nil
  then show ?case by simp
next
  case (Cons p ptrs)
  then show ?case by (auto simp: Let_def dest: pushparam_extends split: prod.splits if_splits)
qed

lemma fdmem_new_extends:
  assumes "extends P tr0 tr"
  shows "gives (gh_fdmem_new env m n tr) (\<lambda>(res, ptr, m', tr'). extends P tr0 tr')"
proof -
  have "extends P tr0 tr'" if "ipcfdmem_resize env m s tr = (res, (m', tr'))" for s res m' tr'
    using that assms by (auto simp: ipcfdmem_resize_def syscall_pair Let_def split: if_splits)
  then show ?thesis using assms by (auto simp: gives_def gh_fdmem_new_def split: if_splits prod.splits)
qed

lemma return_variant_extends:
  assumes "extends P tr0 tr" "\<And>p tr. extends P tr0 tr \<Longrightarrow> extends P tr0 (store p tr)"
  shows "gives (return_variant env n err store (mem, tr)) (\<lambda>(res, ptr, mem', tr'). extends P tr0 tr')"
  unfolding return_variant_def prod.case
  by (rule gives_map [OF fdmem_new_extends [OF assms(1)]]) (auto simp: assms(2) Let_def split: option.splits if_splits)

lemma getreturn_extends:
  assumes "extends P tr0 tr"
  shows "gives (lua_callfunction_getreturn env (mem, tr)) (\<lambda>(res, ptr, mem', tr'). extends P tr0 tr')"
proof -
  note rules = run_rules [where ?tr0.0 = tr0]
  show ?thesis
    unfolding lua_callfunction_getreturn_def prod.case
    by (intro rules gives_if let_value return_variant_extends; simp add: assms Let_def lua_def syscall_pair)
qed

lemma let_pushparams:
  assumes "extends P tr0 tr" "\<And>res bad n tr'. extends P tr0 tr' \<Longrightarrow> gives (k res bad n tr') Q"
  shows "gives (let (res, bad, n, tr) = pushparams env mem ptrs i tr in k res bad n tr) Q"
  by (cases "pushparams env mem ptrs i tr") (simp add: assms(2) [OF pushparams_extends [OF _ assms(1)]])

lemma callfunction_run_extends:
  assumes "extends P tr0 tr"
  shows "gives (lua_callfunction_run env msg (mem, tr)) (\<lambda>(res, r, mem', tr'). extends P tr0 tr')"
proof -
  note rules = run_rules [where ?tr0.0 = tr0] let_pushparams [where ?tr0.0 = tr0]
  show ?thesis
    unfolding lua_callfunction_run_def prod.case
    by (subst Let_def)
      (intro rules gives_if gives_map [OF poperror_extends [where ?tr0.0 = tr0]] gives_map [OF getreturn_extends [where ?tr0.0 = tr0]];
       simp add: assms split: prod.splits)
qed

lemma ctorfdo_extends:
  "gh_fdmem_ctorfdo env m fd occ tr = (res, (m', tr')) \<Longrightarrow> extends P tr0 tr \<Longrightarrow> extends P tr0 tr'"
  by (auto simp: gh_fdmem_ctorfdo_def ipcfdmem_ctorfdo_def syscall_pair Let_def split: if_splits)

lemma dtor_extends: "gh_fdmem_dtor env m tr = (res, tr') \<Longrightarrow> extends P tr0 tr \<Longrightarrow> extends P tr0 tr'"
  by (auto simp: gh_fdmem_dtor_def syscall_pair Let_def split: if_splits)

lemma callfunction_extends:
  assumes "extends P tr0 tr"
  shows "gives (lua_callfunction env ipc msg (idx, tr)) (\<lambda>(res, idx', tr'). extends P tr0 tr')"
proof -
  note rules = run_rules [where ?tr0.0 = tr0]
  let ?m = "\<lparr>fm_data = 0, fm_occupied = 0, fm_size = 0, fm_fd = 0\<rparr> :: gh_fdmem"
  have ctor: "gives (let (res, m, tr) = gh_fdmem_ctorfdo env ?m fd occ tr in k res m tr) Q"
    if "extends P tr0 tr" "\<And>res m tr'. extends P tr0 tr' \<Longrightarrow> gives (k res m tr') Q" for fd occ k Q tr
    by (cases "gh_fdmem_ctorfdo env ?m fd occ tr") (simp add: that(2) [OF ctorfdo_extends [OF _ that(1)]])
  show ?thesis
    unfolding lua_callfunction_def
    by (intro rules ctor gives_if gives_map [OF callfunction_run_extends [where ?tr0.0 = tr0]])
      (auto simp: assms Let_def dest!: dtor_extends [where ?tr0.0 = tr0] intro: send_msg_extends split: prod.splits)
qed

section \<open>The loop of the sandboxed process\<close>

lemma asserted_extends:
  "gives m (\<lambda>(res, idx, tr'). extends P tr0 tr') \<Longrightarrow> gives (asserted m) (\<lambda>(out, idx, tr'). extends P tr0 tr')"
  unfolding asserted_def by (erule gives_map) auto

lemma message_extends:
  assumes "extends P tr0 tr"
  shows "gives (subjail_message_recv env ipc msg (idx, tr)) (\<lambda>(out, idx', tr'). extends P tr0 tr')"
  by (cases msg)
    (simp_all add: subjail_message_recv_def assms asserted_extends executestring_extends executefile_extends
      sethostvariable_extends callfunction_extends)

lemma loop_extends: "gives (subjail_loop env ipc (idx, tr)) (\<lambda>(out, idx', tr'). extends P tr tr')"
proof -
  have "extends P (snd st) (snd (snd x))" if "subjail_loop env ipc st = Some x" for st x
  proof (rule subjail_loop.raw_induct [OF _ that, where P = "\<lambda>env ipc st x. extends P (snd st) (snd (snd x))"])
    fix loop :: "env \<Rightarrow> gh_ipc \<Rightarrow> int \<times> trace \<Rightarrow> (unit outcome \<times> (int \<times> trace)) option"
      and env ipc st x
    assume IH: "\<And>env ipc st x. loop env ipc st = Some x \<Longrightarrow> extends P (snd st) (snd (snd x))"
    let ?body = "let (res, msg, tr) = gh_ipc_recv env ipc GH_IPC_NOTIMEOUT (snd st) in
      case msg of
        None \<Rightarrow> Some (Exits 3, (fst st, tr))
      | Some msg \<Rightarrow>
          Option.bind (subjail_message_recv env ipc msg (fst st, tr)) (\<lambda>(out, st).
          case out of
            Returns quit \<Rightarrow> if quit then Some (Returns (), st) else loop env ipc st
          | _ \<Rightarrow> Some (Exits 3, st))"
    assume b: "?body = Some x"
    have out: "gives (case out of Returns quit \<Rightarrow> if quit then Some (Returns (), st1) else loop env ipc st1
          | _ \<Rightarrow> Some (Exits 3, st1)) (\<lambda>x. extends P (snd st) (snd (snd x)))"
      if "extends P (snd st) (snd st1)" for out st1
      using that by (cases out) (auto simp: gives_def dest!: IH intro: extends_trans)
    have "gives ?body (\<lambda>x. extends P (snd st) (snd (snd x)))"
      by (intro run_rules [where ?tr0.0 = "snd st"] gives_option gives_use [OF message_extends [where ?tr0.0 = "snd st"]])
        (auto intro: out)
    from givesD [OF this b] show "extends P (snd st) (snd (snd x))" .
  qed
  then show ?thesis by (auto simp: gives_def)
qed

section \<open>Preparation\<close>

lemma runchunks_extends: "lua_runchunks env chunks tr = (r, tr') \<Longrightarrow> extends P tr0 tr \<Longrightarrow> extends P tr0 tr'"
proof (induction chunks arbitrary: tr)
  case Nil
  then show ?case by simp
next
  case (Cons c chunks)
  then show ?case
    by (cases c) (auto simp: Let_def lua_def syscall_pair dest: pcall_extends split: prod.splits if_splits)
qed

lemma init_extends:
  assumes "extends P tr0 tr"
  shows "gives (lua_init env line init stdlib tr) (\<lambda>(res, tr'). extends P tr0 tr')"
proof -
  have chunks: "gives (let (r, tr) = lua_runchunks env cs tr in k r tr) Q"
    if "extends P tr0 tr" "\<And>r tr'. extends P tr0 tr' \<Longrightarrow> gives (k r tr') Q" for cs k Q tr
    by (cases "lua_runchunks env cs tr") (simp add: that(2) [OF runchunks_extends [OF _ that(1)]])
  show ?thesis
    unfolding lua_init_def
    by (intro let_trace [where ?tr0.0 = tr0] chunks gives_if gives_map [OF poperror_extends [where ?tr0.0 = tr0]])
      (auto simp: assms)
qed

text \<open>All that the process does once it is locked down\<close>

lemma subjail_main_extends:
  assumes "gh_subjail_main env line init stdlib ipc parent idx tr = Some (status, tr')"
  shows "\<exists>res0 tr0 res tr1. gh_ipc_dtor env parent tr = (res0, tr0) \<and> gh_subjail_lockdown env tr0 = (res, tr1) \<and>
     (res0 \<noteq> GHR_OK \<and> status = 3 \<and> tr' = tr0 \<or>
      res0 = GHR_OK \<and> res \<noteq> GHR_OK \<and> status = 3 \<and> tr' = tr1 \<or>
      res0 = GHR_OK \<and> res = GHR_OK \<and> extends P tr1 tr')"
proof -
  obtain res0 tr0 where d: "gh_ipc_dtor env parent tr = (res0, tr0)" by (metis prod.exhaust)
  obtain res tr1 where l: "gh_subjail_lockdown env tr0 = (res, tr1)" by (metis prod.exhaust)
  note rules = run_rules [where ?tr0.0 = tr1]
  have hello: "gives (let (p, tr) = syscall env Getpid tr in k p tr) Q"
    if "extends P tr1 tr" "\<And>p tr'. extends P tr1 tr' \<Longrightarrow> gives (k p tr') Q" for k Q tr
    using that by (simp add: syscall_pair)
  have loop: "gives (map_option (\<lambda>(out, _, tr). case out of Returns _ \<Rightarrow> (0, luas env cs tr) | _ \<Rightarrow> (3, tr))
      (subjail_loop env ipc (- 1, tr))) (\<lambda>(status :: int, tr'). extends P tr1 tr')" if "extends P tr1 tr" for tr cs
    by (rule gives_map [OF loop_extends]) (auto intro: extends_trans [OF that] split: outcome.splits)
  let ?body = "let tr = luas env [(''luaL_newstate'', [])] tr1 in
            Option.bind (lua_init env line init stdlib tr) (\<lambda>(res, tr).
            if ghr_iserr res then Some (1, tr)
            else
              (let (p, tr) = syscall env Getpid tr; (res, tr) = send_msg env ipc (MsgSubjailAlive idx (an_ret p)) tr in
               if res \<noteq> GHR_OK then Some (3, tr)
               else
                 (let (res, msg, tr) = gh_ipc_recv env ipc GH_JAIL_HELLOTIMEOUTMS tr in
                  if res = GHR_IPC_RECVMSGTIMEOUT then Some (1, tr)
                  else if res \<noteq> GHR_OK then Some (3, tr)
                  else case msg of
                    Some (MsgHello _) \<Rightarrow>
                      map_option (\<lambda>(out, _, tr).
                          case out of Returns _ \<Rightarrow> (0 :: int, luas env [(''lua_close'', [])] tr) | _ \<Rightarrow> (3, tr))
                        (subjail_loop env ipc (- 1, tr))
                  | _ \<Rightarrow> Some (1, tr))))"
  have msgs: "gives (case msg of Some (MsgHello _) \<Rightarrow> m | _ \<Rightarrow> n) Q" if "gives m Q" "gives n Q" for msg m n Q
    using that by (simp split: option.split gh_ipcmsg.split)
  have "gives ?body (\<lambda>(status, tr'). extends P tr1 tr')"
    by (intro rules gives_use [OF init_extends [where ?tr0.0 = tr1]] gives_prod gives_if hello msgs loop) auto
  then have "extends P tr1 tr'" if "res0 = GHR_OK" "res = GHR_OK"
    using assms that d l by (auto simp: gh_subjail_main_def gives_def)
  then show ?thesis
    using assms d l by (auto simp: gh_subjail_main_def split: if_splits)
qed

end

section \<open>The filters\<close>

text \<open>The number of the system call that a call makes; \<^verbatim>\<open>fork\<close> is \<^verbatim>\<open>clone\<close> in the C library.\<close>

definition call_nr :: "call \<Rightarrow> 32 word option" where
  "call_nr c =
     (case c of
        Read _ _ \<Rightarrow> Some SYS_read | Close _ \<Rightarrow> Some SYS_close | Poll _ _ \<Rightarrow> Some SYS_poll
      | Recvmsg _ \<Rightarrow> Some SYS_recvmsg | Sendmsg _ _ _ _ \<Rightarrow> Some SYS_sendmsg | Lseek _ _ _ \<Rightarrow> Some SYS_lseek
      | MmapFd _ _ _ \<Rightarrow> Some SYS_mmap | MunmapAt _ _ \<Rightarrow> Some SYS_munmap | Mremap _ _ _ \<Rightarrow> Some SYS_mremap
      | Ftruncate _ _ \<Rightarrow> Some SYS_ftruncate | Getpid \<Rightarrow> Some SYS_getpid | Fork \<Rightarrow> Some SYS_clone
      | Seccomp _ \<Rightarrow> Some SYS_seccomp | Write _ _ \<Rightarrow> Some SYS_write | Kill _ _ \<Rightarrow> Some SYS_kill
      | Waitpid _ \<Rightarrow> Some SYS_wait4 | Openat _ _ _ _ \<Rightarrow> Some SYS_openat | Execveat _ _ _ \<Rightarrow> Some SYS_execveat
      | _ \<Rightarrow> None)"

text \<open>Accesses to the memory of the process, and the interpreter, whose own calls are not part of the model\<close>

definition no_syscall :: "call \<Rightarrow> bool" where
  "no_syscall c \<longleftrightarrow> (case c of MemLoad _ _ \<Rightarrow> True | MemStore _ _ \<Rightarrow> True | Lua _ _ \<Rightarrow> True | Getenv _ \<Rightarrow> True | _ \<Rightarrow> False)"

definition allowed_call :: "sock_filter list list \<Rightarrow> call \<Rightarrow> bool" where
  "allowed_call fs c \<longleftrightarrow>
     no_syscall c \<or>
     (\<exists>n. call_nr c = Some n \<and>
        (\<forall>d. sd_arch d = AUDIT_ARCH_X86_64 \<longrightarrow> sd_nr d = n \<longrightarrow> seccomp_allows fs d))"

lemma jail_allows_nr: "sd_arch d = AUDIT_ARCH_X86_64 \<Longrightarrow> sd_nr d = n \<Longrightarrow> n \<in> set jail_syscalls \<Longrightarrow> jail_allows d"
  by (simp add: jail_allows_def)

lemma jail_filter_allows: "seccomp_allows [jail_filter] d \<longleftrightarrow> jail_allows d"
  by (simp add: seccomp_allows_def jail_filter_run)

interpretation subjail: subjail_calls "allowed_call [subjail_filter, jail_filter]"
  by unfold_locales
    (simp_all add: allowed_call_def no_syscall_def call_nr_def subjail_filters_allow jail_allows_nr jail_syscalls_def)

interpretation jail: subjail_calls "allowed_call [jail_filter]"
  by unfold_locales
    (simp_all add: allowed_call_def no_syscall_def call_nr_def jail_filter_allows jail_allows_nr jail_syscalls_def)

section \<open>The jail\<close>

lemma jail_more_calls: "allowed_call [jail_filter] Fork" "allowed_call [jail_filter] (Seccomp f)" "allowed_call [jail_filter] (Getenv s)"
  by (simp_all add: allowed_call_def no_syscall_def call_nr_def jail_filter_allows jail_allows_nr jail_syscalls_def)

lemma jail_steps [simp, intro]:
  assumes "extends (allowed_call [jail_filter]) tr0 tr"
  shows "extends (allowed_call [jail_filter]) tr0 ((Fork, a) # tr)" "extends (allowed_call [jail_filter]) tr0 ((Seccomp f, a) # tr)"
    "extends (allowed_call [jail_filter]) tr0 ((Getenv s, a) # tr)"
  using assms by (auto simp: jail_more_calls)

lemma spawn_extends:
  assumes "extends (allowed_call [jail_filter]) tr0 tr"
  shows "gives (gh_subjail_spawn env line init stdlib fd parent (idx, tr)) (\<lambda>(out, idx', tr'). extends (allowed_call [jail_filter]) tr0 tr')"
proof -
  let ?P = "allowed_call [jail_filter]"
  have main: "extends ?P tr1 tr'"
    if m: "gh_subjail_main env line init stdlib ipc parent i tr1 = Some (status, tr')" for ipc i tr1 status tr'
  proof -
    have d: "extends ?P t t'" if "gh_ipc_dtor env parent t = (r, t')" for t r t'
      using that by (auto simp: gh_ipc_dtor_def syscall_pair Let_def split: if_splits)
    have l: "extends ?P t t'" if "gh_subjail_lockdown env t = (r, t')" for t r t'
      using that by (auto simp: gh_subjail_lockdown_def syscall_pair Let_def split: if_splits)
    show ?thesis
      using jail.subjail_main_extends [OF m] by (auto dest!: d l intro: extends_trans)
  qed
  have m: "gives (gh_subjail_main env line init stdlib ipc parent i ((Fork, a) # tr)) (\<lambda>(status, tr'). extends ?P tr0 tr')" for ipc i a
    by (auto simp: gives_def dest!: main intro: extends_trans [OF jail_steps(1) [OF assms]])
  show ?thesis
    unfolding gh_subjail_spawn_def prod.case syscall_pair Let_def
    by (intro gives_if gives_map [OF m]) (auto simp: assms)
qed

lemma jail_message_extends:
  assumes "extends (allowed_call [jail_filter]) tr0 tr"
  shows "gives (jail_message_recv env img ipc msg (idx, tr)) (\<lambda>(out, idx', tr'). extends (allowed_call [jail_filter]) tr0 tr')"
proof (cases "\<exists>fd. msg = MsgNewSubjail fd")
  case True
  then obtain fd where fd: "msg = MsgNewSubjail fd" by blast
  show ?thesis
    unfolding jail_message_recv_def fd gh_ipcmsg.case prod.case syscall_pair Let_def
    by (rule gives_map [OF spawn_extends [OF jail.steps(6) [OF assms]]]) (auto split: outcome.splits)
next
  case False
  with assms show ?thesis by (cases msg) (auto simp: jail_message_recv_def)
qed

lemma jail_loop_extends:
  "gives (jail_loop env img ipc (idx, tr)) (\<lambda>(out, idx', tr'). extends (allowed_call [jail_filter]) tr tr')"
proof -
  let ?P = "allowed_call [jail_filter]"
  have "extends ?P (snd st) (snd (snd x))" if "jail_loop env img ipc st = Some x" for st x
  proof (rule jail_loop.raw_induct [OF _ that, where P = "\<lambda>env img ipc st x. extends ?P (snd st) (snd (snd x))"])
    fix loop :: "env \<Rightarrow> jail_image \<Rightarrow> gh_ipc \<Rightarrow> int \<times> trace \<Rightarrow> (unit outcome \<times> (int \<times> trace)) option"
      and env img ipc st x
    assume IH: "\<And>env img ipc st x. loop env img ipc st = Some x \<Longrightarrow> extends ?P (snd st) (snd (snd x))"
    let ?body = "let (res, msg, tr) = gh_ipc_recv env ipc GH_IPC_NOTIMEOUT (snd st) in
      case msg of
        None \<Rightarrow> Some (Exits 3, (fst st, tr))
      | Some msg \<Rightarrow>
          Option.bind (jail_message_recv env img ipc msg (fst st, tr)) (\<lambda>(out, st).
          case out of
            Returns quit \<Rightarrow> if quit then Some (Returns (), st) else loop env img ipc st
          | Exits status \<Rightarrow> Some (Exits status, st)
          | _ \<Rightarrow> Some (Aborts, st))"
    assume b: "?body = Some x"
    have out: "gives (case out of Returns quit \<Rightarrow> if quit then Some (Returns (), st1) else loop env img ipc st1
          | Exits status \<Rightarrow> Some (Exits status, st1) | _ \<Rightarrow> Some (Aborts, st1)) (\<lambda>x. extends ?P (snd st) (snd (snd x)))"
      if "extends ?P (snd st) (snd st1)" for out st1
      using that by (cases out) (auto simp: gives_def dest!: IH intro: extends_trans)
    have "gives ?body (\<lambda>x. extends ?P (snd st) (snd (snd x)))"
      by (intro jail.run_rules [where ?tr0.0 = "snd st"] gives_option gives_use [OF jail_message_extends [where ?tr0.0 = "snd st"]])
        (auto intro: out)
    from givesD [OF this b] show "extends ?P (snd st) (snd (snd x))" .
  qed
  then show ?thesis by (auto simp: gives_def)
qed

text \<open>All that the jail does once it is locked down, the sandboxed processes included\<close>

lemma jail_main_extends:
  assumes "jail_main env img argv tr = Some (status, tr')" "status \<noteq> 3"
  shows "\<exists>limit tr0 tr1. gh_jail_lockdown env limit tr0 = (GHR_OK, tr1) \<and> extends (allowed_call [jail_filter]) tr1 tr'"
proof -
  let ?P = "allowed_call [jail_filter]"
  have msgs: "gives (case msg of Some (MsgHello _) \<Rightarrow> m | _ \<Rightarrow> n) Q" if "gives m Q" "gives n Q" for msg m n Q
    using that by (simp split: option.split gh_ipcmsg.split)
  have fin: "\<exists>limit tr0 tr1. gh_jail_lockdown env limit tr0 = (GHR_OK, tr1) \<and> extends ?P tr1 d"
    if "gh_jail_lockdown env l a = (GHR_OK, b)" "gh_ipc_recv env ipc t b = (r, (m, c))" "extends ?P c d" for l a b ipc t r m c d
    using that jail.recv_extends [OF that(2) extends_refl] by (meson extends_trans)
  have "gives (jail_main env img argv tr) (\<lambda>(status, tr'). status \<noteq> 3 \<longrightarrow>
      (\<exists>limit tr0 tr1. gh_jail_lockdown env limit tr0 = (GHR_OK, tr1) \<and> extends ?P tr1 tr'))"
    unfolding jail_main_def Let_def syscall_pair prod.case
    by (intro gives_if gives_prod msgs gives_map [OF jail_loop_extends])
      (auto intro: fin fin [OF _ _ extends_refl] split: outcome.splits)
  then show ?thesis using assms by (auto simp: gives_def)
qed

end
