(* ===== verification/ThreadQuit.thy ===== *)
theory ThreadQuit
  imports Thread
begin

text \<open>
  The end of a thread (\<^verbatim>\<open>thread_wait\<close>, \<^verbatim>\<open>thread_requestquit\<close>, \<^verbatim>\<open>gh_thread_dtor\<close>): the process is asked to
  quit and waited for, its messages are still processed meanwhile, and it is killed when its time
  is over. The time that the host spends on its messages does not count.
\<close>

definition c_toint :: "int \<Rightarrow> int" where
  "c_toint i = sint (word_of_int i :: c_int)"

text \<open>Division of C rounds towards zero.\<close>

definition c_div :: "int \<Rightarrow> int \<Rightarrow> int" where
  "c_div a b = (if a \<ge> 0 then a div b else - ((- a) div b))"

definition int_range :: "int \<Rightarrow> bool" where
  "int_range i \<longleftrightarrow> - 2147483648 \<le> i \<and> i \<le> 2147483647"

text \<open>
  The state of the loop: the time that is left, whether the socket is polled too (\<^verbatim>\<open>pollfd_count\<close> is 2),
  the time of the last measurement as seconds and nanoseconds, and the result so far.
\<close>

record wait_state =
  ws_timeout_ms :: int
  ws_socket :: bool
  ws_start :: "int \<times> int"
  ws_res :: gh_result

definition msec_diff :: "int \<times> int \<Rightarrow> int \<times> int \<Rightarrow> int" where
  "msec_diff until since = (fst until - fst since) * 1000 + c_div (snd until - snd since) 1000000"

text \<open>The measurement after a poll; \<open>None\<close> is an overflow of \<^verbatim>\<open>int\<close>.\<close>

definition wait_measure :: "env \<Rightarrow> wait_state \<Rightarrow> trace \<Rightarrow> (wait_state \<times> trace) option" where
  "wait_measure env ws tr =
     (if \<not> ws_socket ws then Some (ws, tr)
      else
        (let (c, tr) = syscall env ClockGettime tr in
         if an_ret c < 0 then Some (ws\<lparr>ws_socket := False, ws_res := ghr_errno GHR_THREAD_WAITCLOCK c\<rparr>, tr)
         else
           (let now = (an_sec c, an_nsec c); left = ws_timeout_ms ws - c_toint (msec_diff now (ws_start ws)) in
            if int_range left
            then Some (ws\<lparr>ws_timeout_ms := (if left < 0 then 0 else left), ws_start := now\<rparr>, tr)
            else None)))"

text \<open>A message of the process is handled, and the clock restarted.\<close>

definition wait_process ::
  "env \<Rightarrow> gh_alloc \<Rightarrow> ('g, 'h, 'f) thread_run \<Rightarrow> wait_state \<Rightarrow> ('g, 'h, 'f) gh_thread \<times> trace \<Rightarrow>
   (wait_state \<times> (('g, 'h, 'f) gh_thread \<times> trace)) option" where
  "wait_process env al run ws st =
     map_option (\<lambda>(inner_res, notif, thread, tr).
         let shutdown = ghr_is inner_res GHR_IPC_PEERSHUTDOWN;
             ws = (if shutdown then ws\<lparr>ws_socket := False\<rparr> else ws);
             ws = (if \<not> shutdown \<and> ghr_iserr inner_res then ws\<lparr>ws_res := inner_res\<rparr> else ws);
             (c, tr) = syscall env ClockGettime tr in
         (if an_ret c < 0 then ws\<lparr>ws_socket := False, ws_res := ghr_errno GHR_THREAD_WAITCLOCK c\<rparr>
          else ws\<lparr>ws_start := (an_sec c, an_nsec c)\<rparr>, (thread, tr)))
       (gh_thread_process env al run (Some threadnotif_zero) st)"

definition ready_bit :: "answer \<Rightarrow> nat \<Rightarrow> bool" where
  "ready_bit a i \<longleftrightarrow> i < length (an_ready a) \<and> an_ready a ! i"

partial_function (option) wait_loop ::
  "env \<Rightarrow> gh_alloc \<Rightarrow> ('g, 'h, 'f) thread_run \<Rightarrow> int \<Rightarrow> wait_state \<Rightarrow> ('g, 'h, 'f) gh_thread \<times> trace \<Rightarrow>
   (gh_result \<times> (('g, 'h, 'f) gh_thread \<times> trace)) option" where
  "wait_loop env al run pidfd ws st =
     (let thread = fst st;
          (p, tr) = syscall env (Poll (pidfd # (if ws_socket ws then [ip_sockfd (th_ipc thread)] else []))
                                   (ws_timeout_ms ws)) (snd st) in
      if an_ret p < 0 then Some (ghr_errno GHR_SANDBOX_PIDFDPOLL p, (thread, tr))
      else if an_ret p = 0 then
        (let (k, tr) = syscall env (PidfdSendSignal pidfd SIGKILL) tr in
         Some (if an_ret k < 0 then ghr_errno GHR_SANDBOX_PIDFDKILL k else GHR_THREAD_FORCEKILL, (thread, tr)))
      else if ready_bit p 0 then Some (ws_res ws, (thread, tr))
      else
        Option.bind (wait_measure env ws tr) (\<lambda>(ws, tr).
        if ws_socket ws \<and> ready_bit p 1 then
          Option.bind (wait_process env al run ws (thread, tr)) (\<lambda>(ws, st). wait_loop env al run pidfd ws st)
        else wait_loop env al run pidfd ws (thread, tr)))"

definition thread_wait ::
  "env \<Rightarrow> gh_alloc \<Rightarrow> ('g, 'h, 'f) thread_run \<Rightarrow> int \<Rightarrow> ('g, 'h, 'f) gh_thread \<times> trace \<Rightarrow>
   (gh_result \<times> (('g, 'h, 'f) gh_thread \<times> trace)) option" where
  "thread_wait env al run timeout_ms st =
     (case st of (thread, tr) \<Rightarrow>
      (let (f, tr) = syscall env (PidfdOpen (th_pid thread)) tr in
       if an_ret f < 0 then Some (ghr_errno GHR_SANDBOX_PIDFD f, (thread, tr))
       else
         (let (c, tr) = syscall env ClockGettime tr;
              ws = (if an_ret c < 0
                    then \<lparr>ws_timeout_ms = timeout_ms, ws_socket = False, ws_start = (0, 0),
                          ws_res = ghr_errno GHR_THREAD_WAITCLOCK c\<rparr>
                    else \<lparr>ws_timeout_ms = timeout_ms, ws_socket = True, ws_start = (an_sec c, an_nsec c),
                          ws_res = GHR_OK\<rparr>) in
          wait_loop env al run (an_ret f) ws (thread, tr))))"

definition thread_requestquit ::
  "env \<Rightarrow> gh_alloc \<Rightarrow> ('g, 'h, 'f) thread_run \<Rightarrow> ('g, 'h, 'f) gh_thread \<times> trace \<Rightarrow>
   (gh_result \<times> (('g, 'h, 'f) gh_thread \<times> trace)) option" where
  "thread_requestquit env al run st =
     (case st of (thread, tr) \<Rightarrow>
      (let (res, tr) = send_quit env (th_ipc thread) tr in
       if ghr_is res GHR_IPC_PEERSHUTDOWN then Some (GHR_OK, (thread, tr))
       else if ghr_iserr res then Some (res, (thread, tr))
       else thread_wait env al run GH_SANDBOX_TIMETOQUITMS (thread, tr)))"

text \<open>The second component of the result is \<^verbatim>\<open>*out_subjailresult\<close>, when it is stored.\<close>

definition gh_thread_dtor ::
  "env \<Rightarrow> gh_alloc \<Rightarrow> ('g, 'h, 'f) thread_run \<Rightarrow> ('g, 'h, 'f) gh_thread \<times> trace \<Rightarrow>
   (gh_result \<times> (gh_result option \<times> (('g, 'h, 'f) gh_thread \<times> trace))) option" where
  "gh_thread_dtor env al run st =
     (case st of (thread, tr) \<Rightarrow>
      if th_pid thread = 0 then Some (GHR_OK, (None, (thread, tr)))
      else
        (let thread = thread\<lparr>th_rpc := gh_rpc_decthreadrefcount (th_rpc thread)\<rparr> in
         Option.bind (thread_requestquit env al run (thread, tr)) (\<lambda>(quit_res, thread, tr).
         Option.bind (gh_perms_dtor env al (th_perms thread, tr)) (\<lambda>(res, perms, tr).
         let thread = thread\<lparr>th_perms := perms\<rparr> in
         if ghr_iserr res then Some (res, (Some quit_res, (thread, tr)))
         else
           (let (res, tr) = gh_ipc_dtor env (th_ipc thread) tr in Some (res, (Some quit_res, (thread, tr))))))))"

end
