(* ===== verification/SubjailFacts.thy ===== *)
theory SubjailFacts
  imports JailCalls ThreadQuit
begin

text \<open>
  Scripts: one message LUAINFO with the identifier when a script begins, one message LUARESULT when it
  ends, and two when it could not be loaded; what the host makes of the second one.
\<close>

section \<open>Messages that were sent\<close>

definition is_result :: "int \<Rightarrow> call \<times> answer \<Rightarrow> bool" where
  "is_result script_id x \<longleftrightarrow>
     (case fst x of Sendmsg _ (MsgLuaResult r) _ _ \<Rightarrow> lr_script_id r = script_id \<and> an_ret (snd x) \<ge> 0 | _ \<Rightarrow> False)"

definition results_sent :: "int \<Rightarrow> trace \<Rightarrow> nat" where
  "results_sent script_id tr = length (filter (is_result script_id) tr)"

definition infos_sent :: "trace \<Rightarrow> int list" where
  "infos_sent tr = concat (map (\<lambda>(c, a). case c of
     Sendmsg _ (MsgLuaInfo i) _ _ \<Rightarrow> if an_ret a \<ge> 0 then [i] else [] | _ \<Rightarrow> []) tr)"

definition no_send :: "call \<Rightarrow> bool" where
  "no_send c \<longleftrightarrow> (case c of Sendmsg _ _ _ _ \<Rightarrow> False | _ \<Rightarrow> True)"

lemma no_send_counts:
  assumes "extends no_send tr tr'"
  shows "results_sent i tr' = results_sent i tr" "infos_sent tr' = infos_sent tr"
proof -
  show "results_sent i tr' = results_sent i tr"
    unfolding results_sent_def using extends_count [OF assms, of "is_result i"]
    by (auto simp: is_result_def no_send_def split: call.splits)
  from assms obtain new where n: "tr' = new @ tr" "\<forall>x \<in> set new. no_send (fst x)" by (auto simp: extends_def)
  have "concat (map (\<lambda>(c, a). case c of Sendmsg _ (MsgLuaInfo i) _ _ \<Rightarrow> if an_ret a \<ge> 0 then [i] else [] | _ \<Rightarrow> []) new) = []"
    using n(2) by (auto simp: no_send_def split: call.splits)
  then show "infos_sent tr' = infos_sent tr" using n(1) by (simp add: infos_sent_def)
qed

text \<open>A message of the sandboxed process that carries no descriptor is sent once when the result is \<^verbatim>\<open>GHR_OK\<close>.\<close>

lemma send_msg_counts:
  assumes "send_msg env ipc msg tr = (res, tr')"
  shows "results_sent i tr' = results_sent i tr + (case msg of MsgLuaResult r \<Rightarrow> if res = GHR_OK \<and> lr_script_id r = i then 1 else 0 | _ \<Rightarrow> 0)"
    "infos_sent tr' = (case msg of MsgLuaInfo j \<Rightarrow> if res = GHR_OK then [j] else [] | _ \<Rightarrow> []) @ infos_sent tr"
  using assms
  by (auto simp: send_msg_def gh_ipc_send_def prepare_cmsg_def ipcmsg_fd_def syscall_pair Let_def ghr_simps ghr_errno_def
      results_sent_def infos_sent_def is_result_def split: if_splits gh_ipcmsg.splits)

lemma lua_no_send: "extends no_send tr0 tr \<Longrightarrow> extends no_send tr0 (luas env fs tr)"
proof (induction fs arbitrary: tr)
  case Nil
  then show ?case by simp
next
  case (Cons f fs)
  have "no_send (Lua g args)" for g args by (simp add: no_send_def)
  with Cons show ?case by (cases f) (simp add: lua_def extends_call)
qed

lemma lua_call_no_send [simp]: "no_send (Lua f args)"
  by (simp add: no_send_def)

section \<open>Scripts\<close>

lemma pcall_no_send: "gh_lua_pcall env nargs nret tr = (r, tr') \<Longrightarrow> extends no_send tr tr'"
  by (auto simp: gh_lua_pcall_def lua_def syscall_pair Let_def intro!: lua_no_send extends_call)

lemma poperror_no_send: "lua_poperror env r tr = Some (res, s, tr') \<Longrightarrow> extends no_send tr tr'"
  by (auto simp: lua_poperror_def lua_errorstring_def lua_def syscall_pair Let_def intro!: lua_no_send extends_call split: if_splits)

lemma execute_results:
  assumes "lua_execute env ipc i tr = Some (GHR_OK, tr')"
  shows "results_sent i tr' = results_sent i tr + 1" "infos_sent tr' = infos_sent tr"
proof -
  obtain r tr1 where r: "gh_lua_pcall env 0 0 tr = (r, tr1)" by (metis prod.exhaust)
  from assms r obtain res s tr2 where
    e: "(if r \<noteq> 0 then lua_poperror env r tr1 else Some (GHR_OK, no_errormsg, tr1)) = Some (res, s, tr2)"
    "send_msg env ipc (luaresult res s i 0) tr2 = (GHR_OK, tr')"
    by (auto simp: lua_execute_def)
  have "extends no_send tr tr2"
    using pcall_no_send [OF r] e(1) poperror_no_send by (auto split: if_splits intro: extends_trans)
  from no_send_counts [OF this] send_msg_counts [OF e(2)] show
    "results_sent i tr' = results_sent i tr + 1" "infos_sent tr' = infos_sent tr"
    by (simp_all add: luaresult_def)
qed

lemma executeloaded_results:
  assumes "lua_executeloaded env ipc i r tr = Some (GHR_OK, tr')"
  shows "results_sent i tr' = results_sent i tr + (if r \<noteq> 0 then 2 else 1)" "infos_sent tr' = infos_sent tr"
proof -
  obtain res tr1 where s: "(if r \<noteq> 0 then send_msg env ipc (luaresult (gh_lua2result r) no_errormsg i 0) tr else (GHR_OK, tr)) = (res, tr1)"
    by (metis prod.exhaust)
  have ok: "res = GHR_OK" "lua_execute env ipc i tr1 = Some (GHR_OK, tr')"
    using assms s by (auto simp: lua_executeloaded_def ghr_simps split: if_splits)
  have "results_sent i tr1 = results_sent i tr + (if r \<noteq> 0 then 1 else 0) \<and> infos_sent tr1 = infos_sent tr"
    using s ok(1) send_msg_counts [of env ipc "luaresult (gh_lua2result r) no_errormsg i 0" tr GHR_OK tr1]
    by (auto simp: luaresult_def split: if_splits)
  with execute_results [OF ok(2)] show
    "results_sent i tr' = results_sent i tr + (if r \<noteq> 0 then 2 else 1)" "infos_sent tr' = infos_sent tr"
    by auto
qed

text \<open>A script that is given as a string\<close>

lemma executestring_results:
  assumes "lua_executestring env ipc s (idx, tr) = Some (GHR_OK, (idx', tr'))"
  shows "idx' = idx + 1 \<and> infos_sent tr' = idx' # infos_sent tr \<and>
     (\<exists>tr1. results_sent idx' tr' = results_sent idx' tr +
        (if an_ret (env tr1 (Lua ''luaL_loadbuffer'' [LuaString (cstr s), LuaString ''string''])) \<noteq> 0 then 2 else 1))"
proof -
  obtain res tr1 where m: "send_msg env ipc (MsgLuaInfo (idx + 1)) tr = (res, tr1)" by (metis prod.exhaust)
  let ?c = "Lua ''luaL_loadbuffer'' [LuaString (cstr s), LuaString ''string'']"
  have ok: "res = GHR_OK" "idx' = idx + 1" "lua_executeloaded env ipc (idx + 1) (an_ret (env tr1 ?c)) ((?c, env tr1 ?c) # tr1) = Some (GHR_OK, tr')"
    using assms m by (auto simp: lua_executestring_def lua_sendinfomsg_def lua_def syscall_pair ghr_simps split: if_splits)
  have "extends no_send tr1 ((?c, env tr1 ?c) # tr1)" by (auto intro!: extends_call)
  from no_send_counts [OF this] executeloaded_results [OF ok(3)] send_msg_counts [OF m] ok(1,2) show ?thesis
    by (auto intro: exI [of _ tr1])
qed

section \<open>The host\<close>

text \<open>The host that starts a script and receives a result, as it is left over, does not get an identifier.\<close>

lemma start_leftover:
  assumes "gh_ipc_send env (th_ipc thread) msg (ipcmsg_sizeof msg) tr = (GHR_OK, tr1)"
    and "gh_ipc_recv env (th_ipc thread) GH_THREAD_LUAINFO_TIMEOUTMS tr1 = (GHR_OK, (Some (MsgLuaResult r), tr2))"
  shows "thread_start env thread msg tr = (GHR_THREAD_EXPECTEDLUAINFO, (None, tr2))"
  using assms by (simp add: thread_start_def thread_recvinfo_def ghr_simps)

end
