(* ===== verification/JailProps.thy ===== *)
theory JailProps
  imports SubjailFacts HostProps
begin

text \<open>
  What the sandboxed side promises: which calls are left to its processes once they are locked down,
  how a script is answered, how the options reach the jail, and what a failed fork does to the host.
\<close>

section \<open>The filters\<close>

text \<open>C7.
  The filter of the jail lets exactly the calls of its list through, for one architecture; a process of
  the sandbox, under both filters, loses waiting and killing, and still may \<^verbatim>\<open>clone\<close>, by which the C
  library forks.
\<close>

theorem filters_allow:
  "(seccomp_allows [jail_filter] d \<longleftrightarrow> jail_allows d) \<and>
   (seccomp_allows [subjail_filter, jail_filter] d \<longleftrightarrow> jail_allows d \<and> sd_nr d \<noteq> SYS_wait4 \<and> sd_nr d \<noteq> SYS_kill) \<and>
   seccomp_allows [subjail_filter, jail_filter] \<lparr>sd_nr = SYS_clone, sd_arch = AUDIT_ARCH_X86_64, sd_args = args\<rparr>"
  by (simp add: jail_filter_allows subjail_filters_allow jail_allows_def jail_syscalls_def)

section \<open>The jail\<close>

text \<open>What the jail does before it is locked down\<close>

definition setup_call :: "call \<Rightarrow> bool" where
  "setup_call c \<longleftrightarrow>
     (case c of SignalIgnore s \<Rightarrow> s = SIGCHLD | Read _ _ \<Rightarrow> True | Getenv _ \<Rightarrow> True | SetNoNewPrivs \<Rightarrow> True | Setrlimit _ \<Rightarrow> True
      | Seccomp f \<Rightarrow> f = jail_filter | _ \<Rightarrow> False)"

lemma setup_steps [simp, intro]:
  assumes "extends setup_call tr0 tr"
  shows "extends setup_call tr0 ((SignalIgnore SIGCHLD, a) # tr)" "extends setup_call tr0 ((Read fd n, a) # tr)"
    "extends setup_call tr0 ((Getenv s, a) # tr)" "extends setup_call tr0 ((SetNoNewPrivs, a) # tr)"
    "extends setup_call tr0 ((Setrlimit m, a) # tr)" "extends setup_call tr0 ((Seccomp jail_filter, a) # tr)"
  using assms by (auto simp: setup_call_def)

lemma readfrom_setup: "gh_sandboxoptions_readfrom env fd o0 tr = (res, (opts, tr')) \<Longrightarrow> extends setup_call tr0 tr \<Longrightarrow> extends setup_call tr0 tr'"
  by (auto simp: gh_sandboxoptions_readfrom_def syscall_pair Let_def split: if_splits)

lemma lockdown_setup: "gh_jail_lockdown env m tr = (res, tr') \<Longrightarrow> extends setup_call tr0 tr \<Longrightarrow> extends setup_call tr0 tr'"
  by (auto simp: gh_jail_lockdown_def syscall_pair Let_def split: if_splits)

lemma jail_main_locked:
  "gives (jail_main env img argv tr) (\<lambda>(status, tr').
     (\<exists>limit tr0 tr1. gh_jail_lockdown env limit tr0 = (GHR_OK, tr1) \<and> extends setup_call tr tr1 \<and>
        extends (allowed_call [jail_filter]) tr1 tr') \<or>
     status = 3 \<and> extends setup_call tr tr')"
proof -
  let ?P = "allowed_call [jail_filter]"
  have msgs: "gives (case msg of Some (MsgHello _) \<Rightarrow> m | _ \<Rightarrow> n) Q" if "gives m Q" "gives n Q" for msg m n Q
    using that by (simp split: option.split gh_ipcmsg.split)
  have fin: "\<exists>limit tr0 tr1. gh_jail_lockdown env limit tr0 = (GHR_OK, tr1) \<and> extends setup_call tr tr1 \<and> extends ?P tr1 d"
    if "gh_sandboxoptions_readfrom env fd o0 ((SignalIgnore SIGCHLD, x) # tr) = (ro, (opts, a))" "gh_jail_lockdown env l a = (GHR_OK, b)"
      "gh_ipc_recv env ipc t b = (r, (m, c))" "extends ?P c d" for fd o0 x ro opts l a b ipc t r m c d
  proof -
    have "extends setup_call tr b" using lockdown_setup [OF that(2) readfrom_setup [OF that(1)]] by simp
    then show ?thesis using that(2) jail.recv_extends [OF that(3) extends_refl] that(4) by (meson extends_trans)
  qed
  have opts: "extends setup_call tr a" if "gh_sandboxoptions_readfrom env fd o0 ((SignalIgnore SIGCHLD, x) # tr) = (ro, (opts, a))"
    for fd o0 x ro opts a
    using readfrom_setup [OF that] by simp
  have lock: "extends setup_call tr b"
    if "gh_sandboxoptions_readfrom env fd o0 ((SignalIgnore SIGCHLD, x) # tr) = (ro, (opts, a))" "gh_jail_lockdown env l a = (r, b)"
    for fd o0 x ro opts a l r b
    using lockdown_setup [OF that(2) opts [OF that(1)]] .
  show ?thesis
    unfolding jail_main_def Let_def syscall_pair prod.case
    by (intro gives_if gives_prod msgs gives_map [OF jail_loop_extends])
      (auto intro: fin fin [OF _ _ _ extends_refl] opts lock split: outcome.splits)
qed

text \<open>C2.
  The jail with all its sandboxed processes, run after run: until it is locked down it only sets itself
  up, and after that, with its filter installed unless the environment switches it off, it makes no call
  that the filter does not let through.
\<close>

theorem jail_stays_inside:
  assumes "jail_main env img argv tr = Some (status, tr')"
  shows "(\<exists>limit tr0 tr1. gh_jail_lockdown env limit tr0 = (GHR_OK, tr1) \<and> extends setup_call tr tr1 \<and>
        (lockdown_off env tr0 \<or> installed_filters tr1 = jail_filter # installed_filters tr0) \<and>
        extends (allowed_call [jail_filter]) tr1 tr') \<or>
     status = 3 \<and> extends setup_call tr tr'"
proof -
  have i: "lockdown_off env tr0 \<or> installed_filters tr1 = jail_filter # installed_filters tr0"
    if "gh_jail_lockdown env limit tr0 = (GHR_OK, tr1)" for limit tr0 tr1
    using jail_lockdown_result [of env limit tr0] that by auto
  from givesD [OF jail_main_locked assms] show ?thesis unfolding prod.case using i by blast
qed

definition jail_env :: env where
  "jail_env tr c = (case c of
     Read fd n \<Rightarrow> (plain_answer 280)\<lparr>an_data := replicate 280 NUL\<rparr>
   | Getenv s \<Rightarrow> plain_answer (- 1)
   | Recvmsg fd \<Rightarrow> (plain_answer 8)\<lparr>an_msg := if recv_count tr = 0 then MsgHello 1 else MsgQuit\<rparr>
   | Poll fds t \<Rightarrow> plain_answer 1
   | _ \<Rightarrow> plain_answer 0)"

lemma jail_env_answers:
  "jail_env tr (Read fd n) = (plain_answer 280)\<lparr>an_data := replicate 280 NUL\<rparr>" "jail_env tr (Getenv s) = plain_answer (- 1)"
  "jail_env tr (Recvmsg fd) = (plain_answer 8)\<lparr>an_msg := if recv_count tr = 0 then MsgHello 1 else MsgQuit\<rparr>"
  "jail_env tr (Poll fds t) = plain_answer 1" "jail_env tr SetNoNewPrivs = plain_answer 0"
  "jail_env tr (Seccomp f) = plain_answer 0" "jail_env tr (SignalIgnore sig) = plain_answer 0"
  "jail_env tr (Lua func args) = plain_answer 0" "jail_env tr (Sendmsg fd m k control) = plain_answer 0"
  "jail_env tr (Close fd) = plain_answer 0" "jail_env tr Getpid = plain_answer 0"
  by (simp_all add: jail_env_def)

lemma plain_answer_simps: "an_ret (plain_answer r) = r" "an_trunc (plain_answer r) = False" "an_data (plain_answer r) = []"
  by (simp_all add: plain_answer_def)

definition ex_image :: jail_image where
  "ex_image = \<lparr>ji_ipc_line = ''ipc'', ji_luainit = ''init'', ji_luastdlib = ''lib''\<rparr>"

lemma jail_env_main: "\<exists>tr'. jail_main jail_env ex_image [''jail'', ''3''] [] = Some (0, tr')"
proof -
  have fd: "c_strtoimax ''3'' = 3"
    by (simp add: c_strtoimax_def cstr_def c_blank_def digits_value_def c_digit_def Let_def)
  have opts: "so_memory_limit_bytes (sandboxoptions_of (replicate 280 NUL)) = 0"
    by (simp add: sandboxoptions_of_def numeral_eq_Suc)
  show ?thesis
    by (simp add: jail_main_def fd opts jail_env_answers syscall_pair gh_sandboxoptions_readfrom_def plain_answer_simps ghr_simps
        gh_ipc_ctorconnect_def gh_jail_lockdown_def sandbox_disabled_def gh_ipc_recv_def ipc_recvmsg_def basic_sanitize_msg_def
        prepare_cmsg_def ipcmsg_fd_def jail_loop.simps jail_message_recv_def recv_count_def Let_def)
qed

theorem jail_stays_inside_witness:
  "\<exists>tr1 tr'. jail_main jail_env ex_image [''jail'', ''3''] [] = Some (0, tr') \<and> extends (allowed_call [jail_filter]) tr1 tr' \<and>
     extends setup_call [] tr1"
proof -
  obtain tr' where m: "jail_main jail_env ex_image [''jail'', ''3''] [] = Some (0, tr')" using jail_env_main ..
  from jail_stays_inside [OF m] m show ?thesis by auto
qed

text \<open>C3.
  A sandboxed process, from its own lockdown on, makes only calls that both filters let through: whatever
  messages it receives, however its scripts and calls end.
\<close>

theorem subjail_stays_inside:
  assumes "gh_subjail_main env line init stdlib ipc parent idx tr = Some (status, tr')"
  shows "\<exists>res0 tr0 res tr1. gh_ipc_dtor env parent tr = (res0, tr0) \<and> gh_subjail_lockdown env tr0 = (res, tr1) \<and>
     (res0 \<noteq> GHR_OK \<and> status = 3 \<and> tr' = tr0 \<or>
      res0 = GHR_OK \<and> res \<noteq> GHR_OK \<and> status = 3 \<and> tr' = tr1 \<or>
      res0 = GHR_OK \<and> res = GHR_OK \<and>
      (lockdown_off env tr0 \<or> installed_filters tr1 = subjail_filter # installed_filters tr0) \<and>
      extends (allowed_call [subjail_filter, jail_filter]) tr1 tr')"
proof -
  from subjail.subjail_main_extends [OF assms] obtain res0 tr0 res tr1 where
    e: "gh_ipc_dtor env parent tr = (res0, tr0)" "gh_subjail_lockdown env tr0 = (res, tr1)"
    "res0 \<noteq> GHR_OK \<and> status = 3 \<and> tr' = tr0 \<or> res0 = GHR_OK \<and> res \<noteq> GHR_OK \<and> status = 3 \<and> tr' = tr1 \<or>
     res0 = GHR_OK \<and> res = GHR_OK \<and> extends (allowed_call [subjail_filter, jail_filter]) tr1 tr'" by blast
  have "lockdown_off env tr0 \<or> installed_filters tr1 = subjail_filter # installed_filters tr0" if "res = GHR_OK"
    using subjail_lockdown_result [of env tr0] that e(2) by auto
  with e show ?thesis by blast
qed

definition sub_ipc :: gh_ipc where
  "sub_ipc = \<lparr>ip_mode = GH_IPCMODE_CHILD, ip_sockfd = 6\<rparr>"

theorem subjail_stays_inside_witness:
  "\<exists>tr1 tr'. gh_subjail_main jail_env ''ipc'' ''init'' ''lib'' sub_ipc sub_ipc 0 [] = Some (0, tr') \<and>
     extends (allowed_call [subjail_filter, jail_filter]) tr1 tr'"
proof -
  obtain tr' where m: "gh_subjail_main jail_env ''ipc'' ''init'' ''lib'' sub_ipc sub_ipc 0 [] = Some (0, tr')"
    by (simp add: gh_subjail_main_def gh_ipc_dtor_def jail_env_answers plain_answer_simps syscall_pair gh_subjail_lockdown_def sandbox_disabled_def
        lua_init_def lua_def gh_lua_pcall_def send_msg_def gh_ipc_send_def prepare_cmsg_def ipcmsg_fd_def gh_ipc_recv_def
        ipc_recvmsg_def basic_sanitize_msg_def subjail_loop.simps subjail_message_recv_def sub_ipc_def recv_count_def ghr_simps Let_def)
  from subjail_stays_inside [OF m] m show ?thesis
    by (auto simp: gh_ipc_dtor_def gh_subjail_lockdown_def jail_env_answers plain_answer_simps syscall_pair sandbox_disabled_def Let_def)
qed

section \<open>Scripts\<close>

text \<open>C35.
  A script that is sent as a string gets the next identifier, which is announced once, and one result -
  but two when it could not be loaded, because it is executed all the same.
\<close>

theorem script_results:
  assumes "lua_executestring env ipc s (idx, tr) = Some (GHR_OK, (idx', tr'))"
  shows "idx' = idx + 1 \<and> infos_sent tr' = idx' # infos_sent tr \<and>
     (\<exists>tr1. results_sent idx' tr' = results_sent idx' tr +
        (if an_ret (env tr1 (Lua ''luaL_loadbuffer'' [LuaString (cstr s), LuaString ''string''])) \<noteq> 0 then 2 else 1))"
  by (rule executestring_results [OF assms])

text \<open>An interpreter that cannot load anything\<close>

definition load_env :: env where
  "load_env tr c = (case c of Lua f args \<Rightarrow> plain_answer (if f = ''luaL_loadbuffer'' then 3 else 0) | _ \<Rightarrow> plain_answer 0)"

lemma load_env_answers:
  "load_env tr (Lua f args) = plain_answer (if f = ''luaL_loadbuffer'' then 3 else 0)" "load_env tr (Sendmsg fd m k control) = plain_answer 0"
  by (simp_all add: load_env_def)

theorem script_results_witness:
  "\<exists>tr'. lua_executestring load_env sub_ipc ''x ='' (0, []) = Some (GHR_OK, (1, tr')) \<and> results_sent 1 tr' = 2"
proof -
  obtain tr' where e: "lua_executestring load_env sub_ipc ''x ='' (0, []) = Some (GHR_OK, (1, tr'))"
    by (simp add: lua_executestring_def lua_sendinfomsg_def lua_executeloaded_def lua_execute_def lua_def gh_lua_pcall_def
        send_msg_def gh_ipc_send_def prepare_cmsg_def ipcmsg_fd_def luaresult_def load_env_answers plain_answer_simps
        syscall_pair sub_ipc_def ghr_simps Let_def)
  from script_results [OF e] e show ?thesis
    by (auto simp: load_env_answers plain_answer_simps results_sent_def)
qed

text \<open>
  The host that starts a script while a result is left over - the second one of a script that could not
  be loaded - takes the result for the announcement: the new script is refused, though it was sent.
\<close>

theorem leftover_result_refuses:
  assumes "gh_ipc_send env (th_ipc thread) msg (ipcmsg_sizeof msg) tr = (GHR_OK, tr1)"
    and "gh_ipc_recv env (th_ipc thread) GH_THREAD_LUAINFO_TIMEOUTMS tr1 = (GHR_OK, (Some (MsgLuaResult r), tr2))"
  shows "thread_start env thread msg tr = (GHR_THREAD_EXPECTEDLUAINFO, (None, tr2))"
  by (rule start_leftover [OF assms])

definition leftover :: gh_ipcmsg_luaresult where
  "leftover = \<lparr>lr_result = GHR_OK, lr_error_msg = replicate GH_IPCMSG_LUARESULT_ERRORMSGMAX NUL, lr_script_id = 0, lr_return_ptr = 0\<rparr>"

definition leftover_env :: env where
  "leftover_env tr c = (case c of
     Recvmsg fd \<Rightarrow> (plain_answer 1000)\<lparr>an_msg := MsgLuaResult leftover\<rparr>
   | Poll fds t \<Rightarrow> plain_answer 1 | _ \<Rightarrow> plain_answer 0)"

theorem leftover_result_refuses_witness:
  "\<exists>tr'. thread_start leftover_env ex_thread (MsgLuaString (char_array 4096 ''return'')) [] = (GHR_THREAD_EXPECTEDLUAINFO, (None, tr'))"
proof -
  let ?m = "MsgLuaString (char_array 4096 ''return'')"
  obtain tr1 where s: "gh_ipc_send leftover_env (th_ipc ex_thread) ?m (ipcmsg_sizeof ?m) [] = (GHR_OK, tr1)"
    by (simp add: gh_ipc_send_def prepare_cmsg_def ipcmsg_fd_def syscall_pair leftover_env_def plain_answer_simps ghr_simps Let_def)
  obtain r tr2 where "gh_ipc_recv leftover_env (th_ipc ex_thread) GH_THREAD_LUAINFO_TIMEOUTMS tr1 = (GHR_OK, (Some (MsgLuaResult r), tr2))"
    by (simp add: gh_ipc_recv_def ipc_recvmsg_def basic_sanitize_msg_def prepare_cmsg_def ipcmsg_fd_def syscall_pair leftover_env_def
        plain_answer_simps ghr_simps Let_def)
  from leftover_result_refuses [OF s this] show ?thesis by blast
qed

section \<open>The sandbox\<close>

text \<open>
  The options the host has written for the jail, with any padding, are the options that the jail reads.
\<close>

theorem options_cross:
  assumes "length (so_name options) = GHOST_SANDBOXOPTIONS_NAME_MAX" "length pad = 4"
    and "an_data (env tr (Read fd 280)) = sandboxoptions_bytes pad options" "an_ret (env tr (Read fd 280)) = int (length (sandboxoptions_bytes pad options))"
  shows "gh_sandboxoptions_readfrom env fd old tr = (GHR_OK, (options, (Read fd 280, env tr (Read fd 280)) # tr))"
proof -
  have "length (sandboxoptions_bytes pad options) = 280" using assms(1,2) by (simp add: sandboxoptions_bytes_def)
  with options_roundtrip [OF assms(1)] assms(3,4) show ?thesis
    by (simp add: gh_sandboxoptions_readfrom_def syscall_pair ghr_simps)
qed

definition ex_options :: gh_sandboxoptions where
  "ex_options = sb_options (th_sandbox ex_thread)"

theorem options_cross_witness:
  "\<exists>tr'. gh_sandboxoptions_readfrom (\<lambda>tr c. (plain_answer 280)\<lparr>an_data := sandboxoptions_bytes ''pads'' ex_options\<rparr>) 3 ex_options [] =
     (GHR_OK, (ex_options, tr'))"
proof -
  have n: "length (so_name ex_options) = GHOST_SANDBOXOPTIONS_NAME_MAX" by (simp add: ex_options_def ex_thread_def)
  from options_cross [OF n, of "''pads''" "\<lambda>tr c. (plain_answer 280)\<lparr>an_data := sandboxoptions_bytes ''pads'' ex_options\<rparr>" "[]" 3 ex_options]
  show ?thesis using n by (simp add: plain_answer_simps sandboxoptions_bytes_def)
qed

text \<open>C36.
  A fork that fails is taken for a child with the process id -1: when the other socket is closed, the
  sandbox is made with this id; when it cannot be closed, every process that the host may signal is killed.
\<close>

theorem failed_fork_unnoticed:
  assumes "gh_embeddedjail_available exe" "an_ret (env tr Socketpair) \<ge> 0"
    and "tr1 = (Socketpair, env tr Socketpair) # tr" "an_ret (env tr1 Fork) = - 1"
    and "tr2 = (Fork, env tr1 Fork) # tr1" "close = Close (an_peer (env tr Socketpair))"
    and "gh_sandbox_ctor env exe pad sandbox options tr = (out, tr')"
  shows "if an_ret (env tr2 close) < 0
     then \<exists>a. (Kill (- 1) SIGKILL, a) \<in> set tr'
     else \<exists>res sandbox'. out = Returns (res, sandbox') \<and> sb_pid sandbox' = - 1"
  using assms
  by (auto simp: gh_sandbox_ctor_def gh_ipc_ctor_def gh_ipc_dtor_def gh_sandbox_ctor_parent_def syscall_pair Let_def
      split: if_splits prod.splits)

definition nofork_env :: env where
  "nofork_env tr c = (case c of Fork \<Rightarrow> plain_answer (- 1) | Close fd \<Rightarrow> plain_answer (- 1) | _ \<Rightarrow> plain_answer 0)"

theorem failed_fork_unnoticed_witness:
  "\<exists>a. (Kill (- 1) SIGKILL, a) \<in> set (snd (gh_sandbox_ctor nofork_env ''ELF'' [] (th_sandbox ex_thread) ex_options []))"
  using failed_fork_unnoticed [of "''ELF''" nofork_env "[]", OF _ _ refl _ refl refl prod.collapse [symmetric], of "[]" "th_sandbox ex_thread" ex_options]
  by (simp add: gh_embeddedjail_available_def nofork_env_def plain_answer_simps)

end
