(* ===== verification/TypeSystem.thy ===== *)
theory TypeSystem
  imports ByteBuffer Strings
begin

text \<open>
  The registry of C types (\<^verbatim>\<open>typesystem.c\<close>): types are found by their names, the types of pointers
  and arrays are derived from their names, and a value is copied with all that it points to from
  another address space by a callback. No other file of the library uses it.
\<close>

section \<open>Types\<close>

abbreviation (input) GH_TSTYPE_MAXNAME :: nat where "GH_TSTYPE_MAXNAME \<equiv> 256"

record gh_tstype_struct_field =
  sf_name :: string
  sf_type :: string
  sf_offset :: int

record gh_tstype_taggedunion_field =
  uf_name :: string
  uf_type :: string
  uf_tag :: int

text \<open>
  The kind and the member of the union that goes with it; a kind that is no enumerator is treated like
  \<open>GH_TSTYPE_INVALID\<close> everywhere.
\<close>

datatype gh_tstype_kind =
  GH_TSTYPE_INVALID
| GH_TSTYPE_PRIMITIVE size_t
| GH_TSTYPE_STATICARRAY size_t string
| GH_TSTYPE_STRUCT size_t size_t "gh_tstype_struct_field list"
| GH_TSTYPE_TAGGEDUNION size_t size_t "gh_tstype_taggedunion_field list"
| GH_TSTYPE_POINTER string
| GH_TSTYPE_ARRAYPOINTER string

record gh_tstype =
  ty_name :: string
  ty_kind :: gh_tstype_kind

type_synonym gh_ts = "gh_tstype gh_dynamicarray"

text \<open>\<open>element_size\<close> is \<^verbatim>\<open>sizeof(gh_tstype)\<close>.\<close>

definition ts_daopts :: "gh_tstype gh_dynamicarrayoptions" where
  "ts_daopts = \<lparr>initial_capacity = 128, max_capacity = 1024 * 1024 * 10, element_size = 16920, dtorelement_func = None\<rparr>"

definition gh_ts_ctor :: "gh_alloc \<Rightarrow> gh_ts \<Rightarrow> gh_result \<times> gh_ts" where
  "gh_ts_ctor al ts = gh_dynamicarray_ctor al ts_daopts ts"

definition gh_ts_dtor :: "gh_alloc \<Rightarrow> gh_ts \<Rightarrow> (gh_result \<times> gh_ts) option" where
  "gh_ts_dtor al ts = gh_dynamicarray_dtor al ts_daopts ts"

section \<open>Names\<close>

definition ts_name_is :: "gh_tstype \<Rightarrow> string \<Rightarrow> size_t \<Rightarrow> bool" where
  "ts_name_is type name name_len \<longleftrightarrow>
     c_strlen (ty_name type) = name_len \<and> strncmp_eq (ty_name type) name (unat name_len)"

text \<open>The index of the first type of the name from \<open>i\<close> on\<close>

function ts_find :: "gh_ts \<Rightarrow> string \<Rightarrow> size_t \<Rightarrow> nat \<Rightarrow> nat option option" where
  "ts_find ts name name_len i =
     (if i < unat (da_size ts) then
        Option.bind (da_deref ts (da_block ts, i)) (\<lambda>type.
        if ts_name_is type name name_len then Some (Some i) else ts_find ts name name_len (Suc i))
      else Some None)"
  by pat_completeness auto
termination
  by (relation "measure (\<lambda>(ts, name, name_len, i). unat (da_size ts) - i)") auto

declare ts_find.simps [simp del]

text \<open>The pointer is \<^verbatim>\<open>*out_type\<close>, when it is stored.\<close>

definition gh_ts_findbyname :: "gh_ts \<Rightarrow> string \<Rightarrow> size_t \<Rightarrow> (gh_result \<times> da_ptr option) option" where
  "gh_ts_findbyname ts name name_len =
     (if name_len = 0 then Some (GHR_TS_EMPTYNAME, None)
      else
        map_option (\<lambda>found. case found of
            Some i \<Rightarrow> (GHR_OK, Some (da_block ts, i))
          | None \<Rightarrow> (GHR_TS_MISSINGTYPE, None))
          (ts_find ts name name_len 0))"

definition gh_ts_findbynamec :: "gh_ts \<Rightarrow> string \<Rightarrow> (gh_result \<times> da_ptr option) option" where
  "gh_ts_findbynamec ts name = gh_ts_findbyname ts name (c_strlen name)"

definition gh_ts_append :: "gh_alloc \<Rightarrow> gh_ts \<Rightarrow> gh_tstype \<Rightarrow> (gh_result \<times> gh_ts) option" where
  "gh_ts_append al ts type =
     Option.bind (gh_ts_findbyname ts (ty_name type) (c_strlen (ty_name type))) (\<lambda>(res, _).
     if ghr_is res GHR_OK then Some (GHR_TS_DUPLICATETYPE, ts)
     else if ghr_isnot res GHR_TS_MISSINGTYPE then Some (res, ts)
     else if chd (ty_name type) = NUL then Some (GHR_TS_EMPTYNAME, ts)
     else gh_dynamicarray_append al ts_daopts ts type)"

text \<open>The result of the removal is ignored.\<close>

definition gh_ts_remove :: "gh_ts \<Rightarrow> string \<Rightarrow> size_t \<Rightarrow> (gh_result \<times> gh_ts) option" where
  "gh_ts_remove ts name name_len =
     Option.bind (ts_find ts name name_len 0) (\<lambda>found.
     case found of
       Some i \<Rightarrow> map_option (\<lambda>(_, ts). (GHR_OK, ts)) (gh_dynamicarray_removeat ts_daopts ts (of_nat i))
     | None \<Rightarrow> Some (GHR_TS_MISSINGTYPE, ts))"

section \<open>Sizes\<close>

abbreviation (input) SIZEOF_POINTER :: size_t where "SIZEOF_POINTER \<equiv> 8"
abbreviation (input) SIZEOF_TAGGEDUNION :: size_t where "SIZEOF_TAGGEDUNION \<equiv> 8"
abbreviation (input) SIZEOF_ARRAYPOINTER :: size_t where "SIZEOF_ARRAYPOINTER \<equiv> 16"

text \<open>
  The second component is \<^verbatim>\<open>*out_size\<close>, when it is stored. \<^verbatim>\<open>gh_ts_sizec\<close> and \<^verbatim>\<open>gh_ts_size\<close> of the element of
  an array are inlined; an array that is its own element recurs for ever.
\<close>

partial_function (option) gh_ts_sizet :: "gh_ts \<Rightarrow> gh_tstype \<Rightarrow> (gh_result \<times> size_t option) option" where
  "gh_ts_sizet ts type =
     (case ty_kind type of
        GH_TSTYPE_INVALID \<Rightarrow> Some (GHR_TS_INVALIDTYPE, None)
      | GH_TSTYPE_PRIMITIVE n \<Rightarrow> Some (GHR_OK, Some n)
      | GH_TSTYPE_STATICARRAY count element_type \<Rightarrow>
          Option.bind (gh_ts_findbynamec ts element_type) (\<lambda>(res, found).
          case found of
            None \<Rightarrow> Some (res, None)
          | Some p \<Rightarrow>
              Option.bind (da_deref ts p) (\<lambda>element.
              Option.bind (gh_ts_sizet ts element) (\<lambda>(res, elt_size).
              case elt_size of
                None \<Rightarrow> Some (res, None)
              | Some n \<Rightarrow> Some (GHR_OK, Some (count * n)))))
      | GH_TSTYPE_STRUCT n field_count fs \<Rightarrow> Some (GHR_OK, Some n)
      | GH_TSTYPE_TAGGEDUNION union_size field_count fs \<Rightarrow> Some (GHR_OK, Some (SIZEOF_TAGGEDUNION + union_size))
      | GH_TSTYPE_POINTER element_type \<Rightarrow> Some (GHR_OK, Some SIZEOF_POINTER)
      | GH_TSTYPE_ARRAYPOINTER element_type \<Rightarrow> Some (GHR_OK, Some SIZEOF_POINTER))"

text \<open>The type of a name, and its size\<close>

definition ts_named :: "gh_ts \<Rightarrow> (gh_result \<times> da_ptr option) option \<Rightarrow>
    (gh_tstype \<Rightarrow> (gh_result \<times> 'a option) option) \<Rightarrow> (gh_result \<times> 'a option) option" where
  "ts_named ts found k =
     Option.bind found (\<lambda>(res, p). case p of None \<Rightarrow> Some (res, None) | Some p \<Rightarrow> Option.bind (da_deref ts p) k)"

definition gh_ts_size :: "gh_ts \<Rightarrow> string \<Rightarrow> size_t \<Rightarrow> (gh_result \<times> size_t option) option" where
  "gh_ts_size ts name name_len = ts_named ts (gh_ts_findbyname ts name name_len) (gh_ts_sizet ts)"

definition gh_ts_sizec :: "gh_ts \<Rightarrow> string \<Rightarrow> (gh_result \<times> size_t option) option" where
  "gh_ts_sizec ts name = gh_ts_size ts name (c_strlen name)"

section \<open>Derived types\<close>

text \<open>
  A name that ends in \<^verbatim>\<open>*\<close>, \<^verbatim>\<open>[]\<close> or \<^verbatim>\<open>[N]\<close>: the type it stands for and the buffer of the name of its element.
  \<open>erange\<close>: \<^verbatim>\<open>errno\<close> is \<^verbatim>\<open>ERANGE\<close> from an earlier call.
\<close>

definition ts_elementname :: "gh_str \<Rightarrow> size_t \<Rightarrow> gh_str option" where
  "ts_elementname s n =
     Option.bind (gh_str_trimrightchar (gh_str_trimrightn s n) CHR '' '') (\<lambda>s. map_option snd (gh_str_insertnull s))"

definition ts_derivedtype :: "string \<Rightarrow> (string \<Rightarrow> gh_tstype_kind) \<Rightarrow> gh_str \<Rightarrow> (gh_result \<times> (gh_tstype \<times> string) option) option" where
  "ts_derivedtype name kind s =
     Option.bind (c_strncpy (replicate GH_TSTYPE_MAXNAME NUL) 0 name (strlen name + 1)) (\<lambda>type_name.
     map_option (\<lambda>element_type. (GHR_OK, Some (\<lparr>ty_name = type_name, ty_kind = kind element_type\<rparr>, st_buffer s)))
       (c_strncpy (replicate GH_TSTYPE_MAXNAME NUL) 0 (st_buffer s) (unat (st_size s))))"

definition ts_derive :: "bool \<Rightarrow> string \<Rightarrow> (gh_result \<times> (gh_tstype \<times> string) option) option" where
  "ts_derive erange name =
     (let buf = cstr name @ [NUL]; s = gh_str_fromz buf (of_nat (length buf)) in
      if gh_str_endswithc s ''*'' 1 then
        Option.bind (ts_elementname s 1) (ts_derivedtype name GH_TSTYPE_POINTER)
      else if gh_str_endswithc s ''[]'' 2 then
        Option.bind (ts_elementname s 2) (ts_derivedtype name GH_TSTYPE_ARRAYPOINTER)
      else if gh_str_endswithc s '']'' 1 then
        Option.bind (gh_str_rpos s CHR ''['') (\<lambda>pos.
        case pos of
          None \<Rightarrow> Some (GHR_TS_MISSINGTYPE, None)
        | Some lbrace_pos \<Rightarrow>
            if of_nat lbrace_pos + 1 \<ge> st_size s then Some (GHR_TS_MISSINGTYPE, None)
            else
              Option.bind (gh_str_insertnull (gh_str_trimrightn s 1)) (\<lambda>(_, s).
              let len_str = drop (lbrace_pos + 1) (st_buffer s);
                  len_str_len = st_size s - 1 - of_nat lbrace_pos - 1;
                  (len_uintmax, range) = c_strtoumax len_str in
              if len_uintmax = - 1 \<and> (range \<or> erange) then Some (GHR_TS_MISSINGTYPE, None)
              else
                Option.bind (ts_elementname s (1 + len_str_len + 1)) (\<lambda>s.
                if len_uintmax > - 1 then Some (GHR_TS_ARRAYTOOBIG, None)
                else ts_derivedtype name (GH_TSTYPE_STATICARRAY len_uintmax) s)))
      else Some (GHR_TS_MISSINGTYPE, None))"

partial_function (option) ts_makederivatives_fromtypename ::
  "gh_alloc \<Rightarrow> bool \<Rightarrow> gh_ts \<Rightarrow> string \<Rightarrow> (gh_result \<times> gh_ts) option" where
  "ts_makederivatives_fromtypename al erange ts name =
     Option.bind (gh_ts_findbynamec ts name) (\<lambda>(res, _).
     if ghr_isok res then Some (GHR_OK, ts)
     else if ghr_isnot res GHR_TS_MISSINGTYPE then Some (res, ts)
     else
       Option.bind (ts_derive erange name) (\<lambda>(res, derived).
       case derived of
         None \<Rightarrow> Some (res, ts)
       | Some (type, buf) \<Rightarrow>
           Option.bind (gh_ts_append al ts type) (\<lambda>(res, ts).
           if ghr_iserr res then Some (res, ts) else ts_makederivatives_fromtypename al erange ts buf)))"

text \<open>
  The loops over the fields read the type through its pointer each time, and it lies in the array that
  the derived types are appended to: \<open>None\<close> once the array has moved.
\<close>

partial_function (option) ts_makederivatives_fields ::
  "gh_alloc \<Rightarrow> bool \<Rightarrow> da_ptr \<Rightarrow> size_t \<Rightarrow> gh_ts \<Rightarrow> (gh_result \<times> gh_ts) option" where
  "ts_makederivatives_fields al erange p i ts =
     Option.bind (da_deref ts p) (\<lambda>type.
     let field = (case ty_kind type of
                    GH_TSTYPE_STRUCT n field_count fs \<Rightarrow> Some (field_count, map sf_type fs)
                  | GH_TSTYPE_TAGGEDUNION n field_count fs \<Rightarrow> Some (field_count, map uf_type fs)
                  | _ \<Rightarrow> None) in
     Option.bind field (\<lambda>(field_count, types).
     if i < field_count then
       (if unat i < length types then
          Option.bind (ts_makederivatives_fromtypename al erange ts (types ! unat i)) (\<lambda>(res, ts).
          if ghr_iserr res then Some (res, ts) else ts_makederivatives_fields al erange p (i + 1) ts)
        else None)
     else Some (GHR_OK, ts)))"

definition ts_makederivatives :: "gh_alloc \<Rightarrow> bool \<Rightarrow> gh_ts \<Rightarrow> da_ptr \<Rightarrow> (gh_result \<times> gh_ts) option" where
  "ts_makederivatives al erange ts p =
     Option.bind (da_deref ts p) (\<lambda>type.
     case ty_kind type of
       GH_TSTYPE_INVALID \<Rightarrow> Some (GHR_TS_INVALIDTYPE, ts)
     | GH_TSTYPE_PRIMITIVE n \<Rightarrow> Some (GHR_OK, ts)
     | GH_TSTYPE_STATICARRAY count element_type \<Rightarrow> ts_makederivatives_fromtypename al erange ts element_type
     | GH_TSTYPE_STRUCT n field_count fs \<Rightarrow> ts_makederivatives_fields al erange p 0 ts
     | GH_TSTYPE_TAGGEDUNION n field_count fs \<Rightarrow> ts_makederivatives_fields al erange p 0 ts
     | GH_TSTYPE_POINTER element_type \<Rightarrow> ts_makederivatives_fromtypename al erange ts element_type
     | GH_TSTYPE_ARRAYPOINTER element_type \<Rightarrow> ts_makederivatives_fromtypename al erange ts element_type)"

text \<open>The loop goes on over the types that it appends.\<close>

partial_function (option) ts_makederivatives_loop ::
  "gh_alloc \<Rightarrow> bool \<Rightarrow> size_t \<Rightarrow> gh_ts \<Rightarrow> (gh_result \<times> gh_ts) option" where
  "ts_makederivatives_loop al erange i ts =
     (if i < da_size ts then
        Option.bind (ts_makederivatives al erange ts (da_block ts, unat i)) (\<lambda>(res, ts).
        if ghr_iserr res then Some (res, ts) else ts_makederivatives_loop al erange (i + 1) ts)
      else Some (GHR_OK, ts))"

definition gh_ts_makederivatives :: "gh_alloc \<Rightarrow> bool \<Rightarrow> gh_ts \<Rightarrow> (gh_result \<times> gh_ts) option" where
  "gh_ts_makederivatives al erange ts = ts_makederivatives_loop al erange 0 ts"

section \<open>The types of C\<close>

definition ts_builtin :: "(string \<times> size_t) list" where
  "ts_builtin =
     [(''char'', 1), (''signed char'', 1), (''unsigned char'', 1), (''short'', 2), (''unsigned short'', 2), (''int'', 4),
      (''unsigned int'', 4), (''long'', 8), (''unsigned long'', 8), (''long long'', 8), (''unsigned long long'', 8),
      (''float'', 4), (''double'', 8), (''long double'', 16), (''int8_t'', 1), (''uint8_t'', 1), (''int16_t'', 2),
      (''uint16_t'', 2), (''int32_t'', 4), (''uint32_t'', 4), (''int64_t'', 8), (''uint64_t'', 8)]"

fun ts_appendall :: "gh_alloc \<Rightarrow> gh_ts \<Rightarrow> gh_tstype list \<Rightarrow> (gh_result \<times> gh_ts) option" where
  "ts_appendall al ts [] = Some (GHR_OK, ts)"
| "ts_appendall al ts (type # types) =
     Option.bind (gh_ts_append al ts type) (\<lambda>(res, ts). if ghr_iserr res then Some (res, ts) else ts_appendall al ts types)"

definition ts_primitive :: "string \<Rightarrow> size_t \<Rightarrow> gh_tstype" where
  "ts_primitive name n = \<lparr>ty_name = name @ replicate (GH_TSTYPE_MAXNAME - length name) NUL, ty_kind = GH_TSTYPE_PRIMITIVE n\<rparr>"

definition gh_ts_loadbuiltin :: "gh_alloc \<Rightarrow> gh_ts \<Rightarrow> (gh_result \<times> gh_ts) option" where
  "gh_ts_loadbuiltin al ts = ts_appendall al ts (map (\<lambda>(name, n). ts_primitive name n) ts_builtin)"

section \<open>Retrieving values\<close>

text \<open>
  \<open>fetch\<close> is the callback with its user data: the result and the bytes it stores. \<open>place\<close> is where the blocks of
  the buffer lie, for the pointers that are stored in the value. Pointers into the buffer die when it
  grows, those to the value that is being copied included.
\<close>

type_synonym ts_fetch = "size_t \<Rightarrow> size_t \<Rightarrow> gh_result \<times> string"

definition ts_fetchto ::
  "ts_fetch \<Rightarrow> gh_bytebuffer \<Rightarrow> da_ptr \<Rightarrow> size_t \<Rightarrow> size_t \<Rightarrow> (gh_result \<times> gh_bytebuffer) option" where
  "ts_fetchto fetch buffer target addr n =
     (let (res, bytes) = fetch addr n in
      if ghr_iserr res then Some (res, buffer) else map_option (Pair res) (bb_memcpy buffer target (take (unat n) bytes)))"

text \<open>A type that is found by its name, with its size\<close>

definition ts_sizedtype :: "gh_ts \<Rightarrow> string \<Rightarrow> (gh_result \<times> (gh_tstype \<times> size_t) option) option" where
  "ts_sizedtype ts name =
     ts_named ts (gh_ts_findbynamec ts name) (\<lambda>type.
     map_option (\<lambda>(res, n). (res, map_option (Pair type) n)) (gh_ts_sizet ts type))"

text \<open>The loop over the fields, with what is done for each\<close>

fun each_field :: "('f \<Rightarrow> 's \<Rightarrow> (gh_result \<times> 's) option) \<Rightarrow> 'f list \<Rightarrow> 's \<Rightarrow> (gh_result \<times> 's) option" where
  "each_field k [] s = Some (GHR_OK, s)"
| "each_field k (f # fs) s =
     Option.bind (k f s) (\<lambda>(res, s). if ghr_iserr res then Some (res, s) else each_field k fs s)"

lemma each_field_mono [partial_function_mono]:
  assumes "\<And>f s. mono_option (\<lambda>g. k g f s)"
  shows "mono_option (\<lambda>g. each_field (k g) fs s)"
proof (induction fs arbitrary: s)
  case Nil
  show ?case by (simp add: option.const_mono)
next
  case (Cons f fs)
  have "mono_option (\<lambda>g. if ghr_iserr r then Some (r, s') else each_field (k g) fs s')" for r s'
    using Cons.IH by (cases "ghr_iserr r") (simp_all add: option.const_mono)
  then have "mono_option (\<lambda>g. case x of (res, s) \<Rightarrow> if ghr_iserr res then Some (res, s) else each_field (k g) fs s)" for x
    by (cases x) simp
  then show ?case unfolding each_field.simps using assms by (intro bind_mono) simp_all
qed

text \<open>\<^verbatim>\<open>(char*)target + offset\<close>; in front of the block it is no pointer of the buffer.\<close>

definition ptr_offset :: "da_ptr \<Rightarrow> int \<Rightarrow> da_ptr option" where
  "ptr_offset p offset = (if 0 \<le> int (snd p) + offset then Some (fst p, nat (int (snd p) + offset)) else None)"

definition ts_bytes_word :: "string \<Rightarrow> size_t" where
  "ts_bytes_word s = of_nat (le_nat (take 8 (s @ replicate 8 NUL)))"

partial_function (option) ts_retrieve ::
  "gh_alloc \<Rightarrow> ts_fetch \<Rightarrow> (da_ptr \<Rightarrow> size_t) \<Rightarrow> gh_ts \<Rightarrow> gh_tstype \<Rightarrow> da_ptr \<Rightarrow> size_t \<Rightarrow> size_t \<Rightarrow> gh_bytebuffer \<Rightarrow>
   (gh_result \<times> gh_bytebuffer) option" where
  "ts_retrieve al fetch place ts type target n addr buffer =
     (case ty_kind type of
        GH_TSTYPE_INVALID \<Rightarrow> Some (GHR_TS_INVALIDTYPE, buffer)
      | GH_TSTYPE_PRIMITIVE _ \<Rightarrow> ts_fetchto fetch buffer target addr n
      | GH_TSTYPE_STATICARRAY _ _ \<Rightarrow> ts_fetchto fetch buffer target addr n
      | GH_TSTYPE_STRUCT _ field_count fs \<Rightarrow>
          Option.bind
            (each_field (\<lambda>field buffer.
               Option.bind (ts_sizedtype ts (sf_type field)) (\<lambda>(res, sized).
               case sized of
                 None \<Rightarrow> Some (res, buffer)
               | Some (field_type, field_size) \<Rightarrow>
                   Option.bind (ptr_offset target (sf_offset field)) (\<lambda>field_target.
                   ts_retrieve al fetch place ts field_type field_target field_size (addr + word_of_int (sf_offset field)) buffer)))
               (take (unat field_count) fs) buffer)
            (\<lambda>(res, buffer).
             if ghr_isok res \<and> length fs < unat field_count then None else Some (res, buffer))
      | GH_TSTYPE_TAGGEDUNION _ _ _ \<Rightarrow> ts_fetchto fetch buffer target addr n
      | GH_TSTYPE_POINTER element_type \<Rightarrow>
          (let (res, bytes) = fetch addr SIZEOF_POINTER; element_addr = ts_bytes_word bytes in
           if ghr_iserr res then Some (res, buffer)
           else if element_addr = 0 then map_option (Pair res) (bb_memcpy buffer target (le_bytes 8 0))
           else
             Option.bind (ts_sizedtype ts element_type) (\<lambda>(res, sized).
             case sized of
               None \<Rightarrow> Some (res, buffer)
             | Some (element, elt_size) \<Rightarrow>
                 Option.bind (gh_bytebuffer_expand al buffer elt_size) (\<lambda>(res, buffer, out_ptr).
                 case out_ptr of
                   None \<Rightarrow> Some (res, buffer)
                 | Some element_target \<Rightarrow>
                     Option.bind (ts_retrieve al fetch place ts element element_target elt_size element_addr buffer)
                       (\<lambda>(res, buffer).
                        if ghr_iserr res then Some (res, buffer)
                        else map_option (Pair res) (bb_memcpy buffer target (le_bytes 8 (unat (place element_target))))))))
      | GH_TSTYPE_ARRAYPOINTER element_type \<Rightarrow>
          (let (res, bytes) = fetch addr SIZEOF_ARRAYPOINTER;
               count = ts_bytes_word bytes; ptr = ts_bytes_word (drop 8 bytes) in
           if ghr_iserr res then Some (res, buffer)
           else if ptr = 0 \<or> count = 0 then map_option (Pair res) (bb_memcpy buffer target (le_bytes 8 0 @ le_bytes 8 0))
           else
             Option.bind (ts_sizedtype ts element_type) (\<lambda>(res, sized).
             case sized of
               None \<Rightarrow> Some (res, buffer)
             | Some (element, elt_size) \<Rightarrow>
                 Option.bind (gh_bytebuffer_expand al buffer (elt_size * count)) (\<lambda>(res, buffer, out_ptr).
                 case out_ptr of
                   None \<Rightarrow> Some (res, buffer)
                 | Some array_target \<Rightarrow>
                     Option.bind (ts_retrieve al fetch place ts element array_target (elt_size * count) ptr buffer)
                       (\<lambda>(res, buffer).
                        if ghr_iserr res then Some (res, buffer)
                        else map_option (Pair res)
                          (bb_memcpy buffer target (le_bytes 8 (unat count) @ le_bytes 8 (unat (place array_target)))))))))"

text \<open>The pointer is \<^verbatim>\<open>*out_ptr\<close>, the begin of the buffer.\<close>

definition gh_ts_retrievet ::
  "gh_alloc \<Rightarrow> ts_fetch \<Rightarrow> (da_ptr \<Rightarrow> size_t) \<Rightarrow> gh_ts \<Rightarrow> gh_tstype \<Rightarrow> size_t \<Rightarrow> gh_bytebuffer \<Rightarrow>
   (gh_result \<times> gh_bytebuffer \<times> da_ptr option) option" where
  "gh_ts_retrievet al fetch place ts type addr buffer =
     Option.bind (gh_ts_sizet ts type) (\<lambda>(res, n).
     case n of
       None \<Rightarrow> Some (res, buffer, None)
     | Some n \<Rightarrow>
         Option.bind (gh_bytebuffer_expand al buffer n) (\<lambda>(res, buffer, out_ptr).
         case out_ptr of
           None \<Rightarrow> Some (res, buffer, None)
         | Some target \<Rightarrow>
             map_option (\<lambda>(res, buffer).
                 if ghr_iserr res then (res, buffer, None) else (GHR_OK, buffer, Some (da_block buffer, 0)))
               (ts_retrieve al fetch place ts type target n addr buffer)))"

definition gh_ts_retrieve ::
  "gh_alloc \<Rightarrow> ts_fetch \<Rightarrow> (da_ptr \<Rightarrow> size_t) \<Rightarrow> gh_ts \<Rightarrow> string \<Rightarrow> size_t \<Rightarrow> size_t \<Rightarrow> gh_bytebuffer \<Rightarrow>
   (gh_result \<times> gh_bytebuffer \<times> da_ptr option) option" where
  "gh_ts_retrieve al fetch place ts name name_len addr buffer =
     Option.bind (gh_ts_findbyname ts name name_len) (\<lambda>(res, p).
     case p of
       None \<Rightarrow> Some (res, buffer, None)
     | Some p \<Rightarrow> Option.bind (da_deref ts p) (\<lambda>type. gh_ts_retrievet al fetch place ts type addr buffer))"

definition gh_ts_retrievec ::
  "gh_alloc \<Rightarrow> ts_fetch \<Rightarrow> (da_ptr \<Rightarrow> size_t) \<Rightarrow> gh_ts \<Rightarrow> string \<Rightarrow> size_t \<Rightarrow> gh_bytebuffer \<Rightarrow>
   (gh_result \<times> gh_bytebuffer \<times> da_ptr option) option" where
  "gh_ts_retrievec al fetch place ts name addr buffer = gh_ts_retrieve al fetch place ts name (c_strlen name) addr buffer"

end
