(* ===== verification/TypeFacts.thy ===== *)
theory TypeFacts
  imports TypeSystem
begin

text \<open>
  The registry of types: its names stay distinct and are found, and what the names of derived types
  are cut down to.
\<close>

section \<open>Names\<close>

lemma strncmp_eq_cstr: "strncmp_eq a b n \<longleftrightarrow> strncmp_eq (cstr a) (cstr b) n"
proof (induction n arbitrary: a b)
  case 0
  then show ?case by simp
next
  case (Suc n)
  then show ?case by (cases a; cases b) (auto simp: cstr_def)
qed

lemma name_is_cstr:
  assumes "strlen (ty_name type) < 18446744073709551616" "strlen name < 18446744073709551616"
  shows "ts_name_is type name (c_strlen name) \<longleftrightarrow> cstr (ty_name type) = cstr name"
proof -
  have "c_strlen s = c_strlen (cstr s)" for s by (simp add: c_strlen_def strlen_def)
  then have "ts_name_is type name (c_strlen name) \<longleftrightarrow> gh_conststr_eqlzrz (cstr (ty_name type)) (cstr name)"
    by (auto simp: ts_name_is_def gh_conststr_eqlzrz_def Let_def strncmp_eq_cstr [of "ty_name type" name])
  with assms show ?thesis by (simp add: eqlzrz_exact strlen_def)
qed

definition ts_names :: "gh_ts \<Rightarrow> string list" where
  "ts_names ts = map (\<lambda>t. cstr (ty_name t)) (da_items ts)"

text \<open>A registry: the names lie in their arrays, are not empty, and are distinct.\<close>

definition ts_wf :: "gh_ts \<Rightarrow> bool" where
  "ts_wf ts \<longleftrightarrow>
     da_wf ts_daopts ts \<and> (\<forall>t \<in> set (da_items ts). length (ty_name t) \<le> GH_TSTYPE_MAXNAME) \<and>
     [] \<notin> set (ts_names ts) \<and> distinct (ts_names ts)"

lemma array_strlen: "length s \<le> 256 \<Longrightarrow> strlen s < 18446744073709551616"
proof -
  assume "length s \<le> 256"
  moreover have "strlen s \<le> length s" by (simp add: strlen_def cstr_def length_takeWhile_le)
  ultimately show ?thesis by simp
qed

lemma ts_find_result:
  assumes "da_wf ts_daopts ts"
  shows "i \<le> length (da_items ts) \<Longrightarrow>
     ts_find ts name n i = Some (List.find (\<lambda>k. ts_name_is (da_items ts ! k) name n) [i..<length (da_items ts)])"
proof (induction "length (da_items ts) - i" arbitrary: i)
  case 0
  then show ?case using da_items_length [OF assms] by (subst ts_find.simps) simp
next
  case (Suc k)
  then have i: "i < length (da_items ts)" by simp
  then have u: "[i..<length (da_items ts)] = i # [Suc i..<length (da_items ts)]" by (simp add: upt_conv_Cons)
  show ?case
    using Suc(1) [of "Suc i"] Suc(2) i u deref_items [OF assms i] da_items_length [OF assms]
    by (subst ts_find.simps) simp
qed

lemma findbynamec_result:
  assumes "ts_wf ts" "strlen name < 18446744073709551616" "cstr name \<noteq> []"
  shows "(\<exists>i < length (da_items ts). ts_names ts ! i = cstr name \<and> gh_ts_findbynamec ts name = Some (GHR_OK, Some (da_block ts, i))) \<or>
     cstr name \<notin> set (ts_names ts) \<and> gh_ts_findbynamec ts name = Some (GHR_TS_MISSINGTYPE, None)"
proof -
  have wf: "da_wf ts_daopts ts" using assms(1) by (simp add: ts_wf_def)
  have is_name: "ts_name_is (da_items ts ! k) name (c_strlen name) \<longleftrightarrow> ts_names ts ! k = cstr name" if "k < length (da_items ts)" for k
    using name_is_cstr [OF array_strlen assms(2)] that assms(1) by (simp add: ts_names_def ts_wf_def)
  have "c_strlen name \<noteq> 0"
    using assms(2,3) by (simp add: c_strlen_def strlen_def word_of_nat_eq_0_iff) (auto dest!: dvd_imp_le)
  then have f: "gh_ts_findbynamec ts name = (case List.find (\<lambda>k. ts_name_is (da_items ts ! k) name (c_strlen name)) [0..<length (da_items ts)] of
      Some i \<Rightarrow> Some (GHR_OK, Some (da_block ts, i)) | None \<Rightarrow> Some (GHR_TS_MISSINGTYPE, None))"
    using ts_find_result [OF wf, of 0 name "c_strlen name"]
    by (simp add: gh_ts_findbynamec_def gh_ts_findbyname_def split: option.split)
  show ?thesis
  proof (cases "List.find (\<lambda>k. ts_name_is (da_items ts ! k) name (c_strlen name)) [0..<length (da_items ts)]")
    case None
    then have "cstr name \<notin> set (ts_names ts)"
      using is_name by (auto simp: find_None_iff in_set_conv_nth ts_names_def)
    with None f show ?thesis by simp
  next
    case (Some i)
    then have "i < length (da_items ts)" "ts_names ts ! i = cstr name" using is_name by (auto simp: find_Some_iff)
    moreover have "gh_ts_findbynamec ts name = Some (GHR_OK, Some (da_block ts, i))" using f by (simp add: Some)
    ultimately show ?thesis by blast
  qed
qed

lemma findbynamec_missing:
  assumes "ts_wf ts" "strlen name < 18446744073709551616" "cstr name \<noteq> []" "cstr name \<notin> set (ts_names ts)"
  shows "gh_ts_findbynamec ts name = Some (GHR_TS_MISSINGTYPE, None)"
proof -
  have "ts_names ts ! i \<noteq> cstr name" if "i < length (da_items ts)" for i
  proof -
    have "i < length (ts_names ts)" using that by (simp add: ts_names_def)
    from nth_mem [OF this] assms(4) show ?thesis by metis
  qed
  with findbynamec_result [OF assms(1-3)] show ?thesis by blast
qed

lemma findbynamec_empty: "cstr name = [] \<Longrightarrow> gh_ts_findbynamec ts name = Some (GHR_TS_EMPTYNAME, None)"
  by (simp add: gh_ts_findbynamec_def gh_ts_findbyname_def c_strlen_def strlen_def)

lemma chd_cstr: "chd s = NUL \<longleftrightarrow> cstr s = []"
  by (cases s) (auto simp: cstr_def)

lemma ts_append_result:
  assumes "ts_wf ts" "da_room ts_daopts ts 1" "length (ty_name type) \<le> GH_TSTYPE_MAXNAME"
  shows "\<exists>res ts'. gh_ts_append al ts type = Some (res, ts') \<and> ts_wf ts' \<and> (res \<noteq> GHR_OK \<longrightarrow> ts' = ts) \<and>
     (res = GHR_OK \<longrightarrow> da_items ts' = da_items ts @ [type]) \<and>
     (cstr (ty_name type) \<in> set (ts_names ts) \<longrightarrow> res = GHR_TS_DUPLICATETYPE) \<and>
     (cstr (ty_name type) = [] \<longrightarrow> res = GHR_TS_EMPTYNAME)"
proof -
  have wf: "da_wf ts_daopts ts" using assms(1) by (simp add: ts_wf_def)
  have e: "gh_ts_append al ts type = Option.bind (gh_ts_findbynamec ts (ty_name type)) (\<lambda>(res, _).
     if ghr_is res GHR_OK then Some (GHR_TS_DUPLICATETYPE, ts)
     else if ghr_isnot res GHR_TS_MISSINGTYPE then Some (res, ts)
     else if chd (ty_name type) = NUL then Some (GHR_TS_EMPTYNAME, ts)
     else gh_dynamicarray_append al ts_daopts ts type)" by (simp add: gh_ts_append_def gh_ts_findbynamec_def)
  show ?thesis
  proof (cases "cstr (ty_name type) = []")
    case True
    with assms(1) findbynamec_empty [of "ty_name type" ts] show ?thesis
      by (simp add: e ghr_simps ghr_isnot_def ts_wf_def)
  next
    case False
    from findbynamec_result [OF assms(1) array_strlen [OF assms(3)] False] show ?thesis
    proof
      assume "\<exists>i < length (da_items ts). ts_names ts ! i = cstr (ty_name type) \<and>
        gh_ts_findbynamec ts (ty_name type) = Some (GHR_OK, Some (da_block ts, i))"
      then show ?thesis using assms(1) False by (auto simp: e ghr_simps)
    next
      assume n: "cstr (ty_name type) \<notin> set (ts_names ts) \<and> gh_ts_findbynamec ts (ty_name type) = Some (GHR_TS_MISSINGTYPE, None)"
      from append_result [OF wf assms(2), of al type] obtain r ts' where
        a: "gh_dynamicarray_append al ts_daopts ts type = Some (r, ts')" "da_wf ts_daopts ts'"
        "r = GHR_OK \<longrightarrow> da_items ts' = da_items ts @ [type]" "r \<noteq> GHR_OK \<longrightarrow> ts' = ts" by blast
      have "ts_wf ts'"
      proof (cases "r = GHR_OK")
        case True
        with a n assms(1,3) False show ?thesis by (auto simp: ts_wf_def ts_names_def)
      qed (use a assms(1) in simp)
      with a n False show ?thesis by (simp add: e ghr_simps ghr_isnot_def chd_cstr)
    qed
  qed
qed

text \<open>C39.
  Adding a type to a registry keeps the names distinct and not empty; the type is found under its name
  from then on, a name that is there already is refused, and nothing is changed by an error.
\<close>

theorem typesystem_names:
  assumes "ts_wf ts" "da_room ts_daopts ts 1" "length (ty_name type) \<le> GH_TSTYPE_MAXNAME"
  shows "\<exists>res ts'. gh_ts_append al ts type = Some (res, ts') \<and> ts_wf ts' \<and> (res \<noteq> GHR_OK \<longrightarrow> ts' = ts) \<and>
     (cstr (ty_name type) \<in> set (ts_names ts) \<longrightarrow> res = GHR_TS_DUPLICATETYPE) \<and>
     (res = GHR_OK \<longrightarrow> da_items ts' = da_items ts @ [type] \<and>
        gh_ts_findbynamec ts' (ty_name type) = Some (GHR_OK, Some (da_block ts', length (da_items ts))))"
proof -
  from ts_append_result [OF assms, of al] obtain res ts' where
    a: "gh_ts_append al ts type = Some (res, ts')" "ts_wf ts'" "res \<noteq> GHR_OK \<longrightarrow> ts' = ts"
    "res = GHR_OK \<longrightarrow> da_items ts' = da_items ts @ [type]"
    "cstr (ty_name type) \<in> set (ts_names ts) \<longrightarrow> res = GHR_TS_DUPLICATETYPE" by blast
  have "gh_ts_findbynamec ts' (ty_name type) = Some (GHR_OK, Some (da_block ts', length (da_items ts)))" if "res = GHR_OK"
  proof -
    have n: "ts_names ts' = ts_names ts @ [cstr (ty_name type)]" using a(4) that by (simp add: ts_names_def)
    then have "cstr (ty_name type) \<noteq> []" using a(2) by (auto simp: ts_wf_def)
    from findbynamec_result [OF a(2) array_strlen [OF assms(3)] this] n obtain i where
      i: "i < length (da_items ts')" "ts_names ts' ! i = cstr (ty_name type)"
      "gh_ts_findbynamec ts' (ty_name type) = Some (GHR_OK, Some (da_block ts', i))" by auto
    have "ts_names ts' ! length (da_items ts) = cstr (ty_name type)" using n by (simp add: nth_append ts_names_def)
    moreover have len: "length (ts_names ts') = Suc (length (da_items ts))" using n by (simp add: ts_names_def)
    moreover have "distinct (ts_names ts')" using a(2) by (simp add: ts_wf_def)
    moreover have "i < length (ts_names ts')" using i(1) by (simp add: ts_names_def)
    ultimately have "i = length (da_items ts)" using i(2) nth_eq_iff_index_eq [of "ts_names ts'" i "length (da_items ts)"] by simp
    with i(3) show ?thesis by simp
  qed
  with a show ?thesis by blast
qed

definition ex_types :: gh_ts where
  "ex_types = \<lparr>da_buffer = Some [ts_primitive ''int'' 4], da_capacity = 128, da_size = 1, da_block = 1\<rparr>"

lemma ex_types_wf: "ts_wf ex_types"
  by (simp add: ts_wf_def ex_types_def ts_names_def da_reserved_def da_items_def ts_daopts_def ts_primitive_def)
    (simp add: numeral_eq_Suc cstr_def)

lemma ex_types_room: "da_room ts_daopts ex_types 1"
  by (simp add: da_room_def ex_types_def ts_daopts_def)

theorem typesystem_names_witness:
  "\<exists>ts'. gh_ts_append ex_alloc ex_types (ts_primitive ''int'' 8) = Some (GHR_TS_DUPLICATETYPE, ts') \<and> ts_wf ts'"
proof -
  have "length (ty_name (ts_primitive ''int'' 8)) \<le> GH_TSTYPE_MAXNAME" by (simp add: ts_primitive_def)
  moreover have "cstr (ty_name (ts_primitive ''int'' 8)) \<in> set (ts_names ex_types)"
    by (simp add: ex_types_def ts_names_def da_items_def ts_primitive_def)
  ultimately show ?thesis using typesystem_names [OF ex_types_wf ex_types_room, of "ts_primitive ''int'' 8" ex_alloc] by auto
qed

section \<open>Derived types\<close>

lemma trimrightchar_frame: "gh_str_trimrightchar str c = Some str' \<Longrightarrow> st_buffer str' = st_buffer str \<and> st_capacity str' = st_capacity str"
  by (auto simp: gh_str_trimrightchar_def)

lemma trimrightn_wf: "st_wf str \<Longrightarrow> st_wf (gh_str_trimrightn str n)"
  by (auto simp: st_wf_def gh_str_trimrightn_def size_le_unat unat_sub_nowrap)

text \<open>What is left of the name of a pointer: the star is removed, and then as many characters as there are spaces.\<close>

definition cut_name :: "string \<Rightarrow> string" where
  "cut_name n = take (length (filter (\<lambda>c. c \<noteq> CHR '' '') n)) n"

lemma cut_name_length: "length (cut_name n) \<le> length n"
  by (simp add: cut_name_def)

lemma cut_name_nul_free: "nul_free n \<Longrightarrow> nul_free (cut_name n)"
  by (simp add: cut_name_def nul_free_take)

lemma name_str:
  assumes "nul_free m" "length m + 1 < 18446744073709551616"
  defines "s \<equiv> gh_str_fromz (m @ [NUL]) (of_nat (length m + 1))"
  shows "s = \<lparr>st_buffer = m @ [NUL], st_size = of_nat (length m), st_capacity = of_nat (length m + 1)\<rparr>"
    and "st_wf s" and "st_view s = m"
proof -
  have c: "cstr (m @ [NUL]) = m" using assms(1) by simp
  have len: "unat (of_nat (length m + 1) :: size_t) = length m + 1" "unat (of_nat (length m) :: size_t) = length m"
    using assms(2) by (simp_all only: unat_of_nat_nowrap)
  have sz: "c_strlen (m @ [NUL]) = of_nat (length m)" unfolding c_strlen_def strlen_def c by simp
  show s: "s = \<lparr>st_buffer = m @ [NUL], st_size = of_nat (length m), st_capacity = of_nat (length m + 1)\<rparr>"
    unfolding s_def gh_str_fromz_def gh_str_fromc_def sz Let_def size_less_unat len by simp
  show "st_wf s" unfolding s st_wf_def gh_str.simps size_le_unat len by simp
  show "st_view s = m" unfolding s st_view_def gh_str.simps len by simp
qed

lemma pointer_str:
  assumes "nul_free n" "length n + 2 < 18446744073709551616"
  defines "s \<equiv> gh_str_fromz (n @ ''*'' @ [NUL]) (of_nat (length n + 2))"
  shows "s = \<lparr>st_buffer = n @ ''*'' @ [NUL], st_size = of_nat (length n + 1), st_capacity = of_nat (length n + 2)\<rparr>"
    and "st_wf s" and "st_view s = n @ ''*''"
proof -
  have "(n @ ''*'') @ [NUL] = n @ ''*'' @ [NUL]" "length (n @ ''*'') + 1 = length n + 2" "length (n @ ''*'') = length n + 1" by simp_all
  with name_str [of "n @ ''*''"] assms(1,2)
  show "s = \<lparr>st_buffer = n @ ''*'' @ [NUL], st_size = of_nat (length n + 1), st_capacity = of_nat (length n + 2)\<rparr>"
    "st_wf s" "st_view s = n @ ''*''" unfolding s_def by auto
qed

lemma elementname_result:
  assumes "nul_free n" "length n + 2 < 18446744073709551616"
  shows "\<exists>s. ts_elementname (gh_str_fromz (n @ ''*'' @ [NUL]) (of_nat (length n + 2))) 1 = Some s \<and>
     cstr (st_buffer s) = cut_name n \<and> unat (st_size s) = length (cut_name n) + 1"
proof -
  let ?s = "gh_str_fromz (n @ ''*'' @ [NUL]) (of_nat (length n + 2))"
  note s = pointer_str(1) [OF assms] and wf = pointer_str(2) [OF assms] and view = pointer_str(3) [OF assms]
  have len: "unat (of_nat (length n + 2) :: size_t) = length n + 2"
    using assms(2) by (simp_all only: unat_of_nat_nowrap)
  let ?t = "gh_str_trimrightn ?s 1"
  have t: "st_wf ?t" "st_view ?t = n" using trimrightn_wf [OF wf] st_trimrightn_result [OF wf, of 1] view by simp_all
  from st_trimrightchar_result [OF t(1), of "CHR '' ''"] t(2) obtain u where
    u: "gh_str_trimrightchar ?t CHR '' '' = Some u" "st_view u = cut_name n" by (auto simp: cut_name_def)
  have frame: "st_buffer u = n @ ''*'' @ [NUL]" "st_capacity u = of_nat (length n + 2)"
    using trimrightchar_frame [OF u(1)] s by (simp_all add: gh_str_trimrightn_def)
  note k = cut_name_length [of n]
  have su: "unat (st_size u) = length (cut_name n)"
    using arg_cong [OF u(2), of length] k by (simp add: st_view_def frame(1) min_def split: if_splits)
  have pre: "take (length (cut_name n)) (n @ ''*'' @ [NUL]) = cut_name n" using k by (simp add: cut_name_def min_def)
  have cut: "cstr ((n @ ''*'' @ [NUL])[length (cut_name n) := NUL]) = cut_name n"
    using k pre cut_name_nul_free [OF assms(1)] by (simp add: upd_conv_take_nth_drop del: append_assoc)
  have "st_size u < st_capacity u" unfolding size_less_unat frame(2) len using k su by linarith
  then have "gh_str_insertnull u = Some (True, u\<lparr>st_buffer := (n @ ''*'' @ [NUL])[length (cut_name n) := NUL], st_size := st_size u + 1\<rparr>)"
    using k su by (simp add: gh_str_insertnull_def st_put_def frame(1))
  moreover have "unat (st_size u + 1) = length (cut_name n) + 1"
    using k su assms(2) by (simp add: unat_word_ariths)
  ultimately show ?thesis using u(1) cut by (simp add: ts_elementname_def)
qed

lemma strncpy_array:
  assumes "strlen src < n" "n \<le> 256"
  shows "\<exists>a. c_strncpy (replicate GH_TSTYPE_MAXNAME NUL) 0 src n = Some a \<and> cstr a = cstr src \<and> length a = 256"
proof -
  let ?a = "cells_write (replicate GH_TSTYPE_MAXNAME NUL) 0 (take n (cstr src) @ replicate (n - strlen src) NUL)"
  have t: "take n (cstr src) = cstr src" using assms(1) by (simp add: strlen_def)
  have r: "replicate (n - strlen src) NUL = NUL # replicate (n - strlen src - 1) NUL"
    using assms(1) by (cases "n - strlen src") simp_all
  have "cstr ?a = cstr src" unfolding cells_write_def t r by simp
  moreover have "length ?a = 256" using assms by (simp add: cells_write_def strlen_def)
  ultimately show ?thesis using assms(2) by (simp add: c_strncpy_def)
qed

lemma derive_pointer:
  assumes "nul_free n" "length n \<le> 254"
  shows "\<exists>type elt buf. ts_derive e (n @ ''*'') = Some (GHR_OK, Some (type, buf)) \<and>
     cstr (ty_name type) = n @ ''*'' \<and> length (ty_name type) = 256 \<and>
     ty_kind type = GH_TSTYPE_POINTER elt \<and> cstr elt = cut_name n \<and> cstr buf = cut_name n"
proof -
  have b: "length n + 2 < 18446744073709551616" using assms(2) by simp
  let ?s = "gh_str_fromz (n @ ''*'' @ [NUL]) (of_nat (length n + 2))"
  have c: "cstr (n @ ''*'') = n @ ''*''" using assms(1) by (simp add: cstr_nul_free)
  from elementname_result [OF assms(1) b] obtain s where
    s: "ts_elementname ?s 1 = Some s" "cstr (st_buffer s) = cut_name n" "unat (st_size s) = length (cut_name n) + 1" by blast
  have "gh_str_endswithc ?s ''*'' 1"
    using st_endswithc_result [OF pointer_str(2) [OF assms(1) b], of "''*''" 1] assms(1)
    by (simp add: pointer_str(3) [OF assms(1) b, simplified])
  then have d: "ts_derive e (n @ ''*'') = ts_derivedtype (n @ ''*'') GH_TSTYPE_POINTER s"
    using s(1) unfolding ts_derive_def c Let_def by simp
  from strncpy_array [of "n @ ''*''" "length n + 2"] assms(2) c obtain a where
    a: "c_strncpy (replicate GH_TSTYPE_MAXNAME NUL) 0 (n @ ''*'') (length n + 2) = Some a" "cstr a = n @ ''*''" "length a = 256"
    by (auto simp: strlen_def)
  from strncpy_array [of "st_buffer s" "unat (st_size s)"] assms(2) s(2,3) cut_name_length [of n] obtain elt where
    "c_strncpy (replicate GH_TSTYPE_MAXNAME NUL) 0 (st_buffer s) (unat (st_size s)) = Some elt" "cstr elt = cut_name n"
    by (auto simp: strlen_def)
  with a s(2) c show ?thesis by (simp add: d ts_derivedtype_def strlen_def)
qed

lemma names_append: "da_items ts' = da_items ts @ [type] \<Longrightarrow> ts_names ts' = ts_names ts @ [cstr (ty_name type)]"
  by (simp add: ts_names_def)

lemma derive_none:
  assumes "nul_free m" "length m + 1 < 18446744073709551616" "\<not> suffix ''*'' m" "\<not> suffix '']'' m" "cstr name = m"
  shows "ts_derive e name = Some (GHR_TS_MISSINGTYPE, None)"
proof -
  note w = name_str(2,3) [OF assms(1,2)]
  have "\<not> suffix ''[]'' m" using assms(4) by (auto simp: suffix_def)
  with st_endswithc_result [OF w(1), of "''*''" 1] st_endswithc_result [OF w(1), of "''[]''" 2]
    st_endswithc_result [OF w(1), of "'']''" 1] assms w(2) show ?thesis
    by (simp add: ts_derive_def Let_def)
qed

text \<open>A name that is the name of no derived type is looked up and nothing else.\<close>

lemma fromtypename_end:
  assumes "ts_wf ts" "nul_free m" "length m + 1 < 18446744073709551616" "cstr name = m"
    "m \<noteq> []" "\<not> suffix ''*'' m" "\<not> suffix '']'' m"
  shows "ts_makederivatives_fromtypename al e ts name =
     Some (if m \<in> set (ts_names ts) then GHR_OK else GHR_TS_MISSINGTYPE, ts)"
proof -
  have len: "strlen name < 18446744073709551616" using assms(3,4) by (simp add: strlen_def)
  show ?thesis
  proof (cases "m \<in> set (ts_names ts)")
    case True
    with findbynamec_result [OF assms(1) len] assms(4,5) show ?thesis
      by (subst ts_makederivatives_fromtypename.simps) (auto simp: ghr_simps)
  next
    case False
    with findbynamec_missing [OF assms(1) len] assms(4,5) derive_none [OF assms(2,3,6,7,4), of e] show ?thesis
      by (subst ts_makederivatives_fromtypename.simps) (simp add: ghr_simps ghr_isnot_def)
  qed
qed

text \<open>C40.
  The name of a pointer adds a pointer to the type whose name is left when the star and as many characters
  as the name has spaces are cut off: to the named type only when there are no spaces or they all stand in
  front of the star. When the registry has no type of the name that is left, which is the name of no derived
  type either, the result is an error, and the new type stays.
\<close>

theorem pointer_names_are_cut:
  assumes "ts_wf ts" "da_room ts_daopts ts 1" "nul_free n" "length n \<le> 254" "n @ ''*'' \<notin> set (ts_names ts)"
    "cut_name n \<noteq> []" "\<not> suffix ''*'' (cut_name n)" "\<not> suffix '']'' (cut_name n)"
  shows "\<exists>res ts'. ts_makederivatives_fromtypename al e ts (n @ ''*'') = Some (res, ts') \<and> ts_wf ts' \<and>
     (ts' \<noteq> ts \<longrightarrow>
        res = (if cut_name n \<in> set (ts_names ts) then GHR_OK else GHR_TS_MISSINGTYPE) \<and>
        (\<exists>type elt. da_items ts' = da_items ts @ [type] \<and> cstr (ty_name type) = n @ ''*'' \<and>
           ty_kind type = GH_TSTYPE_POINTER elt \<and> cstr elt = cut_name n)) \<and>
     (ts' = ts \<longrightarrow> res \<noteq> GHR_OK)"
proof -
  have c: "cstr (n @ ''*'') = n @ ''*''" using assms(3) by (simp add: cstr_nul_free)
  have "strlen (n @ ''*'') < 18446744073709551616" using assms(4) by (simp add: strlen_def c)
  from findbynamec_missing [OF assms(1) this] assms(5) have
    f: "gh_ts_findbynamec ts (n @ ''*'') = Some (GHR_TS_MISSINGTYPE, None)" by (simp add: c)
  from derive_pointer [OF assms(3,4), of e] obtain type elt buf where
    d: "ts_derive e (n @ ''*'') = Some (GHR_OK, Some (type, buf))" "cstr (ty_name type) = n @ ''*''"
    "length (ty_name type) = 256" "ty_kind type = GH_TSTYPE_POINTER elt" "cstr elt = cut_name n" "cstr buf = cut_name n"
    by blast
  from ts_append_result [OF assms(1,2), of type al] d(3) obtain res ts' where
    a: "gh_ts_append al ts type = Some (res, ts')" "ts_wf ts'" "res \<noteq> GHR_OK \<longrightarrow> ts' = ts"
    "res = GHR_OK \<longrightarrow> da_items ts' = da_items ts @ [type]" by auto
  have run: "ts_makederivatives_fromtypename al e ts (n @ ''*'') =
      (if ghr_iserr res then Some (res, ts') else ts_makederivatives_fromtypename al e ts' buf)"
    by (subst ts_makederivatives_fromtypename.simps) (simp add: f d(1) a(1) ghr_simps ghr_isnot_def)
  have iserr: "ghr_iserr res \<longleftrightarrow> res \<noteq> GHR_OK" by (simp add: ghr_simps)
  show ?thesis
  proof (cases "res = GHR_OK")
    case True
    then have items: "da_items ts' = da_items ts @ [type]" and "ts' \<noteq> ts" using a(4) by auto
    moreover have "cut_name n \<noteq> n @ ''*''" using cut_name_length [of n] by auto
    then have "cut_name n \<in> set (ts_names ts') \<longleftrightarrow> cut_name n \<in> set (ts_names ts)" using names_append [OF items] d(2) by auto
    then have "ts_makederivatives_fromtypename al e ts' buf =
        Some (if cut_name n \<in> set (ts_names ts) then GHR_OK else GHR_TS_MISSINGTYPE, ts')"
      using fromtypename_end [OF a(2) cut_name_nul_free [OF assms(3)] _ d(6) assms(6-8)] cut_name_length [of n] assms(4) by simp
    ultimately show ?thesis using run iserr True a(2) d(2,4,5) by auto
  next
    case False
    with run iserr a(2,3) show ?thesis by simp
  qed
qed

definition ex_int_types :: gh_ts where
  "ex_int_types = \<lparr>da_buffer = Some [ts_primitive ''unsigned int'' 4], da_capacity = 128, da_size = 1, da_block = 1\<rparr>"

theorem pointer_names_are_cut_witness:
  "\<exists>res ts'. ts_makederivatives_fromtypename ex_alloc False ex_int_types ''unsigned int*'' = Some (res, ts') \<and> ts_wf ts' \<and>
     res \<noteq> GHR_OK"
proof -
  have "ts_wf ex_int_types"
    by (simp add: ts_wf_def ex_int_types_def ts_names_def da_reserved_def da_items_def ts_daopts_def ts_primitive_def)
      (simp add: numeral_eq_Suc cstr_def)
  moreover have "da_room ts_daopts ex_int_types 1" by (simp add: da_room_def ex_int_types_def ts_daopts_def)
  moreover have n: "ts_names ex_int_types = [''unsigned int'']"
    by (simp add: ex_int_types_def ts_names_def da_items_def ts_primitive_def) (simp add: numeral_eq_Suc cstr_def)
  moreover have cut: "cut_name ''unsigned int'' = ''unsigned in''" by (simp add: cut_name_def)
  moreover have "\<not> suffix ''*'' ''unsigned in''" "\<not> suffix '']'' ''unsigned in''" by (simp_all add: suffix_to_prefix prefix_def)
  ultimately show ?thesis
    using pointer_names_are_cut [of ex_int_types "''unsigned int''" ex_alloc False] by (auto simp: ghr_simps)
qed

end
