(* ===== verification/FlexList.thy ===== *)
theory FlexList
  imports DynamicArray
begin

text \<open>
  The list of elements of different sizes (\<^verbatim>\<open>flexible_list.c\<close>): the elements lie one behind the other in one
  block, and each stores the size of its variable part in a field of its header. The header of the
  interface says that the library does not use it.
\<close>

section \<open>State\<close>

text \<open>
  The three members of the container, with the block as bytes, \<open>None\<close> where nothing was written yet. The
  buffer is as long as the capacity.
\<close>

type_synonym gh_flexiblelist = "char option gh_dynamicarray"

text \<open>
  A pointer to an element: the block and the offset. \<open>FL_LIST\<close> is the pointer to the member \<^verbatim>\<open>buffer\<close> of the
  container itself.
\<close>

datatype fl_ptr = FL_LIST | FL_AT nat size_t

abbreviation (input) GH_FLEXIBLELIST_NOMAXCAPACITY :: size_t where "GH_FLEXIBLELIST_NOMAXCAPACITY \<equiv> 0"

text \<open>\<open>FLEXIBLELIST_SIZE_OTHER\<close> is a value that is no enumerator.\<close>

datatype gh_flexiblelistoptions_sizefieldtype =
  GH_FLEXIBLELISTOPTIONS_32BITSIGNEDSIZE
| GH_FLEXIBLELISTOPTIONS_32BITUNSIGNEDSIZE
| GH_FLEXIBLELISTOPTIONS_64BITSIGNEDSIZE
| GH_FLEXIBLELISTOPTIONS_64BITUNSIGNEDSIZE
| GH_FLEXIBLELISTOPTIONS_SIZETSIZE
| FLEXIBLELIST_SIZE_OTHER

type_synonym gh_vasize = size_t

record gh_flexiblelistoptions =
  initial_capacity_bytes :: size_t
  max_capacity_bytes :: size_t
  element_header_size :: size_t
  element_va_size_field_type :: gh_flexiblelistoptions_sizefieldtype
  element_va_size_field_offset :: int
  element_va_size_suffix :: gh_vasize
  has_delete_flag :: bool
  delete_flag_field_offset :: int
  element_dtor :: "(fl_ptr \<Rightarrow> gh_flexiblelist \<Rightarrow> (gh_result \<times> gh_flexiblelist) option) option"

section \<open>Memory\<close>

text \<open>The offset in the block that a pointer and an offset from it lead to; the other memory is not the list's.\<close>

definition fl_place :: "gh_flexiblelist \<Rightarrow> fl_ptr \<Rightarrow> int \<Rightarrow> nat option" where
  "fl_place fl p off =
     (case p of
        FL_LIST \<Rightarrow> None
      | FL_AT block pos \<Rightarrow> if block = da_block fl then Some (unat (pos + word_of_int off)) else None)"

definition fl_load :: "gh_flexiblelist \<Rightarrow> fl_ptr \<Rightarrow> int \<Rightarrow> nat \<Rightarrow> string option" where
  "fl_load fl p off n =
     Option.bind (da_buffer fl) (\<lambda>buf.
     Option.bind (fl_place fl p off) (\<lambda>i.
     let cells = take n (drop i buf) in
     if i + n \<le> length buf \<and> None \<notin> set cells then Some (map the cells) else None))"

definition fl_store :: "gh_flexiblelist \<Rightarrow> fl_ptr \<Rightarrow> int \<Rightarrow> string \<Rightarrow> gh_flexiblelist option" where
  "fl_store fl p off bytes =
     Option.bind (da_buffer fl) (\<lambda>buf.
     Option.bind (fl_place fl p off) (\<lambda>i.
     if i + length bytes \<le> length buf then Some (fl\<lparr>da_buffer := Some (cells_write buf i (map Some bytes))\<rparr>) else None))"

text \<open>An element that is not in the list, as its bytes\<close>

definition fl_read :: "string \<Rightarrow> int \<Rightarrow> nat \<Rightarrow> string option" where
  "fl_read elem off n =
     (if 0 \<le> off \<and> nat off + n \<le> length elem then Some (take n (drop (nat off) elem)) else None)"

section \<open>The size of an element\<close>

text \<open>\<open>load\<close> reads bytes at an offset from the element. The second component is \<^verbatim>\<open>*out_size\<close>.\<close>

definition flexiblelist_elementgetsize ::
  "gh_flexiblelistoptions \<Rightarrow> (int \<Rightarrow> nat \<Rightarrow> string option) \<Rightarrow> (gh_result \<times> gh_vasize option) option" where
  "flexiblelist_elementgetsize opts load =
     (let at = load (element_va_size_field_offset opts);
          result = (\<lambda>va_size. (GHR_OK, Some (element_header_size opts + va_size + element_va_size_suffix opts))) in
      case element_va_size_field_type opts of
        GH_FLEXIBLELISTOPTIONS_32BITSIGNEDSIZE \<Rightarrow> map_option (\<lambda>b. result (scast (of_nat (le_nat b) :: 32 word))) (at 4)
      | GH_FLEXIBLELISTOPTIONS_32BITUNSIGNEDSIZE \<Rightarrow> map_option (\<lambda>b. result (ucast (of_nat (le_nat b) :: 32 word))) (at 4)
      | GH_FLEXIBLELISTOPTIONS_64BITSIGNEDSIZE \<Rightarrow> map_option (\<lambda>b. result (of_nat (le_nat b))) (at 8)
      | GH_FLEXIBLELISTOPTIONS_64BITUNSIGNEDSIZE \<Rightarrow> map_option (\<lambda>b. result (of_nat (le_nat b))) (at 8)
      | GH_FLEXIBLELISTOPTIONS_SIZETSIZE \<Rightarrow> map_option (\<lambda>b. result (of_nat (le_nat b))) (at 8)
      | FLEXIBLELIST_SIZE_OTHER \<Rightarrow> Some (GHR_FLEXIBLELIST_INVALIDSIZETYPE, None))"

definition flexiblelist_elementsetsize ::
  "gh_flexiblelistoptions \<Rightarrow> gh_flexiblelist \<Rightarrow> fl_ptr \<Rightarrow> gh_vasize \<Rightarrow> (gh_result \<times> gh_flexiblelist) option" where
  "flexiblelist_elementsetsize opts fl element_ptr sz =
     (let va_size = sz - element_va_size_suffix opts;
          set = (\<lambda>n. map_option (Pair GHR_OK) (fl_store fl element_ptr (element_va_size_field_offset opts) (le_bytes n (unat va_size)))) in
      case element_va_size_field_type opts of
        GH_FLEXIBLELISTOPTIONS_32BITSIGNEDSIZE \<Rightarrow> set 4
      | GH_FLEXIBLELISTOPTIONS_32BITUNSIGNEDSIZE \<Rightarrow> set 4
      | GH_FLEXIBLELISTOPTIONS_64BITSIGNEDSIZE \<Rightarrow> set 8
      | GH_FLEXIBLELISTOPTIONS_64BITUNSIGNEDSIZE \<Rightarrow> set 8
      | GH_FLEXIBLELISTOPTIONS_SIZETSIZE \<Rightarrow> set 8
      | FLEXIBLELIST_SIZE_OTHER \<Rightarrow> Some (GHR_FLEXIBLELIST_INVALIDSIZETYPE, fl))"

section \<open>The next element\<close>

text \<open>
  The \<^verbatim>\<open>do\<close> loop. The second component is \<^verbatim>\<open>*out_next_ptr\<close>: not stored, NULL or the pointer. A deleted
  element whose size is 0 makes it run for ever.
\<close>

partial_function (option) flexiblelist_next_loop ::
  "gh_flexiblelistoptions \<Rightarrow> gh_flexiblelist \<Rightarrow> bool \<Rightarrow> fl_ptr \<Rightarrow> (gh_result \<times> fl_ptr option option) option" where
  "flexiblelist_next_loop opts fl incl_deleted p =
     Option.bind (flexiblelist_elementgetsize opts (fl_load fl p)) (\<lambda>(res, va_size).
     case (va_size, p) of
       (None, _) \<Rightarrow> Some (res, None)
     | (_, FL_LIST) \<Rightarrow> None
     | (Some va_size, FL_AT block pos) \<Rightarrow>
         let next_pos = pos + va_size; q = FL_AT block next_pos in
         if next_pos \<ge> da_size fl then Some (GHR_FLEXIBLELIST_NONEXT, Some None)
         else if \<not> incl_deleted \<and> has_delete_flag opts then
           Option.bind (fl_load fl q (delete_flag_field_offset opts) 1) (\<lambda>flag.
           if hd flag \<noteq> NUL then flexiblelist_next_loop opts fl incl_deleted q else Some (GHR_OK, Some (Some q)))
         else Some (GHR_OK, Some (Some q)))"

definition flexiblelist_next ::
  "gh_flexiblelist \<Rightarrow> gh_flexiblelistoptions \<Rightarrow> fl_ptr option \<Rightarrow> bool \<Rightarrow> (gh_result \<times> fl_ptr option option) option" where
  "flexiblelist_next fl opts element_ptr incl_deleted =
     (case element_ptr of
        None \<Rightarrow>
          if da_size fl = 0 then Some (GHR_FLEXIBLELIST_NONEXT, None)
          else Some (GHR_OK, Some (map_option (\<lambda>_. FL_AT (da_block fl) 0) (da_buffer fl)))
      | Some p \<Rightarrow> flexiblelist_next_loop opts fl incl_deleted p)"

definition gh_flexiblelist_next ::
  "gh_flexiblelist \<Rightarrow> gh_flexiblelistoptions \<Rightarrow> fl_ptr option \<Rightarrow> (gh_result \<times> fl_ptr option option) option" where
  "gh_flexiblelist_next fl opts element_ptr = flexiblelist_next fl opts element_ptr False"

definition gh_flexiblelist_nextwithdeleted ::
  "gh_flexiblelist \<Rightarrow> gh_flexiblelistoptions \<Rightarrow> fl_ptr option \<Rightarrow> (gh_result \<times> fl_ptr option option) option" where
  "gh_flexiblelist_nextwithdeleted fl opts element_ptr = flexiblelist_next fl opts element_ptr True"

section \<open>Construction and destruction\<close>

definition gh_flexiblelist_ctor ::
  "gh_alloc \<Rightarrow> gh_flexiblelist \<Rightarrow> gh_flexiblelistoptions \<Rightarrow> gh_result \<times> gh_flexiblelist" where
  "gh_flexiblelist_ctor al fl opts =
     (let capacity = initial_capacity_bytes opts;
          (res, buf) = gh_alloc_new al (replicate (unat capacity) None) (Some None) capacity in
      if ghr_iserr res then (res, fl\<lparr>da_buffer := buf\<rparr>)
      else (GHR_OK, \<lparr>da_buffer = buf, da_capacity = capacity, da_size = 0, da_block = Suc (da_block fl)\<rparr>))"

partial_function (option) flexiblelist_dtor_loop ::
  "gh_flexiblelistoptions \<Rightarrow> (fl_ptr \<Rightarrow> gh_flexiblelist \<Rightarrow> (gh_result \<times> gh_flexiblelist) option) \<Rightarrow> fl_ptr \<Rightarrow> gh_flexiblelist \<Rightarrow>
   (gh_result \<times> gh_flexiblelist) option" where
  "flexiblelist_dtor_loop opts f elem_ptr fl =
     Option.bind (f elem_ptr fl) (\<lambda>(dtor_res, fl).
     if ghr_iserr dtor_res then Some (dtor_res, fl)
     else
       Option.bind (gh_flexiblelist_next fl opts (Some elem_ptr)) (\<lambda>(res, next_elem_ptr).
       if ghr_isok res then
         (case next_elem_ptr of
            Some (Some q) \<Rightarrow> flexiblelist_dtor_loop opts f q fl
          | _ \<Rightarrow> None)
       else Some (GHR_OK, fl)))"

text \<open>
  The loop starts with \<^verbatim>\<open>vl.buffer\<close>, which is the address of the pointer to the block and not the block, and
  the test of \<^verbatim>\<open>vl.size_bytes\<close> compares the pointer to the size with 0.
\<close>

definition gh_flexiblelist_dtorelements ::
  "gh_flexiblelist \<Rightarrow> gh_flexiblelistoptions \<Rightarrow> (gh_result \<times> gh_flexiblelist) option" where
  "gh_flexiblelist_dtorelements fl opts =
     (case element_dtor opts of None \<Rightarrow> Some (GHR_OK, fl) | Some f \<Rightarrow> flexiblelist_dtor_loop opts f FL_LIST fl)"

definition gh_flexiblelist_dtor ::
  "gh_alloc \<Rightarrow> gh_flexiblelist \<Rightarrow> gh_flexiblelistoptions \<Rightarrow> (gh_result \<times> gh_flexiblelist) option" where
  "gh_flexiblelist_dtor al fl opts =
     ghr_then (gh_flexiblelist_dtorelements fl opts) (\<lambda>fl.
     ghr_then
       (let (res, buf) = gh_alloc_delete al (Some (da_buffer fl)) (da_capacity fl) in Some (res, fl\<lparr>da_buffer := buf\<rparr>)) (\<lambda>fl.
     Some (GHR_OK, \<lparr>da_buffer = None, da_capacity = 0, da_size = 0, da_block = da_block fl\<rparr>)))"

section \<open>Appending and removing\<close>

text \<open>The loop that doubles the capacity is the one of the dynamic array with another error.\<close>

definition flexiblelist_grow :: "size_t \<Rightarrow> size_t \<Rightarrow> size_t \<Rightarrow> (gh_result \<times> size_t) option" where
  "flexiblelist_grow max_cap target capacity =
     map_option (\<lambda>(res, c). (if ghr_iserr res then GHR_FLEXIBLELIST_MAXCAPACITY else GHR_OK, c)) (da_grow max_cap target capacity)"

definition gh_flexiblelist_expandtofit ::
  "gh_alloc \<Rightarrow> gh_flexiblelist \<Rightarrow> gh_flexiblelistoptions \<Rightarrow> size_t \<Rightarrow> (gh_result \<times> gh_flexiblelist) option" where
  "gh_flexiblelist_expandtofit al fl opts amount_bytes =
     (if da_size fl + amount_bytes \<le> da_capacity fl then Some (GHR_OK, fl)
      else
        Option.bind (flexiblelist_grow (max_capacity_bytes opts) (da_capacity fl + amount_bytes) (da_capacity fl))
          (\<lambda>(res, capacity).
           if ghr_iserr res then Some (res, fl)
           else
             (let old = (case da_buffer fl of None \<Rightarrow> [] | Some b \<Rightarrow> b);
                  (res, buf) = gh_alloc_resize al (old @ replicate (unat capacity - length old) None)
                    (Some (da_buffer fl)) (da_capacity fl) capacity in
              if ghr_iserr res then Some (res, fl\<lparr>da_buffer := buf\<rparr>)
              else Some (GHR_OK, fl\<lparr>da_buffer := buf, da_capacity := capacity, da_block := Suc (da_block fl)\<rparr>))))"

text \<open>\<open>elem\<close> is the memory at \<^verbatim>\<open>ptr\<close>, which is not in the list.\<close>

definition gh_flexiblelist_append ::
  "gh_alloc \<Rightarrow> gh_flexiblelist \<Rightarrow> gh_flexiblelistoptions \<Rightarrow> string \<Rightarrow> (gh_result \<times> gh_flexiblelist) option" where
  "gh_flexiblelist_append al fl opts elem =
     Option.bind (flexiblelist_elementgetsize opts (fl_read elem)) (\<lambda>(res, element_size_bytes).
     case element_size_bytes of
       None \<Rightarrow> Some (res, fl)
     | Some element_size_bytes \<Rightarrow>
         let prev_size_bytes = da_size fl in
         ghr_then (gh_flexiblelist_expandtofit al fl opts element_size_bytes) (\<lambda>fl.
         Option.bind (fl_read elem 0 (unat element_size_bytes)) (\<lambda>bytes.
         map_option (\<lambda>fl. (GHR_OK, fl\<lparr>da_size := da_size fl + element_size_bytes\<rparr>))
           (fl_store fl (FL_AT (da_block fl) prev_size_bytes) 0 bytes))))"

text \<open>
  \<^verbatim>\<open>(char*)vl.buffer + offset\<close>, where the delete flag is cleared, lies in the container and not in the new
  element: nothing is known of what it overwrites. The second component is \<^verbatim>\<open>*out_ptr\<close>. The size that is
  read back into \<^verbatim>\<open>foo\<close> is not used, but the read must be possible.
\<close>

definition gh_flexiblelist_appendalloc ::
  "gh_alloc \<Rightarrow> gh_flexiblelist \<Rightarrow> gh_flexiblelistoptions \<Rightarrow> size_t \<Rightarrow> (gh_result \<times> gh_flexiblelist \<times> fl_ptr option) option" where
  "gh_flexiblelist_appendalloc al fl opts va_size =
     (let element_size_bytes = element_header_size opts + va_size; prev_size_bytes = da_size fl in
      Option.bind (gh_flexiblelist_expandtofit al fl opts element_size_bytes) (\<lambda>(res, fl).
      if ghr_iserr res then Some (res, fl, None)
      else
        (let new_ptr = FL_AT (da_block fl) prev_size_bytes in
         Option.bind (flexiblelist_elementsetsize opts fl new_ptr va_size) (\<lambda>(res, fl).
         Option.bind (flexiblelist_elementgetsize opts (fl_load fl new_ptr)) (\<lambda>_.
         if ghr_iserr res then Some (res, fl\<lparr>da_size := prev_size_bytes\<rparr>, None)
         else
           Option.bind (if has_delete_flag opts then fl_store fl FL_LIST (delete_flag_field_offset opts) [NUL] else Some fl) (\<lambda>fl.
           Some (GHR_OK, fl\<lparr>da_size := da_size fl + element_size_bytes\<rparr>, Some new_ptr)))))))"

text \<open>The same element is appended each time.\<close>

fun flexiblelist_appendmany_loop ::
  "nat \<Rightarrow> gh_alloc \<Rightarrow> gh_flexiblelistoptions \<Rightarrow> string \<Rightarrow> gh_flexiblelist \<Rightarrow> (gh_result \<times> gh_flexiblelist) option" where
  "flexiblelist_appendmany_loop 0 al opts elem fl = Some (GHR_OK, fl)"
| "flexiblelist_appendmany_loop (Suc n) al opts elem fl =
     ghr_then (gh_flexiblelist_append al fl opts elem) (flexiblelist_appendmany_loop n al opts elem)"

definition gh_flexiblelist_appendmany ::
  "gh_alloc \<Rightarrow> gh_flexiblelist \<Rightarrow> gh_flexiblelistoptions \<Rightarrow> string \<Rightarrow> size_t \<Rightarrow> (gh_result \<times> gh_flexiblelist) option" where
  "gh_flexiblelist_appendmany al fl opts elem count = flexiblelist_appendmany_loop (unat count) al opts elem fl"

definition gh_flexiblelist_remove ::
  "gh_flexiblelist \<Rightarrow> gh_flexiblelistoptions \<Rightarrow> fl_ptr \<Rightarrow> (gh_result \<times> gh_flexiblelist) option" where
  "gh_flexiblelist_remove fl opts p =
     (if \<not> has_delete_flag opts then Some (GHR_FLEXIBLELIST_NODELETEFLAG, fl)
      else
        ghr_then (case element_dtor opts of None \<Rightarrow> Some (GHR_OK, fl) | Some f \<Rightarrow> f p fl) (\<lambda>fl.
        Option.bind (fl_load fl p (delete_flag_field_offset opts) 1) (\<lambda>flag.
        if hd flag \<noteq> NUL then Some (GHR_FLEXIBLELIST_ALREADYDELETED, fl)
        else map_option (Pair GHR_OK) (fl_store fl p (delete_flag_field_offset opts) [CHR 0x01]))))"

end
