(* ===== verification/FlexFacts.thy ===== *)
theory FlexFacts
  imports FlexList
begin

text \<open>
  The flexible list as a list of elements: appending adds an element at the end, and the iteration comes
  to the elements in their order.
\<close>

section \<open>The elements of a list\<close>

text \<open>An element is as long as its header says.\<close>

definition fl_element :: "gh_flexiblelistoptions \<Rightarrow> string \<Rightarrow> bool" where
  "fl_element opts e \<longleftrightarrow>
     e \<noteq> [] \<and> flexiblelist_elementgetsize opts (fl_read e) = Some (GHR_OK, Some (of_nat (length e)))"

definition fl_holds :: "gh_flexiblelistoptions \<Rightarrow> gh_flexiblelist \<Rightarrow> string list \<Rightarrow> bool" where
  "fl_holds opts fl es \<longleftrightarrow>
     (\<exists>rest. da_buffer fl = Some (map Some (concat es) @ rest) \<and> length (concat es) + length rest = unat (da_capacity fl)) \<and>
     unat (da_size fl) = length (concat es) \<and> 0 < unat (da_capacity fl) \<and> (\<forall>e \<in> set es. fl_element opts e)"

text \<open>The place of the element with index \<open>i\<close>\<close>

definition fl_at :: "gh_flexiblelist \<Rightarrow> string list \<Rightarrow> nat \<Rightarrow> fl_ptr" where
  "fl_at fl es i = FL_AT (da_block fl) (of_nat (length (concat (take i es))))"

lemma getsize_mono:
  assumes "flexiblelist_elementgetsize opts f = Some (GHR_OK, Some n)" "\<And>off k b. f off k = Some b \<Longrightarrow> g off k = Some b"
  shows "flexiblelist_elementgetsize opts g = Some (GHR_OK, Some n)"
  using assms by (cases "element_va_size_field_type opts") (auto simp: flexiblelist_elementgetsize_def Let_def)

lemma load_element:
  assumes "da_buffer fl = Some (map Some (xs @ e @ ys) @ rest)" "length (xs @ e @ ys) < 18446744073709551616"
    "fl_read e off n = Some b"
  shows "fl_load fl (FL_AT (da_block fl) (of_nat (length xs))) off n = Some b"
proof -
  from assms(3) have off: "0 \<le> off" "nat off + n \<le> length e" "b = take n (drop (nat off) e)"
    by (auto simp: fl_read_def split: if_splits)
  have "(word_of_int (int (nat off)) :: size_t) = of_nat (nat off)" by simp
  with off(1) have "(word_of_int off :: size_t) = of_nat (nat off)" by simp
  then have place: "fl_place fl (FL_AT (da_block fl) (of_nat (length xs))) off = Some (length xs + nat off)"
    using off(2) assms(2) by (simp add: fl_place_def unat_add_nowrap unat_of_nat_nowrap)
  have cells: "take n (drop (length xs + nat off) (map Some (xs @ e @ ys) @ rest)) = map Some b"
    using off by (simp add: drop_map take_map)
  show ?thesis
    using off(2) assms(1) cells by (simp add: fl_load_def place comp_def del: map_append)
qed

lemma holds_bound: "fl_holds opts fl es \<Longrightarrow> length (concat es) < 18446744073709551616"
  using unat_size_bound [of "da_size fl"] by (simp add: fl_holds_def)

lemma concat_at: "i < length es \<Longrightarrow> concat es = concat (take i es) @ es ! i @ concat (drop (Suc i) es)"
  by (metis concat.simps(2) concat_append id_take_nth_drop)

lemma concat_take_Suc: "i < length es \<Longrightarrow> concat (take (Suc i) es) = concat (take i es) @ es ! i"
  by (simp add: take_Suc_conv_app_nth)

text \<open>The size of an element is read where it lies.\<close>

lemma getsize_at:
  assumes "fl_holds opts fl es" "i < length es"
  shows "flexiblelist_elementgetsize opts (fl_load fl (fl_at fl es i)) = Some (GHR_OK, Some (of_nat (length (es ! i))))"
proof (rule getsize_mono)
  show "flexiblelist_elementgetsize opts (fl_read (es ! i)) = Some (GHR_OK, Some (of_nat (length (es ! i))))"
    using assms nth_mem [OF assms(2)] by (auto simp: fl_holds_def fl_element_def)
next
  fix off k b
  assume "fl_read (es ! i) off k = Some b"
  with holds_bound [OF assms(1)] assms(1) concat_at [OF assms(2)] show "fl_load fl (fl_at fl es i) off k = Some b"
    unfolding fl_at_def fl_holds_def by (metis load_element)
qed

lemma nextwithdeleted_at:
  assumes "fl_holds opts fl es" "i < length es"
  shows "gh_flexiblelist_nextwithdeleted fl opts (Some (fl_at fl es i)) =
     Some (if Suc i < length es then (GHR_OK, Some (Some (fl_at fl es (Suc i)))) else (GHR_FLEXIBLELIST_NONEXT, Some None))"
proof -
  have nxt: "of_nat (length (concat (take i es))) + of_nat (length (es ! i)) = (of_nat (length (concat (take (Suc i) es))) :: size_t)"
    by (simp add: concat_take_Suc assms(2) del: take_Suc)
  have le: "length (concat (take (Suc i) es)) \<le> length (concat es)"
    by (metis append_take_drop_id concat_append le_add1 length_append)
  have u: "unat (of_nat (length (concat (take (Suc i) es))) :: size_t) = length (concat (take (Suc i) es))"
    using le holds_bound [OF assms(1)] by (intro unat_of_nat_nowrap) simp
  have "length (concat es) \<le> length (concat (take (Suc i) es)) \<longleftrightarrow> \<not> Suc i < length es"
  proof (cases "Suc i < length es")
    case True
    have "es ! Suc i \<noteq> []" using nth_mem [OF True] assms(1) by (auto simp: fl_holds_def fl_element_def)
    moreover have "length (concat es) = length (concat (take (Suc i) es)) + length (es ! Suc i) + length (concat (drop (Suc (Suc i)) es))"
      using arg_cong [OF concat_at [OF True], of length] by simp
    ultimately show ?thesis using True by (cases "es ! Suc i") auto
  qed simp
  then have last: "(of_nat (length (concat (take (Suc i) es))) \<ge> da_size fl) \<longleftrightarrow> \<not> Suc i < length es"
    using assms(1) by (simp only: size_le_unat u) (simp add: fl_holds_def)
  show ?thesis
    using getsize_at [OF assms] last
    by (simp add: gh_flexiblelist_nextwithdeleted_def flexiblelist_next_def flexiblelist_next_loop.simps fl_at_def nxt Let_def)
qed

section \<open>Appending\<close>

lemma flex_expand:
  assumes "fl_holds opts fl es" "unat (da_capacity fl) + n \<le> 9223372036854775808"
  shows "\<exists>res fl'. gh_flexiblelist_expandtofit al fl opts (of_nat n) = Some (res, fl') \<and> (res \<noteq> GHR_OK \<longrightarrow> fl' = fl) \<and>
     (res = GHR_OK \<longrightarrow> fl_holds opts fl' es \<and> da_size fl' = da_size fl \<and> unat (da_size fl) + n \<le> unat (da_capacity fl'))"
proof -
  from assms(1) obtain rest where buf: "da_buffer fl = Some (map Some (concat es) @ rest)"
    "length (concat es) + length rest = unat (da_capacity fl)" "unat (da_size fl) = length (concat es)" "0 < unat (da_capacity fl)"
    by (auto simp: fl_holds_def)
  have n: "unat (of_nat n :: size_t) = n" using assms(2) by (intro unat_of_nat_nowrap) simp
  have sz: "unat (da_size fl + of_nat n) = unat (da_size fl) + n"
    using assms(2) buf n by (simp add: unat_add_nowrap)
  have t: "unat (da_capacity fl + of_nat n) = unat (da_capacity fl) + n" using assms(2) n by (simp add: unat_add_nowrap)
  show ?thesis
  proof (cases "da_size fl + of_nat n \<le> da_capacity fl")
    case True
    with assms(1) sz show ?thesis by (simp add: gh_flexiblelist_expandtofit_def size_le_unat)
  next
    case False
    from da_grow_result [OF buf(4), of "da_capacity fl + of_nat n" "max_capacity_bytes opts"] assms(2) t obtain r c where
      g: "da_grow (max_capacity_bytes opts) (da_capacity fl + of_nat n) (da_capacity fl) = Some (r, c)"
      "r = GHR_OK \<longrightarrow> unat (da_capacity fl) + n \<le> unat c" by auto
    have keep: "fl\<lparr>da_buffer := Some (map Some (concat es) @ rest)\<rparr> = fl" using buf(1) by (cases fl) simp
    show ?thesis
    proof (cases "r = GHR_OK \<and> al (da_capacity fl) c = 0")
      case True
      let ?fl = "fl\<lparr>da_buffer := Some (map Some (concat es) @ rest @ replicate (unat c - unat (da_capacity fl)) None),
                     da_capacity := c, da_block := Suc (da_block fl)\<rparr>"
      have "c \<noteq> 0" "da_capacity fl \<noteq> 0" using True g(2) buf(4) by auto
      with True False g(1) buf have "gh_flexiblelist_expandtofit al fl opts (of_nat n) = Some (GHR_OK, ?fl)"
        by (simp add: gh_flexiblelist_expandtofit_def flexiblelist_grow_def gh_alloc_resize_result ghr_defs Let_def)
      moreover have "fl_holds opts ?fl es" using assms(1) True g(2) buf by (auto simp: fl_holds_def)
      ultimately show ?thesis using True g(2) buf by auto
    next
      case f: False
      then have "\<exists>res. gh_flexiblelist_expandtofit al fl opts (of_nat n) = Some (res, fl) \<and> res \<noteq> GHR_OK"
        using False g(1) buf keep
        by (auto simp: gh_flexiblelist_expandtofit_def flexiblelist_grow_def gh_alloc_resize_result ghr_defs Let_def)
      then show ?thesis by blast
    qed
  qed
qed

lemma store_end:
  assumes "fl_holds opts fl es" "unat (da_size fl) + length e \<le> unat (da_capacity fl)" "fl_element opts e"
  shows "\<exists>fl'. fl_store fl (FL_AT (da_block fl) (da_size fl)) 0 e = Some fl' \<and> da_size fl' = da_size fl \<and>
     fl_holds opts (fl'\<lparr>da_size := da_size fl + of_nat (length e)\<rparr>) (es @ [e])"
proof -
  from assms(1) obtain rest where buf: "da_buffer fl = Some (map Some (concat es) @ rest)"
    "length (concat es) + length rest = unat (da_capacity fl)" "unat (da_size fl) = length (concat es)"
    by (auto simp: fl_holds_def)
  have "unat (of_nat (length e) :: size_t) = length e"
    using assms(2) unat_size_bound [of "da_capacity fl"] by (intro unat_of_nat_nowrap) simp
  then have sz: "unat (da_size fl + of_nat (length e)) = unat (da_size fl) + length e"
    using assms(2) unat_size_bound [of "da_capacity fl"] by (simp add: unat_add_nowrap)
  have w: "cells_write (map Some (concat es) @ rest) (length (concat es)) (map Some e) =
      map Some (concat (es @ [e])) @ drop (length e) rest"
    by (simp add: cells_write_def)
  have "fl_store fl (FL_AT (da_block fl) (da_size fl)) 0 e =
      Some (fl\<lparr>da_buffer := Some (map Some (concat (es @ [e])) @ drop (length e) rest)\<rparr>)"
    using assms(2) buf by (simp add: fl_store_def fl_place_def w [simplified])
  moreover have "length e \<le> length rest" using assms(2) buf by simp
  ultimately show ?thesis
    using assms(1,3) buf sz by (auto simp: fl_holds_def)
qed

text \<open>C38.
  Appending an element to a flexible list keeps the other elements and puts it behind them, or changes
  nothing; from each element the iteration that includes the deleted ones leads to the following one, and
  from the last to the end.
\<close>

theorem flexible_list_order:
  assumes "fl_holds opts fl es" "fl_element opts e" "unat (da_capacity fl) + length e \<le> 9223372036854775808"
  shows "\<exists>res fl'. gh_flexiblelist_append al fl opts e = Some (res, fl') \<and> (res \<noteq> GHR_OK \<longrightarrow> fl' = fl) \<and>
     (res = GHR_OK \<longrightarrow> fl_holds opts fl' (es @ [e]) \<and>
        (\<forall>i < length es. gh_flexiblelist_nextwithdeleted fl' opts (Some (fl_at fl' (es @ [e]) i)) =
           Some (GHR_OK, Some (Some (fl_at fl' (es @ [e]) (Suc i))))) \<and>
        gh_flexiblelist_nextwithdeleted fl' opts (Some (fl_at fl' (es @ [e]) (length es))) =
           Some (GHR_FLEXIBLELIST_NONEXT, Some None))"
proof -
  let ?n = "of_nat (length e) :: size_t"
  have n: "unat ?n = length e" using assms(3) by (intro unat_of_nat_nowrap) simp
  from flex_expand [OF assms(1,3), of al] obtain res fl1 where
    x: "gh_flexiblelist_expandtofit al fl opts ?n = Some (res, fl1)" "res \<noteq> GHR_OK \<longrightarrow> fl1 = fl"
    "res = GHR_OK \<longrightarrow> fl_holds opts fl1 es \<and> da_size fl1 = da_size fl \<and> unat (da_size fl) + length e \<le> unat (da_capacity fl1)"
    by blast
  have r: "fl_read e 0 (length e) = Some e" by (simp add: fl_read_def)
  show ?thesis
  proof (cases "res = GHR_OK")
    case True
    with x(3) store_end [of opts fl1 es e] assms(2) obtain fl2 where
      s: "fl_store fl1 (FL_AT (da_block fl1) (da_size fl)) 0 e = Some fl2" "da_size fl2 = da_size fl"
      "fl_holds opts (fl2\<lparr>da_size := da_size fl + ?n\<rparr>) (es @ [e])" by auto
    have "gh_flexiblelist_append al fl opts e = Some (GHR_OK, fl2\<lparr>da_size := da_size fl + ?n\<rparr>)"
      using assms(2) x(1) True s(1,2) r n by (simp add: gh_flexiblelist_append_def fl_element_def Let_def)
    then show ?thesis using s(3) nextwithdeleted_at [OF s(3)] by auto
  next
    case False
    with assms(2) x(1,2) show ?thesis by (simp add: gh_flexiblelist_append_def fl_element_def Let_def)
  qed
qed

definition ex_flexopts :: gh_flexiblelistoptions where
  "ex_flexopts = \<lparr>initial_capacity_bytes = 1, max_capacity_bytes = 0, element_header_size = 4,
     element_va_size_field_type = GH_FLEXIBLELISTOPTIONS_32BITUNSIGNEDSIZE, element_va_size_field_offset = 0,
     element_va_size_suffix = 1, has_delete_flag = False, delete_flag_field_offset = 0, element_dtor = None\<rparr>"

theorem flexible_list_order_witness:
  "\<exists>fl'. gh_flexiblelist_append ex_alloc \<lparr>da_buffer = Some [None], da_capacity = 1, da_size = 0, da_block = 1\<rparr> ex_flexopts
       (le_bytes 4 2 @ ''ab'' @ [NUL]) = Some (GHR_OK, fl') \<and>
     fl_holds ex_flexopts fl' [le_bytes 4 2 @ ''ab'' @ [NUL]]"
proof -
  let ?fl = "\<lparr>da_buffer = Some [None], da_capacity = 1, da_size = 0, da_block = 1\<rparr> :: gh_flexiblelist"
  let ?e = "le_bytes 4 2 @ ''ab'' @ [NUL]"
  have h: "fl_holds ex_flexopts ?fl []" by (simp add: fl_holds_def)
  have s: "flexiblelist_elementgetsize ex_flexopts (fl_read ?e) = Some (GHR_OK, Some 7)"
    by (simp add: flexiblelist_elementgetsize_def ex_flexopts_def fl_read_def le_nat_bytes)
  then have e: "fl_element ex_flexopts ?e" by (simp add: fl_element_def)
  have "da_grow 0 8 1 = Some (GHR_OK, 8)" by (simp add: da_grow.simps)
  then have "\<exists>fl'. gh_flexiblelist_append ex_alloc ?fl ex_flexopts ?e = Some (GHR_OK, fl')"
    using s by (simp add: gh_flexiblelist_append_def gh_flexiblelist_expandtofit_def flexiblelist_grow_def ex_flexopts_def
        gh_alloc_resize_result ex_alloc_def ghr_defs size_le_unat fl_read_def fl_store_def fl_place_def)
  with flexible_list_order [OF h e, of ex_alloc] show ?thesis by auto
qed

end
