(* ===== verification/Spec2Isabelle.thy ===== *)
theory Spec2Isabelle
  imports PermfsRequest PolicySpec ExecPolicy MemProps ShareProps JailProps TypeFacts FlexFacts
begin

text \<open>
  libghost runs untrusted Lua scripts in sandboxed processes. The program that links the library, the
  host, forks a jail; the jail locks itself down with seccomp and forks a sandboxed process (subjail) for
  each thread of the host; a sandboxed process asks the host for what it may not do itself by function
  calls over a socket, and the host decides by a policy file and by asking the user. This development
  models the C code of the library and of the jail (\<^verbatim>\<open>src/src\<close>, \<^verbatim>\<open>src/include\<close>), from the allocator up to
  the main functions of both processes, and proves what each part promises to the next.

  \<^bold>\<open>How the code is modelled.\<close> A function of the code is a definition of the same name; a structure is a
  record, an enumeration or a union with a tag a datatype, an unsigned integer a word of its width, so
  sums wrap as in C. A \<^verbatim>\<open>gh_result\<close> is the 32 bit word of \<^verbatim>\<open>result.h\<close> (theory Result), the
  enumerators of \<^verbatim>\<open>gh_error.csv\<close> are abbreviations (Errors). Outer pointers are parameters whose new
  value is part of the result. Undefined behaviour and loops that do not end are \<open>None\<close>: reads and
  writes outside an array, a NULL pointer that is followed. Loops are structural recursion, \<open>function\<close>
  with a measure, or \<open>partial_function (option)\<close> where the code can loop for ever (the doubling of a
  capacity, the terminal prompter, the loops over messages); no fuel is used, and that such a loop ends
  is proved where a property needs it.

  \<^bold>\<open>The outside.\<close> System calls, the C library's calls to the system, the Lua interpreter, OpenSSL and the
  memory shared with another process are calls of an environment (Kernel): a function from the trace
  of the calls so far and the call to its answer. Code passes the trace along, so a trace is all that a
  process did, in order, and a property that holds for every environment holds for everything the
  kernel, the user and the other process can do. What a theorem needs of an environment (writes are
  taken whole, messages have the size of their structure) is a hypothesis of it. An allocator is a
  function of the old and the new size (Alloc), as the containers use it. Callbacks of the application -
  prompters, handlers of generic resources, functions of the registrar - are parameters.

  \<^bold>\<open>The theories, from the bottom up.\<close>
  \<^item> Prelude, Traces: lists, words, C strings; which calls a piece of code adds to a trace (\<open>extends\<close>), and
    what a partial result satisfies (\<open>gives\<close>).
  \<^item> Result, Errors, Alloc, DynamicArray, ByteBuffer, Strings, Request: \<^verbatim>\<open>result.h\<close>, \<^verbatim>\<open>alloc.c\<close>,
    \<^verbatim>\<open>dynamic_array.c\<close>, \<^verbatim>\<open>byte_buffer.c\<close>, \<^verbatim>\<open>strings.c\<close>, \<^verbatim>\<open>perms/request.c\<close>. An array holds a list; pointers
    to its elements die with the block.
  \<^item> EnumGen, PermfsMode: the tables that \<^verbatim>\<open>tools/enumgen.py\<close> makes from \<^verbatim>\<open>gh_permfs_mode.csv\<close>, and the sets
    of modes.
  \<^item> Writer, Lexer, Parser with LexerFacts, ParserFrame, TokenText: \<^verbatim>\<open>perms/writer.c\<close>, \<^verbatim>\<open>perms/parser.c\<close>; the
    tokens of a text, and that the parser reads what the writer writes.
  \<^item> PathFd, Prompt: \<^verbatim>\<open>perms/pathfd.c\<close>, \<^verbatim>\<open>perms/procfd.c\<close>, \<^verbatim>\<open>perms/prompt.c\<close>.
  \<^item> Permfs, PermfsFile with PermfsGate, PermfsText, PermfsRoundTrip, PermfsRequest: \<^verbatim>\<open>perms/permfs.c\<close>. The
    policy is a list of paths with their mode sets; PermfsGate says what the code computes on it. PolicySpec:
    the policy as \<^verbatim>\<open>permfs.h\<close> documents it, and where the code agrees with it and where it does not.
  \<^item> Sha256, PermExec, PermExecFile with PermExecGate, PermExecRequest, PermExecRoundTrip: the hashes of
    programs and arguments, \<^verbatim>\<open>perms/permexec.c\<close>. Perms, PermsLift, PermsRoundTrip, ExecPolicy:
    \<^verbatim>\<open>perms/perms.c\<close>, the policy file as a whole.
  \<^item> IpcMsg, Ipc, Fdmem, FdmemFacts, Variant: the messages, \<^verbatim>\<open>ipc.c\<close>, \<^verbatim>\<open>fdmem.c\<close>, \<^verbatim>\<open>variant.h\<close>.
  \<^item> Rpc, RpcFacts: \<^verbatim>\<open>rpc.c\<close>, the frames of function calls and where their arguments lie.
  \<^item> Sandbox, Thread, ThreadQuit, ThreadCall: \<^verbatim>\<open>sandbox.c\<close>, \<^verbatim>\<open>embedded_jail.c\<close>, \<^verbatim>\<open>thread.c\<close>. ThreadFacts: the
    host's wait for a script ends when its functions give a result for each frame that lies in its memory;
    those of \<^verbatim>\<open>stdlib.c\<close> do not for each (they follow an argument of size 0, which is NULL), so no
    property is drawn from it. CallFacts: the parameters of a call.
  \<^item> Stdlib, StdRpc: \<^verbatim>\<open>stdlib.c\<close>, the operations and the functions \<^verbatim>\<open>ghost.*\<close>. GateCalls, StdFacts,
    StdMessages, StdExec: which calls the host makes for all eight of them, temporary files and the shell
    included, and what was asked before.
  \<^item> Seccomp, Subjail, SubjailMain, Jail: \<^verbatim>\<open>jail/lua.c\<close>, \<^verbatim>\<open>jail/subjail.c\<close>, \<^verbatim>\<open>jail/jail.c\<close>. JailCalls,
    SubjailFacts: which calls are left after the lockdown - a locale over the kind of call, with one
    interpretation for each of the two sets of filters - and how scripts are answered.
  \<^item> TypeSystem, TypeFacts, FlexList, FlexFacts: \<^verbatim>\<open>typesystem.c\<close>, \<^verbatim>\<open>flexible_list.c\<close>, two interfaces for
    applications that the library itself does not use. A registry of types is an array with distinct
    names; a flexible list is the sequence of its elements; \<^verbatim>\<open>TypeFacts\<close> and \<^verbatim>\<open>FlexFacts\<close> hold their properties.
  \<^item> HostProps, MemProps, ShareProps, JailProps, ExecPolicy and this theory hold the properties, each
    with a concrete case at which its hypotheses hold.

  \<^bold>\<open>What the properties show.\<close> Of the host: for a message of the sandboxed process it acts only on what the
  gates let pass, and answers it once; a program it runs is the one the gate for programs has seen. Of
  the gates: what the policy accepted or the user was asked for, how they decide, what a remembered
  answer changes, and that the mode set of a path is the documented join of the entries for it and above
  it. Of the prompter of the terminal: which key read gives which answer. Of the files: what is written is read back. Of the sandboxed side:
  after the lockdown every call is one that the filters let through. Of the border: which sizes and
  pointers are checked. Several properties state what the code does although it is not
  what it means to do, because the rest of the development has to live with it: sizes that wrap when
  they are added, and bytes copied behind the buffer (\<open>frame_overflow\<close>), a mapping that moved (\<open>grown_mapping_stale\<close>), a length nobody
  checks (\<open>returned_length_unchecked\<close>), a name that finds another function
  (\<open>unknown_name_last_function\<close>), a pointer to another type (\<open>pointer_names_are_cut\<close>),
  a fork that failed (\<open>failed_fork_unnoticed\<close>), flags that are ignored
  (\<open>tempfile_mode_ignored\<close>), flags of the prompt (\<open>permfs_prompt_other_flags\<close>), mode sets for children
  that are lost or that leak (\<open>permfs_children_leak\<close>, \<open>permfs_add_refines\<close>).

  \<^bold>\<open>Bounds.\<close> Sizes, capacities and limits are those of the headers (a message has 16 arguments, a
  request 16 fields, a path 4096 bytes, a name 256). Theorems that need a sum not to wrap say so.

  \<^bold>\<open>Not modelled.\<close> The Lua interpreter: what it does is the answers to its calls, so calls that Lua code
  of a script makes are not part of the traces; \<^verbatim>\<open>luaL_*\<close> failures are answers. The scripts of the
  sandbox in Lua and the generated files they are embedded by; the foreign function interface behind
  them; \<^verbatim>\<open>jail/luajit-glue.c\<close>, which writes a file handle into an object of the interpreter. The printing part of \<^verbatim>\<open>tools/enumgen.py\<close>, and the messages printed to the standard error. The
  contents of host variables of an unknown type. Threads of one process that run at the same time: a
  mutex is a call, and each thread has its own run. The example programs and the tests (\<^verbatim>\<open>examples\<close>,
  \<^verbatim>\<open>tests\<close>), which use the library, and the build.
\<close>

section \<open>The filesystem policy\<close>

text \<open>C9.
  Writing a filesystem policy and parsing the text gives the policy back: the same paths in the same
  order with the same two mode sets. The policy has distinct paths without quotes, backslashes and
  comment characters and modes made of named flags, and the tokens of each entry fit in the byte
  buffer of the parser; every write is taken and every allocation succeeds.
\<close>

theorem permfs_roundtrip:
  assumes "takes_writes env" "al_total al" "fd_output fd tr = []" "policy_ok (policy_of (da_items permfs))"
  shows "\<exists>st p permfs0 p' permfs'.
     gh_permfs_write env permfs (gh_permwriter_new fd, tr) = (GHR_OK, st) \<and>
     gh_permparser_ctorbuffer al (pw_output st) = (GHR_OK, p) \<and>
     gh_permfs_ctor al fresh = (GHR_OK, permfs0) \<and>
     gh_permparser_parse al [permfs_resourceparser al] (p, permfs0) = Some (GHR_OK, (p', permfs')) \<and>
     policy_of (da_items permfs') = policy_of (da_items permfs)"
  by (rule write_then_parse [OF assms])

theorem permfs_roundtrip_witness:
  "\<exists>st p permfs0 p' permfs'.
     gh_permfs_write quiet_env ex_permfs (gh_permwriter_new 3, []) = (GHR_OK, st) \<and>
     gh_permparser_ctorbuffer ex_alloc (pw_output st) = (GHR_OK, p) \<and>
     gh_permfs_ctor ex_alloc ex_permfs = (GHR_OK, permfs0) \<and>
     gh_permparser_parse ex_alloc [permfs_resourceparser ex_alloc] (p, permfs0) = Some (GHR_OK, (p', permfs')) \<and>
     policy_of (da_items permfs') = ex_policy"
  using permfs_roundtrip [where env = quiet_env and al = ex_alloc and fd = 3 and tr = "[]" and permfs = ex_permfs
      and fresh = ex_permfs, OF quiet_env_takes_writes ex_alloc_total]
  by (simp add: ex_permfs_policy ex_policy_ok)

text \<open>
  The text written for a policy is, apart from white space, the tokens of its entries in order, and
  has no comment; the writer ends at the indentation it started with.
\<close>

theorem permfs_written_text:
  assumes "takes_writes env" "list_all entry_valid (da_items permfs)"
  shows "\<exists>st txt'. gh_permfs_write env permfs (gh_permwriter_new fd, tr) = (GHR_OK, st) \<and>
     pw_output st = fd_output fd tr @ txt' \<and> toks txt' (policy_toks (da_items permfs)) \<and>
     no_comment txt' \<and> pw_scope (fst st) = 0"
proof -
  have "pw_in fd 0 (fd_output fd tr) (gh_permwriter_new fd, tr)" using pw_at_new by (auto simp: pw_in_def)
  from permfs_write_toks [OF assms(1) this assms(2)] show ?thesis
    by (cases "gh_permfs_write env permfs (gh_permwriter_new fd, tr)") (auto simp: pw_toks_def pw_ok_def pw_at_def)
qed

theorem permfs_written_text_witness:
  "\<exists>st txt'. gh_permfs_write quiet_env ex_permfs (gh_permwriter_new 3, []) = (GHR_OK, st) \<and>
     pw_output st = txt' \<and> toks txt' (policy_toks (da_items ex_permfs)) \<and> no_comment txt'"
  using permfs_written_text [where env = quiet_env and permfs = ex_permfs and fd = 3 and tr = "[]",
      OF quiet_env_takes_writes policy_ok_valid] ex_permfs_policy ex_policy_ok by auto

section \<open>The gate of the filesystem\<close>

text \<open>C4.
  The gate lets an operation pass only if no flag of the requested mode is rejected by the mode set
  that the policy gives for the descriptor's path, and if, moreover, every requested flag is
  accepted by it, and then nothing is asked or changed, or the prompter accepted a request for this
  path. The request is for the flags that the policy leaves open - unless one of them is in the prompt
  set: then it is for the whole prompt set, and open flags outside of it pass without being
  asked for. An answer that is to be remembered is added to the policy as accepted; else it stays as it is.
\<close>

theorem permfs_gate_grants:
  assumes "gh_permfs_gatefile env al prompter procfd safe_id fd m hint (permfs, tr) = Some (GHR_OK, (permfs', tr'))"
  shows "\<exists>path tr1 ms ch tr2.
    gh_procfd_fdpathctor env al procfd fd tr = Some (GHR_OK, (Some path, tr1)) \<and>
    gh_permfs_getmode env permfs (pf_fd fd) path tr1 = Some (GHR_OK, ((ms, ch), tr2)) \<and>
    mode_reject ms AND m = 0 \<and>
    (m \<noteq> 0 \<and> mode_accept ms AND m = m \<and> permfs' = permfs \<and> tr' = tr2 \<or>
     \<not> (m \<noteq> 0 \<and> mode_accept ms AND m = m) \<and>
     (\<exists>node_type req resp tr3 open_flags asked.
        open_flags = m AND NOT (mode_accept ms) \<and>
        asked = (if mode_prompt ms AND open_flags \<noteq> 0 then mode_prompt ms else open_flags) \<and>
        permfs_makerequest safe_id path node_type hint asked 0 = Some (GHR_OK, req) \<and>
        gh_permprompter_request prompter env req tr3 = Some (GHR_OK, (Some resp, tr')) \<and>
        (resp = GH_PERMRESPONSE_ACCEPT \<and> permfs' = permfs \<or>
         resp = GH_PERMRESPONSE_ACCEPTREMEMBER \<and>
           (\<exists>entry. gh_permfs_add al permfs path (GH_PERMFS_MODESET_EMPTY\<lparr>mode_accept := asked\<rparr>)
              GH_PERMFS_MODESET_EMPTY = Some (GHR_OK, (entry, permfs'))))))"
  by (rule gate_ok [OF assms], unfold mode_allowed_def mode_asked_def)
    (elim disjE, (intro exI conjI, assumption+, blast)+)

theorem permfs_gate_grants_witness:
  "\<exists>path tr1 ms ch tr2. gh_procfd_fdpathctor ex_env ex_alloc ex_procfd ex_fd [] = Some (GHR_OK, (Some path, tr1)) \<and>
     gh_permfs_getmode ex_env ex_permfs (pf_fd ex_fd) path tr1 = Some (GHR_OK, ((ms, ch), tr2)) \<and>
     mode_reject ms AND 2048 = 0"
proof -
  from ex_gate_accepts obtain tr' where g: "gh_permfs_gatefile ex_env ex_alloc (gh_permprompter_new app_prompter)
      ex_procfd ''safe'' ex_fd 2048 None (ex_permfs, []) = Some (GHR_OK, (ex_permfs, tr'))" ..
  show ?thesis using permfs_gate_grants [OF g] by blast
qed

text \<open>C14.
  When the policy decides - it rejects a requested flag, or rejects none and accepts all - the gate
  answers accordingly, asks nobody and leaves the policy alone.
\<close>

theorem permfs_gate_decides:
  assumes "gh_procfd_fdpathctor env al procfd fd tr = Some (GHR_OK, (Some (ident_of p rest), tr1))"
    and "permfs_at al blk (policy_entries pol) permfs" "policy_short pol" "path_short p" "al_total al"
    and "0 \<le> an_ret (env tr1 (Fstat (pf_fd fd)))" "file_type_allowed (an_mode (env tr1 (Fstat (pf_fd fd))))"
    and "mode_reject (fst (policy_eval pol p)) AND m \<noteq> 0 \<or> m \<noteq> 0 \<and> mode_accept (fst (policy_eval pol p)) AND m = m"
  shows "gh_permfs_gatefile env al prompter procfd safe_id fd m hint (permfs, tr) =
     Some (if mode_reject (fst (policy_eval pol p)) AND m = 0 then GHR_OK else GHR_PERMS_REJECTEDPOLICY,
           (permfs, (Fstat (pf_fd fd), env tr1 (Fstat (pf_fd fd))) # tr1))"
proof -
  have "mode_reject (fst (policy_eval pol p)) AND m \<noteq> 0 \<or> mode_allowed (fst (policy_eval pol p)) m"
    using assms(8) by (auto simp: mode_allowed_def)
  from gate_decides [where env = env, OF assms(1-5) refl assms(6,7) refl this] assms(8) show ?thesis
    by (auto simp: mode_allowed_def)
qed

theorem permfs_gate_decides_witness:
  "\<exists>tr'. gh_permfs_gatefile ex_env ex_alloc (gh_permprompter_new app_prompter) ex_procfd ''safe'' ex_fd 4096 None
     (ex_permfs, []) = Some (GHR_PERMS_REJECTEDPOLICY, (ex_permfs, tr'))"
  using permfs_gate_decides [where env = ex_env, OF ex_fdpath ex_permfs_at ex_policy_ok(2) ex_path(1) ex_alloc_total,
      where m = 4096 and tr = "[]" and prompter = "gh_permprompter_new app_prompter" and safe_id = "''safe''" and hint = None]
  by (simp add: ex_answers ex_eval ex_modes_def)




text \<open>C12.
  Adding to the policy. For a path without an entry: a new entry at the end, with both mode sets. For a
  path that has one: the mode set for the path is merged into that of its first entry - as documented
  when there is nothing for the nodes below; a mode set for the nodes below is merged into the entry's
  set for the path as well, and its set for the nodes below stays. No other entry changes, and the
  pointer that is returned is to the first entry of the path.
\<close>

theorem permfs_add_refines:
  assumes "permfs_at al blk (policy_entries pol) permfs" "policy_short pol" "path_short s"
    and "length pol < 4294967296" "al_total al"
  shows "\<exists>permfs' blk' i pol'.
     gh_permfs_add al permfs (ident_of s rest) m c = Some (GHR_OK, (Some (blk', i), permfs')) \<and>
     permfs_at al blk' (policy_entries pol') permfs' \<and>
     pol' = (if s \<in> fst ` set pol then policy_merge pol s (gh_permfs_modeset_join m c) GH_PERMFS_MODESET_EMPTY
             else policy_merge pol s m c) \<and>
     i < length pol' \<and> fst (pol' ! i) = s \<and> (\<forall>j < i. fst (pol' ! j) \<noteq> s)"
  by (rule add_returns [OF assms])

theorem permfs_add_refines_witness:
  "\<exists>permfs' blk' i pol'.
     gh_permfs_add ex_alloc ex_permfs (ident_of ''/etc'' []) ex_modes ex_modes = Some (GHR_OK, (Some (blk', i), permfs')) \<and>
     permfs_at ex_alloc blk' (policy_entries pol') permfs' \<and>
     pol' = [(''/tmp'', ex_modes, GH_PERMFS_MODESET_EMPTY), (''/etc'', ex_modes, ex_modes)]"
proof -
  have mem: "''/etc'' \<in> fst ` set ex_policy" and len: "length ex_policy < 4294967296" by (simp_all add: ex_policy_def)
  have merge: "policy_merge ex_policy ''/etc'' (gh_permfs_modeset_join ex_modes ex_modes) GH_PERMFS_MODESET_EMPTY =
      [(''/tmp'', ex_modes, GH_PERMFS_MODESET_EMPTY), (''/etc'', ex_modes, ex_modes)]"
    by (simp add: ex_policy_def modeset_join_laws(3))
  from permfs_add_refines [OF ex_permfs_at ex_policy_ok(2) ex_path(2) len ex_alloc_total, where rest = "[]" and m = ex_modes
      and c = ex_modes]
  show ?thesis unfolding if_P [OF mem] merge by blast
qed

text \<open>C10.
  Evaluating the policy for a path of a regular file, a directory or a link, without an entry for the root
  directory: the mode set for the path is, as documented, the join of the sets that the entries for this
  path have for themselves and that the entries for the directories above it have for what is below
  them. The mode set for the nodes below the path is the join of the sets for what is below, provided
  that no entry for a directory above comes after one for the path.
\<close>

theorem permfs_getmode_refines:
  assumes "permfs_at al blk (policy_entries pol) permfs" "policy_short pol" "path_short p"
    and "0 \<le> an_ret (env tr (Fstat fd))" "file_type_allowed (an_mode (env tr (Fstat fd)))" "''/'' \<notin> fst ` set pol"
  shows "\<exists>ch. gh_permfs_getmode env permfs fd (ident_of p rest) tr =
     Some (GHR_OK, ((policy_self pol p, ch), (Fstat fd, env tr (Fstat fd)) # tr)) \<and>
     (parents_first pol p \<longrightarrow> ch = policy_children pol p)"
  using getmode_at [where env = env and rest = rest, OF assms(1-3) refl assms(4,5)] eval_self [OF assms(6), of p]
    eval_children [OF assms(6), of p]
  by (metis prod.collapse)

theorem permfs_getmode_refines_witness:
  "gh_permfs_getmode ex_env ex_permfs 5 (ident_of ''/etc/passwd'' []) [] =
     Some (GHR_OK, ((ex_modes, ex_modes), [(Fstat 5, ex_env [] (Fstat 5))]))"
proof -
  have "policy_self ex_policy ''/etc/passwd'' = ex_modes" "policy_children ex_policy ''/etc/passwd'' = ex_modes"
    "parents_first ex_policy ''/etc/passwd''" "''/'' \<notin> fst ` set ex_policy" "path_short ''/etc/passwd''"
    by (simp_all add: ex_policy_def path_below_def path_short_def)
  then show ?thesis
    using permfs_getmode_refines [where env = ex_env, OF ex_permfs_at ex_policy_ok(2),
        where p = "''/etc/passwd''" and tr = "[]" and fd = 5 and rest = "[]"]
    by (auto simp: ex_answers)
qed

text \<open>C11.
  When an entry for a directory above the path comes after one for the path, the mode set for the nodes
  below is not what the policy says: what the earlier entries for the path have for the nodes below
  is dropped, and the modes that the path itself has are given to them instead.
\<close>

theorem permfs_children_leak:
  assumes "permfs_at al blk (policy_entries (pre @ (s, m, c) # post)) permfs" "policy_short (pre @ (s, m, c) # post)" "path_short p"
    and "0 \<le> an_ret (env tr (Fstat fd))" "file_type_allowed (an_mode (env tr (Fstat fd)))"
    and "''/'' \<notin> fst ` set (pre @ (s, m, c) # post)" "path_below s p" "list_all (\<lambda>x. \<not> path_below (fst x) p) post"
  shows "gh_permfs_getmode env permfs fd (ident_of p rest) tr =
     Some (GHR_OK, ((policy_self (pre @ (s, m, c) # post) p,
         gh_permfs_modeset_join (policy_self (pre @ [(s, m, c)]) p) (policy_children post p)),
       (Fstat fd, env tr (Fstat fd)) # tr))"
  using getmode_at [where env = env and rest = rest, OF assms(1-3) refl assms(4,5)] eval_self [OF assms(6), of p]
    eval_leak [OF assms(6-8)]
  by (metis prod.collapse)

definition leak_policy :: policy where
  "leak_policy = [(''/a/b'', ex_modes, GH_PERMFS_MODESET_EMPTY), (''/a'', GH_PERMFS_MODESET_EMPTY, GH_PERMFS_MODESET_EMPTY)]"

definition leak_permfs :: gh_permfs where
  "leak_permfs = \<lparr>da_buffer = Some (policy_entries leak_policy), da_capacity = 128, da_size = 2, da_block = 1\<rparr>"

theorem permfs_children_leak_witness:
  "gh_permfs_getmode ex_env leak_permfs 5 (ident_of ''/a/b'' []) [] =
     Some (GHR_OK, ((ex_modes, ex_modes), [(Fstat 5, ex_env [] (Fstat 5))])) \<and>
   policy_children leak_policy ''/a/b'' = GH_PERMFS_MODESET_EMPTY"
proof -
  have pol: "leak_policy = [(''/a/b'', ex_modes, GH_PERMFS_MODESET_EMPTY)] @ (''/a'', GH_PERMFS_MODESET_EMPTY, GH_PERMFS_MODESET_EMPTY) # []"
    by (simp add: leak_policy_def)
  have at: "permfs_at ex_alloc 1 (policy_entries leak_policy) leak_permfs"
    by (simp add: permfs_at_def leak_permfs_def da_reserved_def da_items_def permfsfilelist_daopts_def
        policy_entries_def leak_policy_def)
  have "policy_short leak_policy" by (simp add: policy_short_def leak_policy_def path_short_def)
  then show ?thesis
    using permfs_children_leak [where env = ex_env, OF at [unfolded pol], where p = "''/a/b''" and fd = 5 and tr = "[]" and rest = "[]"]
    by (simp add: pol ex_answers path_short_def path_below_def)
qed

text \<open>
  A prompt is made for the whole prompt set of the policy, also for flags that were not requested;
  requested flags outside of it are not part of the request and pass when the user accepts.
\<close>

theorem permfs_prompt_other_flags:
  assumes "mode_reject ms AND m = 0" "mode_prompt ms AND (m AND NOT (mode_accept ms)) \<noteq> 0"
  shows "permfs_actmode ms m =
     (GHR_PERMS_REJECTEDPROMPT, \<lparr>rejected_mode = mode_prompt ms, default_policy = False\<rparr>)"
proof -
  have "\<not> mode_allowed ms m"
    using assms(2) by (auto simp: mode_allowed_def and_eq_bits and_zero_bits bit_and_iff bit_not_iff)
  with assms show ?thesis
    using prompt_for_other_flags [OF assms] actmode_asks_iff [of ms m]
    by (auto simp: permfs_actmode_def Let_def split: if_splits)
qed

theorem permfs_prompt_other_flags_witness:
  "permfs_actmode (GH_PERMFS_MODESET_EMPTY\<lparr>mode_prompt := GH_PERMFS_READ\<rparr>) 6144 =
     (GHR_PERMS_REJECTEDPROMPT, \<lparr>rejected_mode = GH_PERMFS_READ, default_policy = False\<rparr>)"
  using permfs_prompt_other_flags [of "GH_PERMFS_MODESET_EMPTY\<lparr>mode_prompt := GH_PERMFS_READ\<rparr>" 6144] by simp

text \<open>C30.
  The mode that a set of \<^verbatim>\<open>open\<close> flags stands for, bit by bit: reading for \<^verbatim>\<open>O_RDONLY\<close> and \<^verbatim>\<open>O_RDWR\<close>, writing
  for \<^verbatim>\<open>O_WRONLY\<close>, \<^verbatim>\<open>O_RDWR\<close> and \<^verbatim>\<open>O_APPEND\<close>, and for \<^verbatim>\<open>O_CREAT\<close> on a path that may not exist the creation
  of a file together with one mode for each of the nine permission bits; nothing else. Any
  other flag, the fourth access mode, and other permission bits for a new file are an error.
  \<^verbatim>\<open>O_TRUNC\<close> makes no difference: truncating a file asks for no mode.
\<close>

theorem permfs_open_modes:
  "gh_permfs_fcntlflags2permfsmode flags access pathfd =
     (if flags AND O_ACCMODE \<noteq> O_ACCMODE \<and>
         flags AND NOT (O_ACCMODE OR O_TRUNC OR O_APPEND OR O_CREAT OR O_DIRECTORY) = 0 \<and>
         (access AND NOT 0x1FF = 0 \<or> flags AND O_CREAT = 0 \<or> gh_pathfd_guaranteedtoexist pathfd)
      then (GHR_OK, Some (open_mode flags access (flags AND O_CREAT \<noteq> 0 \<and> \<not> gh_pathfd_guaranteedtoexist pathfd)))
      else (GHR_PERMFS_BADFCNTLMODE, None)) \<and>
   gh_permfs_fcntlflags2permfsmode (flags OR O_TRUNC) access pathfd = gh_permfs_fcntlflags2permfsmode flags access pathfd"
  using fcntl_eq [of flags access pathfd] fcntl_trunc [of flags access pathfd] by blast

theorem permfs_open_modes_witness:
  "gh_permfs_fcntlflags2permfsmode (O_RDONLY OR O_TRUNC) 0 ex_fd = (GHR_OK, Some GH_PERMFS_READ)"
  using permfs_open_modes [of "O_RDONLY" 0 ex_fd] by (simp add: open_mode_def)

text \<open>C31.
  A temporary file is opened for reading and writing and created with no permissions: when it is asked
  for reading, the gate has let a mode pass that does not contain writing.
\<close>

theorem tempfile_mode_ignored:
  assumes "gh_std_opentemp env al pfx flags (thread, tr) = Some (res, (Some tempfile, st))"
    and "flags AND O_ACCMODE = O_RDONLY" "flags AND O_APPEND = 0"
  shows "\<exists>d name tr1 pathfd mode thread' tr2 tr3.
     (Openat d name (O_RDWR OR O_CREAT) 0, env tr3 (Openat d name (O_RDWR OR O_CREAT) 0)) \<in> set (snd st) \<and>
     tm_fd tempfile = an_ret (env tr3 (Openat d name (O_RDWR OR O_CREAT) 0)) \<and> mode AND GH_PERMFS_WRITE = 0 \<and>
     std_gatefile env al pathfd mode (Some ''tmpfile'') (thread, tr1) = Some (GHR_OK, (thread', tr2))"
proof -
  from opentemp_opens [OF assms(1)] obtain d name tr1 pathfd mode thread' tr2 tr3 where
    o: "tm_fd tempfile = an_ret (env tr3 (Openat d name (O_RDWR OR O_CREAT) 0))"
    "(Openat d name (O_RDWR OR O_CREAT) 0, env tr3 (Openat d name (O_RDWR OR O_CREAT) 0)) \<in> set (snd st)"
    "gh_permfs_fcntlflags2permfsmode flags 0x1A4 pathfd = (GHR_OK, Some mode)"
    "std_gatefile env al pathfd mode (Some ''tmpfile'') (thread, tr1) = Some (GHR_OK, (thread', tr2))" by blast
  have "mode AND GH_PERMFS_WRITE = 0" using fcntl_result(2) [OF o(3)] assms(2,3) by auto
  with o show ?thesis by blast
qed

definition tmp_env :: env where
  "tmp_env tr c = (case c of Openat d name flags m \<Rightarrow> plain_answer 5 | Open name flags \<Rightarrow> plain_answer 6 | _ \<Rightarrow> ex_env tr c)"

definition tmp_thread :: "(unit, unit, unit std_function) gh_thread" where
  "tmp_thread = ex_thread\<lparr>th_perms := ex_perms\<lparr>ps_filesystem := ex_permfs\<rparr>\<rparr>"

lemma tmp_gate: "\<exists>thread' tr'. std_gatefile tmp_env ex_alloc ex_fd 2048 (Some ''tmpfile'') (tmp_thread, tr) = Some (GHR_OK, (thread', tr')) \<and>
   ps_procfd (th_perms thread') = exec_procfd"
proof -
  have path: "gh_procfd_fdpathctor tmp_env ex_alloc exec_procfd ex_fd tr =
     Some (GHR_OK, (Some (ident_of ''/tmp'' (replicate 123 NUL)), procfd_trace tmp_env exec_procfd ex_fd tr))"
    by (rule fdpath_tmp) (simp_all add: tmp_env_def ex_env_def plain_answer_def)
  have "\<exists>tr'. gh_permfs_gatefile tmp_env ex_alloc (gh_permprompter_new app_prompter) exec_procfd ''safe'' ex_fd 2048 (Some ''tmpfile'')
     (ex_permfs, tr) = Some (GHR_OK, (ex_permfs, tr'))"
    using gate_decides [where env = tmp_env, OF path ex_permfs_at ex_policy_ok(2) ex_path(1) ex_alloc_total refl,
        where m = 2048 and prompter = "gh_permprompter_new app_prompter" and safe_id = "''safe''" and hint = "Some ''tmpfile''"]
    by (simp add: tmp_env_def ex_answers ex_eval ex_modes_def mode_allowed_def)
  then show ?thesis
    by (auto simp: std_gatefile_def std_lift_def gh_perms_gatefile_def tmp_thread_def ex_thread_def ex_perms_def put_filesystem_def)
qed

theorem tempfile_mode_ignored_witness:
  "\<exists>tempfile thread' tr'. gh_std_opentemp tmp_env ex_alloc ''x'' O_RDONLY (tmp_thread, []) = Some (GHR_OK, (Some tempfile, (thread', tr'))) \<and>
     (\<exists>d name a. (Openat d name (O_RDWR OR O_CREAT) 0, a) \<in> set tr' \<and> tm_fd tempfile = an_ret a)"
proof -
  have a: "tmp_env tr (Open name flags) = plain_answer 6" "tmp_env tr (Openat d name flags m) = plain_answer 5"
    "tmp_env tr Time = plain_answer 0" "tmp_env tr (Close fd) = plain_answer 0" for tr name flags d m fd
    by (simp_all add: tmp_env_def ex_env_def)
  have f: "gh_permfs_fcntlflags2permfsmode 0 0x1A4 ex_fd = (GHR_OK, Some GH_PERMFS_READ)"
    by (simp add: gh_permfs_fcntlflags2permfsmode_def fcntl_access_def)
  have path: "\<exists>tr'. gh_procfd_fdpathctor tmp_env ex_alloc exec_procfd ex_fd tr =
     Some (GHR_OK, (Some (ident_of ''/tmp'' (replicate 123 NUL)), tr'))" for tr
    using fdpath_tmp [of tmp_env exec_procfd tr] by (simp add: tmp_env_def ex_env_def plain_answer_def)
  have o: "gh_pathfd_open tmp_env 6 name pathfd_zero 0 tr =
      (GHR_OK, (ex_fd, (Openat 6 (cstr name) (O_PATH OR O_NOFOLLOW) 0, plain_answer 5) # tr))" for name tr
    by (simp add: gh_pathfd_open_def syscall_pair a plain_answer_simps pathfd_zero_def ex_fd_def Let_def)
  obtain suffix tr1 where r: "random_str tmp_env 16 [(Open ''/tmp'' (O_PATH OR O_DIRECTORY), plain_answer 6)] = (suffix, tr1)"
    by (metis prod.exhaust)
  let ?tr = "(Openat 6 (cstr (''x'' @ suffix)) (O_PATH OR O_NOFOLLOW) 0, plain_answer 5) # tr1"
  obtain thread' tr2 where g: "std_gatefile tmp_env ex_alloc ex_fd 2048 (Some ''tmpfile'') (tmp_thread, ?tr) = Some (GHR_OK, (thread', tr2))"
    "ps_procfd (th_perms thread') = exec_procfd" using tmp_gate by blast
  obtain tr3 where p: "gh_procfd_fdpathctor tmp_env ex_alloc exec_procfd ex_fd tr2 =
     Some (GHR_OK, (Some (ident_of ''/tmp'' (replicate 123 NUL)), tr3))" using path by blast
  obtain tempfile tr' where e: "gh_std_opentemp tmp_env ex_alloc ''x'' 0 (tmp_thread, []) = Some (GHR_OK, (Some tempfile, (thread', tr')))"
    using o [of "''x'' @ suffix" tr1] r f g p
    by (simp add: gh_std_opentemp_def syscall_pair a plain_answer_simps std_openmode_def cstr_def ghr_simps
        gh_procfd_fdpathdtor_def gh_alloc_delete_def ex_alloc_def ident_of_def opentemp_closefd_def Let_def)
  from tempfile_mode_ignored [OF e] e show ?thesis by fastforce
qed

section \<open>Paths\<close>

text \<open>C29.
  A path opened by the component that follows its directory: the trailing name is one component,
  without a slash and neither \<^verbatim>\<open>.\<close> nor \<^verbatim>\<open>..\<close>, it is the last component of the path, and the only call
  is the opening of the path's directory as a directory.
\<close>

theorem pathfd_trailing_component:
  assumes "gh_pathfd_opentrailing env dirfd path pf tr = (GHR_OK, (pf', tr'))"
  shows "path_component (pf_trailing pf') \<and> pf_trailing pf' = c_basename (cstr path) \<and>
     length (pf_trailing pf') < GH_PATHFD_TRAILINGNAMEMAX \<and> 0 \<le> pf_fd pf' \<and>
     map fst tr' = Openat dirfd (c_dirname (cstr path)) (O_PATH OR O_DIRECTORY) 0 # map fst tr"
  using opentrailing_result(1) [OF assms] by auto

lemma ex_opentrailing: "gh_pathfd_opentrailing quiet_env 3 ''plugins/../out.txt'' ex_fd [] =
    (GHR_OK, (\<lparr>pf_fd = 0, pf_trailing = ''out.txt''\<rparr>, [(Openat 3 ''plugins/..'' (O_PATH OR O_DIRECTORY) 0, plain_answer 0)]))"
  by (simp add: gh_pathfd_opentrailing_def c_basename_def c_dirname_def rstrip_slash_def cstr_def
      quiet_env_def plain_answer_def syscall_pair strlen_def ex_fd_def Let_def ghr_simps
      numeral_3_eq_3 numeral_2_eq_2)

theorem pathfd_trailing_component_witness: "path_component ''out.txt''"
  using pathfd_trailing_component [OF ex_opentrailing] by simp

text \<open>
  The path of a descriptor with a trailing name: when the link of the descriptor in \<^verbatim>\<open>/proc\<close> fits, the
  path is the link, a slash and the name.
\<close>

theorem procfd_path_joined:
  assumes "0 \<le> pf_fd fd" "pf_fd fd \<le> 9999" "al 0 128 = GHR_OK"
    and "an_ret (procfd_link env procfd fd tr) = int (length s)" "an_data (procfd_link env procfd fd tr) = s"
      "length s < 127" "s \<noteq> ''/''"
    and "nul_free (pf_trailing fd)" "pf_trailing fd \<noteq> []" "length s + length (pf_trailing fd) < 127"
    and "\<And>tr. an_nlink (env tr (Fstat (pf_fd fd))) \<noteq> 0"
  shows "\<exists>path tr'. gh_procfd_fdpathctor env al procfd fd tr = Some (GHR_OK, (Some path, tr')) \<and>
     ac_view path = s @ ''/'' @ pf_trailing fd"
  using fdpathctor_trailing [where al = al and env = env, OF assms] by blast

theorem procfd_path_joined_witness:
  "\<exists>path tr'. gh_procfd_fdpathctor ex_env ex_alloc ex_procfd \<lparr>pf_fd = 5, pf_trailing = ''f''\<rparr> [] =
     Some (GHR_OK, (Some path, tr')) \<and> ac_view path = ''/tmp/f''"
proof -
  have "\<exists>path tr'. gh_procfd_fdpathctor ex_env ex_alloc ex_procfd \<lparr>pf_fd = 5, pf_trailing = ''f''\<rparr> [] =
      Some (GHR_OK, (Some path, tr')) \<and>
      ac_view path = ''/tmp'' @ ''/'' @ pf_trailing \<lparr>pf_fd = 5, pf_trailing = ''f''\<rparr>"
    by (rule procfd_path_joined)
      (simp_all add: ex_alloc_def procfd_link_def ex_env_def plain_answer_def)
  then show ?thesis by simp
qed

text \<open>
  A link of 128 characters or more is lost: the loop that enlarges the buffer does not read it again,
  and the path of the descriptor is the empty string.
\<close>

theorem procfd_long_link_empty:
  assumes "0 \<le> pf_fd fd" "pf_fd fd \<le> 9999" "al 0 128 = GHR_OK" "al 128 256 = GHR_OK"
    and "an_ret (procfd_link env procfd fd tr) \<ge> 128" "pf_trailing fd = []"
  shows "\<exists>path tr'. gh_procfd_fdpathctor env al procfd fd tr = Some (GHR_OK, (Some path, tr')) \<and> ac_view path = []"
  using fdpathctor_long [where al = al and env = env, OF assms] by (fastforce simp: ac_view_def)

definition ex_long_env :: env where
  "ex_long_env tr c = plain_answer 128"

theorem procfd_long_link_empty_witness:
  "\<exists>path tr'. gh_procfd_fdpathctor ex_long_env ex_alloc ex_procfd ex_fd [] = Some (GHR_OK, (Some path, tr')) \<and>
     ac_view path = []"
  by (rule procfd_long_link_empty)
    (simp_all add: ex_alloc_def procfd_link_def ex_long_env_def plain_answer_def ex_fd_def)

text \<open>
  A link of 127 characters makes the code store a terminator behind the end of the buffer of 128
  characters: the call has no defined result.
\<close>

theorem procfd_link_127_undefined:
  assumes "0 \<le> pf_fd fd" "pf_fd fd \<le> 9999" "al 0 128 = GHR_OK"
    and "an_ret (procfd_link env procfd fd tr) = 127"
  shows "gh_procfd_fdpathctor env al procfd fd tr = None"
  by (rule fdpathctor_127 [where al = al and env = env, OF assms])

definition ex_127_env :: env where
  "ex_127_env tr c = plain_answer 127"

theorem procfd_link_127_undefined_witness: "gh_procfd_fdpathctor ex_127_env ex_alloc ex_procfd ex_fd [] = None"
  by (rule procfd_link_127_undefined)
    (simp_all add: ex_alloc_def procfd_link_def ex_127_env_def plain_answer_def ex_fd_def)

section \<open>The tokenizer\<close>

text \<open>C32.
  Reading the next token of a text that splits into the tokens \<open>t # ts\<close>: the token has the type and
  the value of \<open>t\<close>, its bytes are appended to the byte buffer with a terminator, and what is left
  splits into \<open>ts\<close>.
\<close>

theorem lexer_next_token:
  assumes "at_toks b u (t # ts) None p" "length u + length (tok_bytes t) \<le> 1024"
  shows "\<exists>tok p'. gh_permparser_nexttoken al p = Some (GHR_OK, (Some tok, p')) \<and>
     tk_type tok = tok_type t \<and> at_toks b (u @ tok_bytes t) ts None p' \<and>
     (t = TId s \<or> t = TStr s \<longrightarrow>
      (\<exists>rest. pp_resolve p' (tk_value tok) = Some \<lparr>cs_buffer = s @ NUL # rest, cs_size = of_nat (length s)\<rparr>))"
proof -
  from nexttoken_toks [OF assms, of al] obtain tok p' where
    n: "gh_permparser_nexttoken al p = Some (GHR_OK, (Some tok, p'))" "tok_is b (length u) t tok"
    "at_toks b (u @ tok_bytes t) ts None p'" by blast
  with tok_is_type [OF n(2)] holds_resolve [OF holds_last [OF n(2)] n(3)] show ?thesis by auto
qed

theorem lexer_next_token_witness:
  "\<exists>p tok p' rest. gh_permparser_ctorbuffer ex_alloc ''node { }'' = (GHR_OK, p) \<and>
     gh_permparser_nexttoken ex_alloc p = Some (GHR_OK, (Some tok, p')) \<and>
     tk_type tok = GH_PERMTOKEN_IDENTIFIER \<and>
     pp_resolve p' (tk_value tok) = Some \<lparr>cs_buffer = ''node'' @ NUL # rest, cs_size = 4\<rparr>"
proof -
  have "toks (''node'' @ CHR '' '' # CHR ''{'' # CHR '' '' # CHR ''}'' # []) [TId ''node'', TL, TR]"
    by (intro toks_id toks_char toks_brace toks_nil)
      (simp_all add: permparser_charisalphanumeric_def c_between_def)
  from ctorbuffer_toks [OF ex_alloc_total this] obtain b p where
    p: "gh_permparser_ctorbuffer ex_alloc ''node { }'' = (GHR_OK, p)"
    "at_toks b [] [TId ''node'', TL, TR] None p" by auto
  from lexer_next_token [OF p(2), of ex_alloc "''node''"] p(1) show ?thesis by auto
qed

text \<open>
  A string token with a backslash is never read: after plain characters and a backslash the
  tokenizer reports an error whatever follows.
\<close>

theorem lexer_backslash_fails:
  assumes "pp_at b u (CHR 0x22 # s @ CHR 0x5C # r) pk p" "\<forall>c \<in> set s. plain_char c"
    "length u + length s \<le> 1024"
  shows "permparser_readstring al p \<noteq> Some (GHR_OK, (tok, p'))"
  by (rule readstring_backslash [OF assms])

definition ex_parser :: "string \<Rightarrow> gh_permparser" where
  "ex_parser s = permparser_zero\<lparr>
     pp_buffer := \<lparr>da_buffer = Some [], da_capacity = 1024, da_size = 0, da_block = 1\<rparr>, pp_data := s,
     pp_peek := tok_none\<rparr>"

lemma ex_parser_at: "no_comment s \<Longrightarrow> pp_at 1 [] s None (ex_parser s)"
  by (simp add: ex_parser_def pp_at_def pp_rest_def da_reserved_def da_items_def tok_none_def no_comment_def
      permparser_zero_def)

theorem lexer_backslash_fails_witness:
  "\<forall>tok p'. permparser_readstring ex_alloc (ex_parser (CHR 0x22 # ''a'' @ CHR 0x5C # CHR 0x22 # ''b'' @ [CHR 0x22])) \<noteq>
     Some (GHR_OK, (tok, p'))"
  by (intro allI, rule lexer_backslash_fails [OF ex_parser_at]) (simp_all add: plain_char_def)

section \<open>Containers\<close>

text \<open>C33.
  Appending to a dynamic array that is well formed and far from the size of the address space: it
  keeps it well formed, and either the element is the new last one or nothing has changed and the
  error is reported. An allocator that always delivers makes it succeed.
\<close>

theorem array_append:
  assumes "da_wf opts da" "da_room opts da 1"
  shows "\<exists>r da'. gh_dynamicarray_append al opts da x = Some (r, da') \<and> da_wf opts da' \<and>
     (r = GHR_OK \<longrightarrow> da_items da' = da_items da @ [x]) \<and> (r \<noteq> GHR_OK \<longrightarrow> da' = da) \<and>
     (al_total al \<and> max_capacity opts = 0 \<longrightarrow> r = GHR_OK)"
  using append_result [OF assms, of al x] append_succeeds [OF assms, of al x] by fastforce

definition ex_opts :: "nat gh_dynamicarrayoptions" where
  "ex_opts = \<lparr>initial_capacity = 2, max_capacity = 0, element_size = 8, dtorelement_func = None\<rparr>"

definition ex_array :: "nat gh_dynamicarray" where
  "ex_array = \<lparr>da_buffer = Some [10, 20], da_capacity = 2, da_size = 2, da_block = 1\<rparr>"

lemma ex_array_wf: "da_wf ex_opts ex_array" "da_room ex_opts ex_array 1"
  by (simp_all add: da_reserved_def da_room_def ex_opts_def ex_array_def)

theorem array_append_witness:
  "\<exists>da'. gh_dynamicarray_append ex_alloc ex_opts ex_array 30 = Some (GHR_OK, da') \<and> da_items da' = [10, 20, 30]"
  using array_append [OF ex_array_wf, of ex_alloc 30] ex_alloc_total
  by (auto simp: ex_opts_def ex_array_def da_items_def)

text \<open>
  Removing an element of an array without element destructor closes the gap and keeps the order.
\<close>

theorem array_removeat:
  assumes "da_wf opts da" "unat index < unat (da_size da)" "dtorelement_func opts = None"
  shows "\<exists>da'. gh_dynamicarray_removeat opts da index = Some (GHR_OK, da') \<and>
     da_items da' = take (unat index) (da_items da) @ drop (Suc (unat index)) (da_items da)"
  by (rule removeat_result [OF assms])

theorem array_removeat_witness:
  "\<exists>da'. gh_dynamicarray_removeat ex_opts ex_array 0 = Some (GHR_OK, da') \<and> da_items da' = [20]"
  using array_removeat [OF ex_array_wf(1), of 0] by (simp add: ex_opts_def ex_array_def da_items_def)

text \<open>
  The growth of an array of capacity 0 does not end: doubling 0 never reaches the target.
\<close>

theorem array_grow_zero_diverges:
  assumes "0 < target"
  shows "da_grow 0 target 0 = None"
  by (rule da_grow_zero [OF assms])

theorem array_grow_zero_diverges_witness: "da_grow 0 1 0 = None"
  by (rule array_grow_zero_diverges) simp

section \<open>Strings and requests\<close>

text \<open>
  Appending to a string of fixed capacity: what fits is appended whole; otherwise the result is
  false and the string is filled up if truncation is allowed and left alone if it is not.
\<close>

theorem str_append:
  assumes "st_wf str" "nul_free (take (unat sz) s)" "unat sz \<le> length s"
  shows "\<exists>fits str'. gh_str_appendc str s sz trunc = Some (fits, str') \<and> st_wf str' \<and>
     fits = (length (st_view str) + unat sz \<le> unat (st_capacity str)) \<and>
     st_capacity str' = st_capacity str \<and>
     st_view str' =
       (if fits \<or> trunc then take (unat (st_capacity str)) (st_view str @ take (unat sz) s) else st_view str)"
  using st_appendc_result [OF assms, of trunc] st_view_length [OF assms(1)] by simp

theorem str_append_witness:
  "\<exists>str'. gh_str_appendc (gh_str_fromc ''ab????'' 2 4) ''cde'' 3 True = Some (False, str') \<and> st_view str' = ''abcd''"
proof -
  have "st_wf (gh_str_fromc ''ab????'' 2 4)" by (simp add: st_wf_def gh_str_fromc_def)
  from str_append [OF this, of 3 "''cde''" True] show ?thesis
    by (auto simp: gh_str_fromc_def st_view_def)
qed

text \<open>
  Trimming a character from the right removes as many characters from the end as the character
  occurs in the whole string, not only the run at its end.
\<close>

theorem str_trimrightchar:
  assumes "st_wf str"
  shows "\<exists>str'. gh_str_trimrightchar str c = Some str' \<and>
     st_view str' = take (length (filter (\<lambda>x. x \<noteq> c) (st_view str))) (st_view str)"
  by (rule st_trimrightchar_result [OF assms])

theorem str_trimrightchar_witness:
  "\<exists>str'. gh_str_trimrightchar (gh_str_fromc ''a/b/'' 4 4) (CHR ''/'') = Some str' \<and> st_view str' = ''a/''"
proof -
  have "st_wf (gh_str_fromc ''a/b/'' 4 4)" by (simp add: st_wf_def gh_str_fromc_def)
  from str_trimrightchar [OF this, of "CHR ''/''"] show ?thesis by (simp add: gh_str_fromc_def st_view_def)
qed

text \<open>
  Setting a field of a request whose fields are packed: a key that fits is stored behind the used
  fields, the other parts of the request stay, and the invariant of requests is kept.
\<close>

theorem request_setfield:
  assumes "permrequest_wf req" "id_wf key" "key \<noteq> []" "\<exists>f \<in> set (rq_fields req). rf_key f = []"
  shows "\<exists>i req'. gh_permrequest_setfield req key val = (Some i, req') \<and> permrequest_wf req' \<and>
     rq_group req' = rq_group req \<and> rq_resource req' = rq_resource req \<and> rq_source req' = rq_source req \<and>
     rq_used req' = rq_used req @ [\<lparr>rf_key = key, rf_value = val\<rparr>]"
  by (rule setfield_free [OF assms])

theorem request_setfield_witness:
  "\<exists>i req'. gh_permrequest_setfield permrequest_zero ''key'' (gh_conststr_fromlit ''x'') = (Some i, req') \<and>
     rq_used req' = [\<lparr>rf_key = ''key'', rf_value = gh_conststr_fromlit ''x''\<rparr>]"
proof -
  have "\<exists>f \<in> set (rq_fields permrequest_zero). rf_key f = []" by (simp add: permrequest_zero_def)
  from request_setfield [OF _ _ _ this, of "''key''"] permrequest_zero_wf show ?thesis
    by (fastforce simp: id_wf_def)
qed

text \<open>
  Looking up a field finds the first field whose key begins with the given one, not only the field
  with this key.
\<close>

theorem request_getfield_prefix:
  assumes "permrequest_wf req" "nul_free key"
  shows "gh_permrequest_getfield req key = Some f \<longleftrightarrow>
     (\<exists>i < GH_PERMREQUEST_MAXFIELDS. f = rq_fields req ! i \<and> prefix key (rf_key f) \<and>
        (\<forall>j < i. \<not> prefix key (rf_key (rq_fields req ! j))))"
  by (rule getfield_Some [OF assms])

theorem request_getfield_prefix_witness: "gh_permrequest_getfield permrequest_zero ''key'' = None"
proof -
  have "gh_permrequest_getfield permrequest_zero ''key'' \<noteq> Some f" for f
    using request_getfield_prefix [OF conjunct1 [OF permrequest_zero_wf], of "''key''" f]
    by (auto simp: permrequest_zero_def)
  then show ?thesis by (cases "gh_permrequest_getfield permrequest_zero ''key''") auto
qed

section \<open>Modes, results, allocation\<close>

text \<open>
  The flags of a mode that \<^verbatim>\<open>gh_permfs_nextmodeflag\<close> enumerates are distinct bits that make up the mode,
  and the identifier of each flag of a valid mode reads back as the flag.
\<close>

theorem mode_flags:
  assumes "gh_permfs_ismodevalid m"
  shows "fold (OR) (permfs_flags m) 0 = m \<and>
     (\<forall>f \<in> set (permfs_flags m). \<exists>s. gh_permfs_mode_ident f = Some s \<and> gh_permfs_mode_fromident s = f \<and> f \<noteq> 0)"
  using permfs_flag_ident [OF assms] by (auto simp: permfs_flags_join)

theorem mode_flags_witness: "\<exists>s. gh_permfs_mode_ident 2048 = Some s \<and> gh_permfs_mode_fromident s = 2048"
  using mode_flags [of 2048] ex_flags by (auto simp: gh_permfs_ismodevalid_def)

text \<open>
  Packing an errno into a result loses neither the context nor an errno below the largest storable
  value.
\<close>

theorem result_packing:
  assumes "ctx < 0x10000"
  shows "ghr_frag_context (ghr_errnoval ctx v) = ctx \<and>
     ghr_frag_errno (ghr_errnoval ctx v) = (if v \<ge> 0xFFFF then 0xFFFF else v)"
  using frag_context_errnoval [OF assms] frag_errno_errnoval [OF assms, of v] by (simp add: ghr_normalizeerrno_def)

theorem result_packing_witness: "ghr_frag_errno (ghr_errnoval GHR_PATHFD_STATFAIL 13) = 13"
  using result_packing [of GHR_PATHFD_STATFAIL 13] by simp

text \<open>
  The default allocator keeps the contract of the wrappers: a request that succeeds stores the new
  block, one that fails leaves the pointer, and the result packs the errno of the heap.
\<close>

theorem default_allocator_contract:
  assumes "ptr = None \<longleftrightarrow> old_size = 0" "old_size \<noteq> 0 \<or> new_size \<noteq> 0"
  shows "default_allocator heap blk (Some ptr) old_size new_size =
         (let (res, p) = alloc_func (default_answers heap) blk ptr old_size new_size in Some (res, Some p))"
  by (rule default_allocator_refines [OF assms])

theorem default_allocator_contract_witness:
  "default_allocator (\<lambda>n. if n > 100 then Some 12 else None) (1 :: nat) (Some (Some 7)) 8 200 =
     Some (ghr_errnoval GHR_ALLOC_REALLOCFAIL 12, Some (Some 7))"
  using default_allocator_contract [of "Some 7" 8 200 "\<lambda>n. if n > 100 then Some 12 else None" "1 :: nat"]
  by (simp add: alloc_func_def default_answers_def ghr_simps)

section \<open>The prompter\<close>

text \<open>C34.
  The terminal prompter answers what the user typed: its last reading call on the input delivered two
  bytes, a letter and a newline, and after it only a message was printed. O means to accept, Y to
  accept and remember, N to reject, X to reject and remember; O is not taken when the request says that
  it is for the future.
\<close>

theorem tui_answer:
  assumes "simpletui_prompter fd env req tr = Some (GHR_OK, (resp, tr'))"
  shows "\<exists>c a tr1 shown.
     tr' = print_terminal env shown ((Read fd 2, a) # tr1) \<and> a = env tr1 (Read fd 2) \<and>
     an_ret a = 2 \<and> take 2 (an_data a) = [c, CHR 0x0A] \<and>
     (c \<in> set ''oO'' \<and> resp = Some GH_PERMRESPONSE_ACCEPT \<and>
        \<not> gh_conststr_eqz (case gh_permrequest_getfield req ''hint'' of
            None \<Rightarrow> gh_conststr_fromlit [] | Some f \<Rightarrow> rf_value f) ''future'' \<or>
      c \<in> set ''yY'' \<and> resp = Some GH_PERMRESPONSE_ACCEPTREMEMBER \<or>
      c \<in> set ''nN'' \<and> resp = Some GH_PERMRESPONSE_REJECT \<or>
      c \<in> set ''xX'' \<and> resp = Some GH_PERMRESPONSE_REJECTREMEMBER)"
proof -
  from simpletui_response [OF assms] obtain c tr2 where
    c: "resp = Some (fst (tui_response c))" "tui_valid (gh_conststr_eqz (case gh_permrequest_getfield req ''hint'' of
        None \<Rightarrow> gh_conststr_fromlit [] | Some f \<Rightarrow> rf_value f) ''future'') c (CHR 0x0A)"
    "tui_read env fd c tr2" "tr' = print_terminal env (snd (tui_response c) @ ''\<newline>'') tr2" by blast
  from c(3) obtain a tr1 where "tr2 = (Read fd 2, a) # tr1" "a = env tr1 (Read fd 2)" "an_ret a = 2"
    "take 2 (an_data a) = [c, CHR 0x0A]" by (auto simp: tui_read_def)
  moreover have "c \<in> set ''oO'' \<and> resp = Some GH_PERMRESPONSE_ACCEPT \<and>
        \<not> gh_conststr_eqz (case gh_permrequest_getfield req ''hint'' of
            None \<Rightarrow> gh_conststr_fromlit [] | Some f \<Rightarrow> rf_value f) ''future'' \<or>
      c \<in> set ''yY'' \<and> resp = Some GH_PERMRESPONSE_ACCEPTREMEMBER \<or>
      c \<in> set ''nN'' \<and> resp = Some GH_PERMRESPONSE_REJECT \<or>
      c \<in> set ''xX'' \<and> resp = Some GH_PERMRESPONSE_REJECTREMEMBER"
    using c(1,2) by (auto simp: tui_valid_def tui_response_def)
  ultimately show ?thesis using c(4) by blast
qed

definition ex_tty_env :: env where
  "ex_tty_env tr c = (case c of Read _ _ \<Rightarrow> (plain_answer 2)\<lparr>an_data := [CHR ''y'', CHR 0x0A]\<rparr> | _ \<Rightarrow> plain_answer 0)"

lemma ex_read: "ex_tty_env tr (Read fd n) = (plain_answer 2)\<lparr>an_data := [CHR ''y'', CHR 0x0A]\<rparr>"
  by (simp add: ex_tty_env_def)

lemma ex_read2: "an_ret (ex_tty_env tr (Read fd n)) = 2" "an_data (ex_tty_env tr (Read fd n)) = [CHR ''y'', CHR 0x0A]"
  by (simp_all add: ex_read plain_answer_def)

lemma ex_valid: "tui_valid future_req (CHR ''y'') (CHR 0x0A)" "\<not> tui_valid future_req (CHR '' '') NUL"
  by (simp_all add: tui_valid_def)

lemma ex_tui_loop: "\<exists>tr'. tui_loop ex_tty_env fd future_req True (CHR '' '') NUL tr = Some (GHR_OK, (CHR ''y'', tr'))"
proof -
  have last: "tui_loop ex_tty_env fd future_req False (CHR ''y'') (CHR 0x0A) tr1 = Some (GHR_OK, (CHR ''y'', tr1))" for tr1
    by (subst tui_loop.simps) (simp add: ex_valid)
  show ?thesis
    by (subst tui_loop.simps) (simp add: ex_valid Let_def syscall_pair ex_read2 last)
qed
lemma ex_tui:
  assumes "gh_permrequest_getfield req ''hint'' = None" "gh_permrequest_getfield req ''key'' = None" "gh_permrequest_getfield req ''description'' = None"
  shows "\<exists>tr'. simpletui_prompter 0 ex_tty_env req [] =
    Some (GHR_OK, (Some GH_PERMRESPONSE_ACCEPTREMEMBER, tr'))"
proof -
  have r: "tui_response (CHR ''y'') = (GH_PERMRESPONSE_ACCEPTREMEMBER, ''Request accepted and remembered.\<newline>'')"
    by (simp add: tui_response_def)
  obtain trs where l: "\<And>f tr. tui_loop ex_tty_env 0 f True (CHR '' '') NUL tr = Some (GHR_OK, (CHR ''y'', trs f tr))"
    using ex_tui_loop by metis
  show ?thesis unfolding simpletui_prompter_def assms option.case Let_def prod.case
    unfolding l ghr_iserr_def by (simp add: r)
qed

lemma ex_no_field:
  assumes "nul_free k" "k \<noteq> []"
  shows "gh_permrequest_getfield permrequest_zero k = None"
  using getfield_Some [OF conjunct1 [OF permrequest_zero_wf] assms(1)] assms(2)
  by (cases "gh_permrequest_getfield permrequest_zero k") (auto simp: permrequest_zero_def)

theorem tui_answer_witness:
  "\<exists>a tr1 shown. simpletui_prompter 0 ex_tty_env permrequest_zero [] =
     Some (GHR_OK, (Some GH_PERMRESPONSE_ACCEPTREMEMBER, print_terminal ex_tty_env shown ((Read 0 2, a) # tr1))) \<and>
     take 2 (an_data a) = ''y\<newline>''"
proof -
  obtain tr' where r: "simpletui_prompter 0 ex_tty_env permrequest_zero [] =
      Some (GHR_OK, (Some GH_PERMRESPONSE_ACCEPTREMEMBER, tr'))"
    using ex_tui [OF ex_no_field ex_no_field ex_no_field] by fastforce
  from tui_answer [OF this] obtain a tr1 shown where
    "tr' = print_terminal ex_tty_env shown ((Read 0 2, a) # tr1)" "a = ex_tty_env tr1 (Read 0 2)" by blast
  with r show ?thesis by (intro exI [of _ a] exI [of _ tr1] exI [of _ shown]) (simp add: ex_read2)
qed

text \<open>
  A reference to a field in a description is replaced by the field, and a reference to a field the
  request lacks is an error.
\<close>

theorem description_reference:
  assumes "CHR ''}'' \<notin> set name" "nul_free name" "\<forall>c \<in> set s. c \<noteq> CHR ''$'' \<and> \<not> desc_space c"
  shows "desc_loop req GENERIC_DESC_TEXT frag (s @ ''${'' @ name @ CHR ''}'' # t) out =
     (case desc_field req name of
        None \<Rightarrow> (GHR_PERMPROMPT_MISSINGFIELD, out @ s)
      | Some f \<Rightarrow> desc_loop req GENERIC_DESC_TEXT [] t (out @ s @ f))"
  using desc_text [OF assms(3), of req frag "''${'' @ name @ CHR ''}'' # t" out]
    desc_reference [OF assms(1,2), of req frag t "out @ s"] by (simp split: option.split)

theorem description_reference_witness:
  "desc_loop permrequest_zero GENERIC_DESC_TEXT [] (''for'' @ ''${'' @ ''key'' @ CHR ''}'' # []) [] =
     (GHR_PERMPROMPT_MISSINGFIELD, ''for'')"
proof -
  have "desc_field permrequest_zero ''key'' = None"
    using getfield_Some [OF conjunct1 [OF permrequest_zero_wf], of "''key''"]
    by (cases "gh_permrequest_getfield permrequest_zero ''key''") (auto simp: desc_field_def permrequest_zero_def)
  with description_reference [of "''key''" "''for''" permrequest_zero "[]" "[]" "[]"] show ?thesis
    by (simp add: desc_space_def)
qed

end
